(* ===== verification/Prelude.thy ===== *)
theory Prelude
  imports Main "HOL-Library.Word" "HOL-Library.Multiset"
begin

text \<open>
  Shared vocabulary of the development: the machine integer types the C code uses, the
  return codes of vpn.h, reads from NUL-terminated C buffers, and the lemma collections
  the component theories extend.
\<close>

named_theorems c_consts "values of the C macros and enumerators"
named_theorems step_simps "unfolding rules for the handlers of one component"

type_synonym byte = "8 word"
type_synonym u16 = "16 word"
type_synonym u32 = "32 word"
type_synonym u64 = "64 word"

section \<open>Return codes of vpn.h\<close>

definition ERR_BAD_COMMAND :: int where "ERR_BAD_COMMAND = -2"
definition ERR_AUTH_FAIL :: int where "ERR_AUTH_FAIL = -3"
definition ERR_AUTH_CONTINUE :: int where "ERR_AUTH_CONTINUE = -4"
definition ERR_WAIT_FOR_SCRIPT :: int where "ERR_WAIT_FOR_SCRIPT = -5"
definition ERR_MEM :: int where "ERR_MEM = -6"
definition ERR_READ_CONFIG :: int where "ERR_READ_CONFIG = -7"
definition ERR_NO_IP :: int where "ERR_NO_IP = -8"
definition ERR_PARSING :: int where "ERR_PARSING = -9"
definition ERR_EXEC :: int where "ERR_EXEC = -10"
definition ERR_PEER_TERMINATED :: int where "ERR_PEER_TERMINATED = -11"
definition ERR_CTL :: int where "ERR_CTL = -12"
definition ERR_NO_CMD_FD :: int where "ERR_NO_CMD_FD = -13"

lemmas err_codes =
  ERR_BAD_COMMAND_def ERR_AUTH_FAIL_def ERR_AUTH_CONTINUE_def ERR_WAIT_FOR_SCRIPT_def
  ERR_MEM_def ERR_READ_CONFIG_def ERR_NO_IP_def ERR_PARSING_def ERR_EXEC_def
  ERR_PEER_TERMINATED_def ERR_CTL_def ERR_NO_CMD_FD_def

declare err_codes [c_consts]

section \<open>C strings and buffers\<close>

abbreviation NUL :: char where "NUL \<equiv> CHR 0x00"

text \<open>
  A C buffer is the list of the bytes before its terminator; a read at or past the end of
  the list sees the terminating NUL.
\<close>

definition char_at :: "string \<Rightarrow> nat \<Rightarrow> char" where
  "char_at s i = (if i < length s then s ! i else NUL)"

lemma char_at_append_right [simp]: "char_at (pre @ s) (length pre) = char_at s 0"
  by (auto simp: char_at_def nth_append)

lemma char_at_Cons_0 [simp]: "char_at (c # s) 0 = c"
  by (simp add: char_at_def)

lemma char_at_Nil [simp]: "char_at [] i = NUL"
  by (simp add: char_at_def)

text \<open>The C string a buffer holds: what strlen and the string functions see of it.\<close>

definition c_string :: "string \<Rightarrow> string" where
  "c_string buf = takeWhile (\<lambda>c. c \<noteq> NUL) buf"

lemma c_string_no_nul [simp]: "NUL \<notin> set (c_string buf)"
  by (auto simp: c_string_def dest: set_takeWhileD)

lemma c_string_id: "NUL \<notin> set s \<Longrightarrow> c_string s = s"
  by (simp add: c_string_def takeWhile_eq_all_conv) metis

lemma c_string_append_nul: "NUL \<notin> set s \<Longrightarrow> c_string (s @ NUL # rest) = s"
  by (simp add: c_string_def takeWhile_append2 [of s] subset_code(1)) (induction s; auto)

text \<open>strlcpy into a field of \<open>siz\<close> bytes, as the string the field then holds.\<close>

definition strlcpy_str :: "nat \<Rightarrow> string \<Rightarrow> string" where
  "strlcpy_str siz s = take (siz - 1) s"

lemma strlcpy_str_fits: "length s < siz \<Longrightarrow> strlcpy_str siz s = s"
  by (simp add: strlcpy_str_def)

lemma strlcpy_str_bound: "0 < siz \<Longrightarrow> length (strlcpy_str siz s) < siz"
  by (simp add: strlcpy_str_def)

lemma strlcpy_str_idem [simp]: "strlcpy_str n (strlcpy_str n s) = strlcpy_str n s"
  by (simp add: strlcpy_str_def)

section \<open>Generic lemmas\<close>

lemma drop_nth_char_at: "i < length s \<Longrightarrow> drop i s = char_at s i # drop (Suc i) s"
  by (simp add: char_at_def Cons_nth_drop_Suc)

lemma find_Some_iff_ex: "find P xs = Some x \<Longrightarrow> x \<in> set xs \<and> P x"
  by (induction xs) (auto split: if_splits)

lemma find_None_all: "find P xs = None \<longleftrightarrow> (\<forall>x \<in> set xs. \<not> P x)"
  by (induction xs) auto

lemma find_append:
  "List.find P (xs @ ys) = (case List.find P xs of None \<Rightarrow> List.find P ys | Some x \<Rightarrow> Some x)"
  by (induction xs) auto

section \<open>Counters\<close>

lemma unat_plus_1: "(a :: 'a::len word) < b \<Longrightarrow> unat (a + 1) = unat a + 1"
proof -
  assume "a < b"
  then have "unat a < unat b" by (simp add: word_less_nat_alt)
  moreover have "unat b < 2 ^ LENGTH('a)" by (rule unsigned_less)
  ultimately have "unat a + 1 < 2 ^ LENGTH('a)" by linarith
  then show ?thesis
    by (cases "LENGTH('a) = 1") (simp_all add: unat_word_ariths(1))
qed

lemma unat_minus_of_nat: "k \<le> unat (a :: 'a::len word) \<Longrightarrow> unat (a - of_nat k) = unat a - k"
proof -
  assume k: "k \<le> unat a"
  then have "k < 2 ^ LENGTH('a)" using unsigned_less [of a] by (rule le_less_trans)
  then have "unat (of_nat k :: 'a word) = k" by (simp add: unat_of_nat take_bit_nat_eq_self)
  then show ?thesis using k by (simp add: unat_sub word_le_nat_alt)
qed

lemma unat_minus_1: "a \<noteq> 0 \<Longrightarrow> unat ((a :: 'a::len word) - 1) = unat a - 1"
  using unat_minus_of_nat [of 1 a] by (simp add: unat_gt_0 Suc_leI)

end
