(* ===== verification/Html.thy ===== *)
theory Html
  imports Prelude
begin

text \<open>
  The form decoders of src/html.c: unescape_html, unescape_url and escape_url. The loops
  keep the C indices: \<open>i\<close> reads the input, the list \<open>msg\<close> is the output written so far
  (its length is the C variable pos). talloc_size is the boolean argument \<open>mem\<close>.
\<close>

section \<open>Library functions used: c_strncasecmp against a literal, sscanf of two hex digits\<close>

definition ascii_lower :: "char \<Rightarrow> char" where
  "ascii_lower c = (let n = (of_char c :: nat) in
     if 65 \<le> n \<and> n \<le> 90 then char_of (n + 32) else c)"

text \<open>The first \<open>length lit\<close> bytes of \<open>s\<close> equal the lower case literal \<open>lit\<close>; the NUL
  that ends a shorter \<open>s\<close> differs from every byte of the literal.\<close>

fun casecmp_prefix :: "string \<Rightarrow> string \<Rightarrow> bool" where
  "casecmp_prefix s [] = True"
| "casecmp_prefix [] (l # lit) = False"
| "casecmp_prefix (c # s) (l # lit) = (ascii_lower c = l \<and> casecmp_prefix s lit)"

definition is_space :: "char \<Rightarrow> bool" where
  "is_space c = (c = CHR '' '' \<or> (9 \<le> (of_char c :: nat) \<and> (of_char c :: nat) \<le> 13))"

definition hexval :: "char \<Rightarrow> nat option" where
  "hexval c = (let n = (of_char c :: nat) in
     if 48 \<le> n \<and> n \<le> 57 then Some (n - 48)
     else if 97 \<le> n \<and> n \<le> 102 then Some (n - 87)
     else if 65 \<le> n \<and> n \<le> 70 then Some (n - 55)
     else None)"

definition hexdigit :: "nat \<Rightarrow> char" where
  "hexdigit n = (if n < 10 then char_of (n + 48) else char_of (n + 87))"

text \<open>
  sscanf(b, "%02x", &u) on the two bytes \<open>b0 b1\<close> and a NUL: white space is skipped, then
  at most two bytes of an optional sign, an optional \<open>0x\<close> and hex digits are read. None is
  a result that is not positive (a matching failure or the end of the input).
\<close>

fun scan_digits :: "string \<Rightarrow> nat \<Rightarrow> nat" where
  "scan_digits [] acc = acc"
| "scan_digits (c # s) acc =
     (case hexval c of None \<Rightarrow> acc | Some d \<Rightarrow> scan_digits s (16 * acc + d))"

fun scan_unsigned :: "string \<Rightarrow> nat option" where
  "scan_unsigned [] = None"
| "scan_unsigned (c # s) =
     (if c = CHR ''0'' \<and> s \<noteq> [] \<and> ascii_lower (hd s) = CHR ''x'' then None
      else if hexval c = None then None else Some (scan_digits (c # s) 0))"

fun scan_signed :: "string \<Rightarrow> u32 option" where
  "scan_signed [] = None"
| "scan_signed (c # s) =
     (if c = CHR ''-'' then map_option (\<lambda>n. - word_of_nat n) (scan_unsigned s)
      else if c = CHR ''+'' then map_option word_of_nat (scan_unsigned s)
      else map_option word_of_nat (scan_unsigned (c # s)))"

definition sscanf_02x :: "char \<Rightarrow> char \<Rightarrow> u32 option" where
  "sscanf_02x b0 b1 = scan_signed (dropWhile is_space (c_string [b0, b1]))"

section \<open>unescape_html\<close>

function unescape_html_loop :: "string \<Rightarrow> nat \<Rightarrow> nat \<Rightarrow> string \<Rightarrow> string" where
  "unescape_html_loop html len i msg =
     (if i < len then
        if char_at html i = CHR ''&'' then
          if casecmp_prefix (drop i html) ''&lt;'' then
            unescape_html_loop html len (i + 4) (msg @ ''<'')
          else if casecmp_prefix (drop i html) ''&gt;'' then
            unescape_html_loop html len (i + 4) (msg @ ''>'')
          else if casecmp_prefix (drop i html) ''&nbsp;'' then
            unescape_html_loop html len (i + 6) (msg @ '' '')
          else if casecmp_prefix (drop i html) ''&quot;'' then
            unescape_html_loop html len (i + 6) (msg @ [CHR 0x22])
          else if casecmp_prefix (drop i html) ''&amp;'' then
            unescape_html_loop html len (i + 5) (msg @ ''&'')
          else if casecmp_prefix (drop i html) ''&apos;'' then
            unescape_html_loop html len (i + 6) (msg @ [CHR 0x27])
          else unescape_html_loop html len (i + 1) (msg @ [char_at html i])
        else unescape_html_loop html len (i + 1) (msg @ [char_at html i])
      else msg)"
  by pat_completeness auto
termination
  by (relation "measure (\<lambda>(html, len, i, msg). len - i)") auto

declare unescape_html_loop.simps [simp del]

text \<open>The result is the buffer up to its NUL and *out_len; None is the NULL return.\<close>

definition unescape_html :: "bool \<Rightarrow> string \<Rightarrow> nat \<Rightarrow> (string \<times> nat) option" where
  "unescape_html mem html len =
     (if \<not> mem then None
      else let msg = unescape_html_loop html len 0 [] in Some (msg, length msg))"

section \<open>unescape_url\<close>

function unescape_url_loop :: "string \<Rightarrow> nat \<Rightarrow> nat \<Rightarrow> string \<Rightarrow> string option" where
  "unescape_url_loop url len i msg =
     (if i < len then
        if char_at url i = CHR ''%'' then
          (case sscanf_02x (char_at url (i + 1)) (char_at url (i + 2)) of
             None \<Rightarrow> None
           | Some u \<Rightarrow> unescape_url_loop url len (i + 3) (msg @ [char_of (unat u)]))
        else unescape_url_loop url len (i + 1) (msg @ [char_at url i])
      else Some msg)"
  by pat_completeness auto
termination
  by (relation "measure (\<lambda>(url, len, i, msg). len - i)") auto

declare unescape_url_loop.simps [simp del]

definition unescape_url :: "bool \<Rightarrow> string \<Rightarrow> nat \<Rightarrow> (string \<times> nat) option" where
  "unescape_url mem url len =
     (if \<not> mem then None
      else case unescape_url_loop url len 0 [] of
             None \<Rightarrow> None
           | Some msg \<Rightarrow> Some (msg, length msg))"

section \<open>escape_url\<close>

definition is_alpha :: "char \<Rightarrow> bool" where
  "is_alpha c = (let n = (of_char c :: nat) in
     (65 \<le> n \<and> n \<le> 90) \<or> (97 \<le> n \<and> n \<le> 122))"

text \<open>
  snprintf(&msg[pos], 3, "%%%02x", (unsigned)url[i]) formats a percent sign and the hex
  digits of the sign-extended byte, but its size argument lets only two bytes and the NUL
  through; the loop then advances by three bytes.
\<close>

definition high_hexdigit :: "char \<Rightarrow> char" where
  "high_hexdigit c = hexdigit (if 128 \<le> (of_char c :: nat) then 15 else of_char c div 16)"

definition snprintf_hex3 :: "char \<Rightarrow> string" where
  "snprintf_hex3 c = [CHR ''%'', high_hexdigit c, NUL]"

fun escape_url_loop :: "string \<Rightarrow> string \<Rightarrow> string" where
  "escape_url_loop [] msg = msg"
| "escape_url_loop (c # url) msg =
     (if is_alpha c then escape_url_loop url (msg @ [c])
      else escape_url_loop url (msg @ snprintf_hex3 c))"

text \<open>The buffer written before its final NUL, and *out_len.\<close>

definition escape_url :: "bool \<Rightarrow> string \<Rightarrow> nat \<Rightarrow> (string \<times> nat) option" where
  "escape_url mem url len =
     (if \<not> mem then None
      else let msg = escape_url_loop (map (char_at url) [0..<len]) [] in Some (msg, length msg))"

section \<open>Bounds: the output fits the talloc'd buffer\<close>

lemma unescape_html_loop_length:
  "length (unescape_html_loop html len i msg) \<le> length msg + (len - i)"
proof (induction html len i msg rule: unescape_html_loop.induct)
  case (1 html len i msg)
  have if_le: "length (if c then a else b) \<le> n"
    if "c \<Longrightarrow> length a \<le> n" and "\<not> c \<Longrightarrow> length b \<le> n" for c :: bool and a b :: string and n
    using that by simp
  have step: "length (unescape_html_loop html len (i + k) (msg @ [c])) \<le> length msg + (len - i)"
    if "length (unescape_html_loop html len (i + k) (msg @ [c]))
        \<le> length (msg @ [c]) + (len - (i + k))" and "i < len" and "0 < k" for k c
    using that by auto
  show ?case
    by (subst unescape_html_loop.simps)
      (intro if_le; (rule step, (rule "1.IH"; assumption))?; simp)
qed

lemma unescape_url_loop_length:
  "unescape_url_loop url len i msg = Some out \<Longrightarrow> length out \<le> length msg + (len - i)"
proof (induction url len i msg rule: unescape_url_loop.induct)
  case (1 url len i msg)
  show ?case
    using "1.prems" unfolding unescape_url_loop.simps [of url len i msg]
    using "1.IH"(1) "1.IH"(2) by (fastforce split: if_splits option.splits)
qed

lemma escape_url_loop_append:
  "escape_url_loop s msg = msg @ escape_url_loop s []"
proof (induction s arbitrary: msg)
  case (Cons c s)
  show ?case
    using Cons.IH [of "msg @ [c]"] Cons.IH [of "[c]"]
      Cons.IH [of "msg @ snprintf_hex3 c"] Cons.IH [of "snprintf_hex3 c"] by simp
qed simp

section \<open>Reference encoders and round trips\<close>

fun html_encode :: "string \<Rightarrow> string" where
  "html_encode [] = []"
| "html_encode (c # s) =
     (if c = CHR ''<'' then ''&lt;''
      else if c = CHR ''>'' then ''&gt;''
      else if c = CHR 0x22 then ''&quot;''
      else if c = CHR ''&'' then ''&amp;''
      else if c = CHR 0x27 then ''&apos;''
      else [c]) @ html_encode s"

definition percent_byte :: "char \<Rightarrow> string" where
  "percent_byte c = [CHR ''%'', hexdigit (of_char c div 16), hexdigit (of_char c mod 16)]"

fun percent_encode :: "(char \<Rightarrow> bool) \<Rightarrow> string \<Rightarrow> string" where
  "percent_encode safe [] = []"
| "percent_encode safe (c # s) =
     (if safe c \<and> c \<noteq> CHR ''%'' then [c] else percent_byte c) @ percent_encode safe s"

lemma char_at_append_1 [simp]: "char_at (pre @ a # s) (Suc (length pre)) = char_at s 0"
  using char_at_append_right [of "pre @ [a]" s] by simp

lemma char_at_append_2 [simp]: "char_at (pre @ a # b # s) (Suc (Suc (length pre))) = char_at s 0"
  using char_at_append_right [of "pre @ [a, b]" s] by simp

lemma unescape_html_loop_encode:
  "unescape_html_loop (pre @ html_encode s @ rest) (length pre + length (html_encode s))
     (length pre) msg = msg @ s"
proof (induction s arbitrary: pre msg)
  case Nil
  then show ?case by (simp add: unescape_html_loop.simps)
next
  case (Cons c s)
  have step: "unescape_html_loop (pre @ e @ html_encode s @ rest)
      (length pre + length (e @ html_encode s)) (length pre + k) (msg @ [c]) = msg @ c # s"
    if "k = length e" for e k
    using Cons.IH [of "pre @ e" "msg @ [c]"] that by (simp add: add.assoc)
  show ?case
    using step [of 4 "''&lt;''"] step [of 4 "''&gt;''"] step [of 6 "''&quot;''"]
      step [of 5 "''&amp;''"] step [of 6 "''&apos;''"] step [of 1 "[c]"]
    by (subst unescape_html_loop.simps) (auto simp: ascii_lower_def)
qed

lemma hexval_hexdigit [simp]: "n < 16 \<Longrightarrow> hexval (hexdigit n) = Some n"
  by (auto simp: hexval_def hexdigit_def Let_def of_char_of)

lemma hexdigit_class_upto:
  "list_all (\<lambda>n. hexdigit n \<noteq> NUL \<and> \<not> is_space (hexdigit n) \<and> hexdigit n \<noteq> CHR ''-''
     \<and> hexdigit n \<noteq> CHR ''+'' \<and> ascii_lower (hexdigit n) \<noteq> CHR ''x'') [0..<16]"
  by code_simp

lemma hexdigit_class:
  assumes "n < 16"
  shows "hexdigit n \<noteq> NUL" "\<not> is_space (hexdigit n)" "hexdigit n \<noteq> CHR ''-''"
    "hexdigit n \<noteq> CHR ''+''" "ascii_lower (hexdigit n) \<noteq> CHR ''x''"
  using hexdigit_class_upto assms by (auto simp: list_all_iff)

lemma sscanf_02x_digits:
  assumes "h < 16" and "l < 16"
  shows "sscanf_02x (hexdigit h) (hexdigit l) = Some (word_of_nat (16 * h + l))"
  using assms hexdigit_class [of h] hexdigit_class [of l]
  by (simp add: sscanf_02x_def c_string_def)

lemma of_char_less_256 [simp]: "(of_char c :: nat) < 256"
  by (cases c) (simp add: of_char_def)

lemma unescape_url_loop_encode:
  "unescape_url_loop (pre @ percent_encode safe s @ rest)
     (length pre + length (percent_encode safe s)) (length pre) msg = Some (msg @ s)"
proof (induction s arbitrary: pre msg)
  case Nil
  then show ?case by (simp add: unescape_url_loop.simps)
next
  case (Cons c s)
  have step: "unescape_url_loop (pre @ e @ percent_encode safe s @ rest)
      (length pre + length (e @ percent_encode safe s)) (length pre + k) (msg @ [c])
      = Some (msg @ c # s)" if "k = length e" for e k
    using Cons.IH [of "pre @ e" "msg @ [c]"] that by (simp add: add.assoc)
  have scan: "sscanf_02x (hexdigit (of_char c div 16)) (hexdigit (of_char c mod 16))
      = Some (word_of_nat (of_char c))"
    using sscanf_02x_digits [of "of_char c div 16" "of_char c mod 16"] of_char_less_256 [of c]
    by (simp add: less_mult_imp_div_less)
  have byte: "char_of (unat (word_of_nat (of_char c) :: u32)) = c"
    using less_trans [OF of_char_less_256 [of c], of "2 ^ 32"]
    by (simp add: unat_of_nat take_bit_eq_mod)
  show ?case
    using step [of 3 "percent_byte c"] step [of 1 "[c]"] byte
    by (subst unescape_url_loop.simps) (auto simp: percent_byte_def scan)
qed

lemma map_char_at [simp]: "map (char_at s) [0..<length s] = s"
  by (rule nth_equalityI) (auto simp: char_at_def)

lemma is_alpha_no_nul: "list_all is_alpha p \<Longrightarrow> NUL \<notin> set p"
  by (auto simp: list_all_iff is_alpha_def Let_def)

lemma escape_url_loop_alpha:
  "list_all is_alpha p \<Longrightarrow> escape_url_loop (p @ s) [] = p @ escape_url_loop s []"
proof (induction p)
  case (Cons c p)
  then show ?case using escape_url_loop_append [of "p @ s" "[c]"] by simp
qed simp

lemma high_hexdigit_no_nul: "high_hexdigit c \<noteq> NUL"
  by (simp add: high_hexdigit_def hexdigit_class(1) less_mult_imp_div_less)

lemma c_string_snprintf_hex3:
  assumes "NUL \<notin> set p"
  shows "c_string (p @ snprintf_hex3 c @ rest) = p @ [CHR ''%'', high_hexdigit c]"
  using assms high_hexdigit_no_nul [of c]
    c_string_append_nul [of "p @ [CHR ''%'', high_hexdigit c]" rest]
  by (simp add: snprintf_hex3_def)

section \<open>Properties\<close>

text \<open>
  unescape_html never writes outside the len + 1 bytes it allocates, whatever the
  input, and it fails only when the allocation does.
\<close>

theorem unescape_html_bounds:
  "case unescape_html mem html len of
     None \<Rightarrow> \<not> mem
   | Some (msg, n) \<Rightarrow> n = length msg \<and> length msg \<le> len"
  using unescape_html_loop_length [of html len 0 "[]"]
  by (simp add: unescape_html_def Let_def)

text \<open>
  unescape_html inverts the entity encoding of a form value inside a request body: for
  every string, the encoded text decodes to exactly that string, whatever bytes follow it.
\<close>

theorem unescape_html_roundtrip:
  "unescape_html True (html_encode s @ rest) (length (html_encode s)) = Some (s, length s)"
  using unescape_html_loop_encode [of "[]" s rest "[]"]
  by (simp add: unescape_html_def)

text \<open>
  unescape_url inverts percent-encoding, whichever bytes the sender chose to leave
  unencoded and whatever follows the value, and its output never exceeds the buffer.
\<close>

theorem unescape_url_roundtrip:
  "unescape_url True (percent_encode safe s @ rest) (length (percent_encode safe s))
   = Some (s, length s)
   \<and> length s \<le> length (percent_encode safe s)"
proof -
  have loop: "unescape_url_loop (percent_encode safe s @ rest)
      (length (percent_encode safe s)) 0 [] = Some s"
    using unescape_url_loop_encode [of "[]" safe s rest "[]"] by simp
  show ?thesis
    using loop unescape_url_loop_length [OF loop] by (simp add: unescape_url_def)
qed

text \<open>
  escape_url loses data: at the first byte that is not a letter the C string it
  returns ends after a percent sign and one hex digit, since snprintf is given room for
  two bytes only. What follows that byte, and its low nibble, never reach the caller.
\<close>

theorem escape_url_truncates:
  assumes "list_all is_alpha p" and "\<not> is_alpha c"
  shows "map_option (\<lambda>(out, n). c_string out) (escape_url True (p @ c # s) (length (p @ c # s)))
    = Some (p @ [CHR ''%'', high_hexdigit c])"
proof -
  have "escape_url_loop (p @ c # s) [] = p @ snprintf_hex3 c @ escape_url_loop s []"
    using assms escape_url_loop_alpha escape_url_loop_append [of s "snprintf_hex3 c"] by simp
  then show ?thesis
    using c_string_snprintf_hex3 [OF is_alpha_no_nul [OF assms(1)]] map_char_at [of "p @ c # s"]
    by (simp add: escape_url_def)
qed

theorem escape_url_truncates_witness:
  "map_option (\<lambda>(out, n). c_string out) (escape_url True ''ab c'' 4) = Some ''ab%2''"
proof -
  have "list_all is_alpha ''ab''" and "\<not> is_alpha (CHR '' '')" and
    "high_hexdigit (CHR '' '') = CHR ''2''"
    by code_simp+
  then show ?thesis
    using escape_url_truncates [of "''ab''" "CHR '' ''" "''c''"] by (simp add: numeral_eq_Suc)
qed

end
