(* ===== verification/Bandwidth.thy ===== *)
theory Bandwidth
  imports Prelude
begin

text \<open>
  The per-client bandwidth limiter of src/worker-bandwidth.c and worker-bandwidth.h, with
  size_t as a 64-bit word, and the millisecond difference of src/gettime.h as the 32-bit
  unsigned value the C function returns.
\<close>

record timespec =
  tv_sec :: int
  tv_nsec :: int

record bandwidth_st =
  count_start :: timespec
  transferred_bytes :: u64
  allowed_kb :: u64
  allowed_kb_per_count :: u64
  kb_per_sec :: u64

definition COUNT_UPDATE_MS :: nat where "COUNT_UPDATE_MS = 500"

definition timespec_sub_ms :: "timespec \<Rightarrow> timespec \<Rightarrow> u32" where
  "timespec_sub_ms a b =
     word_of_int ((tv_sec a * 1000 + tv_nsec a div (1000 * 1000))
       - (tv_sec b * 1000 + tv_nsec b div (1000 * 1000)))"

definition bandwidth_init :: "u64 \<Rightarrow> bandwidth_st" where
  "bandwidth_init kbps =
     \<lparr>count_start = \<lparr>tv_sec = 0, tv_nsec = 0\<rparr>, transferred_bytes = 0, allowed_kb = 0,
      allowed_kb_per_count = (kbps * word_of_nat COUNT_UPDATE_MS) div 1000,
      kb_per_sec = kbps\<rparr>"

text \<open>The rate at which the last window was used, in kilobytes per COUNT_UPDATE_MS.\<close>

definition window_kb :: "bandwidth_st \<Rightarrow> u32 \<Rightarrow> u64" where
  "window_kb b diff =
     ((transferred_bytes b div 1000) * word_of_nat COUNT_UPDATE_MS) div ucast diff"

text \<open>
  ssize_t \<open>remain\<close> and \<open>t\<close> are computed modulo 2^64; MIN compares \<open>t\<close> with the size_t
  kb_per_sec, so the comparison is unsigned.
\<close>

definition bandwidth_update' :: "bandwidth_st \<Rightarrow> u64 \<Rightarrow> timespec \<Rightarrow> bool \<times> bandwidth_st" where
  "bandwidth_update' b bytes now =
     (let diff = timespec_sub_ms now (count_start b) in
      if COUNT_UPDATE_MS \<le> unat diff then
        let remain = allowed_kb b - window_kb b diff;
            t = allowed_kb_per_count b + remain
        in (True, b\<lparr>count_start := now, allowed_kb := min t (kb_per_sec b),
                    transferred_bytes := bytes\<rparr>)
      else
        let sum = transferred_bytes b + bytes in
        if allowed_kb b * 1000 < sum then (False, b)
        else (True, b\<lparr>transferred_bytes := sum\<rparr>))"

definition bandwidth_update :: "bandwidth_st \<Rightarrow> u64 \<Rightarrow> timespec \<Rightarrow> bool \<times> bandwidth_st" where
  "bandwidth_update b bytes now =
     (if kb_per_sec b = 0 then (True, b) else bandwidth_update' b bytes now)"

text \<open>A worker's run: one call per packet; the packets it was allowed to pass on.\<close>

fun bandwidth_run :: "bandwidth_st \<Rightarrow> (u64 \<times> timespec) list \<Rightarrow> bandwidth_st \<times> u64 list" where
  "bandwidth_run b [] = (b, [])"
| "bandwidth_run b ((bytes, now) # ps) =
     (let (ok, b') = bandwidth_update b bytes now; (b'', sent) = bandwidth_run b' ps
      in (b'', if ok then bytes # sent else sent))"

section \<open>Invariant\<close>

definition bandwidth_ok :: "bandwidth_st \<Rightarrow> bool" where
  "bandwidth_ok b \<longleftrightarrow> allowed_kb b \<le> kb_per_sec b"

lemma bandwidth_update_config:
  "kb_per_sec (snd (bandwidth_update b bytes now)) = kb_per_sec b"
  "allowed_kb_per_count (snd (bandwidth_update b bytes now)) = allowed_kb_per_count b"
  by (auto simp: bandwidth_update_def bandwidth_update'_def Let_def)

lemma bandwidth_update_ok: "bandwidth_ok b \<Longrightarrow> bandwidth_ok (snd (bandwidth_update b bytes now))"
  by (auto simp: bandwidth_ok_def bandwidth_update_def bandwidth_update'_def Let_def)

lemma bandwidth_run_ok: "bandwidth_ok b \<Longrightarrow> bandwidth_ok (fst (bandwidth_run b ps))"
proof (induction ps arbitrary: b)
  case (Cons p ps)
  obtain bytes now where p: "p = (bytes, now)" by (cases p)
  have "bandwidth_ok (snd (bandwidth_update b bytes now))"
    using Cons.prems by (rule bandwidth_update_ok)
  from Cons.IH [OF this] show ?case by (simp add: p case_prod_unfold Let_def)
qed simp

section \<open>One window\<close>

definition same_window :: "bandwidth_st \<Rightarrow> timespec \<Rightarrow> bool" where
  "same_window b now \<longleftrightarrow> unat (timespec_sub_ms now (count_start b)) < COUNT_UPDATE_MS"

lemma same_window_update:
  assumes "same_window b now" and "kb_per_sec b \<noteq> 0"
  shows "bandwidth_update b bytes now =
    (if allowed_kb b * 1000 < transferred_bytes b + bytes then (False, b)
     else (True, b\<lparr>transferred_bytes := transferred_bytes b + bytes\<rparr>))"
  using assms by (simp add: bandwidth_update_def bandwidth_update'_def same_window_def Let_def)

lemma unat_add_small:
  "unat (a :: u64) < 2 ^ 63 \<Longrightarrow> unat b < 2 ^ 63 \<Longrightarrow> unat (a + b) = unat a + unat b"
  by (simp add: unat_add_lem [THEN iffD1])

lemma window_run_sent:
  assumes "\<forall>(bytes, now) \<in> set ps. same_window b now \<and> unat bytes < 2 ^ 63"
    and "kb_per_sec b \<noteq> 0"
    and "unat (allowed_kb b * 1000) < 2 ^ 63" and "transferred_bytes b \<le> allowed_kb b * 1000"
  shows "unat (transferred_bytes b) + sum_list (map unat (snd (bandwidth_run b ps)))
    \<le> unat (allowed_kb b * 1000)"
  using assms
proof (induction ps arbitrary: b)
  case Nil
  then show ?case by (simp add: word_le_nat_alt)
next
  case (Cons p ps)
  obtain bytes now where p: "p = (bytes, now)" by (cases p)
  have small: "unat (transferred_bytes b + bytes) = unat (transferred_bytes b) + unat bytes"
    using Cons.prems by (intro unat_add_small) (auto simp: p word_le_nat_alt)
  let ?b = "b\<lparr>transferred_bytes := transferred_bytes b + bytes\<rparr>"
  have upd: "bandwidth_update b bytes now =
      (if allowed_kb b * 1000 < transferred_bytes b + bytes then (False, b) else (True, ?b))"
    using Cons.prems by (simp add: p same_window_update)
  show ?case
  proof (cases "allowed_kb b * 1000 < transferred_bytes b + bytes")
    case True
    then show ?thesis
      using upd Cons.IH [of b] Cons.prems by (simp add: p case_prod_unfold Let_def)
  next
    case False
    have "unat (transferred_bytes ?b) + sum_list (map unat (snd (bandwidth_run ?b ps)))
        \<le> unat (allowed_kb ?b * 1000)"
      using False Cons.prems by (intro Cons.IH) (auto simp: p same_window_def)
    then show ?thesis
      using False upd small by (simp add: p case_prod_unfold Let_def)
  qed
qed

section \<open>Refill at the end of a window\<close>

lemma unat_refill:
  assumes "unat (window_kb b diff) \<le> unat (allowed_kb_per_count b) + unat (allowed_kb b)"
    and "unat (allowed_kb_per_count b) + unat (allowed_kb b) < 2 ^ 64"
  shows "unat (allowed_kb_per_count b + (allowed_kb b - window_kb b diff))
    = unat (allowed_kb_per_count b) + unat (allowed_kb b) - unat (window_kb b diff)"
proof -
  have sum: "unat (allowed_kb_per_count b + allowed_kb b)
      = unat (allowed_kb_per_count b) + unat (allowed_kb b)"
    using assms(2) by (simp add: unat_add_lem [THEN iffD1])
  have "allowed_kb_per_count b + (allowed_kb b - window_kb b diff)
      = (allowed_kb_per_count b + allowed_kb b) - window_kb b diff"
    by simp
  moreover have "window_kb b diff \<le> allowed_kb_per_count b + allowed_kb b"
    using assms(1) sum by (simp add: word_le_nat_alt)
  ultimately show ?thesis using sum by (simp only: unat_sub)
qed

lemma unat_debt:
  assumes "unat (allowed_kb_per_count b) + unat (allowed_kb b) < unat (window_kb b diff)"
    and "unat (window_kb b diff) < 2 ^ 63"
  shows "2 ^ 63 < unat (allowed_kb_per_count b + (allowed_kb b - window_kb b diff))"
proof -
  let ?s = "allowed_kb_per_count b + allowed_kb b"
  have sum: "unat ?s = unat (allowed_kb_per_count b) + unat (allowed_kb b)"
    using assms by (simp add: unat_add_lem [THEN iffD1])
  have eq: "allowed_kb_per_count b + (allowed_kb b - window_kb b diff) = ?s - window_kb b diff"
    by simp
  have lt: "?s < window_kb b diff"
    using assms(1) sum by (simp add: word_less_nat_alt)
  have "unat (?s - window_kb b diff) = 2 ^ 64 + unat ?s - unat (window_kb b diff)"
    using lt by (simp add: unat_sub_if_size word_less_nat_alt word_size)
  then show ?thesis unfolding eq using assms sum by simp
qed

lemma min_unat: "unat (min a b) = min (unat a) (unat b)" for a b :: "'a::len word"
  by (simp add: min_def word_le_nat_alt)

section \<open>Properties\<close>

text \<open>
  Over any sequence of packets inside one 500 ms window the limiter lets through at
  most the window's allowance: what was already sent plus everything it admits stays
  within allowed_kb kilobytes, for every interleaving of admitted and refused packets.
\<close>

theorem bandwidth_window_cap:
  assumes "\<forall>(bytes, now) \<in> set ps. same_window b now \<and> unat bytes < 2 ^ 63"
    and "kb_per_sec b \<noteq> 0"
    and "unat (allowed_kb b * 1000) < 2 ^ 63" and "transferred_bytes b \<le> allowed_kb b * 1000"
  shows "unat (transferred_bytes b) + sum_list (map unat (snd (bandwidth_run b ps)))
    \<le> unat (allowed_kb b * 1000)"
  using assms by (rule window_run_sent)

theorem bandwidth_window_cap_witness:
  "let b = (bandwidth_init 10)\<lparr>allowed_kb := 4\<rparr>; t = \<lparr>tv_sec = 0, tv_nsec = 400000000\<rparr> in
   snd (bandwidth_run b [(1500, t), (1500, t), (1500, t), (900, t)]) = [1500, 1500, 900]
   \<and> unat (transferred_bytes b)
       + sum_list (map unat (snd (bandwidth_run b [(1500, t), (1500, t), (1500, t), (900, t)])))
     \<le> unat (allowed_kb b * 1000)"
proof -
  let ?b = "(bandwidth_init 10)\<lparr>allowed_kb := 4\<rparr>" and ?t = "\<lparr>tv_sec = 0, tv_nsec = 400000000\<rparr>"
  have run: "snd (bandwidth_run ?b [(1500, ?t), (1500, ?t), (1500, ?t), (900, ?t)])
      = [1500, 1500, 900]"
    by (simp add: bandwidth_init_def bandwidth_update_def bandwidth_update'_def
        timespec_sub_ms_def COUNT_UPDATE_MS_def)
  show ?thesis
    using bandwidth_window_cap [of "[(1500, ?t), (1500, ?t), (1500, ?t), (900, ?t)]" ?b] run
    by (simp add: bandwidth_init_def same_window_def timespec_sub_ms_def COUNT_UPDATE_MS_def)
qed

text \<open>
  The allowance never exceeds the configured rate: whatever packets arrive at
  whatever times, after any run from a freshly initialised limiter allowed_kb is at most
  kb_per_sec.
\<close>

theorem bandwidth_allowance_bounded:
  "allowed_kb (fst (bandwidth_run (bandwidth_init kbps) ps)) \<le> kbps"
proof -
  have config: "kb_per_sec (fst (bandwidth_run b ps)) = kb_per_sec b" for b
    by (induction ps arbitrary: b)
      (auto simp: case_prod_unfold Let_def bandwidth_update_config)
  have "bandwidth_ok (fst (bandwidth_run (bandwidth_init kbps) ps))"
    by (rule bandwidth_run_ok) (simp add: bandwidth_ok_def bandwidth_init_def)
  then show ?thesis by (simp add: bandwidth_ok_def config bandwidth_init_def)
qed

text \<open>
  What a new window grants. When the last window's rate is covered by the carried
  allowance plus one window's share, the unused part is carried over, capped at the
  configured rate. When the client went into debt (the first packet of a window is always
  admitted, so it can), the subtraction wraps around and the unsigned MIN grants the full
  rate instead of nothing.
\<close>

theorem bandwidth_refill:
  assumes "COUNT_UPDATE_MS \<le> unat (timespec_sub_ms now (count_start b))"
    and "kb_per_sec b \<noteq> 0"
    and "unat (kb_per_sec b) < 2 ^ 63"
    and "unat (allowed_kb_per_count b) + unat (allowed_kb b) < 2 ^ 64"
    and "unat (window_kb b (timespec_sub_ms now (count_start b))) < 2 ^ 63"
  shows "unat (allowed_kb (snd (bandwidth_update b bytes now))) =
    (let used = unat (window_kb b (timespec_sub_ms now (count_start b)));
         avail = unat (allowed_kb_per_count b) + unat (allowed_kb b)
     in if used \<le> avail then min (avail - used) (unat (kb_per_sec b)) else unat (kb_per_sec b))"
proof (cases "unat (window_kb b (timespec_sub_ms now (count_start b)))
    \<le> unat (allowed_kb_per_count b) + unat (allowed_kb b)")
  case True
  then show ?thesis
    using assms unat_refill [OF True]
    by (simp add: bandwidth_update_def bandwidth_update'_def Let_def min_unat)
next
  case False
  then show ?thesis
    using assms unat_debt [of b "timespec_sub_ms now (count_start b)"]
    by (simp add: bandwidth_update_def bandwidth_update'_def Let_def min_unat)
qed

theorem bandwidth_refill_witness:
  "let b = (bandwidth_init 1)\<lparr>transferred_bytes := 1400\<rparr>; now = \<lparr>tv_sec = 0, tv_nsec = 500000000\<rparr> in
   window_kb b (timespec_sub_ms now (count_start b)) = 1 \<and> allowed_kb b = 0
   \<and> allowed_kb_per_count b = 0 \<and> allowed_kb (snd (bandwidth_update b 1400 now)) = 1"
proof -
  let ?b = "(bandwidth_init 1)\<lparr>transferred_bytes := 1400\<rparr>"
  let ?now = "\<lparr>tv_sec = 0, tv_nsec = 500000000\<rparr>"
  have eval: "COUNT_UPDATE_MS \<le> unat (timespec_sub_ms ?now (count_start ?b))"
    "window_kb ?b (timespec_sub_ms ?now (count_start ?b)) = 1"
    by (simp_all add: bandwidth_init_def timespec_sub_ms_def window_kb_def COUNT_UPDATE_MS_def)
  have "unat (allowed_kb (snd (bandwidth_update ?b 1400 ?now))) = 1"
    using bandwidth_refill [of ?now ?b 1400] eval
    by (simp add: bandwidth_init_def COUNT_UPDATE_MS_def)
  then have "allowed_kb (snd (bandwidth_update ?b 1400 ?now)) = 1"
    by (metis unat_1 word_unat_eq_iff)
  then show ?thesis using eval by (simp add: bandwidth_init_def COUNT_UPDATE_MS_def)
qed

end
