(* ===== verification/Lzs.thy ===== *)
theory Lzs
  imports Prelude
begin

unbundle bit_operations_syntax

text \<open>
  The LZS compressor and decompressor of src/lzs.c. Buffers are byte lists; a read outside
  a buffer is the error \<open>OUT_OF_BOUNDS\<close>, which the C code does not detect, so a theorem that
  a call returns a value says the call is memory safe. Bytes and bit groups are natural
  numbers; the uint16_t variables are truncated by \<open>to_u16\<close> where the code stores them.
\<close>

datatype lzs_error = EINVAL | EFBIG | OUT_OF_BOUNDS | NO_FUEL

type_synonym 'a lzs = "lzs_error + 'a"

definition to_u16 :: "nat \<Rightarrow> nat" where
  "to_u16 n = n mod 65536"

section \<open>The bit reader: GET_BITS\<close>

text \<open>The reader is the remaining input and bits_left, the unread bits of its first byte.\<close>

type_synonym reader = "byte list \<times> nat"

definition get_bits :: "nat \<Rightarrow> reader \<Rightarrow> (nat \<times> reader) lzs" where
  "get_bits bits r =
     (case r of (src, bits_left) \<Rightarrow>
      if length src < 2 then Inl EINVAL
      else if 8 \<le> bits \<or> bits_left \<le> bits then
        let data = push_bit (bits - bits_left) (unat (src ! 0)) AND (2 ^ bits - 1);
            src = drop 1 src;
            bits_left = bits_left + 8 - bits
        in if 8 < bits \<or> bits_left < 8 then
             let data = data OR drop_bit bits_left (unat (src ! 0))
             in if 8 < bits \<and> bits_left = 0 then Inr (data, (drop 1 src, 8))
                else Inr (data, (src, bits_left))
           else Inr (data, (src, bits_left))
      else Inr (drop_bit (bits_left - bits) (unat (src ! 0)) AND (2 ^ bits - 1),
                (src, bits_left - bits)))"

text \<open>What bounds the number of reads: the bits not yet consumed.\<close>

definition bits_avail :: "reader \<Rightarrow> nat" where
  "bits_avail r = 8 * length (fst r) + snd r"

lemma get_bits_avail:
  "get_bits bits r = Inr (data, r') \<Longrightarrow> 0 < bits \<Longrightarrow> bits \<le> 9 \<Longrightarrow> bits_avail r' < bits_avail r"
  by (cases r) (auto simp: get_bits_def bits_avail_def Let_def split: if_splits)

section \<open>Decompression\<close>

text \<open>The nibbles of a long match length: 15 continues, anything else ends.\<close>

function long_length :: "reader \<Rightarrow> nat \<Rightarrow> (nat \<times> reader) lzs" where
  "long_length r len =
     (case get_bits 4 r of
        Inl e \<Rightarrow> Inl e
      | Inr (data, r') \<Rightarrow>
          if data \<noteq> 15 then Inr (to_u16 (len + data), r')
          else long_length r' (to_u16 (len + 15)))"
  by pat_completeness auto
termination
  by (relation "measure (\<lambda>(r, len). bits_avail r)") (auto intro: get_bits_avail)

declare long_length.simps [simp del]

definition match_length :: "reader \<Rightarrow> (nat \<times> reader) lzs" where
  "match_length r =
     (case get_bits 2 r of
        Inl e \<Rightarrow> Inl e
      | Inr (data, r') \<Rightarrow>
          if data \<noteq> 3 then Inr (data + 2, r')
          else (case get_bits 2 r' of
                  Inl e \<Rightarrow> Inl e
                | Inr (data, r'') \<Rightarrow>
                    if data \<noteq> 3 then Inr (data + 5, r'') else long_length r'' 8))"

text \<open>The offset that follows the nine bits \<open>data\<close> of a match.\<close>

definition match_offset :: "nat \<Rightarrow> reader \<Rightarrow> (nat \<times> reader) lzs" where
  "match_offset data r =
     (let offset = data AND 0x7f in
      if data < 0x180 then
        (case get_bits 4 r of
           Inl e \<Rightarrow> Inl e
         | Inr (low, r') \<Rightarrow> Inr (push_bit 4 offset OR low, r'))
      else Inr (offset, r))"

text \<open>The overlapping copy: while (length) dst[outlen] = dst[outlen - offset].\<close>

fun copy_match :: "nat \<Rightarrow> nat \<Rightarrow> byte list \<Rightarrow> nat \<Rightarrow> byte list \<times> nat" where
  "copy_match offset 0 dst outlen = (dst, outlen)"
| "copy_match offset (Suc n) dst outlen =
     copy_match offset n (dst[outlen := dst ! (outlen - offset)]) (outlen + 1)"

lemma match_length_avail:
  "match_length r = Inr (len, r') \<Longrightarrow> bits_avail r' \<le> bits_avail r"
proof -
  have long: "long_length r len = Inr (n, r') \<Longrightarrow> bits_avail r' \<le> bits_avail r" for r len n r'
    by (induction r len rule: long_length.induct, subst (asm) (2) long_length.simps)
      (force split: sum.splits prod.splits if_splits dest: get_bits_avail)
  show "match_length r = Inr (len, r') \<Longrightarrow> bits_avail r' \<le> bits_avail r"
    by (force simp: match_length_def split: sum.splits prod.splits if_splits
        dest: get_bits_avail long)
qed

lemma match_offset_avail:
  "match_offset data r = Inr (off, r') \<Longrightarrow> bits_avail r' \<le> bits_avail r"
  by (force simp: match_offset_def Let_def split: sum.splits prod.splits if_splits
      dest: get_bits_avail)

text \<open>
  The main loop. The inner loop over literals of the C code repeats GET_BITS(9) and the test
  of the outer one, so both are one recursive call. \<open>dst\<close> is the whole output buffer with
  its initial contents, \<open>outlen\<close> the bytes written.
\<close>

function lzs_decompress_loop :: "byte list \<Rightarrow> nat \<Rightarrow> reader \<Rightarrow> (byte list \<times> nat) lzs" where
  "lzs_decompress_loop dst outlen r =
     (case get_bits 9 r of
        Inl e \<Rightarrow> Inl e
      | Inr (data, r1) \<Rightarrow>
          if data < 0x100 then
            if outlen = length dst then Inl EFBIG
            else lzs_decompress_loop (dst[outlen := word_of_nat data]) (outlen + 1) r1
          else if data = 0x180 then Inr (dst, outlen)
          else (case match_offset data r1 of
                  Inl e \<Rightarrow> Inl e
                | Inr (offset, r2) \<Rightarrow>
                    (case match_length r2 of
                       Inl e \<Rightarrow> Inl e
                     | Inr (len, r3) \<Rightarrow>
                         if outlen < offset then Inl EINVAL
                         else if length dst < len + outlen then Inl EFBIG
                         else lzs_decompress_loop (fst (copy_match offset len dst outlen))
                                (snd (copy_match offset len dst outlen)) r3)))"
  by pat_completeness auto
termination
  by (relation "measure (\<lambda>(dst, outlen, r). bits_avail r)")
    (auto dest!: match_offset_avail match_length_avail get_bits_avail)

declare lzs_decompress_loop.simps [simp del]

definition lzs_decompress :: "byte list \<Rightarrow> byte list \<Rightarrow> (byte list \<times> nat) lzs" where
  "lzs_decompress dst src = lzs_decompress_loop dst 0 (src, 8)"

section \<open>The bit writer: PUT_BITS\<close>

record writer =
  w_out :: "byte list"      \<comment> \<open>dst[0..outpos)\<close>
  w_outbits :: u32
  w_nr :: nat               \<comment> \<open>nr_outbits\<close>

text \<open>\<open>if (outpos == dstlen) return -EFBIG; dst[outpos++] = outbits >> nr_outbits;\<close>\<close>

definition flush_byte :: "nat \<Rightarrow> writer \<Rightarrow> writer lzs" where
  "flush_byte dstlen w =
     (let nr = w_nr w - 8 in
      if length (w_out w) = dstlen then Inl EFBIG
      else Inr (w\<lparr>w_out := w_out w @ [ucast (drop_bit nr (w_outbits w))], w_nr := nr\<rparr>))"

definition put_bits :: "nat \<Rightarrow> nat \<Rightarrow> nat \<Rightarrow> writer \<Rightarrow> writer lzs" where
  "put_bits dstlen nr bits w =
     (let w1 = w\<lparr>w_outbits := push_bit nr (w_outbits w) OR word_of_nat bits, w_nr := w_nr w + nr\<rparr>;
          r = (if 8 < nr then flush_byte dstlen w1 else Inr w1)
      in case r of
           Inl e \<Rightarrow> Inl e
         | Inr w2 \<Rightarrow> if 8 \<le> w_nr w2 then flush_byte dstlen w2 else Inr w2)"

section \<open>Compression\<close>

definition INVALID_OFS :: nat where "INVALID_OFS = 0xffff"
definition MAX_HISTORY :: nat where "MAX_HISTORY = 2048"

lemmas lzs_consts = INVALID_OFS_def MAX_HISTORY_def

text \<open>HASH(p) loads two bytes as a 16-bit value (in little endian order here).\<close>

definition HASH :: "byte list \<Rightarrow> nat \<Rightarrow> nat" where
  "HASH src i = unat (src ! i) + 256 * unat (src ! (i + 1))"

definition hash_at :: "byte list \<Rightarrow> nat \<Rightarrow> nat lzs" where
  "hash_at src i = (if i + 1 < length src then Inr (HASH src i) else Inl OUT_OF_BOUNDS)"

text \<open>The history: hash_table and the ring buffer hash_chain, which starts uninitialised.\<close>

record history =
  hash_table :: "nat \<Rightarrow> nat"
  hash_chain :: "nat \<Rightarrow> nat"

definition insert_hash :: "nat \<Rightarrow> nat \<Rightarrow> history \<Rightarrow> history" where
  "insert_hash hash pos h =
     h\<lparr>hash_chain := (hash_chain h)(pos AND (MAX_HISTORY - 1) := hash_table h hash),
       hash_table := (hash_table h)(hash := to_u16 pos)\<rparr>"

text \<open>memcmp(src + a, src + b, n) == 0\<close>

definition mem_equal :: "byte list \<Rightarrow> nat \<Rightarrow> nat \<Rightarrow> nat \<Rightarrow> bool lzs" where
  "mem_equal src a b n =
     (if a + n \<le> length src \<and> b + n \<le> length src
      then Inr (take n (drop a src) = take n (drop b src)) else Inl OUT_OF_BOUNDS)"

text \<open>The do-while loop that lengthens a match; the flag is \<open>goto got_match\<close>.\<close>

function extend_match :: "byte list \<Rightarrow> nat \<Rightarrow> nat \<Rightarrow> nat \<Rightarrow> (nat \<times> bool) lzs" where
  "extend_match src inpos hofs len =
     (let len' = to_u16 (len + 1) in
      if len' + inpos = length src then Inr (len', True)
      else if len' = len + 1 \<and> len' + inpos < length src \<and> len' + hofs < length src then
        if src ! (len' + inpos) = src ! (len' + hofs) then extend_match src inpos hofs len'
        else Inr (len', False)
      else Inl OUT_OF_BOUNDS)"
  by pat_completeness auto
termination
  by (relation "measure (\<lambda>(src, inpos, hofs, len). length src - (len + inpos))") auto

declare extend_match.simps [simp del]

text \<open>
  The walk along the chain of earlier positions with the same two bytes. The C loop has no
  bound of its own; \<open>fuel\<close> counts its iterations.
\<close>

fun longest_match ::
  "nat \<Rightarrow> byte list \<Rightarrow> (nat \<Rightarrow> nat) \<Rightarrow> nat \<Rightarrow> nat \<Rightarrow> nat \<Rightarrow> nat \<Rightarrow> (nat \<times> nat) lzs" where
  "longest_match 0 src chain inpos hofs len ofs = Inl NO_FUEL"
| "longest_match (Suc fuel) src chain inpos hofs len ofs =
     (if hofs \<noteq> INVALID_OFS \<and> inpos < hofs + MAX_HISTORY then
        (case mem_equal src (hofs + 2) (inpos + 2) (len - 1) of
           Inl e \<Rightarrow> Inl e
         | Inr True \<Rightarrow>
             (case extend_match src inpos hofs len of
                Inl e \<Rightarrow> Inl e
              | Inr (len', True) \<Rightarrow> Inr (len', hofs)
              | Inr (len', False) \<Rightarrow>
                  longest_match fuel src chain inpos (chain (hofs AND (MAX_HISTORY - 1))) len' hofs)
         | Inr False \<Rightarrow>
             longest_match fuel src chain inpos (chain (hofs AND (MAX_HISTORY - 1))) len ofs)
      else Inr (len, ofs))"

text \<open>Emitting an offset, and the length of a match.\<close>

definition put_offset :: "nat \<Rightarrow> nat \<Rightarrow> writer \<Rightarrow> writer lzs" where
  "put_offset dstlen offset w =
     (if offset < 0x80 then put_bits dstlen 9 (0x180 OR offset) w
      else put_bits dstlen 13 (0x1000 OR offset) w)"

function put_long_length :: "nat \<Rightarrow> nat \<Rightarrow> writer \<Rightarrow> writer lzs" where
  "put_long_length dstlen len w =
     (if 30 \<le> len then
        (case put_bits dstlen 8 0xff w of
           Inl e \<Rightarrow> Inl e
         | Inr w' \<Rightarrow> put_long_length dstlen (len - 30) w')
      else if 15 \<le> len then put_bits dstlen 8 (0xf0 + len - 15) w
      else put_bits dstlen 4 len w)"
  by pat_completeness auto
termination
  by (relation "measure (\<lambda>(dstlen, len, w). len)") auto

declare put_long_length.simps [simp del]

definition put_length :: "nat \<Rightarrow> nat \<Rightarrow> writer \<Rightarrow> writer lzs" where
  "put_length dstlen len w =
     (if len < 5 then put_bits dstlen 2 (len - 2) w
      else if len < 8 then put_bits dstlen 4 (len + 7) w
      else put_long_length dstlen (len + 7) w)"

text \<open>\<open>while (--longest_match_len)\<close>: the rest of the match enters the history.\<close>

fun insert_rest :: "byte list \<Rightarrow> nat \<Rightarrow> nat \<Rightarrow> history \<Rightarrow> (nat \<times> history) lzs" where
  "insert_rest src 0 inpos h = Inr (inpos, h)"
| "insert_rest src (Suc n) inpos h =
     (case hash_at src inpos of
        Inl e \<Rightarrow> Inl e
      | Inr hash \<Rightarrow> insert_rest src n (inpos + 1) (insert_hash hash inpos h))"

lemma insert_rest_pos: "insert_rest src n inpos h = Inr (p, h') \<Longrightarrow> p = inpos + n"
  by (induction src n inpos h rule: insert_rest.induct) (auto split: sum.splits)

text \<open>The main loop; its result is inpos, the history and the writer when it is left.\<close>

function lzs_compress_loop ::
  "nat \<Rightarrow> byte list \<Rightarrow> nat \<Rightarrow> history \<Rightarrow> writer \<Rightarrow> (nat \<times> history \<times> writer) lzs" where
  "lzs_compress_loop dstlen src inpos h w =
     (if inpos + 2 < length src then
        (case hash_at src inpos of
           Inl e \<Rightarrow> Inl e
         | Inr hash \<Rightarrow>
             let hofs = hash_table h hash;
                 h1 = insert_hash hash inpos h
             in if hofs = INVALID_OFS \<or> hofs + MAX_HISTORY \<le> inpos then
                  (case put_bits dstlen 9 (unat (src ! inpos)) w of
                     Inl e \<Rightarrow> Inl e
                   | Inr w1 \<Rightarrow> lzs_compress_loop dstlen src (inpos + 1) h1 w1)
                else
                  (case longest_match (MAX_HISTORY + 1) src (hash_chain h1) inpos hofs 2 hofs of
                     Inl e \<Rightarrow> Inl e
                   | Inr (len, ofs) \<Rightarrow>
                       (case put_offset dstlen (inpos - ofs) w of
                          Inl e \<Rightarrow> Inl e
                        | Inr w1 \<Rightarrow>
                            (case put_length dstlen len w1 of
                               Inl e \<Rightarrow> Inl e
                             | Inr w2 \<Rightarrow>
                                 if length src \<le> inpos + len + 2 then Inr (inpos + len, h1, w2)
                                 else
                                   (case insert_rest src (len - 1) (inpos + 1) h1 of
                                      Inl e \<Rightarrow> Inl e
                                    | Inr (inpos', h2) \<Rightarrow>
                                        lzs_compress_loop dstlen src inpos' h2 w2)))))
      else Inr (inpos, h, w))"
  by pat_completeness auto
termination
  by (relation "measure (\<lambda>(dstlen, src, inpos, h, w). length src - inpos)")
    (auto dest: insert_rest_pos)

declare lzs_compress_loop.simps [simp del]

text \<open>The last one or two bytes.\<close>

definition lzs_compress_tail ::
  "nat \<Rightarrow> byte list \<Rightarrow> nat \<Rightarrow> history \<Rightarrow> writer \<Rightarrow> writer lzs" where
  "lzs_compress_tail dstlen src inpos h w =
     (if inpos + 2 = length src then
        (case hash_at src inpos of
           Inl e \<Rightarrow> Inl e
         | Inr hash \<Rightarrow>
             let hofs = hash_table h hash in
             if hofs \<noteq> INVALID_OFS \<and> inpos < hofs + MAX_HISTORY then
               (case put_offset dstlen (inpos - hofs) w of
                  Inl e \<Rightarrow> Inl e
                | Inr w1 \<Rightarrow> put_bits dstlen 2 0 w1)
             else
               (case put_bits dstlen 9 (unat (src ! inpos)) w of
                  Inl e \<Rightarrow> Inl e
                | Inr w1 \<Rightarrow> put_bits dstlen 9 (unat (src ! (inpos + 1))) w1))
      else if inpos + 1 = length src then put_bits dstlen 9 (unat (src ! inpos)) w
      else Inr w)"

text \<open>\<open>chain0\<close> is the uninitialised memory of hash_chain.\<close>

definition lzs_compress :: "(nat \<Rightarrow> nat) \<Rightarrow> nat \<Rightarrow> byte list \<Rightarrow> byte list lzs" where
  "lzs_compress chain0 dstlen src =
     (if INVALID_OFS + 1 < length src then Inl EFBIG
      else
        let h0 = \<lparr>hash_table = (\<lambda>_. 0xffff), hash_chain = chain0\<rparr>;
            w0 = \<lparr>w_out = [], w_outbits = 0, w_nr = 0\<rparr>
        in case lzs_compress_loop dstlen src 0 h0 w0 of
             Inl e \<Rightarrow> Inl e
           | Inr (inpos, h, w) \<Rightarrow>
               (case lzs_compress_tail dstlen src inpos h w of
                  Inl e \<Rightarrow> Inl e
                | Inr w1 \<Rightarrow> map_sum id w_out (put_bits dstlen 16 0xc000 w1)))"

end
