(* ===== verification/LzsBits.thy ===== *)
theory LzsBits
  imports Lzs
begin

text \<open>
  What the bit reader and the bit writer of lzs.c do, stated over the stream of bits a byte
  list holds (most significant bit first): get_bits takes the next bits of the stream,
  put_bits appends bits to it.
\<close>

section \<open>Bit groups and bit streams\<close>

definition nbits :: "nat \<Rightarrow> nat \<Rightarrow> bool list" where
  "nbits k n = map (bit n) (rev [0..<k])"

definition bits_val :: "bool list \<Rightarrow> nat" where
  "bits_val bs = horner_sum of_bool 2 (rev bs)"

definition bytes_bits :: "byte list \<Rightarrow> bool list" where
  "bytes_bits bs = concat (map (\<lambda>b. nbits 8 (unat b)) bs)"

lemma length_nbits [simp]: "length (nbits k n) = k"
  by (simp add: nbits_def)

lemma nth_nbits: "i < k \<Longrightarrow> nbits k n ! i = bit n (k - 1 - i)"
  by (simp add: nbits_def rev_nth)

lemma bits_val_nbits: "bits_val (nbits k n) = take_bit k n"
  by (simp add: bits_val_def nbits_def rev_map horner_sum_bit_eq_take_bit)

lemma bit_bits_val: "bit (bits_val bs) i \<longleftrightarrow> i < length bs \<and> bs ! (length bs - 1 - i)"
  by (auto simp: bits_val_def bit_horner_sum_bit_iff rev_nth)

lemma nbits_append: "nbits (m + n) x = nbits m (drop_bit n x) @ nbits n x"
  by (rule nth_equalityI)
    (auto simp: nth_append nth_nbits bit_drop_bit_eq algebra_simps)

lemma nbits_take_bit [simp]: "nbits k (take_bit k n) = nbits k n"
  by (simp add: nbits_def bit_take_bit_iff cong: map_cong)

lemma length_bytes_bits [simp]: "length (bytes_bits bs) = 8 * length bs"
  by (induction bs) (auto simp: bytes_bits_def)

lemma bytes_bits_append [simp]: "bytes_bits (xs @ ys) = bytes_bits xs @ bytes_bits ys"
  by (simp add: bytes_bits_def)

lemma nth_bytes_bits:
  "i < 8 * length bs \<Longrightarrow> bytes_bits bs ! i = bit (unat (bs ! (i div 8))) (7 - i mod 8)"
proof (induction bs arbitrary: i)
  case (Cons b bs)
  show ?case
  proof (cases "i < 8")
    case True
    then show ?thesis by (simp add: bytes_bits_def nth_append nth_nbits)
  next
    case False
    have "bytes_bits (b # bs) ! i = bytes_bits bs ! (i - 8)"
      using False by (simp add: bytes_bits_def nth_append)
    also have "\<dots> = bit (unat (bs ! ((i - 8) div 8))) (7 - (i - 8) mod 8)"
      using False Cons.prems by (intro Cons.IH) simp
    also have "(i - 8) mod 8 = i mod 8"
      using False by (metis add_diff_inverse_nat mod_add_self1)
    also have "bs ! ((i - 8) div 8) = (b # bs) ! (i div 8)"
      using False by (simp add: div_if)
    finally show ?thesis .
  qed
qed simp

section \<open>The reader\<close>

definition reader_at :: "byte list \<Rightarrow> nat \<Rightarrow> reader" where
  "reader_at bytes p = (drop (p div 8) bytes, 8 - p mod 8)"

definition stream_val :: "byte list \<Rightarrow> nat \<Rightarrow> nat \<Rightarrow> nat" where
  "stream_val bytes p n = bits_val (take n (drop p (bytes_bits bytes)))"

lemma bit_stream_val:
  assumes "p + n \<le> 8 * length bytes"
  shows "bit (stream_val bytes p n) k \<longleftrightarrow>
    k < n \<and> bit (unat (bytes ! ((p + n - 1 - k) div 8))) (7 - (p + n - 1 - k) mod 8)"
  using assms by (auto simp: stream_val_def bit_bits_val nth_bytes_bits)

lemma mod8_split:
  fixes q :: nat
  assumes "p = 8 * q + r" and "r < 8"
  shows "p div 8 = q" and "p mod 8 = r"
  using assms by simp_all

text \<open>A group inside the current byte, and a group that reaches into the next one.\<close>

lemma stream_val_one:
  assumes "r + n \<le> 8" and "r < 8" and "q < length bytes"
  shows "stream_val bytes (8 * q + r) n = take_bit n (drop_bit (8 - r - n) (unat (bytes ! q)))"
proof (rule bit_eqI)
  fix k
  have ix: "(8 * q + r + n - 1 - k) div 8 = q" "(8 * q + r + n - 1 - k) mod 8 = r + n - 1 - k"
    if "k < n"
  proof -
    have "8 * q + r + n - 1 - k = 8 * q + (r + n - 1 - k)" using that by simp
    from mod8_split [OF this] show "(8 * q + r + n - 1 - k) div 8 = q"
      "(8 * q + r + n - 1 - k) mod 8 = r + n - 1 - k"
      using that assms by simp_all
  qed
  have "7 - (r + n - 1 - k) = 8 - r - n + k" if "k < n"
    using that assms by auto
  then show "bit (stream_val bytes (8 * q + r) n) k =
      bit (take_bit n (drop_bit (8 - r - n) (unat (bytes ! q)))) k"
    using assms ix by (auto simp: bit_stream_val bit_take_bit_iff bit_drop_bit_eq)
qed

lemma bit_unat_byte: "bit (unat (b :: byte)) k \<Longrightarrow> k < 8"
  using bit_imp_le_length [of b k] by (simp add: bit_unsigned_iff)

lemma stream_val_two:
  assumes "8 < r + n" and "r + n \<le> 16" and "r < 8" and "q + 1 < length bytes"
  shows "stream_val bytes (8 * q + r) n =
    (take_bit n (push_bit (n - (8 - r)) (unat (bytes ! q)))
     OR drop_bit (16 - r - n) (unat (bytes ! (q + 1))))"
proof (rule bit_eqI)
  fix k
  show "bit (stream_val bytes (8 * q + r) n) k =
    bit (take_bit n (push_bit (n - (8 - r)) (unat (bytes ! q)))
     OR drop_bit (16 - r - n) (unat (bytes ! (q + 1)))) k"
  proof (cases "k < n")
    case False
    moreover have "\<not> bit (unat (bytes ! Suc q)) (16 - r - n + k)"
      using False assms bit_unat_byte [of "bytes ! Suc q"] by fastforce
    ultimately show ?thesis
      using assms by (auto simp: bit_stream_val bit_or_iff bit_take_bit_iff bit_drop_bit_eq)
  next
    case True
    show ?thesis
    proof (cases "r + n - 1 - k < 8")
      case in_first: True
      have ix: "(8 * q + r + n - 1 - k) div 8 = q" "(8 * q + r + n - 1 - k) mod 8 = r + n - 1 - k"
      proof -
        have "8 * q + r + n - 1 - k = 8 * q + (r + n - 1 - k)" using True by simp
        from mod8_split [OF this] show "(8 * q + r + n - 1 - k) div 8 = q"
          "(8 * q + r + n - 1 - k) mod 8 = r + n - 1 - k"
          using in_first by simp_all
      qed
      have "7 - (r + n - 1 - k) = k - (n - (8 - r))" "n - (8 - r) \<le> k"
        using True in_first assms by auto
      moreover have "\<not> bit (unat (bytes ! Suc q)) (16 - r - n + k)"
        using in_first assms bit_unat_byte [of "bytes ! Suc q"] by fastforce
      ultimately show ?thesis
        using True assms ix
        by (auto simp: bit_stream_val bit_or_iff bit_take_bit_iff bit_drop_bit_eq bit_push_bit_iff)
    next
      case in_second: False
      have ix: "(8 * q + r + n - 1 - k) div 8 = q + 1" "(8 * q + r + n - 1 - k) mod 8 = r + n - 1 - k - 8"
      proof -
        have "8 * q + r + n - 1 - k = 8 * (q + 1) + (r + n - 1 - k - 8)"
          using True in_second by simp
        from mod8_split [OF this] show "(8 * q + r + n - 1 - k) div 8 = q + 1"
          "(8 * q + r + n - 1 - k) mod 8 = r + n - 1 - k - 8"
          using True in_second assms by simp_all
      qed
      have "7 - (r + n - 1 - k - 8) = 16 - r - n + k" "k < n - (8 - r)"
        using True in_second assms by auto
      then show ?thesis
        using True assms ix
        by (auto simp: bit_stream_val bit_or_iff bit_take_bit_iff bit_drop_bit_eq bit_push_bit_iff)
    qed
  qed
qed

lemma drop_reader:
  "q + 2 \<le> length bytes \<Longrightarrow> drop q bytes ! 0 = bytes ! q"
  "q + 2 \<le> length bytes \<Longrightarrow> drop 1 (drop q bytes) ! 0 = bytes ! (q + 1)"
  by simp_all

lemma get_bits_reader:
  assumes "0 < n" and "n \<le> 9" and "p div 8 + 2 \<le> length bytes"
  shows "get_bits n (reader_at bytes p) = Inr (stream_val bytes p n, reader_at bytes (p + n))"
proof -
  define q r where "q = p div 8" and "r = p mod 8"
  have p: "p = 8 * q + r" and r: "r < 8"
    by (simp_all add: q_def r_def)
  have len: "q + 2 \<le> length bytes" using assms(3) by (simp add: q_def)
  have mask: "x AND (2 ^ n - Suc 0) = take_bit n x" for x :: nat
    by (simp add: take_bit_eq_mask mask_eq_exp_minus_1)
  consider (inside) "r + n < 8" | (edge) "r + n = 8" | (across) "8 < r + n" "r + n < 16" | (full) "r + n = 16"
    using r assms(2) by linarith
  then show ?thesis
  proof cases
    case inside
    have "reader_at bytes (p + n) = (drop q bytes, 8 - r - n)"
      using inside mod8_split [of "p + n" q "r + n"] by (simp add: reader_at_def p)
    moreover have "\<not> 8 - r \<le> n" "\<not> 8 \<le> n" "\<not> length bytes - q < 2"
      using inside len by linarith+
    ultimately show ?thesis
      using inside len stream_val_one [of r n q bytes]
      by (simp add: get_bits_def reader_at_def p mask drop_reader)
  next
    case edge
    have "reader_at bytes (p + n) = (drop (q + 1) bytes, 8)"
      using edge mod8_split [of "p + n" "q + 1" 0] by (simp add: reader_at_def p)
    moreover have "8 \<le> n \<or> 8 - r \<le> n" "\<not> length bytes - q < 2"
      using edge len by linarith+
    ultimately show ?thesis
      using edge len r stream_val_one [of r n q bytes] assms
      by (simp add: get_bits_def reader_at_def p mask drop_reader Let_def)
  next
    case across
    have "reader_at bytes (p + n) = (drop (q + 1) bytes, 16 - r - n)"
      using across mod8_split [of "p + n" "q + 1" "r + n - 8"] by (simp add: reader_at_def p)
    moreover have "8 \<le> n \<or> 8 - r \<le> n" "8 - r + 8 - n = 16 - r - n"
      "\<not> length bytes - q < 2" "16 - (r + n) < 8"
      using across r len by linarith+
    ultimately show ?thesis
      using across len r stream_val_two [of r n q bytes] assms
      by (simp add: get_bits_def reader_at_def p mask drop_reader Let_def)
  next
    case full
    have "reader_at bytes (p + n) = (drop (q + 2) bytes, 8)"
      using full mod8_split [of "p + n" "q + 2" 0] by (simp add: reader_at_def p)
    moreover have "n = 9" "r = 7" "\<not> length bytes - q < 2"
      using full r assms(2) len by linarith+
    ultimately show ?thesis
      using len stream_val_two [of r n q bytes] mask [of "push_bit 8 (unat (bytes ! q))"]
      by (simp add: get_bits_def reader_at_def p drop_reader Let_def)
  qed
qed

section \<open>The writer\<close>

text \<open>The bits written so far: those of the bytes in dst, then the pending ones.\<close>

definition written :: "writer \<Rightarrow> bool list" where
  "written w = bytes_bits (w_out w) @ nbits (w_nr w) (unat (w_outbits w))"

definition writer_ok :: "nat \<Rightarrow> writer \<Rightarrow> bool" where
  "writer_ok dstlen w \<longleftrightarrow> w_nr w < 8 \<and> length (w_out w) \<le> dstlen"

lemma nbits_word_eqI:
  "(\<And>i. i < k \<Longrightarrow> bit (unat v) i = bit n i) \<Longrightarrow> nbits k (unat v) = nbits k n"
  by (auto simp: nbits_def)

lemma bit_unat_word [simp]: "bit (unat (v :: 'a::len word)) i = bit v i"
  by (simp add: bit_unsigned_iff)

lemma nbits_flush:
  assumes "8 \<le> n"
  shows "nbits n (unat (v :: u32)) =
    nbits 8 (unat (ucast (drop_bit (n - 8) v) :: byte)) @ nbits (n - 8) (unat v)"
proof -
  have "nbits (8 + (n - 8)) (unat v) = nbits 8 (drop_bit (n - 8) (unat v)) @ nbits (n - 8) (unat v)"
    by (rule nbits_append)
  moreover have "nbits 8 (unat (ucast (drop_bit (n - 8) v) :: byte)) = nbits 8 (drop_bit (n - 8) (unat v))"
    by (rule nbits_word_eqI) (simp add: bit_unsigned_iff bit_drop_bit_eq)
  ultimately show ?thesis using assms by simp
qed

lemma nbits_push:
  assumes "m + k \<le> 32" and "x < 2 ^ k"
  shows "nbits (m + k) (unat (push_bit k v OR word_of_nat x :: u32)) = nbits m (unat v) @ nbits k x"
proof (rule nth_equalityI)
  fix i assume i: "i < length (nbits (m + k) (unat (push_bit k v OR word_of_nat x :: u32)))"
  have x: "\<not> bit x j" if "k \<le> j" for j
    using assms(2) that by (metis bit_take_bit_iff leD take_bit_nat_eq_self)
  show "nbits (m + k) (unat (push_bit k v OR word_of_nat x :: u32)) ! i = (nbits m (unat v) @ nbits k x) ! i"
  proof (cases "i < m")
    case True
    then have "m + k - 1 - i - k = m - 1 - i" "k \<le> m + k - 1 - i" "m + k - 1 - i < 32"
      using assms(1) by auto
    then show ?thesis
      using True assms(1) x [of "m + k - 1 - i"] i
      by (simp add: nth_append nth_nbits bit_or_iff bit_push_bit_iff bit_of_nat_iff)
  next
    case False
    then have "k - 1 - (i - m) = m + k - 1 - i" "m + k - 1 - i < k" using i by auto
    then show ?thesis
      using False assms(1) i
      by (auto simp: nth_append nth_nbits bit_or_iff bit_push_bit_iff bit_of_nat_iff)
  qed
qed simp

lemma flush_byte_written:
  assumes "8 \<le> w_nr w" and "length (w_out w) \<le> dstlen"
  shows "flush_byte dstlen w =
    (if length (w_out w) = dstlen then Inl EFBIG
     else Inr (w\<lparr>w_out := w_out w @ [ucast (drop_bit (w_nr w - 8) (w_outbits w))], w_nr := w_nr w - 8\<rparr>))"
    "written (w\<lparr>w_out := w_out w @ [ucast (drop_bit (w_nr w - 8) (w_outbits w))], w_nr := w_nr w - 8\<rparr>)
     = written w"
  using nbits_flush [OF assms(1), of "w_outbits w"]
  by (simp_all add: flush_byte_def Let_def written_def bytes_bits_def)

text \<open>
  The contract of PUT_BITS: it appends exactly the given bits to what is written, keeps fewer
  than eight bits pending, and fails only when the output buffer is too small for the
  complete bytes.
\<close>

lemma put_bits_written:
  assumes ok: "writer_ok dstlen w" and nr: "0 < nr" "nr \<le> 16" and bits: "bits < 2 ^ nr"
  shows "case put_bits dstlen nr bits w of
      Inl e \<Rightarrow> e = EFBIG \<and> dstlen < (length (written w) + nr) div 8
    | Inr w' \<Rightarrow> writer_ok dstlen w' \<and> written w' = written w @ nbits nr bits"
proof -
  let ?w1 = "w\<lparr>w_outbits := push_bit nr (w_outbits w) OR word_of_nat bits, w_nr := w_nr w + nr\<rparr>"
  have w1: "written ?w1 = written w @ nbits nr bits" "length (w_out ?w1) \<le> dstlen" "w_nr w < 8"
    using nbits_push [of "w_nr w" nr bits "w_outbits w"] ok nr bits
    by (simp_all add: written_def writer_ok_def)
  have len: "length (written w) = 8 * length (w_out w) + w_nr w"
    by (simp add: written_def)
  define r where "r = (if 8 < nr then flush_byte dstlen ?w1 else Inr ?w1)"
  have put: "put_bits dstlen nr bits w = (case r of Inl e \<Rightarrow> Inl e
      | Inr w2 \<Rightarrow> if 8 \<le> w_nr w2 then flush_byte dstlen w2 else Inr w2)"
    by (simp add: put_bits_def r_def Let_def)
  show ?thesis
  proof (cases r)
    case (Inl e)
    then have "e = EFBIG" "length (w_out w) = dstlen" "8 < nr"
      by (auto simp: r_def flush_byte_def Let_def split: if_splits)
    then show ?thesis
      using Inl len by (simp add: put)
  next
    case (Inr w2)
    have w2: "written w2 = written ?w1" "length (w_out w2) \<le> dstlen"
      "8 * length (w_out w2) + w_nr w2 = 8 * length (w_out w) + w_nr w + nr" "w_nr w2 < 16"
      using Inr w1 flush_byte_written [of ?w1 dstlen] nr
      by (auto simp: r_def split: if_splits)
    show ?thesis
    proof (cases "8 \<le> w_nr w2")
      case False
      then show ?thesis
        using Inr w1 w2 by (simp add: put writer_ok_def)
    next
      case True
      then show ?thesis
        using Inr w1 w2 flush_byte_written [OF True w2(2)] len
        by (auto simp: put writer_ok_def)
    qed
  qed
qed

end
