(* ===== verification/LzsTokens.thy ===== *)
theory LzsTokens
  imports LzsBits
begin

text \<open>
  The LZS token stream. A token is a literal byte or a copy of earlier output; the encoding
  of a token is the bit string the format gives it. A token list is valid for a source text
  when it spells the text; the decompressor returns the text any valid token list spells.
\<close>

datatype token = Lit byte | Copy nat nat   \<comment> \<open>offset and length\<close>

fun tok_len :: "token \<Rightarrow> nat" where
  "tok_len (Lit b) = 1"
| "tok_len (Copy off n) = n"

fun tok_ok :: "byte list \<Rightarrow> nat \<Rightarrow> token \<Rightarrow> bool" where
  "tok_ok src p (Lit b) = (p < length src \<and> src ! p = b)"
| "tok_ok src p (Copy off n) =
     (0 < off \<and> off \<le> p \<and> off < 2048 \<and> 2 \<le> n \<and> p + n \<le> length src
      \<and> (\<forall>i < n. src ! (p + i) = src ! (p - off + i)))"

fun toks_ok :: "byte list \<Rightarrow> nat \<Rightarrow> token list \<Rightarrow> nat \<Rightarrow> bool" where
  "toks_ok src p [] p' = (p = p')"
| "toks_ok src p (t # ts) p' = (tok_ok src p t \<and> toks_ok src (p + tok_len t) ts p')"

lemma toks_ok_append:
  "toks_ok src p (ts @ us) p'' \<longleftrightarrow> (\<exists>p'. toks_ok src p ts p' \<and> toks_ok src p' us p'')"
  by (induction ts arbitrary: p) auto

section \<open>The encoding\<close>

definition long_nibs :: "nat \<Rightarrow> bool list" where
  "long_nibs n = concat (map (nbits 4) (replicate (n div 15) 15 @ [n mod 15]))"

definition len_bits :: "nat \<Rightarrow> bool list" where
  "len_bits n =
     (if n < 5 then nbits 2 (n - 2) else if n < 8 then nbits 4 (n + 7) else long_nibs (n + 7))"

definition offset_bits :: "nat \<Rightarrow> bool list" where
  "offset_bits off = (if off < 128 then nbits 9 (384 + off) else nbits 13 (4096 + off))"

fun tok_bits :: "token \<Rightarrow> bool list" where
  "tok_bits (Lit b) = nbits 9 (unat b)"
| "tok_bits (Copy off n) = offset_bits off @ len_bits n"

definition stream_bits :: "token list \<Rightarrow> bool list" where
  "stream_bits ts = concat (map tok_bits ts) @ nbits 16 0xc000"

lemma length_long_nibs: "length (long_nibs n) = 4 * (n div 15) + 4"
  by (simp add: long_nibs_def length_concat sum_list_replicate)

lemma length_tok_bits: "tok_ok src p t \<Longrightarrow> length (tok_bits t) \<le> 9 * tok_len t"
proof (cases t)
  case (Copy off n)
  assume "tok_ok src p t"
  then have "2 \<le> n" by (simp add: Copy)
  moreover have "4 * ((n + 7) div 15) + 17 \<le> 9 * n" if "8 \<le> n"
  proof -
    have "(n + 7) div 15 \<le> n div 8" using that by (simp add: div_le_mono less_mult_imp_div_less)
    moreover have "8 * (n div 8) \<le> n" by simp
    ultimately show ?thesis using that by linarith
  qed
  ultimately show ?thesis
    by (auto simp: Copy offset_bits_def len_bits_def length_long_nibs)
qed simp

lemma toks_bits_length:
  "toks_ok src p ts p' \<Longrightarrow> p + sum_list (map tok_len ts) = p' \<and>
     length (concat (map tok_bits ts)) \<le> 9 * (p' - p)"
proof (induction ts arbitrary: p)
  case (Cons t ts)
  then have "p + tok_len t + sum_list (map tok_len ts) = p'"
    "length (concat (map tok_bits ts)) \<le> 9 * (p' - (p + tok_len t))" "tok_ok src p t"
    by auto
  with length_tok_bits [of src p t] show ?case by simp
qed simp

section \<open>Reading a group of the stream\<close>

definition holds_bits :: "byte list \<Rightarrow> bool list \<Rightarrow> bool" where
  "holds_bits bytes B \<longleftrightarrow> (\<exists>tail. bytes_bits bytes @ tail = B \<and> length tail < 8)"

lemma get_bits_stream:
  assumes B: "holds_bits bytes (pre @ nbits n x @ post)"
    and n: "0 < n" "n \<le> 9" and room: "16 \<le> n + length post"
  shows "get_bits n (reader_at bytes (length pre))
    = Inr (take_bit n x, reader_at bytes (length pre + n))"
proof -
  obtain tail where tail: "bytes_bits bytes @ tail = pre @ nbits n x @ post" "length tail < 8"
    using B by (auto simp: holds_bits_def)
  have "length (bytes_bits bytes @ tail) = length (pre @ nbits n x @ post)"
    using tail(1) by (rule arg_cong)
  then have len: "length pre + 9 \<le> 8 * length bytes" using tail(2) room by simp
  have "take n (drop (length pre) (bytes_bits bytes))
      = take n (drop (length pre) (bytes_bits bytes @ tail))"
    using len n by simp
  also have "\<dots> = nbits n x" by (simp add: tail)
  finally have "stream_val bytes (length pre) n = take_bit n x"
    by (simp add: stream_val_def bits_val_nbits)
  moreover have "length pre div 8 + 2 \<le> length bytes" using len by presburger
  ultimately show ?thesis using get_bits_reader n by simp
qed

text \<open>The same with the rest of the stream named, as the proofs below consume it.\<close>

lemma get_bits_next:
  assumes "holds_bits bytes (pre @ nbits n x @ post)" and "x < 2 ^ n"
    and "0 < n" "n \<le> 9" "16 \<le> n + length post"
  shows "get_bits n (reader_at bytes (length pre)) = Inr (x, reader_at bytes (length (pre @ nbits n x)))"
    and "holds_bits bytes ((pre @ nbits n x) @ post)"
  using assms get_bits_stream [of bytes pre n x post] by (simp_all add: take_bit_nat_eq_self)

lemma nbits_4_15: "nbits 4 15 = nbits 2 3 @ nbits 2 3"
  using nbits_append [of 2 2 15] nbits_take_bit [of 2 15] by (simp del: nbits_take_bit)

lemma nbits_4_mid:
  assumes "5 \<le> n" and "n < 8"
  shows "nbits 4 (n + 7) = nbits 2 3 @ nbits 2 (n - 5)"
proof -
  have "n = 5 \<or> n = 6 \<or> n = 7" using assms by arith
  then show ?thesis
    using nbits_append [of 2 2 "n + 7"] nbits_take_bit [of 2 "n + 7"]
    by (auto simp: take_bit_eq_mod simp del: nbits_take_bit)
qed

lemma long_length_stream:
  assumes "holds_bits bytes (pre @ concat (map (nbits 4) (replicate k 15 @ [r])) @ post)"
    and "r < 15" and "16 \<le> length post" and "len + 15 * k + r < 65536"
  shows "long_length (reader_at bytes (length pre)) len
    = Inr (len + 15 * k + r, reader_at bytes (length pre + 4 * (k + 1)))"
  using assms
proof (induction k arbitrary: pre len)
  case 0
  then have "get_bits 4 (reader_at bytes (length pre)) = Inr (r, reader_at bytes (length pre + 4))"
    using get_bits_next(1) [of bytes pre 4 r post] by simp
  then show ?case using 0 by (simp add: long_length.simps to_u16_def)
next
  case (Suc k)
  let ?rest = "concat (map (nbits 4) (replicate k 15 @ [r])) @ post"
  have B: "holds_bits bytes (pre @ nbits 4 15 @ ?rest)" using Suc.prems(1) by simp
  have get: "get_bits 4 (reader_at bytes (length pre))
      = Inr (15, reader_at bytes (length (pre @ nbits 4 15)))"
    using get_bits_next(1) [OF B] Suc.prems by simp
  have "long_length (reader_at bytes (length (pre @ nbits 4 15))) (len + 15)
      = Inr (len + 15 + 15 * k + r, reader_at bytes (length (pre @ nbits 4 15) + 4 * (k + 1)))"
    using B Suc.prems by (intro Suc.IH) simp_all
  then show ?case
    using get Suc.prems by (simp add: long_length.simps [of "reader_at bytes (length pre)"]
        to_u16_def algebra_simps)
qed

lemma match_length_stream:
  assumes B: "holds_bits bytes (pre @ len_bits n @ post)"
    and n: "2 \<le> n" "n < 65536" and post: "16 \<le> length post"
  shows "match_length (reader_at bytes (length pre))
    = Inr (n, reader_at bytes (length pre + length (len_bits n)))"
proof -
  consider "n < 5" | "5 \<le> n" "n < 8" | "8 \<le> n" by linarith
  then show ?thesis
  proof cases
    case 1
    then have "get_bits 2 (reader_at bytes (length pre)) = Inr (n - 2, reader_at bytes (length pre + 2))"
      using B n post get_bits_next(1) [of bytes pre 2 "n - 2" post] by (simp add: len_bits_def)
    moreover have "n - 2 \<noteq> 3" "n - 2 + 2 = n" using 1 n by arith+
    ultimately show ?thesis using 1 by (simp add: match_length_def len_bits_def)
  next
    case 2
    have B': "holds_bits bytes (pre @ nbits 2 3 @ nbits 2 (n - 5) @ post)"
      using B 2 by (simp add: len_bits_def nbits_4_mid)
    have one: "get_bits 2 (reader_at bytes (length pre)) = Inr (3, reader_at bytes (length (pre @ nbits 2 3)))"
      using get_bits_next(1) [OF B'] post by simp
    have "get_bits 2 (reader_at bytes (length (pre @ nbits 2 3)))
        = Inr (n - 5, reader_at bytes (length ((pre @ nbits 2 3) @ nbits 2 (n - 5))))"
      using B' post 2 by (intro get_bits_next(1)) auto
    moreover obtain m where m: "n = 5 + m" "m \<noteq> 3" "m < 3"
      using 2 by (auto simp: nat_le_iff_add)
    ultimately show ?thesis using one by (simp add: match_length_def len_bits_def m)
  next
    case 3
    define k where "k = (n + 7) div 15 - 1"
    have k: "(n + 7) div 15 = Suc k" using 3 by (simp add: k_def)
    let ?rest = "concat (map (nbits 4) (replicate k 15 @ [(n + 7) mod 15])) @ post"
    have B': "holds_bits bytes (pre @ nbits 2 3 @ nbits 2 3 @ ?rest)"
      using B 3 by (simp add: len_bits_def long_nibs_def k nbits_4_15)
    have one: "get_bits 2 (reader_at bytes (length pre)) = Inr (3, reader_at bytes (length (pre @ nbits 2 3)))"
      using get_bits_next(1) [OF B'] post by simp
    have two: "get_bits 2 (reader_at bytes (length (pre @ nbits 2 3)))
        = Inr (3, reader_at bytes (length ((pre @ nbits 2 3) @ nbits 2 3)))"
      using B' post by (intro get_bits_next(1)) auto
    have sum: "8 + 15 * k + (n + 7) mod 15 = n"
      using k 3 div_mult_mod_eq [of "n + 7" 15] by simp
    have "long_length (reader_at bytes (length ((pre @ nbits 2 3) @ nbits 2 3))) 8
        = Inr (8 + 15 * k + (n + 7) mod 15,
               reader_at bytes (length ((pre @ nbits 2 3) @ nbits 2 3) + 4 * (k + 1)))"
      using B' post sum n by (intro long_length_stream) auto
    then show ?thesis
      using one two sum 3 by (simp add: match_length_def len_bits_def length_long_nibs k add.left_commute)
  qed
qed

lemma unat_byte: "unat (b :: byte) < 256"
  using unsigned_less [of b] by simp

lemma or_add:
  fixes x :: nat
  assumes "x < 2 ^ k"
  shows "push_bit k a OR x = 2 ^ k * a + x"
proof -
  have "push_bit k a AND x = 0"
    using assms by (intro bit_eqI)
      (auto simp: bit_simps, metis bit_take_bit_iff leD take_bit_nat_eq_self)
  then show ?thesis
    by (simp add: disjunctive_add_eq_or [symmetric] push_bit_eq_mult mult.commute)
qed

lemma and_127:
  fixes x k :: nat
  assumes "x < 128"
  shows "(128 * k + x) AND 127 = x"
proof -
  have "(128 * k + x) AND 127 = take_bit 7 (128 * k + x)"
    by (simp add: take_bit_eq_mask mask_eq_exp_minus_1)
  then show ?thesis using assms by (simp add: take_bit_eq_mod)
qed

lemma match_offset_stream:
  assumes off: "0 < off" "off < 2048"
    and B: "holds_bits bytes (pre @ offset_bits off @ post)" and post: "16 \<le> length post"
  obtains data r where "get_bits 9 (reader_at bytes (length pre)) = Inr (data, r)"
    and "\<not> data < 0x100" and "data \<noteq> 0x180"
    and "match_offset data r = Inr (off, reader_at bytes (length (pre @ offset_bits off)))"
proof (cases "off < 128")
  case True
  have get: "get_bits 9 (reader_at bytes (length pre)) = Inr (384 + off, reader_at bytes (length pre + 9))"
    using B True post get_bits_next(1) [of bytes pre 9 "384 + off" post]
    by (simp add: offset_bits_def)
  have "(384 + off) AND 127 = off"
    using and_127 [of off 3] True by simp
  then show ?thesis
    using True off by (intro that [OF get]) (simp_all add: match_offset_def offset_bits_def)
next
  case False
  define h l where "h = off div 16" and "l = off mod 16"
  have hl: "h < 128" "l < 16" "off = 16 * h + l" using off by (auto simp: h_def l_def)
  have split: "nbits 13 (4096 + off) = nbits 9 (256 + h) @ nbits 4 l"
  proof -
    have "4096 + off = 16 * (256 + h) + l" using hl by simp
    then have "(4096 + off) div 16 = 256 + h" "(4096 + off) mod 16 = l"
      using hl(2) by (simp_all only: div_mult_self4 mod_mult_self4) simp_all
    then show ?thesis
      using nbits_append [of 9 4 "4096 + off"] nbits_take_bit [of 4 "4096 + off"]
      unfolding drop_bit_eq_div take_bit_eq_mod by simp
  qed
  have B': "holds_bits bytes (pre @ nbits 9 (256 + h) @ nbits 4 l @ post)"
    using B False by (simp add: offset_bits_def split)
  have get: "get_bits 9 (reader_at bytes (length pre))
      = Inr (256 + h, reader_at bytes (length (pre @ nbits 9 (256 + h))))"
    using get_bits_next(1) [OF B'] hl post by simp
  have low: "get_bits 4 (reader_at bytes (length (pre @ nbits 9 (256 + h))))
      = Inr (l, reader_at bytes (length ((pre @ nbits 9 (256 + h)) @ nbits 4 l)))"
    using B' hl post by (intro get_bits_next(1)) auto
  have "(256 + h) AND 127 = h"
    using and_127 [of h 2] hl by simp
  then show ?thesis
    using hl low or_add [of l 4 h] False
    by (intro that [OF get]) (simp_all add: match_offset_def offset_bits_def)
qed

section \<open>Decoding a valid token stream\<close>

lemma take_update_snoc: "i < length xs \<Longrightarrow> take (Suc i) (xs[i := x]) = take i xs @ [x]"
  by (simp add: take_Suc_conv_app_nth)

lemma copy_match_spells:
  assumes "0 < off" "off \<le> p" "p + n \<le> length src" "p + n \<le> length dst"
    and "\<forall>i < n. src ! (p + i) = src ! (p - off + i)" and "take p dst = take p src"
  shows "take (p + n) (fst (copy_match off n dst p)) = take (p + n) src
    \<and> length (fst (copy_match off n dst p)) = length dst \<and> snd (copy_match off n dst p) = p + n"
  using assms
proof (induction n arbitrary: dst p)
  case (Suc n)
  have "dst ! (p - off) = take p dst ! (p - off)" using Suc.prems(1,2) by simp
  also have "\<dots> = src ! (p - off)" using Suc.prems(1,2,6) by simp
  also have "\<dots> = src ! p" using Suc.prems(5) by (metis add_0_right zero_less_Suc)
  finally have byte: "dst ! (p - off) = src ! p" .
  have "take (Suc p) (dst[p := dst ! (p - off)]) = take (Suc p) src"
    using Suc.prems byte by (simp add: take_update_snoc take_Suc_conv_app_nth)
  moreover have "src ! (Suc p + i) = src ! (Suc p - off + i)" if "i < n" for i
    using Suc.prems(2,5) that by (metis Suc_diff_le Suc_mono add_Suc_shift)
  ultimately show ?case
    using Suc.IH [of "Suc p" "dst[p := dst ! (p - off)]"] Suc.prems by simp
qed simp

lemma decompress_stream:
  assumes "toks_ok src p ts (length src)"
    and "holds_bits bytes (pre @ stream_bits ts)"
    and "take p dst = take p src" and "length src \<le> length dst" and "length src \<le> 65536"
  shows "\<exists>dst'. lzs_decompress_loop dst p (reader_at bytes (length pre)) = Inr (dst', length src)
    \<and> take (length src) dst' = src \<and> length dst' = length dst"
  using assms
proof (induction ts arbitrary: p pre dst)
  case Nil
  have "nbits 16 0xc000 = nbits 9 0x180 @ nbits 7 0"
    using nbits_append [of 9 7 49152] nbits_take_bit [of 7 49152]
    by (simp add: drop_bit_eq_div take_bit_eq_mod del: nbits_take_bit)
  then have "get_bits 9 (reader_at bytes (length pre)) = Inr (0x180, reader_at bytes (length pre + 9))"
    using Nil.prems get_bits_next(1) [of bytes pre 9 384 "nbits 7 0"]
    by (simp add: stream_bits_def)
  then show ?case using Nil.prems by (simp add: lzs_decompress_loop.simps)
next
  case (Cons t ts)
  have rest: "16 \<le> length (stream_bits ts)" by (simp add: stream_bits_def)
  have B: "holds_bits bytes ((pre @ tok_bits t) @ stream_bits ts)"
    using Cons.prems(2) by (simp add: stream_bits_def)
  have p': "p + tok_len t \<le> length src" "toks_ok src (p + tok_len t) ts (length src)"
    using Cons.prems(1) by (cases t; simp)+
  show ?case
  proof (cases t)
    case (Lit b)
    have get: "get_bits 9 (reader_at bytes (length pre))
        = Inr (unat b, reader_at bytes (length (pre @ tok_bits t)))"
      using B rest get_bits_next(1) [of bytes pre 9 "unat b" "stream_bits ts"] unat_byte [of b]
      by (simp add: Lit)
    have "take (p + 1) (dst[p := b]) = take (p + 1) src"
      using Cons.prems p' by (simp add: Lit take_update_snoc take_Suc_conv_app_nth)
    then have "\<exists>dst'. lzs_decompress_loop (dst[p := b]) (p + 1)
        (reader_at bytes (length (pre @ tok_bits t))) = Inr (dst', length src)
      \<and> take (length src) dst' = src \<and> length dst' = length (dst[p := b])"
      using Cons.prems(4,5) p' B by (intro Cons.IH) (simp_all add: Lit)
    then show ?thesis
      using get Cons.prems p' unat_byte [of b]
      by (simp add: Lit lzs_decompress_loop.simps [of dst p "reader_at bytes (length pre)"])
  next
    case (Copy off n)
    have ok: "0 < off" "off \<le> p" "off < 2048" "2 \<le> n" "p + n \<le> length src"
      "\<forall>i < n. src ! (p + i) = src ! (p - off + i)"
      using Cons.prems(1) by (simp_all add: Copy)
    have B': "holds_bits bytes (pre @ offset_bits off @ len_bits n @ stream_bits ts)"
      using B by (simp add: Copy)
    obtain data r where get: "get_bits 9 (reader_at bytes (length pre)) = Inr (data, r)"
      "\<not> data < 0x100" "data \<noteq> 0x180"
      "match_offset data r = Inr (off, reader_at bytes (length (pre @ offset_bits off)))"
      using match_offset_stream [OF ok(1,3) B'] rest by auto
    have len: "match_length (reader_at bytes (length (pre @ offset_bits off)))
        = Inr (n, reader_at bytes (length (pre @ tok_bits t)))"
      using match_length_stream [of bytes "pre @ offset_bits off" n "stream_bits ts"]
        B' rest ok Cons.prems(5) by (simp add: Copy add.assoc)
    let ?dst = "fst (copy_match off n dst p)"
    have copy: "take (p + n) ?dst = take (p + n) src" "length ?dst = length dst"
      "snd (copy_match off n dst p) = p + n"
      using copy_match_spells [OF ok(1,2,5) _ ok(6), of dst] ok Cons.prems by auto
    have "\<exists>dst'. lzs_decompress_loop ?dst (p + n)
        (reader_at bytes (length (pre @ tok_bits t))) = Inr (dst', length src)
      \<and> take (length src) dst' = src \<and> length dst' = length ?dst"
      using Cons.prems(4,5) p' B copy by (intro Cons.IH) (simp_all add: Copy)
    then show ?thesis
      using get len copy ok Cons.prems(4)
      by (simp add: lzs_decompress_loop.simps [of dst p "reader_at bytes (length pre)"])
  qed
qed

end
