(* ===== verification/LzsRoundtrip.thy ===== *)
theory LzsRoundtrip
  imports LzsTokens
begin

text \<open>
  What lzs_compress writes is the encoding of a token list that spells its input: the
  emitters append exactly the bits of a token, the hash history only ever yields earlier
  positions with the same two bytes, and the match search returns a real match. With the
  decoder's theorem this gives the round trip and the bound on the output size.
\<close>

section \<open>Emitters\<close>

text \<open>\<open>emits d r w bs\<close>: the outcome \<open>r\<close> of writing \<open>bs\<close> after \<open>w\<close> into a buffer of \<open>d\<close> bytes.\<close>

definition emits :: "nat \<Rightarrow> writer lzs \<Rightarrow> writer \<Rightarrow> bool list \<Rightarrow> bool" where
  "emits dstlen r w bs \<longleftrightarrow>
     (case r of
        Inl e \<Rightarrow> e = EFBIG \<and> dstlen < (length (written w) + length bs) div 8
      | Inr w' \<Rightarrow> writer_ok dstlen w' \<and> written w' = written w @ bs)"

lemma emits_put_bits:
  "writer_ok d w \<Longrightarrow> 0 < nr \<Longrightarrow> nr \<le> 16 \<Longrightarrow> x < 2 ^ nr \<Longrightarrow>
    emits d (put_bits d nr x w) w (nbits nr x)"
  using put_bits_written [of d w nr x] by (simp add: emits_def split: sum.splits)

lemma emits_seq:
  assumes "emits d r w bs" and "\<And>w1. r = Inr w1 \<Longrightarrow> writer_ok d w1 \<Longrightarrow> emits d (f w1) w1 cs"
  shows "emits d (case r of Inl e \<Rightarrow> Inl e | Inr w1 \<Rightarrow> f w1) w (bs @ cs)"
proof (cases r)
  case (Inl e)
  then have "e = EFBIG" "d < (length (written w) + length bs) div 8"
    using assms(1) by (auto simp: emits_def)
  moreover have "(length (written w) + length bs) div 8
      \<le> (length (written w) + (length bs + length cs)) div 8"
    by (intro div_le_mono) simp
  ultimately show ?thesis using Inl by (simp add: emits_def)
next
  case (Inr w1)
  then have "writer_ok d w1" "written w1 = written w @ bs"
    using assms(1) by (auto simp: emits_def)
  then show ?thesis using assms(2) [OF Inr] Inr by (auto simp: emits_def split: sum.splits)
qed

lemma put_offset_emits:
  assumes "writer_ok d w" and "off < 2048"
  shows "emits d (put_offset d off w) w (offset_bits off)"
proof (cases "off < 128")
  case True
  have "384 OR off = 384 + off" using or_add [of off 7 3] True by simp
  then show ?thesis
    using assms True emits_put_bits [of d w 9 "384 + off"] by (simp add: put_offset_def offset_bits_def)
next
  case False
  have "4096 OR off = 4096 + off" using or_add [of off 12 1] assms(2) by simp
  then show ?thesis
    using assms False emits_put_bits [of d w 13 "4096 + off"]
    by (simp add: put_offset_def offset_bits_def)
qed

lemma nbits_8_15: "x < 16 \<Longrightarrow> nbits 8 (240 + x) = nbits 4 15 @ nbits 4 x"
proof -
  assume x: "x < 16"
  have "(240 + x) div 16 = 15" "(240 + x) mod 16 = x"
    using x div_mult_self1 [of 16 x 15] mod_mult_self1 [of x 15 16] by (simp_all add: add.commute)
  then show ?thesis
    using nbits_append [of 4 4 "240 + x"] nbits_take_bit [of 4 "240 + x"]
    unfolding drop_bit_eq_div take_bit_eq_mod by simp
qed

lemma put_long_length_emits:
  "writer_ok d w \<Longrightarrow> emits d (put_long_length d n w) w (long_nibs n)"
proof (induction d n w rule: put_long_length.induct)
  case (1 d n w)
  consider "30 \<le> n" | "15 \<le> n" "n < 30" | "n < 15" by linarith
  then show ?case
  proof cases
    case 1
    have "long_nibs n = nbits 8 0xff @ long_nibs (n - 30)"
    proof -
      have "n div 15 = Suc (Suc ((n - 30) div 15))" "n mod 15 = (n - 30) mod 15"
        using 1 by (simp_all add: le_div_geq le_mod_geq)
      then show ?thesis using nbits_8_15 [of 15] by (simp add: long_nibs_def)
    qed
    moreover have "emits d (case put_bits d 8 0xff w of Inl e \<Rightarrow> Inl e
        | Inr w1 \<Rightarrow> put_long_length d (n - 30) w1) w (nbits 8 0xff @ long_nibs (n - 30))"
      using "1.prems" "1.IH" [OF 1] by (intro emits_seq emits_put_bits) auto
    ultimately show ?thesis using 1 by (simp add: put_long_length.simps [of d n])
  next
    case 2
    then obtain m where n: "n = 15 + m" "m < 15"
      by (metis add_less_cancel_left le_Suc_ex numeral_Bit0)
    have "(15 + m) div 15 = Suc 0" using n(2) by (simp add: le_div_geq)
    then have "long_nibs n = nbits 8 (240 + m)"
      using nbits_8_15 [of m] n by (simp add: long_nibs_def)
    then show ?thesis
      using "1.prems" n emits_put_bits [of d w 8 "240 + m"]
      by (simp add: put_long_length.simps [of d "15 + m"])
  next
    case 3
    then show ?thesis
      using "1.prems" emits_put_bits [of d w 4 n]
      by (simp add: put_long_length.simps [of d n] long_nibs_def)
  qed
qed

lemma put_length_emits:
  assumes "writer_ok d w" and "2 \<le> n"
  shows "emits d (put_length d n w) w (len_bits n)"
proof -
  consider "n < 5" | "5 \<le> n" "n < 8" | "8 \<le> n" by linarith
  then show ?thesis
  proof cases
    case 1
    then show ?thesis
      using assms emits_put_bits [of d w 2 "n - 2"] by (simp add: put_length_def len_bits_def)
  next
    case 2
    then show ?thesis
      using assms emits_put_bits [of d w 4 "n + 7"] by (simp add: put_length_def len_bits_def)
  next
    case 3
    then show ?thesis
      using assms put_long_length_emits [of d w "n + 7"] by (simp add: put_length_def len_bits_def)
  qed
qed

section \<open>The hash history\<close>

definition table_ok :: "byte list \<Rightarrow> nat \<Rightarrow> history \<Rightarrow> bool" where
  "table_ok src pos h \<longleftrightarrow> (\<forall>x. hash_table h x = INVALID_OFS
     \<or> (hash_table h x < pos \<and> HASH src (hash_table h x) = x))"

definition chain_ok :: "byte list \<Rightarrow> nat \<Rightarrow> (nat \<Rightarrow> nat) \<Rightarrow> bool" where
  "chain_ok src pos chain \<longleftrightarrow> (\<forall>q < pos. pos \<le> q + MAX_HISTORY \<longrightarrow>
     (let e = chain (q AND (MAX_HISTORY - 1)) in
      e = INVALID_OFS \<or> (e < q \<and> HASH src e = HASH src q)))"

definition hist_ok :: "byte list \<Rightarrow> nat \<Rightarrow> history \<Rightarrow> bool" where
  "hist_ok src pos h \<longleftrightarrow> table_ok src pos h \<and> chain_ok src pos (hash_chain h)"

lemma ring_index: "q AND (MAX_HISTORY - 1) = q mod 2048"
  using take_bit_eq_mask [of 11 q] by (simp add: MAX_HISTORY_def take_bit_eq_mod mask_eq_exp_minus_1)

lemma ring_distinct:
  assumes "q < pos" and "pos < q + 2048"
  shows "q mod 2048 \<noteq> pos mod (2048 :: nat)"
proof
  assume "q mod 2048 = pos mod 2048"
  then have "(pos - q) mod 2048 = 0" using assms(1) by (metis less_imp_le mod_eq_dvd_iff_nat mod_0_imp_dvd dvd_eq_mod_eq_0)
  then show False using assms by simp
qed

lemma insert_hash_ok:
  assumes "hist_ok src pos h" and "pos < 65535"
  shows "hist_ok src (pos + 1) (insert_hash (HASH src pos) pos h)"
proof -
  have table: "hash_table h (HASH src pos) = INVALID_OFS
      \<or> (hash_table h (HASH src pos) < pos
         \<and> HASH src (hash_table h (HASH src pos)) = HASH src pos)"
    using assms(1) by (simp add: hist_ok_def table_ok_def)
  have "chain_ok src (pos + 1) ((hash_chain h)(pos AND (MAX_HISTORY - 1) := hash_table h (HASH src pos)))"
    unfolding chain_ok_def
  proof (intro allI impI)
    fix q assume q: "q < pos + 1" "pos + 1 \<le> q + MAX_HISTORY"
    show "let e = ((hash_chain h)(pos AND (MAX_HISTORY - 1) := hash_table h (HASH src pos)))
        (q AND (MAX_HISTORY - 1)) in e = INVALID_OFS \<or> (e < q \<and> HASH src e = HASH src q)"
    proof (cases "q = pos")
      case True
      then show ?thesis using table by (simp add: Let_def)
    next
      case False
      then have "q mod 2048 \<noteq> pos mod 2048"
        using q ring_distinct [of q pos] by (simp add: MAX_HISTORY_def)
      moreover have "let e = hash_chain h (q AND (MAX_HISTORY - 1)) in
          e = INVALID_OFS \<or> (e < q \<and> HASH src e = HASH src q)"
        using assms(1) q False by (simp add: hist_ok_def chain_ok_def)
      ultimately show ?thesis by (simp only: ring_index) simp
    qed
  qed
  moreover have "table_ok src (pos + 1) (insert_hash (HASH src pos) pos h)"
    using assms by (auto simp: hist_ok_def table_ok_def insert_hash_def to_u16_def less_Suc_eq)
  ultimately show ?thesis by (simp add: hist_ok_def insert_hash_def)
qed

lemma hash_at_eq: "i + 1 < length src \<Longrightarrow> hash_at src i = Inr (HASH src i)"
  by (simp add: hash_at_def)

lemma insert_rest_ok:
  assumes "hist_ok src pos h" and "pos + n + 1 < length src" and "length src \<le> 65536"
  shows "\<exists>h'. insert_rest src n pos h = Inr (pos + n, h') \<and> hist_ok src (pos + n) h'"
  using assms
proof (induction n arbitrary: pos h)
  case (Suc n)
  then show ?case
    using Suc.IH [of "pos + 1" "insert_hash (HASH src pos) pos h"] insert_hash_ok [of src pos h]
    by (simp add: hash_at_eq)
qed simp

lemma HASH_eq_bytes: "HASH src i = HASH src j \<Longrightarrow> src ! i = src ! j \<and> src ! (i + 1) = src ! (j + 1)"
proof -
  assume eq: "HASH src i = HASH src j"
  have "unat (src ! i) = HASH src i mod 256" "unat (src ! (i + 1)) = HASH src i div 256" for i
    using unat_byte [of "src ! i"] by (simp_all add: HASH_def)
  then show ?thesis using eq by (metis word_unat_eq_iff)
qed

section \<open>The match search\<close>

definition matches :: "byte list \<Rightarrow> nat \<Rightarrow> nat \<Rightarrow> nat \<Rightarrow> bool" where
  "matches src ofs pos n \<longleftrightarrow> (\<forall>i < n. src ! (pos + i) = src ! (ofs + i))"

lemma matches_Suc: "matches src ofs pos (Suc n) \<longleftrightarrow>
    matches src ofs pos n \<and> src ! (pos + n) = src ! (ofs + n)"
  by (auto simp: matches_def less_Suc_eq)

lemma extend_match_ok:
  assumes "hofs < pos" and "len + pos < length src" and "matches src hofs pos (len + 1)"
    and "length src \<le> 65536"
  shows "\<exists>len' stop. extend_match src pos hofs len = Inr (len', stop) \<and> len < len'
    \<and> len' + pos \<le> length src \<and> (\<not> stop \<longrightarrow> len' + pos < length src)
    \<and> matches src hofs pos len'"
  using assms(2,3)
proof (induction "length src - (len + pos)" arbitrary: len rule: less_induct)
  case less
  have u16: "to_u16 (len + 1) = len + 1"
    using less.prems assms by (simp add: to_u16_def)
  consider "len + 1 + pos = length src"
    | "len + 1 + pos < length src" "src ! (len + 1 + pos) = src ! (len + 1 + hofs)"
    | "len + 1 + pos < length src" "src ! (len + 1 + pos) \<noteq> src ! (len + 1 + hofs)"
    using less.prems by linarith
  then show ?case
  proof cases
    case 1
    then show ?thesis
      using less.prems u16 by (auto simp: extend_match.simps [of src pos hofs len])
  next
    case 2
    have dec: "length src - (len + 1 + pos) < length src - (len + pos)" using 2 by arith
    have "matches src hofs pos (len + 1 + 1)"
      using less.prems 2 by (simp add: matches_Suc add.commute)
    then obtain len' stop where "extend_match src pos hofs (len + 1) = Inr (len', stop)"
      "len + 1 < len'" "len' + pos \<le> length src" "\<not> stop \<longrightarrow> len' + pos < length src"
      "matches src hofs pos len'"
      using less.hyps [OF dec] 2 by auto
    then show ?thesis
      using 2 u16 assms(1) by (auto simp add: extend_match.simps [of src pos hofs len] Let_def)
  next
    case 3
    then show ?thesis
      using less.prems u16 assms(1)
      by (auto simp: extend_match.simps [of src pos hofs len] Let_def intro!: exI [of _ False])
  qed
qed

lemma mem_equal_ok:
  assumes "hofs < pos" and "len + pos < length src" and "2 \<le> len" and "matches src hofs pos 2"
  shows "mem_equal src (hofs + 2) (pos + 2) (len - 1) = Inr (matches src hofs pos (len + 1))"
proof -
  have "take (len - 1) (drop (hofs + 2) src) = take (len - 1) (drop (pos + 2) src)
      \<longleftrightarrow> (\<forall>i < len - 1. src ! (hofs + 2 + i) = src ! (pos + 2 + i))"
    using assms by (auto simp: list_eq_iff_nth_eq)
  also have "\<dots> \<longleftrightarrow> matches src hofs pos (len + 1)"
  proof
    assume tail: "\<forall>i < len - 1. src ! (hofs + 2 + i) = src ! (pos + 2 + i)"
    show "matches src hofs pos (len + 1)"
      unfolding matches_def
    proof (intro allI impI)
      fix i assume i: "i < len + 1"
      show "src ! (pos + i) = src ! (hofs + i)"
      proof (cases "i < 2")
        case True
        then show ?thesis using assms(4) by (simp add: matches_def)
      next
        case False
        then obtain j where "i = 2 + j" by (metis le_Suc_ex not_less)
        then show ?thesis using tail [rule_format, of j] i by (simp add: add.assoc)
      qed
    qed
  next
    assume m: "matches src hofs pos (len + 1)"
    show "\<forall>i < len - 1. src ! (hofs + 2 + i) = src ! (pos + 2 + i)"
      using m [unfolded matches_def, rule_format, of "2 + i" for i]
      by (auto simp: add.assoc)
  qed
  finally show ?thesis using assms by (simp add: mem_equal_def)
qed

definition found_match :: "byte list \<Rightarrow> nat \<Rightarrow> nat \<times> nat \<Rightarrow> bool" where
  "found_match src pos m \<longleftrightarrow> (case m of (len, ofs) \<Rightarrow>
     ofs < pos \<and> pos < ofs + 2048 \<and> 2 \<le> len \<and> len + pos \<le> length src \<and> matches src ofs pos len)"

definition candidate :: "byte list \<Rightarrow> nat \<Rightarrow> nat \<Rightarrow> bool" where
  "candidate src pos hofs \<longleftrightarrow>
     hofs = INVALID_OFS \<or> (hofs < pos \<and> HASH src hofs = HASH src pos)"

lemma candidate_matches: "candidate src pos hofs \<Longrightarrow> hofs \<noteq> INVALID_OFS \<Longrightarrow> matches src hofs pos 2"
  using HASH_eq_bytes [of src hofs pos] by (auto simp: candidate_def matches_def less_2_cases_iff)

lemma candidate_next:
  assumes "chain_ok src (pos + 1) chain" and "candidate src pos hofs"
    and "hofs \<noteq> INVALID_OFS" and "pos < hofs + MAX_HISTORY"
  shows "candidate src pos (chain (hofs AND (MAX_HISTORY - 1)))"
    and "chain (hofs AND (MAX_HISTORY - 1)) \<noteq> INVALID_OFS
      \<Longrightarrow> chain (hofs AND (MAX_HISTORY - 1)) < hofs"
proof -
  have "hofs < pos" "HASH src hofs = HASH src pos"
    using assms(2,3) by (simp_all add: candidate_def)
  moreover have "let e = chain (hofs AND (MAX_HISTORY - 1)) in
      e = INVALID_OFS \<or> (e < hofs \<and> HASH src e = HASH src hofs)"
    using assms(1,4) calculation(1) by (simp add: chain_ok_def)
  ultimately show "candidate src pos (chain (hofs AND (MAX_HISTORY - 1)))"
    and "chain (hofs AND (MAX_HISTORY - 1)) \<noteq> INVALID_OFS
      \<Longrightarrow> chain (hofs AND (MAX_HISTORY - 1)) < hofs"
    by (auto simp: candidate_def Let_def)
qed

lemma longest_match_ok:
  assumes "chain_ok src (pos + 1) chain" and "length src \<le> 65536"
    and "candidate src pos hofs" and "found_match src pos (len, ofs)" and "len + pos < length src"
    and "hofs \<noteq> INVALID_OFS \<longrightarrow> hofs + 2048 < pos + fuel" and "0 < fuel"
  shows "\<exists>m. longest_match fuel src chain pos hofs len ofs = Inr m \<and> found_match src pos m"
  using assms(3-7)
proof (induction fuel arbitrary: hofs len ofs)
  case (Suc fuel)
  let ?next = "chain (hofs AND (MAX_HISTORY - 1))"
  show ?case
  proof (cases "hofs \<noteq> INVALID_OFS \<and> pos < hofs + MAX_HISTORY")
    case False
    then show ?thesis using Suc.prems by auto
  next
    case go: True
    have hofs: "hofs < pos" "pos < hofs + 2048" "matches src hofs pos 2"
      using go Suc.prems candidate_matches by (auto simp: candidate_def MAX_HISTORY_def)
    have nxt: "candidate src pos ?next" "?next \<noteq> INVALID_OFS \<longrightarrow> ?next < hofs"
      using candidate_next [OF assms(1) Suc.prems(1)] go by auto
    then have fuel: "?next \<noteq> INVALID_OFS \<longrightarrow> ?next + 2048 < pos + fuel" "0 < fuel"
      using Suc.prems(4) hofs go by auto
    have len: "2 \<le> len" "len + pos < length src"
      using Suc.prems by (simp_all add: found_match_def)
    have mem: "mem_equal src (hofs + 2) (pos + 2) (len - 1) = Inr (matches src hofs pos (len + 1))"
      using mem_equal_ok hofs len by simp
    show ?thesis
    proof (cases "matches src hofs pos (len + 1)")
      case False
      then show ?thesis
        using go mem Suc.IH [OF nxt(1) Suc.prems(2,3) fuel] by simp
    next
      case True
      obtain len' stop where ext: "extend_match src pos hofs len = Inr (len', stop)"
        "len < len'" "len' + pos \<le> length src" "\<not> stop \<longrightarrow> len' + pos < length src"
        "matches src hofs pos len'"
        using extend_match_ok [OF hofs(1) len(2) True assms(2)] by auto
      have found: "found_match src pos (len', hofs)"
        using ext hofs len by (simp add: found_match_def)
      show ?thesis
      proof (cases stop)
        case True
        then show ?thesis using go mem ext found \<open>matches src hofs pos (len + 1)\<close> by simp
      next
        case False
        then show ?thesis
          using go mem ext \<open>matches src hofs pos (len + 1)\<close> Suc.IH [OF nxt(1) found _ fuel] by simp
      qed
    qed
  qed
qed simp

section \<open>The main loop\<close>

lemma found_match_token:
  "found_match src pos (len, ofs) \<Longrightarrow> tok_ok src pos (Copy (pos - ofs) len)"
  by (auto simp: found_match_def matches_def)

definition compressed ::
  "nat \<Rightarrow> byte list \<Rightarrow> nat \<Rightarrow> writer \<Rightarrow> (nat \<times> history \<times> writer) lzs \<Rightarrow> bool" where
  "compressed d src pos w r \<longleftrightarrow>
     (case r of
        Inl e \<Rightarrow> e = EFBIG \<and> d < (length (written w) + 9 * (length src - pos)) div 8
      | Inr (pos', h', w') \<Rightarrow> pos' \<le> length src \<and> length src \<le> pos' + 2 \<and> table_ok src pos' h'
          \<and> writer_ok d w' \<and> (\<exists>ts. toks_ok src pos ts pos'
              \<and> written w' = written w @ concat (map tok_bits ts)))"

text \<open>A first token written, and the rest of the input compressed after it.\<close>

lemma compressed_step:
  assumes tok: "tok_ok src pos t" and em: "emits d r w (tok_bits t)"
    and rest: "\<And>w1. r = Inr w1 \<Longrightarrow> writer_ok d w1 \<Longrightarrow> compressed d src (pos + tok_len t) w1 (f w1)"
  shows "compressed d src pos w (case r of Inl e \<Rightarrow> Inl e | Inr w1 \<Rightarrow> f w1)"
proof -
  have fits: "pos + tok_len t \<le> length src" using tok by (cases t) auto
  then have bits: "length (tok_bits t) + 9 * (length src - (pos + tok_len t)) \<le> 9 * (length src - pos)"
    using length_tok_bits [OF tok] by simp
  show ?thesis
  proof (cases r)
    case (Inl e)
    have "(length (written w) + length (tok_bits t)) div 8
        \<le> (length (written w) + 9 * (length src - pos)) div 8"
      using bits by (intro div_le_mono) simp
    then show ?thesis using em Inl by (simp add: emits_def compressed_def)
  next
    case (Inr w1)
    have w1: "writer_ok d w1" "written w1 = written w @ tok_bits t"
      using em Inr by (auto simp: emits_def)
    have less: "(length (written w1) + 9 * (length src - (pos + tok_len t))) div 8
        \<le> (length (written w) + 9 * (length src - pos)) div 8"
      using bits w1 by (intro div_le_mono) simp
    have "compressed d src (pos + tok_len t) w1 (f w1)" using rest Inr w1 by blast
    then show ?thesis
    proof (cases "f w1")
      case (Inl e)
      then show ?thesis
        using \<open>compressed d src (pos + tok_len t) w1 (f w1)\<close> less Inr by (simp add: compressed_def)
    next
      case (Inr res)
      obtain pos' h' w' where res: "res = (pos', h', w')" by (cases res)
      obtain ts where "toks_ok src (pos + tok_len t) ts pos'"
        "written w' = written w1 @ concat (map tok_bits ts)"
        using \<open>compressed d src (pos + tok_len t) w1 (f w1)\<close> Inr res by (auto simp: compressed_def)
      then have "toks_ok src pos (t # ts) pos'"
        "written w' = written w @ concat (map tok_bits (t # ts))"
        using tok w1 by simp_all
      then have "\<exists>ts. toks_ok src pos ts pos' \<and> written w' = written w @ concat (map tok_bits ts)"
        by blast
      moreover have "pos' \<le> length src \<and> length src \<le> pos' + 2 \<and> table_ok src pos' h' \<and> writer_ok d w'"
        using \<open>compressed d src (pos + tok_len t) w1 (f w1)\<close> Inr res by (simp add: compressed_def)
      ultimately show ?thesis
        using Inr res \<open>r = Inr w1\<close> by (simp add: compressed_def)
    qed
  qed
qed

lemma compressed_stop:
  assumes "pos \<le> length src" "length src \<le> pos + 2" "table_ok src pos h" "writer_ok d w"
  shows "compressed d src pos w (Inr (pos, h, w))"
  using assms by (simp add: compressed_def) (rule exI [of _ "[]"], simp)

lemma table_ok_mono: "table_ok src pos h \<Longrightarrow> pos \<le> pos' \<Longrightarrow> table_ok src pos' h"
  by (auto simp: table_ok_def intro: less_le_trans)

lemma compress_loop_ok:
  assumes "hist_ok src pos h" and "writer_ok d w" and "pos \<le> length src" and "length src \<le> 65536"
  shows "compressed d src pos w (lzs_compress_loop d src pos h w)"
  using assms
proof (induction "length src - pos" arbitrary: pos h w rule: less_induct)
  case less
  show ?case
  proof (cases "pos + 2 < length src")
    case False
    then show ?thesis
      using less.prems compressed_stop
      by (simp add: lzs_compress_loop.simps [of d src pos] hist_ok_def)
  next
    case True
    let ?x = "HASH src pos" and ?hofs = "hash_table h (HASH src pos)"
    let ?h1 = "insert_hash ?x pos h"
    have h1: "hist_ok src (pos + 1) ?h1"
      using insert_hash_ok less.prems True by simp
    have step: "lzs_compress_loop d src pos h w =
      (if ?hofs = INVALID_OFS \<or> ?hofs + MAX_HISTORY \<le> pos then
         (case put_bits d 9 (unat (src ! pos)) w of
            Inl e \<Rightarrow> Inl e | Inr w1 \<Rightarrow> lzs_compress_loop d src (pos + 1) ?h1 w1)
       else
         (case longest_match (MAX_HISTORY + 1) src (hash_chain ?h1) pos ?hofs 2 ?hofs of
            Inl e \<Rightarrow> Inl e
          | Inr (len, ofs) \<Rightarrow>
              (case put_offset d (pos - ofs) w of
                 Inl e \<Rightarrow> Inl e
               | Inr w1 \<Rightarrow>
                   (case put_length d len w1 of
                      Inl e \<Rightarrow> Inl e
                    | Inr w2 \<Rightarrow>
                        if length src \<le> pos + len + 2 then Inr (pos + len, ?h1, w2)
                        else
                          (case insert_rest src (len - 1) (pos + 1) ?h1 of
                             Inl e \<Rightarrow> Inl e
                           | Inr (pos', h2) \<Rightarrow> lzs_compress_loop d src pos' h2 w2)))))"
      using True by (simp add: lzs_compress_loop.simps [of d src pos h w] hash_at_eq Let_def)
    show ?thesis
    proof (cases "?hofs = INVALID_OFS \<or> ?hofs + MAX_HISTORY \<le> pos")
      case lit: True
      have "compressed d src pos w (case put_bits d 9 (unat (src ! pos)) w of
            Inl e \<Rightarrow> Inl e | Inr w1 \<Rightarrow> lzs_compress_loop d src (pos + 1) ?h1 w1)"
      proof (rule compressed_step [where t = "Lit (src ! pos)"])
        show "emits d (put_bits d 9 (unat (src ! pos)) w) w (tok_bits (Lit (src ! pos)))"
          using emits_put_bits [of d w 9 "unat (src ! pos)"] less.prems unat_byte [of "src ! pos"]
          by simp
        show "compressed d src (pos + tok_len (Lit (src ! pos))) w1
            (lzs_compress_loop d src (pos + 1) ?h1 w1)" if "writer_ok d w1" for w1
          using less.hyps [of "pos + 1" ?h1 w1] h1 that True less.prems by simp
      qed (use True in simp)
      then show ?thesis using step lit by simp
    next
      case False
      have "table_ok src pos h" using less.prems by (simp add: hist_ok_def)
      then have hofs: "?hofs < pos" "HASH src ?hofs = ?x" "pos < ?hofs + 2048" "?hofs \<noteq> INVALID_OFS"
        using False by (auto simp: table_ok_def MAX_HISTORY_def)
      have cand: "candidate src pos ?hofs" using hofs by (simp add: candidate_def)
      then have "found_match src pos (2, ?hofs)"
        using hofs candidate_matches True by (simp add: found_match_def)
      then obtain len ofs where m: "found_match src pos (len, ofs)"
        "longest_match (MAX_HISTORY + 1) src (hash_chain ?h1) pos ?hofs 2 ?hofs = Inr (len, ofs)"
        using longest_match_ok [of src pos "hash_chain ?h1" ?hofs 2 ?hofs "MAX_HISTORY + 1"]
          cand h1 hofs True less.prems by (auto simp: hist_ok_def MAX_HISTORY_def)
      have fm: "ofs < pos" "pos < ofs + 2048" "2 \<le> len" "len + pos \<le> length src"
        using m(1) by (simp_all add: found_match_def)
      let ?rest = "\<lambda>w2. if length src \<le> pos + len + 2 then Inr (pos + len, ?h1, w2)
          else (case insert_rest src (len - 1) (pos + 1) ?h1 of Inl e \<Rightarrow> Inl e
                | Inr (pos', h2) \<Rightarrow> lzs_compress_loop d src pos' h2 w2)"
      have rest: "compressed d src (pos + len) w2 (?rest w2)" if w2: "writer_ok d w2" for w2
      proof (cases "length src \<le> pos + len + 2")
        case True
        have "table_ok src (pos + len) ?h1"
          using h1 fm by (auto simp: hist_ok_def intro: table_ok_mono)
        then show ?thesis using True fm w2 by (simp add: compressed_stop)
      next
        case False
        then obtain h2 where "insert_rest src (len - 1) (pos + 1) ?h1 = Inr (pos + len, h2)"
          "hist_ok src (pos + len) h2"
          using insert_rest_ok [OF h1, of "len - 1"] fm less.prems by auto
        then show ?thesis
          using False w2 fm less.prems less.hyps [of "pos + len" h2 w2] by simp
      qed
      have "compressed d src pos w
        (case (case put_offset d (pos - ofs) w of Inl e \<Rightarrow> Inl e | Inr w1 \<Rightarrow> put_length d len w1) of
           Inl e \<Rightarrow> Inl e | Inr w2 \<Rightarrow> ?rest w2)"
      proof (rule compressed_step [OF found_match_token [OF m(1)]])
        show "emits d (case put_offset d (pos - ofs) w of Inl e \<Rightarrow> Inl e | Inr w1 \<Rightarrow> put_length d len w1)
            w (tok_bits (Copy (pos - ofs) len))"
          unfolding tok_bits.simps
          using less.prems fm by (intro emits_seq put_offset_emits put_length_emits) auto
        show "compressed d src (pos + tok_len (Copy (pos - ofs) len)) w1 (?rest w1)"
          if "writer_ok d w1" for w1
          using rest [OF that] by simp
      qed
      then show ?thesis
        using step False m(2) by (auto split: sum.splits)
    qed
  qed
qed

section \<open>The tail and the end marker\<close>

definition tail_ok :: "nat \<Rightarrow> byte list \<Rightarrow> nat \<Rightarrow> writer \<Rightarrow> writer lzs \<Rightarrow> bool" where
  "tail_ok d src pos w r \<longleftrightarrow>
     (\<exists>ts. toks_ok src pos ts (length src) \<and> emits d r w (concat (map tok_bits ts)))"

lemma compress_tail_ok:
  assumes pos: "pos \<le> length src" "length src \<le> pos + 2" and table: "table_ok src pos h"
    and w: "writer_ok d w"
  shows "tail_ok d src pos w (lzs_compress_tail d src pos h w)"
proof -
  have lit: "emits d (put_bits d 9 (unat b) v) v (tok_bits (Lit b))" if "writer_ok d v" for b v
    using emits_put_bits [OF that, of 9 "unat b"] unat_byte [of b] by simp
  consider "pos + 2 = length src" | "pos + 1 = length src" | "pos = length src"
    using pos by linarith
  then show ?thesis
  proof cases
    case two: 1
    let ?hofs = "hash_table h (HASH src pos)"
    show ?thesis
    proof (cases "?hofs \<noteq> INVALID_OFS \<and> pos < ?hofs + MAX_HISTORY")
      case True
      then have hofs: "?hofs < pos" "HASH src ?hofs = HASH src pos" "pos < ?hofs + 2048"
        using table by (auto simp: table_ok_def MAX_HISTORY_def)
      have "candidate src pos ?hofs" using hofs by (simp add: candidate_def)
      then have "found_match src pos (2, ?hofs)"
        using hofs True candidate_matches two by (simp add: found_match_def)
      then have "toks_ok src pos [Copy (pos - ?hofs) 2] (length src)"
        using found_match_token two by simp
      moreover have "emits d (case put_offset d (pos - ?hofs) w of Inl e \<Rightarrow> Inl e
          | Inr w1 \<Rightarrow> put_bits d 2 0 w1) w (offset_bits (pos - ?hofs) @ nbits 2 0)"
        using w hofs by (intro emits_seq put_offset_emits emits_put_bits) auto
      ultimately show ?thesis
        using True two unfolding tail_ok_def
        by (intro exI [of _ "[Copy (pos - ?hofs) 2]"])
          (auto simp: lzs_compress_tail_def hash_at_eq Let_def len_bits_def add.commute)
    next
      case False
      have "toks_ok src pos [Lit (src ! pos), Lit (src ! (pos + 1))] (length src)"
        using two by simp
      moreover have "emits d (case put_bits d 9 (unat (src ! pos)) w of Inl e \<Rightarrow> Inl e
          | Inr w1 \<Rightarrow> put_bits d 9 (unat (src ! (pos + 1))) w1) w
          (tok_bits (Lit (src ! pos)) @ tok_bits (Lit (src ! (pos + 1))))"
        using w by (intro emits_seq lit)
      ultimately show ?thesis
        using False two unfolding tail_ok_def
        by (intro exI [of _ "[Lit (src ! pos), Lit (src ! (pos + 1))]"])
          (auto simp: lzs_compress_tail_def hash_at_eq Let_def)
    qed
  next
    case 2
    then show ?thesis
      using lit [OF w, of "src ! pos"] unfolding tail_ok_def
      by (intro exI [of _ "[Lit (src ! pos)]"]) (auto simp: lzs_compress_tail_def)
  next
    case 3
    then show ?thesis
      using w unfolding tail_ok_def
      by (intro exI [of _ "[]"]) (simp add: lzs_compress_tail_def emits_def)
  qed
qed

lemma lzs_compress_stream:
  assumes len: "length src \<le> 65536"
  shows "case lzs_compress chain0 d src of
      Inl e \<Rightarrow> e = EFBIG \<and> d < (9 * length src + 16) div 8
    | Inr out \<Rightarrow> length out \<le> d
        \<and> (\<exists>ts. toks_ok src 0 ts (length src) \<and> holds_bits out (stream_bits ts))"
proof -
  let ?h0 = "\<lparr>hash_table = (\<lambda>_. 0xffff), hash_chain = chain0\<rparr>"
  let ?w0 = "\<lparr>w_out = [], w_outbits = 0, w_nr = 0\<rparr>"
  have w0: "writer_ok d ?w0" "written ?w0 = []"
    by (simp_all add: writer_ok_def written_def bytes_bits_def nbits_def)
  have "hist_ok src 0 ?h0" by (simp add: hist_ok_def table_ok_def chain_ok_def INVALID_OFS_def)
  then have loop: "compressed d src 0 ?w0 (lzs_compress_loop d src 0 ?h0 ?w0)"
    using w0 len by (intro compress_loop_ok) auto
  show ?thesis
  proof (cases "lzs_compress_loop d src 0 ?h0 ?w0")
    case (Inl e)
    have "9 * length src div 8 \<le> (9 * length src + 16) div 8" by (intro div_le_mono) simp
    then show ?thesis
      using loop Inl w0 len by (auto simp: compressed_def lzs_compress_def Let_def INVALID_OFS_def)
  next
    case (Inr res)
    obtain pos h w where res: "res = (pos, h, w)" by (cases res)
    obtain ts where ts: "toks_ok src 0 ts pos" "written w = concat (map tok_bits ts)"
      using loop Inr res w0 by (auto simp: compressed_def)
    have posw: "pos \<le> length src" "length src \<le> pos + 2" "table_ok src pos h" "writer_ok d w"
      using loop Inr res by (auto simp: compressed_def)
    obtain us where us: "toks_ok src pos us (length src)"
      "emits d (lzs_compress_tail d src pos h w) w (concat (map tok_bits us))"
      using compress_tail_ok [OF posw] by (auto simp: tail_ok_def)
    let ?r = "case lzs_compress_tail d src pos h w of Inl e \<Rightarrow> Inl e
      | Inr w1 \<Rightarrow> put_bits d 16 0xc000 w1"
    have fin: "emits d ?r w (concat (map tok_bits us) @ nbits 16 0xc000)"
      using us(2) by (intro emits_seq emits_put_bits) auto
    have toks: "toks_ok src 0 (ts @ us) (length src)"
      using ts us by (auto simp: toks_ok_append)
    have bits: "length (concat (map tok_bits (ts @ us))) \<le> 9 * length src"
      using toks_bits_length [OF toks] by simp
    have res_eq: "lzs_compress chain0 d src = map_sum id w_out ?r"
      using Inr res len by (simp add: lzs_compress_def Let_def INVALID_OFS_def split: sum.splits)
    show ?thesis
    proof (cases ?r)
      case (Inl e)
      have "(length (written w) + length (concat (map tok_bits us) @ nbits 16 0xc000)) div 8
          \<le> (9 * length src + 16) div 8"
        using bits ts by (intro div_le_mono) simp
      then show ?thesis using fin Inl res_eq by (simp add: emits_def)
    next
      case (Inr w')
      have "writer_ok d w'" "written w' = stream_bits (ts @ us)"
        using fin Inr ts by (auto simp: emits_def stream_bits_def)
      then have "length (w_out w') \<le> d" "holds_bits (w_out w') (stream_bits (ts @ us))"
        by (auto simp: writer_ok_def holds_bits_def written_def)
      then show ?thesis using Inr res_eq toks by auto
    qed
  qed
qed

section \<open>Any input: the decompressor stays inside its buffer\<close>

lemma copy_match_frame:
  "length (fst (copy_match off n dst p)) = length dst
   \<and> snd (copy_match off n dst p) = p + n
   \<and> drop (p + n) (fst (copy_match off n dst p)) = drop (p + n) dst"
proof (induction off n dst p rule: copy_match.induct)
  case (2 off n dst p)
  then show ?case by simp
qed simp

lemma decompress_loop_frame:
  "outlen \<le> length dst \<Longrightarrow> lzs_decompress_loop dst outlen r = Inr (dst', n) \<Longrightarrow>
    outlen \<le> n \<and> n \<le> length dst \<and> length dst' = length dst \<and> drop n dst' = drop n dst"
proof (induction dst outlen r rule: lzs_decompress_loop.induct)
  case (1 dst outlen r)
  obtain data r1 where get: "get_bits 9 r = Inr (data, r1)"
    using "1.prems"(2) by (subst (asm) lzs_decompress_loop.simps) (auto split: sum.splits)
  consider (lit) "data < 0x100" | (stop) "data = 0x180" | (copy) "\<not> data < 0x100" "data \<noteq> 0x180"
    by linarith
  then show ?case
  proof cases
    case lit
    then have out: "outlen \<noteq> length dst"
      "lzs_decompress_loop (dst[outlen := word_of_nat data]) (outlen + 1) r1 = Inr (dst', n)"
      using "1.prems"(2) get
      by (auto simp: lzs_decompress_loop.simps [of dst outlen r] split: if_splits)
    then show ?thesis
      using "1.IH"(1) [OF get refl lit out(1)] "1.prems"(1)
      by (auto simp: drop_update_cancel)
  next
    case stop
    then show ?thesis
      using "1.prems" get by (simp add: lzs_decompress_loop.simps [of dst outlen r])
  next
    case copy
    obtain off r2 len r3 where m: "match_offset data r1 = Inr (off, r2)" "match_length r2 = Inr (len, r3)"
      "\<not> outlen < off" "\<not> length dst < len + outlen"
      "lzs_decompress_loop (fst (copy_match off len dst outlen))
         (snd (copy_match off len dst outlen)) r3 = Inr (dst', n)"
      using "1.prems"(2) get copy
      by (auto simp: lzs_decompress_loop.simps [of dst outlen r] split: sum.splits if_splits)
    have frame: "length (fst (copy_match off len dst outlen)) = length dst"
      "snd (copy_match off len dst outlen) = outlen + len"
      "drop (outlen + len) (fst (copy_match off len dst outlen)) = drop (outlen + len) dst"
      using copy_match_frame [of off len dst outlen] by simp_all
    have "outlen + len \<le> n \<and> n \<le> length dst \<and> length dst' = length dst
        \<and> drop n dst' = drop n (fst (copy_match off len dst outlen))"
      using "1.IH"(2) [OF get refl copy m(1) refl m(2) refl m(3,4)]
        m frame by simp
    then show ?thesis
      using frame(3) by (metis add_leE drop_drop le_add_diff_inverse2)
  qed
qed

lemma get_bits_error: "get_bits n r = Inl e \<Longrightarrow> e = EINVAL"
  by (cases r) (auto simp: get_bits_def Let_def split: if_splits)

lemma long_length_error: "long_length r len = Inl e \<Longrightarrow> e = EINVAL"
  by (induction r len rule: long_length.induct, subst (asm) (2) long_length.simps)
    (auto split: sum.splits if_splits dest!: get_bits_error)

lemma match_length_error: "match_length r = Inl e \<Longrightarrow> e = EINVAL"
  by (auto simp: match_length_def split: sum.splits if_splits
      dest!: get_bits_error long_length_error)

lemma match_offset_error: "match_offset d r = Inl e \<Longrightarrow> e = EINVAL"
  by (auto simp: match_offset_def Let_def split: sum.splits if_splits dest!: get_bits_error)

lemma decompress_loop_error:
  "lzs_decompress_loop dst outlen r = Inl e \<Longrightarrow> e = EINVAL \<or> e = EFBIG"
  by (induction dst outlen r rule: lzs_decompress_loop.induct,
      subst (asm) (3) lzs_decompress_loop.simps)
    (auto split: sum.splits if_splits
      dest!: get_bits_error match_length_error match_offset_error)

section \<open>Properties\<close>

lemma lzs_inverse:
  assumes "lzs_compress chain0 dstlen src = Inr out" and "length src \<le> length dst"
  shows "\<exists>dst'. lzs_decompress dst out = Inr (dst', length src) \<and> take (length src) dst' = src"
proof -
  have len: "length src \<le> 65536"
    using assms(1) by (auto simp: lzs_compress_def INVALID_OFS_def split: if_splits)
  obtain ts where ts: "toks_ok src 0 ts (length src)" "holds_bits out (stream_bits ts)"
    using lzs_compress_stream [OF len, where ?chain0.0 = chain0 and d = dstlen] assms(1) by auto
  have "reader_at out 0 = (out, 8)" by (simp add: reader_at_def)
  then show ?thesis
    using decompress_stream [OF ts(1), of out "[]" dst] ts(2) assms(2) len
    by (auto simp: lzs_decompress_def)
qed

text \<open>
  C1: what lzs_decompress makes of what lzs_compress produced is the original data:
  whatever the uninitialised history memory held, if the compressor returns a stream then decompressing it into any buffer that has room returns
  the length of the input, and the buffer starts with the input.
\<close>

theorem lzs_roundtrip:
  assumes "lzs_compress chain0 dstlen src = Inr out" and "length src \<le> length dst"
  shows "\<exists>dst'. lzs_decompress dst out = Inr (dst', length src) \<and> take (length src) dst' = src"
  using assms by (rule lzs_inverse)

theorem lzs_roundtrip_witness:
  "\<exists>dst'. lzs_decompress [0, 0, 0, 0] [0x03, 0xE0, 0x4C, 0x00] = Inr (dst', 3)
     \<and> take 3 dst' = [7, 7, 7]"
proof -
  have hash: "hash_at [7, 7, 7] 0 = Inr 1799" "hash_at [7, 7, 7] (Suc 0) = Inr 1799"
    by (simp_all add: hash_at_def HASH_def)
  have "lzs_compress (\<lambda>_. 0) 16 [7, 7, 7] = Inr [0x03, 0xE0, 0x4C, 0x00]"
    by (simp add: lzs_compress_def lzs_compress_loop.simps hash insert_hash_def lzs_consts
        Let_def to_u16_def, simp add: put_bits_def flush_byte_def Let_def,
        simp add: lzs_compress_loop.simps, simp add: lzs_compress_tail_def hash put_offset_def
        lzs_consts, simp add: put_bits_def flush_byte_def Let_def)
  then show ?thesis
    using lzs_roundtrip [of "\<lambda>_. 0" 16 "[7, 7, 7]" "[0x03, 0xE0, 0x4C, 0x00]" "[0, 0, 0, 0]"]
    by (simp add: numeral_3_eq_3)
qed

text \<open>
  lzs_compress is total and memory safe on every packet: it never reads outside its
  input or follows more than the 2048 history links, and its only failure is -EFBIG, which
  it reports only for more than 64 KiB of data or an output buffer smaller than nine bits
  per input byte plus the end marker.
\<close>

theorem lzs_compress_succeeds:
  "case lzs_compress chain0 dstlen src of
     Inl e \<Rightarrow> e = EFBIG \<and> (dstlen < (9 * length src + 16) div 8 \<or> 65536 < length src)
   | Inr out \<Rightarrow> length out \<le> dstlen"
proof (cases "length src \<le> 65536")
  case True
  then show ?thesis
    using lzs_compress_stream [OF True, where ?chain0.0 = chain0 and d = dstlen]
    by (auto split: sum.splits)
next
  case False
  then show ?thesis by (simp add: lzs_compress_def INVALID_OFS_def)
qed

text \<open>
  On any input, however malformed, lzs_decompress stays inside the output buffer: it
  reports at most dstlen bytes and leaves everything after them untouched.
\<close>

theorem lzs_decompress_bounds:
  "case lzs_decompress dst src of
     Inl e \<Rightarrow> e = EINVAL \<or> e = EFBIG
   | Inr (dst', n) \<Rightarrow> n \<le> length dst \<and> length dst' = length dst \<and> drop n dst' = drop n dst"
  using decompress_loop_frame [of 0 dst "(src, 8)"] decompress_loop_error [of dst 0 "(src, 8)"]
  by (auto simp: lzs_decompress_def split: sum.splits)

text \<open>
  An 11-bit offset of zero is accepted: the decoder then copies bytes of the output
  buffer onto themselves and reports them as decoded, so this four byte packet makes it
  return two bytes of whatever the buffer held before the call.
\<close>

theorem lzs_decompress_zero_offset:
  "lzs_decompress (a # b # rest) [0x80, 0x01, 0x80, 0x00] = Inr (a # b # rest, 2)"
proof -
  let ?r = "([0x80, 0x01, 0x80, 0x00], 8) :: reader"
  have "get_bits 9 ?r = Inr (0x100, ([0x01, 0x80, 0x00], 7))"
    "match_offset 0x100 ([0x01, 0x80, 0x00], 7) = Inr (0, ([0x01, 0x80, 0x00], 3))"
    "match_length ([0x01, 0x80, 0x00], 3) = Inr (2, ([0x01, 0x80, 0x00], 1))"
    "get_bits 9 ([0x01, 0x80, 0x00], 1) = Inr (0x180, ([0x00], 8))"
    by code_simp+
  then show ?thesis
    using lzs_decompress_loop.simps [of "a # b # rest" 2 "([0x01, 0x80, 0x00], 1)"]
    by (simp add: lzs_decompress_def lzs_decompress_loop.simps [of _ _ ?r] numeral_2_eq_2)
qed

end
