(* ===== verification/Tables.thy ===== *)
theory Tables
  imports Prelude
begin

text \<open>
  The keyed tables of the server. Leases, banned addresses, cached TLS sessions, security
  module sessions and worker entries all live in a ccan \<open>htable\<close> of pointers whose hash is a
  function of a key field and whose comparison tests that field. The locale states what the
  clients rely on; the list of the live entries is the implementation the models use.
\<close>

section \<open>The interface\<close>

locale keyed_table =
  fixes key :: "'e \<Rightarrow> 'k"
    and elems :: "'t \<Rightarrow> 'e multiset"
    and empty :: "'t"
    and get :: "'k \<Rightarrow> 't \<Rightarrow> 'e option"
    and add :: "'e \<Rightarrow> 't \<Rightarrow> 't"
    and del :: "'e \<Rightarrow> 't \<Rightarrow> 't"
  assumes elems_empty: "elems empty = {#}"
    and get_sound: "get k t = Some e \<Longrightarrow> e \<in># elems t \<and> key e = k"
    and get_complete: "get k t = None \<Longrightarrow> e \<in># elems t \<Longrightarrow> key e \<noteq> k"
    and elems_add: "elems (add e t) = add_mset e (elems t)"
    and elems_del: "elems (del e t) = elems t - {#e#}"
begin

definition with_key :: "'k \<Rightarrow> 't \<Rightarrow> 'e multiset" where
  "with_key k t = filter_mset (\<lambda>e. key e = k) (elems t)"

definition keys_unique :: "'t \<Rightarrow> bool" where
  "keys_unique t \<longleftrightarrow> (\<forall>k. size (with_key k t) \<le> 1)"

lemma get_None_iff: "get k t = None \<longleftrightarrow> (\<forall>e \<in># elems t. key e \<noteq> k)"
  using get_sound [of k t] get_complete [of k t] by (cases "get k t") auto

lemma get_None_iff_empty: "get k t = None \<longleftrightarrow> with_key k t = {#}"
  by (auto simp: get_None_iff with_key_def filter_mset_eq_mempty_iff)

lemma get_empty: "get k empty = None"
  by (simp add: get_None_iff elems_empty)

lemma keys_unique_empty: "keys_unique empty"
  by (simp add: keys_unique_def with_key_def elems_empty)

lemma with_key_singleton:
  assumes "keys_unique t" and "e \<in># elems t"
  shows "with_key (key e) t = {#e#}"
proof -
  have e: "e \<in># with_key (key e) t" using assms(2) by (simp add: with_key_def)
  moreover have "size (with_key (key e) t) \<le> 1" using assms(1) by (simp add: keys_unique_def)
  ultimately have "size (with_key (key e) t) = 1"
    by (metis One_nat_def Suc_leI le_antisym nonempty_has_size empty_iff set_mset_empty)
  then obtain x where "with_key (key e) t = {#x#}" using size_1_singleton_mset by blast
  then show ?thesis using e by simp
qed

lemma get_eq_Some:
  assumes "keys_unique t"
  shows "get k t = Some e \<longleftrightarrow> e \<in># elems t \<and> key e = k"
proof
  assume r: "e \<in># elems t \<and> key e = k"
  then obtain e' where e': "get k t = Some e'" using get_None_iff by blast
  then have "e' \<in># with_key k t" using get_sound by (simp add: with_key_def)
  then show "get k t = Some e" using e' with_key_singleton [OF assms] r by auto
qed (rule get_sound)

lemma keys_unique_add:
  assumes "keys_unique t" and "get (key e) t = None"
  shows "keys_unique (add e t)"
  using assms by (auto simp: keys_unique_def elems_add get_None_iff_empty with_key_def)

lemma get_add_same:
  assumes "keys_unique t" and "get (key e) t = None"
  shows "get (key e) (add e t) = Some e"
  using get_eq_Some [OF keys_unique_add [OF assms]] by (simp add: elems_add)

lemma get_add_other:
  assumes "keys_unique t" and "get (key e) t = None" and "k \<noteq> key e"
  shows "get k (add e t) = get k t"
proof (cases "get k t")
  case None
  then have "get k (add e t) = None" using assms(3) by (auto simp: get_None_iff elems_add)
  then show ?thesis using None by simp
next
  case (Some e')
  then show ?thesis
    using get_eq_Some [OF keys_unique_add [OF assms(1,2)]] get_sound [of k t e']
    by (simp add: elems_add)
qed

lemma keys_unique_del:
  assumes "keys_unique t"
  shows "keys_unique (del e t)"
proof -
  have "size (with_key k (del e t)) \<le> size (with_key k t)" for k
    by (auto simp: with_key_def elems_del intro!: size_mset_mono multiset_filter_mono)
  then show ?thesis using assms by (auto simp: keys_unique_def intro: order_trans)
qed

lemma get_del_same:
  assumes "keys_unique t" and "e \<in># elems t"
  shows "get (key e) (del e t) = None"
  using with_key_singleton [OF assms] by (simp add: get_None_iff_empty with_key_def elems_del)

lemma get_del_other:
  assumes "keys_unique t" and "k \<noteq> key e"
  shows "get k (del e t) = get k t"
proof (cases "get k t")
  case None
  then have "get k (del e t) = None" by (auto simp: get_None_iff elems_del dest: in_diffD)
  then show ?thesis using None by simp
next
  case (Some e')
  then have "e' \<in># elems t - {#e#}" "key e' = k"
    using get_sound [of k t e'] assms(2) by (auto simp: in_diff_count)
  then show ?thesis
    using get_eq_Some [OF keys_unique_del [OF assms(1)]] Some by (simp add: elems_del)
qed

end

section \<open>The table as the list of its live entries\<close>

definition tbl_get :: "('e \<Rightarrow> 'k) \<Rightarrow> 'k \<Rightarrow> 'e list \<Rightarrow> 'e option" where
  "tbl_get key k t = List.find (\<lambda>e. key e = k) t"

definition tbl_add :: "'e \<Rightarrow> 'e list \<Rightarrow> 'e list" where
  "tbl_add e t = e # t"

definition tbl_del :: "'e \<Rightarrow> 'e list \<Rightarrow> 'e list" where
  "tbl_del e t = remove1 e t"

text \<open>Writing through the pointer \<open>htable_get\<close> returned: the first entry of the key changes.\<close>

fun tbl_update :: "('e \<Rightarrow> 'k) \<Rightarrow> 'k \<Rightarrow> ('e \<Rightarrow> 'e) \<Rightarrow> 'e list \<Rightarrow> 'e list" where
  "tbl_update key k f [] = []"
| "tbl_update key k f (e # t) = (if key e = k then f e # t else e # tbl_update key k f t)"

lemmas tbl_defs = tbl_get_def tbl_add_def tbl_del_def

interpretation list_table: keyed_table key mset "[]" "tbl_get key" tbl_add tbl_del for key
  by unfold_locales (auto simp: tbl_defs find_None_all dest: find_Some_iff_ex)

lemma list_keys_unique_Cons:
  "keyed_table.keys_unique key mset (e # t) \<longleftrightarrow>
     key e \<notin> key ` set t \<and> keyed_table.keys_unique key mset t"
proof -
  have none: "filter_mset (\<lambda>x. key x = k) (mset t) = {#} \<longleftrightarrow> k \<notin> key ` set t" for k
    by auto
  have "size (filter_mset (\<lambda>x. key x = k) (mset (e # t))) \<le> 1 \<longleftrightarrow>
      (key e = k \<longrightarrow> k \<notin> key ` set t) \<and> size (filter_mset (\<lambda>x. key x = k) (mset t)) \<le> 1" for k
    using none [of k] by (cases "filter_mset (\<lambda>x. key x = k) (mset t)") (auto simp del: filter_mset_eq_mempty_iff)
  then show ?thesis
    by (auto simp: list_table.keys_unique_def list_table.with_key_def)
qed

lemma tbl_keys_unique: "keyed_table.keys_unique key mset t = distinct (map key t)"
  by (induction t) (simp_all add: list_keys_unique_Cons, simp add: list_table.keys_unique_def
      list_table.with_key_def)

lemma tbl_update_keys [simp]:
  "(\<And>e. key (f e) = key e) \<Longrightarrow> map key (tbl_update key k f t) = map key t"
  by (induction t) auto

lemma tbl_get_update_same:
  "(\<And>e. key (f e) = key e) \<Longrightarrow> tbl_get key k (tbl_update key k f t) = map_option f (tbl_get key k t)"
  by (induction t) (auto simp: tbl_get_def)

lemma tbl_get_update_other:
  "(\<And>e. key (f e) = key e) \<Longrightarrow> k' \<noteq> k \<Longrightarrow> tbl_get key k' (tbl_update key k f t) = tbl_get key k' t"
  by (induction t) (auto simp: tbl_get_def)

lemma tbl_get_key: "tbl_get key k t = Some e \<Longrightarrow> key e = k"
  by (auto simp: tbl_get_def dest: find_Some_iff_ex)

lemma tbl_get_const_update:
  "key e' = k \<Longrightarrow> tbl_get key k t = Some e \<Longrightarrow> tbl_get key k (tbl_update key k (\<lambda>_. e') t) = Some e'"
  by (induction t) (auto simp: tbl_get_def split: if_splits)

lemma tbl_get_const_other:
  "key e' = k \<Longrightarrow> k' \<noteq> k \<Longrightarrow> tbl_get key k' (tbl_update key k (\<lambda>_. e') t) = tbl_get key k' t"
  by (induction t) (auto simp: tbl_get_def)

lemma tbl_get_add: "tbl_get key k (tbl_add e t) = (if key e = k then Some e else tbl_get key k t)"
  by (simp add: tbl_get_def tbl_add_def)

lemma length_tbl_update [simp]: "length (tbl_update key k f t) = length t"
  by (induction t) auto

lemma tbl_update_none: "tbl_get key k t = None \<Longrightarrow> tbl_update key k f t = t"
  by (induction t) (auto simp: tbl_get_def split: if_splits)

lemma set_tbl_update: "e \<in> set (tbl_update key k f t) \<Longrightarrow> e \<in> set t \<or> (\<exists>e' \<in> set t. key e' = k \<and> e = f e')"
  by (induction t) (auto split: if_splits)

text \<open>Sweeps delete entries while they iterate over the table.\<close>

lemma tbl_get_filter_none: "tbl_get key k t = None \<Longrightarrow> tbl_get key k (filter P t) = None"
  by (auto simp: tbl_get_def find_None_all)

lemma tbl_get_filter:
  assumes "distinct (map key t)"
  shows "tbl_get key k (filter P t) = (case tbl_get key k t of
      None \<Rightarrow> None | Some e \<Rightarrow> if P e then Some e else None)"
  using assms
proof (induction t)
  case (Cons e t)
  show ?case
  proof (cases "key e = k")
    case True
    then have "k \<notin> key ` set t" using Cons.prems by auto
    then have "tbl_get key k t = None" unfolding tbl_get_def find_None_all by (metis imageI)
    then show ?thesis
      using True tbl_get_filter_none [of key k t P] by (simp add: tbl_get_def)
  qed (use Cons in \<open>simp add: tbl_get_def\<close>)
qed (simp add: tbl_get_def)

lemma distinct_map_filter_key: "distinct (map key t) \<Longrightarrow> distinct (map key (filter P t))"
  by (induction t) auto

end
