(* ===== verification/IpLease.thy ===== *)
theory IpLease
  imports Tables
begin

unbundle bit_operations_syntax

text \<open>
  Address allocation of the main process, src/ip-lease.c. An address is a family and its
  bytes in network order. The results of inet_pton, of the SHA1 hash, of the ping, and
  whether talloc and htable_add succeed are parameters, collected in a record.
\<close>

section \<open>Addresses\<close>

datatype sa_family = AF_INET | AF_INET6

record sockaddr =
  sa_family :: sa_family
  sa_addr :: "byte list"

definition SIZEOF_SIN :: nat where "SIZEOF_SIN = 16"
definition SIZEOF_SIN6 :: nat where "SIZEOF_SIN6 = 28"

lemmas sa_sizes = SIZEOF_SIN_def SIZEOF_SIN6_def

text \<open>memcmp(a, b, n): the sign of the difference of the first bytes that differ.\<close>

fun memcmp :: "byte list \<Rightarrow> byte list \<Rightarrow> nat \<Rightarrow> int" where
  "memcmp (a # as) (b # bs) (Suc n) =
     (if a = b then memcmp as bs n else if a < b then -1 else 1)"
| "memcmp _ _ _ = 0"

definition ip_cmp :: "sockaddr \<Rightarrow> sockaddr \<Rightarrow> int" where
  "ip_cmp s1 s2 =
     (if sa_family s1 = AF_INET then memcmp (sa_addr s1) (sa_addr s2) 4
      else memcmp (sa_addr s1) (sa_addr s2) 16)"

lemma memcmp_0_iff:
  "length a = length b \<Longrightarrow> memcmp a b n = 0 \<longleftrightarrow> take n a = take n b"
  by (induction a b n rule: memcmp.induct) (auto simp: take_Cons')

text \<open>A pointwise operation on the bytes of two addresses.\<close>

definition bytes_and :: "byte list \<Rightarrow> byte list \<Rightarrow> byte list" where
  "bytes_and a b = map2 (AND) a b"

definition bytes_or :: "byte list \<Rightarrow> byte list \<Rightarrow> byte list" where
  "bytes_or a b = map2 (OR) a b"

definition bytes_not :: "byte list \<Rightarrow> byte list" where
  "bytes_not a = map NOT a"

lemmas bytes_defs = bytes_and_def bytes_or_def bytes_not_def

lemma length_bytes [simp]:
  "length (bytes_and a b) = min (length a) (length b)"
  "length (bytes_or a b) = min (length a) (length b)"
  "length (bytes_not a) = length a"
  by (simp_all add: bytes_defs)

lemma byte_and_or_not: "(r AND NOT m OR n AND m) AND m = n AND (m :: byte)"
  by (rule bit_word_eqI) (auto simp: bit_simps)

lemma bytes_and_or_not:
  "length r = length m \<Longrightarrow> length m = length n \<Longrightarrow>
    bytes_and (bytes_or (bytes_and r (bytes_not m)) (bytes_and n m)) m = bytes_and n m"
  by (induction r m n rule: list_induct3) (auto simp: bytes_defs byte_and_or_not)

section \<open>Leases\<close>

text \<open>
  \<open>le_db\<close>: the lease points to its database; \<open>le_destr\<close>: talloc will call unref_ip_lease
  when the lease is freed.
\<close>

record ip_lease =
  le_rip :: sockaddr
  le_rip_len :: nat
  le_lip :: sockaddr
  le_lip_len :: nat
  le_db :: bool
  le_destr :: bool

type_synonym lease_db = "ip_lease list"

definition ip_lease_cmp :: "ip_lease \<Rightarrow> ip_lease \<Rightarrow> bool" where
  "ip_lease_cmp c1 c2 \<longleftrightarrow> le_rip_len c1 = le_rip_len c2 \<and> ip_cmp (le_rip c1) (le_rip c2) = 0"

definition null_addr :: sockaddr where
  "null_addr = \<lparr>sa_family = AF_INET6, sa_addr = []\<rparr>"

definition zero_lease :: ip_lease where
  "zero_lease = \<lparr>le_rip = null_addr, le_rip_len = 0, le_lip = null_addr, le_lip_len = 0,
     le_db = False, le_destr = False\<rparr>"

definition ip_lease_exists :: "lease_db \<Rightarrow> sockaddr \<Rightarrow> nat \<Rightarrow> bool" where
  "ip_lease_exists db ip sockaddrlen =
     (let t = zero_lease\<lparr>le_rip := ip, le_rip_len := sockaddrlen\<rparr> in
      List.find (\<lambda>c. ip_lease_cmp c t) db \<noteq> None)"

definition ip_lease_init :: "lease_db \<Rightarrow> lease_db" where
  "ip_lease_init db = []"

definition ip_lease_deinit :: "lease_db \<Rightarrow> lease_db" where
  "ip_lease_deinit db = []"

definition is_ipv6_ok :: "lease_db \<Rightarrow> sockaddr \<Rightarrow> sockaddr \<Rightarrow> bool" where
  "is_ipv6_ok db ip net \<longleftrightarrow> \<not> (ip_lease_exists db ip SIZEOF_SIN6 \<or> ip_cmp ip net = 0)"

text \<open>
  \<open>mask\<close> is a pointer parameter, so SA_IN_U8_P(\<open>&mask\<close>) reads bytes 4 to 7 of the pointer
  itself and not of the netmask: \<open>mask_ptr\<close> is what these bytes are.
\<close>

definition is_ipv4_ok :: "byte list \<Rightarrow> lease_db \<Rightarrow> sockaddr \<Rightarrow> sockaddr \<Rightarrow> bool" where
  "is_ipv4_ok mask_ptr db ip net =
     (let broadcast = net\<lparr>sa_addr := bytes_or (sa_addr net) (bytes_not mask_ptr)\<rparr> in
      \<not> (ip_lease_exists db ip SIZEOF_SIN \<or> ip_cmp ip net = 0 \<or> ip_cmp ip broadcast = 0))"

section \<open>The requesting process and the environment\<close>

record lease_cfg =
  lc_ipv4_network :: "string option"
  lc_ipv4_netmask :: "string option"
  lc_explicit_ipv4 :: "string option"
  lc_ipv6_network :: "string option"
  lc_ipv6_prefix :: nat
  lc_explicit_ipv6 :: "string option"

record lease_proc =
  lp_config :: lease_cfg
  lp_seed :: "byte list"
  lp_ipv4 :: "ip_lease option"
  lp_ipv6 :: "ip_lease option"

text \<open>The network of the server's configuration.\<close>

record vpn_network =
  vn_ipv4 :: "string option"
  vn_ipv4_netmask :: "string option"
  vn_ipv6 :: "string option"
  vn_ipv6_prefix :: nat

text \<open>
  \<open>env_ping n a\<close> is the result of icmp_ping for address \<open>a\<close> at the try with \<open>n\<close> tries left;
  0 says that no host answered.
\<close>

record lease_env =
  env_pton4 :: "string \<Rightarrow> byte list option"
  env_pton6 :: "string \<Rightarrow> byte list option"
  env_sha1 :: "byte list \<Rightarrow> byte list"
  env_ping :: "nat \<Rightarrow> byte list \<Rightarrow> int"
  env_mask_ptr :: "byte list"
  env_alloc4 :: bool
  env_alloc6 :: bool
  env_add4 :: bool
  env_add6 :: bool

definition MAX_IP_TRIES :: nat where "MAX_IP_TRIES = 16"

definition ip_from_seed :: "lease_env \<Rightarrow> byte list \<Rightarrow> nat \<Rightarrow> byte list" where
  "ip_from_seed env seed ip_size = take ip_size (env_sha1 env seed)"

text \<open>LIP = network address with the low bit of its last byte set.\<close>

definition lip_of :: "sockaddr \<Rightarrow> nat \<Rightarrow> sockaddr" where
  "lip_of net i = net\<lparr>sa_addr := (sa_addr net)[i := (sa_addr net ! i) OR 1]\<rparr>"

section \<open>IPv4 leases\<close>

text \<open>
  The do-while loop. \<open>n\<close> is max_loops, the result the lease or the error; \<open>rnd\<close> are the
  address bytes of the previous try.
\<close>

fun ipv4_tries ::
  "lease_env \<Rightarrow> lease_db \<Rightarrow> byte list \<Rightarrow> sockaddr \<Rightarrow> byte list \<Rightarrow> nat \<Rightarrow> byte list
    \<Rightarrow> int + ip_lease" where
  "ipv4_tries env db netmask network seed 0 rnd = Inl ERR_NO_IP"
| "ipv4_tries env db netmask network seed (Suc n) rnd =
     (let r0 = (if Suc n = MAX_IP_TRIES then seed else ip_from_seed env rnd 4);
          r = bytes_or (bytes_and r0 (bytes_not netmask)) (sa_addr network);
          ip = \<lparr>sa_family = AF_INET, sa_addr = r\<rparr>
      in if \<not> is_ipv4_ok (env_mask_ptr env) db ip network
         then ipv4_tries env db netmask network seed n r
         else
           let lip = lip_of network 3 in
           if memcmp (sa_addr lip) r 4 = 0 then ipv4_tries env db netmask network seed n r
           else if env_ping env n r = 0
           then Inr \<lparr>le_rip = ip, le_rip_len = SIZEOF_SIN, le_lip = lip, le_lip_len = SIZEOF_SIN,
                  le_db = True, le_destr = False\<rparr>
           else ipv4_tries env db netmask network seed n r)"

definition explicit_ipv4_lease ::
  "lease_env \<Rightarrow> lease_db \<Rightarrow> sockaddr \<Rightarrow> byte list \<Rightarrow> int + ip_lease" where
  "explicit_ipv4_lease env db network tmp =
     (let rip = \<lparr>sa_family = AF_INET, sa_addr = tmp\<rparr>; lip = lip_of network 3 in
      if \<not> is_ipv4_ok (env_mask_ptr env) db rip network then Inl ERR_NO_IP
      else if ip_cmp lip rip = 0 then Inl ERR_NO_IP
      else Inr \<lparr>le_rip = rip, le_rip_len = SIZEOF_SIN, le_lip = lip, le_lip_len = SIZEOF_SIN,
             le_db = False, le_destr = False\<rparr>)"

text \<open>The lease is set, or proc->ipv4 is NULL when an error follows its allocation.\<close>

definition set_ipv4 :: "lease_proc \<Rightarrow> int + ip_lease \<Rightarrow> int \<times> lease_proc" where
  "set_ipv4 p r = (case r of Inl e \<Rightarrow> (e, p\<lparr>lp_ipv4 := None\<rparr>) | Inr l \<Rightarrow> (0, p\<lparr>lp_ipv4 := Some l\<rparr>))"

text \<open>The network and its mask: None when none is configured, an error when one is malformed.\<close>

definition ipv4_network ::
  "lease_env \<Rightarrow> vpn_network \<Rightarrow> lease_proc \<Rightarrow> (int + sockaddr \<times> byte list) option" where
  "ipv4_network env vn p =
     (let cfg = lp_config p;
          own = lc_ipv4_network cfg \<noteq> None \<and> lc_ipv4_netmask cfg \<noteq> None;
          c_network = (if own then lc_ipv4_network cfg else vn_ipv4 vn);
          c_netmask = (if own then lc_ipv4_netmask cfg else vn_ipv4_netmask vn)
      in case (c_network, c_netmask) of
           (Some cn, Some cm) \<Rightarrow>
             (case env_pton4 env cn of
                None \<Rightarrow> Some (Inl (-1))
              | Some net \<Rightarrow>
                  (case env_pton4 env cm of
                     None \<Rightarrow> Some (Inl (-1))
                   | Some netmask \<Rightarrow>
                       Some (Inr (\<lparr>sa_family = AF_INET, sa_addr = bytes_and net netmask\<rparr>,
                         netmask))))
         | _ \<Rightarrow> None)"

definition get_ipv4_lease ::
  "lease_env \<Rightarrow> vpn_network \<Rightarrow> lease_db \<Rightarrow> lease_proc \<Rightarrow> int \<times> lease_proc" where
  "get_ipv4_lease env vn db p =
     (case ipv4_network env vn p of
        None \<Rightarrow> (0, p)
      | Some (Inl e) \<Rightarrow> (e, p)
      | Some (Inr (network, netmask)) \<Rightarrow>
          (case lc_explicit_ipv4 (lp_config p) of
             Some ex \<Rightarrow>
               (case env_pton4 env ex of
                  None \<Rightarrow> (-1, p)
                | Some tmp \<Rightarrow>
                    if \<not> env_alloc4 env then (ERR_MEM, p\<lparr>lp_ipv4 := None\<rparr>)
                    else set_ipv4 p (explicit_ipv4_lease env db network tmp))
           | None \<Rightarrow>
               if \<not> env_alloc4 env then (ERR_MEM, p\<lparr>lp_ipv4 := None\<rparr>)
               else set_ipv4 p (ipv4_tries env db netmask network (lp_seed p) MAX_IP_TRIES
                      [0, 0, 0, 0])))"

section \<open>IPv6 leases\<close>

text \<open>The mask is kept as a string and read back with inet_pton.\<close>

definition ipv6_prefix_to_mask :: "nat \<Rightarrow> string option" where
  "ipv6_prefix_to_mask prefix =
     (if prefix = 16 then Some ''ffff::''
      else if prefix = 32 then Some ''ffff:ffff::''
      else if prefix = 48 then Some ''ffff:ffff:ffff::''
      else if prefix = 64 then Some ''ffff:ffff:ffff:ffff::''
      else if prefix = 80 then Some ''ffff:ffff:ffff:ffff:ffff::''
      else if prefix = 96 then Some ''ffff:ffff:ffff:ffff:ffff:ffff::''
      else if prefix = 112 then Some ''ffff:ffff:ffff:ffff:ffff:ffff:ffff::''
      else if prefix = 128 then Some ''ffff:ffff:ffff:ffff:ffff:ffff:ffff:ffff''
      else None)"

text \<open>The comparison of LIP and RIP covers sizeof(struct in_addr), four bytes.\<close>

fun ipv6_tries ::
  "lease_env \<Rightarrow> lease_db \<Rightarrow> byte list \<Rightarrow> sockaddr \<Rightarrow> byte list \<Rightarrow> nat \<Rightarrow> byte list
    \<Rightarrow> int + ip_lease" where
  "ipv6_tries env db netmask network seed 0 rnd = Inl ERR_NO_IP"
| "ipv6_tries env db netmask network seed (Suc n) rnd =
     (let r0 = (if Suc n = MAX_IP_TRIES then replicate 11 0 @ seed @ [0]
                else ip_from_seed env rnd 16);
          r = bytes_or (bytes_and r0 (bytes_not netmask)) (sa_addr network);
          ip = \<lparr>sa_family = AF_INET6, sa_addr = r\<rparr>
      in if \<not> is_ipv6_ok db ip network then ipv6_tries env db netmask network seed n r
         else
           let lip = lip_of network 15 in
           if memcmp (sa_addr lip) r 4 = 0 then ipv6_tries env db netmask network seed n r
           else if env_ping env n r = 0
           then Inr \<lparr>le_rip = ip, le_rip_len = SIZEOF_SIN6, le_lip = lip, le_lip_len = SIZEOF_SIN6,
                  le_db = True, le_destr = False\<rparr>
           else ipv6_tries env db netmask network seed n r)"

definition explicit_ipv6_lease ::
  "lease_db \<Rightarrow> sockaddr \<Rightarrow> byte list \<Rightarrow> int + ip_lease" where
  "explicit_ipv6_lease db network tmp =
     (let rip = \<lparr>sa_family = AF_INET6, sa_addr = tmp\<rparr>; lip = lip_of network 15 in
      if \<not> is_ipv6_ok db rip network then Inl ERR_NO_IP
      else if memcmp (sa_addr lip) (sa_addr rip) 16 = 0 then Inl ERR_NO_IP
      else Inr \<lparr>le_rip = rip, le_rip_len = SIZEOF_SIN6, le_lip = lip, le_lip_len = SIZEOF_SIN6,
             le_db = False, le_destr = False\<rparr>)"

definition set_ipv6 :: "lease_proc \<Rightarrow> int + ip_lease \<Rightarrow> int \<times> lease_proc" where
  "set_ipv6 p r = (case r of Inl e \<Rightarrow> (e, p\<lparr>lp_ipv6 := None\<rparr>) | Inr l \<Rightarrow> (0, p\<lparr>lp_ipv6 := Some l\<rparr>))"

text \<open>The network and its mask: None when none is configured, an error when one is malformed.\<close>

definition ipv6_network ::
  "lease_env \<Rightarrow> vpn_network \<Rightarrow> lease_proc \<Rightarrow> (int + sockaddr \<times> byte list) option" where
  "ipv6_network env vn p =
     (let cfg = lp_config p;
          own = lc_ipv6_network cfg \<noteq> None \<and> lc_ipv6_prefix cfg \<noteq> 0;
          c_network = (if own then lc_ipv6_network cfg else vn_ipv6 vn);
          c_netmask = ipv6_prefix_to_mask (if own then lc_ipv6_prefix cfg else vn_ipv6_prefix vn)
      in case (c_network, c_netmask) of
           (Some cn, Some cm) \<Rightarrow>
             (case env_pton6 env cn of
                None \<Rightarrow> Some (Inl (-1))
              | Some net \<Rightarrow>
                  (case env_pton6 env cm of
                     None \<Rightarrow> Some (Inl (-1))
                   | Some netmask \<Rightarrow>
                       Some (Inr (\<lparr>sa_family = AF_INET6, sa_addr = bytes_and net netmask\<rparr>,
                         netmask))))
         | _ \<Rightarrow> None)"

definition get_ipv6_lease ::
  "lease_env \<Rightarrow> vpn_network \<Rightarrow> lease_db \<Rightarrow> lease_proc \<Rightarrow> int \<times> lease_proc" where
  "get_ipv6_lease env vn db p =
     (case ipv6_network env vn p of
        None \<Rightarrow> (0, p)
      | Some (Inl e) \<Rightarrow> (e, p)
      | Some (Inr (network, netmask)) \<Rightarrow>
          (case lc_explicit_ipv6 (lp_config p) of
             Some ex \<Rightarrow>
               (case env_pton6 env ex of
                  None \<Rightarrow> (-1, p)
                | Some tmp \<Rightarrow>
                    if \<not> env_alloc6 env then (ERR_MEM, p\<lparr>lp_ipv6 := None\<rparr>)
                    else set_ipv6 p (explicit_ipv6_lease db network tmp))
           | None \<Rightarrow>
               if \<not> env_alloc6 env then (ERR_MEM, p\<lparr>lp_ipv6 := None\<rparr>)
               else set_ipv6 p (ipv6_tries env db netmask network (lp_seed p) MAX_IP_TRIES
                      (replicate 16 0))))"

section \<open>Taking, returning and stealing leases\<close>

text \<open>htable_add of a new lease and its destructor; \<open>ok\<close> says whether htable_add succeeds.\<close>

definition register_lease :: "bool \<Rightarrow> lease_db \<Rightarrow> ip_lease \<Rightarrow> (lease_db \<times> ip_lease) option" where
  "register_lease ok db l =
     (if \<not> ok then None
      else let l' = l\<lparr>le_destr := True\<rparr> in Some (tbl_add l' db, l'))"

definition take_ipv4 ::
  "lease_env \<Rightarrow> vpn_network \<Rightarrow> lease_db \<Rightarrow> lease_proc \<Rightarrow> int \<times> lease_db \<times> lease_proc" where
  "take_ipv4 env vn db p =
     (case lp_ipv4 p of
        Some _ \<Rightarrow> (0, db, p)
      | None \<Rightarrow>
          (case get_ipv4_lease env vn db p of
             (ret, p1) \<Rightarrow>
               if ret < 0 then (ret, db, p1)
               else (case lp_ipv4 p1 of
                       Some l \<Rightarrow>
                         if le_db l then
                           (case register_lease (env_add4 env) db l of
                              None \<Rightarrow> (-1, db, p1)
                            | Some (db', l') \<Rightarrow> (0, db', p1\<lparr>lp_ipv4 := Some l'\<rparr>))
                         else (0, db, p1)
                     | None \<Rightarrow> (0, db, p1))))"

definition take_ipv6 ::
  "lease_env \<Rightarrow> vpn_network \<Rightarrow> lease_db \<Rightarrow> lease_proc \<Rightarrow> int \<times> lease_db \<times> lease_proc" where
  "take_ipv6 env vn db p =
     (case lp_ipv6 p of
        Some _ \<Rightarrow> (0, db, p)
      | None \<Rightarrow>
          (case get_ipv6_lease env vn db p of
             (ret, p1) \<Rightarrow>
               if ret < 0 then (ret, db, p1)
               else (case lp_ipv6 p1 of
                       Some l \<Rightarrow>
                         if le_db l then
                           (case register_lease (env_add6 env) db l of
                              None \<Rightarrow> (-1, db, p1)
                            | Some (db', l') \<Rightarrow> (0, db', p1\<lparr>lp_ipv6 := Some l'\<rparr>))
                         else (0, db, p1)
                     | None \<Rightarrow> (0, db, p1))))"

definition get_ip_leases ::
  "lease_env \<Rightarrow> vpn_network \<Rightarrow> lease_db \<Rightarrow> lease_proc \<Rightarrow> int \<times> lease_db \<times> lease_proc" where
  "get_ip_leases env vn db p =
     (case take_ipv4 env vn db p of
        (ret, db1, p1) \<Rightarrow>
          if ret < 0 then (ret, db1, p1)
          else
            (case take_ipv6 env vn db1 p1 of
               (ret, db2, p2) \<Rightarrow>
                 if ret < 0 then (ret, db2, p2)
                 else if lp_ipv4 p2 = None \<and> lp_ipv6 p2 = None then (-1, db2, p2)
                 else (0, db2, p2)))"

text \<open>talloc_free of a lease runs the destructor unref_ip_lease, when one is set.\<close>

definition unref_ip_lease :: "lease_db \<Rightarrow> ip_lease \<Rightarrow> lease_db" where
  "unref_ip_lease db l = (if le_db l then tbl_del l db else db)"

definition remove_ip_lease :: "lease_db \<Rightarrow> ip_lease \<Rightarrow> lease_db" where
  "remove_ip_lease db l = (if le_destr l then unref_ip_lease db l else db)"

definition free_lease :: "lease_db \<Rightarrow> ip_lease option \<Rightarrow> lease_db" where
  "free_lease db l = (case l of None \<Rightarrow> db | Some l \<Rightarrow> remove_ip_lease db l)"

definition remove_ip_leases :: "lease_db \<Rightarrow> lease_proc \<Rightarrow> lease_db \<times> lease_proc" where
  "remove_ip_leases db p =
     (free_lease (free_lease db (lp_ipv4 p)) (lp_ipv6 p), p\<lparr>lp_ipv4 := None, lp_ipv6 := None\<rparr>)"

text \<open>\<open>talloc_move\<close> clears the source pointer.\<close>

definition steal_ip_leases :: "lease_proc \<Rightarrow> lease_proc \<Rightarrow> lease_proc \<times> lease_proc" where
  "steal_ip_leases p thief =
     (p\<lparr>lp_ipv4 := None, lp_ipv6 := None\<rparr>, thief\<lparr>lp_ipv4 := lp_ipv4 p, lp_ipv6 := lp_ipv6 p\<rparr>)"

end
