(* ===== verification/LeasePool.thy ===== *)
theory LeasePool
  imports IpLease
begin

text \<open>
  What the lease operations guarantee: which addresses a successful call hands out, and,
  for any interleaving of calls by the connected workers, that the pool and the leases the
  workers hold stay in step and no pooled address has two holders.
\<close>

section \<open>The lease table is keyed by the remote address\<close>

definition lease_key :: "ip_lease \<Rightarrow> nat \<times> byte list" where
  "lease_key l = (le_rip_len l, sa_addr (le_rip l))"

definition wf_lease :: "ip_lease \<Rightarrow> bool" where
  "wf_lease l \<longleftrightarrow>
     (le_rip_len l = SIZEOF_SIN \<and> sa_family (le_rip l) = AF_INET \<and> length (sa_addr (le_rip l)) = 4)
   \<or> (le_rip_len l = SIZEOF_SIN6 \<and> sa_family (le_rip l) = AF_INET6
        \<and> length (sa_addr (le_rip l)) = 16)"

interpretation lease_table: keyed_table lease_key mset "ip_lease_init db0" "tbl_get lease_key"
    tbl_add tbl_del
  by (unfold_locales) (auto simp: ip_lease_init_def tbl_defs find_None_all dest: find_Some_iff_ex)

lemma ip_lease_cmp_key:
  "wf_lease c \<Longrightarrow> wf_lease t \<Longrightarrow> ip_lease_cmp c t \<longleftrightarrow> lease_key c = lease_key t"
  by (auto simp: wf_lease_def ip_lease_cmp_def lease_key_def ip_cmp_def memcmp_0_iff sa_sizes)

lemma ip_lease_exists_iff:
  assumes "\<forall>c \<in> set db. wf_lease c"
    and "wf_lease (zero_lease\<lparr>le_rip := ip, le_rip_len := len\<rparr>)"
  shows "ip_lease_exists db ip len \<longleftrightarrow> tbl_get lease_key (len, sa_addr ip) db \<noteq> None"
proof -
  have "ip_lease_cmp c (zero_lease\<lparr>le_rip := ip, le_rip_len := len\<rparr>)
      \<longleftrightarrow> lease_key c = (len, sa_addr ip)" if "c \<in> set db" for c
    using ip_lease_cmp_key [of c] assms that by (simp add: lease_key_def)
  then show ?thesis
    by (simp add: ip_lease_exists_def Let_def tbl_get_def find_None_all del: not_None_eq)
qed

section \<open>Well-formed environments\<close>

definition wf_env :: "lease_env \<Rightarrow> bool" where
  "wf_env env \<longleftrightarrow>
     (\<forall>s a. env_pton4 env s = Some a \<longrightarrow> length a = 4)
   \<and> (\<forall>s a. env_pton6 env s = Some a \<longrightarrow> length a = 16)
   \<and> (\<forall>s. length (env_sha1 env s) = 20) \<and> length (env_mask_ptr env) = 4"

section \<open>What the search for a free address returns\<close>

definition lease4 :: "byte list \<Rightarrow> sockaddr \<Rightarrow> bool \<Rightarrow> ip_lease" where
  "lease4 r net pooled = \<lparr>le_rip = \<lparr>sa_family = AF_INET, sa_addr = r\<rparr>, le_rip_len = SIZEOF_SIN,
     le_lip = lip_of net 3, le_lip_len = SIZEOF_SIN, le_db = pooled, le_destr = False\<rparr>"

definition lease6 :: "byte list \<Rightarrow> sockaddr \<Rightarrow> bool \<Rightarrow> ip_lease" where
  "lease6 r net pooled = \<lparr>le_rip = \<lparr>sa_family = AF_INET6, sa_addr = r\<rparr>, le_rip_len = SIZEOF_SIN6,
     le_lip = lip_of net 15, le_lip_len = SIZEOF_SIN6, le_db = pooled, le_destr = False\<rparr>"

text \<open>The address of a lease and the network it was drawn from.\<close>

definition good4 :: "lease_db \<Rightarrow> byte list \<Rightarrow> byte list \<Rightarrow> byte list \<Rightarrow> bool" where
  "good4 db ptr net r \<longleftrightarrow>
     length r = 4
   \<and> is_ipv4_ok ptr db \<lparr>sa_family = AF_INET, sa_addr = r\<rparr> \<lparr>sa_family = AF_INET, sa_addr = net\<rparr>
   \<and> memcmp (net[3 := net ! 3 OR 1]) r 4 \<noteq> 0"

definition good6 :: "lease_db \<Rightarrow> byte list \<Rightarrow> byte list \<Rightarrow> bool" where
  "good6 db net r \<longleftrightarrow>
     length r = 16
   \<and> is_ipv6_ok db \<lparr>sa_family = AF_INET6, sa_addr = r\<rparr> \<lparr>sa_family = AF_INET6, sa_addr = net\<rparr>
   \<and> memcmp (net[15 := net ! 15 OR 1]) r 4 \<noteq> 0"

lemma ipv4_tries_found:
  assumes "ipv4_tries env db m net seed n rnd = Inr l"
    and "length seed = 4" and "length m = 4" and "sa_family net = AF_INET"
    and "sa_addr net = bytes_and base m" and "length base = 4" and "wf_env env"
  shows "\<exists>r. l = lease4 r net True \<and> good4 db (env_mask_ptr env) (sa_addr net) r
    \<and> bytes_and r m = sa_addr net"
  using assms
proof (induction n arbitrary: rnd)
  case (Suc n)
  let ?s = "if Suc n = MAX_IP_TRIES then seed else ip_from_seed env rnd 4"
  let ?r = "bytes_or (bytes_and ?s (bytes_not m)) (sa_addr net)"
  have len0: "length ?s = 4" using Suc.prems by (simp add: ip_from_seed_def wf_env_def)
  have len: "length ?r = 4" using Suc.prems(3,5,6) len0 by (simp only: length_bytes)
  have sub: "bytes_and ?r m = sa_addr net"
    unfolding Suc.prems(5)
    by (rule bytes_and_or_not) (use Suc.prems(3,6) len0 in \<open>simp_all only:\<close>)
  have net: "net = \<lparr>sa_family = AF_INET, sa_addr = sa_addr net\<rparr>" using Suc.prems(4) by simp
  show ?case
  proof (cases "is_ipv4_ok (env_mask_ptr env) db \<lparr>sa_family = AF_INET, sa_addr = ?r\<rparr> net
      \<and> memcmp (sa_addr (lip_of net 3)) ?r 4 \<noteq> 0 \<and> env_ping env n ?r = 0")
    case True
    then have "l = lease4 ?r net True" using Suc.prems(1) by (simp add: Let_def lease4_def)
    moreover have "good4 db (env_mask_ptr env) (sa_addr net) ?r"
      using True len net by (simp add: good4_def lip_of_def)
    ultimately show ?thesis using sub by blast
  next
    case False
    then have "ipv4_tries env db m net seed n ?r = Inr l"
      using Suc.prems(1) by (auto simp: Let_def split: if_splits)
    then show ?thesis using Suc by blast
  qed
qed simp

lemma ipv6_tries_found:
  assumes "ipv6_tries env db m net seed n rnd = Inr l"
    and "length seed = 4" and "length m = 16" and "sa_family net = AF_INET6"
    and "sa_addr net = bytes_and base m" and "length base = 16" and "wf_env env"
  shows "\<exists>r. l = lease6 r net True \<and> good6 db (sa_addr net) r \<and> bytes_and r m = sa_addr net"
  using assms
proof (induction n arbitrary: rnd)
  case (Suc n)
  let ?s = "if Suc n = MAX_IP_TRIES then replicate 11 0 @ seed @ [0] else ip_from_seed env rnd 16"
  let ?r = "bytes_or (bytes_and ?s (bytes_not m)) (sa_addr net)"
  have len0: "length ?s = 16" using Suc.prems by (simp add: ip_from_seed_def wf_env_def)
  have len: "length ?r = 16" using Suc.prems(3,5,6) len0 by (simp only: length_bytes)
  have sub: "bytes_and ?r m = sa_addr net"
    unfolding Suc.prems(5)
    by (rule bytes_and_or_not) (use Suc.prems(3,6) len0 in \<open>simp_all only:\<close>)
  have net: "net = \<lparr>sa_family = AF_INET6, sa_addr = sa_addr net\<rparr>" using Suc.prems(4) by simp
  show ?case
  proof (cases "is_ipv6_ok db \<lparr>sa_family = AF_INET6, sa_addr = ?r\<rparr> net
      \<and> memcmp (sa_addr (lip_of net 15)) ?r 4 \<noteq> 0 \<and> env_ping env n ?r = 0")
    case True
    then have "l = lease6 ?r net True" using Suc.prems(1) by (simp add: Let_def lease6_def)
    moreover have "good6 db (sa_addr net) ?r"
      using True len net by (simp add: good6_def lip_of_def)
    ultimately show ?thesis using sub by blast
  next
    case False
    then have "ipv6_tries env db m net seed n ?r = Inr l"
      using Suc.prems(1) by (auto simp: Let_def split: if_splits)
    then show ?thesis using Suc by blast
  qed
qed simp

text \<open>What a call leaves in the process entry: a lease, or nothing.\<close>

definition gave4 :: "lease_env \<Rightarrow> lease_db \<Rightarrow> lease_proc \<Rightarrow> ip_lease \<Rightarrow> bool" where
  "gave4 env db p l \<longleftrightarrow>
     (\<exists>r net m. l = lease4 r \<lparr>sa_family = AF_INET, sa_addr = bytes_and net m\<rparr>
                      (lc_explicit_ipv4 (lp_config p) = None)
        \<and> length r = 4 \<and> length net = 4 \<and> length m = 4
        \<and> is_ipv4_ok (env_mask_ptr env) db \<lparr>sa_family = AF_INET, sa_addr = r\<rparr>
             \<lparr>sa_family = AF_INET, sa_addr = bytes_and net m\<rparr>
        \<and> memcmp ((bytes_and net m)[3 := bytes_and net m ! 3 OR 1]) r 4 \<noteq> 0
        \<and> (lc_explicit_ipv4 (lp_config p) = None \<longrightarrow> bytes_and r m = bytes_and net m))"

lemma explicit_ipv4_found:
  "explicit_ipv4_lease env db net tmp = Inr l \<Longrightarrow> l = lease4 tmp net False
    \<and> is_ipv4_ok (env_mask_ptr env) db \<lparr>sa_family = AF_INET, sa_addr = tmp\<rparr> net
    \<and> ip_cmp (lip_of net 3) \<lparr>sa_family = AF_INET, sa_addr = tmp\<rparr> \<noteq> 0"
  by (auto simp: explicit_ipv4_lease_def Let_def lease4_def split: if_splits)

lemma ipv4_network_some:
  "ipv4_network env vn p = Some (Inr (network, m)) \<Longrightarrow> wf_env env \<Longrightarrow>
    \<exists>net. network = \<lparr>sa_family = AF_INET, sa_addr = bytes_and net m\<rparr>
      \<and> length net = 4 \<and> length m = 4"
  by (auto simp: ipv4_network_def Let_def wf_env_def split: option.splits if_splits)

lemma get_ipv4_lease_result:
  assumes "get_ipv4_lease env vn db p = (ret, p')" and "wf_env env"
    and "length (lp_seed p) = 4" and "lp_ipv4 p = None"
  shows "p' = p \<or> ret = 0 \<and> (\<exists>l. p' = p\<lparr>lp_ipv4 := Some l\<rparr> \<and> gave4 env db p l)"
proof (cases "ipv4_network env vn p")
  case (Some y)
  have pnone: "p\<lparr>lp_ipv4 := None\<rparr> = p" using assms(4) by simp
  show ?thesis
  proof (cases y)
    case (Inr nm)
    obtain network m where nm: "nm = (network, m)" by (cases nm)
    then obtain net where net: "network = \<lparr>sa_family = AF_INET, sa_addr = bytes_and net m\<rparr>"
        "length net = 4" "length m = 4"
      using ipv4_network_some Some Inr assms(2) by blast
    show ?thesis
    proof (cases "lc_explicit_ipv4 (lp_config p)")
      case None
      then show ?thesis
        using assms Some Inr nm net pnone
          ipv4_tries_found [OF _ assms(3) net(3) _ _ net(2) assms(2), of db network]
        by (fastforce simp: get_ipv4_lease_def set_ipv4_def gave4_def good4_def
            split: sum.splits if_splits)
    next
      case (Some x)
      then show ?thesis
        using assms \<open>ipv4_network env vn p = Some y\<close> Inr nm net pnone
          explicit_ipv4_found [of env db network]
        by (fastforce simp: get_ipv4_lease_def set_ipv4_def gave4_def ip_cmp_def lip_of_def wf_env_def
            split: sum.splits if_splits option.splits)
    qed
  qed (use assms Some in \<open>simp add: get_ipv4_lease_def\<close>)
qed (use assms in \<open>simp add: get_ipv4_lease_def\<close>)

definition gave6 :: "lease_env \<Rightarrow> lease_db \<Rightarrow> lease_proc \<Rightarrow> ip_lease \<Rightarrow> bool" where
  "gave6 env db p l \<longleftrightarrow>
     (\<exists>r net m. l = lease6 r \<lparr>sa_family = AF_INET6, sa_addr = bytes_and net m\<rparr>
                      (lc_explicit_ipv6 (lp_config p) = None)
        \<and> length r = 16 \<and> length net = 16 \<and> length m = 16
        \<and> is_ipv6_ok db \<lparr>sa_family = AF_INET6, sa_addr = r\<rparr>
             \<lparr>sa_family = AF_INET6, sa_addr = bytes_and net m\<rparr>
        \<and> memcmp ((bytes_and net m)[15 := bytes_and net m ! 15 OR 1]) r 16 \<noteq> 0
        \<and> (lc_explicit_ipv6 (lp_config p) = None \<longrightarrow> bytes_and r m = bytes_and net m))"

lemma memcmp_mono: "memcmp a b n \<noteq> 0 \<Longrightarrow> n \<le> k \<Longrightarrow> memcmp a b k \<noteq> 0"
proof (induction a b n arbitrary: k rule: memcmp.induct)
  case (1 a as b bs n)
  then show ?case by (cases k) auto
qed auto

lemma explicit_ipv6_found:
  "explicit_ipv6_lease db net tmp = Inr l \<Longrightarrow> l = lease6 tmp net False
    \<and> is_ipv6_ok db \<lparr>sa_family = AF_INET6, sa_addr = tmp\<rparr> net
    \<and> memcmp (sa_addr (lip_of net 15)) tmp 16 \<noteq> 0"
  by (auto simp: explicit_ipv6_lease_def Let_def lease6_def split: if_splits)

lemma ipv6_network_some:
  "ipv6_network env vn p = Some (Inr (network, m)) \<Longrightarrow> wf_env env \<Longrightarrow>
    \<exists>net. network = \<lparr>sa_family = AF_INET6, sa_addr = bytes_and net m\<rparr>
      \<and> length net = 16 \<and> length m = 16"
  by (auto simp: ipv6_network_def Let_def wf_env_def split: option.splits if_splits)

lemma get_ipv6_lease_result:
  assumes "get_ipv6_lease env vn db p = (ret, p')" and "wf_env env"
    and "length (lp_seed p) = 4" and "lp_ipv6 p = None"
  shows "p' = p \<or> ret = 0 \<and> (\<exists>l. p' = p\<lparr>lp_ipv6 := Some l\<rparr> \<and> gave6 env db p l)"
proof (cases "ipv6_network env vn p")
  case (Some y)
  have pnone: "p\<lparr>lp_ipv6 := None\<rparr> = p" using assms(4) by simp
  show ?thesis
  proof (cases y)
    case (Inr nm)
    obtain network m where nm: "nm = (network, m)" by (cases nm)
    then obtain net where net: "network = \<lparr>sa_family = AF_INET6, sa_addr = bytes_and net m\<rparr>"
        "length net = 16" "length m = 16"
      using ipv6_network_some Some Inr assms(2) by blast
    show ?thesis
    proof (cases "lc_explicit_ipv6 (lp_config p)")
      case None
      have "gave6 env db p l"
        if "ipv6_tries env db m network (lp_seed p) MAX_IP_TRIES (replicate 16 0) = Inr l" for l
        using ipv6_tries_found [OF that assms(3) net(3) _ _ net(2) assms(2)] None net
          memcmp_mono [of _ _ 4 16]
        by (fastforce simp: gave6_def good6_def)
      then show ?thesis
        using assms Some Inr nm pnone None
        by (auto simp: get_ipv6_lease_def set_ipv6_def split: sum.splits if_splits)
    next
      case (Some x)
      then show ?thesis
        using assms \<open>ipv6_network env vn p = Some y\<close> Inr nm net pnone
          explicit_ipv6_found [of db network]
        by (fastforce simp: get_ipv6_lease_def set_ipv6_def gave6_def lip_of_def wf_env_def
            split: sum.splits if_splits option.splits)
    qed
  qed (use assms Some in \<open>simp add: get_ipv6_lease_def\<close>)
qed (use assms in \<open>simp add: get_ipv6_lease_def\<close>)

section \<open>The workers and the pool\<close>

text \<open>The table of leases, and what each worker entry of the main process holds.\<close>

type_synonym lease_sys = "lease_db \<times> (nat \<Rightarrow> lease_proc option)"

definition registered :: "lease_proc \<Rightarrow> ip_lease set" where
  "registered p = {l. (lp_ipv4 p = Some l \<or> lp_ipv6 p = Some l) \<and> le_destr l}"

definition held_by :: "(nat \<Rightarrow> lease_proc option) \<Rightarrow> nat \<Rightarrow> ip_lease set" where
  "held_by procs k = (case procs k of None \<Rightarrow> {} | Some p \<Rightarrow> registered p)"

text \<open>
  The steps: a worker entry is created (new_proc), asks for its leases (open_tun), gives
  them back when it is removed (remove_proc), gives back only the IPv6 lease (open_tun when
  IPv6 cannot be configured), or has its leases stolen by the entry of a reconnecting
  client, which has none yet (handle_auth_cookie_req).
\<close>

inductive lease_step :: "vpn_network \<Rightarrow> lease_sys \<Rightarrow> lease_sys \<Rightarrow> bool" for vn where
  step_new: "procs k = None \<Longrightarrow> lp_ipv4 p = None \<Longrightarrow> lp_ipv6 p = None \<Longrightarrow> length (lp_seed p) = 4 \<Longrightarrow>
    lease_step vn (db, procs) (db, procs(k \<mapsto> p))"
| step_get: "procs k = Some p \<Longrightarrow> wf_env env \<Longrightarrow> get_ip_leases env vn db p = (ret, db', p') \<Longrightarrow>
    lease_step vn (db, procs) (db', procs(k \<mapsto> p'))"
| step_remove: "procs k = Some p \<Longrightarrow> remove_ip_leases db p = (db', p') \<Longrightarrow>
    lease_step vn (db, procs) (db', procs(k := None))"
| step_drop6: "procs k = Some p \<Longrightarrow> lp_ipv6 p = Some l \<Longrightarrow>
    lease_step vn (db, procs) (remove_ip_lease db l, procs(k \<mapsto> p\<lparr>lp_ipv6 := None\<rparr>))"
| step_steal: "procs a = Some p \<Longrightarrow> procs b = Some q \<Longrightarrow> a \<noteq> b \<Longrightarrow> lp_ipv4 q = None \<Longrightarrow>
    lp_ipv6 q = None \<Longrightarrow> steal_ip_leases p q = (p', q') \<Longrightarrow>
    lease_step vn (db, procs) (db, procs(a \<mapsto> p', b \<mapsto> q'))"

text \<open>A reload can change the network between two steps.\<close>

inductive lease_reach :: "lease_sys \<Rightarrow> bool" where
  reach_init: "lease_reach (ip_lease_init db, \<lambda>_. None)"
| reach_step: "lease_reach s \<Longrightarrow> lease_step vn s s' \<Longrightarrow> lease_reach s'"

text \<open>
  The invariant: the table has unique keys and well-formed entries, its entries are exactly
  the registered leases of the workers, and no lease has two holders.
\<close>

definition wf_slots :: "lease_proc \<Rightarrow> bool" where
  "wf_slots p \<longleftrightarrow> length (lp_seed p) = 4
   \<and> (\<forall>l. lp_ipv4 p = Some l \<longrightarrow> wf_lease l \<and> le_rip_len l = SIZEOF_SIN \<and> (le_destr l \<longrightarrow> le_db l))
   \<and> (\<forall>l. lp_ipv6 p = Some l \<longrightarrow> wf_lease l \<and> le_rip_len l = SIZEOF_SIN6 \<and> (le_destr l \<longrightarrow> le_db l))"

definition pool_inv :: "lease_sys \<Rightarrow> bool" where
  "pool_inv s \<longleftrightarrow> (case s of (db, procs) \<Rightarrow>
     distinct (map lease_key db)
   \<and> set db = (\<Union>k. held_by procs k)
   \<and> (\<forall>a b. a \<noteq> b \<longrightarrow> held_by procs a \<inter> held_by procs b = {})
   \<and> (\<forall>k p. procs k = Some p \<longrightarrow> wf_slots p))"

lemma pool_inv_wf: "pool_inv (db, procs) \<Longrightarrow> \<forall>l \<in> set db. wf_lease l"
  by (fastforce simp: pool_inv_def held_by_def registered_def wf_slots_def split: option.splits)

lemma held_by_upd: "held_by (procs(k := x)) j = (if j = k then case_option {} registered x
    else held_by procs j)"
  by (simp add: held_by_def)

lemma pool_inv_update:
  assumes inv: "pool_inv (db, procs)"
    and keys: "distinct (map lease_key db')"
    and elems: "set db' = (set db - held_by procs k) \<union> case_option {} registered x"
    and fresh: "case_option {} registered x \<inter> (set db - held_by procs k) = {}"
    and wf: "\<And>p. x = Some p \<Longrightarrow> wf_slots p"
  shows "pool_inv (db', procs(k := x))"
proof -
  have others: "set db - held_by procs k = (\<Union>j \<in> - {k}. held_by procs j)"
  proof -
    have u: "set db = (\<Union>j. held_by procs j)" using inv by (simp add: pool_inv_def)
    have d: "x \<notin> held_by procs k" if "j \<noteq> k" "x \<in> held_by procs j" for j x
      using inv that by (auto simp: pool_inv_def)
    show ?thesis unfolding u using d by auto
  qed
  have "set db' = (\<Union>j. held_by (procs(k := x)) j)"
    unfolding elems others held_by_upd by auto
  moreover have "held_by (procs(k := x)) a \<inter> held_by (procs(k := x)) b = {}" if "a \<noteq> b" for a b
    using that inv fresh unfolding others held_by_upd pool_inv_def by (auto split: if_splits)
  ultimately show ?thesis using keys wf inv by (auto simp: pool_inv_def)
qed

text \<open>A call that grants nothing, or one fresh lease.\<close>

definition grants :: "lease_db \<Rightarrow> lease_proc \<Rightarrow> lease_db \<Rightarrow> lease_proc \<Rightarrow> bool" where
  "grants db p db' p' \<longleftrightarrow> wf_slots p' \<and>
     (db' = db \<and> registered p' = registered p
    \<or> (\<exists>l. db' = tbl_add l db \<and> registered p' = insert l (registered p)
         \<and> tbl_get lease_key (lease_key l) db = None))"

lemma pool_inv_grants:
  assumes "pool_inv (db, procs)" and "procs k = Some p" and "grants db p db' p'"
  shows "pool_inv (db', procs(k \<mapsto> p'))"
proof -
  have sub: "registered p \<subseteq> set db" and held: "held_by procs k = registered p"
    using assms(1,2) by (auto simp: pool_inv_def held_by_def split: option.splits)
  have dist: "distinct (map lease_key db)" using assms(1) by (simp add: pool_inv_def)
  from assms(3) consider "db' = db" "registered p' = registered p"
    | l where "db' = tbl_add l db" "registered p' = insert l (registered p)"
        "lease_key l \<notin> lease_key ` set db"
    by (auto simp: grants_def tbl_get_def find_None_all image_iff) metis
  then show ?thesis
  proof cases
    case 1
    then show ?thesis
      using sub held dist assms(3) by (intro pool_inv_update [OF assms(1)]) (auto simp: grants_def)
  next
    case (2 l)
    then have "l \<notin> set db" by blast
    then show ?thesis
      using 2 sub held dist assms(3)
      by (intro pool_inv_update [OF assms(1)]) (auto simp: grants_def tbl_add_def)
  qed
qed

lemma is_ipv4_ok_fresh:
  assumes "is_ipv4_ok ptr db ip net" and "\<forall>c \<in> set db. wf_lease c"
    and "sa_family ip = AF_INET" and "length (sa_addr ip) = 4"
  shows "tbl_get lease_key (SIZEOF_SIN, sa_addr ip) db = None"
  using ip_lease_exists_iff [OF assms(2), where ip = ip and len = SIZEOF_SIN] assms
  by (simp add: is_ipv4_ok_def Let_def wf_lease_def)

lemma is_ipv6_ok_fresh:
  assumes "is_ipv6_ok db ip net" and "\<forall>c \<in> set db. wf_lease c"
    and "sa_family ip = AF_INET6" and "length (sa_addr ip) = 16"
  shows "tbl_get lease_key (SIZEOF_SIN6, sa_addr ip) db = None"
  using ip_lease_exists_iff [OF assms(2), where ip = ip and len = SIZEOF_SIN6] assms
  by (simp add: is_ipv6_ok_def wf_lease_def)

lemma gave4_lease:
  assumes "gave4 env db p l" and "\<forall>c \<in> set db. wf_lease c"
  shows "wf_lease l \<and> le_rip_len l = SIZEOF_SIN \<and> \<not> le_destr l
    \<and> tbl_get lease_key (lease_key l) db = None"
  using assms is_ipv4_ok_fresh [OF _ assms(2)]
  by (fastforce simp: gave4_def lease4_def wf_lease_def lease_key_def)

lemma gave6_lease:
  assumes "gave6 env db p l" and "\<forall>c \<in> set db. wf_lease c"
  shows "wf_lease l \<and> le_rip_len l = SIZEOF_SIN6 \<and> \<not> le_destr l
    \<and> tbl_get lease_key (lease_key l) db = None"
  using assms is_ipv6_ok_fresh [OF _ assms(2)]
  by (fastforce simp: gave6_def lease6_def wf_lease_def lease_key_def)

lemma lease_destr_simps [simp]:
  "wf_lease (l\<lparr>le_destr := b\<rparr>) = wf_lease l" "lease_key (l\<lparr>le_destr := b\<rparr>) = lease_key l"
  by (simp_all add: wf_lease_def lease_key_def)

lemma registered_ipv4:
  "lp_ipv4 p = None \<Longrightarrow> registered (p\<lparr>lp_ipv4 := Some l\<rparr>) =
    (if le_destr l then insert l (registered p) else registered p)"
  by (auto simp: registered_def)

lemma wf_slots_ipv4:
  "wf_slots p \<Longrightarrow> wf_lease l \<Longrightarrow> le_rip_len l = SIZEOF_SIN \<Longrightarrow> (le_destr l \<longrightarrow> le_db l) \<Longrightarrow>
    wf_slots (p\<lparr>lp_ipv4 := Some l\<rparr>)"
  by (simp add: wf_slots_def)

lemma take_ipv4_grants:
  assumes "take_ipv4 env vn db p = (ret, db', p')" and "wf_env env" and "wf_slots p"
    and "\<forall>c \<in> set db. wf_lease c"
  shows "grants db p db' p'"
proof (cases "lp_ipv4 p")
  case None
  obtain r p1 where get: "get_ipv4_lease env vn db p = (r, p1)" by fastforce
  have "p1 = p \<or> r = 0 \<and> (\<exists>l. p1 = p\<lparr>lp_ipv4 := Some l\<rparr> \<and> gave4 env db p l)"
    using get_ipv4_lease_result [OF get assms(2) _ None] assms(3) by (simp add: wf_slots_def)
  then show ?thesis
  proof (elim disjE conjE exE)
    assume "p1 = p"
    then have "db' = db \<and> p' = p"
      using assms(1) get None by (simp add: take_ipv4_def split: if_splits)
    then show ?thesis using assms(3) by (simp add: grants_def)
  next
    fix l assume r: "r = 0" "p1 = p\<lparr>lp_ipv4 := Some l\<rparr>" and gave: "gave4 env db p l"
    note l = gave4_lease [OF gave assms(4)]
    let ?l = "l\<lparr>le_destr := True\<rparr>"
    have "db' = db \<and> p' = p1 \<or>
        le_db l \<and> db' = tbl_add ?l db \<and> p' = p\<lparr>lp_ipv4 := Some ?l\<rparr>"
      using assms(1) get None r
      by (simp add: take_ipv4_def register_lease_def Let_def split: if_splits)
    then show ?thesis
    proof
      assume "db' = db \<and> p' = p1"
      then show ?thesis
        using l r None assms(3) by (simp add: grants_def registered_ipv4 wf_slots_ipv4)
    next
      assume "le_db l \<and> db' = tbl_add ?l db \<and> p' = p\<lparr>lp_ipv4 := Some ?l\<rparr>"
      then show ?thesis
        using l None assms(3) unfolding grants_def
        by (intro conjI disjI2 exI [of _ ?l]) (simp_all add: registered_ipv4 wf_slots_ipv4)
    qed
  qed
qed (use assms in \<open>simp add: take_ipv4_def grants_def\<close>)

lemma registered_ipv6:
  "lp_ipv6 p = None \<Longrightarrow> registered (p\<lparr>lp_ipv6 := Some l\<rparr>) =
    (if le_destr l then insert l (registered p) else registered p)"
  by (auto simp: registered_def)

lemma wf_slots_ipv6:
  "wf_slots p \<Longrightarrow> wf_lease l \<Longrightarrow> le_rip_len l = SIZEOF_SIN6 \<Longrightarrow> (le_destr l \<longrightarrow> le_db l) \<Longrightarrow>
    wf_slots (p\<lparr>lp_ipv6 := Some l\<rparr>)"
  by (simp add: wf_slots_def)

lemma take_ipv6_grants:
  assumes "take_ipv6 env vn db p = (ret, db', p')" and "wf_env env" and "wf_slots p"
    and "\<forall>c \<in> set db. wf_lease c"
  shows "grants db p db' p'"
proof (cases "lp_ipv6 p")
  case None
  obtain r p1 where get: "get_ipv6_lease env vn db p = (r, p1)" by fastforce
  have "p1 = p \<or> r = 0 \<and> (\<exists>l. p1 = p\<lparr>lp_ipv6 := Some l\<rparr> \<and> gave6 env db p l)"
    using get_ipv6_lease_result [OF get assms(2) _ None] assms(3) by (simp add: wf_slots_def)
  then show ?thesis
  proof (elim disjE conjE exE)
    assume "p1 = p"
    then have "db' = db \<and> p' = p"
      using assms(1) get None by (simp add: take_ipv6_def split: if_splits)
    then show ?thesis using assms(3) by (simp add: grants_def)
  next
    fix l assume r: "r = 0" "p1 = p\<lparr>lp_ipv6 := Some l\<rparr>" and gave: "gave6 env db p l"
    note l = gave6_lease [OF gave assms(4)]
    let ?l = "l\<lparr>le_destr := True\<rparr>"
    have "db' = db \<and> p' = p1 \<or>
        le_db l \<and> db' = tbl_add ?l db \<and> p' = p\<lparr>lp_ipv6 := Some ?l\<rparr>"
      using assms(1) get None r
      by (simp add: take_ipv6_def register_lease_def Let_def split: if_splits)
    then show ?thesis
    proof
      assume "db' = db \<and> p' = p1"
      then show ?thesis
        using l r None assms(3) by (simp add: grants_def registered_ipv6 wf_slots_ipv6)
    next
      assume "le_db l \<and> db' = tbl_add ?l db \<and> p' = p\<lparr>lp_ipv6 := Some ?l\<rparr>"
      then show ?thesis
        using l None assms(3) unfolding grants_def
        by (intro conjI disjI2 exI [of _ ?l]) (simp_all add: registered_ipv6 wf_slots_ipv6)
    qed
  qed
qed (use assms in \<open>simp add: take_ipv6_def grants_def\<close>)

lemma pool_inv_get:
  assumes "pool_inv (db, procs)" and "procs k = Some p" and "wf_env env"
    and "get_ip_leases env vn db p = (ret, db', p')"
  shows "pool_inv (db', procs(k \<mapsto> p'))"
proof -
  obtain r1 db1 p1 where t4: "take_ipv4 env vn db p = (r1, db1, p1)" by (metis prod_cases3)
  have slots: "wf_slots p" using assms(1,2) by (simp add: pool_inv_def)
  have g1: "grants db p db1 p1"
    using take_ipv4_grants [OF t4 assms(3) slots] pool_inv_wf [OF assms(1)] by simp
  have inv1: "pool_inv (db1, procs(k \<mapsto> p1))" by (rule pool_inv_grants [OF assms(1,2) g1])
  show ?thesis
  proof (cases "r1 < 0")
    case True
    then show ?thesis using inv1 assms(4) t4 by (simp add: get_ip_leases_def)
  next
    case False
    obtain r2 db2 p2 where t6: "take_ipv6 env vn db1 p1 = (r2, db2, p2)" by (metis prod_cases3)
    have "grants db1 p1 db2 p2"
      using take_ipv6_grants [OF t6 assms(3)] g1 pool_inv_wf [OF inv1] by (simp add: grants_def)
    then have "pool_inv (db2, procs(k \<mapsto> p2))"
      using pool_inv_grants [OF inv1, of k p1] by simp
    moreover have "db' = db2 \<and> p' = p2"
      using assms(4) t4 t6 False by (auto simp: get_ip_leases_def split: if_splits)
    ultimately show ?thesis by simp
  qed
qed

section \<open>Giving leases back\<close>

text \<open>
  Freeing a registered lease takes it out of the table; \<open>q\<close> is the entry without it.
\<close>

lemma pool_inv_free:
  assumes inv: "pool_inv (db, procs)" and p: "procs k = Some p"
    and l: "wf_slots q" "registered p = registered q \<union> R" "registered q \<inter> R = {}"
    and R: "R = (case l of None \<Rightarrow> {} | Some l \<Rightarrow> if le_destr l then {l} else {})"
    and db: "\<And>x. l = Some x \<Longrightarrow> le_destr x \<Longrightarrow> le_db x"
  shows "pool_inv (free_lease db l, procs(k \<mapsto> q))"
proof -
  have held: "held_by procs k = registered p" using p by (simp add: held_by_def)
  have sub: "registered p \<subseteq> set db" using inv p by (auto simp: pool_inv_def held_by_def split: option.splits)
  have dist: "distinct (map lease_key db)" "distinct db"
    using inv by (auto simp: pool_inv_def simp: distinct_map)
  have set: "set (free_lease db l) = set db - R"
    using db dist(2) R by (auto simp: free_lease_def remove_ip_lease_def unref_ip_lease_def
        tbl_del_def split: option.splits if_splits)
  have "distinct (map lease_key (free_lease db l))"
  proof -
    have "distinct (map lease_key (remove1 x db))" for x
      using dist(1) by (metis distinct_map distinct_remove1 inj_on_subset set_remove1_subset)
    then show ?thesis
      using dist(1) by (auto simp: free_lease_def remove_ip_lease_def unref_ip_lease_def
          tbl_del_def split: option.splits)
  qed
  then show ?thesis
    by (rule pool_inv_update [OF inv])
      (use l held sub set in \<open>auto simp: R split: option.splits if_splits\<close>)
qed

lemma registered_clear:
  assumes "wf_slots p"
  shows "registered p = registered (p\<lparr>lp_ipv4 := None\<rparr>)
      \<union> (case lp_ipv4 p of None \<Rightarrow> {} | Some l \<Rightarrow> if le_destr l then {l} else {})"
    and "registered p = registered (p\<lparr>lp_ipv6 := None\<rparr>)
      \<union> (case lp_ipv6 p of None \<Rightarrow> {} | Some l \<Rightarrow> if le_destr l then {l} else {})"
    and "registered (p\<lparr>lp_ipv4 := None\<rparr>)
      \<inter> (case lp_ipv4 p of None \<Rightarrow> {} | Some l \<Rightarrow> if le_destr l then {l} else {}) = {}"
    and "registered (p\<lparr>lp_ipv6 := None\<rparr>)
      \<inter> (case lp_ipv6 p of None \<Rightarrow> {} | Some l \<Rightarrow> if le_destr l then {l} else {}) = {}"
  using assms
  by (auto simp: registered_def wf_slots_def sa_sizes split: option.splits if_splits)

lemma wf_slots_clear:
  "wf_slots p \<Longrightarrow> wf_slots (p\<lparr>lp_ipv4 := None\<rparr>)" "wf_slots p \<Longrightarrow> wf_slots (p\<lparr>lp_ipv6 := None\<rparr>)"
  by (auto simp: wf_slots_def)

lemma pool_inv_free4:
  assumes "pool_inv (db, procs)" and "procs k = Some p"
  shows "pool_inv (free_lease db (lp_ipv4 p), procs(k \<mapsto> p\<lparr>lp_ipv4 := None\<rparr>))"
proof -
  have slots: "wf_slots p" using assms by (simp add: pool_inv_def)
  show ?thesis
    by (rule pool_inv_free [OF assms wf_slots_clear(1) [OF slots] registered_clear(1,3) [OF slots]])
      (use slots in \<open>auto simp: wf_slots_def\<close>)
qed

lemma pool_inv_free6:
  assumes "pool_inv (db, procs)" and "procs k = Some p"
  shows "pool_inv (free_lease db (lp_ipv6 p), procs(k \<mapsto> p\<lparr>lp_ipv6 := None\<rparr>))"
proof -
  have slots: "wf_slots p" using assms by (simp add: pool_inv_def)
  show ?thesis
    by (rule pool_inv_free [OF assms wf_slots_clear(2) [OF slots] registered_clear(2,4) [OF slots]])
      (use slots in \<open>auto simp: wf_slots_def\<close>)
qed

lemma pool_inv_remove:
  assumes "pool_inv (db, procs)" and "procs k = Some p" and "remove_ip_leases db p = (db', p')"
  shows "pool_inv (db', procs(k := None))"
proof -
  have "pool_inv (db', procs(k \<mapsto> p'))"
    using pool_inv_free6 [OF pool_inv_free4 [OF assms(1,2)], of k] assms(3)
    by (simp add: remove_ip_leases_def) 
  note inv = this
  have "registered p' = {}"
    using assms(3) by (auto simp: remove_ip_leases_def registered_def)
  then have "held_by (procs(k \<mapsto> p')) k = {}" by (simp add: held_by_def)
  then have "pool_inv (db', (procs(k \<mapsto> p'))(k := None))"
    using inv by (intro pool_inv_update [OF inv]) (simp_all add: pool_inv_def)
  then show ?thesis by simp
qed

lemma pool_inv_steal:
  assumes inv: "pool_inv (db, procs)" and "procs a = Some p" "procs b = Some q" "a \<noteq> b"
    and "lp_ipv4 q = None" "lp_ipv6 q = None" "steal_ip_leases p q = (p', q')"
  shows "pool_inv (db, procs(a \<mapsto> p', b \<mapsto> q'))"
proof -
  have p': "p' = p\<lparr>lp_ipv4 := None, lp_ipv6 := None\<rparr>"
    and q': "q' = q\<lparr>lp_ipv4 := lp_ipv4 p, lp_ipv6 := lp_ipv6 p\<rparr>"
    using assms(7) by (simp_all add: steal_ip_leases_def)
  let ?new = "procs(a \<mapsto> p', b \<mapsto> q')"
  have reg: "registered p' = {}" "registered q' = registered p" "registered q = {}"
    using assms(5,6) by (auto simp: p' q' registered_def)
  have held: "held_by ?new j = (if j = a then {} else if j = b then held_by procs a
      else held_by procs j)" for j
    using assms(2,4) reg by (simp add: held_by_def)
  have hb: "held_by procs b = {}" using assms(3) reg by (simp add: held_by_def)
  have "(\<Union>j. held_by ?new j) = (\<Union>j. held_by procs j)"
    using hb assms(4) by (auto simp: held split: if_splits)
  moreover have "held_by ?new i \<inter> held_by ?new j = {}" if "i \<noteq> j" for i j
    using inv that hb unfolding held pool_inv_def by auto
  moreover have "wf_slots p'" "wf_slots q'"
    using inv assms(2,3) by (auto simp: pool_inv_def wf_slots_def p' q')
  ultimately show ?thesis using inv by (auto simp: pool_inv_def)
qed

lemma pool_inv_step: "lease_step vn s s' \<Longrightarrow> pool_inv s \<Longrightarrow> pool_inv s'"
proof (induction rule: lease_step.induct)
  case (step_new procs k p db)
  then have "held_by procs k = {}" "registered p = {}"
    by (auto simp: held_by_def registered_def)
  then show ?case
    using step_new by (intro pool_inv_update [OF step_new.prems]) (simp_all add: pool_inv_def wf_slots_def)
next
  case (step_get procs k p env db ret db' p')
  then show ?case using pool_inv_get by blast
next
  case (step_remove procs k p db db' p')
  then show ?case using pool_inv_remove by blast
next
  case (step_drop6 procs k p l db)
  then show ?case using pool_inv_free6 [of db procs k p] by (simp add: free_lease_def)
next
  case (step_steal procs a p b q p' q' db)
  then show ?case using pool_inv_steal by blast
qed

lemma pool_inv_reach: "lease_reach s \<Longrightarrow> pool_inv s"
proof (induction rule: lease_reach.induct)
  case (reach_init db)
  then show ?case by (simp add: pool_inv_def held_by_def ip_lease_init_def)
qed (rule pool_inv_step)

section \<open>A small server\<close>

text \<open>A server for 10.0.0.0/24 and a first client, for the examples.\<close>

definition example_env :: lease_env where
  "example_env = \<lparr>
     env_pton4 = (\<lambda>s. if s = ''10.0.0.0'' then Some [10, 0, 0, 0]
                     else if s = ''10.0.0.50'' then Some [10, 0, 0, 50]
                     else if s = ''255.255.255.0'' then Some [255, 255, 255, 0] else None),
     env_pton6 = (\<lambda>s. None), env_sha1 = (\<lambda>s. replicate 20 7), env_ping = (\<lambda>n a. 0),
     env_mask_ptr = [255, 127, 0, 0], env_alloc4 = True, env_alloc6 = True,
     env_add4 = True, env_add6 = True\<rparr>"

definition example_net :: vpn_network where
  "example_net = \<lparr>vn_ipv4 = Some ''10.0.0.0'', vn_ipv4_netmask = Some ''255.255.255.0'',
     vn_ipv6 = None, vn_ipv6_prefix = 0\<rparr>"

definition example_proc :: "byte list \<Rightarrow> lease_proc" where
  "example_proc seed = \<lparr>lp_config = \<lparr>lc_ipv4_network = None, lc_ipv4_netmask = None,
       lc_explicit_ipv4 = None, lc_ipv6_network = None, lc_ipv6_prefix = 0,
       lc_explicit_ipv6 = None\<rparr>,
     lp_seed = seed, lp_ipv4 = None, lp_ipv6 = None\<rparr>"

definition example_fixed :: "byte list \<Rightarrow> lease_proc" where
  "example_fixed seed = (example_proc seed)\<lparr>lp_config :=
     (lp_config (example_proc seed))\<lparr>lc_explicit_ipv4 := Some ''10.0.0.50''\<rparr>\<rparr>"

definition example_lease :: ip_lease where
  "example_lease = (lease4 [10, 0, 0, 4] \<lparr>sa_family = AF_INET, sa_addr = [10, 0, 0, 0]\<rparr> True)
     \<lparr>le_destr := True\<rparr>"

definition example_procs :: "nat \<Rightarrow> lease_proc option" where
  "example_procs = [0 \<mapsto> (example_proc [1, 2, 3, 4])\<lparr>lp_ipv4 := Some example_lease\<rparr>]"

lemma example_get:
  "get_ip_leases example_env example_net [] (example_proc [1, 2, 3, 4]) =
     (0, [example_lease], (example_proc [1, 2, 3, 4])\<lparr>lp_ipv4 := Some example_lease\<rparr>)"
  by code_simp

lemma example_env_wf: "wf_env example_env"
  by (auto simp: wf_env_def example_env_def)

lemma example_reach: "lease_reach ([example_lease], example_procs)"
proof -
  have "lease_reach ([], [0 \<mapsto> example_proc [1, 2, 3, 4]])"
    using reach_init [of "[]"]
    by (rule reach_step [where vn = example_net, unfolded ip_lease_init_def])
      (auto simp: ip_lease_init_def example_proc_def intro: step_new)
  moreover have "lease_step example_net ([], [0 \<mapsto> example_proc [1, 2, 3, 4]])
      ([example_lease], [0 \<mapsto> example_proc [1, 2, 3, 4]](0 \<mapsto>
        (example_proc [1, 2, 3, 4])\<lparr>lp_ipv4 := Some example_lease\<rparr>))"
    by (rule step_get [OF _ example_env_wf example_get]) simp
  ultimately show ?thesis
    unfolding example_procs_def by (metis fun_upd_upd reach_step)
qed

section \<open>The IPv6 search compares four bytes\<close>

lemma take_bytes [simp]:
  "take n (bytes_or a b) = bytes_or (take n a) (take n b)"
  "take n (bytes_and a b) = bytes_and (take n a) (take n b)"
  "take n (bytes_not a) = bytes_not (take n a)"
  by (simp_all add: bytes_defs take_map take_zip)

lemma masked_out:
  "length r = 4 \<Longrightarrow> length n = 4 \<Longrightarrow> bytes_or (bytes_and r (bytes_not [255, 255, 255, 255])) n = n"
proof -
  have byte: "(- 256 :: byte) = 0" by code_simp
  show "length r = 4 \<Longrightarrow> length n = 4 \<Longrightarrow> ?thesis"
    by (auto simp: bytes_defs length_Suc_conv byte eval_nat_numeral)
qed

lemma ipv6_tries_none:
  assumes "length seed = 4" and "length m = 16" and "take 4 m = [255, 255, 255, 255]"
    and "length (sa_addr net) = 16" and "wf_env env"
  shows "ipv6_tries env db m net seed n rnd = Inl ERR_NO_IP"
proof (induction n arbitrary: rnd)
  case (Suc n)
  let ?s = "if Suc n = MAX_IP_TRIES then replicate 11 0 @ seed @ [0] else ip_from_seed env rnd 16"
  let ?r = "bytes_or (bytes_and ?s (bytes_not m)) (sa_addr net)"
  have len0: "length ?s = 16" using assms by (simp add: ip_from_seed_def wf_env_def)
  have "length ?r = 16" using assms len0 by (simp only: length_bytes)
  moreover have "take 4 ?r = take 4 (sa_addr net)"
    using assms(3,4) len0 by (simp only: take_bytes) (rule masked_out, simp_all)
  ultimately have "memcmp (sa_addr (lip_of net 15)) ?r 4 = 0"
    using assms(4) by (simp add: memcmp_0_iff lip_of_def)
  then show ?case using Suc by (simp add: Let_def)
qed simp

section \<open>Returning what was taken\<close>

lemma take_ipv4_ret: "take_ipv4 env vn db p = (r, db', p') \<Longrightarrow> r \<le> 0"
  by (auto simp: take_ipv4_def split: option.splits if_splits prod.splits)

lemma take_ipv6_ret: "take_ipv6 env vn db p = (r, db', p') \<Longrightarrow> r \<le> 0"
  by (auto simp: take_ipv6_def split: option.splits if_splits prod.splits)

text \<open>A successful request puts the new lease, if it is registered, at the front of the table.\<close>

definition takes :: "nat \<Rightarrow> lease_db \<Rightarrow> ip_lease option \<Rightarrow> lease_db \<Rightarrow> bool" where
  "takes sz db x db' \<longleftrightarrow> (case x of
     None \<Rightarrow> db' = db
   | Some l \<Rightarrow> le_rip_len l = sz \<and> (if le_destr l then le_db l \<and> db' = l # db else db' = db))"

lemma take_ipv4_effect:
  assumes "take_ipv4 env vn db p = (0, db', p')" and "lp_ipv4 p = None"
    and "wf_env env" and "length (lp_seed p) = 4"
  shows "\<exists>x. p' = p\<lparr>lp_ipv4 := x\<rparr> \<and> takes SIZEOF_SIN db x db'"
proof -
  obtain r p1 where get: "get_ipv4_lease env vn db p = (r, p1)" by fastforce
  have pn: "p\<lparr>lp_ipv4 := None\<rparr> = p" using assms(2) by simp
  consider "p1 = p" | l where "r = 0" "p1 = p\<lparr>lp_ipv4 := Some l\<rparr>" "gave4 env db p l"
    using get_ipv4_lease_result [OF get assms(3,4,2)] by blast
  then show ?thesis
  proof cases
    case 1
    then have "db' = db" "p' = p\<lparr>lp_ipv4 := None\<rparr>"
      using assms(1,2) get pn by (auto simp: take_ipv4_def split: if_splits)
    then show ?thesis by (intro exI [of _ None]) (simp add: takes_def)
  next
    case (2 l)
    then have l: "\<not> le_destr l" "le_rip_len l = SIZEOF_SIN" by (auto simp: gave4_def lease4_def)
    show ?thesis
    proof (cases "le_db l")
      case True
      then have "db' = l\<lparr>le_destr := True\<rparr> # db" "p' = p\<lparr>lp_ipv4 := Some (l\<lparr>le_destr := True\<rparr>)\<rparr>"
        using assms(1,2) get 2
        by (auto simp: take_ipv4_def register_lease_def Let_def tbl_add_def split: if_splits)
      then show ?thesis
        using True l by (intro exI [of _ "Some (l\<lparr>le_destr := True\<rparr>)"]) (simp add: takes_def)
    next
      case False
      then have "db' = db" "p' = p\<lparr>lp_ipv4 := Some l\<rparr>"
        using assms(1,2) get 2 by (auto simp: take_ipv4_def)
      then show ?thesis
        using l by (intro exI [of _ "Some l"]) (simp add: takes_def)
    qed
  qed
qed

lemma take_ipv6_effect:
  assumes "take_ipv6 env vn db p = (0, db', p')" and "lp_ipv6 p = None"
    and "wf_env env" and "length (lp_seed p) = 4"
  shows "\<exists>x. p' = p\<lparr>lp_ipv6 := x\<rparr> \<and> takes SIZEOF_SIN6 db x db'"
proof -
  obtain r p1 where get: "get_ipv6_lease env vn db p = (r, p1)" by fastforce
  have pn: "p\<lparr>lp_ipv6 := None\<rparr> = p" using assms(2) by simp
  consider "p1 = p" | l where "r = 0" "p1 = p\<lparr>lp_ipv6 := Some l\<rparr>" "gave6 env db p l"
    using get_ipv6_lease_result [OF get assms(3,4,2)] by blast
  then show ?thesis
  proof cases
    case 1
    then have "db' = db" "p' = p\<lparr>lp_ipv6 := None\<rparr>"
      using assms(1,2) get pn by (auto simp: take_ipv6_def split: if_splits)
    then show ?thesis by (intro exI [of _ None]) (simp add: takes_def)
  next
    case (2 l)
    then have l: "\<not> le_destr l" "le_rip_len l = SIZEOF_SIN6" by (auto simp: gave6_def lease6_def)
    show ?thesis
    proof (cases "le_db l")
      case True
      then have "db' = l\<lparr>le_destr := True\<rparr> # db" "p' = p\<lparr>lp_ipv6 := Some (l\<lparr>le_destr := True\<rparr>)\<rparr>"
        using assms(1,2) get 2
        by (auto simp: take_ipv6_def register_lease_def Let_def tbl_add_def split: if_splits)
      then show ?thesis
        using True l by (intro exI [of _ "Some (l\<lparr>le_destr := True\<rparr>)"]) (simp add: takes_def)
    next
      case False
      then have "db' = db" "p' = p\<lparr>lp_ipv6 := Some l\<rparr>"
        using assms(1,2) get 2 by (auto simp: take_ipv6_def)
      then show ?thesis
        using l by (intro exI [of _ "Some l"]) (simp add: takes_def)
    qed
  qed
qed

lemma free_takes_both:
  assumes "takes SIZEOF_SIN db x db1" and "takes SIZEOF_SIN6 db1 y db2"
  shows "free_lease (free_lease db2 x) y = db"
proof -
  have "x \<noteq> None \<Longrightarrow> y \<noteq> None \<Longrightarrow> the x \<noteq> the y"
    using assms by (auto simp: takes_def sa_sizes)
  then show ?thesis
    using assms
    by (cases x; cases y)
      (auto simp: takes_def free_lease_def remove_ip_lease_def unref_ip_lease_def tbl_del_def
        split: if_splits)
qed

section \<open>Properties\<close>

text \<open>
  C25: at every moment of any run, also when the network is reconfigured, the lease table has one
  entry per address and its entries are exactly the leases the workers have registered: a
  registered address never has two holders, and none stays in the table after its holder is
  gone. Only leases from the pool are registered; an explicit address of a user's configuration
  is not, and can be given to two workers (explicit_ipv4_shared).
\<close>

theorem lease_pool_sound:
  assumes "lease_reach (db, procs)"
  shows "distinct (map lease_key db)
    \<and> set db = {l. \<exists>k p. procs k = Some p \<and> l \<in> registered p}
    \<and> (\<forall>a b p q. \<forall>l \<in> registered p. \<forall>m \<in> registered q. procs a = Some p \<longrightarrow> procs b = Some q \<longrightarrow>
        lease_key l = lease_key m \<longrightarrow> a = b \<and> l = m)"
proof -
  have inv: "pool_inv (db, procs)" by (rule pool_inv_reach [OF assms])
  have keys: "distinct (map lease_key db)" using inv by (simp add: pool_inv_def)
  have held: "set db = {l. \<exists>k p. procs k = Some p \<and> l \<in> registered p}"
    using inv by (auto simp: pool_inv_def held_by_def split: option.splits) blast+
  have "a = b \<and> l = m" if "procs a = Some p" "procs b = Some q" "l \<in> registered p"
      "m \<in> registered q" "lease_key l = lease_key m" for a b p q l m
  proof -
    have "l \<in> set db" "m \<in> set db" using that held by blast+
    then have lm: "l = m" using keys that(5) by (metis distinct_map inj_onD)
    have "held_by procs a \<inter> held_by procs b \<noteq> {}" using that lm by (auto simp: held_by_def)
    then show ?thesis using lm inv by (auto simp: pool_inv_def)
  qed
  then show ?thesis using keys held by blast
qed

theorem lease_pool_sound_witness:
  "set [example_lease] = {l. \<exists>k p. example_procs k = Some p \<and> l \<in> registered p}"
  using lease_pool_sound [OF example_reach] by blast

text \<open>
  An address drawn from the pool lies in the configured network, is not its network
  address, is not the server's own address of the tunnel (the network address with its
  lowest bit set), and was not in the lease table.
\<close>

theorem pool_ipv4_address:
  assumes "take_ipv4 env vn db p = (0, db', p')" and "wf_env env" and "length (lp_seed p) = 4"
    and "lp_ipv4 p = None" and "lp_ipv4 p' = Some l" and "lc_explicit_ipv4 (lp_config p) = None"
    and "\<forall>c \<in> set db. wf_lease c"
  shows "\<exists>r net m. le_rip l = \<lparr>sa_family = AF_INET, sa_addr = r\<rparr> \<and> bytes_and r m = bytes_and net m
      \<and> r \<noteq> bytes_and net m \<and> sa_addr (le_lip l) = (bytes_and net m)[3 := bytes_and net m ! 3 OR 1]
      \<and> r \<noteq> sa_addr (le_lip l) \<and> db' = tbl_add l db
      \<and> tbl_get lease_key (lease_key l) db = None"
proof -
  obtain r0 p1 where get: "get_ipv4_lease env vn db p = (r0, p1)" by fastforce
  have "p1 \<noteq> p"
    using assms(1,4,5) get by (auto simp: take_ipv4_def split: if_splits)
  then obtain l0 where r: "r0 = 0" "p1 = p\<lparr>lp_ipv4 := Some l0\<rparr>" and gave: "gave4 env db p l0"
    using get_ipv4_lease_result [OF get assms(2-4)] by blast
  note l0 = gave4_lease [OF gave assms(7)]
  have pooled: "le_db l0" using gave assms(6) by (auto simp: gave4_def lease4_def)
  have l: "l = l0\<lparr>le_destr := True\<rparr>" "db' = tbl_add l db"
    using assms(1,4,5) get r pooled
    by (auto simp: take_ipv4_def register_lease_def Let_def split: if_splits)
  obtain r net m where g: "l0 = lease4 r \<lparr>sa_family = AF_INET, sa_addr = bytes_and net m\<rparr> True"
      "length r = 4" "length net = 4" "length m = 4" "bytes_and r m = bytes_and net m"
      "is_ipv4_ok (env_mask_ptr env) db \<lparr>sa_family = AF_INET, sa_addr = r\<rparr>
         \<lparr>sa_family = AF_INET, sa_addr = bytes_and net m\<rparr>"
      "memcmp ((bytes_and net m)[3 := bytes_and net m ! 3 OR 1]) r 4 \<noteq> 0"
    using gave assms(6) by (auto simp: gave4_def)
  have "r \<noteq> bytes_and net m" using g(6) by (auto simp: is_ipv4_ok_def ip_cmp_def memcmp_0_iff Let_def)
  moreover have "r \<noteq> (bytes_and net m)[3 := bytes_and net m ! 3 OR 1]"
    using g(7) by (auto simp: memcmp_0_iff)
  moreover have "tbl_get lease_key (lease_key l) db = None" using l0 l by simp
  ultimately show ?thesis
    using l g(1,5) by (intro exI [of _ r] exI [of _ net] exI [of _ m])
      (simp add: lease4_def lip_of_def)
qed

theorem pool_ipv4_address_witness:
  "\<exists>r net m. le_rip example_lease = \<lparr>sa_family = AF_INET, sa_addr = r\<rparr>
     \<and> bytes_and r m = bytes_and net m \<and> r \<noteq> bytes_and net m"
proof -
  have "take_ipv4 example_env example_net [] (example_proc [1, 2, 3, 4]) =
     (0, [example_lease], (example_proc [1, 2, 3, 4])\<lparr>lp_ipv4 := Some example_lease\<rparr>)"
    by code_simp
  then show ?thesis
    using pool_ipv4_address [OF _ example_env_wf, of example_net "[]" "example_proc [1, 2, 3, 4]"]
    by (fastforce simp: example_proc_def)
qed

text \<open>
  No IPv6 address is ever drawn from a pool with a prefix of 32 bits or more, whatever the
  seed, the table and the answers to the pings: the loop rejects a candidate that agrees with
  the server's own address in the first four bytes, and all of them do. The call always
  fails with ERR_NO_IP.
\<close>

theorem ipv6_pool_exhausted:
  assumes "ipv6_network env vn p = Some (Inr (network, m))" and "take 4 m = [255, 255, 255, 255]"
    and "wf_env env" and "length (lp_seed p) = 4" and "lc_explicit_ipv6 (lp_config p) = None"
    and "env_alloc6 env"
  shows "get_ipv6_lease env vn db p = (ERR_NO_IP, p\<lparr>lp_ipv6 := None\<rparr>)"
proof -
  obtain net where "network = \<lparr>sa_family = AF_INET6, sa_addr = bytes_and net m\<rparr>" "length net = 16"
      "length m = 16"
    using ipv6_network_some [OF assms(1,3)] by blast
  then have "ipv6_tries env db m network (lp_seed p) MAX_IP_TRIES (replicate 16 0) = Inl ERR_NO_IP"
    using ipv6_tries_none assms by simp
  then show ?thesis using assms by (simp add: get_ipv6_lease_def set_ipv6_def)
qed

definition example_env6 :: lease_env where
  "example_env6 = example_env\<lparr>env_pton6 := (\<lambda>s.
     if s = ''fd00::'' then Some (0xfd # replicate 15 0)
     else if s = ''ffff:ffff:ffff:ffff::'' then Some (replicate 8 255 @ replicate 8 0)
     else None)\<rparr>"

definition example_net6 :: vpn_network where
  "example_net6 = example_net\<lparr>vn_ipv6 := Some ''fd00::'', vn_ipv6_prefix := 64\<rparr>"

theorem ipv6_pool_exhausted_witness:
  "get_ipv6_lease example_env6 example_net6 [] (example_proc [1, 2, 3, 4]) =
     (ERR_NO_IP, (example_proc [1, 2, 3, 4])\<lparr>lp_ipv6 := None\<rparr>)"
proof -
  have n: "ipv6_network example_env6 example_net6 (example_proc [1, 2, 3, 4]) =
      Some (Inr (\<lparr>sa_family = AF_INET6, sa_addr = 0xfd # replicate 15 0\<rparr>,
        replicate 8 255 @ replicate 8 0))"
    by code_simp
  have w: "wf_env example_env6"
    using example_env_wf by (auto simp: wf_env_def example_env6_def)
  have t: "take 4 (replicate 8 255 @ replicate 8 0) = [255, 255, 255, 255 :: byte]"
    by (simp add: numeral_eq_Suc)
  show ?thesis
    by (rule ipv6_pool_exhausted [OF n t w])
      (simp_all add: example_proc_def example_env6_def example_env_def)
qed

text \<open>
  An address that a user's configuration fixes is not accounted: the lease never enters
  the table, so a second user with the same explicit address is given it as well, although
  it is in use.
\<close>

theorem explicit_ipv4_shared:
  assumes "take_ipv4 env vn db p = (0, db1, p1)" and "lp_ipv4 p = None" and "lp_ipv4 q = None"
    and "lc_explicit_ipv4 (lp_config p) \<noteq> None" and "lp_config q = lp_config p"
    and "lp_ipv4 p1 = Some l"
  shows "db1 = db \<and> take_ipv4 env vn db1 q = (0, db, q\<lparr>lp_ipv4 := Some l\<rparr>)"
proof -
  obtain r p' where get: "get_ipv4_lease env vn db p = (r, p')" by fastforce
  obtain ex where ex: "lc_explicit_ipv4 (lp_config p) = Some ex" using assms(4) by blast
  have "lp_ipv4 p' = Some l' \<Longrightarrow> \<not> le_db l' \<and> r = 0" for l'
    using get ex assms(2) explicit_ipv4_found [of env db]
    by (fastforce simp: get_ipv4_lease_def set_ipv4_def lease4_def
        split: option.splits sum.splits if_splits)
  then have r: "r = 0" "p' = p1" "db1 = db" "\<not> le_db l"
    using assms(1,2,6) get by (auto simp: take_ipv4_def split: if_splits option.splits)
  have "ipv4_network env vn q = ipv4_network env vn p"
    by (simp add: ipv4_network_def assms(5))
  then have "get_ipv4_lease env vn db q = (0, q\<lparr>lp_ipv4 := Some l\<rparr>)"
    using get ex assms(2,5,6) r
    by (auto simp: get_ipv4_lease_def set_ipv4_def split: option.splits sum.splits if_splits)
  then show ?thesis using r assms(3) by (simp add: take_ipv4_def)
qed

text \<open>
  What is returned leaves no trace: after a successful request of a worker without
  leases, removing its leases restores the table and the worker entry, so the same seed
  leads to the same address again.
\<close>

theorem leases_returned:
  assumes "get_ip_leases env vn db p = (0, db', p')" and "lp_ipv4 p = None" and "lp_ipv6 p = None"
    and "wf_env env" and "length (lp_seed p) = 4"
  shows "remove_ip_leases db' p' = (db, p)"
proof -
  obtain r1 db1 p1 where t4: "take_ipv4 env vn db p = (r1, db1, p1)" by (metis prod_cases3)
  obtain r2 db2 p2 where t6: "take_ipv6 env vn db1 p1 = (r2, db2, p2)" by (metis prod_cases3)
  have r: "r1 = 0" "r2 = 0" "db' = db2" "p' = p2"
    using assms(1) t4 t6 take_ipv4_ret [OF t4] take_ipv6_ret [OF t6]
    by (auto simp: get_ip_leases_def split: if_splits)
  obtain x where x: "p1 = p\<lparr>lp_ipv4 := x\<rparr>" "takes SIZEOF_SIN db x db1"
    using take_ipv4_effect [OF t4 [unfolded r] assms(2,4,5)] by blast
  obtain y where y: "p2 = p1\<lparr>lp_ipv6 := y\<rparr>" "takes SIZEOF_SIN6 db1 y db2"
    using take_ipv6_effect [OF t6 [unfolded r]] assms(3-5) x(1) by auto
  have "p\<lparr>lp_ipv4 := None, lp_ipv6 := None\<rparr> = p" using assms(2,3) by simp
  then show ?thesis
    using free_takes_both [OF x(2) y(2)] x(1) y(1) r by (simp add: remove_ip_leases_def)
qed

theorem leases_returned_witness:
  "remove_ip_leases [example_lease] ((example_proc [1, 2, 3, 4])\<lparr>lp_ipv4 := Some example_lease\<rparr>)
     = ([], example_proc [1, 2, 3, 4])"
  using leases_returned [OF example_get _ _ example_env_wf] by (simp add: example_proc_def)

theorem explicit_ipv4_shared_witness:
  "\<exists>l. take_ipv4 example_env example_net [] (example_fixed [5, 6, 7, 8]) =
     (0, [], (example_fixed [5, 6, 7, 8])\<lparr>lp_ipv4 := Some l\<rparr>)"
proof -
  have "\<exists>l. take_ipv4 example_env example_net [] (example_fixed [1, 2, 3, 4]) =
     (0, [], (example_fixed [1, 2, 3, 4])\<lparr>lp_ipv4 := Some l\<rparr>)"
    by (rule exI [of _ "lease4 [10, 0, 0, 0x32] \<lparr>sa_family = AF_INET, sa_addr = [10, 0, 0, 0]\<rparr> False"])
      code_simp
  then show ?thesis
    using explicit_ipv4_shared [of example_env example_net "[]" "example_fixed [1, 2, 3, 4]" _ _
        "example_fixed [5, 6, 7, 8]"]
    by (fastforce simp: example_fixed_def example_proc_def)
qed

text \<open>
  The directed broadcast address of the network is handed out: is_ipv4_ok computes it
  from the bytes of its mask pointer, here those of a stack address, and not from the mask,
  so for 10.0.0.0/24 a worker whose seed ends in 255 is given 10.0.0.255.
\<close>

theorem broadcast_assigned:
  "map_option (sa_addr \<circ> le_rip) (lp_ipv4 (snd (get_ipv4_lease example_env example_net []
     (example_proc [9, 9, 9, 255])))) = Some [10, 0, 0, 255]"
  by code_simp

end
