(* ===== verification/Resume.thy ===== *)
theory Resume
  imports IpLease
begin

text \<open>
  The TLS session cache: the requests of main-resume.c on the main process's side with their
  dispatch in main-misc.c, the cache of tlslib.c, and the database callbacks of
  worker-resume.c. The hash chain of a session id is a list; a new entry takes the first
  free slot of its probe sequence, which can lie anywhere among the entries, so its position
  is a parameter. Allocation, htable_add and sending and receiving on the command socket
  succeed or not as parameters say.
\<close>

definition GNUTLS_MAX_SESSION_ID :: nat where "GNUTLS_MAX_SESSION_ID = 32"
definition MAX_SESSION_DATA_SIZE :: nat where "MAX_SESSION_DATA_SIZE = 4 * 1024"
definition DEFAULT_MAX_CACHED_TLS_SESSIONS :: u32 where "DEFAULT_MAX_CACHED_TLS_SESSIONS = 64"
definition GNUTLS_E_DB_ERROR :: int where "GNUTLS_E_DB_ERROR = -40"

lemmas resume_consts = GNUTLS_MAX_SESSION_ID_def MAX_SESSION_DATA_SIZE_def
  DEFAULT_MAX_CACHED_TLS_SESSIONS_def

record tls_cache =
  tc_remote_addr :: sockaddr
  tc_remote_addr_len :: nat
  tc_session_id :: "byte list"
  tc_session_data :: "byte list"

text \<open>tls_sess_db_st: the table and its own count of the entries.\<close>

record tls_sess_db =
  td_ht :: "tls_cache list"
  td_entries :: u32

record resume_proc =
  rp_remote_addr :: sockaddr
  rp_remote_addr_len :: nat
  rp_resume_reqs :: nat

definition tls_cache_init :: tls_sess_db where
  "tls_cache_init = \<lparr>td_ht = [], td_entries = 0\<rparr>"

definition tls_cache_deinit :: "tls_sess_db \<Rightarrow> tls_sess_db" where
  "tls_cache_deinit db = db\<lparr>td_ht := [], td_entries := 0\<rparr>"

section \<open>Requests at the main process\<close>

fun remove_first :: "('a \<Rightarrow> bool) \<Rightarrow> 'a list \<Rightarrow> 'a list" where
  "remove_first P [] = []"
| "remove_first P (x # xs) = (if P x then xs else x # remove_first P xs)"

definition handle_resume_delete_req :: "tls_sess_db \<Rightarrow> byte list \<Rightarrow> int \<times> tls_sess_db" where
  "handle_resume_delete_req db sid =
     (let hit = (\<lambda>c. tc_session_id c = sid) in
      if list_ex hit (td_ht db)
      then (0, db\<lparr>td_ht := remove_first hit (td_ht db), td_entries := td_entries db - 1\<rparr>)
      else (0, db))"

definition same_address :: "resume_proc \<Rightarrow> tls_cache \<Rightarrow> bool" where
  "same_address p c \<longleftrightarrow> rp_remote_addr_len p = tc_remote_addr_len c
     \<and> ip_cmp (rp_remote_addr p) (tc_remote_addr c) = 0"

text \<open>SessionResumeReplyMsg: the reply code and, when it has one, the session data.\<close>

record resume_reply =
  rr_ok :: bool
  rr_data :: "byte list option"

definition handle_resume_fetch_req ::
  "tls_sess_db \<Rightarrow> resume_proc \<Rightarrow> byte list \<Rightarrow> int \<times> resume_reply" where
  "handle_resume_fetch_req db p sid =
     (case List.find (\<lambda>c. tc_session_id c = sid \<and> same_address p c) (td_ht db) of
        Some c \<Rightarrow> (0, \<lparr>rr_ok = True, rr_data = Some (tc_session_data c)\<rparr>)
      | None \<Rightarrow> (0, \<lparr>rr_ok = False, rr_data = None\<rparr>))"

record store_env =
  se_max_clients :: u32
  se_talloc :: bool
  se_htable_add :: bool
  se_slot :: nat          \<comment> \<open>where the table puts the new entry\<close>

text \<open>The result says whether need_maintenance was set; htable_add's result is not looked at.\<close>

definition handle_resume_store_req ::
  "store_env \<Rightarrow> tls_sess_db \<Rightarrow> resume_proc \<Rightarrow> byte list \<Rightarrow> byte list \<Rightarrow> int \<times> bool \<times> tls_sess_db" where
  "handle_resume_store_req env db p sid sdata =
     (if GNUTLS_MAX_SESSION_ID < length sid then (-1, False, db)
      else if MAX_SESSION_DATA_SIZE < length sdata then (-1, False, db)
      else if max (2 * se_max_clients env) DEFAULT_MAX_CACHED_TLS_SESSIONS \<le> td_entries db
      then (-1, True, db)
      else if \<not> se_talloc env then (-1, False, db)
      else
        let c = \<lparr>tc_remote_addr = rp_remote_addr p, tc_remote_addr_len = rp_remote_addr_len p,
                  tc_session_id = sid, tc_session_data = sdata\<rparr>;
            ht = (if se_htable_add env
                  then take (se_slot env) (td_ht db) @ c # drop (se_slot env) (td_ht db)
                  else td_ht db)
        in (0, False, db\<lparr>td_ht := ht, td_entries := td_entries db + 1\<rparr>))"

text \<open>\<open>entry_time\<close> is gnutls_db_check_entry_time.\<close>

definition tls_expired :: "(byte list \<Rightarrow> int) \<Rightarrow> int \<Rightarrow> int \<Rightarrow> tls_cache \<Rightarrow> bool" where
  "tls_expired entry_time cookie_timeout now c \<longleftrightarrow> cookie_timeout < now - entry_time (tc_session_data c)"

definition expire_tls_sessions ::
  "(byte list \<Rightarrow> int) \<Rightarrow> int \<Rightarrow> int \<Rightarrow> tls_sess_db \<Rightarrow> tls_sess_db" where
  "expire_tls_sessions entry_time cookie_timeout now db =
     db\<lparr>td_ht := filter (\<lambda>c. \<not> tls_expired entry_time cookie_timeout now c) (td_ht db),
        td_entries := td_entries db
          - of_nat (length (filter (tls_expired entry_time cookie_timeout now) (td_ht db)))\<rparr>"

text \<open>
  The dispatch of RESUME_FETCH_REQ in handle_commands: one request per worker, and a reply
  whose code is overwritten from the return value of the handler.
\<close>

definition cmd_resume_fetch ::
  "tls_sess_db \<Rightarrow> resume_proc \<Rightarrow> byte list \<Rightarrow> bool \<Rightarrow> int \<times> resume_proc \<times> resume_reply option" where
  "cmd_resume_fetch db p sid send_ok =
     (if 0 < rp_resume_reqs p then (ERR_BAD_COMMAND, p, None)
      else
        let p1 = p\<lparr>rp_resume_reqs := rp_resume_reqs p + 1\<rparr> in
        (case handle_resume_fetch_req db p1 sid of
           (ret, msg) \<Rightarrow>
             let msg = msg\<lparr>rr_ok := \<not> ret < 0\<rparr> in
             if send_ok then (0, p1, Some msg) else (ERR_BAD_COMMAND, p1, None)))"

section \<open>The callbacks of the worker\<close>

text \<open>A gnutls_datum_t that is \<open>None\<close> is the NULL one.\<close>

definition recv_resume_fetch_reply ::
  "resume_reply option \<Rightarrow> bool \<Rightarrow> int \<times> byte list option" where
  "recv_resume_fetch_reply resp malloc_ok =
     (case resp of
        None \<Rightarrow> (-1, None)
      | Some r \<Rightarrow>
          if \<not> rr_ok r then (-1, None)
          else if \<not> malloc_ok then (-1, None)
          else (0, Some (case rr_data r of None \<Rightarrow> [] | Some d \<Rightarrow> d)))"

text \<open>\<open>main\<close> is what the main process answers to the request.\<close>

definition resume_db_fetch ::
  "(byte list \<Rightarrow> resume_reply option) \<Rightarrow> bool \<Rightarrow> bool \<Rightarrow> byte list \<Rightarrow> byte list option" where
  "resume_db_fetch main send_ok malloc_ok key =
     (if GNUTLS_MAX_SESSION_ID < length key then None
      else if \<not> send_ok then None
      else snd (recv_resume_fetch_reply (main key) malloc_ok))"

definition resume_db_store ::
  "bool \<Rightarrow> byte list \<Rightarrow> byte list \<Rightarrow> int \<times> (byte list \<times> byte list) option" where
  "resume_db_store send_ok key sdata =
     (if MAX_SESSION_DATA_SIZE < length sdata then (GNUTLS_E_DB_ERROR, None)
      else if GNUTLS_MAX_SESSION_ID < length key then (GNUTLS_E_DB_ERROR, None)
      else if \<not> send_ok then (GNUTLS_E_DB_ERROR, None)
      else (0, Some (key, sdata)))"

definition resume_db_delete :: "bool \<Rightarrow> byte list \<Rightarrow> int \<times> byte list option" where
  "resume_db_delete send_ok key =
     (if GNUTLS_MAX_SESSION_ID < length key then (GNUTLS_E_DB_ERROR, None)
      else if \<not> send_ok then (GNUTLS_E_DB_ERROR, None)
      else (0, Some key))"

section \<open>Runs\<close>

datatype resume_event =
  Rv_store store_env resume_proc "byte list" "byte list"
| Rv_delete "byte list"
| Rv_expire int int

fun resume_step :: "(byte list \<Rightarrow> int) \<Rightarrow> resume_event \<Rightarrow> tls_sess_db \<Rightarrow> tls_sess_db" where
  "resume_step tm (Rv_store env p sid d) db = snd (snd (handle_resume_store_req env db p sid d))"
| "resume_step tm (Rv_delete sid) db = snd (handle_resume_delete_req db sid)"
| "resume_step tm (Rv_expire timeout now) db = expire_tls_sessions tm timeout now db"

definition resume_run :: "(byte list \<Rightarrow> int) \<Rightarrow> resume_event list \<Rightarrow> tls_sess_db" where
  "resume_run tm evs = fold (resume_step tm) evs tls_cache_init"

lemma remove_first_subset: "set (remove_first P xs) \<subseteq> set xs"
  by (induction xs) auto

lemma length_remove_first: "list_ex P xs \<Longrightarrow> Suc (length (remove_first P xs)) = length xs"
  by (induction xs) auto

text \<open>Every cached session was stored by a worker that served the address it carries.\<close>

definition stored_by :: "resume_event list \<Rightarrow> tls_cache \<Rightarrow> bool" where
  "stored_by evs c \<longleftrightarrow> (\<exists>env p. Rv_store env p (tc_session_id c) (tc_session_data c) \<in> set evs
     \<and> tc_remote_addr c = rp_remote_addr p \<and> tc_remote_addr_len c = rp_remote_addr_len p)"

lemma store_elems:
  assumes "c \<in> set (td_ht (snd (snd (handle_resume_store_req env db p sid d))))"
  shows "c \<in> set (td_ht db) \<or> c = \<lparr>tc_remote_addr = rp_remote_addr p,
    tc_remote_addr_len = rp_remote_addr_len p, tc_session_id = sid, tc_session_data = d\<rparr>"
  using assms
  by (auto simp: handle_resume_store_req_def Let_def split: if_splits dest: in_set_takeD in_set_dropD)

lemma step_elems:
  assumes "c \<in> set (td_ht (resume_step tm ev db))"
  shows "c \<in> set (td_ht db) \<or> stored_by [ev] c"
proof (cases ev)
  case (Rv_store env p sid d)
  then show ?thesis using assms store_elems [of c env db p sid d] by (auto simp: stored_by_def)
next
  case (Rv_delete sid)
  then show ?thesis
    using assms remove_first_subset
    by (fastforce simp: handle_resume_delete_req_def Let_def split: if_splits)
next
  case (Rv_expire timeout now)
  then show ?thesis using assms by (simp add: expire_tls_sessions_def)
qed

lemma run_elems:
  "c \<in> set (td_ht (fold (resume_step tm) evs db)) \<Longrightarrow> c \<in> set (td_ht db) \<or> stored_by evs c"
proof (induction evs arbitrary: db)
  case (Cons ev evs)
  then have "c \<in> set (td_ht (resume_step tm ev db)) \<or> stored_by evs c" by simp
  then show ?case using step_elems [of c tm ev db] by (auto simp: stored_by_def)
qed simp

section \<open>The count of the entries\<close>

definition cache_limit :: "u32 \<Rightarrow> nat" where
  "cache_limit max_clients = unat (max (2 * max_clients) DEFAULT_MAX_CACHED_TLS_SESSIONS)"

definition cache_ok :: "u32 \<Rightarrow> tls_sess_db \<Rightarrow> bool" where
  "cache_ok mc db \<longleftrightarrow> unat (td_entries db) = length (td_ht db) \<and> length (td_ht db) \<le> cache_limit mc"

definition adds_succeed :: "u32 \<Rightarrow> resume_event list \<Rightarrow> bool" where
  "adds_succeed mc evs = list_all (\<lambda>ev. case ev of
     Rv_store env p sid d \<Rightarrow> se_htable_add env \<and> se_max_clients env = mc | _ \<Rightarrow> True) evs"

lemma store_ok:
  assumes "cache_ok mc db" and "se_htable_add env" and "se_max_clients env = mc"
  shows "cache_ok mc (snd (snd (handle_resume_store_req env db p sid d)))"
proof (cases "td_entries db < max (2 * mc) DEFAULT_MAX_CACHED_TLS_SESSIONS")
  case True
  then have "unat (td_entries db + 1) = unat (td_entries db) + 1" by (rule unat_plus_1)
  moreover have "unat (td_entries db) < cache_limit mc"
    using True by (simp add: cache_limit_def word_less_nat_alt)
  ultimately show ?thesis
    using assms by (auto simp: handle_resume_store_req_def cache_ok_def Let_def)
next
  case False
  then show ?thesis using assms by (auto simp: handle_resume_store_req_def not_less Let_def)
qed

lemma step_ok:
  assumes "cache_ok mc db" and "adds_succeed mc [ev]"
  shows "cache_ok mc (resume_step tm ev db)"
proof (cases ev)
  case (Rv_store env p sid d)
  then show ?thesis using assms store_ok by (simp add: adds_succeed_def)
next
  case (Rv_delete sid)
  let ?hit = "\<lambda>c. tc_session_id c = sid"
  show ?thesis
  proof (cases "list_ex ?hit (td_ht db)")
    case True
    then have len: "Suc (length (remove_first ?hit (td_ht db))) = length (td_ht db)"
      by (rule length_remove_first)
    then have "unat (td_entries db - 1) = unat (td_entries db) - 1"
      using assms(1) unat_minus_of_nat [of 1 "td_entries db"] by (simp add: cache_ok_def)
    then show ?thesis
      using True len assms(1) Rv_delete by (simp add: handle_resume_delete_req_def cache_ok_def Let_def)
  qed (use assms Rv_delete in \<open>simp add: handle_resume_delete_req_def\<close>)
next
  case (Rv_expire timeout now)
  let ?P = "tls_expired tm timeout now"
  have "length (filter ?P (td_ht db)) + length (filter (\<lambda>c. \<not> ?P c) (td_ht db)) = length (td_ht db)"
    by (rule sum_length_filter_compl)
  then show ?thesis
    using assms(1) unat_minus_of_nat [of "length (filter ?P (td_ht db))" "td_entries db"] Rv_expire
    by (simp add: cache_ok_def expire_tls_sessions_def)
qed

section \<open>Properties\<close>

text \<open>
  C31: a client only ever resumes its own sessions. Whatever was stored, deleted and expired
  before, session data that a worker obtains from the cache for a session id was stored
  under that id, unchanged, by a worker that served the same client address.
\<close>

theorem resume_only_own:
  assumes "resume_db_fetch (\<lambda>sid. snd (snd (cmd_resume_fetch (resume_run tm evs) p sid main_ok)))
      send_ok malloc_ok key = Some d" and "d \<noteq> []"
  shows "\<exists>env q. Rv_store env q key d \<in> set evs \<and> rp_remote_addr_len p = rp_remote_addr_len q
    \<and> ip_cmp (rp_remote_addr p) (rp_remote_addr q) = 0"
proof -
  let ?db = "resume_run tm evs"
  let ?p = "p\<lparr>rp_resume_reqs := rp_resume_reqs p + 1\<rparr>"
  obtain c where "List.find (\<lambda>c. tc_session_id c = key \<and> same_address ?p c) (td_ht ?db) = Some c"
      "tc_session_data c = d"
    using assms by (auto simp: resume_db_fetch_def recv_resume_fetch_reply_def cmd_resume_fetch_def
        handle_resume_fetch_req_def Let_def split: if_splits option.splits)
  then have c: "c \<in> set (td_ht ?db)" "tc_session_id c = key" "same_address ?p c"
      "tc_session_data c = d"
    using find_Some_iff_ex by fastforce+
  then have "stored_by evs c"
    using run_elems [of c tm evs tls_cache_init] by (auto simp: resume_run_def tls_cache_init_def)
  then show ?thesis using c unfolding stored_by_def same_address_def by fastforce
qed

definition example_peer :: resume_proc where
  "example_peer = \<lparr>rp_remote_addr = \<lparr>sa_family = AF_INET, sa_addr = [10, 1, 1, 1]\<rparr>,
     rp_remote_addr_len = 16, rp_resume_reqs = 0\<rparr>"

definition example_store :: store_env where
  "example_store = \<lparr>se_max_clients = 16, se_talloc = True, se_htable_add = True, se_slot = 0\<rparr>"

theorem resume_only_own_witness:
  "\<exists>env q. Rv_store env q [1, 2] [7, 8] \<in> set [Rv_store example_store example_peer [1, 2] [7, 8]]
    \<and> ip_cmp (rp_remote_addr example_peer) (rp_remote_addr q) = 0"
proof -
  have "resume_db_fetch (\<lambda>sid. snd (snd (cmd_resume_fetch (resume_run (\<lambda>d. 0)
      [Rv_store example_store example_peer [1, 2] [7, 8]]) example_peer sid True))) True True [1, 2]
    = Some [7, 8]"
    by (simp add: resume_db_fetch_def recv_resume_fetch_reply_def cmd_resume_fetch_def
        handle_resume_fetch_req_def handle_resume_store_req_def resume_run_def tls_cache_init_def
        same_address_def ip_cmp_def memcmp_0_iff example_peer_def example_store_def resume_consts
        Let_def)
  then show ?thesis using resume_only_own [of "\<lambda>d. 0"] by blast
qed

text \<open>
  What is stored can be resumed: after a store that succeeded, the first request of a
  worker with the same client address for that id gets the data back, when the cache held
  no session of that id before.
\<close>

theorem resume_store_fetch:
  assumes "handle_resume_store_req env db q sid d = (0, False, db')" and "se_htable_add env"
    and "\<forall>c \<in> set (td_ht db). tc_session_id c \<noteq> sid" and "rp_resume_reqs p = 0"
    and "rp_remote_addr p = rp_remote_addr q" and "rp_remote_addr_len p = rp_remote_addr_len q"
    and "length (sa_addr (rp_remote_addr p)) = length (sa_addr (rp_remote_addr q))"
  shows "resume_db_fetch (\<lambda>k. snd (snd (cmd_resume_fetch db' p k True))) True True sid = Some d"
proof -
  let ?c = "\<lparr>tc_remote_addr = rp_remote_addr q, tc_remote_addr_len = rp_remote_addr_len q,
              tc_session_id = sid, tc_session_data = d\<rparr>"
  have ht: "td_ht db' = take (se_slot env) (td_ht db) @ ?c # drop (se_slot env) (td_ht db)"
    and len: "length sid \<le> GNUTLS_MAX_SESSION_ID"
    using assms(1,2) by (auto simp: handle_resume_store_req_def Let_def split: if_splits)
  have same: "same_address (p\<lparr>rp_resume_reqs := n\<rparr>) ?c" for n
    using assms(5,6) by (simp add: same_address_def ip_cmp_def memcmp_0_iff)
  have "List.find (\<lambda>c. tc_session_id c = sid \<and> P c) (take n (td_ht db)) = None" for P n
    using assms(3) by (auto simp: find_None_all dest: in_set_takeD)
  then have "List.find (\<lambda>c. tc_session_id c = sid \<and> same_address (p\<lparr>rp_resume_reqs := n\<rparr>) c)
      (td_ht db') = Some ?c" for n
    using same by (simp add: ht find_append)
  then show ?thesis
    using len assms(4) by (simp add: resume_db_fetch_def recv_resume_fetch_reply_def
        cmd_resume_fetch_def handle_resume_fetch_req_def Let_def)
qed

theorem resume_store_fetch_witness:
  "resume_db_fetch (\<lambda>k. snd (snd (cmd_resume_fetch (snd (snd (handle_resume_store_req example_store
     tls_cache_init example_peer [1, 2] [7, 8]))) example_peer k True))) True True [1, 2] = Some [7, 8]"
  by (rule resume_store_fetch [of example_store tls_cache_init example_peer])
    (simp_all add: handle_resume_store_req_def tls_cache_init_def example_store_def resume_consts
      example_peer_def Let_def)

text \<open>
  As long as the insertions into the table succeed, the cache's own count is the number of
  its entries, through any sequence of stores, deletions and expirations, and stays within
  twice the number of clients (or 64).
\<close>

theorem cache_count:
  assumes "adds_succeed mc evs"
  shows "unat (td_entries (resume_run tm evs)) = length (td_ht (resume_run tm evs))
    \<and> length (td_ht (resume_run tm evs)) \<le> cache_limit mc"
proof -
  have "cache_ok mc db \<Longrightarrow> adds_succeed mc evs \<Longrightarrow> cache_ok mc (fold (resume_step tm) evs db)" for db
    by (induction evs arbitrary: db) (simp_all add: step_ok adds_succeed_def)
  then show ?thesis
    using assms by (simp add: resume_run_def tls_cache_init_def cache_ok_def)
qed

theorem cache_count_witness:
  "length (td_ht (resume_run (\<lambda>d. 0) [Rv_store example_store example_peer [1, 2] [7, 8],
     Rv_delete [1, 2]])) \<le> cache_limit 16"
  using cache_count [of 16 "[Rv_store example_store example_peer [1, 2] [7, 8], Rv_delete [1, 2]]"]
  by (simp add: adds_succeed_def example_store_def)

text \<open>
  A request for a session the cache does not hold is answered OK: the dispatcher replaces
  the FAILED reply of the handler by OK because the handler returns 0, and the worker then
  hands an empty session to GnuTLS as if it had been found.
\<close>

theorem resume_miss_is_ok:
  assumes "rp_resume_reqs p = 0" and "length sid \<le> GNUTLS_MAX_SESSION_ID"
    and "\<forall>c \<in> set (td_ht db). tc_session_id c \<noteq> sid"
  shows "rr_ok (snd (handle_resume_fetch_req db p sid)) = False
    \<and> resume_db_fetch (\<lambda>k. snd (snd (cmd_resume_fetch db p k True))) True True sid = Some []"
proof -
  have "List.find (\<lambda>c. tc_session_id c = sid \<and> P c) (td_ht db) = None" for P
    using assms(3) by (auto simp: find_None_all)
  then show ?thesis
    using assms(1,2) by (simp add: resume_db_fetch_def recv_resume_fetch_reply_def
        cmd_resume_fetch_def handle_resume_fetch_req_def Let_def)
qed

theorem resume_miss_is_ok_witness:
  "resume_db_fetch (\<lambda>k. snd (snd (cmd_resume_fetch tls_cache_init example_peer k True))) True True
     [1, 2] = Some []"
  using resume_miss_is_ok [of example_peer "[1, 2]" tls_cache_init]
  by (simp add: example_peer_def tls_cache_init_def resume_consts)

end
