(* ===== verification/Cookies.thy ===== *)
theory Cookies
  imports Prelude
begin

text \<open>
  Session cookies, src/cookies.c: the packed cookie message encrypted with AES-128-GCM, laid
  out as IV, ciphertext, truncated tag. The cipher, the packing functions and the outcomes
  of allocations and of the random generator are parameters.
\<close>

definition COOKIE_IV_SIZE :: nat where "COOKIE_IV_SIZE = 12"
definition COOKIE_MAC_SIZE :: nat where "COOKIE_MAC_SIZE = 12"

lemmas cookie_sizes = COOKIE_IV_SIZE_def COOKIE_MAC_SIZE_def

text \<open>The fields of the protobuf message Cookie that the server uses.\<close>

record cookie_msg =
  ck_username :: "string option"
  ck_groupname :: "string option"
  ck_hostname :: "string option"
  ck_ip :: "string option"
  ck_tls_auth_ok :: bool
  ck_ipv4_seed :: u32
  ck_sid :: "byte list"
  ck_expiration :: int

text \<open>
  \<open>gc_init\<close> is the success of gnutls_cipher_init; \<open>gc_encrypt\<close> and \<open>gc_decrypt\<close> return None
  on an error of the cipher; the tag covers what has been processed under key and IV.
\<close>

record gcm =
  gc_init :: bool
  gc_encrypt :: "byte list \<Rightarrow> byte list \<Rightarrow> byte list \<Rightarrow> byte list option"
  gc_decrypt :: "byte list \<Rightarrow> byte list \<Rightarrow> byte list \<Rightarrow> byte list option"
  gc_tag :: "byte list \<Rightarrow> byte list \<Rightarrow> byte list \<Rightarrow> byte list option"

record cookie_env =
  cn_gcm :: gcm
  cn_pack :: "cookie_msg \<Rightarrow> byte list"
  cn_unpack :: "byte list \<Rightarrow> cookie_msg option"
  cn_iv :: "byte list option"      \<comment> \<open>gnutls_rnd\<close>
  cn_talloc :: bool

definition decrypt_cookie :: "cookie_env \<Rightarrow> byte list \<Rightarrow> byte list \<Rightarrow> int \<times> cookie_msg option" where
  "decrypt_cookie env key cookie =
     (let g = cn_gcm env; iv = take COOKIE_IV_SIZE cookie in
      if length cookie \<le> COOKIE_IV_SIZE + COOKIE_MAC_SIZE then (-1, None)
      else if \<not> gc_init g then (-1, None)
      else if \<not> cn_talloc env then (-1, None)
      else
        let cookie_size = length cookie - (COOKIE_IV_SIZE + COOKIE_MAC_SIZE);
            c = take cookie_size (drop COOKIE_IV_SIZE cookie)
        in case gc_decrypt g key iv c of
             None \<Rightarrow> (-1, None)
           | Some p \<Rightarrow>
               (case gc_tag g key iv c of
                  None \<Rightarrow> (-1, None)
                | Some tag \<Rightarrow>
                    if take COOKIE_MAC_SIZE tag \<noteq>
                       take COOKIE_MAC_SIZE (drop cookie_size (drop COOKIE_IV_SIZE cookie))
                    then (-1, None)
                    else (case cn_unpack env p of
                            None \<Rightarrow> (-1, None)
                          | Some msg \<Rightarrow> (0, Some msg))))"

definition encrypt_cookie :: "cookie_env \<Rightarrow> byte list \<Rightarrow> cookie_msg \<Rightarrow> int \<times> byte list option" where
  "encrypt_cookie env key msg =
     (let g = cn_gcm env; packed = cn_pack env msg in
      if length packed = 0 then (-1, None)
      else if \<not> cn_talloc env then (-1, None)
      else
        (case cn_iv env of
           None \<Rightarrow> (-1, None)
         | Some iv \<Rightarrow>
             if \<not> gc_init g then (-1, None)
             else
               (case gc_encrypt g key iv packed of
                  None \<Rightarrow> (-1, None)
                | Some c \<Rightarrow>
                    (case gc_tag g key iv c of
                       None \<Rightarrow> (-1, None)
                     | Some tag \<Rightarrow> (0, Some (iv @ c @ take COOKIE_MAC_SIZE tag))))))"

section \<open>What the server relies on\<close>

text \<open>
  The documented behaviour of the library: decryption inverts encryption, ciphertexts have
  the length of the plaintext, tags have at least the truncated length, an IV has the length
  it was asked for, and unpacking inverts packing.
\<close>

definition gcm_ok :: "gcm \<Rightarrow> bool" where
  "gcm_ok g \<longleftrightarrow>
     (\<forall>k iv p c. gc_encrypt g k iv p = Some c \<longrightarrow> gc_decrypt g k iv c = Some p \<and> length c = length p)
   \<and> (\<forall>k iv c t. gc_tag g k iv c = Some t \<longrightarrow> COOKIE_MAC_SIZE \<le> length t)"

definition cookie_env_ok :: "cookie_env \<Rightarrow> bool" where
  "cookie_env_ok env \<longleftrightarrow> gcm_ok (cn_gcm env)
   \<and> (\<forall>iv. cn_iv env = Some iv \<longrightarrow> length iv = COOKIE_IV_SIZE)"

text \<open>
  Decrypting what encrypt_cookie produced returns the message that was encrypted.
\<close>

theorem cookie_roundtrip:
  assumes "encrypt_cookie env key msg = (0, Some cookie)" and "cookie_env_ok env"
    and "cn_unpack env (cn_pack env msg) = Some msg"
  shows "decrypt_cookie env key cookie = (0, Some msg)"
proof -
  let ?g = "cn_gcm env" and ?p = "cn_pack env msg"
  obtain iv c t where e: "cn_talloc env" "?p \<noteq> []" "cn_iv env = Some iv" "gc_init ?g"
      "gc_encrypt ?g key iv ?p = Some c" "gc_tag ?g key iv c = Some t"
      "cookie = iv @ c @ take COOKIE_MAC_SIZE t"
    using assms(1) by (auto simp: encrypt_cookie_def Let_def split: if_splits option.splits)
  have l: "length iv = COOKIE_IV_SIZE" "gc_decrypt ?g key iv c = Some ?p" "length c = length ?p"
      "COOKIE_MAC_SIZE \<le> length t" "cn_unpack env ?p = Some msg"
    using assms(2,3) e by (auto simp: cookie_env_ok_def gcm_ok_def)
  have "length ?p \<noteq> 0" using e(2) by simp
  then show ?thesis using e l by (simp add: decrypt_cookie_def Let_def)
qed

text \<open>
  A concrete cipher and packing for the examples: every byte is XORed with the first byte of
  the key, the tag is the key padded, and a cookie packs to its session id.
\<close>

unbundle bit_operations_syntax

definition example_gcm :: gcm where
  "example_gcm = \<lparr>gc_init = True, gc_encrypt = (\<lambda>k iv p. Some (map (\<lambda>b. b XOR hd k) p)),
     gc_decrypt = (\<lambda>k iv c. Some (map (\<lambda>b. b XOR hd k) c)),
     gc_tag = (\<lambda>k iv c. Some (take 12 (k @ replicate 12 0)))\<rparr>"

definition example_cookie :: "byte \<Rightarrow> cookie_msg" where
  "example_cookie b = \<lparr>ck_username = Some ''u'', ck_groupname = None, ck_hostname = None, ck_ip = None,
     ck_tls_auth_ok = False, ck_ipv4_seed = 0, ck_sid = [b], ck_expiration = 0\<rparr>"

definition example_cookie_env :: cookie_env where
  "example_cookie_env = \<lparr>cn_gcm = example_gcm, cn_pack = (\<lambda>m. ck_sid m),
     cn_unpack = (\<lambda>p. case p of [b] \<Rightarrow> Some (example_cookie b) | _ \<Rightarrow> None),
     cn_iv = Some (replicate 12 9), cn_talloc = True\<rparr>"

text \<open>
  A forged cookie is rejected. Whatever bytes a client sends, decrypt_cookie accepts
  them only if their last twelve bytes are the tag, under the server's key, of the bytes
  between the IV and them; nothing is unpacked or returned otherwise.
\<close>

theorem cookie_authentic:
  assumes "decrypt_cookie env key cookie = (ret, Some msg)"
    and "\<forall>k iv c t. gc_tag (cn_gcm env) k iv c = Some t \<longrightarrow> COOKIE_MAC_SIZE \<le> length t"
  shows "\<exists>iv c t p. cookie = iv @ c @ take COOKIE_MAC_SIZE t \<and> length iv = COOKIE_IV_SIZE \<and> c \<noteq> []
    \<and> gc_tag (cn_gcm env) key iv c = Some t \<and> gc_decrypt (cn_gcm env) key iv c = Some p
    \<and> cn_unpack env p = Some msg"
proof -
  let ?n = "length cookie - (COOKIE_IV_SIZE + COOKIE_MAC_SIZE)"
  let ?iv = "take COOKIE_IV_SIZE cookie" and ?c = "take ?n (drop COOKIE_IV_SIZE cookie)"
  obtain p t where d: "COOKIE_IV_SIZE + COOKIE_MAC_SIZE < length cookie"
      "gc_decrypt (cn_gcm env) key ?iv ?c = Some p" "gc_tag (cn_gcm env) key ?iv ?c = Some t"
      "take COOKIE_MAC_SIZE t = take COOKIE_MAC_SIZE (drop ?n (drop COOKIE_IV_SIZE cookie))"
      "cn_unpack env p = Some msg"
    using assms(1) by (auto simp: decrypt_cookie_def Let_def not_le split: if_splits option.splits)
  have "length (drop ?n (drop COOKIE_IV_SIZE cookie)) = COOKIE_MAC_SIZE" using d(1) by simp
  then have "take COOKIE_MAC_SIZE t = drop ?n (drop COOKIE_IV_SIZE cookie)"
    using d(4) by (metis take_all order_refl)
  then have split: "cookie = ?iv @ ?c @ take COOKIE_MAC_SIZE t" by (metis append_take_drop_id)
  have iv: "length ?iv = COOKIE_IV_SIZE" using d(1) by simp
  have "0 < length ?c" using d(1) by (simp add: cookie_sizes)
  then have c: "?c \<noteq> []" by (rule length_greater_0_conv [THEN iffD1])
  show ?thesis
    by (intro exI conjI) (rule split, rule iv, rule c, rule d(3), rule d(2), rule d(5))
qed

theorem cookie_roundtrip_witness:
  "decrypt_cookie example_cookie_env [3] (replicate 12 9 @ [5 XOR 3] @ (3 # replicate 11 0)) =
     (0, Some (example_cookie 5))"
proof -
  have "encrypt_cookie example_cookie_env [3] (example_cookie 5) =
      (0, Some (replicate 12 9 @ [5 XOR 3] @ (3 # replicate 11 0)))"
    by (simp add: encrypt_cookie_def example_cookie_env_def example_gcm_def example_cookie_def
        cookie_sizes numeral_eq_Suc)
  moreover have "cookie_env_ok example_cookie_env"
    by (auto simp: cookie_env_ok_def gcm_ok_def example_cookie_env_def example_gcm_def cookie_sizes
        comp_def xor.assoc)
  moreover have "cn_unpack example_cookie_env (cn_pack example_cookie_env (example_cookie 5)) =
      Some (example_cookie 5)"
    by (simp add: example_cookie_env_def example_cookie_def)
  ultimately show ?thesis by (rule cookie_roundtrip)
qed

theorem cookie_authentic_witness:
  "\<exists>iv c t. replicate 12 9 @ [5 XOR 3] @ (3 # replicate 11 (0 :: byte)) = iv @ c @ take COOKIE_MAC_SIZE t
     \<and> gc_tag (cn_gcm example_cookie_env) [3] iv c = Some t"
proof -
  have "decrypt_cookie example_cookie_env [3] (replicate 12 9 @ [5 XOR 3] @ (3 # replicate 11 0)) =
     (0, Some (example_cookie 5))"
    by (simp add: decrypt_cookie_def example_cookie_env_def example_gcm_def cookie_sizes
        numeral_eq_Suc Let_def)
  then show ?thesis
    using cookie_authentic [of example_cookie_env "[3]"]
    by (fastforce simp: example_cookie_env_def example_gcm_def cookie_sizes)
qed

end
