(* ===== verification/Ban.thy ===== *)
theory Ban
  imports Tables
begin

text \<open>
  The table of misbehaving addresses, src/main-ban.c. Times are the seconds time(0) returns,
  a score is an unsigned int and wraps; the result of human_addr2 and the success of the
  allocations are parameters. \<open>None\<close> as the table stands for a NULL ban_db.
\<close>

definition MAX_IP_STR :: nat where "MAX_IP_STR = 46"

record ban_entry =
  be_ip :: string
  be_score :: u32
  be_last_reset :: int
  be_expires :: int

text \<open>The settings of struct cfg_st; max_ban_score is a signed int.\<close>

record ban_cfg =
  bc_min_reauth_time :: int
  bc_max_ban_score :: int
  bc_ban_reset_time :: int
  bc_ban_points_connect :: u32

type_synonym ban_db = "ban_entry list option"

text \<open>The comparison of an unsigned score with the signed limit converts the limit.\<close>

definition max_score :: "ban_cfg \<Rightarrow> u32" where
  "max_score cfg = word_of_int (bc_max_ban_score cfg)"

section \<open>Operations\<close>

definition main_ban_db_init :: "ban_db" where
  "main_ban_db_init = Some []"

definition main_ban_db_deinit :: "ban_db \<Rightarrow> ban_db" where
  "main_ban_db_deinit db = map_option (\<lambda>_. []) db"

definition main_ban_db_elems :: "ban_db \<Rightarrow> nat" where
  "main_ban_db_elems db = (case db of Some t \<Rightarrow> length t | None \<Rightarrow> 0)"

definition ban_entry_cmp :: "ban_entry \<Rightarrow> ban_entry \<Rightarrow> bool" where
  "ban_entry_cmp c1 c2 \<longleftrightarrow> be_ip c1 = be_ip c2"

text \<open>\<open>if (now > last_reset + ban_reset_time)\<close>, for an entry that was there.\<close>

definition ban_reset :: "ban_cfg \<Rightarrow> int \<Rightarrow> ban_entry \<Rightarrow> ban_entry" where
  "ban_reset cfg now e =
     (if be_last_reset e + bc_ban_reset_time cfg < now
      then e\<lparr>be_score := 0, be_last_reset := now\<rparr> else e)"

text \<open>The update of the entry that was found or made.\<close>

definition ban_count :: "ban_cfg \<Rightarrow> int \<Rightarrow> u32 \<Rightarrow> ban_entry \<Rightarrow> ban_entry" where
  "ban_count cfg now score e =
     (let e1 = (if be_score e < max_score cfg
                then e\<lparr>be_expires := now + bc_min_reauth_time cfg\<rparr> else e)
      in e1\<lparr>be_score := be_score e1 + score\<rparr>)"

text \<open>
  What is logged at the default level: \<open>Msg_banned\<close> is "added IP to ban list", guarded by
  print_msg; \<open>Msg_none\<close> is a ban that is not reported; \<open>Msg_points\<close> the debug message.
\<close>

datatype ban_msg = Msg_none | Msg_banned | Msg_points

definition ban_verdict :: "ban_cfg \<Rightarrow> bool \<Rightarrow> u32 \<Rightarrow> int \<times> ban_msg" where
  "ban_verdict cfg print_msg score =
     (if 0 < bc_max_ban_score cfg \<and> max_score cfg \<le> score
      then (-1, if print_msg then Msg_banned else Msg_none) else (0, Msg_points))"

record ban_alloc =
  ba_talloc :: bool
  ba_htable_add :: bool

definition add_ip_to_ban_list ::
  "ban_cfg \<Rightarrow> ban_alloc \<Rightarrow> int \<Rightarrow> ban_db \<Rightarrow> string option \<Rightarrow> u32 \<Rightarrow> (int \<times> ban_msg) \<times> ban_db" where
  "add_ip_to_ban_list cfg al now db ip score =
     (case db of
        None \<Rightarrow> ((0, Msg_none), db)
      | Some t \<Rightarrow>
          if bc_max_ban_score cfg = 0 \<or> ip = None \<or> char_at (the ip) 0 = NUL
          then ((0, Msg_none), db)
          else
            let key = strlcpy_str MAX_IP_STR (the ip) in
            (case tbl_get be_ip key t of
               None \<Rightarrow>
                 if \<not> ba_talloc al \<or> \<not> ba_htable_add al then ((0, Msg_none), db)
                 else
                   let e = \<lparr>be_ip = key, be_score = 0, be_last_reset = now, be_expires = 0\<rparr>;
                       e1 = ban_count cfg now score e
                   in (ban_verdict cfg (\<not> be_score e < max_score cfg) (be_score e1),
                       Some (tbl_add e1 t))
             | Some e0 \<Rightarrow>
                 let e = ban_reset cfg now e0;
                     e1 = ban_count cfg now score e
                 in (ban_verdict cfg (\<not> be_score e < max_score cfg) (be_score e1),
                     Some (tbl_update be_ip key (\<lambda>_. e1) t))))"

definition remove_ip_from_ban_list :: "ban_db \<Rightarrow> string option \<Rightarrow> int \<times> ban_db" where
  "remove_ip_from_ban_list db ip =
     (case db of
        None \<Rightarrow> (0, db)
      | Some t \<Rightarrow>
          if ip = None \<or> char_at (the ip) 0 = NUL then (0, db)
          else
            let key = strlcpy_str MAX_IP_STR (the ip) in
            (case tbl_get be_ip key t of
               None \<Rightarrow> (0, db)
             | Some e \<Rightarrow>
                 (1, Some (tbl_update be_ip key (\<lambda>e. e\<lparr>be_score := 0, be_expires := 0\<rparr>) t))))"

text \<open>
  \<open>ip\<close> is what human_addr2 wrote; \<open>now\<close> and \<open>now2\<close> are the two calls of time(0), in
  add_ip_to_ban_list and after it.
\<close>

definition check_if_banned ::
  "ban_cfg \<Rightarrow> ban_alloc \<Rightarrow> int \<Rightarrow> int \<Rightarrow> ban_db \<Rightarrow> string option \<Rightarrow> nat \<times> ban_db" where
  "check_if_banned cfg al now now2 db ip =
     (if db = None \<or> bc_max_ban_score cfg = 0 then (0, db)
      else
        (case ip of
           None \<Rightarrow> (0, db)
         | Some s \<Rightarrow>
             let db1 = snd (add_ip_to_ban_list cfg al now db (Some s) (bc_ban_points_connect cfg)) in
             (case tbl_get be_ip (strlcpy_str MAX_IP_STR s) (the db1) of
                None \<Rightarrow> (0, db1)
              | Some e \<Rightarrow>
                  if be_expires e < now2 then (0, db1)
                  else if max_score cfg \<le> be_score e then (1, db1) else (0, db1))))"

text \<open>The maintenance sweep deletes through the iterator; the rest of the table stays.\<close>

definition ban_stale :: "ban_cfg \<Rightarrow> int \<Rightarrow> ban_entry \<Rightarrow> bool" where
  "ban_stale cfg now e \<longleftrightarrow> be_expires e \<le> now \<and> be_last_reset e + bc_ban_reset_time cfg < now"

definition cleanup_banned_entries :: "ban_cfg \<Rightarrow> int \<Rightarrow> ban_db \<Rightarrow> ban_db" where
  "cleanup_banned_entries cfg now db = map_option (filter (\<lambda>e. \<not> ban_stale cfg now e)) db"

section \<open>The interface the clients use\<close>

interpretation ban_table: keyed_table be_ip mset "the main_ban_db_init" "tbl_get be_ip"
    tbl_add tbl_del
  by (unfold_locales)
    (auto simp: main_ban_db_init_def tbl_defs find_None_all dest: find_Some_iff_ex)

section \<open>One address at a time\<close>

text \<open>
  The lookup in the table, and the effect of the operations on the entry of one address as a
  function of that entry alone.
\<close>

definition ban_lookup :: "ban_db \<Rightarrow> string \<Rightarrow> ban_entry option" where
  "ban_lookup db key = (case db of None \<Rightarrow> None | Some t \<Rightarrow> tbl_get be_ip key t)"

definition valid_ip :: "string \<Rightarrow> bool" where
  "valid_ip ip \<longleftrightarrow> char_at ip 0 \<noteq> NUL \<and> length ip < MAX_IP_STR"

definition ban_ready :: "ban_cfg \<Rightarrow> ban_alloc \<Rightarrow> bool" where
  "ban_ready cfg al \<longleftrightarrow> bc_max_ban_score cfg \<noteq> 0 \<and> ba_talloc al \<and> ba_htable_add al"

definition entry_add :: "ban_cfg \<Rightarrow> int \<Rightarrow> string \<Rightarrow> u32 \<Rightarrow> ban_entry option \<Rightarrow> ban_entry" where
  "entry_add cfg now key score x = ban_count cfg now score (case x of
     None \<Rightarrow> \<lparr>be_ip = key, be_score = 0, be_last_reset = now, be_expires = 0\<rparr>
   | Some e \<Rightarrow> ban_reset cfg now e)"

lemma ban_ip_simps [simp]:
  "be_ip (ban_reset cfg now e) = be_ip e" "be_ip (ban_count cfg now s e) = be_ip e"
  "be_last_reset (ban_count cfg now s e) = be_last_reset e"
  "be_score (ban_count cfg now s e) = be_score e + s"
  by (simp_all add: ban_reset_def ban_count_def Let_def)

lemma add_lookup:
  assumes "ban_ready cfg al" and "valid_ip ip"
  shows "ban_lookup (snd (add_ip_to_ban_list cfg al now (Some t) (Some ip) score)) ip =
      Some (entry_add cfg now ip score (ban_lookup (Some t) ip))"
    and "k \<noteq> ip \<Longrightarrow> ban_lookup (snd (add_ip_to_ban_list cfg al now (Some t) (Some ip) score)) k =
      ban_lookup (Some t) k"
    and "fst (fst (add_ip_to_ban_list cfg al now (Some t) (Some ip) score)) =
      fst (ban_verdict cfg True (be_score (entry_add cfg now ip score (ban_lookup (Some t) ip))))"
proof -
  have key: "strlcpy_str MAX_IP_STR ip = ip"
    using assms(2) by (simp add: valid_ip_def strlcpy_str_fits)
  note defs = add_ip_to_ban_list_def ban_lookup_def ban_ready_def valid_ip_def entry_add_def
  show "ban_lookup (snd (add_ip_to_ban_list cfg al now (Some t) (Some ip) score)) ip =
      Some (entry_add cfg now ip score (ban_lookup (Some t) ip))"
    and "fst (fst (add_ip_to_ban_list cfg al now (Some t) (Some ip) score)) =
      fst (ban_verdict cfg True (be_score (entry_add cfg now ip score (ban_lookup (Some t) ip))))"
    using assms key tbl_get_key [of be_ip ip t]
    by (cases "tbl_get be_ip ip t"; simp add: defs Let_def tbl_get_add tbl_get_const_update
        ban_verdict_def)+
  show "ban_lookup (snd (add_ip_to_ban_list cfg al now (Some t) (Some ip) score)) k =
      ban_lookup (Some t) k" if "k \<noteq> ip"
    using assms key tbl_get_key [of be_ip ip t] that
    by (cases "tbl_get be_ip ip t"; simp add: defs Let_def tbl_get_add tbl_get_const_other)
qed

lemma unban_lookup:
  assumes "valid_ip ip"
  shows "ban_lookup (snd (remove_ip_from_ban_list (Some t) (Some ip))) k =
    (if k = ip then map_option (\<lambda>e. e\<lparr>be_score := 0, be_expires := 0\<rparr>) (ban_lookup (Some t) k)
     else ban_lookup (Some t) k)"
proof -
  have key: "strlcpy_str MAX_IP_STR ip = ip"
    using assms by (simp add: valid_ip_def strlcpy_str_fits)
  show ?thesis
    using assms key
    by (cases "tbl_get be_ip ip t") (auto simp: remove_ip_from_ban_list_def ban_lookup_def
        valid_ip_def Let_def tbl_get_update_same tbl_get_update_other)
qed

lemma cleanup_lookup:
  assumes "distinct (map be_ip t)"
  shows "ban_lookup (cleanup_banned_entries cfg now (Some t)) k =
    (case ban_lookup (Some t) k of None \<Rightarrow> None | Some e \<Rightarrow> if ban_stale cfg now e then None else Some e)"
  using tbl_get_filter [OF assms] by (auto simp: ban_lookup_def cleanup_banned_entries_def
      split: option.splits)

section \<open>Runs of the main process\<close>

datatype ban_event =
  Ev_add string u32       \<comment> \<open>CMD_BAN_IP or SM_CMD_AUTH_BAN_IP\<close>
| Ev_check string         \<comment> \<open>a new TCP connection\<close>
| Ev_unban string         \<comment> \<open>the administrator's unban request\<close>
| Ev_cleanup              \<comment> \<open>periodic maintenance\<close>

fun ban_step :: "ban_cfg \<Rightarrow> ban_alloc \<Rightarrow> int \<times> ban_event \<Rightarrow> ban_db \<Rightarrow> ban_db" where
  "ban_step cfg al (now, Ev_add ip s) db = snd (add_ip_to_ban_list cfg al now db (Some ip) s)"
| "ban_step cfg al (now, Ev_check ip) db = snd (check_if_banned cfg al now now db (Some ip))"
| "ban_step cfg al (now, Ev_unban ip) db = snd (remove_ip_from_ban_list db (Some ip))"
| "ban_step cfg al (now, Ev_cleanup) db = cleanup_banned_entries cfg now db"

definition ban_run :: "ban_cfg \<Rightarrow> ban_alloc \<Rightarrow> (int \<times> ban_event) list \<Rightarrow> ban_db \<Rightarrow> ban_db" where
  "ban_run cfg al evs db = fold (ban_step cfg al) evs db"

text \<open>The points an event adds to an address; the addresses it mentions.\<close>

fun points_for :: "ban_cfg \<Rightarrow> string \<Rightarrow> ban_event \<Rightarrow> nat" where
  "points_for cfg ip (Ev_add ip' s) = (if ip' = ip then unat s else 0)"
| "points_for cfg ip (Ev_check ip') = (if ip' = ip then unat (bc_ban_points_connect cfg) else 0)"
| "points_for cfg ip _ = 0"

fun ev_ip :: "ban_event \<Rightarrow> string option" where
  "ev_ip (Ev_add ip s) = Some ip"
| "ev_ip (Ev_check ip) = Some ip"
| "ev_ip (Ev_unban ip) = Some ip"
| "ev_ip Ev_cleanup = None"

definition total_points :: "ban_cfg \<Rightarrow> string \<Rightarrow> (int \<times> ban_event) list \<Rightarrow> nat" where
  "total_points cfg ip evs = sum_list (map (points_for cfg ip \<circ> snd) evs)"

text \<open>The table stays a table: Some list with unique keys.\<close>

definition ban_wf :: "ban_db \<Rightarrow> bool" where
  "ban_wf db \<longleftrightarrow> (case db of None \<Rightarrow> False | Some t \<Rightarrow> distinct (map be_ip t))"

lemma ban_wf_Some: "ban_wf db \<Longrightarrow> \<exists>t. db = Some t \<and> distinct (map be_ip t)"
  by (auto simp: ban_wf_def split: option.splits)

lemma tbl_update_const_keys:
  "key e = k \<Longrightarrow> map key (tbl_update key k (\<lambda>_. e) t) = map key t"
  by (induction t) auto

lemma add_wf: "ban_wf db \<Longrightarrow> ban_wf (snd (add_ip_to_ban_list cfg al now db ip s))"
  by (auto simp: ban_wf_def add_ip_to_ban_list_def Let_def tbl_add_def tbl_get_def find_None_all
      tbl_update_const_keys tbl_update_keys split: option.splits dest: find_Some_iff_ex)

lemma check_db:
  "snd (check_if_banned cfg al now now2 db ip) =
    (if db = None \<or> bc_max_ban_score cfg = 0 \<or> ip = None then db
     else snd (add_ip_to_ban_list cfg al now db ip (bc_ban_points_connect cfg)))"
  by (auto simp: check_if_banned_def Let_def split: option.splits)

lemma step_wf: "ban_wf db \<Longrightarrow> ban_wf (ban_step cfg al ev db)"
proof (cases ev)
  case (Pair now e)
  assume wf: "ban_wf db"
  then show ?thesis
  proof (cases e)
    case (Ev_unban ip)
    then show ?thesis
      using wf Pair by (auto simp: ban_wf_def remove_ip_from_ban_list_def Let_def tbl_update_keys
          split: option.splits)
  next
    case Ev_cleanup
    then show ?thesis
      using wf Pair by (auto simp: ban_wf_def cleanup_banned_entries_def distinct_map_filter_key
          split: option.splits)
  qed (use wf Pair in \<open>auto simp: add_wf check_db\<close>)
qed

text \<open>The effect of a step on the entry of one address.\<close>

fun entry_step :: "ban_cfg \<Rightarrow> string \<Rightarrow> int \<times> ban_event \<Rightarrow> ban_entry option \<Rightarrow> ban_entry option" where
  "entry_step cfg k (now, Ev_add ip s) x = (if k = ip then Some (entry_add cfg now k s x) else x)"
| "entry_step cfg k (now, Ev_check ip) x =
     (if k = ip then Some (entry_add cfg now k (bc_ban_points_connect cfg) x) else x)"
| "entry_step cfg k (now, Ev_unban ip) x =
     (if k = ip then map_option (\<lambda>e. e\<lparr>be_score := 0, be_expires := 0\<rparr>) x else x)"
| "entry_step cfg k (now, Ev_cleanup) x =
     (case x of None \<Rightarrow> None | Some e \<Rightarrow> if ban_stale cfg now e then None else Some e)"

lemma step_lookup:
  assumes "ban_ready cfg al" and "ban_wf db" and "\<And>ip. ev_ip (snd ev) = Some ip \<Longrightarrow> valid_ip ip"
  shows "ban_lookup (ban_step cfg al ev db) k = entry_step cfg k ev (ban_lookup db k)"
proof -
  obtain t where t: "db = Some t" "distinct (map be_ip t)" using ban_wf_Some [OF assms(2)] by blast
  obtain now e where ev: "ev = (now, e)" by (cases ev)
  have max: "bc_max_ban_score cfg \<noteq> 0" using assms(1) by (simp add: ban_ready_def)
  show ?thesis
  proof (cases e)
    case (Ev_add ip s)
    then show ?thesis
      using assms(1,3) t ev add_lookup [OF assms(1), of ip] by auto
  next
    case (Ev_check ip)
    then show ?thesis
      using assms(1,3) t ev max add_lookup [OF assms(1), of ip]
      by (auto simp: check_db)
  next
    case (Ev_unban ip)
    then show ?thesis using assms(3) t ev unban_lookup [of ip] by auto
  next
    case Ev_cleanup
    then show ?thesis using t ev cleanup_lookup [of t] by simp
  qed
qed

definition valid_run :: "(int \<times> ban_event) list \<Rightarrow> bool" where
  "valid_run evs = list_all (\<lambda>(t, e). case ev_ip e of None \<Rightarrow> True | Some ip \<Rightarrow> valid_ip ip) evs"

lemma run_lookup:
  assumes "ban_ready cfg al" and "ban_wf db" and "valid_run evs"
  shows "ban_wf (ban_run cfg al evs db)
    \<and> ban_lookup (ban_run cfg al evs db) k = fold (entry_step cfg k) evs (ban_lookup db k)"
  using assms
proof (induction evs arbitrary: db)
  case (Cons ev evs)
  have "ban_lookup (ban_step cfg al ev db) k = entry_step cfg k ev (ban_lookup db k)"
    using Cons.prems by (intro step_lookup) (auto simp: valid_run_def)
  moreover have "valid_run evs" using Cons.prems(3) by (simp add: valid_run_def)
  ultimately show ?case
    using Cons.IH [OF Cons.prems(1) step_wf [OF Cons.prems(2)]] by (simp add: ban_run_def)
qed (simp add: ban_run_def)

section \<open>Counting without wrap-around\<close>

definition quiet :: "ban_cfg \<Rightarrow> string \<Rightarrow> int \<Rightarrow> (int \<times> ban_event) list \<Rightarrow> bool" where
  "quiet cfg ip limit evs = list_all (\<lambda>(t, e). t \<le> limit \<and> e \<noteq> Ev_unban ip) evs"

lemma unat_add_points: "unat (a :: u32) + n < 2 ^ 32 \<Longrightarrow> n = unat b \<Longrightarrow> unat (a + b) = unat a + unat b"
  by (simp add: unat_add_lem [symmetric])

lemma max_score_le:
  assumes "0 < bc_max_ban_score cfg" and "bc_max_ban_score cfg < 2 ^ 31"
  shows "max_score cfg \<le> x \<longleftrightarrow> bc_max_ban_score cfg \<le> int (unat x)"
proof -
  have "uint (max_score cfg) = bc_max_ban_score cfg"
    using assms by (simp add: max_score_def uint_word_of_int take_bit_int_eq_self)
  then show ?thesis by (simp add: word_le_def)
qed

text \<open>One event within the reset window adds its points and keeps the start of the window.\<close>

lemma entry_step_count:
  assumes "unat (be_score e) + points_for cfg ip ev < 2 ^ 32" and "ev \<noteq> Ev_unban ip"
    and "t \<le> be_last_reset e + bc_ban_reset_time cfg" and "be_ip e = ip"
  shows "\<exists>e'. entry_step cfg ip (t, ev) (Some e) = Some e' \<and> be_ip e' = ip
    \<and> unat (be_score e') = unat (be_score e) + points_for cfg ip ev
    \<and> be_last_reset e' = be_last_reset e
    \<and> (max_score cfg \<le> be_score e \<longrightarrow> be_expires e' = be_expires e)"
  using assms
  by (cases ev) (auto simp: entry_add_def ban_reset_def ban_count_def ban_stale_def Let_def
      unat_add_points)

lemma fold_entry_count:
  assumes "unat (be_score e) + total_points cfg ip evs < 2 ^ 32"
    and "quiet cfg ip (be_last_reset e + bc_ban_reset_time cfg) evs" and "be_ip e = ip"
  shows "\<exists>e'. fold (entry_step cfg ip) evs (Some e) = Some e' \<and> be_ip e' = ip
    \<and> unat (be_score e') = unat (be_score e) + total_points cfg ip evs
    \<and> be_last_reset e' = be_last_reset e
    \<and> (max_score cfg \<le> be_score e \<longrightarrow> be_expires e' = be_expires e)"
  using assms
proof (induction evs arbitrary: e)
  case (Cons p evs)
  obtain t ev where p: "p = (t, ev)" by (cases p)
  obtain e1 where e1: "entry_step cfg ip (t, ev) (Some e) = Some e1" "be_ip e1 = ip"
      "unat (be_score e1) = unat (be_score e) + points_for cfg ip ev"
      "be_last_reset e1 = be_last_reset e"
      "max_score cfg \<le> be_score e \<longrightarrow> be_expires e1 = be_expires e"
    using entry_step_count [of e cfg ip ev t] Cons.prems p
    by (fastforce simp: total_points_def quiet_def)
  have "\<exists>e'. fold (entry_step cfg ip) evs (Some e1) = Some e' \<and> be_ip e' = ip
    \<and> unat (be_score e') = unat (be_score e1) + total_points cfg ip evs
    \<and> be_last_reset e' = be_last_reset e1
    \<and> (max_score cfg \<le> be_score e1 \<longrightarrow> be_expires e' = be_expires e1)"
    using Cons.prems e1 p by (intro Cons.IH) (auto simp: total_points_def quiet_def)
  moreover have "max_score cfg \<le> be_score e \<longrightarrow> max_score cfg \<le> be_score e1"
    using e1(3) by (simp add: word_le_nat_alt)
  ultimately show ?case using e1 p by (auto simp: total_points_def)
qed (simp add: total_points_def)

section \<open>Properties\<close>

text \<open>
  C26: a ban holds for a time. Under one configuration, once an address has reached the limit, a
  connection it makes is refused until its ban expires or, when that is earlier, until
  ban-reset-time has passed since its score was last reset: after that the score starts again and
  a connection is let in although the ban has not expired. Connections, penalties, maintenance
  and other addresses' events within that time may come in between; no unban of this address may,
  and its score must not reach 2^32. Banning is switched on and allocations succeed.
\<close>

theorem ban_holds:
  assumes "ban_ready cfg al" and "ban_wf db" and "valid_run evs" and "valid_ip ip"
    and "ban_lookup db ip = Some e" and "max_score cfg \<le> be_score e"
    and "quiet cfg ip (be_last_reset e + bc_ban_reset_time cfg) (evs @ [(now, Ev_check ip)])"
    and "now \<le> be_expires e"
    and "unat (be_score e) + total_points cfg ip (evs @ [(now, Ev_check ip)]) < 2 ^ 32"
  shows "fst (check_if_banned cfg al now now (ban_run cfg al evs db) (Some ip)) = 1"
proof -
  let ?db = "ban_run cfg al evs db"
  have ip: "be_ip e = ip" using assms(5) by (auto simp: ban_lookup_def split: option.splits dest: tbl_get_key)
  obtain e' where e': "fold (entry_step cfg ip) (evs @ [(now, Ev_check ip)]) (Some e) = Some e'"
      "unat (be_score e') = unat (be_score e) + total_points cfg ip (evs @ [(now, Ev_check ip)])"
      "be_expires e' = be_expires e"
    using fold_entry_count [OF assms(9,7) ip] assms(6) by blast
  have run: "valid_run (evs @ [(now, Ev_check ip)])"
    using assms(3,4) by (simp add: valid_run_def)
  have "ban_lookup (ban_run cfg al (evs @ [(now, Ev_check ip)]) db) ip = Some e'"
    using run_lookup [OF assms(1,2) run] assms(5) e'(1) by simp
  then have look: "ban_lookup (snd (check_if_banned cfg al now now ?db (Some ip))) ip = Some e'"
    by (simp add: ban_run_def)
  have wf: "ban_wf ?db" using run_lookup [OF assms(1-3)] by simp
  have "max_score cfg \<le> be_score e'" using e'(2) assms(6) by (simp add: word_le_nat_alt)
  then show ?thesis
    using look wf e'(3) assms(1,4,8) check_db [of cfg al now now ?db "Some ip"]
    by (auto simp: check_if_banned_def ban_ready_def ban_wf_def valid_ip_def strlcpy_str_fits
        ban_lookup_def Let_def split: option.splits)
qed

definition example_ban_cfg :: ban_cfg where
  "example_ban_cfg = \<lparr>bc_min_reauth_time = 120, bc_max_ban_score = 50, bc_ban_reset_time = 300,
     bc_ban_points_connect = 1\<rparr>"

definition example_alloc :: ban_alloc where
  "example_alloc = \<lparr>ba_talloc = True, ba_htable_add = True\<rparr>"

definition example_banned :: ban_entry where
  "example_banned = \<lparr>be_ip = ''10.0.0.9'', be_score = 51, be_last_reset = 1000, be_expires = 1150\<rparr>"

theorem ban_holds_witness:
  "fst (check_if_banned example_ban_cfg example_alloc 1140 1140
     (ban_run example_ban_cfg example_alloc
       [(1100, Ev_check ''10.0.0.9''), (1120, Ev_cleanup), (1130, Ev_unban ''10.0.0.8'')]
       (Some [example_banned])) (Some ''10.0.0.9'')) = 1"
proof -
  have "ban_ready example_ban_cfg example_alloc" "ban_wf (Some [example_banned])"
    "valid_run [(1100, Ev_check ''10.0.0.9''), (1120, Ev_cleanup), (1130, Ev_unban ''10.0.0.8'')]"
    "valid_ip ''10.0.0.9''" "ban_lookup (Some [example_banned]) ''10.0.0.9'' = Some example_banned"
    "max_score example_ban_cfg \<le> be_score example_banned"
    "quiet example_ban_cfg ''10.0.0.9''
      (be_last_reset example_banned + bc_ban_reset_time example_ban_cfg)
      ([(1100, Ev_check ''10.0.0.9''), (1120, Ev_cleanup), (1130, Ev_unban ''10.0.0.8'')]
        @ [(1140, Ev_check ''10.0.0.9'')])"
    "(1140 :: int) \<le> be_expires example_banned"
    "unat (be_score example_banned) + total_points example_ban_cfg ''10.0.0.9''
      ([(1100, Ev_check ''10.0.0.9''), (1120, Ev_cleanup), (1130, Ev_unban ''10.0.0.8'')]
        @ [(1140, Ev_check ''10.0.0.9'')]) < 2 ^ 32"
    by (simp_all add: ban_ready_def ban_wf_def valid_run_def valid_ip_def ban_lookup_def tbl_get_def
        max_score_def quiet_def total_points_def example_ban_cfg_def example_alloc_def
        example_banned_def MAX_IP_STR_def)
  then show ?thesis by (rule ban_holds)
qed

text \<open>
  The score of an address is the sum of its points. For an address that is not in the
  table, whatever other addresses do, the call that brings its total to the limit within one
  reset window, and every later one of the window, is the one that reports -1; every
  earlier one reports 0.
\<close>

theorem ban_threshold:
  assumes "ban_ready cfg al" and "ban_wf db" and "valid_run ((t0, Ev_add ip s0) # evs)"
    and "ban_lookup db ip = None" and "0 < bc_max_ban_score cfg" and "bc_max_ban_score cfg < 2 ^ 31"
    and "quiet cfg ip (t0 + bc_ban_reset_time cfg) (evs @ [(now, Ev_add ip s)])"
    and "unat s0 + total_points cfg ip evs + unat s < 2 ^ 32"
  shows "fst (fst (add_ip_to_ban_list cfg al now
       (ban_run cfg al ((t0, Ev_add ip s0) # evs) db) (Some ip) s)) =
    (if bc_max_ban_score cfg \<le> int (unat s0 + total_points cfg ip evs + unat s) then -1 else 0)"
proof -
  let ?db = "ban_run cfg al ((t0, Ev_add ip s0) # evs) db"
  let ?e0 = "entry_add cfg t0 ip s0 None"
  have e0: "be_ip ?e0 = ip" "be_score ?e0 = s0" "be_last_reset ?e0 = t0"
    by (simp_all add: entry_add_def)
  have q: "quiet cfg ip (be_last_reset ?e0 + bc_ban_reset_time cfg) evs"
    using assms(7) by (simp add: quiet_def e0)
  obtain e where e: "fold (entry_step cfg ip) evs (Some ?e0) = Some e" "be_ip e = ip"
      "unat (be_score e) = unat s0 + total_points cfg ip evs" "be_last_reset e = t0"
    using fold_entry_count [OF _ q e0(1)] assms(8) e0 by auto
  obtain t where t: "?db = Some t" and look: "ban_lookup ?db ip = Some e"
    using run_lookup [OF assms(1-3), of ip] assms(4) e(1) ban_wf_Some by fastforce
  have "be_score (entry_add cfg now ip s (Some e)) = be_score e + s"
    using assms(7) e(4) by (simp add: entry_add_def ban_reset_def quiet_def)
  moreover have "unat (be_score e + s) = unat s0 + total_points cfg ip evs + unat s"
    using assms(8) e(3) unat_add_points by simp
  moreover have "max_score cfg \<le> be_score e + s \<longleftrightarrow> bc_max_ban_score cfg \<le> int (unat (be_score e + s))"
    by (rule max_score_le) (use assms(5,6) in simp_all)
  moreover have "valid_ip ip" using assms(3) by (simp add: valid_run_def)
  ultimately show ?thesis
    using add_lookup(3) [OF assms(1), of ip now t s] t look assms(5) by (simp add: ban_verdict_def)
qed

theorem ban_threshold_witness:
  "fst (fst (add_ip_to_ban_list example_ban_cfg example_alloc 30
     (ban_run example_ban_cfg example_alloc [(10, Ev_add ''10.0.0.9'' 40), (20, Ev_cleanup)]
       (Some [])) (Some ''10.0.0.9'') 10)) = -1"
proof -
  have "ban_ready example_ban_cfg example_alloc" "ban_wf (Some [])"
    "valid_run [(10, Ev_add ''10.0.0.9'' 40), (20, Ev_cleanup)]"
    "ban_lookup (Some []) ''10.0.0.9'' = None" "0 < bc_max_ban_score example_ban_cfg"
    "bc_max_ban_score example_ban_cfg < 2 ^ 31"
    "quiet example_ban_cfg ''10.0.0.9'' (10 + bc_ban_reset_time example_ban_cfg)
      ([(20, Ev_cleanup)] @ [(30, Ev_add ''10.0.0.9'' 10)])"
    "unat (40 :: u32) + total_points example_ban_cfg ''10.0.0.9'' [(20, Ev_cleanup)]
      + unat (10 :: u32) < 2 ^ 32"
    by (simp_all add: ban_ready_def ban_wf_def valid_run_def valid_ip_def ban_lookup_def tbl_get_def
        quiet_def total_points_def example_ban_cfg_def example_alloc_def MAX_IP_STR_def)
  from ban_threshold [OF this] show ?thesis
    by (simp add: total_points_def example_ban_cfg_def)
qed

text \<open>
  Maintenance is invisible: deleting the stale entries never changes what a later event
  makes of any address, because an entry that the sweep deletes is one that the next points
  would have reset.
\<close>

theorem cleanup_invisible:
  assumes "ban_ready cfg al" and "ban_wf db" and "valid_ip ip" and "0 < max_score cfg"
    and "now \<le> later"
  shows "ban_lookup (snd (add_ip_to_ban_list cfg al later (cleanup_banned_entries cfg now db)
      (Some ip) s)) ip = ban_lookup (snd (add_ip_to_ban_list cfg al later db (Some ip) s)) ip"
proof -
  obtain t where t: "db = Some t" "distinct (map be_ip t)" using ban_wf_Some [OF assms(2)] by blast
  obtain t' where t': "cleanup_banned_entries cfg now db = Some t'"
    using t by (simp add: cleanup_banned_entries_def)
  have "entry_add cfg later ip s None = entry_add cfg later ip s (Some e)"
    if "ban_lookup (Some t) ip = Some e" "ban_stale cfg now e" for e
    using that assms(4,5)
    by (auto simp: entry_add_def ban_reset_def ban_count_def ban_stale_def ban_lookup_def Let_def
        dest: tbl_get_key)
  then have "entry_add cfg later ip s (ban_lookup (Some t') ip) =
      entry_add cfg later ip s (ban_lookup (Some t) ip)"
    using cleanup_lookup [OF t(2), of cfg now ip] t(1) t' by (auto split: option.splits)
  then show ?thesis
    unfolding t' unfolding t(1) using add_lookup(1) [OF assms(1,3)] by simp
qed

theorem cleanup_invisible_witness:
  "ban_lookup (snd (add_ip_to_ban_list example_ban_cfg example_alloc 1400
     (cleanup_banned_entries example_ban_cfg 1350 (Some [example_banned])) (Some ''10.0.0.9'') 1))
       ''10.0.0.9'' =
   ban_lookup (snd (add_ip_to_ban_list example_ban_cfg example_alloc 1400
     (Some [example_banned]) (Some ''10.0.0.9'') 1)) ''10.0.0.9''"
  by (rule cleanup_invisible) (simp_all add: ban_ready_def ban_wf_def valid_ip_def max_score_def
      example_ban_cfg_def example_alloc_def MAX_IP_STR_def)

text \<open>
  The log line that says an address was added to the ban list is written exactly when
  the address had been over the limit before the call, and never by the call that bans it.
\<close>

theorem ban_not_reported:
  assumes "ban_ready cfg al" and "valid_ip ip" and "0 < bc_max_ban_score cfg"
    and "ban_lookup (Some t) ip = Some e" and "now \<le> be_last_reset e + bc_ban_reset_time cfg"
    and "max_score cfg \<le> be_score e + s"
  shows "fst (add_ip_to_ban_list cfg al now (Some t) (Some ip) s) =
    (-1, if be_score e < max_score cfg then Msg_none else Msg_banned)"
  using assms
  by (simp add: add_ip_to_ban_list_def ban_ready_def ban_lookup_def valid_ip_def strlcpy_str_fits
      Let_def ban_reset_def ban_verdict_def)

theorem ban_not_reported_witness:
  "fst (add_ip_to_ban_list example_ban_cfg example_alloc 1100
     (Some [example_banned\<lparr>be_score := 45\<rparr>]) (Some ''10.0.0.9'') 10) = (-1, Msg_none)"
proof -
  have "fst (add_ip_to_ban_list example_ban_cfg example_alloc 1100
     (Some [example_banned\<lparr>be_score := 45\<rparr>]) (Some ''10.0.0.9'') 10) =
     (-1, if be_score (example_banned\<lparr>be_score := 45\<rparr>) < max_score example_ban_cfg
          then Msg_none else Msg_banned)"
    by (rule ban_not_reported) (simp_all add: ban_ready_def valid_ip_def max_score_def ban_lookup_def
        tbl_get_def example_ban_cfg_def example_alloc_def example_banned_def MAX_IP_STR_def)
  then show ?thesis by (simp add: max_score_def example_ban_cfg_def)
qed

end
