(* ===== verification/SecMod.thy ===== *)
theory SecMod
  imports Cookies Tables Ban
begin

text \<open>
  The security module's table of clients, src/sec-mod-db.c, with the types of sec-mod.h and
  the interface of the authentication modules of sec-mod-auth.h. An entry is keyed by its
  session id. What a module answers is a parameter: its functions map its context to a
  result and a new context.
\<close>

section \<open>Types\<close>

datatype auth_status =
  PS_AUTH_INACTIVE | PS_AUTH_FAILED | PS_AUTH_INIT | PS_AUTH_CONT | PS_AUTH_COMPLETED

record stats =
  st_bytes_in :: u64
  st_bytes_out :: u64
  st_uptime :: int

definition zero_stats :: stats where
  "zero_stats = \<lparr>st_bytes_in = 0, st_bytes_out = 0, st_uptime = 0\<rparr>"

definition SID_SIZE :: nat where "SID_SIZE = 16"
definition MAX_USERNAME_SIZE :: nat where "MAX_USERNAME_SIZE = 64"
definition MAX_GROUPNAME_SIZE :: nat where "MAX_GROUPNAME_SIZE = 64"
definition MAX_HOSTNAME_SIZE :: nat where "MAX_HOSTNAME_SIZE = 64"
definition AUTH_SLACK_TIME :: int where "AUTH_SLACK_TIME = 10"

lemmas sec_consts = SID_SIZE_def MAX_USERNAME_SIZE_def MAX_GROUPNAME_SIZE_def
  MAX_HOSTNAME_SIZE_def AUTH_SLACK_TIME_def

text \<open>common_auth_info_st, without the printable form of the session id that only logs use.\<close>

record auth_info =
  ai_username :: string
  ai_groupname :: string
  ai_remote_ip :: string
  ai_ipv4 :: string
  ai_ipv6 :: string

text \<open>
  client_entry_st. The context has the type the modules use; \<open>ce_module\<close> is the index of the
  configured method whose module the entry uses, None for a NULL pointer.
\<close>

record 'c client_entry =
  ce_sid :: "byte list"
  ce_auth_ctx :: "'c option"
  ce_session_is_open :: bool
  ce_in_use :: u32
  ce_tls_auth_ok :: bool
  ce_msg_str :: "string option"
  ce_saved_stats :: stats
  ce_stats :: stats
  ce_status :: auth_status
  ce_hostname :: string
  ce_cookie :: "byte list"
  ce_time :: int
  ce_auth_type :: u32
  ce_auth_info :: auth_info
  ce_module :: "nat option"

type_synonym 'c client_db = "'c client_entry list"

text \<open>auth_mod_st.\<close>

record 'c auth_mod =
  am_allows_retries :: bool
  am_auth_init :: "string option \<Rightarrow> string \<Rightarrow> int \<times> 'c option"
  am_auth_msg :: "'c option \<Rightarrow> int \<times> string option"
  am_auth_pass :: "'c option \<Rightarrow> string \<Rightarrow> int \<times> 'c option"
  am_auth_group :: "'c option \<Rightarrow> string option \<Rightarrow> int \<times> string"
  am_auth_user :: "'c option \<Rightarrow> string \<Rightarrow> string"

text \<open>auth_struct_st of the configuration: a method is enabled, has a type and maybe a module.\<close>

record 'c auth_method =
  as_enabled :: bool
  as_type :: u32
  as_amod :: "'c auth_mod option"

text \<open>
  The settings that are read, with the accounting module reduced to whether it has each of
  its optional functions.
\<close>

record 'c sec_cfg =
  sg_auth :: "'c auth_method list"
  sg_acct_open :: bool
  sg_acct_stats :: bool
  sg_acct_close :: bool
  sg_cookie_timeout :: int
  sg_max_ban_score :: int
  sg_ban_points_wrong_password :: u32
  sg_predictable_ips :: bool
  sg_cert_user_oid :: bool
  sg_cert_group_oid :: bool

definition module_of :: "'c sec_cfg \<Rightarrow> 'c client_entry \<Rightarrow> 'c auth_mod option" where
  "module_of cfg e = (case ce_module e of None \<Rightarrow> None | Some i \<Rightarrow> as_amod (sg_auth cfg ! i))"

text \<open>Calls out of the module: accounting and the end of a module's context.\<close>

datatype acct_event =
  Acct_open auth_info "byte list"
| Acct_stats auth_info stats
| Acct_close auth_info stats
| Auth_deinit

section \<open>The table\<close>

definition sec_mod_client_db_init :: "'c client_db" where
  "sec_mod_client_db_init = []"

definition sec_mod_client_db_deinit :: "'c client_db \<Rightarrow> 'c client_db" where
  "sec_mod_client_db_deinit db = []"

definition sec_mod_client_db_elems :: "'c client_db \<Rightarrow> nat" where
  "sec_mod_client_db_elems db = length db"

definition client_entry_cmp :: "'c client_entry \<Rightarrow> 'c client_entry \<Rightarrow> bool" where
  "client_entry_cmp c1 c2 \<longleftrightarrow> take SID_SIZE (ce_sid c1) = take SID_SIZE (ce_sid c2)"

definition find_client_entry :: "'c client_db \<Rightarrow> byte list \<Rightarrow> 'c client_entry option" where
  "find_client_entry db sid = tbl_get ce_sid sid db"

text \<open>
  The loop that draws a fresh session id; \<open>rnd\<close> are the results of the random generator,
  None when it fails.
\<close>

fun draw_sid :: "'c client_db \<Rightarrow> int \<Rightarrow> byte list option list \<Rightarrow> byte list option" where
  "draw_sid db retries [] = None"
| "draw_sid db retries (r # rnd) =
     (case r of
        None \<Rightarrow> None
      | Some sid \<Rightarrow>
          if find_client_entry db sid = None then Some sid
          else if 0 \<le> retries then draw_sid db (retries - 1) rnd
          else None)"

definition blank_entry :: "byte list \<Rightarrow> string \<Rightarrow> int \<Rightarrow> 'c client_entry" where
  "blank_entry sid ip now = \<lparr>ce_sid = sid, ce_auth_ctx = None, ce_session_is_open = False,
     ce_in_use = 0, ce_tls_auth_ok = False, ce_msg_str = None, ce_saved_stats = zero_stats,
     ce_stats = zero_stats, ce_status = PS_AUTH_INACTIVE, ce_hostname = [], ce_cookie = [],
     ce_time = now, ce_auth_type = 0,
     ce_auth_info = \<lparr>ai_username = [], ai_groupname = [], ai_remote_ip = strlcpy_str MAX_IP_STR ip,
       ai_ipv4 = [], ai_ipv6 = []\<rparr>, ce_module = None\<rparr>"

definition new_client_entry ::
  "bool \<Rightarrow> bool \<Rightarrow> byte list option list \<Rightarrow> int \<Rightarrow> 'c client_db \<Rightarrow> string
    \<Rightarrow> ('c client_entry \<times> 'c client_db) option" where
  "new_client_entry talloc_ok add_ok rnd now db ip =
     (if \<not> talloc_ok then None
      else
        (case draw_sid db 3 rnd of
           None \<Rightarrow> None
         | Some sid \<Rightarrow>
             if \<not> add_ok then None
             else let e = blank_entry sid ip now in Some (e, tbl_add e db)))"

text \<open>sec_auth_user_deinit of sec-mod-auth.c: the calls it makes for an entry that goes.\<close>

definition sec_auth_user_deinit :: "'c sec_cfg \<Rightarrow> 'c client_entry \<Rightarrow> acct_event list" where
  "sec_auth_user_deinit cfg e =
     (if module_of cfg e = None \<or> ce_auth_ctx e = None then []
      else (if sg_acct_close cfg \<and> ce_session_is_open e
            then [Acct_close (ce_auth_info e) (ce_saved_stats e)] else []) @ [Auth_deinit])"

definition entry_expired :: "'c sec_cfg \<Rightarrow> int \<Rightarrow> 'c client_entry \<Rightarrow> bool" where
  "entry_expired cfg now e \<longleftrightarrow> ce_time e \<noteq> -1
     \<and> sg_cookie_timeout cfg + AUTH_SLACK_TIME < now - ce_time e \<and> ce_in_use e = 0"

definition cleanup_client_entries ::
  "'c sec_cfg \<Rightarrow> int \<Rightarrow> 'c client_db \<Rightarrow> acct_event list \<times> 'c client_db" where
  "cleanup_client_entries cfg now db =
     (concat (map (sec_auth_user_deinit cfg) (filter (entry_expired cfg now) db)),
      filter (\<lambda>e. \<not> entry_expired cfg now e) db)"

definition del_client_entry ::
  "'c sec_cfg \<Rightarrow> 'c client_db \<Rightarrow> 'c client_entry \<Rightarrow> acct_event list \<times> 'c client_db" where
  "del_client_entry cfg db e = (sec_auth_user_deinit cfg e, tbl_del e db)"

definition expire_client_entry :: "int \<Rightarrow> 'c client_entry \<Rightarrow> 'c client_entry" where
  "expire_client_entry now e =
     (let e1 = (if 0 < ce_in_use e then e\<lparr>ce_in_use := ce_in_use e - 1\<rparr> else e)
      in if ce_in_use e1 = 0 then e1\<lparr>ce_time := now\<rparr> else e1)"

text \<open>Writing through the entry pointer that find_client_entry returned.\<close>

definition put_entry :: "'c client_db \<Rightarrow> 'c client_entry \<Rightarrow> 'c client_db" where
  "put_entry db e = tbl_update ce_sid (ce_sid e) (\<lambda>_. e) db"

interpretation client_table: keyed_table ce_sid mset sec_mod_client_db_init
    "\<lambda>k db. find_client_entry db k" tbl_add tbl_del
  by (unfold_locales) (auto simp: sec_mod_client_db_init_def find_client_entry_def tbl_defs
      find_None_all dest: find_Some_iff_ex)

section \<open>Facts about the table\<close>

lemma draw_sid_fresh: "draw_sid db retries rnd = Some sid \<Longrightarrow> find_client_entry db sid = None"
proof (induction rnd arbitrary: retries)
  case (Cons r rnd)
  then show ?case by (cases r) (auto split: if_splits)
qed simp

lemma new_client_entry_some:
  "new_client_entry t a rnd now db ip = Some (e, db') \<Longrightarrow>
    find_client_entry db (ce_sid e) = None \<and> db' = e # db \<and> ce_status e = PS_AUTH_INACTIVE
    \<and> ce_module e = None \<and> ce_in_use e = 0 \<and> ce_time e = now
    \<and> ce_stats e = zero_stats \<and> ce_saved_stats e = zero_stats"
  by (auto simp: new_client_entry_def blank_entry_def tbl_add_def Let_def split: if_splits option.splits
      dest: draw_sid_fresh)

lemma find_put_same:
  "find_client_entry db (ce_sid e) = Some e0 \<Longrightarrow> find_client_entry (put_entry db e) (ce_sid e) = Some e"
  by (simp add: find_client_entry_def put_entry_def tbl_get_const_update)

lemma find_put_other:
  "k \<noteq> ce_sid e \<Longrightarrow> find_client_entry (put_entry db e) k = find_client_entry db k"
  by (simp add: find_client_entry_def put_entry_def tbl_get_const_other)

lemma find_sid: "find_client_entry db k = Some e \<Longrightarrow> ce_sid e = k"
  unfolding find_client_entry_def by (rule tbl_get_key)

lemma find_cons: "find_client_entry (e # db) k = (if ce_sid e = k then Some e else find_client_entry db k)"
  using tbl_get_add [of ce_sid k e db] by (simp add: find_client_entry_def tbl_add_def)

lemma find_cleanup:
  "distinct (map ce_sid db) \<Longrightarrow> find_client_entry (snd (cleanup_client_entries cfg now db)) k =
    (case find_client_entry db k of None \<Rightarrow> None | Some e \<Rightarrow> if entry_expired cfg now e then None else Some e)"
  using tbl_get_filter [of ce_sid db k "\<lambda>e. \<not> entry_expired cfg now e"]
  by (auto simp: find_client_entry_def cleanup_client_entries_def split: option.splits)

lemma put_entry_sids [simp]: "map ce_sid (put_entry db e) = map ce_sid db"
  by (induction db) (auto simp: put_entry_def)

end
