(* ===== verification/SecAuth.thy ===== *)
theory SecAuth
  imports SecMod
begin

text \<open>
  Authentication and session control in the security module, src/sec-mod-auth.c and the
  dispatch of src/sec-mod.c. Handlers take the outcomes of their environment from a record
  and return the C result, the messages they send, the accounting calls they make and the
  new table. Dereferencing the module of an entry that has none is an error value.
\<close>

unbundle bit_operations_syntax

definition AUTH_TYPE_USERNAME_PASS :: u32 where "AUTH_TYPE_USERNAME_PASS = 1"
definition AUTH_TYPE_PAM :: u32 where "AUTH_TYPE_PAM = 2 OR AUTH_TYPE_USERNAME_PASS"
definition AUTH_TYPE_PLAIN :: u32 where "AUTH_TYPE_PLAIN = 4 OR AUTH_TYPE_USERNAME_PASS"
definition AUTH_TYPE_CERTIFICATE :: u32 where "AUTH_TYPE_CERTIFICATE = 8"
definition AUTH_TYPE_RADIUS :: u32 where "AUTH_TYPE_RADIUS = 32 OR AUTH_TYPE_USERNAME_PASS"
definition AUTH_TYPE_GSSAPI :: u32 where "AUTH_TYPE_GSSAPI = 64"

lemmas auth_types = AUTH_TYPE_USERNAME_PASS_def AUTH_TYPE_PAM_def AUTH_TYPE_PLAIN_def
  AUTH_TYPE_CERTIFICATE_def AUTH_TYPE_RADIUS_def AUTH_TYPE_GSSAPI_def

section \<open>Messages and environment\<close>

datatype sm_msg =
  M_auth_ok "byte list" string "string option" "byte list"   \<comment> \<open>cookie, user, message, sid\<close>
| M_auth_failed
| M_auth_msg "string option" "byte list"
| M_session_ok
| M_session_failed
| M_cli_stats u64 u64
| M_ban_ip string u32
| M_op "byte list"

text \<open>
  \<open>sm_send\<close>: the reply on the client's socket is sent; \<open>sm_ban_send\<close>, \<open>sm_ban_reply\<close>: the ban
  message to the main process is sent, and its answer (None when none is received);
  \<open>sm_open\<close>, \<open>sm_sup\<close>: results of open_session and of get_sup_config, None without a module.
\<close>

record sm_env =
  sm_now :: int
  sm_talloc :: bool
  sm_add :: bool
  sm_rnd :: "byte list option list"
  sm_seed :: "u32 option"
  sm_hash :: "string \<Rightarrow> u32"
  sm_cookie :: cookie_env
  sm_key :: "byte list"
  sm_pool :: bool
  sm_send :: bool
  sm_ban_send :: bool
  sm_ban_reply :: "bool option"
  sm_open :: int
  sm_sup :: "int option"

section \<open>Scores and replies\<close>

definition sec_mod_add_score_to_ip ::
  "'c sec_cfg \<Rightarrow> sm_env \<Rightarrow> string \<Rightarrow> u32 \<Rightarrow> int \<times> sm_msg list" where
  "sec_mod_add_score_to_ip cfg env ip points =
     (if sg_max_ban_score cfg = 0 then (0, [])
      else if \<not> sm_pool env then (0, [])
      else if \<not> sm_ban_send env then (-1, [])
      else (case sm_ban_reply env of
              None \<Rightarrow> (-1, [M_ban_ip ip points])
            | Some ok \<Rightarrow> (if ok then 0 else -1, [M_ban_ip ip points])))"

definition cookie_of :: "'c sec_cfg \<Rightarrow> sm_env \<Rightarrow> 'c client_entry \<Rightarrow> u32 \<Rightarrow> cookie_msg" where
  "cookie_of cfg env e seed =
     \<lparr>ck_username = Some (ai_username (ce_auth_info e)),
      ck_groupname = Some (ai_groupname (ce_auth_info e)), ck_hostname = Some (ce_hostname e),
      ck_ip = Some (ai_remote_ip (ce_auth_info e)), ck_tls_auth_ok = ce_tls_auth_ok e,
      ck_ipv4_seed = seed, ck_sid = ce_sid e,
      ck_expiration = sm_now env + sg_cookie_timeout cfg\<rparr>"

text \<open>When it fails the entry's cookie is whatever it was: the caller fails the entry.\<close>

definition generate_cookie :: "'c sec_cfg \<Rightarrow> sm_env \<Rightarrow> 'c client_entry \<Rightarrow> int \<times> 'c client_entry" where
  "generate_cookie cfg env e =
     (case (if sg_predictable_ips cfg then Some (sm_hash env (ai_username (ce_auth_info e)))
            else sm_seed env) of
        None \<Rightarrow> (-1, e)
      | Some seed \<Rightarrow>
          (case encrypt_cookie (sm_cookie env) (sm_key env) (cookie_of cfg env e seed) of
             (ret, c) \<Rightarrow>
               if ret < 0 then (-1, e)
               else (0, e\<lparr>ce_cookie := (case c of Some c \<Rightarrow> c | None \<Rightarrow> ce_cookie e)\<rparr>)))"

definition send_sec_auth_reply ::
  "'c sec_cfg \<Rightarrow> sm_env \<Rightarrow> 'c client_entry \<Rightarrow> bool \<Rightarrow> int \<times> sm_msg list \<times> 'c client_entry" where
  "send_sec_auth_reply cfg env e ok =
     (if ok then
        (case generate_cookie cfg env e of
           (ret, e1) \<Rightarrow>
             if ret < 0 then (ret, [], e1)
             else if \<not> sm_send env then (-1, [], e1)
             else (0, [M_auth_ok (ce_cookie e1) (ai_username (ce_auth_info e1)) (ce_msg_str e1)
                        (ce_sid e1)], e1\<lparr>ce_msg_str := None\<rparr>))
      else if \<not> sm_send env then (-1, [], e)
      else (0, [M_auth_failed], e\<lparr>ce_msg_str := None\<rparr>))"

definition send_sec_auth_reply_msg ::
  "sm_env \<Rightarrow> 'c client_entry \<Rightarrow> int \<times> sm_msg list \<times> 'c client_entry" where
  "send_sec_auth_reply_msg env e =
     (if sm_send env then (0, [M_auth_msg (ce_msg_str e) (ce_sid e)], e\<lparr>ce_msg_str := None\<rparr>)
      else (-1, [], e\<lparr>ce_msg_str := None\<rparr>))"

section \<open>Certificates\<close>

definition is_certificate :: "'c client_entry \<Rightarrow> bool" where
  "is_certificate e \<longleftrightarrow> ce_auth_type e AND AUTH_TYPE_CERTIFICATE \<noteq> 0"

definition set_username :: "string \<Rightarrow> 'c client_entry \<Rightarrow> 'c client_entry" where
  "set_username u e = e\<lparr>ce_auth_info := (ce_auth_info e)\<lparr>ai_username := u\<rparr>\<rparr>"

definition set_groupname :: "string \<Rightarrow> 'c client_entry \<Rightarrow> 'c client_entry" where
  "set_groupname g e = e\<lparr>ce_auth_info := (ce_auth_info e)\<lparr>ai_groupname := g\<rparr>\<rparr>"

definition check_user_group_status ::
  "'c sec_cfg \<Rightarrow> 'c client_entry \<Rightarrow> bool \<Rightarrow> string option \<Rightarrow> string list \<Rightarrow> int \<times> 'c client_entry" where
  "check_user_group_status cfg e0 tls_auth_ok cert_user cert_groups =
     (if \<not> is_certificate e0 then (0, e0)
      else if \<not> tls_auth_ok then (-1, e0)
      else
        let e = e0\<lparr>ce_tls_auth_ok := tls_auth_ok\<rparr>;
            username = ai_username (ce_auth_info e); groupname = ai_groupname (ce_auth_info e)
        in if username = [] \<and> sg_cert_user_oid cfg then
             (case cert_user of
                None \<Rightarrow> (-1, e)
              | Some u \<Rightarrow>
                  let e1 = set_username (strlcpy_str (2 * MAX_USERNAME_SIZE) u) e
                  in (0, if cert_groups \<noteq> [] \<and> sg_cert_group_oid cfg \<and> groupname = []
                         then set_groupname (strlcpy_str MAX_GROUPNAME_SIZE (hd cert_groups)) e1
                         else e1))
           else if sg_cert_user_oid cfg \<and> cert_user \<noteq> None \<and> username \<noteq> the cert_user
           then (-1, e)
           else if sg_cert_group_oid cfg \<and> groupname \<notin> set cert_groups then (-1, e)
           else (0, e))"

section \<open>The outcome of an authentication step\<close>

text \<open>The message of the module, asked for when it wants to go on or is done.\<close>

definition fetch_auth_msg :: "'c sec_cfg \<Rightarrow> 'c client_entry \<Rightarrow> int \<Rightarrow> int \<times> 'c client_entry" where
  "fetch_auth_msg cfg e result =
     (case module_of cfg e of
        None \<Rightarrow> (0, e)
      | Some m \<Rightarrow>
          if result = ERR_AUTH_CONTINUE \<or> result = 0 then
            (case am_auth_msg m (ce_auth_ctx e) of
               (ret, msg) \<Rightarrow> (ret, e\<lparr>ce_msg_str := msg\<rparr>))
          else (0, e))"

definition ask_again ::
  "'c sec_cfg \<Rightarrow> sm_env \<Rightarrow> 'c client_entry \<Rightarrow> int \<times> sm_msg list \<times> 'c client_entry" where
  "ask_again cfg env e =
     (case send_sec_auth_reply_msg env e of
        (ret, ms, e1) \<Rightarrow>
          if ret < 0 then (ret, ms, e1\<lparr>ce_status := PS_AUTH_FAILED\<rparr>) else (0, ms, e1))"

definition handle_sec_auth_res ::
  "'c sec_cfg \<Rightarrow> sm_env \<Rightarrow> 'c client_entry \<Rightarrow> int \<Rightarrow> int \<times> sm_msg list \<times> 'c client_entry" where
  "handle_sec_auth_res cfg env e0 result =
     (case fetch_auth_msg cfg e0 result of
        (ret0, e) \<Rightarrow>
          if ret0 < 0 then (ret0, [], e\<lparr>ce_status := PS_AUTH_FAILED\<rparr>)
          else if result = ERR_AUTH_CONTINUE then
            if ce_status e \<noteq> PS_AUTH_INIT \<and>
               (case module_of cfg e of None \<Rightarrow> False | Some m \<Rightarrow> am_allows_retries m) then
              (case sec_mod_add_score_to_ip cfg env (ai_remote_ip (ce_auth_info e))
                      (sg_ban_points_wrong_password cfg) of
                 (ret, ms) \<Rightarrow>
                   if ret < 0 then
                     (case send_sec_auth_reply cfg env (e\<lparr>ce_status := PS_AUTH_FAILED\<rparr>) False of
                        (ret, ms', e1) \<Rightarrow> (ret, ms @ ms', e1))
                   else (case ask_again cfg env e of (ret, ms', e1) \<Rightarrow> (ret, ms @ ms', e1)))
            else ask_again cfg env e
          else if result = 0 then
            let e1 = e\<lparr>ce_status := PS_AUTH_COMPLETED\<rparr>;
                e2 = (case module_of cfg e1 of
                        None \<Rightarrow> e1
                      | Some m \<Rightarrow>
                          set_username (am_auth_user m (ce_auth_ctx e1) (ai_username (ce_auth_info e1))) e1)
            in (case send_sec_auth_reply cfg env e2 True of
                  (ret, ms, e3) \<Rightarrow>
                    if ret < 0 then (ret, ms, e3\<lparr>ce_status := PS_AUTH_FAILED\<rparr>) else (0, ms, e3))
          else
            let e1 = e\<lparr>ce_status := PS_AUTH_FAILED\<rparr>;
                ms = snd (sec_mod_add_score_to_ip cfg env (ai_remote_ip (ce_auth_info e1))
                            (sg_ban_points_wrong_password cfg))
            in (case send_sec_auth_reply cfg env e1 False of
                  (ret, ms', e2) \<Rightarrow>
                    if ret < 0 then (ret, ms @ ms', e2)
                    else (if result < 0 then result else ERR_BAD_COMMAND, ms @ ms', e2)))"

section \<open>Starting and continuing an authentication\<close>

record init_req =
  in_ip :: string
  in_auth_type :: u32
  in_hostname :: "string option"
  in_user_name :: "string option"
  in_group_name :: "string option"
  in_tls_auth_ok :: bool
  in_cert_user_name :: "string option"
  in_cert_group_names :: "string list"

fun find_method :: "'c auth_method list \<Rightarrow> u32 \<Rightarrow> nat \<Rightarrow> nat option" where
  "find_method [] auth_type i = None"
| "find_method (m # ms) auth_type i =
     (if as_enabled m \<and> as_type m AND auth_type = auth_type then Some i
      else find_method ms auth_type (i + 1))"

definition set_module :: "'c sec_cfg \<Rightarrow> 'c client_entry \<Rightarrow> u32 \<Rightarrow> int \<times> 'c client_entry" where
  "set_module cfg e auth_type =
     (if auth_type = 0 then (-1, e)
      else (case find_method (sg_auth cfg) auth_type 0 of
              None \<Rightarrow> (-1, e)
            | Some i \<Rightarrow> (0, e\<lparr>ce_module := Some i, ce_auth_type := as_type (sg_auth cfg ! i)\<rparr>)))"

text \<open>The calls of the module; the flag is need_continue.\<close>

definition init_module ::
  "'c sec_cfg \<Rightarrow> init_req \<Rightarrow> 'c client_entry \<Rightarrow> int \<times> bool \<times> 'c client_entry" where
  "init_module cfg req e =
     (case module_of cfg e of
        None \<Rightarrow> (0, False, e)
      | Some m \<Rightarrow>
          (case am_auth_init m (in_user_name req) (in_ip req) of
             (ret, ctx) \<Rightarrow>
               let e1 = e\<lparr>ce_auth_ctx := ctx\<rparr>; need_continue = (ret = ERR_AUTH_CONTINUE) in
               if ret < 0 \<and> \<not> need_continue then (ret, need_continue, e1)
               else
                 (case am_auth_group m ctx (in_group_name req) of
                    (ret, grp) \<Rightarrow>
                      let e2 = set_groupname (strlcpy_str MAX_GROUPNAME_SIZE grp) e1 in
                      if ret \<noteq> 0 then (-1, need_continue, e2)
                      else
                        (0, need_continue,
                         case in_user_name req of
                           None \<Rightarrow> e2
                         | Some u \<Rightarrow> set_username (strlcpy_str (2 * MAX_USERNAME_SIZE) u) e2))))"

text \<open>A group the client asked for and that only the certificate can confirm.\<close>

definition init_cert_group :: "'c sec_cfg \<Rightarrow> init_req \<Rightarrow> 'c client_entry \<Rightarrow> int \<times> 'c client_entry" where
  "init_cert_group cfg req e =
     (if is_certificate e \<and> ai_groupname (ce_auth_info e) = [] \<and> sg_cert_group_oid cfg then
        (case in_group_name req of
           None \<Rightarrow> (0, e)
         | Some g \<Rightarrow>
             if g \<in> set (in_cert_group_names req)
             then (0, set_groupname (strlcpy_str MAX_GROUPNAME_SIZE g) e) else (-1, e))
      else (0, e))"

text \<open>Everything of handle_sec_auth_init between the new entry and its cleanup label.\<close>

definition auth_init_steps ::
  "'c sec_cfg \<Rightarrow> init_req \<Rightarrow> 'c client_entry \<Rightarrow> int \<times> 'c client_entry" where
  "auth_init_steps cfg req e =
     (case set_module cfg e (in_auth_type req) of
        (ret, e1) \<Rightarrow>
          if ret < 0 then (ret, e1)
          else
            let e2 = (case in_hostname req of
                        None \<Rightarrow> e1 | Some h \<Rightarrow> e1\<lparr>ce_hostname := strlcpy_str MAX_HOSTNAME_SIZE h\<rparr>)
            in (case init_module cfg req e2 of
                  (ret, need_continue, e3) \<Rightarrow>
                    if ret \<noteq> 0 then (ret, e3)
                    else
                      (case init_cert_group cfg req e3 of
                         (ret, e4) \<Rightarrow>
                           if ret < 0 then (ret, e4)
                           else
                             (case check_user_group_status cfg e4 (in_tls_auth_ok req)
                                     (in_cert_user_name req) (in_cert_group_names req) of
                                (ret, e5) \<Rightarrow>
                                  if ret < 0 then (ret, e5)
                                  else (if need_continue then ERR_AUTH_CONTINUE else 0,
                                        e5\<lparr>ce_status := PS_AUTH_INIT\<rparr>)))))"

definition handle_sec_auth_init ::
  "'c sec_cfg \<Rightarrow> sm_env \<Rightarrow> 'c client_db \<Rightarrow> init_req \<Rightarrow> int \<times> sm_msg list \<times> 'c client_db" where
  "handle_sec_auth_init cfg env db req =
     (case new_client_entry (sm_talloc env) (sm_add env) (sm_rnd env) (sm_now env) db (in_ip req) of
        None \<Rightarrow> (-1, [], db)
      | Some (e, db1) \<Rightarrow>
          (case auth_init_steps cfg req e of
             (ret, e1) \<Rightarrow>
               (case handle_sec_auth_res cfg env e1 ret of
                  (ret, ms, e2) \<Rightarrow> (ret, ms, put_entry db1 e2))))"

text \<open>The part of handle_sec_auth_cont before its cleanup label.\<close>

definition auth_cont_steps ::
  "'c sec_cfg \<Rightarrow> 'c client_entry \<Rightarrow> string option \<Rightarrow> int \<times> 'c client_entry" where
  "auth_cont_steps cfg e password =
     (if ce_status e \<noteq> PS_AUTH_INIT \<and> ce_status e \<noteq> PS_AUTH_CONT then (-1, e)
      else
        (case password of
           None \<Rightarrow> (-1, e)
         | Some pass \<Rightarrow>
             (case module_of cfg e of
                None \<Rightarrow> (-1, e)
              | Some m \<Rightarrow>
                  (case am_auth_pass m (ce_auth_ctx e) pass of
                     (ret, ctx) \<Rightarrow> (ret, e\<lparr>ce_status := PS_AUTH_CONT, ce_auth_ctx := ctx\<rparr>)))))"

definition handle_sec_auth_cont ::
  "'c sec_cfg \<Rightarrow> sm_env \<Rightarrow> 'c client_db \<Rightarrow> byte list \<Rightarrow> string option
    \<Rightarrow> int \<times> sm_msg list \<times> 'c client_db" where
  "handle_sec_auth_cont cfg env db sid password =
     (if length sid \<noteq> SID_SIZE then (-1, [], db)
      else
        (case find_client_entry db sid of
           None \<Rightarrow> (-1, [], db)
         | Some e \<Rightarrow>
             (case auth_cont_steps cfg e password of
                (ret, e1) \<Rightarrow>
                  (case handle_sec_auth_res cfg env e1 ret of
                     (ret, ms, e2) \<Rightarrow> (ret, ms, put_entry db e2)))))"

section \<open>Sessions\<close>

datatype sm_crash = Null_module

text \<open>Result, messages, accounting calls and table; or the dereference of a NULL module.\<close>

type_synonym 'c sm_result = "sm_crash + int \<times> sm_msg list \<times> acct_event list \<times> 'c client_db"

record session_req =
  sr_sid :: "byte list"
  sr_cookie :: "byte list option"
  sr_uptime :: "int option"
  sr_bytes_in :: "u64 option"
  sr_bytes_out :: "u64 option"

definition stats_add_to :: "stats \<Rightarrow> stats \<Rightarrow> stats" where
  "stats_add_to src1 src2 =
     \<lparr>st_bytes_in = st_bytes_in src1 + st_bytes_in src2,
      st_bytes_out = st_bytes_out src1 + st_bytes_out src2,
      st_uptime = st_uptime src1 + st_uptime src2\<rparr>"

definition send_failed_session_open_reply :: "sm_env \<Rightarrow> int \<times> sm_msg list" where
  "send_failed_session_open_reply env =
     (if \<not> sm_pool env then (ERR_BAD_COMMAND, [])
      else if \<not> sm_send env then (ERR_BAD_COMMAND, [])
      else (0, [M_session_failed]))"

definition session_failed ::
  "sm_env \<Rightarrow> acct_event list \<Rightarrow> 'c client_db \<Rightarrow> 'c sm_result" where
  "session_failed env as db =
     (case send_failed_session_open_reply env of (ret, ms) \<Rightarrow> Inr (ret, ms, as, db))"

text \<open>What follows once accounting has accepted the session.\<close>

definition session_reply ::
  "sm_env \<Rightarrow> acct_event list \<Rightarrow> 'c client_db \<Rightarrow> 'c client_entry \<Rightarrow> 'c sm_result" where
  "session_reply env as db e =
     (if \<not> sm_pool env then Inr (ERR_BAD_COMMAND, [], as, put_entry db e)
      else if (case sm_sup env of None \<Rightarrow> False | Some r \<Rightarrow> r < 0)
      then session_failed env as (put_entry db e)
      else if \<not> sm_send env then Inr (ERR_BAD_COMMAND, [], as, put_entry db e)
      else Inr (0, [M_session_ok], as,
             put_entry db (e\<lparr>ce_time := -1, ce_in_use := ce_in_use e + 1\<rparr>)))"

definition handle_sec_auth_session_open ::
  "'c sec_cfg \<Rightarrow> sm_env \<Rightarrow> 'c client_db \<Rightarrow> session_req \<Rightarrow> 'c sm_result" where
  "handle_sec_auth_session_open cfg env db req =
     (if length (sr_sid req) \<noteq> SID_SIZE then session_failed env [] db
      else
        (case find_client_entry db (sr_sid req) of
           None \<Rightarrow> session_failed env [] db
         | Some e \<Rightarrow>
             if ce_status e \<noteq> PS_AUTH_COMPLETED then session_failed env [] db
             else if ce_time e \<noteq> -1 \<and> ce_time e + sg_cookie_timeout cfg < sm_now env
             then session_failed env [] (put_entry db (e\<lparr>ce_status := PS_AUTH_FAILED\<rparr>))
             else if sr_cookie req \<noteq> Some (ce_cookie e)
             then session_failed env [] (put_entry db (e\<lparr>ce_status := PS_AUTH_FAILED\<rparr>))
             else if sg_acct_open cfg \<and> \<not> ce_session_is_open e then
               (case module_of cfg e of
                  None \<Rightarrow> Inl Null_module
                | Some m \<Rightarrow>
                    let as = [Acct_open (ce_auth_info e) (sr_sid req)] in
                    if sm_open env < 0
                    then session_failed env as (put_entry db (e\<lparr>ce_status := PS_AUTH_FAILED\<rparr>))
                    else session_reply env as db (e\<lparr>ce_session_is_open := True\<rparr>))
             else session_reply env [] db e))"

text \<open>\<open>if (req->has_x && req->x > e->stats.x) e->stats.x = req->x\<close>, for the three counters.\<close>

definition raise_opt :: "'a::linorder option \<Rightarrow> 'a \<Rightarrow> 'a" where
  "raise_opt x old = (case x of None \<Rightarrow> old | Some v \<Rightarrow> if old < v then v else old)"

definition handle_sec_auth_session_close ::
  "sm_env \<Rightarrow> 'c client_db \<Rightarrow> session_req \<Rightarrow> int \<times> sm_msg list \<times> 'c client_db" where
  "handle_sec_auth_session_close env db req =
     (if length (sr_sid req) \<noteq> SID_SIZE then (ERR_BAD_COMMAND, [], db)
      else
        (case find_client_entry db (sr_sid req) of
           None \<Rightarrow> if sm_send env then (0, [M_cli_stats 0 0], db) else (-1, [], db)
         | Some e \<Rightarrow>
             if ce_status e \<noteq> PS_AUTH_COMPLETED then
               if sm_send env then (0, [M_cli_stats 0 0], db) else (-1, [], db)
             else
               let st = \<lparr>st_bytes_in = raise_opt (sr_bytes_in req) (st_bytes_in (ce_stats e)),
                         st_bytes_out = raise_opt (sr_bytes_out req) (st_bytes_out (ce_stats e)),
                         st_uptime = raise_opt (sr_uptime req) (st_uptime (ce_stats e))\<rparr>;
                   e1 = e\<lparr>ce_stats := st\<rparr>
               in if \<not> sm_send env then (ERR_BAD_COMMAND, [], put_entry db e1)
                  else
                    let e2 = e1\<lparr>ce_saved_stats := stats_add_to (ce_saved_stats e1) (ce_stats e1),
                                ce_stats := zero_stats\<rparr>
                    in (0, [M_cli_stats (st_bytes_in st) (st_bytes_out st)],
                        put_entry db (expire_client_entry (sm_now env) e2))))"

definition handle_sec_auth_session_cmd ::
  "'c sec_cfg \<Rightarrow> sm_env \<Rightarrow> 'c client_db \<Rightarrow> session_req \<Rightarrow> bool \<Rightarrow> 'c sm_result" where
  "handle_sec_auth_session_cmd cfg env db req is_open =
     (if is_open then handle_sec_auth_session_open cfg env db req
      else (case handle_sec_auth_session_close env db req of (ret, ms, db') \<Rightarrow> Inr (ret, ms, [], db')))"

record stats_req =
  cs_sid :: "byte list"
  cs_bytes_in :: u64
  cs_bytes_out :: u64
  cs_uptime :: int
  cs_remote_ip :: "string option"
  cs_ipv4 :: "string option"
  cs_ipv6 :: "string option"

definition update_ips :: "stats_req \<Rightarrow> auth_info \<Rightarrow> auth_info" where
  "update_ips req ai =
     (let put = (\<lambda>x old. case x of None \<Rightarrow> old | Some s \<Rightarrow> strlcpy_str MAX_IP_STR s) in
      ai\<lparr>ai_remote_ip := put (cs_remote_ip req) (ai_remote_ip ai),
         ai_ipv4 := put (cs_ipv4 req) (ai_ipv4 ai), ai_ipv6 := put (cs_ipv6 req) (ai_ipv6 ai)\<rparr>)"

definition handle_sec_auth_stats_cmd ::
  "'c sec_cfg \<Rightarrow> 'c client_db \<Rightarrow> stats_req \<Rightarrow> 'c sm_result" where
  "handle_sec_auth_stats_cmd cfg db req =
     (if length (cs_sid req) \<noteq> SID_SIZE then Inr (-1, [], [], db)
      else
        (case find_client_entry db (cs_sid req) of
           None \<Rightarrow> Inr (-1, [], [], db)
         | Some e \<Rightarrow>
             if ce_status e \<noteq> PS_AUTH_COMPLETED then Inr (-1, [], [], db)
             else
               let st = \<lparr>st_bytes_in = raise_opt (Some (cs_bytes_in req)) (st_bytes_in (ce_stats e)),
                         st_bytes_out = raise_opt (Some (cs_bytes_out req)) (st_bytes_out (ce_stats e)),
                         st_uptime = raise_opt (Some (cs_uptime req)) (st_uptime (ce_stats e))\<rparr>;
                   e1 = e\<lparr>ce_stats := st\<rparr>
               in if \<not> sg_acct_stats cfg then Inr (0, [], [], put_entry db e1)
                  else
                    let e2 = e1\<lparr>ce_auth_info := update_ips req (ce_auth_info e1)\<rparr>
                    in (case module_of cfg e2 of
                          None \<Rightarrow> Inl Null_module
                        | Some m \<Rightarrow>
                            Inr (0, [], [Acct_stats (ce_auth_info e2)
                                   (stats_add_to (ce_stats e2) (ce_saved_stats e2))],
                                 put_entry db e2))))"

section \<open>Dispatch\<close>

text \<open>
  A worker's message after unpacking, None when that failed; for a private key operation the
  index, if it has one, and the data.
\<close>

datatype worker_cmd =
  W_key_op "(nat option \<times> byte list) option"
| W_cli_stats "stats_req option"
| W_auth_init "init_req option"
| W_auth_cont "(byte list \<times> string option) option"
| W_unknown

text \<open>\<open>key_op\<close> is the GnuTLS operation with the i-th key; handle_op ignores a failed send.\<close>

definition process_packet ::
  "'c sec_cfg \<Rightarrow> nat \<Rightarrow> (nat \<Rightarrow> byte list \<Rightarrow> byte list option) \<Rightarrow> sm_env \<Rightarrow> 'c client_db \<Rightarrow> worker_cmd
    \<Rightarrow> 'c sm_result" where
  "process_packet cfg key_size key_op env db cmd =
     (case cmd of
        W_key_op op \<Rightarrow>
          (case op of
             None \<Rightarrow> Inr (-1, [], [], db)
           | Some (idx, data) \<Rightarrow>
               (case idx of
                  None \<Rightarrow> Inr (-1, [], [], db)
                | Some i \<Rightarrow>
                    if key_size \<le> i then Inr (-1, [], [], db)
                    else (case key_op i data of
                            None \<Rightarrow> Inr (-1, [], [], db)
                          | Some out \<Rightarrow> Inr (0, if sm_send env then [M_op out] else [], [], db))))
      | W_cli_stats req \<Rightarrow>
          (case req of None \<Rightarrow> Inr (-1, [], [], db) | Some r \<Rightarrow> handle_sec_auth_stats_cmd cfg db r)
      | W_auth_init req \<Rightarrow>
          (case req of
             None \<Rightarrow> Inr (-1, [], [], db)
           | Some r \<Rightarrow>
               (case handle_sec_auth_init cfg env db r of (ret, ms, db') \<Rightarrow> Inr (ret, ms, [], db')))
      | W_auth_cont req \<Rightarrow>
          (case req of
             None \<Rightarrow> Inr (-1, [], [], db)
           | Some (sid, pass) \<Rightarrow>
               (case handle_sec_auth_cont cfg env db sid pass of (ret, ms, db') \<Rightarrow> Inr (ret, ms, [], db')))
      | W_unknown \<Rightarrow> Inr (-1, [], [], db))"

text \<open>Messages of the main process.\<close>

datatype main_cmd =
  Mc_session_open "session_req option"
| Mc_session_close "session_req option"
| Mc_unknown

definition process_packet_from_main ::
  "'c sec_cfg \<Rightarrow> sm_env \<Rightarrow> 'c client_db \<Rightarrow> main_cmd \<Rightarrow> 'c sm_result" where
  "process_packet_from_main cfg env db cmd =
     (case cmd of
        Mc_session_open req \<Rightarrow>
          (case req of None \<Rightarrow> Inr (-1, [], [], db)
           | Some r \<Rightarrow> handle_sec_auth_session_cmd cfg env db r True)
      | Mc_session_close req \<Rightarrow>
          (case req of None \<Rightarrow> Inr (-1, [], [], db)
           | Some r \<Rightarrow> handle_sec_auth_session_cmd cfg env db r False)
      | Mc_unknown \<Rightarrow> Inr (ERR_BAD_COMMAND, [], [], db))"

end
