(* ===== verification/SecTrace.thy ===== *)
theory SecTrace
  imports SecAuth
begin

text \<open>
  The security module as a state machine: the traces of the messages it processes, and what
  holds of the table after every trace. A session is opened only with the cookie the module
  issued for it after a successful authentication, a failed entry stays failed, and an entry
  in use is never dropped.
\<close>

section \<open>Traces\<close>

datatype sm_event =
  Ev_worker sm_env worker_cmd
| Ev_main sm_env main_cmd
| Ev_maintenance int

text \<open>The newest event is the head; with each event, its result and the messages sent.\<close>

type_synonym sm_trace = "(sm_event \<times> int \<times> sm_msg list) list"

inductive sm_step ::
  "'c sec_cfg \<Rightarrow> nat \<Rightarrow> (nat \<Rightarrow> byte list \<Rightarrow> byte list option) \<Rightarrow> 'c client_db
    \<Rightarrow> sm_event \<times> int \<times> sm_msg list \<Rightarrow> 'c client_db \<Rightarrow> bool"
  for cfg ks ko where
  step_worker: "process_packet cfg ks ko env db cmd = Inr (ret, ms, as, db') \<Longrightarrow>
    sm_step cfg ks ko db (Ev_worker env cmd, ret, ms) db'"
| step_main: "process_packet_from_main cfg env db cmd = Inr (ret, ms, as, db') \<Longrightarrow>
    sm_step cfg ks ko db (Ev_main env cmd, ret, ms) db'"
| step_maintenance:
    "sm_step cfg ks ko db (Ev_maintenance now, 0, []) (snd (cleanup_client_entries cfg now db))"

inductive sm_run ::
  "'c sec_cfg \<Rightarrow> nat \<Rightarrow> (nat \<Rightarrow> byte list \<Rightarrow> byte list option) \<Rightarrow> sm_trace \<Rightarrow> 'c client_db \<Rightarrow> bool"
  for cfg ks ko where
  run_init: "sm_run cfg ks ko [] sec_mod_client_db_init"
| run_step: "sm_run cfg ks ko tr db \<Longrightarrow> sm_step cfg ks ko db x db' \<Longrightarrow> sm_run cfg ks ko (x # tr) db'"

inductive_cases sm_step_elim: "sm_step cfg ks ko db (ev, ret, ms) db'"
inductive_cases sm_run_ConsE: "sm_run cfg ks ko (x # tr) db"
inductive_cases sm_run_NilE: "sm_run cfg ks ko [] db"

section \<open>Outcomes of an authentication step\<close>

lemma set_name_simps [simp]:
  "ce_sid (set_username u e) = ce_sid e" "ce_status (set_username u e) = ce_status e"
  "ce_cookie (set_username u e) = ce_cookie e" "ce_sid (set_groupname g e) = ce_sid e"
  "ce_in_use (set_username u e) = ce_in_use e" "ce_in_use (set_groupname g e) = ce_in_use e"
  "ce_status (set_groupname g e) = ce_status e" "ce_cookie (set_groupname g e) = ce_cookie e"
  by (simp_all add: set_username_def set_groupname_def)

lemma generate_cookie_entry:
  "generate_cookie cfg env e = (ret, e') \<Longrightarrow>
    ce_sid e' = ce_sid e \<and> ce_status e' = ce_status e \<and> ce_in_use e' = ce_in_use e"
  by (auto simp: generate_cookie_def split: option.splits prod.splits if_splits)

lemma send_reply_entry:
  "send_sec_auth_reply cfg env e ok = (ret, ms, e') \<Longrightarrow>
    ce_sid e' = ce_sid e \<and> ce_status e' = ce_status e \<and> ce_in_use e' = ce_in_use e
    \<and> (ok \<longrightarrow> \<not> ret < 0 \<longrightarrow> (\<exists>u s. M_auth_ok (ce_cookie e') u s (ce_sid e) \<in> set ms))"
  by (auto simp: send_sec_auth_reply_def split: prod.splits if_splits dest: generate_cookie_entry)

lemma ask_again_entry:
  "ask_again cfg env e = (ret, ms, e') \<Longrightarrow>
    ce_sid e' = ce_sid e \<and> ce_in_use e' = ce_in_use e \<and> ce_cookie e' = ce_cookie e
    \<and> (ce_status e' = ce_status e \<or> ce_status e' = PS_AUTH_FAILED)"
  by (auto simp: ask_again_def send_sec_auth_reply_msg_def split: if_splits)

lemma fetch_auth_msg_entry:
  "fetch_auth_msg cfg e r = (ret, e') \<Longrightarrow>
    ce_sid e' = ce_sid e \<and> ce_in_use e' = ce_in_use e \<and> ce_cookie e' = ce_cookie e
    \<and> ce_status e' = ce_status e \<and> ce_auth_info e' = ce_auth_info e \<and> ce_module e' = ce_module e"
  by (auto simp: fetch_auth_msg_def split: option.splits prod.splits if_splits)

lemma auth_res_continue:
  assumes "handle_sec_auth_res cfg env e ERR_AUTH_CONTINUE = (ret, ms, e')"
  shows "ce_sid e' = ce_sid e \<and> ce_in_use e' = ce_in_use e
    \<and> (ce_status e' = PS_AUTH_FAILED \<or> ce_status e' = ce_status e \<and> ce_cookie e' = ce_cookie e)"
proof -
  obtain r1 e1 where f: "fetch_auth_msg cfg e ERR_AUTH_CONTINUE = (r1, e1)" by fastforce
  obtain r2 m2 where s: "sec_mod_add_score_to_ip cfg env (ai_remote_ip (ce_auth_info e1))
      (sg_ban_points_wrong_password cfg) = (r2, m2)" by fastforce
  obtain r3 m3 e3 where a: "ask_again cfg env e1 = (r3, m3, e3)" by (metis prod_cases3)
  obtain r4 m4 e4 where b: "send_sec_auth_reply cfg env (e1\<lparr>ce_status := PS_AUTH_FAILED\<rparr>) False
      = (r4, m4, e4)" by (metis prod_cases3)
  show ?thesis
    using assms f s a b fetch_auth_msg_entry [OF f] ask_again_entry [OF a] send_reply_entry [OF b]
    by (auto simp: handle_sec_auth_res_def split: if_splits)
qed

lemma auth_res_success:
  assumes "handle_sec_auth_res cfg env e 0 = (ret, ms, e')"
  shows "ce_sid e' = ce_sid e \<and> ce_in_use e' = ce_in_use e
    \<and> (ce_status e' = PS_AUTH_FAILED
       \<or> ce_status e' = PS_AUTH_COMPLETED \<and> (\<exists>u s. M_auth_ok (ce_cookie e') u s (ce_sid e) \<in> set ms))"
proof -
  obtain r1 e1 where f: "fetch_auth_msg cfg e 0 = (r1, e1)" by fastforce
  let ?e = "e1\<lparr>ce_status := PS_AUTH_COMPLETED\<rparr>"
  let ?e2 = "case module_of cfg ?e of None \<Rightarrow> ?e
    | Some m \<Rightarrow> set_username (am_auth_user m (ce_auth_ctx ?e) (ai_username (ce_auth_info ?e))) ?e"
  obtain r3 m3 e3 where b: "send_sec_auth_reply cfg env ?e2 True = (r3, m3, e3)" by (metis prod_cases3)
  have e2: "ce_sid ?e2 = ce_sid e1" "ce_in_use ?e2 = ce_in_use e1" "ce_status ?e2 = PS_AUTH_COMPLETED"
    by (auto split: option.splits)
  have "ERR_AUTH_CONTINUE \<noteq> 0" by (simp add: err_codes)
  then show ?thesis
    using assms f b fetch_auth_msg_entry [OF f] send_reply_entry [OF b] e2
    by (auto simp: handle_sec_auth_res_def Let_def split: if_splits)
qed

lemma auth_res_failure:
  assumes "handle_sec_auth_res cfg env e r = (ret, ms, e')" and "r \<noteq> 0" and "r \<noteq> ERR_AUTH_CONTINUE"
  shows "ce_sid e' = ce_sid e \<and> ce_in_use e' = ce_in_use e \<and> ce_status e' = PS_AUTH_FAILED"
proof -
  obtain r1 e1 where f: "fetch_auth_msg cfg e r = (r1, e1)" by fastforce
  obtain r3 m3 e3 where b: "send_sec_auth_reply cfg env (e1\<lparr>ce_status := PS_AUTH_FAILED\<rparr>) False
      = (r3, m3, e3)" by (metis prod_cases3)
  show ?thesis
    using assms f b fetch_auth_msg_entry [OF f] send_reply_entry [OF b]
    by (auto simp: handle_sec_auth_res_def Let_def split: if_splits)
qed

lemma auth_res_entry:
  assumes "handle_sec_auth_res cfg env e r = (ret, ms, e')"
  shows "ce_sid e' = ce_sid e \<and> ce_in_use e' = ce_in_use e
    \<and> (ce_status e' = PS_AUTH_COMPLETED \<longrightarrow> ce_status e \<noteq> PS_AUTH_COMPLETED \<longrightarrow>
         r = 0 \<and> (\<exists>u s. M_auth_ok (ce_cookie e') u s (ce_sid e) \<in> set ms))"
proof -
  consider "r = 0" | "r = ERR_AUTH_CONTINUE" | "r \<noteq> 0" "r \<noteq> ERR_AUTH_CONTINUE" by blast
  then show ?thesis
  proof cases
    case 1
    then show ?thesis using auth_res_success [of cfg env e ret ms e'] assms by auto
  next
    case 2
    then show ?thesis using auth_res_continue [of cfg env e ret ms e'] assms by auto
  next
    case 3
    then show ?thesis using auth_res_failure [OF assms] by simp
  qed
qed

lemma module_set_simps [simp]:
  "module_of cfg (set_username u e) = module_of cfg e"
  "module_of cfg (set_groupname g e) = module_of cfg e"
  by (simp_all add: module_of_def set_username_def set_groupname_def)

lemma set_module_entry:
  "set_module cfg e t = (ret, e') \<Longrightarrow> ce_sid e' = ce_sid e \<and> ce_status e' = ce_status e
    \<and> ce_in_use e' = ce_in_use e"
  by (auto simp: set_module_def split: option.splits if_splits)

lemma init_module_entry:
  "init_module cfg req e = (ret, nc, e') \<Longrightarrow> ce_sid e' = ce_sid e \<and> ce_status e' = ce_status e
    \<and> ce_in_use e' = ce_in_use e"
  by (auto simp: init_module_def Let_def split: option.splits if_splits prod.splits)

lemma init_cert_group_entry:
  "init_cert_group cfg req e = (ret, e') \<Longrightarrow> ce_sid e' = ce_sid e \<and> ce_status e' = ce_status e
    \<and> ce_in_use e' = ce_in_use e"
  by (auto simp: init_cert_group_def split: option.splits if_splits)

lemma check_status_entry:
  "check_user_group_status cfg e tls u gs = (ret, e') \<Longrightarrow> ce_sid e' = ce_sid e
    \<and> ce_status e' = ce_status e \<and> ce_in_use e' = ce_in_use e"
  by (auto simp: check_user_group_status_def Let_def split: option.splits if_splits)

lemma auth_init_steps_entry:
  assumes "auth_init_steps cfg req e = (ret, e')" and "ce_status e = PS_AUTH_INACTIVE"
  shows "ce_sid e' = ce_sid e \<and> ce_in_use e' = ce_in_use e
    \<and> (ce_status e' = PS_AUTH_INACTIVE \<or> ce_status e' = PS_AUTH_INIT)"
proof -
  obtain r1 e1 where 1: "set_module cfg e (in_auth_type req) = (r1, e1)" by fastforce
  let ?e2 = "case in_hostname req of None \<Rightarrow> e1
    | Some h \<Rightarrow> e1\<lparr>ce_hostname := strlcpy_str MAX_HOSTNAME_SIZE h\<rparr>"
  obtain r2 nc e3 where 2: "init_module cfg req ?e2 = (r2, nc, e3)" by (metis prod_cases3)
  obtain r3 e4 where 3: "init_cert_group cfg req e3 = (r3, e4)" by fastforce
  obtain r4 e5 where 4: "check_user_group_status cfg e4 (in_tls_auth_ok req) (in_cert_user_name req)
      (in_cert_group_names req) = (r4, e5)" by fastforce
  have e2: "ce_sid ?e2 = ce_sid e1" "ce_status ?e2 = ce_status e1" "ce_in_use ?e2 = ce_in_use e1"
    by (auto split: option.splits)
  show ?thesis
    using assms 1 2 3 4 e2 set_module_entry [OF 1] init_module_entry [OF 2]
      init_cert_group_entry [OF 3] check_status_entry [OF 4]
    by (auto simp: auth_init_steps_def Let_def split: if_splits)
qed

section \<open>What a step does to an entry\<close>

text \<open>The event by which the credentials of session \<open>k\<close> were accepted.\<close>

definition accepted :: "'c sec_cfg \<Rightarrow> sm_event \<Rightarrow> byte list \<Rightarrow> bool" where
  "accepted cfg ev k \<longleftrightarrow>
     (\<exists>env req e1. ev = Ev_worker env (W_auth_init (Some req))
        \<and> auth_init_steps cfg req (blank_entry k (in_ip req) (sm_now env)) = (0, e1))
   \<or> (\<exists>env pass e e1. ev = Ev_worker env (W_auth_cont (Some (k, Some pass))) \<and> ce_sid e = k
        \<and> (ce_status e = PS_AUTH_INIT \<or> ce_status e = PS_AUTH_CONT)
        \<and> auth_cont_steps cfg e (Some pass) = (0, e1))"

definition issued :: "sm_msg list \<Rightarrow> byte list \<Rightarrow> byte list \<Rightarrow> bool" where
  "issued ms cookie k \<longleftrightarrow> (\<exists>u s. M_auth_ok cookie u s k \<in> set ms)"

definition opens :: "sm_event \<Rightarrow> sm_msg list \<Rightarrow> byte list \<Rightarrow> bool" where
  "opens ev ms k \<longleftrightarrow> (case ev of
     Ev_main env (Mc_session_open (Some req)) \<Rightarrow> sr_sid req = k \<and> M_session_ok \<in> set ms | _ \<Rightarrow> False)"

definition closes :: "sm_event \<Rightarrow> byte list \<Rightarrow> bool" where
  "closes ev k \<longleftrightarrow> (case ev of
     Ev_main env (Mc_session_close (Some req)) \<Rightarrow> sr_sid req = k | _ \<Rightarrow> False)"

definition completion ::
  "'c sec_cfg \<Rightarrow> sm_event \<Rightarrow> sm_msg list \<Rightarrow> byte list \<Rightarrow> 'c client_entry \<Rightarrow> bool" where
  "completion cfg ev ms k e' \<longleftrightarrow>
     (ce_status e' = PS_AUTH_COMPLETED \<longrightarrow> accepted cfg ev k \<and> issued ms (ce_cookie e') k)"

inductive entry_change ::
  "'c sec_cfg \<Rightarrow> sm_event \<Rightarrow> sm_msg list \<Rightarrow> byte list \<Rightarrow> 'c client_entry option \<Rightarrow> 'c client_entry option
    \<Rightarrow> bool" for cfg ev ms k where
  ch_same: "entry_change cfg ev ms k x x"
| ch_new: "ce_in_use e' = 0 \<Longrightarrow> completion cfg ev ms k e' \<Longrightarrow> entry_change cfg ev ms k None (Some e')"
| ch_failed: "ce_status e' = PS_AUTH_FAILED \<Longrightarrow> ce_in_use e' = ce_in_use e \<Longrightarrow>
    entry_change cfg ev ms k (Some e) (Some e')"
| ch_auth: "ce_status e = PS_AUTH_INIT \<or> ce_status e = PS_AUTH_CONT \<Longrightarrow> ce_in_use e' = ce_in_use e \<Longrightarrow>
    completion cfg ev ms k e' \<Longrightarrow> entry_change cfg ev ms k (Some e) (Some e')"
| ch_session: "ce_status e = PS_AUTH_COMPLETED \<Longrightarrow> ce_status e' = PS_AUTH_COMPLETED \<Longrightarrow>
    ce_cookie e' = ce_cookie e \<Longrightarrow>
    ce_in_use e' = ce_in_use e \<and> \<not> opens ev ms k
    \<or> opens ev ms k \<and> ce_in_use e' = ce_in_use e + 1
    \<or> closes ev k \<and> 0 < ce_in_use e \<and> ce_in_use e' = ce_in_use e - 1 \<Longrightarrow>
    entry_change cfg ev ms k (Some e) (Some e')"
| ch_drop: "ce_in_use e = 0 \<Longrightarrow> entry_change cfg ev ms k (Some e) None"

lemma find_put:
  "find_client_entry (put_entry db e) k =
    (if k = ce_sid e then map_option (\<lambda>_. e) (find_client_entry db k) else find_client_entry db k)"
proof (cases "k = ce_sid e")
  case True
  then show ?thesis
    by (cases "find_client_entry db k")
      (auto simp: find_client_entry_def put_entry_def tbl_update_none tbl_get_const_update)
qed (simp add: find_put_other)

lemma init_change:
  assumes "handle_sec_auth_init cfg env db req = (ret, ms, db')"
  shows "entry_change cfg (Ev_worker env (W_auth_init (Some req))) ms k
    (find_client_entry db k) (find_client_entry db' k)"
    and "distinct (map ce_sid db) \<Longrightarrow> distinct (map ce_sid db')"
proof -
  have "entry_change cfg (Ev_worker env (W_auth_init (Some req))) ms k
      (find_client_entry db k) (find_client_entry db' k)
    \<and> (distinct (map ce_sid db) \<longrightarrow> distinct (map ce_sid db'))"
  proof (cases "new_client_entry (sm_talloc env) (sm_add env) (sm_rnd env) (sm_now env) db (in_ip req)")
    case None
    then show ?thesis using assms by (auto simp: handle_sec_auth_init_def intro: ch_same)
  next
    case (Some p)
    obtain e db1 where p: "p = (e, db1)" by fastforce
    note new = new_client_entry_some [OF Some [unfolded p]]
    have blank: "e = blank_entry (ce_sid e) (in_ip req) (sm_now env)"
      using Some p by (auto simp: new_client_entry_def blank_entry_def Let_def split: if_splits option.splits)
    obtain r1 e1 where st: "auth_init_steps cfg req e = (r1, e1)" by fastforce
    obtain r2 m2 e2 where rs: "handle_sec_auth_res cfg env e1 r1 = (r2, m2, e2)" by (metis prod_cases3)
    have out: "ms = m2" "db' = put_entry db1 e2"
      using assms Some p st rs by (auto simp: handle_sec_auth_init_def)
    have e1: "ce_sid e1 = ce_sid e" "ce_in_use e1 = 0" "ce_status e1 \<noteq> PS_AUTH_COMPLETED"
      using auth_init_steps_entry [OF st] new by auto
    have e2: "ce_sid e2 = ce_sid e" "ce_in_use e2 = 0"
      using auth_res_entry [OF rs] e1 by auto
    have comp: "completion cfg (Ev_worker env (W_auth_init (Some req))) ms (ce_sid e) e2"
      unfolding completion_def accepted_def issued_def
      using auth_res_entry [OF rs] e1 st blank out(1) by metis
    have find: "find_client_entry db' k = (if k = ce_sid e then Some e2 else find_client_entry db k)"
      using new out e2(1) by (simp add: find_put find_cons)
    have "entry_change cfg (Ev_worker env (W_auth_init (Some req))) ms k
        (find_client_entry db k) (find_client_entry db' k)"
    proof (cases "k = ce_sid e")
      case True
      then show ?thesis using find new comp e2(2) by (auto intro: ch_new)
    next
      case False
      then show ?thesis using find by (simp add: ch_same)
    qed
    moreover have "ce_sid e \<notin> set (map ce_sid db)"
      using new by (auto simp: find_client_entry_def tbl_get_def find_None_all)
    ultimately show ?thesis using new out by simp
  qed
  then show "entry_change cfg (Ev_worker env (W_auth_init (Some req))) ms k
    (find_client_entry db k) (find_client_entry db' k)"
    and "distinct (map ce_sid db) \<Longrightarrow> distinct (map ce_sid db')" by blast+
qed

lemma auth_cont_steps_entry:
  "auth_cont_steps cfg e pass = (r, e1) \<Longrightarrow> ce_sid e1 = ce_sid e \<and> ce_in_use e1 = ce_in_use e
    \<and> (if ce_status e = PS_AUTH_INIT \<or> ce_status e = PS_AUTH_CONT
       then ce_status e1 \<noteq> PS_AUTH_COMPLETED \<and> (r = 0 \<longrightarrow> pass \<noteq> None) else r = -1)"
  by (auto simp: auth_cont_steps_def split: option.splits prod.splits if_splits)

lemma cont_change:
  assumes "handle_sec_auth_cont cfg env db sid pass = (ret, ms, db')"
  shows "entry_change cfg (Ev_worker env (W_auth_cont (Some (sid, pass)))) ms k
    (find_client_entry db k) (find_client_entry db' k)"
    and "distinct (map ce_sid db) \<Longrightarrow> distinct (map ce_sid db')"
proof -
  have "entry_change cfg (Ev_worker env (W_auth_cont (Some (sid, pass)))) ms k
      (find_client_entry db k) (find_client_entry db' k) \<and> map ce_sid db' = map ce_sid db"
  proof (cases "length sid = SID_SIZE \<and> find_client_entry db sid \<noteq> None")
    case False
    then have "db' = db" using assms by (auto simp: handle_sec_auth_cont_def split: if_splits option.splits)
    then show ?thesis by (simp add: ch_same)
  next
    case True
    then obtain e where e: "find_client_entry db sid = Some e" by blast
    then have sid: "ce_sid e = sid" by (rule find_sid)
    obtain r1 e1 where st: "auth_cont_steps cfg e pass = (r1, e1)" by fastforce
    obtain r2 m2 e2 where rs: "handle_sec_auth_res cfg env e1 r1 = (r2, m2, e2)" by (metis prod_cases3)
    have out: "ms = m2" "db' = put_entry db e2"
      using assms True e st rs by (auto simp: handle_sec_auth_cont_def)
    note e1 = auth_cont_steps_entry [OF st]
    have e2: "ce_sid e2 = sid" "ce_in_use e2 = ce_in_use e"
      using auth_res_entry [OF rs] e1 sid by auto
    have find: "find_client_entry db' k = (if k = sid then Some e2 else find_client_entry db k)"
      using e out e2(1) by (simp add: find_put)
    have "entry_change cfg (Ev_worker env (W_auth_cont (Some (sid, pass)))) ms sid (Some e) (Some e2)"
    proof (cases "ce_status e = PS_AUTH_INIT \<or> ce_status e = PS_AUTH_CONT")
      case True
      have "completion cfg (Ev_worker env (W_auth_cont (Some (sid, pass)))) ms sid e2"
        unfolding completion_def accepted_def issued_def
        using auth_res_entry [OF rs] e1 st sid True out(1) by auto
      then show ?thesis using True e2 by (intro ch_auth)
    next
      case False
      then have "r1 \<noteq> 0" "r1 \<noteq> ERR_AUTH_CONTINUE" using e1 by (auto simp: err_codes)
      then have "ce_status e2 = PS_AUTH_FAILED" using auth_res_failure [OF rs] by blast
      then show ?thesis using e2 by (intro ch_failed)
    qed
    then show ?thesis using find e out by (auto intro: ch_same)
  qed
  then show "entry_change cfg (Ev_worker env (W_auth_cont (Some (sid, pass)))) ms k
    (find_client_entry db k) (find_client_entry db' k)"
    and "distinct (map ce_sid db) \<Longrightarrow> distinct (map ce_sid db')" by simp_all
qed

text \<open>Sessions and statistics write one entry back; what is left is that entry's change.\<close>

lemma put_change:
  assumes "find_client_entry db sid = Some e" and "ce_sid e' = sid"
    and "entry_change cfg ev ms sid (Some e) (Some e')"
  shows "entry_change cfg ev ms k (find_client_entry db k) (find_client_entry (put_entry db e') k)"
  using assms by (auto simp: find_put intro: ch_same)

lemma session_failed_out:
  "session_failed env as db = Inr (ret, ms, as', db') \<Longrightarrow> db' = db \<and> M_session_ok \<notin> set ms"
  by (auto simp: session_failed_def send_failed_session_open_reply_def split: if_splits)

lemma session_reply_out:
  assumes "session_reply env as db e = Inr (ret, ms, as', db')"
  shows "M_session_ok \<notin> set ms \<and> db' = put_entry db e
    \<or> M_session_ok \<in> set ms \<and> db' = put_entry db (e\<lparr>ce_time := -1, ce_in_use := ce_in_use e + 1\<rparr>)"
  using assms unfolding session_reply_def
  by (auto dest: session_failed_out split: if_splits)

text \<open>The ways a session request for a known entry ends.\<close>

lemma session_open_out:
  assumes h: "handle_sec_auth_session_open cfg env db req = Inr (ret, ms, as, db')"
    and e: "find_client_entry db (sr_sid req) = Some e"
  shows "db' = db \<and> M_session_ok \<notin> set ms
    \<or> db' = put_entry db (e\<lparr>ce_status := PS_AUTH_FAILED\<rparr>) \<and> M_session_ok \<notin> set ms
    \<or> ce_status e = PS_AUTH_COMPLETED \<and> sr_cookie req = Some (ce_cookie e)
      \<and> \<not> (ce_time e \<noteq> -1 \<and> ce_time e + sg_cookie_timeout cfg < sm_now env)
      \<and> (\<exists>b. M_session_ok \<notin> set ms \<and> db' = put_entry db (e\<lparr>ce_session_is_open := b\<rparr>)
            \<or> M_session_ok \<in> set ms \<and> db' = put_entry db (e\<lparr>ce_session_is_open := b, ce_time := -1,
                ce_in_use := ce_in_use e + 1\<rparr>))"
proof -
  let ?failed = "\<lambda>as d. session_failed env as d = Inr (ret, ms, as, db')"
  consider (kept) "\<exists>as'. session_failed env as' db = Inr (ret, ms, as, db')"
    | (failed) "\<exists>as'. session_failed env as' (put_entry db (e\<lparr>ce_status := PS_AUTH_FAILED\<rparr>))
        = Inr (ret, ms, as, db')"
    | (reply) "ce_status e = PS_AUTH_COMPLETED" "sr_cookie req = Some (ce_cookie e)"
        "\<not> (ce_time e \<noteq> -1 \<and> ce_time e + sg_cookie_timeout cfg < sm_now env)"
        "\<exists>as' b. session_reply env as' db (e\<lparr>ce_session_is_open := b\<rparr>) = Inr (ret, ms, as, db')"
  proof (cases "length (sr_sid req) = SID_SIZE \<and> ce_status e = PS_AUTH_COMPLETED
      \<and> \<not> (ce_time e \<noteq> -1 \<and> ce_time e + sg_cookie_timeout cfg < sm_now env)
      \<and> sr_cookie req = Some (ce_cookie e)")
    case False
    then show thesis
      using h e that(1,2) unfolding handle_sec_auth_session_open_def by (auto split: if_splits)
  next
    case True
    have id: "e = e\<lparr>ce_session_is_open := ce_session_is_open e\<rparr>" by simp
    show thesis
    proof (cases "sg_acct_open cfg \<and> \<not> ce_session_is_open e")
      case acct: True
      then show thesis
        using h e True that(2,3) unfolding handle_sec_auth_session_open_def
        by (auto simp: Let_def split: option.splits if_splits)
    next
      case acct: False
      have "session_reply env [] db e = Inr (ret, ms, as, db')"
        using h e True acct unfolding handle_sec_auth_session_open_def by auto
      then show thesis using True id that(3) by metis
    qed
  qed
  then show ?thesis
  proof cases
    case reply
    then obtain as' b where "session_reply env as' db (e\<lparr>ce_session_is_open := b\<rparr>) = Inr (ret, ms, as, db')"
      by blast
    from session_reply_out [OF this] reply show ?thesis by auto
  qed (auto dest: session_failed_out)
qed

lemma open_change:
  assumes "handle_sec_auth_session_open cfg env db req = Inr (ret, ms, as, db')"
  shows "entry_change cfg (Ev_main env (Mc_session_open (Some req))) ms k
    (find_client_entry db k) (find_client_entry db' k) \<and> map ce_sid db' = map ce_sid db"
proof (cases "find_client_entry db (sr_sid req)")
  case None
  then have "session_failed env [] db = Inr (ret, ms, as, db')"
    using assms by (simp add: handle_sec_auth_session_open_def split: if_splits)
  then show ?thesis by (auto dest!: session_failed_out intro: ch_same)
next
  case e: (Some e)
  let ?ev = "Ev_main env (Mc_session_open (Some req))"
  have sid: "ce_sid e = sr_sid req" using e by (rule find_sid)
  have failed: "entry_change cfg ?ev ms k (find_client_entry db k)
      (find_client_entry (put_entry db (e\<lparr>ce_status := PS_AUTH_FAILED\<rparr>)) k)"
    using sid by (intro put_change [OF e] ch_failed) simp_all
  have kept: "entry_change cfg ?ev ms k (find_client_entry db k)
      (find_client_entry (put_entry db (e\<lparr>ce_session_is_open := b\<rparr>)) k)"
    if "ce_status e = PS_AUTH_COMPLETED" "M_session_ok \<notin> set ms" for b
    using sid that by (intro put_change [OF e] ch_session) (simp_all add: opens_def)
  have opened: "entry_change cfg ?ev ms k (find_client_entry db k)
      (find_client_entry (put_entry db (e\<lparr>ce_session_is_open := b, ce_time := -1,
         ce_in_use := ce_in_use e + 1\<rparr>)) k)"
    if "ce_status e = PS_AUTH_COMPLETED" "M_session_ok \<in> set ms" for b
    using sid that by (intro put_change [OF e] ch_session) (simp_all add: opens_def)
  show ?thesis using session_open_out [OF assms e] failed kept opened by (auto intro: ch_same)
qed

lemma close_change:
  assumes "handle_sec_auth_session_close env db req = (ret, ms, db')"
  shows "entry_change cfg (Ev_main env (Mc_session_close (Some req))) ms k
    (find_client_entry db k) (find_client_entry db' k) \<and> map ce_sid db' = map ce_sid db"
proof (cases "length (sr_sid req) = SID_SIZE \<and> find_client_entry db (sr_sid req) \<noteq> None")
  case False
  then have "db' = db"
    using assms by (auto simp: handle_sec_auth_session_close_def split: if_splits option.splits)
  then show ?thesis by (simp add: ch_same)
next
  case True
  then obtain e where e: "find_client_entry db (sr_sid req) = Some e" by blast
  let ?ev = "Ev_main env (Mc_session_close (Some req))"
  have sid: "ce_sid e = sr_sid req" using e by (rule find_sid)
  obtain e' where out: "db' = db \<or> ce_status e = PS_AUTH_COMPLETED \<and> db' = put_entry db e'
      \<and> ce_sid e' = ce_sid e \<and> ce_status e' = ce_status e \<and> ce_cookie e' = ce_cookie e
      \<and> (ce_in_use e' = ce_in_use e \<or> 0 < ce_in_use e \<and> ce_in_use e' = ce_in_use e - 1)"
    using assms True e
    by (fastforce simp: handle_sec_auth_session_close_def expire_client_entry_def Let_def
        split: if_splits)
  have "entry_change cfg ?ev ms k (find_client_entry db k) (find_client_entry (put_entry db e') k)"
    if "ce_status e = PS_AUTH_COMPLETED" "ce_sid e' = ce_sid e" "ce_status e' = ce_status e"
      "ce_cookie e' = ce_cookie e"
      "ce_in_use e' = ce_in_use e \<or> 0 < ce_in_use e \<and> ce_in_use e' = ce_in_use e - 1"
    using sid that by (intro put_change [OF e] ch_session) (auto simp: opens_def closes_def)
  then show ?thesis using out by (auto intro: ch_same)
qed

lemma stats_change:
  assumes "handle_sec_auth_stats_cmd cfg db req = Inr (ret, ms, as, db')"
  shows "entry_change cfg (Ev_worker env (W_cli_stats (Some req))) ms k
    (find_client_entry db k) (find_client_entry db' k) \<and> map ce_sid db' = map ce_sid db"
proof (cases "length (cs_sid req) = SID_SIZE \<and> find_client_entry db (cs_sid req) \<noteq> None")
  case False
  then have "db' = db"
    using assms by (auto simp: handle_sec_auth_stats_cmd_def split: if_splits option.splits)
  then show ?thesis by (simp add: ch_same)
next
  case True
  then obtain e where e: "find_client_entry db (cs_sid req) = Some e" by blast
  let ?ev = "Ev_worker env (W_cli_stats (Some req))"
  have sid: "ce_sid e = cs_sid req" using e by (rule find_sid)
  obtain e' where out: "db' = db \<or> ce_status e = PS_AUTH_COMPLETED \<and> db' = put_entry db e'
      \<and> ce_sid e' = ce_sid e \<and> ce_status e' = ce_status e \<and> ce_cookie e' = ce_cookie e
      \<and> ce_in_use e' = ce_in_use e"
    using assms True e
    by (fastforce simp: handle_sec_auth_stats_cmd_def Let_def split: if_splits option.splits)
  have "entry_change cfg ?ev ms k (find_client_entry db k) (find_client_entry (put_entry db e') k)"
    if "ce_status e = PS_AUTH_COMPLETED" "ce_sid e' = ce_sid e" "ce_status e' = ce_status e"
      "ce_cookie e' = ce_cookie e" "ce_in_use e' = ce_in_use e"
    using sid that by (intro put_change [OF e] ch_session) (auto simp: opens_def)
  then show ?thesis using out by (auto intro: ch_same)
qed

lemma cleanup_change:
  assumes "distinct (map ce_sid db)"
  shows "entry_change cfg (Ev_maintenance now) [] k (find_client_entry db k)
    (find_client_entry (snd (cleanup_client_entries cfg now db)) k)"
  using find_cleanup [OF assms, of cfg now k]
  by (auto simp: entry_expired_def intro: ch_same ch_drop split: option.splits)

lemma worker_change:
  assumes "process_packet cfg ks ko env db cmd = Inr (ret, ms, as, db')" and "distinct (map ce_sid db)"
  shows "entry_change cfg (Ev_worker env cmd) ms k (find_client_entry db k) (find_client_entry db' k)
    \<and> distinct (map ce_sid db')"
proof (cases cmd)
  case (W_auth_init req)
  then show ?thesis
    using assms init_change [of cfg env db "the req" ret ms db']
    by (cases req) (auto simp: process_packet_def ch_same split: prod.splits)
next
  case (W_auth_cont req)
  then show ?thesis
    using assms cont_change [of cfg env db "fst (the req)" "snd (the req)" ret ms db']
    by (cases req) (auto simp: process_packet_def ch_same split: prod.splits)
next
  case (W_cli_stats req)
  then show ?thesis
    using assms stats_change [of cfg db "the req" ret ms as db']
    by (cases req) (auto simp: process_packet_def ch_same)
qed (use assms in \<open>auto simp: process_packet_def ch_same split: option.splits prod.splits if_splits\<close>)

lemma main_change:
  assumes "process_packet_from_main cfg env db cmd = Inr (ret, ms, as, db')"
  shows "entry_change cfg (Ev_main env cmd) ms k (find_client_entry db k) (find_client_entry db' k)
    \<and> map ce_sid db' = map ce_sid db"
proof (cases cmd)
  case (Mc_session_open req)
  then show ?thesis
    using assms open_change [of cfg env db "the req" ret ms as db']
    by (cases req) (auto simp: process_packet_from_main_def handle_sec_auth_session_cmd_def ch_same)
next
  case (Mc_session_close req)
  then show ?thesis
    using assms close_change [of env db "the req" ret ms db']
    by (cases req) (auto simp: process_packet_from_main_def handle_sec_auth_session_cmd_def ch_same
        split: prod.splits)
qed (use assms in \<open>simp add: process_packet_from_main_def ch_same\<close>)

section \<open>Invariants of the traces\<close>

lemma step_change:
  assumes "sm_step cfg ks ko db (ev, ret, ms) db'" and "distinct (map ce_sid db)"
  shows "entry_change cfg ev ms k (find_client_entry db k) (find_client_entry db' k)
    \<and> distinct (map ce_sid db')"
  using assms(1)
proof (rule sm_step_elim)
  fix env cmd as
  assume "ev = Ev_worker env cmd" and "process_packet cfg ks ko env db cmd = Inr (ret, ms, as, db')"
  then show ?thesis using worker_change assms(2) by blast
next
  fix env cmd as
  assume ev: "ev = Ev_main env cmd" and "process_packet_from_main cfg env db cmd = Inr (ret, ms, as, db')"
  from main_change [OF this(2), of k] show ?thesis using assms(2) ev by metis
next
  fix now
  assume "ev = Ev_maintenance now" and "ret = 0" and "ms = []"
    and "db' = snd (cleanup_client_entries cfg now db)"
  then show ?thesis
    using cleanup_change [OF assms(2)] assms(2)
    by (simp add: cleanup_client_entries_def distinct_map_filter)
qed

lemma run_distinct: "sm_run cfg ks ko tr db \<Longrightarrow> distinct (map ce_sid db)"
proof (induction rule: sm_run.induct)
  case (run_step tr db x db')
  then show ?case using step_change by (metis prod_cases3)
qed (simp add: sec_mod_client_db_init_def)

text \<open>One step of a trace, seen at one session.\<close>

lemma run_change:
  assumes "sm_run cfg ks ko ((ev, ret, ms) # tr) db'"
  obtains db where "sm_run cfg ks ko tr db"
    and "entry_change cfg ev ms k (find_client_entry db k) (find_client_entry db' k)"
  using assms by (auto elim!: sm_run_ConsE dest: run_distinct step_change)

text \<open>A completed entry was accepted, and its cookie issued, earlier in the trace.\<close>

lemma completed_issued:
  "sm_run cfg ks ko tr db \<Longrightarrow> find_client_entry db k = Some e \<Longrightarrow> ce_status e = PS_AUTH_COMPLETED \<Longrightarrow>
    \<exists>ev ret ms. (ev, ret, ms) \<in> set tr \<and> accepted cfg ev k \<and> issued ms (ce_cookie e) k"
proof (induction tr arbitrary: db e)
  case Nil
  then have "db = []" by (auto elim: sm_run_NilE simp: sec_mod_client_db_init_def)
  with Nil show ?case by (simp add: find_client_entry_def tbl_defs)
next
  case (Cons x tr)
  obtain ev ret ms where x: "x = (ev, ret, ms)" by (metis prod_cases3)
  obtain db0 where run: "sm_run cfg ks ko tr db0"
    and ch: "entry_change cfg ev ms k (find_client_entry db0 k) (find_client_entry db k)"
    using Cons.prems(1) unfolding x by (rule run_change)
  have done': ?case if "completion cfg ev ms k e"
    using that Cons.prems(3) x by (auto simp: completion_def)
  have kept: ?case if "find_client_entry db0 k = Some e0" "ce_status e0 = PS_AUTH_COMPLETED"
    "ce_cookie e0 = ce_cookie e" for e0
    using Cons.IH [OF run that(1,2)] that(3) by auto
  from ch show ?case
  proof cases
    case ch_same
    then show ?thesis using kept [of e] Cons.prems by auto
  qed (use Cons.prems done' kept in auto)
qed

section \<open>Sessions in use\<close>

definition open_count :: "sm_trace \<Rightarrow> byte list \<Rightarrow> nat" where
  "open_count tr k = length (filter (\<lambda>(ev, ret, ms). opens ev ms k) tr)"

definition close_count :: "sm_trace \<Rightarrow> byte list \<Rightarrow> nat" where
  "close_count tr k = length (filter (\<lambda>(ev, ret, ms). closes ev k) tr)"

lemma open_count_simps [simp]:
  "open_count [] k = 0"
  "open_count ((ev, ret, ms) # tr) k = (if opens ev ms k then 1 else 0) + open_count tr k"
  by (simp_all add: open_count_def)

lemma close_count_simps [simp]:
  "close_count [] k = 0"
  "close_count ((ev, ret, ms) # tr) k = (if closes ev k then 1 else 0) + close_count tr k"
  by (simp_all add: close_count_def)

definition use_count :: "'c client_entry option \<Rightarrow> nat" where
  "use_count x = (case x of None \<Rightarrow> 0 | Some e \<Rightarrow> unat (ce_in_use e))"

text \<open>A session is opened on a completed entry, with its cookie and before it expires.\<close>

lemma step_opens:
  assumes "sm_step cfg ks ko db (Ev_main env (Mc_session_open (Some req)), ret, ms) db'"
    and ok: "M_session_ok \<in> set ms"
  shows "\<exists>e b. find_client_entry db (sr_sid req) = Some e \<and> ce_status e = PS_AUTH_COMPLETED
    \<and> sr_cookie req = Some (ce_cookie e)
    \<and> \<not> (ce_time e \<noteq> -1 \<and> ce_time e + sg_cookie_timeout cfg < sm_now env)
    \<and> find_client_entry db' (sr_sid req)
        = Some (e\<lparr>ce_session_is_open := b, ce_time := -1, ce_in_use := ce_in_use e + 1\<rparr>)"
proof -
  from assms(1) obtain as where
    h: "handle_sec_auth_session_open cfg env db req = Inr (ret, ms, as, db')"
    by (auto elim: sm_step_elim simp: process_packet_from_main_def handle_sec_auth_session_cmd_def)
  show ?thesis
  proof (cases "find_client_entry db (sr_sid req)")
    case None
    then have "session_failed env [] db = Inr (ret, ms, as, db')"
      using h by (simp add: handle_sec_auth_session_open_def split: if_splits)
    then show ?thesis using ok by (auto dest: session_failed_out)
  next
    case (Some e)
    from find_sid [OF Some] have sid: "ce_sid e = sr_sid req" .
    from session_open_out [OF h Some] ok show ?thesis
      using Some sid by (auto simp: find_put)
  qed
qed

lemma step_use_count:
  assumes st: "sm_step cfg ks ko db (ev, ret, ms) db'" and d: "distinct (map ce_sid db)"
    and room: "opens ev ms k \<Longrightarrow> use_count (find_client_entry db k) < 2 ^ 32 - 1"
  shows "use_count (find_client_entry db' k)
      \<le> use_count (find_client_entry db k) + (if opens ev ms k then 1 else 0)
    \<and> use_count (find_client_entry db k) + (if opens ev ms k then 1 else 0)
      \<le> use_count (find_client_entry db' k) + (if closes ev k then 1 else 0)"
proof (cases "opens ev ms k")
  case True
  then obtain env req where ev: "ev = Ev_main env (Mc_session_open (Some req))"
    and k: "sr_sid req = k" and ok: "M_session_ok \<in> set ms"
    by (auto simp: opens_def split: sm_event.splits main_cmd.splits option.splits)
  from step_opens [OF st [unfolded ev] ok] room [OF True] show ?thesis
    unfolding k by (auto simp: use_count_def unat_word_ariths True)
next
  case False
  from conjunct1 [OF step_change [OF st d, of k]] show ?thesis
  proof cases
    case (ch_session e e')
    have "unat (ce_in_use e - 1) = unat (ce_in_use e) - 1" if "0 < ce_in_use e"
      using that by (intro unat_minus_one) auto
    then show ?thesis using ch_session False by (auto simp: use_count_def)
  qed (auto simp: use_count_def False)
qed

lemma run_use_count:
  "sm_run cfg ks ko tr db \<Longrightarrow> open_count tr k < 2 ^ 32 \<Longrightarrow>
    use_count (find_client_entry db k) \<le> open_count tr k
    \<and> open_count tr k \<le> use_count (find_client_entry db k) + close_count tr k"
proof (induction tr arbitrary: db)
  case Nil
  then have "db = []" by (auto elim: sm_run_NilE simp: sec_mod_client_db_init_def)
  then show ?case by (simp add: find_client_entry_def tbl_defs use_count_def)
next
  case (Cons x tr)
  obtain ev ret ms where x: "x = (ev, ret, ms)" by (metis prod_cases3)
  from Cons.prems(1) obtain db0 where run: "sm_run cfg ks ko tr db0"
    and st: "sm_step cfg ks ko db0 (ev, ret, ms) db"
    unfolding x by (auto elim: sm_run_ConsE)
  have le: "use_count (find_client_entry db0 k) \<le> open_count tr k"
    "open_count tr k \<le> use_count (find_client_entry db0 k) + close_count tr k"
    using Cons.IH [OF run] Cons.prems(2) by (simp_all add: x split: if_splits)
  have "use_count (find_client_entry db0 k) < 2 ^ 32 - 1" if "opens ev ms k"
    using that le(1) Cons.prems(2) by (simp add: x)
  from step_use_count [OF st run_distinct [OF run] this] le show ?case by (auto simp: x)
qed

end
