(* ===== verification/SecProps.thy ===== *)
theory SecProps
  imports SecTrace
begin

text \<open>
  What holds of the security module after every trace: who can open a session, that a failed
  entry stays failed, that a session in use is kept, and when the module cannot crash.
\<close>

section \<open>Well-formed entries\<close>

text \<open>An entry that is past its initialisation refers to a configured method.\<close>

definition entry_ok :: "'c sec_cfg \<Rightarrow> 'c client_entry \<Rightarrow> bool" where
  "entry_ok cfg e \<longleftrightarrow> (case ce_module e of
     None \<Rightarrow> ce_status e = PS_AUTH_INACTIVE \<or> ce_status e = PS_AUTH_FAILED
   | Some i \<Rightarrow> i < length (sg_auth cfg))"

definition db_ok :: "'c sec_cfg \<Rightarrow> 'c client_db \<Rightarrow> bool" where
  "db_ok cfg db \<longleftrightarrow> list_all (entry_ok cfg) db"

lemma find_method_bound: "find_method ms t i = Some j \<Longrightarrow> i \<le> j \<and> j < i + length ms"
  by (induction ms t i rule: find_method.induct) (auto split: if_splits)

lemma set_module_ok:
  "set_module cfg e t = (ret, e') \<Longrightarrow> 0 \<le> ret \<Longrightarrow> \<exists>i. ce_module e' = Some i \<and> i < length (sg_auth cfg)"
  by (auto simp: set_module_def dest: find_method_bound split: option.splits if_splits)

lemma set_module_failed:
  "set_module cfg e t = (ret, e') \<Longrightarrow> ret < 0 \<Longrightarrow> e' = e"
  by (auto simp: set_module_def split: option.splits if_splits)

lemma set_name_module [simp]:
  "ce_module (set_username u e) = ce_module e" "ce_module (set_groupname g e) = ce_module e"
  by (simp_all add: set_username_def set_groupname_def)

lemma init_module_module: "init_module cfg req e = (ret, nc, e') \<Longrightarrow> ce_module e' = ce_module e"
  by (auto simp: init_module_def Let_def split: option.splits if_splits prod.splits)

lemma init_cert_group_module: "init_cert_group cfg req e = (ret, e') \<Longrightarrow> ce_module e' = ce_module e"
  by (auto simp: init_cert_group_def split: option.splits if_splits)

lemma check_status_module:
  "check_user_group_status cfg e tls u gs = (ret, e') \<Longrightarrow> ce_module e' = ce_module e"
  by (auto simp: check_user_group_status_def Let_def split: option.splits if_splits)

lemma auth_init_steps_ok:
  assumes "auth_init_steps cfg req e = (ret, e')" and "ce_module e = None" and "ce_status e = PS_AUTH_INACTIVE"
  shows "entry_ok cfg e' \<and> (ret = 0 \<longrightarrow> ce_module e' \<noteq> None)"
proof -
  obtain r1 e1 where 1: "set_module cfg e (in_auth_type req) = (r1, e1)" by fastforce
  let ?e2 = "case in_hostname req of None \<Rightarrow> e1
    | Some h \<Rightarrow> e1\<lparr>ce_hostname := strlcpy_str MAX_HOSTNAME_SIZE h\<rparr>"
  obtain r2 nc e3 where 2: "init_module cfg req ?e2 = (r2, nc, e3)" by (metis prod_cases3)
  obtain r3 e4 where 3: "init_cert_group cfg req e3 = (r3, e4)" by fastforce
  obtain r4 e5 where 4: "check_user_group_status cfg e4 (in_tls_auth_ok req) (in_cert_user_name req)
      (in_cert_group_names req) = (r4, e5)" by fastforce
  have e2: "ce_module ?e2 = ce_module e1" by (auto split: option.splits)
  show ?thesis
  proof (cases "r1 < 0")
    case True
    then show ?thesis
      using assms 1 set_module_failed [OF 1] by (simp add: auth_init_steps_def entry_ok_def)
  next
    case False
    then obtain i where "ce_module e1 = Some i" "i < length (sg_auth cfg)"
      using set_module_ok [OF 1] by auto
    moreover have "ce_module e' = ce_module e1"
      using assms(1) 1 2 3 4 e2 False init_module_module [OF 2] init_cert_group_module [OF 3]
        check_status_module [OF 4]
      by (auto simp: auth_init_steps_def Let_def split: if_splits)
    ultimately show ?thesis by (simp add: entry_ok_def)
  qed
qed

lemma reply_module: "send_sec_auth_reply cfg env e ok = (ret, ms, e') \<Longrightarrow> ce_module e' = ce_module e"
  by (auto simp: send_sec_auth_reply_def generate_cookie_def split: prod.splits if_splits option.splits)

lemma ask_again_module: "ask_again cfg env e = (ret, ms, e') \<Longrightarrow> ce_module e' = ce_module e"
  by (auto simp: ask_again_def send_sec_auth_reply_msg_def split: if_splits)

lemma auth_res_module:
  assumes "handle_sec_auth_res cfg env e r = (ret, ms, e')"
  shows "ce_module e' = ce_module e"
proof -
  obtain r1 e1 where f: "fetch_auth_msg cfg e r = (r1, e1)" by fastforce
  have e1: "ce_module e1 = ce_module e" using fetch_auth_msg_entry [OF f] by simp
  have names: "ce_module (case module_of cfg x of None \<Rightarrow> x | Some m \<Rightarrow> set_username (u m) x) = ce_module x"
    for x :: "'a client_entry" and u by (simp split: option.splits)
  show ?thesis
    using assms f e1 unfolding handle_sec_auth_res_def Let_def
    by (auto dest!: reply_module ask_again_module simp: names split: if_splits prod.splits)
qed

lemma auth_res_status:
  assumes "handle_sec_auth_res cfg env e r = (ret, ms, e')"
  shows "ce_status e' = PS_AUTH_FAILED \<or> ce_status e' = ce_status e \<or> r = 0"
proof -
  consider "r = 0" | "r = ERR_AUTH_CONTINUE" | "r \<noteq> 0" "r \<noteq> ERR_AUTH_CONTINUE" by blast
  then show ?thesis
  proof cases
    case 2
    then show ?thesis using auth_res_continue [of cfg env e ret ms e'] assms by auto
  next
    case 3
    then show ?thesis using auth_res_failure [OF assms] by simp
  qed simp
qed

lemma auth_res_ok:
  assumes "handle_sec_auth_res cfg env e r = (ret, ms, e')" and "entry_ok cfg e"
    and "r = 0 \<Longrightarrow> ce_module e \<noteq> None"
  shows "entry_ok cfg e'"
  using assms auth_res_module [OF assms(1)] auth_res_status [OF assms(1)]
  by (auto simp: entry_ok_def split: option.splits)

lemma auth_cont_steps_ok:
  "auth_cont_steps cfg e pass = (r, e1) \<Longrightarrow> entry_ok cfg e \<Longrightarrow>
    entry_ok cfg e1 \<and> (r = 0 \<longrightarrow> ce_module e1 \<noteq> None)"
  by (auto simp: auth_cont_steps_def entry_ok_def module_of_def split: option.splits prod.splits if_splits)

lemma db_ok_put: "db_ok cfg db \<Longrightarrow> entry_ok cfg e \<Longrightarrow> db_ok cfg (put_entry db e)"
  by (induction db) (auto simp: db_ok_def put_entry_def)

lemma db_ok_find: "db_ok cfg db \<Longrightarrow> find_client_entry db k = Some e \<Longrightarrow> entry_ok cfg e"
  by (auto simp: db_ok_def list_all_iff find_client_entry_def tbl_get_def dest: find_Some_iff_ex)

lemma db_ok_init:
  assumes "handle_sec_auth_init cfg env db req = (ret, ms, db')" and "db_ok cfg db"
  shows "db_ok cfg db'"
proof (cases "new_client_entry (sm_talloc env) (sm_add env) (sm_rnd env) (sm_now env) db (in_ip req)")
  case None
  then show ?thesis using assms by (auto simp: handle_sec_auth_init_def)
next
  case (Some p)
  obtain e db1 where p: "p = (e, db1)" by fastforce
  note new = new_client_entry_some [OF Some [unfolded p]]
  obtain r1 e1 where st: "auth_init_steps cfg req e = (r1, e1)" by fastforce
  obtain r2 m2 e2 where rs: "handle_sec_auth_res cfg env e1 r1 = (r2, m2, e2)" by (metis prod_cases3)
  have "db' = put_entry db1 e2" using assms Some p st rs by (auto simp: handle_sec_auth_init_def)
  moreover have "entry_ok cfg e2" using auth_res_ok [OF rs] auth_init_steps_ok [OF st] new by simp
  moreover have "db_ok cfg db1" using new assms(2) by (simp add: db_ok_def entry_ok_def)
  ultimately show ?thesis by (simp add: db_ok_put)
qed

lemma db_ok_cont:
  assumes "handle_sec_auth_cont cfg env db sid pass = (ret, ms, db')" and "db_ok cfg db"
  shows "db_ok cfg db'"
proof (cases "length sid = SID_SIZE \<and> find_client_entry db sid \<noteq> None")
  case False
  then show ?thesis
    using assms by (auto simp: handle_sec_auth_cont_def split: if_splits option.splits)
next
  case True
  then obtain e where e: "find_client_entry db sid = Some e" by blast
  obtain r1 e1 where st: "auth_cont_steps cfg e pass = (r1, e1)" by fastforce
  obtain r2 m2 e2 where rs: "handle_sec_auth_res cfg env e1 r1 = (r2, m2, e2)" by (metis prod_cases3)
  have "db' = put_entry db e2" using assms True e st rs by (auto simp: handle_sec_auth_cont_def)
  moreover have "entry_ok cfg e2"
    using auth_res_ok [OF rs] auth_cont_steps_ok [OF st db_ok_find [OF assms(2) e]] by simp
  ultimately show ?thesis using assms(2) by (simp add: db_ok_put)
qed

text \<open>Sessions and statistics change neither the status nor the module of an entry.\<close>

lemma entry_ok_cong:
  "entry_ok cfg e \<Longrightarrow> ce_module e' = ce_module e \<Longrightarrow> ce_status e' = ce_status e \<or> ce_status e' = PS_AUTH_FAILED
    \<Longrightarrow> entry_ok cfg e'"
  by (auto simp: entry_ok_def split: option.splits)

lemma db_ok_open:
  assumes h: "handle_sec_auth_session_open cfg env db req = Inr (ret, ms, as, db')" and ok: "db_ok cfg db"
  shows "db_ok cfg db'"
proof (cases "find_client_entry db (sr_sid req)")
  case None
  then have "session_failed env [] db = Inr (ret, ms, as, db')"
    using h by (simp add: handle_sec_auth_session_open_def split: if_splits)
  then show ?thesis using ok by (auto dest!: session_failed_out)
next
  case (Some e)
  then have "entry_ok cfg e" using ok by (rule db_ok_find [rotated])
  then have "entry_ok cfg (e\<lparr>ce_status := PS_AUTH_FAILED\<rparr>)"
    "entry_ok cfg (e\<lparr>ce_session_is_open := b\<rparr>)"
    "entry_ok cfg (e\<lparr>ce_session_is_open := b, ce_time := t, ce_in_use := n\<rparr>)" for b t n
    by (auto elim!: entry_ok_cong)
  then show ?thesis using session_open_out [OF h Some] ok by (auto intro!: db_ok_put)
qed

lemma db_ok_close:
  assumes "handle_sec_auth_session_close env db req = (ret, ms, db')" and "db_ok cfg db"
  shows "db_ok cfg db'"
proof (cases "find_client_entry db (sr_sid req)")
  case None
  then show ?thesis
    using assms by (auto simp: handle_sec_auth_session_close_def split: if_splits)
next
  case (Some e)
  then have e: "entry_ok cfg e" using assms(2) by (rule db_ok_find [rotated])
  obtain e' where "db' = db \<or> db' = put_entry db e' \<and> ce_module e' = ce_module e \<and> ce_status e' = ce_status e"
    using assms(1) Some
    by (fastforce simp: handle_sec_auth_session_close_def expire_client_entry_def Let_def split: if_splits)
  then show ?thesis using e assms(2) by (auto intro!: db_ok_put elim!: entry_ok_cong)
qed

lemma db_ok_stats:
  assumes "handle_sec_auth_stats_cmd cfg db req = Inr (ret, ms, as, db')" and "db_ok cfg db"
  shows "db_ok cfg db'"
proof (cases "find_client_entry db (cs_sid req)")
  case None
  then show ?thesis
    using assms by (auto simp: handle_sec_auth_stats_cmd_def split: if_splits)
next
  case (Some e)
  then have e: "entry_ok cfg e" using assms(2) by (rule db_ok_find [rotated])
  obtain e' where "db' = db \<or> db' = put_entry db e' \<and> ce_module e' = ce_module e \<and> ce_status e' = ce_status e"
    using assms(1) Some
    by (fastforce simp: handle_sec_auth_stats_cmd_def Let_def split: if_splits option.splits)
  then show ?thesis using e assms(2) by (auto intro!: db_ok_put elim!: entry_ok_cong)
qed

lemma db_ok_worker:
  assumes "process_packet cfg ks ko env db cmd = Inr (ret, ms, as, db')" and "db_ok cfg db"
  shows "db_ok cfg db'"
proof (cases cmd)
  case (W_auth_init req)
  then show ?thesis
    using assms by (cases req) (auto simp: process_packet_def dest: db_ok_init split: prod.splits)
next
  case (W_auth_cont req)
  then show ?thesis
    using assms by (cases req) (auto simp: process_packet_def dest: db_ok_cont split: prod.splits)
next
  case (W_cli_stats req)
  then show ?thesis using assms by (cases req) (auto simp: process_packet_def dest: db_ok_stats)
qed (use assms in \<open>auto simp: process_packet_def split: option.splits prod.splits if_splits\<close>)

lemma db_ok_main:
  assumes "process_packet_from_main cfg env db cmd = Inr (ret, ms, as, db')" and "db_ok cfg db"
  shows "db_ok cfg db'"
proof (cases cmd)
  case (Mc_session_open req)
  then show ?thesis
    using assms by (cases req)
      (auto simp: process_packet_from_main_def handle_sec_auth_session_cmd_def dest: db_ok_open)
next
  case (Mc_session_close req)
  then show ?thesis
    using assms by (cases req) (auto simp: process_packet_from_main_def handle_sec_auth_session_cmd_def
        dest: db_ok_close split: prod.splits)
qed (use assms in \<open>simp add: process_packet_from_main_def\<close>)

lemma run_db_ok: "sm_run cfg ks ko tr db \<Longrightarrow> db_ok cfg db"
proof (induction rule: sm_run.induct)
  case run_init
  then show ?case by (simp add: sec_mod_client_db_init_def db_ok_def)
next
  case (run_step tr db x db')
  from run_step.hyps(2) show ?case
  proof cases
    case step_maintenance
    then show ?thesis using run_step.IH by (auto simp: cleanup_client_entries_def db_ok_def list_all_iff)
  qed (use run_step.IH db_ok_worker db_ok_main in blast)+
qed

section \<open>When the module cannot crash\<close>

lemma open_no_crash:
  assumes "handle_sec_auth_session_open cfg env db req = Inl x"
  shows "sg_acct_open cfg \<and> (\<exists>e. find_client_entry db (sr_sid req) = Some e
    \<and> ce_status e = PS_AUTH_COMPLETED \<and> module_of cfg e = None)"
  using assms
  by (auto simp: handle_sec_auth_session_open_def session_failed_def session_reply_def Let_def
      split: if_splits option.splits prod.splits)

lemma stats_no_crash:
  assumes "handle_sec_auth_stats_cmd cfg db req = Inl x"
  shows "sg_acct_stats cfg \<and> (\<exists>e. find_client_entry db (cs_sid req) = Some e
    \<and> ce_status e = PS_AUTH_COMPLETED \<and> module_of cfg e = None)"
proof (cases "find_client_entry db (cs_sid req)")
  case None
  then show ?thesis using assms by (auto simp: handle_sec_auth_stats_cmd_def split: if_splits)
next
  case (Some e)
  have "module_of cfg (e\<lparr>ce_stats := st, ce_auth_info := ai\<rparr>) = module_of cfg e" for st ai
    by (simp add: module_of_def)
  then show ?thesis
    using assms Some by (auto simp: handle_sec_auth_stats_cmd_def Let_def split: if_splits option.splits)
qed

lemma completed_module:
  assumes "db_ok cfg db" and "\<forall>m\<in>set (sg_auth cfg). as_amod m \<noteq> None"
    and "find_client_entry db k = Some e" and "ce_status e = PS_AUTH_COMPLETED"
  shows "module_of cfg e \<noteq> None"
proof -
  obtain i where "ce_module e = Some i" "i < length (sg_auth cfg)"
    using db_ok_find [OF assms(1,3)] assms(4) by (auto simp: entry_ok_def split: option.splits)
  then show ?thesis using assms(2) nth_mem by (force simp: module_of_def)
qed

section \<open>Properties\<close>

text \<open>
  C35: In a server whose authentication methods all have a module, no message of a worker or of
  the main process makes the security module dereference a NULL module, after any trace.
\<close>

theorem sec_mod_no_crash:
  assumes "sm_run cfg ks ko tr db" and "\<forall>m\<in>set (sg_auth cfg). as_amod m \<noteq> None"
  shows "(\<exists>r. process_packet cfg ks ko env db wcmd = Inr r)
    \<and> (\<exists>r. process_packet_from_main cfg env db mcmd = Inr r)"
proof -
  note modules = completed_module [OF run_db_ok [OF assms(1)] assms(2)]
  have "process_packet cfg ks ko env db wcmd \<noteq> Inl x" for x
    using stats_no_crash [of cfg db _ x] modules
    by (fastforce simp: process_packet_def split: worker_cmd.splits option.splits prod.splits if_splits)
  moreover have "process_packet_from_main cfg env db mcmd \<noteq> Inl x" for x
    using open_no_crash [of cfg env db _ x] modules
    by (fastforce simp: process_packet_from_main_def handle_sec_auth_session_cmd_def
        split: main_cmd.splits option.splits prod.splits if_splits)
  ultimately show ?thesis by (metis sumE)
qed

text \<open>
  C34: The main process gets a session opened only if, earlier in the trace, the credentials
  of that session id were accepted and the security module issued exactly the cookie that the
  request carries.
\<close>

theorem session_needs_issued_cookie:
  assumes "sm_run cfg ks ko tr db"
    and "process_packet_from_main cfg env db (Mc_session_open (Some req)) = Inr (ret, ms, as, db')"
    and "M_session_ok \<in> set ms"
  shows "\<exists>ev r ms' cookie. (ev, r, ms') \<in> set tr \<and> accepted cfg ev (sr_sid req)
    \<and> sr_cookie req = Some cookie \<and> issued ms' cookie (sr_sid req)"
proof -
  obtain e where "find_client_entry db (sr_sid req) = Some e" "ce_status e = PS_AUTH_COMPLETED"
    "sr_cookie req = Some (ce_cookie e)"
    using step_opens [OF step_main [OF assms(2)] assms(3)] by blast
  with completed_issued [OF assms(1)] show ?thesis by blast
qed

text \<open>
  Once an authentication has failed its entry never changes its mind: the next message
  leaves it failed or removes it, and opens no session on it.
\<close>

theorem failed_stays_failed:
  assumes "sm_run cfg ks ko tr db" and "sm_step cfg ks ko db (ev, ret, ms) db'"
    and "find_client_entry db k = Some e" and "ce_status e = PS_AUTH_FAILED"
  shows "\<not> opens ev ms k
    \<and> (case find_client_entry db' k of None \<Rightarrow> True | Some e' \<Rightarrow> ce_status e' = PS_AUTH_FAILED)"
proof
  show "\<not> opens ev ms k"
  proof
    assume o: "opens ev ms k"
    then obtain env req where "ev = Ev_main env (Mc_session_open (Some req))" "sr_sid req = k"
      and "M_session_ok \<in> set ms"
      by (auto simp: opens_def split: sm_event.splits main_cmd.splits option.splits)
    then show False using step_opens [of cfg ks ko db env req ret ms db'] assms(2-4) by auto
  qed
  from conjunct1 [OF step_change [OF assms(2) run_distinct [OF assms(1)], of k]] assms(3,4)
  show "case find_client_entry db' k of None \<Rightarrow> True | Some e' \<Rightarrow> ce_status e' = PS_AUTH_FAILED"
    by cases auto
qed

text \<open>
  C36: A session opened more often than it was closed is still in the table and in use, and the
  periodic cleanup keeps it whatever the time is.
\<close>

theorem open_session_is_kept:
  assumes "sm_run cfg ks ko tr db" and "open_count tr k < 2 ^ 32" and "close_count tr k < open_count tr k"
  shows "\<exists>e. find_client_entry db k = Some e \<and> 0 < ce_in_use e \<and> \<not> entry_expired cfg now e"
proof -
  have "0 < use_count (find_client_entry db k)"
    using run_use_count [OF assms(1,2)] assms(3) by simp
  then show ?thesis
    by (auto simp: use_count_def entry_expired_def word_gt_0 unat_eq_0 split: option.splits)
qed

text \<open>
  With accounting on, a session request with the right cookie for an entry whose method has
  no module (certificates only) dereferences the NULL module: the security module crashes
  instead of answering.
\<close>

theorem session_open_null_module:
  assumes "find_client_entry db (sr_sid req) = Some e" and "length (sr_sid req) = SID_SIZE"
    and "ce_status e = PS_AUTH_COMPLETED" and "ce_time e = -1 \<or> sm_now env \<le> ce_time e + sg_cookie_timeout cfg"
    and "sr_cookie req = Some (ce_cookie e)" and "\<not> ce_session_is_open e" and "sg_acct_open cfg"
  shows "process_packet_from_main cfg env db (Mc_session_open (Some req)) = Inl Null_module
    \<longleftrightarrow> module_of cfg e = None"
  using assms
  by (auto simp: process_packet_from_main_def handle_sec_auth_session_cmd_def
      handle_sec_auth_session_open_def session_reply_def session_failed_def Let_def
      split: option.splits prod.splits)

section \<open>A concrete server\<close>

text \<open>One client logs in with a certificate and no module; accounting is on or off.\<close>

definition example_sec_cfg :: "bool \<Rightarrow> nat sec_cfg" where
  "example_sec_cfg acct = \<lparr>sg_auth = [\<lparr>as_enabled = True, as_type = AUTH_TYPE_CERTIFICATE, as_amod = None\<rparr>],
     sg_acct_open = acct, sg_acct_stats = acct, sg_acct_close = acct, sg_cookie_timeout = 300,
     sg_max_ban_score = 0, sg_ban_points_wrong_password = 10, sg_predictable_ips = False,
     sg_cert_user_oid = True, sg_cert_group_oid = False\<rparr>"

definition example_sid :: "byte list" where "example_sid = replicate 16 7"

definition example_sm_env :: sm_env where
  "example_sm_env = \<lparr>sm_now = 100, sm_talloc = True, sm_add = True, sm_rnd = [Some example_sid],
     sm_seed = Some 1, sm_hash = (\<lambda>_. 0), sm_cookie = example_cookie_env, sm_key = [3], sm_pool = True,
     sm_send = True, sm_ban_send = True, sm_ban_reply = Some True, sm_open = 0, sm_sup = None\<rparr>"

definition example_init :: init_req where
  "example_init = \<lparr>in_ip = ''10.0.0.1'', in_auth_type = AUTH_TYPE_CERTIFICATE, in_hostname = None,
     in_user_name = None, in_group_name = None, in_tls_auth_ok = True,
     in_cert_user_name = Some ''u'', in_cert_group_names = []\<rparr>"

definition example_bad_init :: init_req where
  "example_bad_init = example_init\<lparr>in_tls_auth_ok := False\<rparr>"

definition example_enc_cookie :: "byte list" where
  "example_enc_cookie = replicate 12 9 @ replicate 16 4 @ (3 # replicate 11 0)"

definition example_entry :: "nat client_entry" where
  "example_entry = (blank_entry example_sid ''10.0.0.1'' 100)\<lparr>ce_tls_auth_ok := True,
     ce_status := PS_AUTH_COMPLETED, ce_cookie := example_enc_cookie, ce_auth_type := AUTH_TYPE_CERTIFICATE,
     ce_module := Some 0, ce_auth_info := \<lparr>ai_username = ''u'', ai_groupname = [],
       ai_remote_ip = ''10.0.0.1'', ai_ipv4 = [], ai_ipv6 = []\<rparr>\<rparr>"

definition example_open :: session_req where
  "example_open = \<lparr>sr_sid = example_sid, sr_cookie = Some example_enc_cookie, sr_uptime = None,
     sr_bytes_in = None, sr_bytes_out = None\<rparr>"

lemmas example_sm_defs = example_sec_cfg_def example_sm_env_def example_init_def example_bad_init_def
  example_open_def example_sid_def

lemma example_new:
  "new_client_entry True True [Some example_sid] 100 [] ''10.0.0.1'' =
     Some (blank_entry example_sid ''10.0.0.1'' 100, [blank_entry example_sid ''10.0.0.1'' 100])"
  by (simp add: new_client_entry_def find_client_entry_def tbl_defs Let_def)

lemma example_steps:
  "auth_init_steps (example_sec_cfg acct) example_init (blank_entry example_sid ''10.0.0.1'' 100) =
     (0, example_entry\<lparr>ce_status := PS_AUTH_INIT, ce_cookie := []\<rparr>)"
  by (simp add: auth_init_steps_def set_module_def init_module_def init_cert_group_def module_of_def
      check_user_group_status_def is_certificate_def set_username_def blank_entry_def example_entry_def
      example_sec_cfg_def example_init_def auth_types strlcpy_str_def sec_consts MAX_IP_STR_def)

lemma example_encrypt:
  "ck_sid m = example_sid \<Longrightarrow>
    encrypt_cookie example_cookie_env [3] m = (0, Some example_enc_cookie)"
  by (simp add: encrypt_cookie_def example_cookie_env_def example_gcm_def cookie_sizes
      example_sid_def example_enc_cookie_def)

lemma example_res:
  "handle_sec_auth_res (example_sec_cfg acct) example_sm_env
     (example_entry\<lparr>ce_status := PS_AUTH_INIT, ce_cookie := []\<rparr>) 0 =
     (0, [M_auth_ok example_enc_cookie ''u'' None example_sid], example_entry)"
  by (simp add: handle_sec_auth_res_def fetch_auth_msg_def module_of_def send_sec_auth_reply_def
      generate_cookie_def cookie_of_def example_encrypt err_codes example_sec_cfg_def example_sm_env_def
      example_entry_def blank_entry_def)

lemma example_fields:
  "sm_now example_sm_env = 100" "sm_talloc example_sm_env" "sm_add example_sm_env"
  "sm_rnd example_sm_env = [Some example_sid]" "in_ip example_init = ''10.0.0.1''"
  "in_ip example_bad_init = ''10.0.0.1''" "ce_sid example_entry = example_sid"
  by (simp_all add: example_sm_env_def example_init_def example_bad_init_def example_entry_def blank_entry_def)

lemma example_put: "ce_sid e = example_sid \<Longrightarrow> put_entry [blank_entry example_sid ip t] e = [e]"
  by (simp add: put_entry_def blank_entry_def)

lemma example_login:
  "process_packet (example_sec_cfg acct) 0 ko example_sm_env [] (W_auth_init (Some example_init)) =
     Inr (0, [M_auth_ok example_enc_cookie ''u'' None example_sid], [], [example_entry])"
  by (simp add: process_packet_def handle_sec_auth_init_def example_fields example_new example_steps
      example_res example_put)

lemma example_run:
  "sm_run (example_sec_cfg acct) 0 ko
     [(Ev_worker example_sm_env (W_auth_init (Some example_init)), 0,
       [M_auth_ok example_enc_cookie ''u'' None example_sid])] [example_entry]"
proof (rule run_step [OF run_init])
  show "sm_step (example_sec_cfg acct) 0 ko sec_mod_client_db_init
     (Ev_worker example_sm_env (W_auth_init (Some example_init)), 0,
       [M_auth_ok example_enc_cookie ''u'' None example_sid]) [example_entry]"
    unfolding sec_mod_client_db_init_def by (rule step_worker [OF example_login])
qed

lemma example_opened:
  "process_packet_from_main (example_sec_cfg False) example_sm_env [example_entry]
     (Mc_session_open (Some example_open)) =
   Inr (0, [M_session_ok], [], [example_entry\<lparr>ce_time := -1, ce_in_use := 1\<rparr>])"
  by (simp add: process_packet_from_main_def handle_sec_auth_session_cmd_def sec_consts
      handle_sec_auth_session_open_def session_reply_def find_client_entry_def put_entry_def tbl_defs
      example_sec_cfg_def example_sm_env_def example_open_def example_entry_def blank_entry_def
      example_sid_def)

lemma example_opened_run:
  "\<exists>tr. sm_run (example_sec_cfg False) 0 ko tr [example_entry\<lparr>ce_time := -1, ce_in_use := 1\<rparr>]
    \<and> open_count tr example_sid = 1 \<and> close_count tr example_sid = 0"
  using run_step [OF example_run step_main [OF example_opened]]
  by (fastforce simp: opens_def closes_def example_open_def)

lemma example_bad_steps:
  "\<exists>e. auth_init_steps (example_sec_cfg acct) example_bad_init (blank_entry example_sid ''10.0.0.1'' 100)
     = (-1, e) \<and> ce_sid e = example_sid"
  by (simp add: auth_init_steps_def set_module_def init_module_def init_cert_group_def module_of_def
      check_user_group_status_def is_certificate_def blank_entry_def
      example_sec_cfg_def example_bad_init_def example_init_def auth_types)

lemma example_bad_res:
  "handle_sec_auth_res (example_sec_cfg acct) example_sm_env e (-1) =
     (-1, [M_auth_failed], e\<lparr>ce_status := PS_AUTH_FAILED, ce_msg_str := None\<rparr>)"
proof -
  have "fetch_auth_msg (example_sec_cfg acct) e (-1) = (0, e)"
    by (simp add: fetch_auth_msg_def err_codes split: option.split)
  then show ?thesis
    by (simp add: handle_sec_auth_res_def send_sec_auth_reply_def sec_mod_add_score_to_ip_def
        err_codes Let_def example_sec_cfg_def example_sm_env_def)
qed

lemma example_rejected:
  "\<exists>e. process_packet (example_sec_cfg False) 0 ko example_sm_env []
       (W_auth_init (Some example_bad_init)) = Inr (-1, [M_auth_failed], [], [e])
    \<and> ce_sid e = example_sid \<and> ce_status e = PS_AUTH_FAILED"
proof -
  obtain e where e: "auth_init_steps (example_sec_cfg False) example_bad_init
      (blank_entry example_sid ''10.0.0.1'' 100) = (-1, e)" "ce_sid e = example_sid"
    using example_bad_steps by blast
  then show ?thesis
    by (simp add: process_packet_def handle_sec_auth_init_def example_fields example_new
        example_put example_bad_res)
qed

section \<open>Witnesses\<close>

theorem session_needs_issued_cookie_witness:
  "\<exists>ev r ms cookie. accepted (example_sec_cfg False) ev example_sid
    \<and> sr_cookie example_open = Some cookie \<and> issued ms cookie example_sid"
  using session_needs_issued_cookie [OF example_run example_opened]
  by (auto simp: example_open_def)

theorem failed_stays_failed_witness:
  "\<exists>e :: nat client_entry. ce_status e = PS_AUTH_FAILED \<and> \<not> opens (Ev_maintenance 5) [] example_sid"
proof -
  let ?cfg = "example_sec_cfg False"
  obtain e where p: "process_packet ?cfg 0 (\<lambda>_ _. None) example_sm_env [] (W_auth_init (Some example_bad_init))
      = Inr (-1, [M_auth_failed], [], [e])" and e: "ce_sid e = example_sid" "ce_status e = PS_AUTH_FAILED"
    using example_rejected by blast
  have run: "sm_run ?cfg 0 (\<lambda>_ _. None)
      [(Ev_worker example_sm_env (W_auth_init (Some example_bad_init)), -1, [M_auth_failed])] [e]"
    by (rule run_step [OF run_init step_worker]) (simp add: p sec_mod_client_db_init_def)
  have find: "find_client_entry [e] example_sid = Some e"
    using e by (simp add: find_client_entry_def tbl_defs)
  show ?thesis using failed_stays_failed [OF run step_maintenance find e(2)] e(2) by blast
qed

theorem open_session_is_kept_witness:
  "\<exists>e. find_client_entry [example_entry\<lparr>ce_time := -1, ce_in_use := 1\<rparr>] example_sid = Some e \<and> 0 < ce_in_use e"
proof -
  obtain tr where "sm_run (example_sec_cfg False) 0 (\<lambda>_ _. None) tr
      [example_entry\<lparr>ce_time := -1, ce_in_use := 1\<rparr>]"
    "open_count tr example_sid = 1" "close_count tr example_sid = 0"
    using example_opened_run by blast
  from open_session_is_kept [OF this(1), of example_sid] this(2,3) show ?thesis by auto
qed

theorem session_open_null_module_witness:
  "process_packet_from_main (example_sec_cfg True) example_sm_env [example_entry]
     (Mc_session_open (Some example_open)) = Inl Null_module
   \<and> (\<exists>tr. sm_run (example_sec_cfg True) 0 (\<lambda>_ _. None) tr [example_entry])"
proof
  have "find_client_entry [example_entry] (sr_sid example_open) = Some example_entry"
    by (simp add: find_client_entry_def tbl_defs example_open_def example_fields)
  from session_open_null_module [OF this, of example_sm_env "example_sec_cfg True"]
  show "process_packet_from_main (example_sec_cfg True) example_sm_env [example_entry]
     (Mc_session_open (Some example_open)) = Inl Null_module"
    by (simp add: example_open_def example_entry_def blank_entry_def
        example_sid_def sec_consts example_sm_env_def example_sec_cfg_def module_of_def)
qed (use example_run in blast)

definition example_mod :: "nat auth_mod" where
  "example_mod = \<lparr>am_allows_retries = True, am_auth_init = (\<lambda>u ip. (ERR_AUTH_CONTINUE, Some 0)),
     am_auth_msg = (\<lambda>ctx. (0, Some ''Password:'')),
     am_auth_pass = (\<lambda>ctx p. (if p = ''secret'' then 0 else ERR_AUTH_CONTINUE, ctx)),
     am_auth_group = (\<lambda>ctx g. (0, [])), am_auth_user = (\<lambda>ctx u. u)\<rparr>"

definition example_pass_cfg :: "nat sec_cfg" where
  "example_pass_cfg = (example_sec_cfg True)\<lparr>sg_auth :=
     [\<lparr>as_enabled = True, as_type = AUTH_TYPE_PLAIN, as_amod = Some example_mod\<rparr>]\<rparr>"

theorem sec_mod_no_crash_witness:
  "\<exists>r. process_packet_from_main example_pass_cfg example_sm_env sec_mod_client_db_init
     (Mc_session_open (Some example_open)) = Inr r"
  using sec_mod_no_crash [OF run_init, of example_pass_cfg]
  by (simp add: example_pass_cfg_def)

end
