(* ===== verification/StrBuf.thy ===== *)
theory StrBuf
  imports Prelude
begin

text \<open>
  The growing byte buffer of src/str.c. A buffer is its allocation (None for NULL), the offset
  of \<open>data\<close> in it, the recorded size and the length in use; an access outside the allocation or
  through NULL is an error value. What each talloc call answers comes from a list.
\<close>

datatype mem_error = Out_of_bounds | Null_pointer

record str_st =
  sb_alloc :: "byte list option"
  sb_off :: nat
  sb_max :: nat
  sb_len :: nat

definition str_init :: str_st where
  "str_init = \<lparr>sb_alloc = None, sb_off = 0, sb_max = 0, sb_len = 0\<rparr>"

definition str_clear :: "str_st \<Rightarrow> str_st" where
  "str_clear s = (if sb_alloc s = None then s else s\<lparr>sb_alloc := None, sb_off := 0, sb_max := 0, sb_len := 0\<rparr>)"

definition str_reset :: "str_st \<Rightarrow> str_st" where
  "str_reset s = s\<lparr>sb_off := 0, sb_len := 0\<rparr>"

definition MIN_CHUNK :: nat where "MIN_CHUNK = 64"

text \<open>The bytes in use.\<close>

definition sb_data :: "str_st \<Rightarrow> byte list" where
  "sb_data s = (case sb_alloc s of None \<Rightarrow> [] | Some b \<Rightarrow> take (sb_len s) (drop (sb_off s) b))"

text \<open>memcpy of bytes to an offset of the allocation.\<close>

definition write_at :: "nat \<Rightarrow> byte list \<Rightarrow> str_st \<Rightarrow> mem_error + str_st" where
  "write_at i bs s =
     (case sb_alloc s of
        None \<Rightarrow> Inl Null_pointer
      | Some b \<Rightarrow>
          if length b < i + length bs then Inl Out_of_bounds
          else Inr (s\<lparr>sb_alloc := Some (take i b @ bs @ drop (i + length bs) b)\<rparr>))"

text \<open>memmove of the bytes in use to the start of the allocation, when there are any.\<close>

definition move_to_start :: "str_st \<Rightarrow> str_st" where
  "move_to_start s =
     (case sb_alloc s of
        None \<Rightarrow> s\<lparr>sb_off := 0\<rparr>
      | Some b \<Rightarrow>
          s\<lparr>sb_alloc := Some (if 0 < sb_len s then sb_data s @ drop (length (sb_data s)) b else b),
            sb_off := 0\<rparr>)"

text \<open>talloc_realloc_size: the old bytes stay, what follows them is not initialised.\<close>

definition realloc :: "byte list option \<Rightarrow> nat \<Rightarrow> byte \<Rightarrow> byte list" where
  "realloc old n junk = (let b = (case old of None \<Rightarrow> [] | Some b \<Rightarrow> b) in
     take n b @ replicate (n - length b) junk)"

text \<open>\<open>mem\<close> is None when the allocation fails, else what uninitialised bytes hold.\<close>

definition str_append_size :: "byte option \<Rightarrow> str_st \<Rightarrow> nat \<Rightarrow> int \<times> str_st" where
  "str_append_size mem dest data_size =
     (let tot_len = data_size + sb_len dest in
      if data_size = 0 then (0, dest)
      else if tot_len + 1 \<le> sb_max dest then
        (int tot_len, if sb_max dest - sb_off dest \<le> tot_len then move_to_start dest else dest)
      else
        let new_len = max data_size MIN_CHUNK + max (sb_max dest) MIN_CHUNK in
        (case mem of
           None \<Rightarrow> (ERR_MEM, dest\<lparr>sb_alloc := None\<rparr>)
         | Some junk \<Rightarrow>
             (int tot_len,
              move_to_start (dest\<lparr>sb_alloc := Some (realloc (sb_alloc dest) (new_len + 1) junk),
                                  sb_max := new_len\<rparr>))))"

definition str_append_data :: "byte option \<Rightarrow> str_st \<Rightarrow> byte list \<Rightarrow> mem_error + int \<times> str_st" where
  "str_append_data mem dest bs =
     (case str_append_size mem dest (length bs) of
        (ret, s) \<Rightarrow>
          if ret < 0 then Inr (ret, s)
          else
            (case (if bs = [] then Inr s else write_at (sb_off s + sb_len s) bs s) of
               Inl err \<Rightarrow> Inl err
             | Inr s1 \<Rightarrow>
                 let s2 = s1\<lparr>sb_len := length bs + sb_len s1\<rparr> in
                 (case write_at (sb_off s2 + sb_len s2) [0] s2 of
                    Inl err \<Rightarrow> Inl err
                  | Inr s3 \<Rightarrow> Inr (0, s3))))"

definition str_append_data_prefix1 ::
  "byte option \<Rightarrow> byte option \<Rightarrow> str_st \<Rightarrow> byte list \<Rightarrow> mem_error + int \<times> str_st" where
  "str_append_data_prefix1 mem mem2 dest bs =
     (case str_append_data mem dest [of_nat (length bs)] of
        Inl err \<Rightarrow> Inl err
      | Inr (ret, s) \<Rightarrow> if 0 \<le> ret then str_append_data mem2 s bs else Inr (ret, s))"

text \<open>The C string \<open>src\<close> goes in with its terminator, which is then not counted.\<close>

definition str_append_str :: "byte option \<Rightarrow> str_st \<Rightarrow> byte list \<Rightarrow> mem_error + int \<times> str_st" where
  "str_append_str mem dest src =
     (case str_append_data mem dest (src @ [0]) of
        Inl err \<Rightarrow> Inl err
      | Inr (ret, s) \<Rightarrow> Inr (ret, if 0 \<le> ret then s\<lparr>sb_len := sb_len s - 1\<rparr> else s))"

text \<open>\<open>str\<close> is what vasprintf produced, None when it failed.\<close>

definition str_append_printf :: "byte option \<Rightarrow> str_st \<Rightarrow> byte list option \<Rightarrow> mem_error + int \<times> str_st" where
  "str_append_printf mem dest str =
     (case str of None \<Rightarrow> Inr (-1, dest) | Some s \<Rightarrow> str_append_str mem dest s)"

text \<open>memmem: the offset of the first occurrence.\<close>

fun memmem :: "byte list \<Rightarrow> byte list \<Rightarrow> nat option" where
  "memmem [] what = (if what = [] then Some 0 else None)"
| "memmem (b # bs) what =
     (if take (length what) (b # bs) = what then Some 0 else map_option Suc (memmem bs what))"

text \<open>
  str_replace_str calls itself after each replacement; \<open>fuel\<close> bounds the calls and None is
  what is left when it runs out.
\<close>

fun str_replace_str ::
  "nat \<Rightarrow> (nat \<Rightarrow> byte option) \<Rightarrow> str_st \<Rightarrow> byte list \<Rightarrow> byte list \<Rightarrow> (mem_error + int \<times> str_st) option" where
  "str_replace_str 0 mem s what repl = None"
| "str_replace_str (Suc fuel) mem s what repl =
     (case memmem (sb_data s) what of
        None \<Rightarrow> Some (Inr (0, s))
      | Some i \<Rightarrow>
          (case mem (3 * fuel) of
             None \<Rightarrow> Some (Inr (-1, s))
           | Some _ \<Rightarrow>
               let final = drop (i + length what) (sb_data s);
                   s1 = s\<lparr>sb_len := sb_len s - (length final + length what)\<rparr>
               in (case str_append_str (mem (3 * fuel + 1)) s1 repl of
                     Inl err \<Rightarrow> Some (Inl err)
                   | Inr (ret, s2) \<Rightarrow>
                       if ret < 0 then Some (Inr (ret, s2))
                       else
                         (case str_append_data (mem (3 * fuel + 2)) s2 final of
                            Inl err \<Rightarrow> Some (Inl err)
                          | Inr (ret, s3) \<Rightarrow>
                              if ret < 0 then Some (Inr (ret, s3))
                              else str_replace_str fuel mem s3 what repl))))"

section \<open>The invariant of a buffer\<close>

text \<open>Length and offset stay within the recorded size, which is one below the allocation.\<close>

definition str_ok :: "str_st \<Rightarrow> bool" where
  "str_ok s \<longleftrightarrow> (case sb_alloc s of
     None \<Rightarrow> sb_len s = 0 \<and> sb_max s = 0 \<and> sb_off s = 0
   | Some b \<Rightarrow> length b = sb_max s + 1 \<and> sb_off s + sb_len s \<le> sb_max s)"

lemma str_ok_init [simp]: "str_ok str_init"
  by (simp add: str_ok_def str_init_def)

lemma length_sb_data: "str_ok s \<Longrightarrow> length (sb_data s) = sb_len s"
  by (auto simp: str_ok_def sb_data_def split: option.splits)

lemma move_to_start_data:
  assumes "str_ok s"
  shows "sb_data (move_to_start s) = sb_data s" and "str_ok (move_to_start s)"
    and "sb_off (move_to_start s) = 0" and "sb_len (move_to_start s) = sb_len s"
    and "sb_max (move_to_start s) = sb_max s" and "sb_alloc (move_to_start s) = None \<longleftrightarrow> sb_alloc s = None"
  using assms length_sb_data [OF assms]
  by (auto simp: str_ok_def move_to_start_def sb_data_def split: option.splits)

lemma realloc_grow:
  assumes "str_ok s" and "sb_max s < n" and s': "s' = s\<lparr>sb_alloc := Some (realloc (sb_alloc s) (n + 1) junk), sb_max := n\<rparr>"
  shows "str_ok s'" and "sb_data s' = sb_data s"
proof -
  have "length (realloc (sb_alloc s) (n + 1) junk) = n + 1"
    using assms(1,2) by (auto simp: realloc_def str_ok_def Let_def split: option.splits)
  then show "str_ok s'" using assms by (auto simp: str_ok_def split: option.splits)
  show "sb_data s' = sb_data s"
    using assms by (auto simp: realloc_def str_ok_def sb_data_def Let_def split: option.splits)
qed

text \<open>What str_append_size promises: room for the data and one byte more.\<close>

lemma append_size_ok:
  assumes ok: "str_ok s" and r: "str_append_size mem s n = (ret, s')" and pos: "0 < n" and good: "0 \<le> ret"
  shows "str_ok s' \<and> sb_data s' = sb_data s \<and> sb_len s' = sb_len s
    \<and> (\<exists>b. sb_alloc s' = Some b \<and> sb_off s' + sb_len s' + n + 1 \<le> length b)"
proof (cases "n + sb_len s + 1 \<le> sb_max s")
  case True
  then obtain b where b: "sb_alloc s = Some b" using ok by (auto simp: str_ok_def split: option.splits)
  show ?thesis
  proof (cases "sb_max s - sb_off s \<le> n + sb_len s")
    case move: True
    then have "s' = move_to_start s" using r True pos by (simp add: str_append_size_def Let_def)
    then show ?thesis
      using move_to_start_data [OF ok] b True by (auto simp: str_ok_def split: option.splits)
  next
    case False
    then have "s' = s" using r True pos by (simp add: str_append_size_def Let_def)
    then show ?thesis using False ok b by (auto simp: str_ok_def)
  qed
next
  case False
  let ?n = "max n MIN_CHUNK + max (sb_max s) MIN_CHUNK"
  obtain junk where "mem = Some junk"
    using r pos False good by (cases mem) (auto simp: str_append_size_def Let_def err_codes)
  moreover define s1 where "s1 = s\<lparr>sb_alloc := Some (realloc (sb_alloc s) (?n + 1) junk), sb_max := ?n\<rparr>"
  ultimately have s': "s' = move_to_start s1" using r pos False by (simp add: str_append_size_def Let_def)
  have "sb_max s < ?n" using pos by (simp add: MIN_CHUNK_def)
  note grow = realloc_grow [OF ok this s1_def]
  have len: "sb_len s \<le> sb_max s" using ok by (auto simp: str_ok_def split: option.splits)
  note move = move_to_start_data [OF grow(1)]
  have s1: "sb_len s1 = sb_len s" "sb_max s1 = ?n" "sb_alloc s1 \<noteq> None" by (simp_all add: s1_def)
  obtain b where b: "sb_alloc s' = Some b" using move(6) s1 s' by auto
  then have "length b = ?n + 1" using move(2,5) s1 s' by (simp add: str_ok_def)
  then show ?thesis using move grow s1 s' b len by (simp add: MIN_CHUNK_def)
qed

lemma write_at_alloc:
  "sb_alloc s = Some b \<Longrightarrow> i + length bs \<le> length b \<Longrightarrow>
    write_at i bs s = Inr (s\<lparr>sb_alloc := Some (take i b @ bs @ drop (i + length bs) b)\<rparr>)"
  by (simp add: write_at_def)

text \<open>
  Appending to a well-formed buffer: never an access outside the allocation, and on success
  the bytes in use are the old ones followed by the new, with a NUL after them.
\<close>

lemma append_data_ok:
  assumes ok: "str_ok s" and use: "bs \<noteq> [] \<or> sb_alloc s \<noteq> None"
  shows "\<exists>ret s'. str_append_data mem s bs = Inr (ret, s') \<and> (0 \<le> ret \<longrightarrow> ret = 0 \<and> str_ok s'
    \<and> sb_alloc s' \<noteq> None \<and> sb_data s' = sb_data s @ bs \<and> sb_len s' = sb_len s + length bs)"
proof -
  obtain r s1 where r: "str_append_size mem s (length bs) = (r, s1)" by fastforce
  show ?thesis
  proof (cases "r < 0")
    case True
    then show ?thesis using r by (simp add: str_append_data_def)
  next
    case False
    obtain b where b: "sb_alloc s1 = Some b" and s1: "str_ok s1" "sb_data s1 = sb_data s" "sb_len s1 = sb_len s"
      and room: "sb_off s1 + sb_len s1 + length bs + 1 \<le> length b"
    proof (cases "bs = []")
      case True
      then have "s1 = s" using r by (simp add: str_append_size_def)
      then show thesis using that use True ok by (fastforce simp: str_ok_def split: option.splits)
    next
      case nonempty: False
      then show thesis using append_size_ok [OF ok r] False that by auto
    qed
    let ?i = "sb_off s1 + sb_len s1"
    let ?b2 = "take ?i b @ bs @ drop (?i + length bs) b"
    let ?b3 = "take (?i + length bs) ?b2 @ [0] @ drop (?i + length bs + 1) ?b2"
    let ?s3 = "s1\<lparr>sb_alloc := Some ?b3, sb_len := length bs + sb_len s1\<rparr>"
    have w1: "(if bs = [] then Inr s1 else write_at ?i bs s1) = Inr (s1\<lparr>sb_alloc := Some ?b2\<rparr>)"
      using b room by (auto simp: write_at_alloc)
    have len2: "length ?b2 = length b" using room by simp
    have w2: "write_at (?i + length bs) [0] (s1\<lparr>sb_alloc := Some ?b2, sb_len := length bs + sb_len s1\<rparr>) = Inr ?s3"
      using room len2 by (subst write_at_alloc [where b = ?b2]) simp_all
    have "str_append_data mem s bs = Inr (0, ?s3)"
      using r False w1 w2 by (simp add: str_append_data_def Let_def ac_simps)
    moreover have "str_ok ?s3" using s1(1) b room by (simp add: str_ok_def)
    moreover have "sb_data ?s3 = sb_data s1 @ bs"
      using b room s1(1) by (simp add: sb_data_def str_ok_def drop_take)
    ultimately show ?thesis using s1 by simp
  qed
qed

lemma append_str_ok:
  assumes "str_ok s"
  shows "\<exists>ret s'. str_append_str mem s src = Inr (ret, s') \<and> (0 \<le> ret \<longrightarrow> ret = 0 \<and> str_ok s'
    \<and> sb_alloc s' \<noteq> None \<and> sb_data s' = sb_data s @ src \<and> sb_len s' = sb_len s + length src)"
proof -
  obtain ret s1 where r: "str_append_data mem s (src @ [0]) = Inr (ret, s1)"
    and s1: "0 \<le> ret \<Longrightarrow> ret = 0 \<and> str_ok s1 \<and> sb_alloc s1 \<noteq> None
      \<and> sb_data s1 = sb_data s @ src @ [0] \<and> sb_len s1 = sb_len s + length src + 1"
    using append_data_ok [OF assms, of "src @ [0]" mem] by auto
  show ?thesis
  proof (cases "0 \<le> ret")
    case True
    note s1 = s1 [OF True]
    then obtain b where b: "sb_alloc s1 = Some b" by blast
    then have "sb_len s1 \<le> length (drop (sb_off s1) b)" using s1 by (auto simp: str_ok_def)
    then have "sb_data (s1\<lparr>sb_len := sb_len s1 - 1\<rparr>) = butlast (sb_data s1)"
      by (simp add: sb_data_def b butlast_take)
    then show ?thesis using r s1 b True by (auto simp: str_append_str_def str_ok_def butlast_append)
  qed (use r in \<open>simp add: str_append_str_def\<close>)
qed

section \<open>Occurrences\<close>

lemma memmem_Some: "memmem bs what = Some i \<Longrightarrow>
    i + length what \<le> length bs \<and> take (length what) (drop i bs) = what
    \<and> (\<forall>j<i. take (length what) (drop j bs) \<noteq> what)"
proof (induction bs what arbitrary: i rule: memmem.induct)
  case (2 b bs what)
  show ?case
  proof (cases "take (length what) (b # bs) = what")
    case True
    then have "length what \<le> length (b # bs)" by (metis length_take min.cobounded1 min_def)
    then show ?thesis using 2 True by auto
  next
    case False
    then have "map_option Suc (memmem bs what) = Some i" using "2.prems" by simp
    then obtain j where j: "memmem bs what = Some j" "i = Suc j" by auto
    note IH = "2.IH" [OF False j(1)]
    have "take (length what) (drop k (b # bs)) \<noteq> what" if "k < i" for k
    proof (cases k)
      case 0
      then show ?thesis using False by simp
    next
      case (Suc m)
      then show ?thesis using IH j(2) that by simp
    qed
    then show ?thesis using IH j(2) by simp
  qed
qed (auto split: if_splits)

lemma memmem_None: "memmem bs what = None \<Longrightarrow> take (length what) (drop j bs) \<noteq> what \<or> length bs < j"
proof (induction bs what arbitrary: j rule: memmem.induct)
  case (2 b bs what)
  then show ?case by (cases j) (auto split: if_splits)
qed (auto split: if_splits)

lemma memmem_append:
  "(\<And>i. i < length d \<Longrightarrow> take (length what) (drop i (d @ r)) \<noteq> what) \<Longrightarrow>
    memmem (d @ r) what = map_option ((+) (length d)) (memmem r what)"
proof (induction d)
  case (Cons b d)
  have "take (length what) (drop i (d @ r)) \<noteq> what" if "i < length d" for i
    using Cons.prems [of "Suc i"] that by simp
  note IH = Cons.IH [OF this]
  have "take (length what) (b # d @ r) \<noteq> what" using Cons.prems [of 0] by simp
  then show ?case using IH by (auto simp: option.map_comp comp_def)
qed (cases "memmem r what"; simp)

lemma occ_nth: "take (length w) (drop i s) = w \<Longrightarrow> k < length w \<Longrightarrow> s ! (i + k) = w ! k"
  by (metis add_leE nat_le_linear nth_drop nth_take take_all_iff length_drop drop_all list.size(3)
      not_less_zero take_Nil)

text \<open>The reference: replace every occurrence, from left to right.\<close>

fun replace_all :: "nat \<Rightarrow> byte list \<Rightarrow> byte list \<Rightarrow> byte list \<Rightarrow> byte list" where
  "replace_all 0 bs what repl = bs"
| "replace_all (Suc n) bs what repl =
     (case memmem bs what of
        None \<Rightarrow> bs
      | Some i \<Rightarrow> take i bs @ repl @ replace_all n (drop (i + length what) bs) what repl)"

text \<open>\<open>clean\<close>: whatever follows, no occurrence starts in these bytes.\<close>

definition clean :: "byte list \<Rightarrow> byte list \<Rightarrow> bool" where
  "clean what d \<longleftrightarrow> (\<forall>r. \<forall>i<length d. take (length what) (drop i (d @ r)) \<noteq> what)"

lemma clean_memmem: "clean what d \<Longrightarrow> memmem (d @ r) what = map_option ((+) (length d)) (memmem r what)"
  by (rule memmem_append) (simp add: clean_def)

lemma clean_step:
  assumes d: "clean what d" and pre: "memmem (pre @ what @ post) what = Some (length pre)"
    and "repl \<noteq> []" and what: "what \<noteq> []" and dis: "set what \<inter> set repl = {}"
  shows "clean what (d @ pre @ repl)"
proof (unfold clean_def, intro allI impI notI)
  fix r i
  assume i: "i < length (d @ pre @ repl)" and occ: "take (length what) (drop i ((d @ pre @ repl) @ r)) = what"
  let ?s = "(d @ pre @ repl) @ r"
  have inside: "?s ! (i + k) \<in> set what" if "k < length what" for k
    using occ_nth [OF occ that] that by simp
  have w: "?s ! j \<in> set repl" if "length (d @ pre) \<le> j" "j < length (d @ pre @ repl)" for j
    using that by (auto simp: nth_append)
  consider "i < length d" | "length d \<le> i" "i + length what \<le> length (d @ pre)"
    | "i < length (d @ pre)" "length (d @ pre) < i + length what" | "length (d @ pre) \<le> i"
    by linarith
  then show False
  proof cases
    case 1
    then show False using d occ unfolding clean_def by (metis append.assoc)
  next
    case 2
    then have "take (length what) (drop (i - length d) (pre @ what @ post)) = what"
      using occ by simp
    moreover have "i - length d < length pre" using 2 what by (cases what) auto
    ultimately show False using memmem_Some [OF pre] by blast
  next
    case 3
    then have "?s ! (length (d @ pre)) \<in> set what"
      using inside [of "length (d @ pre) - i"] by auto
    moreover have "?s ! (length (d @ pre)) \<in> set repl" using \<open>repl \<noteq> []\<close> by (intro w) auto
    ultimately show False using dis by blast
  next
    case 4
    then show False using inside [of 0] w [of i] i what dis by auto
  qed
qed

section \<open>Replacing\<close>

lemma replace_all_None: "memmem bs what = None \<Longrightarrow> replace_all n bs what repl = bs"
  by (cases n) simp_all

text \<open>Dropping the tail of the bytes in use.\<close>

lemma shrink_ok:
  assumes "str_ok s" and "sb_alloc s \<noteq> None"
  shows "str_ok (s\<lparr>sb_len := sb_len s - n\<rparr>)"
    and "sb_data (s\<lparr>sb_len := sb_len s - n\<rparr>) = take (sb_len s - n) (sb_data s)"
  using assms by (auto simp: str_ok_def sb_data_def min_def split: option.splits)

lemma append_str_total:
  assumes "str_ok s" and "mem \<noteq> None"
  shows "\<exists>s'. str_append_str mem s src = Inr (0, s') \<and> str_ok s' \<and> sb_alloc s' \<noteq> None \<and> sb_data s' = sb_data s @ src"
proof -
  obtain ret s' where r: "str_append_str mem s src = Inr (ret, s')" and s': "0 \<le> ret \<Longrightarrow> ret = 0 \<and> str_ok s'
    \<and> sb_alloc s' \<noteq> None \<and> sb_data s' = sb_data s @ src \<and> sb_len s' = sb_len s + length src"
    using append_str_ok [OF assms(1)] by blast
  have "0 \<le> ret"
    using r assms(2) by (auto simp: str_append_str_def str_append_data_def str_append_size_def Let_def
        split: prod.splits sum.splits if_splits option.splits)
  then show ?thesis using r s' by auto
qed

lemma append_data_total:
  assumes "str_ok s" and "mem \<noteq> None" and "sb_alloc s \<noteq> None"
  shows "\<exists>s'. str_append_data mem s bs = Inr (0, s') \<and> str_ok s' \<and> sb_alloc s' \<noteq> None \<and> sb_data s' = sb_data s @ bs"
proof -
  obtain ret s' where r: "str_append_data mem s bs = Inr (ret, s')" and s': "0 \<le> ret \<Longrightarrow> ret = 0 \<and> str_ok s'
    \<and> sb_alloc s' \<noteq> None \<and> sb_data s' = sb_data s @ bs \<and> sb_len s' = sb_len s + length bs"
    using append_data_ok [OF assms(1)] assms(3) by blast
  have "0 \<le> ret"
    using r assms(2) by (auto simp: str_append_data_def str_append_size_def Let_def
        split: prod.splits sum.splits if_splits option.splits)
  then show ?thesis using r s' by auto
qed

text \<open>One replacement, when every allocation succeeds.\<close>

lemma replace_once:
  assumes ok: "str_ok s" and mem: "\<And>i. mem i \<noteq> None" and occ: "memmem (sb_data s) what = Some i"
    and what: "what \<noteq> []"
  shows "\<exists>s'. str_ok s' \<and> sb_data s' = take i (sb_data s) @ repl @ drop (i + length what) (sb_data s)
    \<and> str_replace_str (Suc fuel) mem s what repl = str_replace_str fuel mem s' what repl"
proof -
  note m = memmem_Some [OF occ]
  have "sb_data s \<noteq> []" using m what by auto
  then have al: "sb_alloc s \<noteq> None" by (auto simp: sb_data_def split: option.splits)
  let ?final = "drop (i + length what) (sb_data s)"
  let ?s1 = "s\<lparr>sb_len := sb_len s - (length ?final + length what)\<rparr>"
  have len: "sb_len s - (length ?final + length what) = i"
    using m length_sb_data [OF ok] by simp
  have s1: "str_ok ?s1" "sb_data ?s1 = take i (sb_data s)"
    using shrink_ok [OF ok al, of "length ?final + length what"] len by auto
  obtain s2 where 2: "str_append_str (mem (3 * fuel + 1)) ?s1 repl = Inr (0, s2)" "str_ok s2"
      "sb_alloc s2 \<noteq> None" "sb_data s2 = take i (sb_data s) @ repl"
    using append_str_total [OF s1(1) mem] s1(2) by metis
  obtain s3 where 3: "str_append_data (mem (3 * fuel + 2)) s2 ?final = Inr (0, s3)" "str_ok s3"
      "sb_data s3 = (take i (sb_data s) @ repl) @ ?final"
    using append_data_total [OF 2(2) mem 2(3)] 2(4) by metis
  obtain j where "mem (3 * fuel) = Some j" using mem by blast
  then have "str_replace_str (Suc fuel) mem s what repl = str_replace_str fuel mem s3 what repl"
    using occ 2(1) 3(1) by (simp add: Let_def)
  then show ?thesis using 3 by auto
qed

text \<open>
  When replacing \<open>what\<close> in \<open>r\<close>, behind the bytes \<open>d\<close> that are done, never makes it occur before the
  rest: neither in a replacement nor across one. \<open>n\<close> bounds the replacements.
\<close>

definition none_before :: "byte list \<Rightarrow> byte list \<Rightarrow> byte list \<Rightarrow> bool" where
  "none_before what d r \<longleftrightarrow> list_all (\<lambda>j. take (length what) (drop j (d @ r)) \<noteq> what) [0..<length d]"

fun no_return :: "nat \<Rightarrow> byte list \<Rightarrow> byte list \<Rightarrow> byte list \<Rightarrow> byte list \<Rightarrow> bool" where
  "no_return 0 what repl d r = True"
| "no_return (Suc n) what repl d r =
     (case memmem r what of
        None \<Rightarrow> True
      | Some i \<Rightarrow>
          none_before what (d @ take i r @ repl) (drop (i + length what) r)
          \<and> no_return n what repl (d @ take i r @ repl) (drop (i + length what) r))"

lemma none_before_memmem:
  "none_before what d r \<Longrightarrow> memmem (d @ r) what = map_option ((+) (length d)) (memmem r what)"
  by (rule memmem_append) (simp add: none_before_def list_all_iff)

lemma clean_none_before: "clean what d \<Longrightarrow> none_before what d r"
  by (simp add: clean_def none_before_def list_all_iff)

lemma split_occurrence: "memmem r what = Some i \<Longrightarrow> r = take i r @ what @ drop (i + length what) r"
  using memmem_Some [of r what i] by (metis append_take_drop_id drop_drop add.commute)

lemma replace_loop:
  assumes "\<And>i. mem i \<noteq> None" and "what \<noteq> []"
  shows "str_ok s \<Longrightarrow> sb_data s = d @ r \<Longrightarrow> none_before what d r \<Longrightarrow> no_return fuel what repl d r \<Longrightarrow>
    count_list r (hd what) < fuel \<Longrightarrow>
    \<exists>s'. str_replace_str fuel mem s what repl = Some (Inr (0, s')) \<and> str_ok s'
      \<and> sb_data s' = d @ replace_all fuel r what repl"
proof (induction fuel arbitrary: s d r)
  case (Suc fuel)
  note mm = none_before_memmem [OF Suc.prems(3)]
  show ?case
  proof (cases "memmem r what")
    case None
    then show ?thesis using Suc.prems mm by (simp add: replace_all_None)
  next
    case (Some i)
    note m = memmem_Some [OF Some]
    let ?d = "d @ take i r @ repl" and ?post = "drop (i + length what) r"
    note r = split_occurrence [OF Some]
    have occ: "memmem (sb_data s) what = Some (length d + i)" using mm Some Suc.prems(2) by simp
    obtain s' where s': "str_ok s'" "sb_data s' = ?d @ ?post"
      "str_replace_str (Suc fuel) mem s what repl = str_replace_str fuel mem s' what repl"
      using replace_once [where mem = mem and repl = repl and fuel = fuel, OF Suc.prems(1) assms(1) occ assms(2)]
        Suc.prems(2) m by auto
    have "none_before what ?d ?post" "no_return fuel what repl ?d ?post" using Suc.prems(4) Some by simp_all
    moreover have "count_list r (hd what)
        = count_list (take i r) (hd what) + (count_list what (hd what) + count_list ?post (hd what))"
      using r by (metis count_list_append)
    moreover have "0 < count_list what (hd what)" using assms(2) by (cases what) auto
    ultimately show ?thesis using Suc.IH [OF s'(1,2)] Suc.prems(5) s'(3) Some by simp
  qed
qed simp

text \<open>A replacement that shares no byte with the pattern does not bring it back.\<close>

lemma disjoint_no_return:
  assumes "what \<noteq> []" and "repl \<noteq> []" and "set what \<inter> set repl = {}"
  shows "clean what d \<Longrightarrow> no_return n what repl d r"
proof (induction n arbitrary: d r)
  case (Suc n d r)
  show ?case
  proof (cases "memmem r what")
    case (Some i)
    have "memmem (take i r @ what @ drop (i + length what) r) what = Some (length (take i r))"
      using Some split_occurrence [OF Some] memmem_Some [OF Some] by simp
    then have "clean what (d @ take i r @ repl)" by (rule clean_step [OF Suc.prems _ assms(2,1,3)])
    then show ?thesis using Suc.IH clean_none_before Some by simp
  qed simp
qed simp

lemma replace_disjoint:
  assumes "str_ok s" and "\<And>i. mem i \<noteq> None" and "what \<noteq> []" and "repl \<noteq> []" and "set what \<inter> set repl = {}"
    and "count_list (sb_data s) (hd what) < fuel"
  shows "\<exists>s'. str_replace_str fuel mem s what repl = Some (Inr (0, s')) \<and> str_ok s'
    \<and> sb_data s' = replace_all fuel (sb_data s) what repl"
proof -
  have "clean what []" by (simp add: clean_def)
  then have "none_before what [] (sb_data s)" "no_return fuel what repl [] (sb_data s)"
    using clean_none_before disjoint_no_return [OF assms(3-5)] by blast+
  then show ?thesis using replace_loop [OF assms(2,3,1), of "[]" "sb_data s"] assms(6) by simp
qed

lemma count_replace_all:
  "c \<notin> set repl \<Longrightarrow> count_list (replace_all n bs what repl) c \<le> count_list bs c"
proof (induction n arbitrary: bs)
  case (Suc n)
  show ?case
  proof (cases "memmem bs what")
    case (Some i)
    have "bs = take i bs @ take (length what) (drop i bs) @ drop (i + length what) bs"
      by (metis add.commute append_take_drop_id drop_drop)
    from arg_cong [OF this, of "\<lambda>l. count_list l c"]
    have "count_list (take i bs) c + count_list (drop (i + length what) bs) c \<le> count_list bs c"
      unfolding count_list_append by linarith
    moreover have "count_list repl c = 0" using Suc.prems by simp
    ultimately show ?thesis using Suc.IH [OF Suc.prems, of "drop (i + length what) bs"] Some by simp
  qed simp
qed simp

lemma memmem_here: "take (length what) bs = what \<Longrightarrow> memmem bs what = Some 0"
  by (cases bs) auto

lemma memmem_occurs: "memmem (a @ what @ b) what \<noteq> None"
  by (induction a) (auto simp: memmem_here)

section \<open>Properties\<close>

text \<open>
  C38: str_replace_str replaces every occurrence, from left to right. It searches from the start
  after each replacement, so the condition is that no replacement makes the pattern occur
  before the rest that is still to be searched, neither in the replacement nor across its ends;
  a replacement that shares no byte with the pattern meets it always, and \<open>Uwe\<close> for \<open>%U\<close> unless a \<open>%\<close>
  comes before. The pattern is not empty and allocations succeed. Then the function returns 0
  after at most one call for each byte and one more, with the bytes of the reference definition and
  without an access outside the buffer.
\<close>

theorem str_replace_correct:
  assumes "str_ok s" and "\<And>i. mem i \<noteq> None" and "what \<noteq> []"
    and "no_return fuel what repl [] (sb_data s)" and "length (sb_data s) < fuel"
  shows "\<exists>s'. str_replace_str fuel mem s what repl = Some (Inr (0, s')) \<and> str_ok s'
    \<and> sb_data s' = replace_all fuel (sb_data s) what repl"
proof -
  have "count_list (sb_data s) (hd what) < fuel"
    using count_le_length [of "sb_data s" "hd what"] assms(5) by linarith
  moreover have "none_before what [] (sb_data s)" by (simp add: none_before_def)
  ultimately show ?thesis using replace_loop [OF assms(2,3,1), of "[]" "sb_data s"] assms(4) by simp
qed

text \<open>
  A replacement that contains the pattern never ends: as long as memory lasts, no number of
  calls is enough.
\<close>

theorem str_replace_diverges:
  assumes "str_ok s" and "\<And>i. mem i \<noteq> None" and "what \<noteq> []" and "memmem (sb_data s) what \<noteq> None"
  shows "str_replace_str fuel mem s what (a @ what @ b) = None"
  using assms(1,4)
proof (induction fuel arbitrary: s)
  case (Suc fuel)
  then obtain i where i: "memmem (sb_data s) what = Some i" by blast
  obtain s' where s': "str_ok s'"
    "sb_data s' = (take i (sb_data s) @ a) @ what @ (b @ drop (i + length what) (sb_data s))"
    "str_replace_str (Suc fuel) mem s what (a @ what @ b) = str_replace_str fuel mem s' what (a @ what @ b)"
    using replace_once [where mem = mem and repl = "a @ what @ b" and fuel = fuel,
      OF Suc.prems(1) assms(2) i assms(3)]
    by (auto simp del: str_replace_str.simps)
  then show ?case using Suc.IH [OF s'(1)] memmem_occurs by (metis (no_types))
qed simp

text \<open>
  Appending to a buffer that is well formed and holds an allocation or takes at least one
  byte never touches memory outside the allocation, and it leaves the old bytes followed by
  the new ones.
\<close>

lemma str_append_data_safe:
  assumes "str_ok s" and "bs \<noteq> [] \<or> sb_alloc s \<noteq> None"
  shows "\<exists>ret s'. str_append_data mem s bs = Inr (ret, s')
    \<and> (0 \<le> ret \<longrightarrow> str_ok s' \<and> sb_data s' = sb_data s @ bs)"
  using append_data_ok [OF assms, of mem] by auto

text \<open>A buffer that holds the bytes \<open>a%Rb\<close>, the pattern \<open>%R\<close> and the replacement \<open>Rw\<close>, which shares a byte with it.\<close>

definition example_buf :: str_st where
  "example_buf = \<lparr>sb_alloc = Some [97, 37, 82, 98, 0], sb_off = 0, sb_max = 4, sb_len = 4\<rparr>"

lemma example_buf_ok: "str_ok example_buf" "sb_data example_buf = [97, 37, 82, 98]"
  by (simp_all add: example_buf_def str_ok_def sb_data_def)

theorem str_replace_correct_witness:
  "\<exists>s'. str_replace_str 5 (\<lambda>_. Some 0) example_buf [37, 82] [82, 119] = Some (Inr (0, s'))
    \<and> sb_data s' = [97, 82, 119, 98]"
proof -
  have "replace_all 5 [97, 37, 82, 98] [37, 82] [82, 119] = [97, 82, 119, 98]"
    and "no_return 5 [37, 82] [82, 119] [] [97, 37, 82, 98]" by code_simp+
  then show ?thesis
    using str_replace_correct [OF example_buf_ok(1), of "\<lambda>_. Some 0" "[37, 82]" 5 "[82, 119]"]
    by (simp add: example_buf_ok(2) del: str_replace_str.simps replace_all.simps no_return.simps) blast
qed

theorem str_replace_diverges_witness:
  "str_replace_str 1000 (\<lambda>_. Some 0) example_buf [37, 82] ([] @ [37, 82] @ [49]) = None"
  by (rule str_replace_diverges [OF example_buf_ok(1)]) (simp_all add: example_buf_ok(2))

end
