(* ===== verification/Routes.thy ===== *)
theory Routes
  imports StrBuf
begin

text \<open>
  The commands that add and remove a client's routes, src/route-add.c. What \<open>system\<close> returns
  for a command is a parameter; the commands that were run are part of the result.
\<close>

unbundle bit_operations_syntax

text \<open>The strings \<open>%{R}\<close>, \<open>%{D}\<close>, \<open>%R\<close> and \<open>%D\<close>.\<close>

definition PAT_ROUTE :: "byte list" where "PAT_ROUTE = [37, 123, 82, 125]"
definition PAT_DEV :: "byte list" where "PAT_DEV = [37, 123, 68, 125]"
definition PAT_ROUTE_OLD :: "byte list" where "PAT_ROUTE_OLD = [37, 82]"
definition PAT_DEV_OLD :: "byte list" where "PAT_DEV_OLD = [37, 68]"

lemmas route_pats = PAT_ROUTE_def PAT_DEV_def PAT_ROUTE_OLD_def PAT_DEV_OLD_def

text \<open>One call of str_replace_str and the jump to \<open>fail\<close>: None is a call that never ends.\<close>

type_synonym str_result = "(mem_error + int \<times> str_st) option"

definition then_replace ::
  "nat \<Rightarrow> (nat \<Rightarrow> byte option) \<Rightarrow> str_result \<Rightarrow> byte list \<Rightarrow> byte list \<Rightarrow> str_result" where
  "then_replace fuel mem r what repl =
     (case r of
        Some (Inr (ret, s)) \<Rightarrow> if ret < 0 then r else str_replace_str fuel mem s what repl
      | _ \<Rightarrow> r)"

definition replace_cmd ::
  "nat \<Rightarrow> (nat \<Rightarrow> nat \<Rightarrow> byte option) \<Rightarrow> byte list \<Rightarrow> byte list \<Rightarrow> byte list
    \<Rightarrow> (mem_error + int \<times> byte list) option" where
  "replace_cmd fuel mem pattern route dev =
     (let r0 = Some (str_append_str (mem 0 0) str_init pattern);
          r1 = then_replace fuel (mem 1) r0 PAT_ROUTE route;
          r2 = then_replace fuel (mem 2) r1 PAT_DEV dev;
          r3 = then_replace fuel (mem 3) r2 PAT_ROUTE_OLD route;
          r4 = then_replace fuel (mem 4) r3 PAT_DEV_OLD dev
      in case r4 of
           None \<Rightarrow> None
         | Some (Inl err) \<Rightarrow> Some (Inl err)
         | Some (Inr (ret, s)) \<Rightarrow> Some (Inr (if ret < 0 then (ERR_MEM, []) else (0, sb_data s))))"

text \<open>The wait status that \<open>system\<close> returns.\<close>

definition WEXITSTATUS :: "int \<Rightarrow> int" where "WEXITSTATUS status = (status div 256) mod 256"
definition WIFEXITED :: "int \<Rightarrow> bool" where "WIFEXITED status \<longleftrightarrow> status mod 128 = 0"

record route_env =
  rt_fuel :: nat
  rt_mem :: "nat \<Rightarrow> nat \<Rightarrow> byte option"
  rt_system :: "byte list \<Rightarrow> int"
  rt_add_cmd :: "byte list option"
  rt_del_cmd :: "byte list option"

text \<open>The return value and the command that was run, if one was.\<close>

type_synonym route_result = "(mem_error + int \<times> byte list list) option"

definition route_adddel :: "route_env \<Rightarrow> byte list option \<Rightarrow> byte list \<Rightarrow> byte list \<Rightarrow> route_result" where
  "route_adddel env pattern route dev =
     (case pattern of
        None \<Rightarrow> Some (Inr (0, []))
      | Some pat \<Rightarrow>
          (case replace_cmd (rt_fuel env) (rt_mem env) pat route dev of
             None \<Rightarrow> None
           | Some (Inl err) \<Rightarrow> Some (Inl err)
           | Some (Inr (ret, cmd)) \<Rightarrow>
               if ret < 0 then Some (Inr (ret, []))
               else
                 let st = rt_system env cmd in
                 Some (Inr (if st = -1 then ERR_EXEC else if \<not> WIFEXITED st then ERR_EXEC
                            else if WEXITSTATUS st \<noteq> 0 then ERR_EXEC else 0, [cmd]))))"

definition route_add :: "route_env \<Rightarrow> byte list \<Rightarrow> byte list \<Rightarrow> route_result" where
  "route_add env route dev = route_adddel env (rt_add_cmd env) route dev"

definition route_del :: "route_env \<Rightarrow> byte list \<Rightarrow> byte list \<Rightarrow> route_result" where
  "route_del env route dev = route_adddel env (rt_del_cmd env) route dev"

text \<open>Removing a list of routes: the results are not looked at.\<close>

fun del_routes :: "route_env \<Rightarrow> byte list list \<Rightarrow> byte list \<Rightarrow> route_result" where
  "del_routes env [] dev = Some (Inr (0, []))"
| "del_routes env (r # rs) dev =
     (case route_del env r dev of
        Some (Inr (ret, cs)) \<Rightarrow>
          (case del_routes env rs dev of
             Some (Inr (ret', cs')) \<Rightarrow> Some (Inr (ret', cs @ cs'))
           | x \<Rightarrow> x)
      | x \<Rightarrow> x)"

text \<open>The loop of apply_iroutes; \<open>done\<close> are the routes that are in.\<close>

fun add_routes :: "route_env \<Rightarrow> byte list list \<Rightarrow> byte list list \<Rightarrow> byte list \<Rightarrow> route_result" where
  "add_routes env done' [] dev = Some (Inr (0, []))"
| "add_routes env done' (r # rs) dev =
     (case route_add env r dev of
        Some (Inr (ret, cs)) \<Rightarrow>
          if ret < 0 then
            (case del_routes env done' dev of
               Some (Inr (ret', cs')) \<Rightarrow> Some (Inr (-1, cs @ cs'))
             | x \<Rightarrow> x)
          else
            (case add_routes env (done' @ [r]) rs dev of
               Some (Inr (ret', cs')) \<Rightarrow> Some (Inr (ret', cs @ cs'))
             | x \<Rightarrow> x)
      | x \<Rightarrow> x)"

text \<open>The new value of applied_iroutes and the commands that were run.\<close>

definition apply_iroutes ::
  "route_env \<Rightarrow> byte list list \<Rightarrow> byte list \<Rightarrow> bool \<Rightarrow> (mem_error + bool \<times> byte list list) option" where
  "apply_iroutes env routes dev applied =
     (if routes = [] then Some (Inr (applied, []))
      else (case add_routes env [] routes dev of
              None \<Rightarrow> None
            | Some (Inl err) \<Rightarrow> Some (Inl err)
            | Some (Inr (ret, cs)) \<Rightarrow> Some (Inr (if ret < 0 then applied else True, cs))))"

definition remove_iroutes ::
  "route_env \<Rightarrow> byte list list \<Rightarrow> byte list \<Rightarrow> bool \<Rightarrow> (mem_error + bool \<times> byte list list) option" where
  "remove_iroutes env routes dev applied =
     (if routes = [] \<or> \<not> applied then Some (Inr (applied, []))
      else (case del_routes env routes dev of
              None \<Rightarrow> None
            | Some (Inl err) \<Rightarrow> Some (Inl err)
            | Some (Inr (ret, cs)) \<Rightarrow> Some (Inr (False, cs))))"

section \<open>The command line\<close>

text \<open>What the configuration means: the four placeholders, one after the other.\<close>

definition cmd_of :: "nat \<Rightarrow> byte list \<Rightarrow> byte list \<Rightarrow> byte list \<Rightarrow> byte list" where
  "cmd_of n pattern route dev =
     replace_all n (replace_all n (replace_all n (replace_all n pattern PAT_ROUTE route) PAT_DEV dev)
       PAT_ROUTE_OLD route) PAT_DEV_OLD dev"

text \<open>No byte of the placeholders: what routes and device names look like.\<close>

definition plain :: "byte list \<Rightarrow> bool" where
  "plain bs \<longleftrightarrow> bs \<noteq> [] \<and> set bs \<inter> {37, 123, 125, 82, 68} = {}"

lemma plain_disjoint:
  "plain bs \<Longrightarrow> set PAT_ROUTE \<inter> set bs = {} \<and> set PAT_DEV \<inter> set bs = {}
    \<and> set PAT_ROUTE_OLD \<inter> set bs = {} \<and> set PAT_DEV_OLD \<inter> set bs = {}"
  by (auto simp: plain_def route_pats)

lemma then_replace_step:
  assumes "str_ok s" and "\<And>i. mem i \<noteq> None" and "what \<noteq> []" and "plain repl" and "set what \<inter> set repl = {}"
    and "hd what = 37" and "count_list (sb_data s) 37 < fuel"
  shows "\<exists>s'. then_replace fuel mem (Some (Inr (0, s))) what repl = Some (Inr (0, s')) \<and> str_ok s'
    \<and> sb_data s' = replace_all fuel (sb_data s) what repl \<and> count_list (sb_data s') 37 < fuel"
  using replace_disjoint [of s mem what repl fuel] assms
    count_replace_all [of 37 repl fuel "sb_data s" what]
  by (auto simp: then_replace_def plain_def)

lemma pats_nonempty: "PAT_ROUTE \<noteq> []" "PAT_DEV \<noteq> []" "PAT_ROUTE_OLD \<noteq> []" "PAT_DEV_OLD \<noteq> []"
  and pats_hd: "hd PAT_ROUTE = 37" "hd PAT_DEV = 37" "hd PAT_ROUTE_OLD = 37" "hd PAT_DEV_OLD = 37"
  by (simp_all add: route_pats)

text \<open>
  For a route and a device name without the bytes of the placeholders the command that is
  run is the configured one with the four placeholders replaced; one call of the replacement
  for each percent sign is enough.
\<close>

lemma replace_cmd_correct:
  assumes mem: "\<And>i j. mem i j \<noteq> None" and "plain route" and "plain dev" and "count_list pattern 37 < fuel"
  shows "replace_cmd fuel mem pattern route dev = Some (Inr (0, cmd_of fuel pattern route dev))"
proof -
  note dis = plain_disjoint [OF assms(2)] plain_disjoint [OF assms(3)]
  have m: "mem j i \<noteq> None" for i j by (rule mem)
  obtain s0 where 0: "str_append_str (mem 0 0) str_init pattern = Inr (0, s0)" "str_ok s0" "sb_data s0 = pattern"
    using append_str_total [OF str_ok_init mem, of 0 0 pattern] by (auto simp: str_init_def sb_data_def)
  obtain s1 where 1: "then_replace fuel (mem 1) (Some (Inr (0, s0))) PAT_ROUTE route = Some (Inr (0, s1))"
    "str_ok s1" "sb_data s1 = replace_all fuel pattern PAT_ROUTE route" "count_list (sb_data s1) 37 < fuel"
    using then_replace_step [where mem = "mem 1", OF 0(2) m pats_nonempty(1) assms(2) _ pats_hd(1), of fuel] dis 0(3) assms(4) by auto
  obtain s2 where 2: "then_replace fuel (mem 2) (Some (Inr (0, s1))) PAT_DEV dev = Some (Inr (0, s2))"
    "str_ok s2" "sb_data s2 = replace_all fuel (sb_data s1) PAT_DEV dev" "count_list (sb_data s2) 37 < fuel"
    using then_replace_step [where mem = "mem 2", OF 1(2) m pats_nonempty(2) assms(3) _ pats_hd(2) 1(4)] dis by auto
  obtain s3 where 3: "then_replace fuel (mem 3) (Some (Inr (0, s2))) PAT_ROUTE_OLD route = Some (Inr (0, s3))"
    "str_ok s3" "sb_data s3 = replace_all fuel (sb_data s2) PAT_ROUTE_OLD route" "count_list (sb_data s3) 37 < fuel"
    using then_replace_step [where mem = "mem 3", OF 2(2) m pats_nonempty(3) assms(2) _ pats_hd(3) 2(4)] dis by auto
  obtain s4 where 4: "then_replace fuel (mem 4) (Some (Inr (0, s3))) PAT_DEV_OLD dev = Some (Inr (0, s4))"
    "sb_data s4 = replace_all fuel (sb_data s3) PAT_DEV_OLD dev"
    using then_replace_step [where mem = "mem 4", OF 3(2) m pats_nonempty(4) assms(3) _ pats_hd(4) 3(4)] dis by auto
  show ?thesis using 0 1 2 3 4 by (simp add: replace_cmd_def cmd_of_def)
qed

section \<open>The routes of a client\<close>

text \<open>Routes and configuration for which every command line is well defined.\<close>

definition routes_ok :: "route_env \<Rightarrow> byte list list \<Rightarrow> byte list \<Rightarrow> bool" where
  "routes_ok env routes dev \<longleftrightarrow> (\<forall>i j. rt_mem env i j \<noteq> None) \<and> plain dev \<and> list_all plain routes
     \<and> (\<forall>c \<in> set_option (rt_add_cmd env) \<union> set_option (rt_del_cmd env). count_list c 37 < rt_fuel env)"

definition add_line :: "route_env \<Rightarrow> byte list \<Rightarrow> byte list \<Rightarrow> byte list" where
  "add_line env dev r = (case rt_add_cmd env of None \<Rightarrow> [] | Some c \<Rightarrow> cmd_of (rt_fuel env) c r dev)"

definition del_line :: "route_env \<Rightarrow> byte list \<Rightarrow> byte list \<Rightarrow> byte list" where
  "del_line env dev r = (case rt_del_cmd env of None \<Rightarrow> [] | Some c \<Rightarrow> cmd_of (rt_fuel env) c r dev)"

definition cmd_fine :: "route_env \<Rightarrow> byte list \<Rightarrow> bool" where
  "cmd_fine env cmd \<longleftrightarrow> rt_system env cmd \<noteq> -1 \<and> WIFEXITED (rt_system env cmd)
     \<and> WEXITSTATUS (rt_system env cmd) = 0"

lemma route_add_ok:
  assumes "routes_ok env (r # rs) dev" and "rt_add_cmd env \<noteq> None"
  shows "\<exists>ret. route_add env r dev = Some (Inr (ret, [add_line env dev r]))
    \<and> (ret < 0 \<longleftrightarrow> \<not> cmd_fine env (add_line env dev r))"
proof -
  obtain c where c: "rt_add_cmd env = Some c" using assms(2) by blast
  then have "replace_cmd (rt_fuel env) (rt_mem env) c r dev = Some (Inr (0, cmd_of (rt_fuel env) c r dev))"
    using assms(1) by (intro replace_cmd_correct) (simp_all add: routes_ok_def)
  then show ?thesis
    by (simp add: route_add_def route_adddel_def c add_line_def cmd_fine_def Let_def err_codes)
qed

lemma del_routes_ok:
  assumes "rt_del_cmd env \<noteq> None"
  shows "routes_ok env rs dev \<Longrightarrow> del_routes env rs dev = Some (Inr (0, map (del_line env dev) rs))"
proof (induction rs)
  case (Cons r rs)
  obtain c where c: "rt_del_cmd env = Some c" using assms by blast
  then have "replace_cmd (rt_fuel env) (rt_mem env) c r dev = Some (Inr (0, cmd_of (rt_fuel env) c r dev))"
    using Cons.prems by (intro replace_cmd_correct) (simp_all add: routes_ok_def)
  moreover have "routes_ok env rs dev" using Cons.prems by (simp add: routes_ok_def)
  ultimately show ?case
    using Cons.IH by (simp add: route_del_def route_adddel_def c del_line_def Let_def)
qed simp

lemma routes_ok_Cons: "routes_ok env (r # rs) dev \<longleftrightarrow> plain r \<and> routes_ok env rs dev"
  and routes_ok_append: "routes_ok env (rs @ rs') dev \<longleftrightarrow> routes_ok env rs dev \<and> routes_ok env rs' dev"
  by (auto simp: routes_ok_def)

lemma add_routes_ok:
  assumes cmds: "rt_add_cmd env \<noteq> None" "rt_del_cmd env \<noteq> None" and ok: "routes_ok env (done' @ rs) dev"
  shows "add_routes env done' rs dev = Some (Inr
    (let n = length (takeWhile (\<lambda>r. cmd_fine env (add_line env dev r)) rs)
     in if n = length rs then (0, map (add_line env dev) rs)
        else (-1, map (add_line env dev) (take (n + 1) rs)
                  @ map (del_line env dev) (done' @ take n rs))))"
  using ok
proof (induction rs arbitrary: done')
  case (Cons r rs)
  have rs: "routes_ok env (r # rs) dev" "routes_ok env done' dev"
    using Cons.prems by (auto simp: routes_ok_append)
  obtain ret where a: "route_add env r dev = Some (Inr (ret, [add_line env dev r]))"
    "ret < 0 \<longleftrightarrow> \<not> cmd_fine env (add_line env dev r)"
    using route_add_ok [OF rs(1) cmds(1)] by blast
  show ?case
  proof (cases "cmd_fine env (add_line env dev r)")
    case True
    have "routes_ok env ((done' @ [r]) @ rs) dev" using Cons.prems by simp
    from Cons.IH [OF this] show ?thesis using a True by (simp add: Let_def)
  next
    case False
    then show ?thesis using a del_routes_ok [OF cmds(2) rs(2)] by simp
  qed
qed simp

text \<open>
  C39: Applying a client's routes runs one command for each route until one fails. When all of
  them succeed they are marked as applied and removing them runs one removal for each; when
  one fails, the removal is run for exactly those that were added before it, in their order,
  and nothing is marked.
\<close>

theorem iroutes_balanced:
  assumes "rt_add_cmd env \<noteq> None" and "rt_del_cmd env \<noteq> None" and "routes_ok env routes dev"
    and "routes \<noteq> []" and "n = length (takeWhile (\<lambda>r. cmd_fine env (add_line env dev r)) routes)"
  shows "if n = length routes
    then apply_iroutes env routes dev False = Some (Inr (True, map (add_line env dev) routes))
      \<and> remove_iroutes env routes dev True = Some (Inr (False, map (del_line env dev) routes))
    else apply_iroutes env routes dev False = Some (Inr (False,
        map (add_line env dev) (take (n + 1) routes) @ map (del_line env dev) (take n routes)))
      \<and> remove_iroutes env routes dev False = Some (Inr (False, []))"
  using assms add_routes_ok [OF assms(1,2), of "[]" routes dev] del_routes_ok [OF assms(2,3)]
  by (simp add: apply_iroutes_def remove_iroutes_def Let_def)

text \<open>The commands \<open>a%R\<close> and \<open>d%{R}\<close>; the command for the route \<open>2\<close> fails.\<close>

definition example_route_env :: route_env where
  "example_route_env = \<lparr>rt_fuel = 3, rt_mem = (\<lambda>_ _. Some 0),
     rt_system = (\<lambda>c. if c = [97, 50] then 256 else 0),
     rt_add_cmd = Some [97, 37, 82], rt_del_cmd = Some [100, 37, 123, 82, 125]\<rparr>"

lemma example_cmds:
  "cmd_of 3 [97, 37, 82] [49] [118] = [97, 49]" "cmd_of 3 [97, 37, 82] [50] [118] = [97, 50]"
  "cmd_of 3 [100, 37, 123, 82, 125] [49] [118] = [100, 49]"
  by code_simp+

lemma replace_cmd_example:
  "replace_cmd 3 (\<lambda>_ _. Some 0) [97, 37, 82] [49] [118] = Some (Inr (0, [97, 49]))"
proof -
  have "replace_cmd 3 (\<lambda>_ _. Some 0) [97, 37, 82] [49] [118] = Some (Inr (0, cmd_of 3 [97, 37, 82] [49] [118]))"
    by (rule replace_cmd_correct) (simp_all add: plain_def)
  then show ?thesis by (simp only: example_cmds)
qed

theorem iroutes_balanced_witness:
  "apply_iroutes example_route_env [[49], [50]] [118] False =
     Some (Inr (False, [[97, 49], [97, 50], [100, 49]]))"
proof -
  have lines: "add_line example_route_env [118] [49] = [97, 49]" "add_line example_route_env [118] [50] = [97, 50]"
    "del_line example_route_env [118] [49] = [100, 49]"
    using example_cmds by (simp_all add: add_line_def del_line_def example_route_env_def)
  have fine: "cmd_fine example_route_env [97, 49]" "\<not> cmd_fine example_route_env [97, 50]"
    by (simp_all add: cmd_fine_def example_route_env_def WIFEXITED_def WEXITSTATUS_def)
  have "routes_ok example_route_env [[49], [50]] [118]"
    by (simp add: routes_ok_def example_route_env_def plain_def)
  from iroutes_balanced [OF _ _ this _ refl] show ?thesis
    using lines fine by (simp add: example_route_env_def [THEN arg_cong [where f = rt_add_cmd]]
        example_route_env_def [THEN arg_cong [where f = rt_del_cmd]])
qed

end
