(* ===== verification/HttpHeads.thy ===== *)
theory HttpHeads
  imports Prelude
begin

text \<open>
  Recognition of the HTTP headers the worker reads: the perfect hash of src/http-heads.h and the
  header numbers of src/worker.h, with the keyword list of src/http-heads.gperf as reference.
\<close>

datatype header_id =
  HEADER_COOKIE | HEADER_MASTER_SECRET | HEADER_HOSTNAME | HEADER_CSTP_BASE_MTU | HEADER_CSTP_ATYPE
| HEADER_DEVICE_TYPE | HEADER_DTLS_CIPHERSUITE | HEADER_CONNECTION | HEADER_FULL_IPV6
| HEADER_USER_AGENT | HEADER_CSTP_ENCODING | HEADER_DTLS_ENCODING | HEADER_SUPPORT_SPNEGO
| HEADER_AUTHORIZATION

definition MIN_WORD_LENGTH :: nat where "MIN_WORD_LENGTH = 6"
definition MAX_WORD_LENGTH :: nat where "MAX_WORD_LENGTH = 34"
definition MAX_HASH_VALUE :: nat where "MAX_HASH_VALUE = 35"

definition asso_values :: "nat list" where
  "asso_values = [
     36, 36, 36, 36, 36, 36, 36, 36, 36, 36, 36, 36, 36, 36, 36, 36,
     36, 36, 36, 36, 36, 36, 36, 36, 36, 36, 36, 36, 36, 36, 36, 36,
     36, 36, 36, 36, 36, 36, 36, 36, 36, 36, 36, 36, 36, 36, 36, 36,
     36, 36, 36, 36, 36, 36, 36, 36, 36, 36, 36, 36, 36, 36, 36, 36,
     36, 0, 15, 5, 0, 36, 0, 36, 10, 36, 36, 36, 36, 5, 36, 36,
     36, 36, 36, 0, 36, 36, 36, 36, 36, 36, 36, 36, 36, 36, 36, 36,
     36, 36, 36, 36, 36, 5, 36, 36, 36, 0, 36, 36, 36, 36, 0, 0,
     36, 36, 0, 36, 0, 36, 36, 36, 36, 36, 0, 36, 36, 36, 36, 36,
     36, 36, 36, 36, 36, 36, 36, 36, 36, 36, 36, 36, 36, 36, 36, 36,
     36, 36, 36, 36, 36, 36, 36, 36, 36, 36, 36, 36, 36, 36, 36, 36,
     36, 36, 36, 36, 36, 36, 36, 36, 36, 36, 36, 36, 36, 36, 36, 36,
     36, 36, 36, 36, 36, 36, 36, 36, 36, 36, 36, 36, 36, 36, 36, 36,
     36, 36, 36, 36, 36, 36, 36, 36, 36, 36, 36, 36, 36, 36, 36, 36,
     36, 36, 36, 36, 36, 36, 36, 36, 36, 36, 36, 36, 36, 36, 36, 36,
     36, 36, 36, 36, 36, 36, 36, 36, 36, 36, 36, 36, 36, 36, 36, 36,
     36, 36, 36, 36, 36, 36, 36, 36, 36, 36, 36, 36, 36, 36, 36, 36]"

definition wordlist :: "(string \<times> header_id option) list" where
  "wordlist =
    [('''', None),
     ('''', None),
     ('''', None),
     ('''', None),
     ('''', None),
     ('''', None),
     (''Cookie'', Some HEADER_COOKIE),
     ('''', None),
     ('''', None),
     ('''', None),
     (''Connection'', Some HEADER_CONNECTION),
     ('''', None),
     ('''', None),
     (''Authorization'', Some HEADER_AUTHORIZATION),
     ('''', None),
     ('''', None),
     ('''', None),
     ('''', None),
     ('''', None),
     (''X-Support-HTTP-Auth'', Some HEADER_SUPPORT_SPNEGO),
     (''User-Agent'', Some HEADER_USER_AGENT),
     ('''', None),
     (''X-DTLS-Accept-Encoding'', Some HEADER_DTLS_ENCODING),
     (''X-DTLS-CipherSuite'', Some HEADER_DTLS_CIPHERSUITE),
     (''X-CSTP-Address-Type'', Some HEADER_CSTP_ATYPE),
     (''X-DTLS-Master-Secret'', Some HEADER_MASTER_SECRET),
     ('''', None),
     (''X-CSTP-Accept-Encoding'', Some HEADER_CSTP_ENCODING),
     ('''', None),
     ('''', None),
     (''X-CSTP-Hostname'', Some HEADER_HOSTNAME),
     ('''', None),
     (''X-CSTP-Full-IPv6-Capability'', Some HEADER_FULL_IPV6),
     ('''', None),
     (''X-AnyConnect-Identifier-DeviceType'', Some HEADER_DEVICE_TYPE),
     (''X-CSTP-Base-MTU'', Some HEADER_CSTP_BASE_MTU)]"

text \<open>
  \<open>hash\<close> reads the eighth byte unless the length is 3 to 7, then the third. The string is
  followed by a NUL.
\<close>

definition asso_at :: "string \<Rightarrow> nat \<Rightarrow> nat" where
  "asso_at str i = asso_values ! of_char (char_at str i)"

definition hash :: "string \<Rightarrow> nat \<Rightarrow> nat" where
  "hash str len = len + (if 3 \<le> len \<and> len \<le> 7 then 0 else asso_at str 7) + asso_at str 2"

definition in_word_set :: "string \<Rightarrow> nat \<Rightarrow> header_id option" where
  "in_word_set str len =
     (if len \<le> MAX_WORD_LENGTH \<and> MIN_WORD_LENGTH \<le> len then
        let key = hash str len in
        if key \<le> MAX_HASH_VALUE then
          (case wordlist ! key of (s, hid) \<Rightarrow>
             if char_at str 0 = char_at s 0 \<and> c_string (drop 1 str) = drop 1 s then hid else None)
        else None
      else None)"

section \<open>The keyword list\<close>

definition http_headers :: "(string \<times> header_id) list" where
  "http_headers = [
     (''Cookie'', HEADER_COOKIE), (''User-Agent'', HEADER_USER_AGENT),
     (''X-CSTP-Accept-Encoding'', HEADER_CSTP_ENCODING), (''X-DTLS-Accept-Encoding'', HEADER_DTLS_ENCODING),
     (''Connection'', HEADER_CONNECTION), (''X-DTLS-Master-Secret'', HEADER_MASTER_SECRET),
     (''X-DTLS-CipherSuite'', HEADER_DTLS_CIPHERSUITE), (''X-CSTP-Base-MTU'', HEADER_CSTP_BASE_MTU),
     (''X-CSTP-Address-Type'', HEADER_CSTP_ATYPE), (''X-CSTP-Hostname'', HEADER_HOSTNAME),
     (''X-CSTP-Full-IPv6-Capability'', HEADER_FULL_IPV6),
     (''X-AnyConnect-Identifier-DeviceType'', HEADER_DEVICE_TYPE),
     (''X-Support-HTTP-Auth'', HEADER_SUPPORT_SPNEGO), (''Authorization'', HEADER_AUTHORIZATION)]"

text \<open>Every keyword is found where the hash says, and the table holds nothing else.\<close>

lemma keywords_hashed:
  "list_all (\<lambda>(s, hid). in_word_set s (length s) = Some hid) http_headers"
  by code_simp

lemma wordlist_keywords:
  "list_all (\<lambda>(s, hid). case hid of None \<Rightarrow> s = [] | Some h \<Rightarrow> map_of http_headers s = Some h) wordlist"
  by code_simp

lemma length_wordlist: "length wordlist = 36"
  by code_simp

text \<open>
  The generated perfect hash recognises exactly the keywords: for a header name without NUL
  bytes it gives the number that the keyword list gives, and nothing for any other name.
\<close>

theorem in_word_set_correct:
  assumes "NUL \<notin> set str"
  shows "in_word_set str (length str) = map_of http_headers str"
proof (cases "map_of http_headers str")
  case (Some h)
  then have "(str, h) \<in> set http_headers" by (rule map_of_SomeD)
  then show ?thesis using keywords_hashed Some by (auto simp: list_all_iff)
next
  case None
  have "in_word_set str (length str) = None"
  proof (rule ccontr)
    assume "in_word_set str (length str) \<noteq> None"
    then obtain h where h: "in_word_set str (length str) = Some h" by blast
    define key where "key = hash str (length str)"
    obtain s hid where e: "wordlist ! key = (s, hid)" by fastforce
    have "NUL \<notin> set (drop 1 str)" using assms in_set_dropD by fast
    then have tail: "c_string (drop 1 str) = drop 1 str" by (rule c_string_id)
    have found: "key \<le> MAX_HASH_VALUE" "hid = Some h" "char_at str 0 = char_at s 0" "drop 1 str = drop 1 s"
      "6 \<le> length str"
      using h e tail
      by (auto simp: in_word_set_def key_def MIN_WORD_LENGTH_def Let_def split: if_splits)
    then have "(s, hid) \<in> set wordlist"
      using e length_wordlist nth_mem [of key wordlist] by (simp add: MAX_HASH_VALUE_def)
    then have s: "map_of http_headers s = Some h"
      using wordlist_keywords found(2) by (auto simp: list_all_iff)
    have "str = s"
    proof -
      obtain a as where "str = a # as" using found(5) by (cases str) auto
      moreover have "s \<noteq> []" using found(4,5) by (cases s) auto
      ultimately show ?thesis using found(3,4) by (cases s) (auto simp: char_at_def)
    qed
    then show False using s None by simp
  qed
  then show ?thesis using None by simp
qed

theorem in_word_set_correct_witness:
  "in_word_set ''User-Agent'' (length ''User-Agent'') = Some HEADER_USER_AGENT
    \<and> in_word_set ''user-agent'' (length ''user-agent'') = None"
  using in_word_set_correct [of "''User-Agent''"] in_word_set_correct [of "''user-agent''"]
  by (simp add: http_headers_def)

end
