(* ===== verification/HttpReq.thy ===== *)
theory HttpReq
  imports HttpHeads StrBuf
begin

text \<open>
  What a worker makes of an HTTP request, src/worker-http.c: the callbacks of the parser, the
  meaning of each header, and the handler of a URL; with the choice of an authentication
  method of src/worker-auth.c. Base64 and hex decoding, the ciphersuite of the TLS session and
  allocations are parameters.
\<close>

unbundle bit_operations_syntax

section \<open>C strings\<close>

definition to_lower :: "char \<Rightarrow> char" where
  "to_lower c = (let n = of_char c :: nat in if 65 \<le> n \<and> n \<le> 90 then char_of (n + 32) else c)"

definition c_isspace :: "char \<Rightarrow> bool" where
  "c_isspace c \<longleftrightarrow> (let n = of_char c :: nat in n = 32 \<or> 9 \<le> n \<and> n \<le> 13)"

definition has_prefix :: "string \<Rightarrow> string \<Rightarrow> bool" where
  "has_prefix w s \<longleftrightarrow> take (length w) s = w"

fun str_contains :: "string \<Rightarrow> string \<Rightarrow> bool" where
  "str_contains [] w \<longleftrightarrow> w = []"
| "str_contains (c # cs) w \<longleftrightarrow> has_prefix w (c # cs) \<or> str_contains cs w"

text \<open>All the tokens strtok gives, with one delimiter; \<open>acc\<close> is the token being read.\<close>

fun strtok_all :: "char \<Rightarrow> string \<Rightarrow> string \<Rightarrow> string list" where
  "strtok_all d acc [] = (if acc = [] then [] else [rev acc])"
| "strtok_all d acc (c # cs) =
     (if c = d then (if acc = [] then strtok_all d [] cs else rev acc # strtok_all d [] cs)
      else strtok_all d (c # acc) cs)"

text \<open>\<open>while (tmplen > 1 && c_isspace(p[tmplen - 1])) tmplen--\<close>, on the reversed string.\<close>

fun drop_trailing :: "string \<Rightarrow> string" where
  "drop_trailing (c # d # cs) = (if c_isspace c then drop_trailing (d # cs) else c # d # cs)"
| "drop_trailing cs = cs"

definition trim_end :: "string \<Rightarrow> string" where
  "trim_end s = rev (drop_trailing (rev s))"

definition is_digit :: "char \<Rightarrow> bool" where
  "is_digit c \<longleftrightarrow> (let n = of_char c :: nat in 48 \<le> n \<and> n \<le> 57)"

definition digits_value :: "string \<Rightarrow> int" where
  "digits_value s = foldl (\<lambda>v c. 10 * v + (of_char c - 48)) 0 (takeWhile is_digit s)"

text \<open>atoi as strtol narrowed to int; strtol stays within the range of a 64-bit long.\<close>

definition atoi :: "string \<Rightarrow> u32" where
  "atoi s =
     (let t = dropWhile c_isspace s;
          v = (case t of
                 [] \<Rightarrow> 0
               | c # cs \<Rightarrow> if c = CHR ''-'' then - digits_value cs
                            else if c = CHR ''+'' then digits_value cs else digits_value t)
      in word_of_int (max (- (2 ^ 63)) (min (2 ^ 63 - 1) v)))"

section \<open>Types\<close>

datatype gnutls_cipher = CIPHER_AES_128_GCM | CIPHER_AES_256_GCM | CIPHER_AES_128_CBC | CIPHER_3DES_CBC
  | CIPHER_OTHER nat
datatype gnutls_mac = MAC_AEAD | MAC_SHA1 | MAC_OTHER nat

record dtls_suite =
  ds_oc_name :: string
  ds_prio :: nat
  ds_cipher :: gnutls_cipher
  ds_mac :: gnutls_mac

definition ciphersuites :: "dtls_suite list" where
  "ciphersuites = [
     \<lparr>ds_oc_name = ''OC-DTLS1_2-AES128-GCM'', ds_prio = 90, ds_cipher = CIPHER_AES_128_GCM, ds_mac = MAC_AEAD\<rparr>,
     \<lparr>ds_oc_name = ''OC-DTLS1_2-AES256-GCM'', ds_prio = 80, ds_cipher = CIPHER_AES_256_GCM, ds_mac = MAC_AEAD\<rparr>,
     \<lparr>ds_oc_name = ''AES128-SHA'', ds_prio = 50, ds_cipher = CIPHER_AES_128_CBC, ds_mac = MAC_SHA1\<rparr>,
     \<lparr>ds_oc_name = ''DES-CBC3-SHA'', ds_prio = 1, ds_cipher = CIPHER_3DES_CBC, ds_mac = MAC_SHA1\<rparr>]"

datatype comp_method = OC_COMP_LZ4 | OC_COMP_LZS

text \<open>Name and priority of a method; LZ4 is there when the server is built with it.\<close>

definition comp_methods :: "bool \<Rightarrow> (comp_method \<times> string \<times> nat) list" where
  "comp_methods lz4 = (if lz4 then [(OC_COMP_LZ4, ''oc-lz4'', 90)] else []) @ [(OC_COMP_LZS, ''lzs'', 80)]"

datatype ws_auth_state = S_AUTH_INACTIVE | S_AUTH_INIT | S_AUTH_REQ | S_AUTH_COOKIE | S_AUTH_COMPLETE
datatype agent_type = AGENT_UNKNOWN | AGENT_OPENCONNECT_V3 | AGENT_OPENCONNECT
datatype header_state = HTTP_HEADER_INIT | HTTP_HEADER_RECV | HTTP_HEADER_VALUE_RECV

text \<open>A configured method of the worker: whether it is enabled, and its type bits.\<close>

record ws_auth =
  wa_enabled :: bool
  wa_type :: u32

definition GSSAPI :: u32 where "GSSAPI = 64"
definition USERNAME_PASS :: u32 where "USERNAME_PASS = 1"
definition TLS_MASTER_SIZE :: nat where "TLS_MASTER_SIZE = 48"
definition MAX_AGENT_NAME :: nat where "MAX_AGENT_NAME = 48"
definition MAX_HOST :: nat where "MAX_HOST = 64"
definition URL_SIZE :: nat where "URL_SIZE = 256"
definition WS_SID_SIZE :: nat where "WS_SID_SIZE = 16"

lemmas http_consts = GSSAPI_def USERNAME_PASS_def TLS_MASTER_SIZE_def MAX_AGENT_NAME_def MAX_HOST_def
  URL_SIZE_def WS_SID_SIZE_def

text \<open>What the headers of a request set, in http_req_st and worker_st.\<close>

record http_app =
  ha_hostname :: string
  ha_user_agent :: string
  ha_agent_type :: agent_type
  ha_is_mobile :: bool
  ha_spnego_set :: bool
  ha_master_secret :: "byte list"
  ha_master_secret_set :: bool
  ha_ciphersuite :: "dtls_suite option"
  ha_base_mtu :: u32
  ha_no_ipv4 :: bool
  ha_no_ipv6 :: bool
  ha_authorization :: "string option"
  ha_cookie :: "byte list"
  ha_cookie_set :: bool
  ha_sid :: "byte list"
  ha_sid_set :: bool
  ha_auth_state :: ws_auth_state
  ha_full_ipv6 :: bool
  ha_dtls_comp :: "comp_method option"
  ha_cstp_comp :: "comp_method option"
  ha_auth :: "ws_auth list"
  ha_selected_auth :: "ws_auth option"

text \<open>
  \<open>he_hex n s\<close> is the buffer of n bytes after gnutls_hex2bin; \<open>he_base64 s n\<close> the bytes that
  base64_decode writes into a buffer of n bytes, None when it returns false; \<open>he_session\<close> the
  cipher and MAC of the TLS session, None without a session.
\<close>

record http_env =
  he_hex :: "nat \<Rightarrow> string \<Rightarrow> byte list"
  he_base64 :: "string \<Rightarrow> nat \<Rightarrow> byte list option"
  he_session :: "(gnutls_cipher \<times> gnutls_mac) option"
  he_compression :: bool
  he_lz4 :: bool
  he_talloc :: bool
  he_mem :: "nat \<Rightarrow> byte option"

section \<open>Choosing an authentication method\<close>

definition ws_switch_auth_to :: "u32 \<Rightarrow> http_app \<Rightarrow> bool \<times> http_app" where
  "ws_switch_auth_to auth a =
     (case ha_selected_auth a of
        Some m \<Rightarrow>
          if wa_enabled m \<and> wa_type m AND auth \<noteq> 0 then (True, a)
          else (case List.find (\<lambda>m. wa_enabled m \<and> wa_type m AND auth \<noteq> 0) (ha_auth a) of
                  Some m \<Rightarrow> (True, a\<lparr>ha_selected_auth := Some m\<rparr>) | None \<Rightarrow> (False, a))
      | None \<Rightarrow>
          (case List.find (\<lambda>m. wa_enabled m \<and> wa_type m AND auth \<noteq> 0) (ha_auth a) of
             Some m \<Rightarrow> (True, a\<lparr>ha_selected_auth := Some m\<rparr>) | None \<Rightarrow> (False, a)))"

definition ws_disable_auth :: "u32 \<Rightarrow> http_app \<Rightarrow> http_app" where
  "ws_disable_auth auth a =
     (let dis = (\<lambda>m. if wa_type m AND auth \<noteq> 0 then m\<lparr>wa_enabled := False\<rparr> else m) in
      a\<lparr>ha_auth := map dis (ha_auth a), ha_selected_auth := map_option dis (ha_selected_auth a)\<rparr>)"

section \<open>The meaning of the headers\<close>

text \<open>The inner loop over the table; \<open>want\<close> ends it early.\<close>

fun scan_suites ::
  "(gnutls_cipher \<times> gnutls_mac) option \<Rightarrow> string \<Rightarrow> dtls_suite list \<Rightarrow> dtls_suite option \<Rightarrow> dtls_suite option" where
  "scan_suites want token [] cand = cand"
| "scan_suites want token (s # ss) cand =
     (if token = ds_oc_name s
         \<and> (case cand of None \<Rightarrow> True | Some c \<Rightarrow> ds_prio c < ds_prio s) then
        if want = Some (ds_cipher s, ds_mac s) then Some s
        else scan_suites want token ss (Some s)
      else scan_suites want token ss cand)"

definition select_suite :: "(gnutls_cipher \<times> gnutls_mac) option \<Rightarrow> string list \<Rightarrow> dtls_suite option" where
  "select_suite want tokens = fold (\<lambda>t cand. scan_suites want t ciphersuites cand) tokens None"

fun scan_comp ::
  "string \<Rightarrow> (comp_method \<times> string \<times> nat) list \<Rightarrow> (comp_method \<times> nat) option \<Rightarrow> (comp_method \<times> nat) option" where
  "scan_comp token [] cand = cand"
| "scan_comp token ((m, name, prio) # ms) cand =
     scan_comp token ms
       (if map to_lower token = map to_lower name
           \<and> (case cand of None \<Rightarrow> True | Some (_, p) \<Rightarrow> p < prio) then Some (m, prio) else cand)"

definition select_comp :: "bool \<Rightarrow> string list \<Rightarrow> comp_method option" where
  "select_comp lz4 tokens =
     map_option fst (fold (\<lambda>t cand. scan_comp t (comp_methods lz4) cand) tokens None)"

text \<open>One token of the Cookie header; None is the return when talloc fails.\<close>

definition cookie_token :: "http_env \<Rightarrow> string \<Rightarrow> http_app \<Rightarrow> http_app option" where
  "cookie_token env token a =
     (let p = dropWhile c_isspace token in
      if has_prefix ''webvpn='' p then
        let q = trim_end (drop 7 p) in
        if \<not> he_talloc env then None
        else (case he_base64 env q (length q) of
                None \<Rightarrow> Some (a\<lparr>ha_cookie_set := False\<rparr>)
              | Some c \<Rightarrow> Some (a\<lparr>ha_cookie := c, ha_auth_state := S_AUTH_COOKIE, ha_cookie_set := True\<rparr>))
      else if has_prefix ''webvpncontext='' p then
        let q = trim_end (drop 14 p) in
        (case he_base64 env q WS_SID_SIZE of
           None \<Rightarrow> Some (a\<lparr>ha_sid_set := False\<rparr>)
         | Some s \<Rightarrow> if length s \<noteq> WS_SID_SIZE
                      then Some (a\<lparr>ha_sid := s @ drop (length s) (ha_sid a), ha_sid_set := False\<rparr>)
                      else Some (a\<lparr>ha_sid := s, ha_sid_set := True\<rparr>))
      else Some a)"

fun cookie_tokens :: "http_env \<Rightarrow> string list \<Rightarrow> http_app \<Rightarrow> http_app" where
  "cookie_tokens env [] a = a"
| "cookie_tokens env (t # ts) a =
     (case cookie_token env t a of None \<Rightarrow> a | Some a' \<Rightarrow> cookie_tokens env ts a')"

definition set_user_agent :: "string \<Rightarrow> http_app \<Rightarrow> http_app" where
  "set_user_agent value a =
     (let ua = c_string (if MAX_AGENT_NAME < length value + 1 then take (MAX_AGENT_NAME - 1) value else value);
          a1 = a\<lparr>ha_user_agent := ua\<rparr>
      in if map to_lower (take 8 ua) = map to_lower ''Open Any'' then
           if has_prefix ''Open AnyConnect VPN Agent v3'' ua
           then a1\<lparr>ha_agent_type := AGENT_OPENCONNECT_V3\<rparr> else a1\<lparr>ha_agent_type := AGENT_OPENCONNECT\<rparr>
         else a1)"

definition header_effect :: "http_env \<Rightarrow> header_id option \<Rightarrow> string \<Rightarrow> http_app \<Rightarrow> http_app" where
  "header_effect env h value a =
     (let tokens = (\<lambda>d. strtok_all d [] (c_string value)) in
      case h of
        Some HEADER_MASTER_SECRET \<Rightarrow>
          if length value < TLS_MASTER_SIZE * 2 then a\<lparr>ha_master_secret_set := False\<rparr>
          else a\<lparr>ha_master_secret := he_hex env TLS_MASTER_SIZE (take (TLS_MASTER_SIZE * 2) value),
                 ha_master_secret_set := True\<rparr>
      | Some HEADER_HOSTNAME \<Rightarrow>
          if MAX_HOST < length value + 1 then a\<lparr>ha_hostname := []\<rparr>
          else a\<lparr>ha_hostname := c_string value\<rparr>
      | Some HEADER_DEVICE_TYPE \<Rightarrow> a\<lparr>ha_is_mobile := True\<rparr>
      | Some HEADER_SUPPORT_SPNEGO \<Rightarrow> (snd (ws_switch_auth_to GSSAPI a))\<lparr>ha_spnego_set := True\<rparr>
      | Some HEADER_AUTHORIZATION \<Rightarrow> a\<lparr>ha_authorization := Some value\<rparr>
      | Some HEADER_USER_AGENT \<Rightarrow> set_user_agent value a
      | Some HEADER_DTLS_CIPHERSUITE \<Rightarrow>
          a\<lparr>ha_ciphersuite := select_suite (he_session env) (tokens (CHR '':''))\<rparr>
      | Some HEADER_DTLS_ENCODING \<Rightarrow>
          if he_compression env then a\<lparr>ha_dtls_comp := select_comp (he_lz4 env) (tokens (CHR '',''))\<rparr> else a
      | Some HEADER_CSTP_ENCODING \<Rightarrow>
          if he_compression env then a\<lparr>ha_cstp_comp := select_comp (he_lz4 env) (tokens (CHR '',''))\<rparr> else a
      | Some HEADER_CSTP_BASE_MTU \<Rightarrow> a\<lparr>ha_base_mtu := atoi (c_string value)\<rparr>
      | Some HEADER_CSTP_ATYPE \<Rightarrow>
          a\<lparr>ha_no_ipv4 := (if str_contains value ''IPv4'' then ha_no_ipv4 a else True),
            ha_no_ipv6 := (if str_contains value ''IPv6'' then ha_no_ipv6 a else True)\<rparr>
      | Some HEADER_FULL_IPV6 \<Rightarrow> if str_contains value ''true'' then a\<lparr>ha_full_ipv6 := True\<rparr> else a
      | Some HEADER_COOKIE \<Rightarrow> cookie_tokens env (tokens (CHR '';'')) a
      | _ \<Rightarrow> a)"

section \<open>The callbacks\<close>

text \<open>
  The parser's view of the request: the buffers for the header at hand, and \<open>hr_app\<close>, what
  the headers before it have set. \<open>hr_clock\<close> numbers the allocations.
\<close>

record http_req =
  hr_url :: string
  hr_header :: str_st
  hr_value :: str_st
  hr_state :: header_state
  hr_next_header :: "header_id option"
  hr_body :: "byte list"
  hr_headers_complete :: bool
  hr_message_complete :: bool
  hr_app :: http_app
  hr_clock :: nat

definition str_of :: "byte list \<Rightarrow> string" where
  "str_of bs = map (\<lambda>b. char_of (unat b)) bs"

type_synonym http_result = "mem_error + int \<times> http_req"

definition header_value_check :: "http_env \<Rightarrow> http_req \<Rightarrow> http_req" where
  "header_value_check env r =
     (if sb_len (hr_value r) = 0 \<or> \<not> he_talloc env then r
      else r\<lparr>hr_app := header_effect env (hr_next_header r) (str_of (sb_data (hr_value r))) (hr_app r)\<rparr>)"

definition http_url_cb :: "http_req \<Rightarrow> string \<Rightarrow> int \<times> http_req" where
  "http_url_cb r at = (if URL_SIZE \<le> length at then (1, r\<lparr>hr_url := []\<rparr>) else (0, r\<lparr>hr_url := at\<rparr>))"

definition http_header_field_cb :: "http_env \<Rightarrow> http_req \<Rightarrow> byte list \<Rightarrow> http_result" where
  "http_header_field_cb env r at =
     (let r1 = (if hr_state r \<noteq> HTTP_HEADER_RECV then
                  (if hr_state r = HTTP_HEADER_VALUE_RECV then header_value_check env r else r)
                    \<lparr>hr_state := HTTP_HEADER_RECV, hr_header := str_reset (hr_header r)\<rparr>
                else r)
      in case str_append_data (he_mem env (hr_clock r1)) (hr_header r1) at of
           Inl err \<Rightarrow> Inl err
         | Inr (ret, s) \<Rightarrow>
             Inr (if ret < 0 then ret else 0, r1\<lparr>hr_header := s, hr_clock := hr_clock r1 + 1\<rparr>))"

definition header_check :: "http_req \<Rightarrow> http_req" where
  "header_check r =
     r\<lparr>hr_next_header := in_word_set (str_of (sb_data (hr_header r))) (sb_len (hr_header r))\<rparr>"

definition http_header_value_cb :: "http_env \<Rightarrow> http_req \<Rightarrow> byte list \<Rightarrow> http_result" where
  "http_header_value_cb env r at =
     (let r1 = (if hr_state r \<noteq> HTTP_HEADER_VALUE_RECV then
                  (header_check r)\<lparr>hr_state := HTTP_HEADER_VALUE_RECV, hr_value := str_reset (hr_value r)\<rparr>
                else r)
      in case str_append_data (he_mem env (hr_clock r1)) (hr_value r1) at of
           Inl err \<Rightarrow> Inl err
         | Inr (ret, s) \<Rightarrow>
             Inr (if ret < 0 then ret else 0, r1\<lparr>hr_value := s, hr_clock := hr_clock r1 + 1\<rparr>))"

text \<open>
  The fallback from GSSAPI when the client did not offer it. The worker selects the first
  configured method before it parses anything; None stands for a server without methods, which
  the configuration refuses.
\<close>

definition gssapi_fallback :: "http_app \<Rightarrow> http_app" where
  "gssapi_fallback a =
     (if (case ha_selected_auth a of None \<Rightarrow> False | Some m \<Rightarrow> wa_type m AND GSSAPI \<noteq> 0)
         \<and> ha_auth_state a = S_AUTH_INACTIVE \<and> \<not> ha_spnego_set a
      then snd (ws_switch_auth_to USERNAME_PASS a) else a)"

definition http_header_complete_cb :: "http_env \<Rightarrow> http_req \<Rightarrow> int \<times> http_req" where
  "http_header_complete_cb env r =
     (let r1 = header_value_check env r
      in (0, r1\<lparr>hr_app := gssapi_fallback (hr_app r1), hr_headers_complete := True\<rparr>))"

definition http_message_complete_cb :: "http_req \<Rightarrow> int \<times> http_req" where
  "http_message_complete_cb r = (0, r\<lparr>hr_message_complete := True\<rparr>)"

definition http_body_cb :: "bool \<Rightarrow> http_req \<Rightarrow> byte list \<Rightarrow> int \<times> http_req" where
  "http_body_cb talloc r at = (if talloc then (0, r\<lparr>hr_body := hr_body r @ at\<rparr>) else (1, r))"

definition http_req_init :: "http_req \<Rightarrow> http_req" where
  "http_req_init r = r\<lparr>hr_header := str_init, hr_value := str_init\<rparr>"

definition http_req_reset :: "http_req \<Rightarrow> http_req" where
  "http_req_reset r = r\<lparr>hr_headers_complete := False, hr_message_complete := False, hr_body := [],
     hr_app := (hr_app r)\<lparr>ha_spnego_set := False\<rparr>, hr_url := [], hr_state := HTTP_HEADER_INIT,
     hr_header := str_reset (hr_header r), hr_value := str_reset (hr_value r)\<rparr>"

definition http_req_deinit :: "http_req \<Rightarrow> http_req" where
  "http_req_deinit r = (http_req_reset r)\<lparr>hr_header := str_clear (str_reset (hr_header r)),
     hr_value := str_clear (str_reset (hr_value r)), hr_body := []\<rparr>"

end
