(* ===== verification/HttpProps.thy ===== *)
theory HttpProps
  imports HttpReq
begin

text \<open>
  Handlers of the URLs, runs of the parser's callbacks, and what they amount to: however the
  parser cuts the names and values of the headers, the request means what its headers say.
\<close>

section \<open>URLs\<close>

datatype url_handler =
  get_auth_handler | post_auth_handler | get_empty_handler | get_dl_handler | get_string_handler
| get_config_handler | post_kkdcp_handler

record known_url =
  ku_url :: string
  ku_partial :: bool
  ku_get :: "url_handler option"
  ku_post :: "url_handler option"

definition LL :: "string \<Rightarrow> url_handler \<Rightarrow> url_handler option \<Rightarrow> known_url" where
  "LL x y z = \<lparr>ku_url = x, ku_partial = False, ku_get = Some y, ku_post = z\<rparr>"

definition known_urls :: "known_url list" where
  "known_urls = [
     LL ''/'' get_auth_handler (Some post_auth_handler),
     LL ''/auth'' get_auth_handler (Some post_auth_handler),
     LL ''/1/index.html'' get_empty_handler None,
     LL ''/1/Linux'' get_empty_handler None,
     LL ''/1/Linux_64'' get_empty_handler None,
     LL ''/1/Windows'' get_empty_handler None,
     LL ''/1/Darwin_i386'' get_empty_handler None,
     LL ''/1/binaries/vpndownloader.sh'' get_dl_handler None,
     LL ''/1/VPNManifest.xml'' get_string_handler None,
     LL ''/1/binaries/update.txt'' get_string_handler None,
     (LL ''/profiles'' get_config_handler None)\<lparr>ku_partial := True\<rparr>,
     LL ''/+CSCOT+/'' get_string_handler None,
     LL ''/logout'' get_empty_handler None]"

definition http_get_url_handler :: "string \<Rightarrow> url_handler option" where
  "http_get_url_handler url =
     (case List.find (\<lambda>p. ku_url p = url \<or> has_prefix (ku_url p) url
              \<and> (ku_partial p \<or> char_at url (length (ku_url p)) \<in> {CHR ''/'', CHR ''?''})) known_urls of
        Some p \<Rightarrow> ku_get p
      | None \<Rightarrow> None)"

text \<open>\<open>kkdcp\<close> are the URLs of the configured KKDCP proxies.\<close>

definition http_post_url_handler :: "string option list \<Rightarrow> string \<Rightarrow> url_handler option" where
  "http_post_url_handler kkdcp url =
     (case List.find (\<lambda>p. ku_url p = url) known_urls of
        Some p \<Rightarrow> ku_post p
      | None \<Rightarrow> if Some url \<in> set kkdcp then Some post_kkdcp_handler else None)"

section \<open>Runs\<close>

datatype http_event = Field "byte list" | Val "byte list" | Headers_done

definition http_cb :: "http_env \<Rightarrow> http_req \<Rightarrow> http_event \<Rightarrow> http_result" where
  "http_cb env r ev =
     (case ev of Field bs \<Rightarrow> http_header_field_cb env r bs | Val bs \<Rightarrow> http_header_value_cb env r bs
      | Headers_done \<Rightarrow> Inr (http_header_complete_cb env r))"

text \<open>The parser stops at the first callback that does not return 0.\<close>

fun http_run :: "http_env \<Rightarrow> http_event list \<Rightarrow> http_req \<Rightarrow> http_result" where
  "http_run env [] r = Inr (0, r)"
| "http_run env (ev # evs) r =
     (case http_cb env r ev of
        Inl err \<Rightarrow> Inl err
      | Inr (ret, r') \<Rightarrow> if ret \<noteq> 0 then Inr (ret, r') else http_run env evs r')"

lemma http_run_append:
  "http_run env (xs @ ys) r =
    (case http_run env xs r of
       Inl err \<Rightarrow> Inl err
     | Inr (ret, r') \<Rightarrow> if ret \<noteq> 0 then Inr (ret, r') else http_run env ys r')"
  by (induction xs arbitrary: r) (auto split: sum.splits)

text \<open>A header is cut into pieces of its name and of its value.\<close>

type_synonym cut_header = "byte list list \<times> byte list list"

definition header_events :: "cut_header \<Rightarrow> http_event list" where
  "header_events h = map Field (fst h) @ map Val (snd h)"

text \<open>The parser reports no empty piece of a name, but a value that is empty as a piece of length 0.\<close>

definition cut_ok :: "cut_header \<Rightarrow> bool" where
  "cut_ok h \<longleftrightarrow> fst h \<noteq> [] \<and> snd h \<noteq> [] \<and> [] \<notin> set (fst h)"

text \<open>What a request means: the effect of each header that has a value, in their order.\<close>

definition header_meaning :: "http_env \<Rightarrow> byte list \<times> byte list \<Rightarrow> http_app \<Rightarrow> http_app" where
  "header_meaning env h a =
     (if snd h = [] then a
      else header_effect env (in_word_set (str_of (fst h)) (length (fst h))) (str_of (snd h)) a)"

definition request_effect :: "http_env \<Rightarrow> (byte list \<times> byte list) list \<Rightarrow> http_app \<Rightarrow> http_app" where
  "request_effect env hs a =
     gssapi_fallback (fold (header_meaning env) hs a)"

section \<open>Cutting does not matter\<close>

text \<open>The buffers of a request in which \<open>name\<close> and \<open>value\<close> have been read.\<close>

definition bufs_ok :: "http_req \<Rightarrow> bool" where
  "bufs_ok r \<longleftrightarrow> str_ok (hr_header r) \<and> str_ok (hr_value r)"

lemma str_reset_ok: "str_ok s \<Longrightarrow> str_ok (str_reset s) \<and> sb_data (str_reset s) = []"
  by (auto simp: str_ok_def str_reset_def sb_data_def split: option.splits)

lemma append_total:
  "str_ok s \<Longrightarrow> mem \<noteq> None \<Longrightarrow> bs \<noteq> [] \<or> sb_alloc s \<noteq> None \<Longrightarrow>
    \<exists>s'. str_append_data mem s bs = Inr (0, s') \<and> str_ok s' \<and> sb_data s' = sb_data s @ bs \<and> sb_alloc s' \<noteq> None"
proof -
  assume s: "str_ok s" and m: "mem \<noteq> None" and bs: "bs \<noteq> [] \<or> sb_alloc s \<noteq> None"
  obtain ret s' where r: "str_append_data mem s bs = Inr (ret, s')" and s': "0 \<le> ret \<Longrightarrow> ret = 0 \<and> str_ok s'
    \<and> sb_alloc s' \<noteq> None \<and> sb_data s' = sb_data s @ bs \<and> sb_len s' = sb_len s + length bs"
    using append_data_ok [OF s] bs by blast
  have "0 \<le> ret"
    using r m by (auto simp: str_append_data_def str_append_size_def Let_def
        split: prod.splits sum.splits if_splits option.splits)
  then show ?thesis using r s' by auto
qed

text \<open>The state after the pieces read so far of the name, or of the value.\<close>

definition in_name :: "http_env \<Rightarrow> http_req \<Rightarrow> byte list \<Rightarrow> http_app \<Rightarrow> bool" where
  "in_name env r name a \<longleftrightarrow> bufs_ok r \<and> hr_state r = HTTP_HEADER_RECV
     \<and> sb_data (hr_header r) = name \<and> hr_app r = a"

definition in_value :: "http_env \<Rightarrow> http_req \<Rightarrow> byte list \<Rightarrow> byte list \<Rightarrow> http_app \<Rightarrow> bool" where
  "in_value env r name val a \<longleftrightarrow> bufs_ok r \<and> hr_state r = HTTP_HEADER_VALUE_RECV
     \<and> hr_next_header r = in_word_set (str_of name) (length name)
     \<and> sb_data (hr_value r) = val \<and> hr_app r = a"

text \<open>The buffer of the value has been allocated.\<close>

definition primed :: "http_req \<Rightarrow> bool" where
  "primed r \<longleftrightarrow> sb_alloc (hr_value r) \<noteq> None"

text \<open>Between two headers: what has been applied, and what the next callback will apply.\<close>

definition settled :: "http_env \<Rightarrow> http_req \<Rightarrow> http_app \<Rightarrow> bool" where
  "settled env r a \<longleftrightarrow> bufs_ok r \<and> hr_state r \<noteq> HTTP_HEADER_RECV
     \<and> (hr_state r = HTTP_HEADER_INIT \<longrightarrow> hr_app r = a \<and> sb_len (hr_value r) = 0)
     \<and> (hr_state r = HTTP_HEADER_VALUE_RECV \<longrightarrow> hr_app (header_value_check env r) = a)"

lemma check_frame [simp]:
  "hr_header (header_value_check env r) = hr_header r" "hr_value (header_value_check env r) = hr_value r"
  "hr_clock (header_value_check env r) = hr_clock r" "hr_state (header_value_check env r) = hr_state r"
  by (simp_all add: header_value_check_def)

lemma field_first:
  assumes "settled env r a" and "\<And>i. he_mem env i \<noteq> None" and "bs \<noteq> []"
  shows "\<exists>r'. http_cb env r (Field bs) = Inr (0, r') \<and> in_name env r' bs a \<and> hr_value r' = hr_value r"
proof -
  let ?r = "if hr_state r = HTTP_HEADER_VALUE_RECV then header_value_check env r else r"
  have h: "str_ok (str_reset (hr_header r))" "sb_data (str_reset (hr_header r)) = []"
    using assms(1) str_reset_ok by (auto simp: settled_def bufs_ok_def)
  obtain s' where s': "str_append_data (he_mem env (hr_clock r)) (str_reset (hr_header r)) bs = Inr (0, s')"
    "str_ok s'" "sb_data s' = bs"
    using append_total [OF h(1) assms(2), of bs] assms(3) h(2) by auto
  have a: "hr_app ?r = a"
    using assms(1) by (cases "hr_state r") (auto simp: settled_def)
  show ?thesis
    using s' assms(1) a by (auto simp: http_cb_def http_header_field_cb_def settled_def in_name_def
        bufs_ok_def Let_def)
qed

lemma field_more:
  assumes "in_name env r name a" and "\<And>i. he_mem env i \<noteq> None" and "bs \<noteq> []"
  shows "\<exists>r'. http_cb env r (Field bs) = Inr (0, r') \<and> in_name env r' (name @ bs) a \<and> hr_value r' = hr_value r"
proof -
  have h: "str_ok (hr_header r)" using assms(1) by (simp add: in_name_def bufs_ok_def)
  obtain s' where "str_append_data (he_mem env (hr_clock r)) (hr_header r) bs = Inr (0, s')"
    "str_ok s'" "sb_data s' = sb_data (hr_header r) @ bs"
    using append_total [OF h assms(2), of bs] assms(3) by auto
  then show ?thesis
    using assms(1) by (auto simp: http_cb_def http_header_field_cb_def in_name_def bufs_ok_def Let_def)
qed

lemma value_first:
  assumes "in_name env r name a" and "\<And>i. he_mem env i \<noteq> None" and "bs \<noteq> [] \<or> primed r"
  shows "\<exists>r'. http_cb env r (Val bs) = Inr (0, r') \<and> in_value env r' name bs a \<and> primed r'"
proof -
  have h: "str_ok (str_reset (hr_value r))" "sb_data (str_reset (hr_value r)) = []"
    using assms(1) str_reset_ok by (auto simp: in_name_def bufs_ok_def)
  have "bs \<noteq> [] \<or> sb_alloc (str_reset (hr_value r)) \<noteq> None" using assms(3) by (simp add: primed_def str_reset_def)
  from append_total [OF h(1) assms(2) [of "hr_clock r"] this] h(2)
  obtain s' where s': "str_append_data (he_mem env (hr_clock r)) (str_reset (hr_value r)) bs = Inr (0, s')"
    "str_ok s'" "sb_data s' = bs" "sb_alloc s' \<noteq> None" by auto
  have "sb_len (hr_header r) = length name"
    using assms(1) length_sb_data by (auto simp: in_name_def bufs_ok_def)
  then show ?thesis
    using s' assms(1) by (auto simp: http_cb_def http_header_value_cb_def header_check_def in_name_def
        in_value_def bufs_ok_def primed_def Let_def)
qed

lemma value_more:
  assumes "in_value env r name val a" and "\<And>i. he_mem env i \<noteq> None" and "primed r"
  shows "\<exists>r'. http_cb env r (Val bs) = Inr (0, r') \<and> in_value env r' name (val @ bs) a \<and> primed r'"
proof -
  have h: "str_ok (hr_value r)" using assms(1) by (simp add: in_value_def bufs_ok_def)
  obtain s' where "str_append_data (he_mem env (hr_clock r)) (hr_value r) bs = Inr (0, s')"
    "str_ok s'" "sb_data s' = sb_data (hr_value r) @ bs" "sb_alloc s' \<noteq> None"
    using append_total [OF h assms(2), of bs] assms(3) by (auto simp: primed_def)
  then show ?thesis
    using assms(1) by (auto simp: http_cb_def http_header_value_cb_def in_value_def bufs_ok_def primed_def Let_def)
qed

lemma value_settled:
  assumes "in_value env r name val a" and "he_talloc env"
  shows "settled env r (header_meaning env (name, val) a)"
proof -
  have "sb_len (hr_value r) = length val"
    using assms(1) length_sb_data by (auto simp: in_value_def bufs_ok_def)
  then show ?thesis
    using assms by (auto simp: settled_def in_value_def header_value_check_def header_meaning_def)
qed

lemma fields_run:
  assumes "\<And>i. he_mem env i \<noteq> None"
  shows "in_name env r name a \<Longrightarrow> [] \<notin> set bs \<Longrightarrow>
    \<exists>r'. http_run env (map Field bs) r = Inr (0, r') \<and> in_name env r' (name @ concat bs) a \<and> hr_value r' = hr_value r"
proof (induction bs arbitrary: r name)
  case (Cons b bs)
  have "b \<noteq> []" using Cons.prems(2) by auto
  then obtain r' where r': "http_cb env r (Field b) = Inr (0, r')" "in_name env r' (name @ b) a" "hr_value r' = hr_value r"
    using field_more [OF Cons.prems(1) assms] by blast
  then show ?case using Cons.IH [OF r'(2)] Cons.prems(2) by simp
qed simp

lemma values_run:
  assumes "\<And>i. he_mem env i \<noteq> None"
  shows "in_value env r name val a \<Longrightarrow> primed r \<Longrightarrow>
    \<exists>r'. http_run env (map Val bs) r = Inr (0, r') \<and> in_value env r' name (val @ concat bs) a \<and> primed r'"
proof (induction bs arbitrary: r val)
  case (Cons b bs)
  obtain r' where r': "http_cb env r (Val b) = Inr (0, r')" "in_value env r' name (val @ b) a" "primed r'"
    using value_more [OF Cons.prems(1) assms Cons.prems(2)] by blast
  then show ?case using Cons.IH [OF r'(2,3)] by simp
qed simp

text \<open>The pieces of a name, at whose end the value's buffer is as it was.\<close>

lemma name_run:
  assumes mem: "\<And>i. he_mem env i \<noteq> None" and "settled env r a" and "ns \<noteq> []" and "[] \<notin> set ns"
  shows "\<exists>r'. http_run env (map Field ns) r = Inr (0, r') \<and> in_name env r' (concat ns) a \<and> hr_value r' = hr_value r"
proof -
  obtain n ns' where ns: "ns = n # ns'" "n \<noteq> []" "[] \<notin> set ns'" using assms(3,4) by (cases ns) auto
  obtain r1 where 1: "http_cb env r (Field n) = Inr (0, r1)" "in_name env r1 n a" "hr_value r1 = hr_value r"
    using field_first [OF assms(2) mem ns(2)] by blast
  obtain r2 where "http_run env (map Field ns') r1 = Inr (0, r2)" "in_name env r2 (n @ concat ns') a" "hr_value r2 = hr_value r1"
    using fields_run [OF mem 1(2) ns(3)] by blast
  then show ?thesis using 1 by (simp add: ns)
qed

lemma header_run:
  assumes mem: "\<And>i. he_mem env i \<noteq> None" and "he_talloc env" and "settled env r a" and "cut_ok (ns, vs)"
    and "hd vs \<noteq> [] \<or> primed r"
  shows "\<exists>r'. http_run env (header_events (ns, vs)) r = Inr (0, r')
    \<and> settled env r' (header_meaning env (concat ns, concat vs) a) \<and> primed r'"
proof -
  obtain v vs' where cut: "ns \<noteq> []" "[] \<notin> set ns" "vs = v # vs'" using assms(4) by (cases vs) (auto simp: cut_ok_def)
  obtain r2 where 2: "http_run env (map Field ns) r = Inr (0, r2)" "in_name env r2 (concat ns) a" "hr_value r2 = hr_value r"
    using name_run [OF mem assms(3) cut(1,2)] by blast
  have "v \<noteq> [] \<or> primed r2" using assms(5) cut(3) 2(3) by (simp add: primed_def)
  then obtain r3 where 3: "http_cb env r2 (Val v) = Inr (0, r3)" "in_value env r3 (concat ns) v a" "primed r3"
    using value_first [OF 2(2) mem] by blast
  obtain r4 where 4: "http_run env (map Val vs') r3 = Inr (0, r4)"
    "in_value env r4 (concat ns) (v @ concat vs') a" "primed r4"
    using values_run [OF mem 3(2,3)] by blast
  have "http_run env (header_events (ns, vs)) r = Inr (0, r4)"
    using 2 3 4 by (simp add: header_events_def cut http_run_append)
  moreover have "settled env r4 (header_meaning env (concat ns, concat vs) a)"
    using value_settled [OF 4(2) assms(2)] cut by simp
  ultimately show ?thesis using 4(3) by blast
qed

definition whole :: "cut_header \<Rightarrow> byte list \<times> byte list" where
  "whole h = (concat (fst h), concat (snd h))"

lemma headers_run:
  assumes "\<And>i. he_mem env i \<noteq> None" and "he_talloc env"
  shows "settled env r a \<Longrightarrow> list_all cut_ok hs \<Longrightarrow> (hs \<noteq> [] \<and> hd (snd (hd hs)) \<noteq> [] \<or> hs = [] \<or> primed r) \<Longrightarrow>
    \<exists>r'. http_run env (concat (map header_events hs)) r = Inr (0, r')
      \<and> settled env r' (fold (header_meaning env) (map whole hs) a)"
proof (induction hs arbitrary: r a)
  case (Cons h hs)
  obtain ns vs where h: "h = (ns, vs)" by fastforce
  obtain r' where r': "http_run env (header_events h) r = Inr (0, r')"
    "settled env r' (header_meaning env (concat ns, concat vs) a)" "primed r'"
    using header_run [OF assms Cons.prems(1), of ns vs] Cons.prems(2,3) h by auto
  then show ?case using Cons.IH [OF r'(2)] Cons.prems(2) by (simp add: http_run_append h whole_def)
qed simp

text \<open>The terminator of an empty value is written to a buffer that was never allocated.\<close>

lemma empty_first_value:
  assumes "in_name env r name a" and "\<not> primed r"
  shows "http_cb env r (Val []) = Inl Null_pointer"
  using assms by (simp add: http_cb_def http_header_value_cb_def str_append_data_def str_append_size_def
      str_reset_def write_at_def in_name_def primed_def Let_def)

text \<open>So a request whose first header has an empty value makes the worker write through a NULL pointer.\<close>

lemma empty_value_crashes:
  assumes "\<And>i. he_mem env i \<noteq> None" and "name \<noteq> []"
  shows "http_run env [Field name, Val []] (http_req_reset (http_req_init req)) = Inl Null_pointer"
proof -
  let ?r0 = "http_req_reset (http_req_init req)"
  have s: "settled env ?r0 (hr_app ?r0)" "\<not> primed ?r0"
    by (simp_all add: settled_def bufs_ok_def http_req_reset_def http_req_init_def str_reset_def str_init_def str_ok_def
        primed_def)
  obtain r where "http_cb env ?r0 (Field name) = Inr (0, r)" "in_name env r name (hr_app ?r0)" "hr_value r = hr_value ?r0"
    using field_first [OF s(1) assms] by blast
  then show ?thesis using empty_first_value [of env r name] s(2) by (simp add: primed_def)
qed

section \<open>Properties\<close>

text \<open>
  C37: However the parser cuts a request, the callbacks implement its meaning or crash in one known
  way. A fresh request whose headers arrive in pieces, those of a name not empty, ends with
  exactly the state that applying each header that has a value in order gives (one with an empty
  value counts for nothing), unless the first piece of the first header's value is empty: then the
  worker writes through a NULL pointer. Allocations succeed.
\<close>

theorem http_headers_refine:
  assumes "\<And>i. he_mem env i \<noteq> None" and "he_talloc env" and "list_all cut_ok hs"
    and "run = http_run env (concat (map header_events hs) @ [Headers_done]) (http_req_reset (http_req_init req))"
  shows "if hs \<noteq> [] \<and> hd (snd (hd hs)) = [] then run = Inl Null_pointer
    else \<exists>r. run = Inr (0, r) \<and> hr_headers_complete r
      \<and> hr_app r = request_effect env (map whole hs) ((hr_app req)\<lparr>ha_spnego_set := False\<rparr>)"
proof -
  let ?r0 = "http_req_reset (http_req_init req)" and ?start = "(hr_app req)\<lparr>ha_spnego_set := False\<rparr>"
  let ?a = "fold (header_meaning env) (map whole hs) ?start"
  have s: "settled env ?r0 ?start" "\<not> primed ?r0"
    by (simp_all add: settled_def bufs_ok_def http_req_reset_def http_req_init_def str_reset_def str_init_def str_ok_def
        primed_def)
  show ?thesis
  proof (cases "hs \<noteq> [] \<and> hd (snd (hd hs)) = []")
    case True
    then obtain ns vs hs' where h: "hs = (ns, [] # vs) # hs'" "ns \<noteq> []" "[] \<notin> set ns"
      using assms(3) by (cases hs; cases "snd (hd hs)"; cases "hd hs") (auto simp: cut_ok_def)
    obtain r where r: "http_run env (map Field ns) ?r0 = Inr (0, r)" "in_name env r (concat ns) ?start" "hr_value r = hr_value ?r0"
      using name_run [OF assms(1) s(1) h(2,3)] by blast
    have "http_cb env r (Val []) = Inl Null_pointer"
      using empty_first_value [OF r(2)] r(3) s(2) by (simp add: primed_def)
    then show ?thesis using True r(1) by (simp add: assms(4) h header_events_def http_run_append)
  next
    case False
    then obtain r where
      r: "http_run env (concat (map header_events hs)) ?r0 = Inr (0, r)" "settled env r ?a"
      using headers_run [OF assms(1,2) s(1) assms(3)] by blast
    have "hr_app (header_value_check env r) = ?a"
      using r(2) by (cases "hr_state r") (auto simp: settled_def header_value_check_def)
    then show ?thesis
      using False r(1)
      by (simp add: assms(4) http_run_append http_cb_def http_header_complete_cb_def request_effect_def Let_def)
  qed
qed

definition example_http_env :: http_env where
  "example_http_env = \<lparr>he_hex = (\<lambda>n s. replicate n 0), he_base64 = (\<lambda>s n. if length s \<le> n then Some (map of_char s) else None),
     he_session = Some (CIPHER_AES_128_GCM, MAC_AEAD), he_compression = True, he_lz4 = False,
     he_talloc = True, he_mem = (\<lambda>_. Some 0)\<rparr>"

definition example_http_app :: http_app where
  "example_http_app = \<lparr>ha_hostname = [], ha_user_agent = [], ha_agent_type = AGENT_UNKNOWN,
     ha_is_mobile = False, ha_spnego_set = False, ha_master_secret = replicate 48 0,
     ha_master_secret_set = False, ha_ciphersuite = None, ha_base_mtu = 0, ha_no_ipv4 = False,
     ha_no_ipv6 = False, ha_authorization = None, ha_cookie = [], ha_cookie_set = False,
     ha_sid = replicate 16 0, ha_sid_set = False, ha_auth_state = S_AUTH_INACTIVE,
     ha_full_ipv6 = False, ha_dtls_comp = None, ha_cstp_comp = None,
     ha_auth = [\<lparr>wa_enabled = True, wa_type = 64\<rparr>, \<lparr>wa_enabled = True, wa_type = 1\<rparr>],
     ha_selected_auth = Some \<lparr>wa_enabled = True, wa_type = 64\<rparr>\<rparr>"

definition example_http_req :: http_req where
  "example_http_req = \<lparr>hr_url = [], hr_header = str_init, hr_value = str_init, hr_state = HTTP_HEADER_INIT,
     hr_next_header = None, hr_body = [], hr_headers_complete = False, hr_message_complete = False,
     hr_app = example_http_app, hr_clock = 0\<rparr>"

definition bytes_of :: "string \<Rightarrow> byte list" where
  "bytes_of s = map of_char s"

text \<open>A browser's request: an MTU cut in the middle of its name and value, a cookie and an empty header.\<close>

definition example_headers :: "cut_header list" where
  "example_headers = [([bytes_of ''X-CSTP-Ba'', bytes_of ''se-MTU''], [bytes_of ''14'', bytes_of ''00'']),
     ([bytes_of ''Cookie''], [bytes_of ''webvpn='', bytes_of ''QUJD  '']),
     ([bytes_of ''X-CSTP-Base-MTU''], [[]])]"

definition example_view :: "http_app \<Rightarrow> u32 \<times> byte list \<times> ws_auth option" where
  "example_view a = (ha_base_mtu a, ha_cookie a, ha_selected_auth a)"

definition crashing_headers :: "cut_header list" where
  "crashing_headers = [([bytes_of ''Host''], [[]])]"

lemma http_headers_refine_witness:
  "(\<exists>r. http_run example_http_env (concat (map header_events example_headers) @ [Headers_done])
         (http_req_reset (http_req_init example_http_req)) = Inr (0, r)
      \<and> ha_base_mtu (hr_app r) = 1400 \<and> ha_cookie (hr_app r) = bytes_of ''QUJD''
      \<and> ha_selected_auth (hr_app r) = Some \<lparr>wa_enabled = True, wa_type = 64\<rparr>)
    \<and> http_run example_http_env (concat (map header_events crashing_headers) @ [Headers_done])
         (http_req_reset (http_req_init example_http_req)) = Inl Null_pointer"
proof -
  have 1: "he_mem example_http_env i \<noteq> None" for i by (simp add: example_http_env_def)
  have 2: "he_talloc example_http_env" by (simp add: example_http_env_def)
  have 3: "list_all cut_ok example_headers" "list_all cut_ok crashing_headers"
      "example_headers \<noteq> [] \<and> hd (snd (hd example_headers)) \<noteq> []"
      "crashing_headers \<noteq> [] \<and> hd (snd (hd crashing_headers)) = []"
    by code_simp+
  let ?a = "request_effect example_http_env (map whole example_headers) (example_http_app\<lparr>ha_spnego_set := False\<rparr>)"
  have 4: "example_view ?a = (1400, bytes_of ''QUJD'', Some \<lparr>wa_enabled = True, wa_type = 64\<rparr>)" by code_simp
  have "hr_app example_http_req = example_http_app" by (simp add: example_http_req_def)
  with http_headers_refine [OF 1 2 3(1) refl, of example_http_req] http_headers_refine [OF 1 2 3(2) refl, of example_http_req]
    3(3,4) 4
  show ?thesis by (auto simp: example_view_def)
qed

text \<open>The first suite of the table that is offered.\<close>

definition best_suite :: "string set \<Rightarrow> dtls_suite option" where
  "best_suite T = List.find (\<lambda>s. ds_oc_name s \<in> T) ciphersuites"

lemma scan_best: "scan_suites want t ciphersuites (best_suite T) = best_suite (insert t T)"
  by (auto simp: best_suite_def ciphersuites_def)

text \<open>
  The DTLS ciphersuite is the one of highest server priority among those the client offers,
  whatever their order; the search that should end early at a suite matching the TLS session
  gives the same result for every session.
\<close>

theorem select_suite_best:
  "select_suite want tokens = best_suite (set tokens)"
proof -
  have "fold (\<lambda>t cand. scan_suites want t ciphersuites cand) ts (best_suite T) = best_suite (T \<union> set ts)" for ts T
    by (induction ts arbitrary: T) (simp_all add: scan_best)
  moreover have "best_suite {} = None" by (simp add: best_suite_def ciphersuites_def)
  ultimately show ?thesis by (metis select_suite_def Un_empty_left)
qed

end
