(* ===== verification/MainProc.thy ===== *)
theory MainProc
  imports IpLease Resume Cookies Ban SecAuth Routes
begin

text \<open>
  The main process's record of its workers: proc_st and main_server_st of main.h, the tables
  of proc-search.c that find a worker by address, DTLS session id or session id, the list of
  running scripts of script-list.h, new_proc of main-misc.c, and the sessions that
  main-sec-mod-cmd.c opens and closes at the security module. A pointer to a proc_st is the
  number \<open>pr_addr\<close>; a handler gets the process it works on as a value and returns it changed,
  and its caller writes it back. What the main process sends, runs and kills is \<open>ms_out\<close>.
\<close>

section \<open>Types\<close>

text \<open>
  group_cfg_st: an array and its size are a list; the six address fields that ip-lease.c reads
  are \<open>gf_lease\<close>.
\<close>

record group_cfg =
  gf_routes :: "string list"
  gf_no_routes :: "string list"
  gf_iroutes :: "byte list list"
  gf_dns :: "string list"
  gf_nbns :: "string list"
  gf_lease :: lease_cfg
  gf_cgroup :: "string option"
  gf_xml_config_file :: "string option"
  gf_rx_per_sec :: u64
  gf_tx_per_sec :: u64
  gf_deny_roaming :: bool
  gf_net_priority :: u32
  gf_no_udp :: bool

definition zero_group_cfg :: group_cfg where
  "zero_group_cfg = \<lparr>gf_routes = [], gf_no_routes = [], gf_iroutes = [], gf_dns = [], gf_nbns = [],
     gf_lease = \<lparr>lc_ipv4_network = None, lc_ipv4_netmask = None, lc_explicit_ipv4 = None,
       lc_ipv6_network = None, lc_ipv6_prefix = 0, lc_explicit_ipv6 = None\<rparr>,
     gf_cgroup = None, gf_xml_config_file = None, gf_rx_per_sec = 0, gf_tx_per_sec = 0,
     gf_deny_roaming = False, gf_net_priority = 0, gf_no_udp = False\<rparr>"

record proc_st =
  pr_addr :: nat
  pr_fd :: int
  pr_pid :: int
  pr_udp_fd_receive_time :: int
  pr_conn_time :: int
  pr_tun_name :: string
  pr_tun_fd :: int
  pr_ipv4 :: "ip_lease option"
  pr_ipv6 :: "ip_lease option"
  pr_remote_addr :: sockaddr
  pr_remote_addr_len :: nat
  pr_sid :: "byte list"
  pr_active_sid :: bool
  pr_dtls_session_id :: "byte list"
  pr_dtls_session_id_size :: nat
  pr_username :: string
  pr_groupname :: string
  pr_hostname :: string
  pr_user_agent :: string
  pr_tls_ciphersuite :: string
  pr_dtls_ciphersuite :: string
  pr_cstp_compr :: string
  pr_dtls_compr :: string
  pr_mtu :: u32
  pr_ipv4_seed :: "byte list"
  pr_status :: auth_status
  pr_resume_reqs :: nat
  pr_bytes_in :: u64
  pr_bytes_out :: u64
  pr_applied_iroutes :: bool
  pr_config :: group_cfg

record script_wait =
  sw_pid :: int
  sw_up :: bool
  sw_proc :: nat

text \<open>
  AuthReplyMsg as the main process fills it. An optional number is packed only when its \<open>has_\<close>
  flag is set: it is an option here, except the prefix, whose flag and value are apart in the
  code as well.
\<close>

record auth_reply =
  ar_session_id :: "byte list"
  ar_vname :: string
  ar_user_name :: string
  ar_group_name :: string
  ar_ipv4 :: "string option"
  ar_ipv4_local :: "string option"
  ar_ipv6 :: "string option"
  ar_ipv6_local :: "string option"
  ar_ipv4_netmask :: "string option"
  ar_ipv4_network :: "string option"
  ar_ipv6_network :: "string option"
  ar_has_ipv6_prefix :: bool
  ar_ipv6_prefix :: nat
  ar_rx_per_sec :: "u32 option"
  ar_tx_per_sec :: "u32 option"
  ar_net_priority :: "u32 option"
  ar_no_udp :: "bool option"
  ar_xml_config_file :: "string option"
  ar_dns :: "string list"
  ar_nbns :: "string list"
  ar_routes :: "string list"
  ar_no_routes :: "string list"

text \<open>What leaves the main process; a worker is named by its address, a reply of None is FAILED.\<close>

datatype main_out =
  O_kill int
| O_session_open nat "byte list" "byte list option"
| O_session_close nat "byte list"
| O_auth_reply nat "auth_reply option"
| O_resume_reply nat resume_reply
| O_udp_fd nat bool "byte list"
| O_secmod_ban_reply bool
| O_script nat bool
| O_tun_owner int
| O_tun_group int
| O_commands "byte list list"
| O_hangup int

record main_server =
  ms_procs :: "proc_st list"
  ms_scripts :: "script_wait list"
  ms_db_ip :: "nat list"
  ms_db_dtls_id :: "nat list"
  ms_db_sid :: "nat list"
  ms_table_total :: u32
  ms_leases :: lease_db
  ms_tls_db :: tls_sess_db
  ms_ban :: ban_db
  ms_active_clients :: u32
  ms_need_maintenance :: bool
  ms_terminate :: bool
  ms_reload :: bool
  ms_out :: "main_out list"

definition GNUTLS_SID :: nat where "GNUTLS_SID = 32"
definition MAX_CIPHERSUITE_NAME :: nat where "MAX_CIPHERSUITE_NAME = 64"
definition IFNAMSIZ :: nat where "IFNAMSIZ = 16"

text \<open>The configuration that the main process reads.\<close>

record main_cfg =
  mg_max_clients :: u32
  mg_max_same_clients :: u32
  mg_connect_script :: bool
  mg_disconnect_script :: bool
  mg_network_name :: string
  mg_network :: vpn_network
  mg_deny_roaming :: bool
  mg_udp_port :: nat
  mg_unix_conn_file :: bool
  mg_uid :: int
  mg_gid :: int
  mg_cookie_timeout :: int
  mg_cookie_key :: "byte list"
  mg_ban :: ban_cfg
  mg_sec_mod_pid :: int
  mg_rx_per_sec :: u64
  mg_tx_per_sec :: u64
  mg_dns :: "string list"
  mg_nbns :: "string list"
  mg_routes :: "string list"
  mg_no_routes :: "string list"

definition out :: "main_out \<Rightarrow> main_server \<Rightarrow> main_server" where
  "out m s = s\<lparr>ms_out := ms_out s @ [m]\<rparr>"

definition get_proc :: "main_server \<Rightarrow> nat \<Rightarrow> proc_st option" where
  "get_proc s a = tbl_get pr_addr a (ms_procs s)"

definition put_proc :: "proc_st \<Rightarrow> main_server \<Rightarrow> main_server" where
  "put_proc p s = s\<lparr>ms_procs := tbl_update pr_addr (pr_addr p) (\<lambda>_. p) (ms_procs s)\<rparr>"

section \<open>Finding workers\<close>

text \<open>
  htable_add takes the first free slot of its probe sequence: \<open>Some i\<close> puts the entry at
  position i of the entries that a search visits, None is a failure.
\<close>

definition ht_add :: "nat \<Rightarrow> nat \<Rightarrow> nat list \<Rightarrow> nat list" where
  "ht_add i a t = take i t @ a # drop i t"

record table_env =
  te_ip :: "nat option"
  te_dtls :: "nat option"
  te_sid :: "nat option"

definition proc_table_init :: "main_server \<Rightarrow> main_server" where
  "proc_table_init s = s\<lparr>ms_db_ip := [], ms_db_dtls_id := [], ms_db_sid := [], ms_table_total := 0\<rparr>"

definition proc_table_deinit :: "main_server \<Rightarrow> main_server" where
  "proc_table_deinit s = s\<lparr>ms_db_ip := [], ms_db_dtls_id := [], ms_db_sid := []\<rparr>"

definition proc_table_add :: "table_env \<Rightarrow> main_server \<Rightarrow> proc_st \<Rightarrow> int \<times> main_server" where
  "proc_table_add env s p =
     (case te_ip env of
        None \<Rightarrow> (-1, s)
      | Some i \<Rightarrow>
          let s1 = s\<lparr>ms_db_ip := ht_add i (pr_addr p) (ms_db_ip s)\<rparr> in
          (case te_dtls env of
             None \<Rightarrow> (-1, s1\<lparr>ms_db_ip := remove1 (pr_addr p) (ms_db_ip s1)\<rparr>)
           | Some j \<Rightarrow>
               let s2 = s1\<lparr>ms_db_dtls_id := ht_add j (pr_addr p) (ms_db_dtls_id s1)\<rparr> in
               (case te_sid env of
                  None \<Rightarrow> (-1, s2\<lparr>ms_db_ip := remove1 (pr_addr p) (ms_db_ip s2),
                            ms_db_dtls_id := remove1 (pr_addr p) (ms_db_dtls_id s2)\<rparr>)
                | Some k \<Rightarrow> (0, s2\<lparr>ms_db_sid := ht_add k (pr_addr p) (ms_db_sid s2),
                              ms_table_total := ms_table_total s2 + 1\<rparr>))))"

definition proc_table_del :: "main_server \<Rightarrow> proc_st \<Rightarrow> main_server" where
  "proc_table_del s p = s\<lparr>ms_db_ip := remove1 (pr_addr p) (ms_db_ip s),
     ms_db_dtls_id := remove1 (pr_addr p) (ms_db_dtls_id s),
     ms_db_sid := remove1 (pr_addr p) (ms_db_sid s)\<rparr>"

text \<open>\<open>htable_get\<close>: the first entry that the comparison accepts.\<close>

fun ht_search :: "main_server \<Rightarrow> (proc_st \<Rightarrow> bool) \<Rightarrow> nat list \<Rightarrow> proc_st option" where
  "ht_search s cmp [] = None"
| "ht_search s cmp (a # as) =
     (case get_proc s a of
        Some p \<Rightarrow> if cmp p then Some p else ht_search s cmp as
      | None \<Rightarrow> ht_search s cmp as)"

definition local_ip_cmp :: "sockaddr \<Rightarrow> nat \<Rightarrow> proc_st \<Rightarrow> bool" where
  "local_ip_cmp addr len p \<longleftrightarrow> pr_remote_addr_len p = len \<and> ip_cmp (pr_remote_addr p) addr = 0"

text \<open>The comparison counts its hits: the search stops at the first, so the count is 0 or 1.\<close>

definition proc_search_ip :: "main_server \<Rightarrow> sockaddr \<Rightarrow> nat \<Rightarrow> proc_st option" where
  "proc_search_ip s addr len =
     (let r = ht_search s (local_ip_cmp addr len) (ms_db_ip s);
          found_ips = (if r = None then 0 else 1 :: nat)
      in if 1 < found_ips then None else r)"

definition dtls_id_cmp :: "byte list \<Rightarrow> proc_st \<Rightarrow> bool" where
  "dtls_id_cmp sid p \<longleftrightarrow> pr_dtls_session_id_size p = length sid
     \<and> take (pr_dtls_session_id_size p) (pr_dtls_session_id p) = sid"

definition proc_search_dtls_id :: "main_server \<Rightarrow> byte list \<Rightarrow> proc_st option" where
  "proc_search_dtls_id s sid = ht_search s (dtls_id_cmp sid) (ms_db_dtls_id s)"

definition sid_cmp :: "byte list \<Rightarrow> proc_st \<Rightarrow> bool" where
  "sid_cmp sid p \<longleftrightarrow> pr_sid p = sid"

definition proc_search_sid :: "main_server \<Rightarrow> byte list \<Rightarrow> proc_st option" where
  "proc_search_sid s sid = ht_search s (sid_cmp sid) (ms_db_sid s)"

section \<open>Scripts\<close>

definition add_to_script_list :: "bool \<Rightarrow> main_server \<Rightarrow> int \<Rightarrow> bool \<Rightarrow> proc_st \<Rightarrow> main_server" where
  "add_to_script_list talloc s pid up p =
     (if talloc
      then s\<lparr>ms_scripts := \<lparr>sw_pid = pid, sw_up = up, sw_proc = pr_addr p\<rparr> # ms_scripts s\<rparr>
      else s)"

definition remove_from_script_list :: "main_server \<Rightarrow> proc_st \<Rightarrow> main_server" where
  "remove_from_script_list s p =
     s\<lparr>ms_scripts := remove_first (\<lambda>w. sw_proc w = pr_addr p) (ms_scripts s)\<rparr>"

text \<open>
  \<open>fork_pid\<close> is what fork returns to the parent, -1 when it fails. The script itself, and the
  environment its child prepares, are outside.
\<close>

record script_env =
  ve_fork_pid :: int
  ve_talloc :: bool

definition call_script ::
  "main_cfg \<Rightarrow> script_env \<Rightarrow> main_server \<Rightarrow> proc_st \<Rightarrow> bool \<Rightarrow> int \<times> main_server" where
  "call_script cfg env s p up =
     (if \<not> (if up then mg_connect_script cfg else mg_disconnect_script cfg) then (0, s)
      else if ve_fork_pid env = -1 then (-1, s)
      else
        let s1 = out (O_script (pr_addr p) up) s in
        if up then (ERR_WAIT_FOR_SCRIPT, add_to_script_list (ve_talloc env) s1 (ve_fork_pid env) up p)
        else (0, s1))"

definition user_connected :: "main_cfg \<Rightarrow> script_env \<Rightarrow> main_server \<Rightarrow> proc_st \<Rightarrow> int \<times> main_server" where
  "user_connected cfg env s p =
     (case call_script cfg env s p True of (ret, s1) \<Rightarrow> (if ret < 0 then ret else 0, s1))"

definition user_disconnected :: "main_cfg \<Rightarrow> script_env \<Rightarrow> main_server \<Rightarrow> proc_st \<Rightarrow> main_server" where
  "user_disconnected cfg env s p = snd (call_script cfg env s p False)"

section \<open>New workers\<close>

text \<open>
  \<open>addr\<close> is where talloc_zero put the record, None when it fails.
\<close>

definition zero_proc :: "nat \<Rightarrow> proc_st" where
  "zero_proc a = \<lparr>pr_addr = a, pr_fd = 0, pr_pid = 0, pr_udp_fd_receive_time = 0, pr_conn_time = 0,
     pr_tun_name = [], pr_tun_fd = 0, pr_ipv4 = None, pr_ipv6 = None,
     pr_remote_addr = null_addr, pr_remote_addr_len = 0,
     pr_sid = replicate 16 0, pr_active_sid = False,
     pr_dtls_session_id = replicate GNUTLS_SID 0, pr_dtls_session_id_size = 0,
     pr_username = [], pr_groupname = [], pr_hostname = [], pr_user_agent = [],
     pr_tls_ciphersuite = [], pr_dtls_ciphersuite = [], pr_cstp_compr = [], pr_dtls_compr = [],
     pr_mtu = 0, pr_ipv4_seed = replicate 4 0, pr_status = PS_AUTH_INACTIVE, pr_resume_reqs = 0,
     pr_bytes_in = 0, pr_bytes_out = 0, pr_applied_iroutes = False, pr_config = zero_group_cfg\<rparr>"

definition new_proc ::
  "nat option \<Rightarrow> int \<Rightarrow> main_server \<Rightarrow> int \<Rightarrow> int \<Rightarrow> sockaddr \<Rightarrow> nat \<Rightarrow> main_server option" where
  "new_proc addr now s pid cmd_fd remote_addr remote_addr_len =
     (case addr of
        None \<Rightarrow> None
      | Some a \<Rightarrow>
          let p = (zero_proc a)\<lparr>pr_pid := pid, pr_tun_fd := -1, pr_fd := cmd_fd, pr_conn_time := now,
                    pr_remote_addr := remote_addr, pr_remote_addr_len := remote_addr_len\<rparr>
          in Some (s\<lparr>ms_procs := p # ms_procs s, ms_active_clients := ms_active_clients s + 1\<rparr>))"

section \<open>Sessions at the security module\<close>

text \<open>SecAuthSessionReplyMsg of a reply that is OK.\<close>

record session_reply_msg =
  sp_no_udp :: "bool option"
  sp_deny_roaming :: "bool option"
  sp_ipv6_prefix :: "nat option"
  sp_rx_per_sec :: u32
  sp_tx_per_sec :: u32
  sp_net_priority :: u32
  sp_ipv4_net :: "string option"
  sp_ipv4_netmask :: "string option"
  sp_ipv6_net :: "string option"
  sp_cgroup :: "string option"
  sp_xml_config_file :: "string option"
  sp_explicit_ipv4 :: "string option"
  sp_explicit_ipv6 :: "string option"
  sp_routes :: "string list"
  sp_no_routes :: "string list"
  sp_iroutes :: "byte list list"
  sp_dns :: "string list"
  sp_nbns :: "string list"

text \<open>
  \<open>sn_send\<close> is what send_msg returns, \<open>sn_reply\<close> what recv_msg returns with the message, None
  for a reply that is not OK; likewise \<open>sn_stats\<close> for the reply to a close.
\<close>

record session_env =
  sn_send :: int
  sn_reply :: "int \<times> session_reply_msg option"
  sn_stats :: "int \<times> u64 \<times> u64"

definition or_old :: "'a option \<Rightarrow> 'a \<Rightarrow> 'a" where
  "or_old x old = (case x of None \<Rightarrow> old | Some v \<Rightarrow> v)"

definition set_if :: "'a option \<Rightarrow> 'a option \<Rightarrow> 'a option" where
  "set_if x old = (if x = None then old else x)"

text \<open>\<open>fill in group_cfg_st\<close>; the copies of the strings are allocated.\<close>

definition fill_lease_cfg :: "session_reply_msg \<Rightarrow> lease_cfg \<Rightarrow> lease_cfg" where
  "fill_lease_cfg m c =
     \<lparr>lc_ipv4_network = set_if (sp_ipv4_net m) (lc_ipv4_network c),
      lc_ipv4_netmask = set_if (sp_ipv4_netmask m) (lc_ipv4_netmask c),
      lc_explicit_ipv4 = set_if (sp_explicit_ipv4 m) (lc_explicit_ipv4 c),
      lc_ipv6_network = set_if (sp_ipv6_net m) (lc_ipv6_network c),
      lc_ipv6_prefix = or_old (sp_ipv6_prefix m) (lc_ipv6_prefix c),
      lc_explicit_ipv6 = set_if (sp_explicit_ipv6 m) (lc_explicit_ipv6 c)\<rparr>"

definition fill_group_cfg :: "session_reply_msg \<Rightarrow> group_cfg \<Rightarrow> group_cfg" where
  "fill_group_cfg m c =
     \<lparr>gf_routes = (if sp_routes m \<noteq> [] then sp_routes m else gf_routes c),
      gf_no_routes = (if sp_no_routes m \<noteq> [] then sp_no_routes m else gf_no_routes c),
      gf_iroutes = (if sp_iroutes m \<noteq> [] then sp_iroutes m else gf_iroutes c),
      gf_dns = (if sp_dns m \<noteq> [] then sp_dns m else gf_dns c),
      gf_nbns = (if sp_nbns m \<noteq> [] then sp_nbns m else gf_nbns c),
      gf_lease = fill_lease_cfg m (gf_lease c),
      gf_cgroup = set_if (sp_cgroup m) (gf_cgroup c),
      gf_xml_config_file = set_if (sp_xml_config_file m) (gf_xml_config_file c),
      gf_rx_per_sec = (if sp_rx_per_sec m \<noteq> 0 then ucast (sp_rx_per_sec m) else gf_rx_per_sec c),
      gf_tx_per_sec = (if sp_tx_per_sec m \<noteq> 0 then ucast (sp_tx_per_sec m) else gf_tx_per_sec c),
      gf_deny_roaming = or_old (sp_deny_roaming m) (gf_deny_roaming c),
      gf_net_priority = (if sp_net_priority m \<noteq> 0 then sp_net_priority m else gf_net_priority c),
      gf_no_udp = or_old (sp_no_udp m) (gf_no_udp c)\<rparr>"

definition session_open ::
  "session_env \<Rightarrow> main_server \<Rightarrow> proc_st \<Rightarrow> byte list option \<Rightarrow> int \<times> proc_st \<times> main_server" where
  "session_open env s p cookie =
     (if sn_send env < 0 then (-1, p, s)
      else
        let s1 = out (O_session_open (pr_addr p) (pr_sid p) cookie) s in
        (case sn_reply env of
           (ret, reply) \<Rightarrow>
             if ret < 0 then (ret, p, s1)
             else (case reply of
                     None \<Rightarrow> (-1, p, s1)
                   | Some m \<Rightarrow> (0, p\<lparr>pr_config := fill_group_cfg m (pr_config p)\<rparr>, s1))))"

definition session_close :: "session_env \<Rightarrow> main_server \<Rightarrow> proc_st \<Rightarrow> int \<times> proc_st \<times> main_server" where
  "session_close env s p =
     (if sn_send env < 0 then (-1, p, s)
      else
        let s1 = out (O_session_close (pr_addr p) (pr_sid p)) s in
        (case sn_stats env of
           (ret, bin, bout) \<Rightarrow>
             if ret < 0 then (ret, p, s1) else (0, p\<lparr>pr_bytes_in := bin, pr_bytes_out := bout\<rparr>, s1)))"

end
