(* ===== verification/MainAuth.thy ===== *)
theory MainAuth
  imports MainProc
begin

text \<open>
  How a worker's client is let in: the cookie of main-auth.c, the limit on connections of one
  user, the tunnel device of tun.c, the connect script of main-user.c, and the handlers of
  main-misc.c that put them together and that remove a worker. Devices, sockets, scripts and
  the security module's answers are parameters.
\<close>

text \<open>
  What ends the main process: a worker pointer that is NULL or dangles, an access outside a
  buffer, or a call that never returns.
\<close>

datatype main_stop = Null_worker | Freed_worker | Bad_memory mem_error | Never_returns

section \<open>Leases of a process\<close>

definition lease_view :: "proc_st \<Rightarrow> lease_proc" where
  "lease_view p = \<lparr>lp_config = gf_lease (pr_config p), lp_seed = pr_ipv4_seed p,
     lp_ipv4 = pr_ipv4 p, lp_ipv6 = pr_ipv6 p\<rparr>"

definition set_leases :: "lease_proc \<Rightarrow> proc_st \<Rightarrow> proc_st" where
  "set_leases l p = p\<lparr>pr_ipv4 := lp_ipv4 l, pr_ipv6 := lp_ipv6 l\<rparr>"

section \<open>The tunnel device\<close>

text \<open>The outcomes of open, of the ioctls (the name of TUNSETIFF) and of the socket.\<close>

record tun_env =
  tu_open :: int
  tu_setiff :: "string option"
  tu_persist :: bool
  tu_owner :: bool
  tu_group :: bool
  tu_socket :: bool
  tu_addr :: bool
  tu_dstaddr :: bool
  tu_flags :: bool
  tu_ipv6 :: bool

definition has_addresses :: "ip_lease option \<Rightarrow> bool" where
  "has_addresses l \<longleftrightarrow> (case l of None \<Rightarrow> False | Some l \<Rightarrow> 0 < le_lip_len l \<and> 0 < le_rip_len l)"

definition set_network_info :: "tun_env \<Rightarrow> main_server \<Rightarrow> proc_st \<Rightarrow> int \<times> proc_st \<times> main_server" where
  "set_network_info env s p =
     (if has_addresses (pr_ipv4 p)
         \<and> \<not> (tu_socket env \<and> tu_addr env \<and> tu_dstaddr env \<and> tu_flags env) then (-1, p, s)
      else
        (case (if has_addresses (pr_ipv6 p) \<and> \<not> tu_ipv6 env
               then (p\<lparr>pr_ipv6 := None\<rparr>, s\<lparr>ms_leases := free_lease (ms_leases s) (pr_ipv6 p)\<rparr>)
               else (p, s)) of
           (p1, s1) \<Rightarrow> if pr_ipv6 p1 = None \<and> pr_ipv4 p1 = None then (-1, p1, s1) else (0, p1, s1)))"

definition open_tun ::
  "main_cfg \<Rightarrow> lease_env \<Rightarrow> tun_env \<Rightarrow> main_server \<Rightarrow> proc_st \<Rightarrow> int \<times> proc_st \<times> main_server" where
  "open_tun cfg lenv env s p =
     (case get_ip_leases lenv (mg_network cfg) (ms_leases s) (lease_view p) of
        (ret, db, l) \<Rightarrow>
          let p1 = set_leases l p; s1 = s\<lparr>ms_leases := db\<rparr> in
          if ret < 0 then (ret, p1, s1)
          else
            let p2 = p1\<lparr>pr_tun_name := strlcpy_str IFNAMSIZ (mg_network_name cfg @ ''%d'')\<rparr> in
            if tu_open env < 0 then (-1, p2, s1)
            else
              (case tu_setiff env of
                 None \<Rightarrow> (-1, p2, s1)
               | Some name \<Rightarrow>
                   let p3 = p2\<lparr>pr_tun_name := name\<rparr>;
                       s2 = (if mg_uid cfg \<noteq> -1 then out (O_tun_owner (mg_uid cfg)) s1 else s1);
                       s3 = (if mg_gid cfg \<noteq> -1 then out (O_tun_group (mg_uid cfg)) s2 else s2)
                   in if \<not> tu_persist env then (-1, p3, s1)
                      else if mg_uid cfg \<noteq> -1 \<and> \<not> tu_owner env then (-1, p3, s2)
                      else if mg_gid cfg \<noteq> -1 \<and> \<not> tu_group env then (-1, p3, s3)
                      else if c_string name = [] then (-1, p3, s3)
                      else
                        (case set_network_info env s3 p3 of
                           (ret, p4, s4) \<Rightarrow>
                             if ret < 0 then (-1, p4, s4)
                             else (0, p4\<lparr>pr_tun_fd := tu_open env\<rparr>, s4))))"

definition close_tun :: "proc_st \<Rightarrow> proc_st" where
  "close_tun p = (if 0 \<le> pr_tun_fd p then p\<lparr>pr_tun_fd := -1\<rparr> else p)"

definition set_tun_mtu :: "bool \<Rightarrow> bool \<Rightarrow> proc_st \<Rightarrow> u32 \<Rightarrow> int \<times> proc_st" where
  "set_tun_mtu socket_ok ioctl_ok p mtu =
     (if c_string (pr_tun_name p) = [] then (-1, p)
      else if \<not> socket_ok then (-1, p)
      else if \<not> ioctl_ok then (-1, p)
      else (0, p\<lparr>pr_mtu := mtu\<rparr>))"

section \<open>The reply to a worker\<close>

text \<open>\<open>human\<close> is human_addr2: an address and its length to a string.\<close>

type_synonym human = "sockaddr \<Rightarrow> nat \<Rightarrow> string option"

definition human_of :: "human \<Rightarrow> (ip_lease \<Rightarrow> sockaddr \<times> nat) \<Rightarrow> ip_lease option \<Rightarrow> string option" where
  "human_of human sel l =
     (case l of None \<Rightarrow> None
      | Some l \<Rightarrow> if 0 < le_rip_len l then (case sel l of (a, n) \<Rightarrow> human a n) else None)"

definition ok_auth_reply :: "human \<Rightarrow> proc_st \<Rightarrow> auth_reply" where
  "ok_auth_reply human p =
     (let c = pr_config p; lc = gf_lease c; rip = (\<lambda>l. (le_rip l, le_rip_len l));
          lip = (\<lambda>l. (le_lip l, le_lip_len l))
      in \<lparr>ar_session_id = pr_dtls_session_id p, ar_vname = pr_tun_name p,
          ar_user_name = pr_username p, ar_group_name = pr_groupname p,
          ar_ipv4 = human_of human rip (pr_ipv4 p), ar_ipv4_local = human_of human lip (pr_ipv4 p),
          ar_ipv6 = human_of human rip (pr_ipv6 p), ar_ipv6_local = human_of human lip (pr_ipv6 p),
          ar_ipv4_netmask = lc_ipv4_netmask lc, ar_ipv4_network = lc_ipv4_network lc,
          ar_ipv6_network = lc_ipv6_network lc, ar_has_ipv6_prefix = False, ar_ipv6_prefix = lc_ipv6_prefix lc,
          ar_rx_per_sec = (if gf_rx_per_sec c \<noteq> 0 then Some (ucast (gf_rx_per_sec c)) else None),
          ar_tx_per_sec = (if gf_tx_per_sec c \<noteq> 0 then Some (ucast (gf_tx_per_sec c)) else None),
          ar_net_priority = (if gf_net_priority c \<noteq> 0 then Some (gf_net_priority c) else None),
          ar_no_udp = (if gf_no_udp c then Some True else None),
          ar_xml_config_file = gf_xml_config_file c, ar_dns = gf_dns c, ar_nbns = gf_nbns c,
          ar_routes = gf_routes c, ar_no_routes = gf_no_routes c\<rparr>)"

definition send_cookie_auth_reply ::
  "human \<Rightarrow> int \<Rightarrow> main_server \<Rightarrow> proc_st \<Rightarrow> bool \<Rightarrow> int \<times> main_server" where
  "send_cookie_auth_reply human send s p ok =
     (let msg = (if ok \<and> c_string (pr_tun_name p) \<noteq> [] then Some (ok_auth_reply human p) else None)
      in if send < 0 then (send, s) else (0, out (O_auth_reply (pr_addr p) msg) s))"

section \<open>The cookie\<close>

record auth_env =
  ae_cookie :: cookie_env
  ae_rnd :: "byte list option"
  ae_session :: session_env
  ae_human :: human
  ae_table :: table_env

definition apply_default_sup_config :: "main_cfg \<Rightarrow> proc_st \<Rightarrow> proc_st" where
  "apply_default_sup_config cfg p =
     p\<lparr>pr_config := (pr_config p)\<lparr>gf_deny_roaming := mg_deny_roaming cfg,
       gf_no_udp := (mg_udp_port cfg = 0)\<rparr>\<rparr>"

text \<open>memcpy of the four bytes of an unsigned.\<close>

definition u32_bytes :: "u32 \<Rightarrow> byte list" where
  "u32_bytes w = [ucast w, ucast (drop_bit 8 w), ucast (drop_bit 16 w), ucast (drop_bit 24 w)]"

text \<open>From the check of the address to the end of the function.\<close>

definition roaming_denied :: "human \<Rightarrow> proc_st \<Rightarrow> cookie_msg \<Rightarrow> bool" where
  "roaming_denied human p c \<longleftrightarrow> gf_deny_roaming (pr_config p)
     \<and> (case (ck_ip c, human (pr_remote_addr p) (pr_remote_addr_len p)) of
          (Some ip, Some here) \<Rightarrow> here \<noteq> ip | _ \<Rightarrow> True)"

definition take_over :: "main_server \<Rightarrow> proc_st \<Rightarrow> proc_st \<Rightarrow> proc_st \<times> main_server" where
  "take_over s old p =
     (case steal_ip_leases (lease_view old) (lease_view p) of
        (l_old, l) \<Rightarrow>
          let s1 = put_proc (set_leases l_old old) s
          in (set_leases l p, if 0 < pr_pid old then out (O_kill (pr_pid old)) s1 else s1))"

definition join_session ::
  "auth_env \<Rightarrow> main_server \<Rightarrow> proc_st \<Rightarrow> cookie_msg \<Rightarrow> int \<times> proc_st \<times> main_server" where
  "join_session env s p c =
     (case proc_search_sid s (ck_sid c) of
        Some old \<Rightarrow>
          if pr_username p \<noteq> pr_username old then (-1, p, s)
          else (case take_over s old p of (p1, s1) \<Rightarrow> (0, p1, s1))
      | None \<Rightarrow> (0, p, s))"

text \<open>What the cookie sets in the process, with the fresh DTLS session id \<open>rnd\<close>.\<close>

definition cookie_fields :: "main_cfg \<Rightarrow> proc_st \<Rightarrow> cookie_msg \<Rightarrow> byte list \<Rightarrow> proc_st" where
  "cookie_fields cfg p c rnd =
     apply_default_sup_config cfg
       (p\<lparr>pr_dtls_session_id := rnd, pr_dtls_session_id_size := GNUTLS_SID, pr_sid := ck_sid c,
          pr_groupname := (case ck_groupname c of None \<Rightarrow> pr_groupname p
            | Some g \<Rightarrow> strlcpy_str MAX_GROUPNAME_SIZE g),
          pr_config := zero_group_cfg\<rparr>)"

definition session_fields :: "proc_st \<Rightarrow> cookie_msg \<Rightarrow> proc_st" where
  "session_fields p c =
     p\<lparr>pr_hostname := (case ck_hostname c of None \<Rightarrow> pr_hostname p
         | Some h \<Rightarrow> strlcpy_str MAX_USERNAME_SIZE h),
       pr_ipv4_seed := u32_bytes (ck_ipv4_seed c)\<rparr>"

text \<open>From \<open>loads sup config\<close> on.\<close>

definition enter_session ::
  "auth_env \<Rightarrow> main_server \<Rightarrow> proc_st \<Rightarrow> cookie_msg \<Rightarrow> byte list \<Rightarrow> int \<times> proc_st \<times> main_server" where
  "enter_session env s p c cookie =
     (case session_open (ae_session env) s p (Some cookie) of
        (ret, p1, s1) \<Rightarrow>
          if ret < 0 then (-1, p1, s1)
          else
            let p2 = p1\<lparr>pr_active_sid := True\<rparr> in
            if roaming_denied (ae_human env) p2 c then (-1, p2, s1)
            else
              (case join_session env s1 p2 c of
                 (ret, p3, s2) \<Rightarrow>
                   if ret < 0 then (-1, p3, s2)
                   else
                     let p4 = session_fields p3 c in
                     (case proc_table_add (ae_table env) s2 p4 of
                        (ret, s3) \<Rightarrow> (if ret < 0 then -1 else 0, p4, s3))))"

definition handle_auth_cookie_req ::
  "main_cfg \<Rightarrow> auth_env \<Rightarrow> main_server \<Rightarrow> proc_st \<Rightarrow> byte list \<Rightarrow> int \<times> proc_st \<times> main_server" where
  "handle_auth_cookie_req cfg env s p cookie =
     (if length cookie = 0 then (-1, p, s)
      else
        (case decrypt_cookie (ae_cookie env) (mg_cookie_key cfg) cookie of
           (ret, None) \<Rightarrow> (-1, p, s)
         | (ret, Some c) \<Rightarrow>
             if ret < 0 then (-1, p, s)
             else
               (case ck_username c of
                  None \<Rightarrow> (-1, p, s)
                | Some u \<Rightarrow>
                    let p1 = p\<lparr>pr_username := strlcpy_str MAX_USERNAME_SIZE u\<rparr> in
                    if length (ck_sid c) \<noteq> SID_SIZE then (-1, p1, s)
                    else
                      (case ae_rnd env of
                         None \<Rightarrow> (-1, p1, s)
                       | Some rnd \<Rightarrow> enter_session env s (cookie_fields cfg p1 c rnd) c cookie))))"

definition check_multiple_users :: "main_cfg \<Rightarrow> main_server \<Rightarrow> proc_st \<Rightarrow> int" where
  "check_multiple_users cfg s p =
     (if mg_max_same_clients cfg = 0 then 0
      else
        let entries = 1 + of_nat (length (filter (\<lambda>q. pr_addr q \<noteq> pr_addr p \<and> pr_pid q \<noteq> -1
              \<and> pr_username p = pr_username q) (ms_procs s))) :: u32
        in if mg_max_same_clients cfg < entries then -1 else 0)"

section \<open>Letting a user in\<close>

record accept_env =
  xe_lease :: lease_env
  xe_tun :: tun_env
  xe_script :: script_env
  xe_human :: human
  xe_send :: int
  xe_route :: route_env

text \<open>\<open>is_cookie\<close> says whether the command is AUTH_COOKIE_REQ.\<close>

definition accept_user ::
  "main_cfg \<Rightarrow> accept_env \<Rightarrow> main_server \<Rightarrow> proc_st \<Rightarrow> bool \<Rightarrow> int \<times> proc_st \<times> main_server" where
  "accept_user cfg env s p is_cookie =
     (let ret = check_multiple_users cfg s p in
      if ret < 0 then (ret, p, s)
      else
        (case open_tun cfg (xe_lease env) (xe_tun env) s p of
           (ret, p1, s1) \<Rightarrow>
             if ret < 0 then (-1, p1, s1)
             else if \<not> is_cookie then (ERR_BAD_COMMAND, p1, s1)
             else (case user_connected cfg (xe_script env) s1 p1 of (ret, s2) \<Rightarrow> (ret, p1, s2))))"

type_synonym main_result = "main_stop + int \<times> proc_st \<times> main_server"

definition name_bytes :: "string \<Rightarrow> byte list" where
  "name_bytes s = map of_char s"

text \<open>apply_iroutes and remove_iroutes of route-add.c on the process.\<close>

definition run_iroutes ::
  "(mem_error + bool \<times> byte list list) option \<Rightarrow> main_server \<Rightarrow> proc_st \<Rightarrow> main_stop + proc_st \<times> main_server" where
  "run_iroutes r s p =
     (case r of
        None \<Rightarrow> Inl Never_returns
      | Some (Inl err) \<Rightarrow> Inl (Bad_memory err)
      | Some (Inr (applied, cmds)) \<Rightarrow>
          Inr (p\<lparr>pr_applied_iroutes := applied\<rparr>, if cmds = [] then s else out (O_commands cmds) s))"

definition apply_proc_iroutes :: "route_env \<Rightarrow> main_server \<Rightarrow> proc_st \<Rightarrow> main_stop + proc_st \<times> main_server" where
  "apply_proc_iroutes env s p =
     run_iroutes (apply_iroutes env (gf_iroutes (pr_config p)) (name_bytes (pr_tun_name p))
       (pr_applied_iroutes p)) s p"

definition remove_proc_iroutes :: "route_env \<Rightarrow> main_server \<Rightarrow> proc_st \<Rightarrow> main_stop + proc_st \<times> main_server" where
  "remove_proc_iroutes env s p =
     run_iroutes (remove_iroutes env (gf_iroutes (pr_config p)) (name_bytes (pr_tun_name p))
       (pr_applied_iroutes p)) s p"

text \<open>The \<open>fail\<close> label: the tun descriptor is closed in every case.\<close>

definition handle_script_exit ::
  "human \<Rightarrow> int \<Rightarrow> route_env \<Rightarrow> main_server \<Rightarrow> proc_st \<Rightarrow> int \<Rightarrow> main_result" where
  "handle_script_exit human send renv s p code =
     (if code = 0 then
        let p1 = p\<lparr>pr_status := PS_AUTH_COMPLETED\<rparr> in
        (case send_cookie_auth_reply human send s p1 True of
           (ret, s1) \<Rightarrow>
             if ret < 0 then Inr (ERR_BAD_COMMAND, p1\<lparr>pr_tun_fd := -1\<rparr>, s1)
             else (case apply_proc_iroutes renv s1 p1 of
                     Inl err \<Rightarrow> Inl err
                   | Inr (p2, s2) \<Rightarrow> Inr (0, p2\<lparr>pr_tun_fd := -1\<rparr>, s2)))
      else
        (case send_cookie_auth_reply human send s p False of
           (ret, s1) \<Rightarrow>
             Inr (if ret < 0 then ERR_BAD_COMMAND else 0, p\<lparr>pr_tun_fd := -1\<rparr>, s1)))"

definition handle_cookie_auth_res ::
  "main_cfg \<Rightarrow> accept_env \<Rightarrow> main_server \<Rightarrow> proc_st \<Rightarrow> bool \<Rightarrow> int \<Rightarrow> main_result" where
  "handle_cookie_auth_res cfg env s p is_cookie result =
     (case (if result = 0 then
              (case accept_user cfg env s p is_cookie of
                 (ret, p1, s1) \<Rightarrow>
                   (ret, p1\<lparr>pr_status := (if ret < 0 then PS_AUTH_FAILED else PS_AUTH_COMPLETED)\<rparr>, s1))
            else (if result < 0 then result else ERR_BAD_COMMAND, p\<lparr>pr_status := PS_AUTH_FAILED\<rparr>, s)) of
        (ret, p1, s1) \<Rightarrow>
          if ret = ERR_WAIT_FOR_SCRIPT then Inr (0, p1, s1)
          else
            (case handle_script_exit (xe_human env) (xe_send env) (xe_route env) s1 p1 ret of
               Inl err \<Rightarrow> Inl err
             | Inr (ret, p2, s2) \<Rightarrow>
                 Inr (ret, if ret < 0 then p2\<lparr>pr_status := PS_AUTH_FAILED\<rparr> else p2, s2)))"

section \<open>Removing a worker\<close>

record remove_env =
  re_session :: session_env
  re_script :: script_env
  re_route :: route_env

definition unlink_proc :: "main_server \<Rightarrow> proc_st \<Rightarrow> bool \<Rightarrow> main_server" where
  "unlink_proc s p k =
     (let s1 = s\<lparr>ms_procs := remove_first (\<lambda>q. pr_addr q = pr_addr p) (ms_procs s),
                ms_active_clients := ms_active_clients s - 1\<rparr>
      in if k \<and> pr_pid p \<noteq> -1 \<and> pr_pid p \<noteq> 0 then out (O_kill (pr_pid p)) s1 else s1)"

text \<open>The session, the script list, the disconnect script and the command socket.\<close>

definition leave_session :: "main_cfg \<Rightarrow> remove_env \<Rightarrow> main_server \<Rightarrow> proc_st \<Rightarrow> proc_st \<times> main_server" where
  "leave_session cfg env s p =
     (case (if pr_active_sid p then snd (session_close (re_session env) s p) else (p, s)) of
        (p1, s1) \<Rightarrow>
          let s2 = remove_from_script_list s1 p1 in
          (p1\<lparr>pr_fd := -1, pr_pid := -1\<rparr>,
           if pr_status p1 = PS_AUTH_COMPLETED then user_disconnected cfg (re_script env) s2 p1 else s2))"

text \<open>The leases, the device and the tables.\<close>

definition release_proc :: "main_server \<Rightarrow> proc_st \<Rightarrow> main_server" where
  "release_proc s p =
     (case remove_ip_leases (ms_leases s) (lease_view p) of
        (db, l) \<Rightarrow>
          proc_table_del (if pr_ipv4 p \<noteq> None \<or> pr_ipv6 p \<noteq> None then s\<lparr>ms_leases := db\<rparr> else s)
            (close_tun (if pr_ipv4 p \<noteq> None \<or> pr_ipv6 p \<noteq> None then set_leases l p else p)))"

definition remove_proc ::
  "main_cfg \<Rightarrow> remove_env \<Rightarrow> main_server \<Rightarrow> proc_st \<Rightarrow> bool \<Rightarrow> main_stop + main_server" where
  "remove_proc cfg env s p k =
     (case leave_session cfg env (unlink_proc s p k) p of
        (p1, s1) \<Rightarrow>
          (case remove_proc_iroutes (re_route env) s1 p1 of
             Inl err \<Rightarrow> Inl err
           | Inr (p2, s2) \<Rightarrow> Inr (release_proc s2 p2)))"

end
