(* ===== verification/MainCtl.thy ===== *)
theory MainCtl
  imports MainAuth
begin

text \<open>
  The control socket of the main process, src/main-ctl-unix.c: what occtl asks for and what it
  changes. Unpacking of the protobuf messages, the peer check and allocations are parameters;
  a reply that is not sent is None.
\<close>

section \<open>Replies\<close>

record user_info =
  ui_id :: int
  ui_username :: string
  ui_groupname :: string
  ui_ip :: string
  ui_tun :: string
  ui_local_ip :: string
  ui_remote_ip :: string
  ui_local_ip6 :: string
  ui_remote_ip6 :: string
  ui_conn_time :: int
  ui_hostname :: string
  ui_user_agent :: string
  ui_status :: string
  ui_tls_ciphersuite :: string
  ui_dtls_ciphersuite :: string
  ui_cstp_compr :: string
  ui_dtls_compr :: string
  ui_mtu :: "u32 option"
  ui_rx_per_sec :: u32
  ui_tx_per_sec :: u32
  ui_dns :: "string list"
  ui_nbns :: "string list"
  ui_routes :: "string list"
  ui_no_routes :: "string list"
  ui_iroutes :: "byte list list"

record ban_info =
  bi_ip :: string
  bi_score :: u32
  bi_expires :: "int option"

record status_rep =
  sr_sec_mod_pid :: int
  sr_active_clients :: u32
  sr_stored_tls_sessions :: u32
  sr_banned_ips :: nat

datatype ctl_reply =
  Rep_status status_rep
| Rep_bool bool
| Rep_users "user_info list"
| Rep_bans "ban_info list"

record ctl_env =
  cl_peer_ok :: bool
  cl_talloc :: bool
  cl_human :: human
  cl_username :: "byte list \<Rightarrow> string option"
  cl_id :: "byte list \<Rightarrow> int option"
  cl_unban :: "byte list \<Rightarrow> string option option"
  cl_remove :: remove_env

section \<open>Information\<close>

definition status_name :: "auth_status \<Rightarrow> string" where
  "status_name st =
     (if st = PS_AUTH_COMPLETED then ''connected'' else if st = PS_AUTH_INIT then ''auth''
      else if st = PS_AUTH_INACTIVE then ''pre-auth'' else if st = PS_AUTH_FAILED then ''auth failed''
      else ''unknown'')"

definition human_or_empty :: "human \<Rightarrow> (ip_lease \<Rightarrow> sockaddr \<times> nat) \<Rightarrow> ip_lease option \<Rightarrow> string" where
  "human_or_empty human sel l =
     (case l of None \<Rightarrow> [] | Some l \<Rightarrow> (case sel l of (a, n) \<Rightarrow> or_old (human a n) []))"

definition list_or :: "'a list \<Rightarrow> 'a list \<Rightarrow> 'a list" where
  "list_or own common = (if own \<noteq> [] then own else common)"

text \<open>The rate in bytes, in an unsigned of 32 bits.\<close>

definition ctl_rate :: "u64 \<Rightarrow> u64 \<Rightarrow> u32" where
  "ctl_rate own common = ucast (if 0 < own then own else common) * 1000"

definition append_user_info :: "main_cfg \<Rightarrow> ctl_env \<Rightarrow> proc_st \<Rightarrow> bool \<Rightarrow> user_info option" where
  "append_user_info cfg env p single =
     (if \<not> cl_talloc env then None
      else
        let h = cl_human env; rip = (\<lambda>l. (le_rip l, le_rip_len l)); lip = (\<lambda>l. (le_lip l, le_lip_len l));
            c = pr_config p
        in Some \<lparr>ui_id = pr_pid p, ui_username = pr_username p, ui_groupname = pr_groupname p,
             ui_ip = or_old (h (pr_remote_addr p) (pr_remote_addr_len p)) [], ui_tun = pr_tun_name p,
             ui_local_ip = human_or_empty h rip (pr_ipv4 p),
             ui_remote_ip = human_or_empty h lip (pr_ipv4 p),
             ui_local_ip6 = human_or_empty h rip (pr_ipv6 p),
             ui_remote_ip6 = human_or_empty h lip (pr_ipv6 p),
             ui_conn_time = pr_conn_time p, ui_hostname = pr_hostname p,
             ui_user_agent = pr_user_agent p, ui_status = status_name (pr_status p),
             ui_tls_ciphersuite = pr_tls_ciphersuite p, ui_dtls_ciphersuite = pr_dtls_ciphersuite p,
             ui_cstp_compr = pr_cstp_compr p, ui_dtls_compr = pr_dtls_compr p,
             ui_mtu = (if 0 < pr_mtu p then Some (pr_mtu p) else None),
             ui_rx_per_sec = (if single then ctl_rate (gf_rx_per_sec c) (mg_rx_per_sec cfg) else 0),
             ui_tx_per_sec = (if single then ctl_rate (gf_tx_per_sec c) (mg_tx_per_sec cfg) else 0),
             ui_dns = (if single then list_or (gf_dns c) (mg_dns cfg) else []),
             ui_nbns = (if single then list_or (gf_nbns c) (mg_nbns cfg) else []),
             ui_routes = (if single then list_or (gf_routes c) (mg_routes cfg) else []),
             ui_no_routes = (if single then list_or (gf_no_routes c) (mg_no_routes cfg) else []),
             ui_iroutes = (if single then gf_iroutes c else [])\<rparr>)"

fun append_users :: "main_cfg \<Rightarrow> ctl_env \<Rightarrow> bool \<Rightarrow> proc_st list \<Rightarrow> user_info list option" where
  "append_users cfg env single [] = Some []"
| "append_users cfg env single (p # ps) =
     (case append_user_info cfg env p single of
        None \<Rightarrow> None
      | Some u \<Rightarrow> map_option ((#) u) (append_users cfg env single ps))"

definition method_status :: "main_cfg \<Rightarrow> main_server \<Rightarrow> ctl_reply" where
  "method_status cfg s = Rep_status \<lparr>sr_sec_mod_pid = mg_sec_mod_pid cfg,
     sr_active_clients = ms_active_clients s, sr_stored_tls_sessions = td_entries (ms_tls_db s),
     sr_banned_ips = main_ban_db_elems (ms_ban s)\<rparr>"

definition method_list_users :: "main_cfg \<Rightarrow> ctl_env \<Rightarrow> main_server \<Rightarrow> ctl_reply option" where
  "method_list_users cfg env s = map_option Rep_users (append_users cfg env False (ms_procs s))"

definition append_ban_info :: "main_cfg \<Rightarrow> ctl_env \<Rightarrow> ban_entry \<Rightarrow> ban_info option" where
  "append_ban_info cfg env e =
     (if \<not> cl_talloc env then None
      else Some \<lparr>bi_ip = be_ip e, bi_score = be_score e,
             bi_expires = (if 0 < bc_max_ban_score (mg_ban cfg) \<and> max_score (mg_ban cfg) \<le> be_score e
                           then Some (be_expires e) else None)\<rparr>)"

fun append_bans :: "main_cfg \<Rightarrow> ctl_env \<Rightarrow> ban_entry list \<Rightarrow> ban_info list option" where
  "append_bans cfg env [] = Some []"
| "append_bans cfg env (e # es) =
     (case append_ban_info cfg env e of
        None \<Rightarrow> None
      | Some b \<Rightarrow> map_option ((#) b) (append_bans cfg env es))"

text \<open>htable_first reads through the pointer of the ban table.\<close>

definition method_list_banned :: "main_cfg \<Rightarrow> ctl_env \<Rightarrow> main_server \<Rightarrow> main_stop + ctl_reply option" where
  "method_list_banned cfg env s =
     (case ms_ban s of
        None \<Rightarrow> Inl (Bad_memory Null_pointer)
      | Some t \<Rightarrow> Inr (map_option Rep_bans (append_bans cfg env t)))"

text \<open>
  The loop of single_info_common: with an id it stops at the first worker that has it.
\<close>

definition selected :: "string option \<Rightarrow> u32 \<Rightarrow> proc_st \<Rightarrow> bool" where
  "selected user uid p \<longleftrightarrow>
     (case user of
        None \<Rightarrow> uid \<noteq> 0 \<and> uid \<noteq> -1 \<and> uid = word_of_int (pr_pid p)
      | Some u \<Rightarrow> pr_username p = u)"

definition single_info_common ::
  "main_cfg \<Rightarrow> ctl_env \<Rightarrow> main_server \<Rightarrow> string option \<Rightarrow> u32 \<Rightarrow> ctl_reply option" where
  "single_info_common cfg env s user uid =
     (let ps = filter (selected user uid) (ms_procs s)
      in map_option Rep_users (append_users cfg env True (if uid \<noteq> 0 then take 1 ps else ps)))"

section \<open>Commands\<close>

definition method_unban_ip :: "main_server \<Rightarrow> string option \<Rightarrow> ctl_reply \<times> main_server" where
  "method_unban_ip s ip =
     (case remove_ip_from_ban_list (ms_ban s) ip of
        (ret, db) \<Rightarrow> (Rep_bool (ret \<noteq> 0), s\<lparr>ms_ban := db\<rparr>))"

definition terminate_proc :: "main_cfg \<Rightarrow> ctl_env \<Rightarrow> main_server \<Rightarrow> proc_st \<Rightarrow> main_stop + main_server" where
  "terminate_proc cfg env s p =
     (if pr_pid p \<noteq> -1 \<and> pr_pid p \<noteq> 0 then Inr (out (O_kill (pr_pid p)) s)
      else remove_proc cfg (cl_remove env) s p True)"

text \<open>
  list_for_each_safe over the workers that the loop started with; \<open>one\<close> ends it after a hit.
\<close>

fun disconnect ::
  "main_cfg \<Rightarrow> ctl_env \<Rightarrow> (proc_st \<Rightarrow> bool) \<Rightarrow> bool \<Rightarrow> bool \<Rightarrow> main_server \<Rightarrow> nat list
    \<Rightarrow> main_stop + bool \<times> main_server" where
  "disconnect cfg env hit one status s [] = Inr (status, s)"
| "disconnect cfg env hit one status s (a # as) =
     (case get_proc s a of
        None \<Rightarrow> Inl Freed_worker
      | Some p \<Rightarrow>
          if hit p then
            (case terminate_proc cfg env s p of
               Inl err \<Rightarrow> Inl err
             | Inr s1 \<Rightarrow> if one then Inr (True, s1) else disconnect cfg env hit one True s1 as)
          else disconnect cfg env hit one status s as)"

definition method_disconnect_user_name ::
  "main_cfg \<Rightarrow> ctl_env \<Rightarrow> main_server \<Rightarrow> string \<Rightarrow> main_stop + ctl_reply option \<times> main_server" where
  "method_disconnect_user_name cfg env s user =
     map_sum id (\<lambda>(st, s1). (Some (Rep_bool st), s1))
       (disconnect cfg env (\<lambda>p. pr_username p = user) False False s (map pr_addr (ms_procs s)))"

definition method_disconnect_user_id ::
  "main_cfg \<Rightarrow> ctl_env \<Rightarrow> main_server \<Rightarrow> int \<Rightarrow> main_stop + ctl_reply option \<times> main_server" where
  "method_disconnect_user_id cfg env s pid =
     map_sum id (\<lambda>(st, s1). (Some (Rep_bool st), s1))
       (disconnect cfg env (\<lambda>p. pr_pid p = pid) (pid \<noteq> -1) False s (map pr_addr (ms_procs s)))"

section \<open>The socket\<close>

text \<open>The numbers of ctl.h.\<close>

definition CTL_CMD_STATUS :: byte where "CTL_CMD_STATUS = 1"
definition CTL_CMD_RELOAD :: byte where "CTL_CMD_RELOAD = 2"
definition CTL_CMD_STOP :: byte where "CTL_CMD_STOP = 3"
definition CTL_CMD_LIST :: byte where "CTL_CMD_LIST = 4"
definition CTL_CMD_USER_INFO :: byte where "CTL_CMD_USER_INFO = 5"
definition CTL_CMD_ID_INFO :: byte where "CTL_CMD_ID_INFO = 6"
definition CTL_CMD_DISCONNECT_NAME :: byte where "CTL_CMD_DISCONNECT_NAME = 7"
definition CTL_CMD_DISCONNECT_ID :: byte where "CTL_CMD_DISCONNECT_ID = 8"
definition CTL_CMD_UNBAN_IP :: byte where "CTL_CMD_UNBAN_IP = 10"
definition CTL_CMD_LIST_BANNED :: byte where "CTL_CMD_LIST_BANNED = 9"

lemmas ctl_cmds = CTL_CMD_STATUS_def CTL_CMD_RELOAD_def CTL_CMD_STOP_def CTL_CMD_LIST_def
  CTL_CMD_USER_INFO_def CTL_CMD_ID_INFO_def CTL_CMD_DISCONNECT_NAME_def CTL_CMD_DISCONNECT_ID_def
  CTL_CMD_UNBAN_IP_def CTL_CMD_LIST_BANNED_def

definition method_reload :: "main_server \<Rightarrow> ctl_reply option \<times> main_server" where
  "method_reload s = (Some (Rep_bool True), s\<lparr>ms_reload := True\<rparr>)"

definition method_stop :: "main_server \<Rightarrow> ctl_reply option \<times> main_server" where
  "method_stop s = (Some (Rep_bool True), s\<lparr>ms_terminate := True\<rparr>)"

definition method_user_info :: "main_cfg \<Rightarrow> ctl_env \<Rightarrow> main_server \<Rightarrow> byte list \<Rightarrow> ctl_reply option" where
  "method_user_info cfg env s msg =
     (case cl_username env msg of None \<Rightarrow> None | Some u \<Rightarrow> single_info_common cfg env s (Some u) 0)"

definition method_id_info :: "main_cfg \<Rightarrow> ctl_env \<Rightarrow> main_server \<Rightarrow> byte list \<Rightarrow> ctl_reply option" where
  "method_id_info cfg env s msg =
     (case cl_id env msg of None \<Rightarrow> None | Some i \<Rightarrow> single_info_common cfg env s None (word_of_int i))"

text \<open>The dispatch over the table of methods.\<close>

definition ctl_method ::
  "main_cfg \<Rightarrow> ctl_env \<Rightarrow> main_server \<Rightarrow> byte \<Rightarrow> byte list \<Rightarrow> main_stop + ctl_reply option \<times> main_server" where
  "ctl_method cfg env s cmd msg =
     (if cmd = CTL_CMD_STATUS then Inr (Some (method_status cfg s), s)
      else if cmd = CTL_CMD_RELOAD then Inr (method_reload s)
      else if cmd = CTL_CMD_STOP then Inr (method_stop s)
      else if cmd = CTL_CMD_LIST then Inr (method_list_users cfg env s, s)
      else if cmd = CTL_CMD_LIST_BANNED then map_sum id (\<lambda>r. (r, s)) (method_list_banned cfg env s)
      else if cmd = CTL_CMD_USER_INFO then Inr (method_user_info cfg env s msg, s)
      else if cmd = CTL_CMD_ID_INFO then Inr (method_id_info cfg env s msg, s)
      else if cmd = CTL_CMD_UNBAN_IP then
        (case cl_unban env msg of
           None \<Rightarrow> Inr (None, s)
         | Some ip \<Rightarrow> (case method_unban_ip s ip of (r, s1) \<Rightarrow> Inr (Some r, s1)))
      else if cmd = CTL_CMD_DISCONNECT_NAME then
        (case cl_username env msg of
           None \<Rightarrow> Inr (None, s) | Some u \<Rightarrow> method_disconnect_user_name cfg env s u)
      else if cmd = CTL_CMD_DISCONNECT_ID then
        (case cl_id env msg of
           None \<Rightarrow> Inr (None, s) | Some i \<Rightarrow> method_disconnect_user_id cfg env s i)
      else Inr (None, s))"

text \<open>\<open>buffer\<close> is what recv got: a command byte, a length of two bytes, the message.\<close>

definition ctl_handle_commands ::
  "main_cfg \<Rightarrow> ctl_env \<Rightarrow> main_server \<Rightarrow> byte list \<Rightarrow> main_stop + ctl_reply option \<times> main_server" where
  "ctl_handle_commands cfg env s buffer =
     (if \<not> cl_peer_ok env then Inr (None, s)
      else if length buffer < 3 then Inr (None, s)
      else if unat (buffer ! 1) + 256 * unat (buffer ! 2) \<noteq> length buffer - 3 then Inr (None, s)
      else ctl_method cfg env s (buffer ! 0) (drop 3 buffer))"

end
