(* ===== verification/MainLoop.thy ===== *)
theory MainLoop
  imports MainCtl
begin

text \<open>
  The main process's loop: the commands of workers (main-misc.c) and of the security module
  (main-sec-mod-cmd.c), and of main.c the children that exit, the datagrams that go to a
  worker, new connections, the control socket, maintenance and the end. A message is what unpacking gives, None
  when it fails. One event is one round of one of these.
\<close>

section \<open>Commands of a worker\<close>

record session_info =
  si_tls_ciphersuite :: "string option"
  si_dtls_ciphersuite :: "string option"
  si_cstp_compr :: "string option"
  si_dtls_compr :: "string option"
  si_user_agent :: "string option"

datatype worker_req =
  R_ban_ip "(string option \<times> u32) option"
| R_tun_mtu "u32 option"
| R_session_info "session_info option"
| R_resume_store "(byte list \<times> byte list) option"
| R_resume_delete "byte list option"
| R_resume_fetch "byte list option"
| R_auth_cookie "byte list option"
| R_unknown

text \<open>What reading the command socket gives.\<close>

datatype 'm received = Recv_error | Recv_closed | Recv_short | Recv_no_memory | Recv_partial | Recv 'm

definition ERR_WORKER_TERMINATED :: int where "ERR_WORKER_TERMINATED = ERR_PEER_TERMINATED"
definition USER_AGENT_SIZE :: nat where "USER_AGENT_SIZE = 48"
definition COMPR_SIZE :: nat where "COMPR_SIZE = 8"

record command_env =
  wc_auth :: auth_env
  wc_accept :: accept_env
  wc_now :: int
  wc_ban_alloc :: ban_alloc
  wc_store :: store_env
  wc_reply_sent :: bool
  wc_mtu_socket :: bool
  wc_mtu_ioctl :: bool

definition resume_view :: "proc_st \<Rightarrow> resume_proc" where
  "resume_view p = \<lparr>rp_remote_addr = pr_remote_addr p, rp_remote_addr_len = pr_remote_addr_len p,
     rp_resume_reqs = pr_resume_reqs p\<rparr>"

definition copy_if :: "nat \<Rightarrow> string option \<Rightarrow> string \<Rightarrow> string" where
  "copy_if n x old = (case x of None \<Rightarrow> old | Some v \<Rightarrow> strlcpy_str n v)"

definition set_session_info :: "session_info \<Rightarrow> proc_st \<Rightarrow> proc_st" where
  "set_session_info m p =
     p\<lparr>pr_tls_ciphersuite := copy_if MAX_CIPHERSUITE_NAME (si_tls_ciphersuite m) (pr_tls_ciphersuite p),
       pr_dtls_ciphersuite := copy_if MAX_CIPHERSUITE_NAME (si_dtls_ciphersuite m) (pr_dtls_ciphersuite p),
       pr_cstp_compr := copy_if COMPR_SIZE (si_cstp_compr m) (pr_cstp_compr p),
       pr_dtls_compr := copy_if COMPR_SIZE (si_dtls_compr m) (pr_dtls_compr p),
       pr_user_agent := copy_if USER_AGENT_SIZE (si_user_agent m) (pr_user_agent p)\<rparr>"

text \<open>
  The reply to CMD_BAN_IP is sent with a NULL process, whose fd send_msg_to_worker reads.
\<close>

definition send_msg_to_worker :: "bool \<Rightarrow> main_server \<Rightarrow> proc_st option \<Rightarrow> main_out \<Rightarrow> main_stop + int \<times> main_server" where
  "send_msg_to_worker sent s p m =
     (case p of None \<Rightarrow> Inl Null_worker | Some _ \<Rightarrow> Inr (if sent then (0, out m s) else (-1, s)))"

definition cmd_ban_ip ::
  "main_cfg \<Rightarrow> command_env \<Rightarrow> main_server \<Rightarrow> proc_st \<Rightarrow> string option \<Rightarrow> u32 \<Rightarrow> main_result" where
  "cmd_ban_ip cfg env s p ip score =
     (case add_ip_to_ban_list (mg_ban cfg) (wc_ban_alloc env) (wc_now env) (ms_ban s) ip score of
        ((ret, _), db) \<Rightarrow>
          (case send_msg_to_worker (wc_reply_sent env) (s\<lparr>ms_ban := db\<rparr>) None
                  (O_secmod_ban_reply (\<not> ret < 0)) of
             Inl err \<Rightarrow> Inl err
           | Inr (ret, s1) \<Rightarrow> Inr (if ret < 0 then ERR_BAD_COMMAND else 0, p, s1)))"

definition cmd_resume_store ::
  "command_env \<Rightarrow> main_server \<Rightarrow> proc_st \<Rightarrow> byte list \<times> byte list \<Rightarrow> main_server" where
  "cmd_resume_store env s p m =
     (case handle_resume_store_req (wc_store env) (ms_tls_db s) (resume_view p) (fst m) (snd m) of
        (ret, maint, db) \<Rightarrow>
          s\<lparr>ms_tls_db := db, ms_need_maintenance := (ms_need_maintenance s \<or> maint)\<rparr>)"

definition cmd_fetch_reply ::
  "command_env \<Rightarrow> main_server \<Rightarrow> proc_st \<Rightarrow> byte list option \<Rightarrow> main_result" where
  "cmd_fetch_reply env s p m =
     (if 0 < pr_resume_reqs p then Inr (ERR_BAD_COMMAND, p, s)
      else
        (case m of
           None \<Rightarrow> Inr (ERR_BAD_COMMAND, p\<lparr>pr_resume_reqs := pr_resume_reqs p + 1\<rparr>, s)
         | Some sid \<Rightarrow>
             (case cmd_resume_fetch (ms_tls_db s) (resume_view p) sid True of
                (ret, rp, reply) \<Rightarrow>
                  let p1 = p\<lparr>pr_resume_reqs := rp_resume_reqs rp\<rparr> in
                  (case reply of
                     None \<Rightarrow> Inr (ret, p1, s)
                   | Some msg \<Rightarrow>
                       (case send_msg_to_worker (wc_reply_sent env) s (Some p1)
                               (O_resume_reply (pr_addr p) msg) of
                          Inl err \<Rightarrow> Inl err
                        | Inr (ret, s1) \<Rightarrow> Inr (if ret < 0 then ERR_BAD_COMMAND else 0, p1, s1))))))"

definition cmd_auth_cookie ::
  "main_cfg \<Rightarrow> command_env \<Rightarrow> main_server \<Rightarrow> proc_st \<Rightarrow> byte list option \<Rightarrow> main_result" where
  "cmd_auth_cookie cfg env s p m =
     (if pr_status p \<noteq> PS_AUTH_INACTIVE then Inr (ERR_BAD_COMMAND, p, s)
      else
        (case m of
           None \<Rightarrow> Inr (ERR_BAD_COMMAND, p, s)
         | Some cookie \<Rightarrow>
             (case handle_auth_cookie_req cfg (wc_auth env) s p cookie of
                (ret, p1, s1) \<Rightarrow>
                  (case handle_cookie_auth_res cfg (wc_accept env) s1 p1 True ret of
                     Inl err \<Rightarrow> Inl err
                   | Inr (ret, p2, s2) \<Rightarrow> Inr (if ret < 0 then ret else 0, p2, s2)))))"

definition worker_command ::
  "main_cfg \<Rightarrow> command_env \<Rightarrow> main_server \<Rightarrow> proc_st \<Rightarrow> worker_req \<Rightarrow> main_result" where
  "worker_command cfg env s p req =
     (case req of
        R_ban_ip m \<Rightarrow>
          (case m of None \<Rightarrow> Inr (ERR_BAD_COMMAND, p, s) | Some (ip, score) \<Rightarrow> cmd_ban_ip cfg env s p ip score)
      | R_tun_mtu m \<Rightarrow>
          if pr_status p \<noteq> PS_AUTH_COMPLETED then Inr (ERR_BAD_COMMAND, p, s)
          else (case m of None \<Rightarrow> Inr (ERR_BAD_COMMAND, p, s)
                | Some mtu \<Rightarrow> Inr (0, snd (set_tun_mtu (wc_mtu_socket env) (wc_mtu_ioctl env) p mtu), s))
      | R_session_info m \<Rightarrow>
          (case m of None \<Rightarrow> Inr (ERR_BAD_COMMAND, p, s) | Some i \<Rightarrow> Inr (0, set_session_info i p, s))
      | R_resume_store m \<Rightarrow>
          (case m of None \<Rightarrow> Inr (ERR_BAD_COMMAND, p, s) | Some d \<Rightarrow> Inr (0, p, cmd_resume_store env s p d))
      | R_resume_delete m \<Rightarrow>
          (case m of None \<Rightarrow> Inr (ERR_BAD_COMMAND, p, s)
           | Some sid \<Rightarrow> Inr (0, p, s\<lparr>ms_tls_db := snd (handle_resume_delete_req (ms_tls_db s) sid)\<rparr>))
      | R_resume_fetch m \<Rightarrow> cmd_fetch_reply env s p m
      | R_auth_cookie m \<Rightarrow> cmd_auth_cookie cfg env s p m
      | R_unknown \<Rightarrow> Inr (ERR_BAD_COMMAND, p, s))"

definition handle_commands ::
  "main_cfg \<Rightarrow> command_env \<Rightarrow> main_server \<Rightarrow> proc_st \<Rightarrow> worker_req received \<Rightarrow> main_result" where
  "handle_commands cfg env s p r =
     (case r of
        Recv_error \<Rightarrow> Inr (ERR_BAD_COMMAND, p, s)
      | Recv_closed \<Rightarrow> Inr (ERR_WORKER_TERMINATED, p, s)
      | Recv_short \<Rightarrow> Inr (ERR_BAD_COMMAND, p, s)
      | Recv_no_memory \<Rightarrow> Inr (ERR_MEM, p, s)
      | Recv_partial \<Rightarrow> Inr (ERR_BAD_COMMAND, p, s)
      | Recv req \<Rightarrow> worker_command cfg env s p req)"

section \<open>Commands of the security module\<close>

datatype secmod_req = S_ban_ip "(string option \<times> u32) option" | S_unknown

definition handle_sec_mod_commands ::
  "main_cfg \<Rightarrow> ban_alloc \<Rightarrow> int \<Rightarrow> bool \<Rightarrow> main_server \<Rightarrow> secmod_req received \<Rightarrow> int \<times> main_server" where
  "handle_sec_mod_commands cfg al now sent s r =
     (case r of
        Recv_no_memory \<Rightarrow> (ERR_MEM, s)
      | Recv (S_ban_ip (Some (ip, score))) \<Rightarrow>
          (case add_ip_to_ban_list (mg_ban cfg) al now (ms_ban s) ip score of
             ((ret, _), db) \<Rightarrow>
               let s1 = s\<lparr>ms_ban := db\<rparr> in
               if sent then (0, out (O_secmod_ban_reply (\<not> ret < 0)) s1) else (ERR_BAD_COMMAND, s1))
      | _ \<Rightarrow> (ERR_BAD_COMMAND, s))"

section \<open>Children\<close>

record child_env =
  cv_human :: human
  cv_send :: int
  cv_route :: route_env
  cv_remove :: remove_env

text \<open>One child that waitpid reports, with its wait status.\<close>

definition cleanup_child ::
  "main_cfg \<Rightarrow> child_env \<Rightarrow> main_server \<Rightarrow> int \<Rightarrow> int \<Rightarrow> main_stop + main_server" where
  "cleanup_child cfg env s pid status =
     (let estatus = WEXITSTATUS status;
          s1 = (if pid = mg_sec_mod_pid cfg then s\<lparr>ms_terminate := True\<rparr> else s)
      in case List.find (\<lambda>w. sw_pid w = pid) (ms_scripts s1) of
           None \<Rightarrow> Inr s1
         | Some w \<Rightarrow>
             let s2 = s1\<lparr>ms_scripts := remove_first (\<lambda>w. sw_pid w = pid) (ms_scripts s1)\<rparr> in
             (case get_proc s2 (sw_proc w) of
                None \<Rightarrow> Inl Freed_worker
              | Some p \<Rightarrow>
                  (case handle_script_exit (cv_human env) (cv_send env) (cv_route env) s2 p estatus of
                     Inl err \<Rightarrow> Inl err
                   | Inr (ret, p1, s3) \<Rightarrow>
                       if ret < 0 then remove_proc cfg (cv_remove env) (put_proc p1 s3) p1 True
                       else Inr (put_proc p1 s3))))"

fun cleanup_children ::
  "main_cfg \<Rightarrow> main_server \<Rightarrow> (child_env \<times> int \<times> int) list \<Rightarrow> main_stop + main_server" where
  "cleanup_children cfg s [] = Inr s"
| "cleanup_children cfg s ((env, pid, status) # cs) =
     (case cleanup_child cfg env s pid status of
        Inl err \<Rightarrow> Inl err
      | Inr s1 \<Rightarrow> cleanup_children cfg s1 cs)"

text \<open>remove_proc on every worker that has a pid.\<close>

fun kill_workers ::
  "main_cfg \<Rightarrow> remove_env \<Rightarrow> main_server \<Rightarrow> nat list \<Rightarrow> main_stop + main_server" where
  "kill_workers cfg env s [] = Inr s"
| "kill_workers cfg env s (a # as) =
     (case get_proc s a of
        None \<Rightarrow> Inl Freed_worker
      | Some p \<Rightarrow>
          if pr_pid p = -1 then kill_workers cfg env s as
          else (case remove_proc cfg env s p True of
                  Inl err \<Rightarrow> Inl err
                | Inr s1 \<Rightarrow> kill_workers cfg env s1 as))"

definition kill_children :: "main_cfg \<Rightarrow> remove_env \<Rightarrow> main_server \<Rightarrow> main_stop + main_server" where
  "kill_children cfg env s =
     kill_workers cfg env (out (O_kill (mg_sec_mod_pid cfg)) s) (map pr_addr (ms_procs s))"

text \<open>What a forked child drops.\<close>

definition clear_lists :: "main_server \<Rightarrow> main_server" where
  "clear_lists s = proc_table_deinit (s\<lparr>ms_procs := [], ms_scripts := [],
     ms_tls_db := tls_cache_deinit (ms_tls_db s), ms_leases := [], ms_ban := main_ban_db_deinit (ms_ban s)\<rparr>)"

section \<open>Datagrams\<close>

definition UDP_FD_RESEND_TIME :: int where "UDP_FD_RESEND_TIME = 60"
definition RECORD_PAYLOAD_POS :: nat where "RECORD_PAYLOAD_POS = 13"
definition HANDSHAKE_SESSION_ID_POS :: nat where "HANDSHAKE_SESSION_ID_POS = 46"

lemmas udp_consts = UDP_FD_RESEND_TIME_def RECORD_PAYLOAD_POS_def HANDSHAKE_SESSION_ID_POS_def
  GNUTLS_SID_def

text \<open>
  \<open>ue_recv\<close> is the datagram with its sender; \<open>ue_stack\<close> what the rest of the buffer of 1536
  bytes holds.
\<close>

record udp_env =
  ue_recv :: "(byte list \<times> sockaddr \<times> nat) option"
  ue_stack :: "byte list"
  ue_now :: int
  ue_socket :: bool
  ue_connect :: bool
  ue_send :: bool

definition bad_dtls_version :: "byte list \<Rightarrow> bool" where
  "bad_dtls_version b \<longleftrightarrow> b ! 1 \<noteq> 254 \<and> (b ! 1 \<noteq> 1 \<and> b ! 2 \<noteq> 0)
     \<and> b ! RECORD_PAYLOAD_POS \<noteq> 254
     \<and> (b ! RECORD_PAYLOAD_POS \<noteq> 0 \<and> b ! (RECORD_PAYLOAD_POS + 1) \<noteq> 0)"

definition hello_session_id :: "byte list \<Rightarrow> byte list" where
  "hello_session_id b =
     take (unat (b ! (RECORD_PAYLOAD_POS + HANDSHAKE_SESSION_ID_POS)))
       (drop (RECORD_PAYLOAD_POS + HANDSHAKE_SESSION_ID_POS + 1) b)"

definition forward_udp_to_owner :: "main_cfg \<Rightarrow> udp_env \<Rightarrow> main_server \<Rightarrow> int \<times> main_server" where
  "forward_udp_to_owner cfg env s =
     (case ue_recv env of
        None \<Rightarrow> (-1, s)
      | Some (data, addr, addr_len) \<Rightarrow>
          let buffer = data @ ue_stack env; match_ip_only = (buffer ! 0 \<noteq> 22) in
          if length data < RECORD_PAYLOAD_POS + HANDSHAKE_SESSION_ID_POS + GNUTLS_SID + 2 then (0, s)
          else if bad_dtls_version buffer then (0, s)
          else if match_ip_only \<and> mg_unix_conn_file cfg then (0, s)
          else
            (case (if match_ip_only then proc_search_ip s addr addr_len
                   else proc_search_dtls_id s (hello_session_id buffer)) of
               None \<Rightarrow> (0, s)
             | Some p \<Rightarrow>
                 if ue_now env - pr_udp_fd_receive_time p \<le> UDP_FD_RESEND_TIME then (0, s)
                 else if \<not> ue_socket env then (0, s)
                 else if \<not> ue_connect env then (0, s)
                 else if \<not> ue_send env then (0, s)
                 else (0, put_proc (p\<lparr>pr_udp_fd_receive_time := ue_now env\<rparr>)
                            (out (O_udp_fd (pr_addr p) (\<not> match_ip_only) data) s))))"

section \<open>New connections\<close>

record conn_env =
  cx_addr :: sockaddr
  cx_addr_len :: nat
  cx_wrapper :: bool
  cx_ip :: "string option"
  cx_ban_alloc :: ban_alloc
  cx_now :: int
  cx_now2 :: int
  cx_socketpair :: bool
  cx_pid :: int
  cx_cmd_fd :: int
  cx_proc :: "nat option"

definition accept_conn :: "main_cfg \<Rightarrow> conn_env \<Rightarrow> main_server \<Rightarrow> main_server" where
  "accept_conn cfg env s =
     (if 0 < mg_max_clients cfg \<and> mg_max_clients cfg \<le> ms_active_clients s then s
      else if \<not> cx_wrapper env then s
      else
        (case check_if_banned (mg_ban cfg) (cx_ban_alloc env) (cx_now env) (cx_now2 env) (ms_ban s) (cx_ip env) of
           (banned, db) \<Rightarrow>
             let s1 = s\<lparr>ms_ban := db\<rparr> in
             if banned \<noteq> 0 then s1
             else if \<not> cx_socketpair env then s1
             else if cx_pid env = -1 then s1
             else (case new_proc (cx_proc env) (cx_now env) s1 (cx_pid env) (cx_cmd_fd env)
                          (cx_addr env) (cx_addr_len env) of
                     None \<Rightarrow> out (O_kill (cx_pid env)) s1
                   | Some s2 \<Rightarrow> s2)))"

definition maintenance :: "main_cfg \<Rightarrow> (byte list \<Rightarrow> int) \<Rightarrow> int \<Rightarrow> main_server \<Rightarrow> main_server" where
  "maintenance cfg entry_time now s =
     s\<lparr>ms_need_maintenance := False,
       ms_tls_db := expire_tls_sessions entry_time (mg_cookie_timeout cfg) now (ms_tls_db s),
       ms_ban := cleanup_banned_entries (mg_ban cfg) now (ms_ban s)\<rparr>"

section \<open>The loop\<close>

datatype main_event =
  Ev_conn conn_env
| Ev_cmd nat command_env remove_env "worker_req received"
| Ev_sec_mod ban_alloc int bool "secmod_req received"
| Ev_children "(child_env \<times> int \<times> int) list"
| Ev_udp udp_env
| Ev_ctl ctl_env "byte list"
| Ev_reload main_cfg
| Ev_maintenance "byte list \<Rightarrow> int" int

text \<open>Reading a command and, when it fails, removing the worker.\<close>

definition command_round ::
  "main_cfg \<Rightarrow> command_env \<Rightarrow> remove_env \<Rightarrow> main_server \<Rightarrow> proc_st \<Rightarrow> worker_req received
    \<Rightarrow> main_stop + main_server" where
  "command_round cfg env renv s p r =
     (case handle_commands cfg env s p r of
        Inl err \<Rightarrow> Inl err
      | Inr (ret, p1, s1) \<Rightarrow>
          if ret < 0 then remove_proc cfg renv (put_proc p1 s1) p1 (ret \<noteq> ERR_WORKER_TERMINATED)
          else Inr (put_proc p1 s1))"

text \<open>
  Reading the configuration file again: what it says is new, but what is only read at the start
  (perm_config) stays, and so do the key of the cookies and the process of the security module.
\<close>

definition reload_main :: "main_cfg \<Rightarrow> main_cfg \<Rightarrow> main_cfg" where
  "reload_main old new =
     new\<lparr>mg_udp_port := mg_udp_port old, mg_unix_conn_file := mg_unix_conn_file old, mg_uid := mg_uid old,
       mg_gid := mg_gid old, mg_cookie_key := mg_cookie_key old, mg_sec_mod_pid := mg_sec_mod_pid old\<rparr>"

text \<open>
  One event: the configuration that is then in force, and the state. \<open>Ev_reload new\<close> is the check
  of reload_conf, with what an accepted file says; a file that is not accepted ends the process.
\<close>

definition main_step :: "main_cfg \<Rightarrow> main_event \<Rightarrow> main_server \<Rightarrow> main_stop + main_cfg \<times> main_server" where
  "main_step cfg ev s =
     (case ev of
        Ev_conn env \<Rightarrow> Inr (cfg, accept_conn cfg env s)
      | Ev_cmd a env renv r \<Rightarrow>
          (case get_proc s a of None \<Rightarrow> Inr (cfg, s) | Some p \<Rightarrow> map_sum id (Pair cfg) (command_round cfg env renv s p r))
      | Ev_sec_mod al now sent r \<Rightarrow>
          (case handle_sec_mod_commands cfg al now sent s r of
             (ret, s1) \<Rightarrow> Inr (cfg, if ret < 0 then s1\<lparr>ms_terminate := True\<rparr> else s1))
      | Ev_children cs \<Rightarrow> map_sum id (Pair cfg) (cleanup_children cfg s cs)
      | Ev_udp env \<Rightarrow> Inr (cfg, snd (forward_udp_to_owner cfg env s))
      | Ev_ctl env buffer \<Rightarrow> map_sum id (\<lambda>(_, s1). (cfg, s1)) (ctl_handle_commands cfg env s buffer)
      | Ev_reload new \<Rightarrow> Inr (reload_main cfg new, out (O_hangup (mg_sec_mod_pid cfg)) (s\<lparr>ms_reload := False\<rparr>))
      | Ev_maintenance entry_time now \<Rightarrow> Inr (cfg, maintenance cfg entry_time now s))"

fun main_run :: "main_cfg \<Rightarrow> main_event list \<Rightarrow> main_server \<Rightarrow> main_stop + main_cfg \<times> main_server" where
  "main_run cfg [] s = Inr (cfg, s)"
| "main_run cfg (ev # evs) s =
     (case main_step cfg ev s of Inl err \<Rightarrow> Inl err | Inr (cfg1, s1) \<Rightarrow> main_run cfg1 evs s1)"

definition main_init :: main_server where
  "main_init = \<lparr>ms_procs = [], ms_scripts = [], ms_db_ip = [], ms_db_dtls_id = [], ms_db_sid = [],
     ms_table_total = 0, ms_leases = [], ms_tls_db = tls_cache_init, ms_ban = main_ban_db_init,
     ms_active_clients = 0, ms_need_maintenance = False, ms_terminate = False, ms_reload = False, ms_out = []\<rparr>"

end
