(* ===== verification/MainFrame.thy ===== *)
theory MainFrame
  imports MainLoop
begin

text \<open>
  What the handlers of the main process leave alone. A worker is seen through its \<open>core\<close>, which
  leaves out its leases and the time of its last datagram; a handler changes the list of
  workers, the tables, the scripts and the count of clients only where the lemmas say.
\<close>

section \<open>Views\<close>

definition core :: "proc_st \<Rightarrow> proc_st" where
  "core p = p\<lparr>pr_ipv4 := None, pr_ipv6 := None, pr_udp_fd_receive_time := 0\<rparr>"

definition cores :: "main_server \<Rightarrow> proc_st list" where
  "cores s = map core (ms_procs s)"

definition tables :: "main_server \<Rightarrow> nat list \<times> nat list \<times> nat list" where
  "tables s = (ms_db_ip s, ms_db_dtls_id s, ms_db_sid s)"

definition addrs :: "main_server \<Rightarrow> nat list" where
  "addrs s = map pr_addr (ms_procs s)"

text \<open>Nothing that the invariants speak of has changed but leases.\<close>

definition silent :: "main_server \<Rightarrow> main_server \<Rightarrow> bool" where
  "silent s s' \<longleftrightarrow> cores s' = cores s \<and> tables s' = tables s \<and> ms_scripts s' = ms_scripts s
     \<and> ms_active_clients s' = ms_active_clients s"

definition keeps :: "proc_st \<Rightarrow> proc_st \<Rightarrow> bool" where
  "keeps p p' \<longleftrightarrow> pr_addr p' = pr_addr p \<and> pr_pid p' = pr_pid p \<and> pr_status p' = pr_status p"

definition same_user :: "proc_st \<Rightarrow> proc_st \<Rightarrow> bool" where
  "same_user p p' \<longleftrightarrow> pr_username p' = pr_username p \<and> pr_sid p' = pr_sid p"

lemma core_simps [simp]:
  "pr_addr (core p) = pr_addr p" "pr_pid (core p) = pr_pid p" "pr_status (core p) = pr_status p"
  "pr_username (core p) = pr_username p"
  by (simp_all add: core_def)

lemma addrs_cores: "addrs s = map pr_addr (cores s)"
  by (simp add: addrs_def cores_def)

lemma silent_refl [simp]: "silent s s"
  by (simp add: silent_def)

lemma silent_trans: "silent s s1 \<Longrightarrow> silent s1 s2 \<Longrightarrow> silent s s2"
  by (simp add: silent_def)

lemma silent_out [simp]: "silent s (out m s') = silent s s'"
  by (simp add: silent_def out_def cores_def tables_def)

lemma silent_fields [simp]:
  "silent s (s'\<lparr>ms_leases := x\<rparr>) = silent s s'" "silent s (s'\<lparr>ms_tls_db := y\<rparr>) = silent s s'"
  "silent s (s'\<lparr>ms_ban := z\<rparr>) = silent s s'" "silent s (s'\<lparr>ms_need_maintenance := b\<rparr>) = silent s s'"
  "silent s (s'\<lparr>ms_terminate := c\<rparr>) = silent s s'" "silent s (s'\<lparr>ms_reload := d\<rparr>) = silent s s'"
  by (simp_all add: silent_def cores_def tables_def)

lemma silent_left [simp]:
  "silent (out m s) s' = silent s s'" "silent (s\<lparr>ms_leases := x\<rparr>) s' = silent s s'"
  by (simp_all add: silent_def out_def cores_def tables_def)

lemma keeps_refl [simp]: "keeps p p"
  by (simp add: keeps_def)

lemma core_update: "pr_addr q = a \<Longrightarrow> distinct (map pr_addr ps) \<Longrightarrow> q \<in> set ps \<Longrightarrow> core q' = core q \<Longrightarrow>
  map core (tbl_update pr_addr a (\<lambda>_. q') ps) = map core ps"
proof (induction ps)
  case (Cons p ps)
  then show ?case
    by (cases "p = q") (auto simp: image_iff)
qed simp

lemma silent_put:
  assumes "get_proc s (pr_addr p) = Some q" and "core p = core q" and "distinct (addrs s)"
  shows "silent s (put_proc p s)"
proof -
  have q: "q \<in> set (ms_procs s)" "pr_addr q = pr_addr p"
    using assms(1) by (auto simp: get_proc_def tbl_get_def dest: find_Some_iff_ex)
  have "map core (tbl_update pr_addr (pr_addr p) (\<lambda>_. p) (ms_procs s)) = map core (ms_procs s)"
    using core_update [OF q(2) _ q(1) assms(2)] assms(3) by (simp add: addrs_def)
  then show ?thesis by (simp add: silent_def put_proc_def cores_def tables_def)
qed

section \<open>Handlers that change no table\<close>

lemma session_open_frame:
  "session_open env s p c = (ret, p', s') \<Longrightarrow> silent s s' \<and> keeps p p' \<and> same_user p p'"
  by (auto simp: session_open_def keeps_def same_user_def Let_def split: prod.splits if_splits option.splits)

lemma session_close_frame:
  "session_close env s p = (ret, p', s') \<Longrightarrow> silent s s' \<and> keeps p p' \<and> same_user p p'"
  by (auto simp: session_close_def keeps_def same_user_def Let_def split: prod.splits if_splits)

lemma set_network_info_frame:
  "set_network_info env s p = (ret, p', s') \<Longrightarrow> silent s s' \<and> keeps p p' \<and> same_user p p'"
  by (auto simp: set_network_info_def keeps_def same_user_def split: prod.splits if_splits)

lemma set_leases_keeps [simp]: "keeps p (set_leases l p)" "same_user p (set_leases l p)"
  by (simp_all add: keeps_def same_user_def set_leases_def)

lemma open_tun_frame:
  assumes "open_tun cfg lenv env s p = (ret, p', s')"
  shows "silent s s' \<and> keeps p p' \<and> same_user p p'"
proof -
  obtain r db l where "get_ip_leases lenv (mg_network cfg) (ms_leases s) (lease_view p) = (r, db, l)"
    by (metis prod_cases3)
  then show ?thesis
    using assms
    by (auto simp: open_tun_def Let_def keeps_def same_user_def set_leases_def
        dest!: set_network_info_frame split: if_splits option.splits prod.splits)
qed

lemma send_reply_frame: "send_cookie_auth_reply h send s p ok = (ret, s') \<Longrightarrow> silent s s'"
  by (auto simp: send_cookie_auth_reply_def Let_def split: if_splits)

lemma run_iroutes_frame:
  "run_iroutes r s p = Inr (p', s') \<Longrightarrow> silent s s' \<and> keeps p p' \<and> same_user p p'"
  by (auto simp: run_iroutes_def keeps_def same_user_def split: option.splits sum.splits if_splits)

lemma script_exit_frame:
  assumes "handle_script_exit h send renv s p code = Inr (ret, p', s')"
  shows "silent s s' \<and> pr_addr p' = pr_addr p \<and> pr_pid p' = pr_pid p \<and> same_user p p'
    \<and> pr_status p' = (if code = 0 then PS_AUTH_COMPLETED else pr_status p)"
proof -
  let ?p = "if code = 0 then p\<lparr>pr_status := PS_AUTH_COMPLETED\<rparr> else p"
  obtain r s1 where r: "send_cookie_auth_reply h send s ?p (code = 0) = (r, s1)" by (metis surj_pair)
  note q = send_reply_frame [OF r]
  show ?thesis
  proof (cases "code = 0 \<and> \<not> r < 0")
    case False
    then show ?thesis
      using assms r q by (auto simp: handle_script_exit_def Let_def same_user_def split: if_splits)
  next
    case True
    then obtain p2 where a: "apply_proc_iroutes renv s1 ?p = Inr (p2, s')" "p' = p2\<lparr>pr_tun_fd := -1\<rparr>"
      using assms r by (auto simp: handle_script_exit_def Let_def split: sum.splits prod.splits)
    have "silent s1 s' \<and> keeps ?p p2 \<and> same_user ?p p2"
      using run_iroutes_frame a(1) unfolding apply_proc_iroutes_def by blast
    then show ?thesis
      using silent_trans [OF q] a(2) True by (simp add: keeps_def same_user_def)
  qed
qed

section \<open>The cookie\<close>

lemma get_proc_addr: "get_proc s a = Some q \<Longrightarrow> pr_addr q = a"
  unfolding get_proc_def by (rule tbl_get_key)

lemma ht_search_get:
  "ht_search s cmp as = Some q \<Longrightarrow> get_proc s (pr_addr q) = Some q \<and> pr_addr q \<in> set as \<and> cmp q"
proof (induction as)
  case (Cons a as)
  show ?case
  proof (cases "get_proc s a = Some q \<and> cmp q")
    case True
    then show ?thesis using get_proc_addr [of s a q] by simp
  next
    case False
    then have "ht_search s cmp as = Some q"
      using Cons.prems by (simp split: option.splits if_splits)
    then show ?thesis using Cons.IH by simp
  qed
qed simp

lemma proc_search_sid_get:
  "proc_search_sid s sid = Some q \<Longrightarrow> get_proc s (pr_addr q) = Some q \<and> pr_addr q \<in> set (ms_db_sid s)
    \<and> pr_sid q = sid"
  unfolding proc_search_sid_def by (drule ht_search_get) (simp add: sid_cmp_def)

lemma join_session_frame:
  assumes "join_session env s p c = (ret, p', s')" and "distinct (addrs s)"
  shows "silent s s' \<and> keeps p p' \<and> same_user p p'"
proof (cases "proc_search_sid s (ck_sid c)")
  case None
  then show ?thesis using assms(1) by (simp add: join_session_def same_user_def)
next
  case (Some old)
  let ?old = "set_leases (fst (steal_ip_leases (lease_view old) (lease_view p))) old"
  have "get_proc s (pr_addr ?old) = Some old" "core ?old = core old"
    using proc_search_sid_get [OF Some] by (simp_all add: set_leases_def core_def)
  then have "silent s (put_proc ?old s)" using silent_put assms(2) by blast
  then show ?thesis
    using assms(1) Some
    by (auto simp: join_session_def take_over_def Let_def keeps_def same_user_def set_leases_def
        split: prod.splits if_splits)
qed

lemma ht_add_undo: "a \<notin> set t \<Longrightarrow> remove1 a (ht_add i a t) = t"
  by (auto simp: ht_add_def remove1_append dest: in_set_takeD)

definition added :: "nat \<Rightarrow> main_server \<Rightarrow> main_server \<Rightarrow> bool" where
  "added a s s' \<longleftrightarrow> (\<exists>i j k. tables s' =
     (ht_add i a (ms_db_ip s), ht_add j a (ms_db_dtls_id s), ht_add k a (ms_db_sid s)))"

definition absent :: "nat \<Rightarrow> main_server \<Rightarrow> bool" where
  "absent a s \<longleftrightarrow> a \<notin> set (ms_db_ip s) \<and> a \<notin> set (ms_db_dtls_id s) \<and> a \<notin> set (ms_db_sid s)"

lemma proc_table_add_frame:
  assumes "proc_table_add env s p = (ret, s')" and "absent (pr_addr p) s"
  shows "cores s' = cores s \<and> ms_scripts s' = ms_scripts s \<and> ms_active_clients s' = ms_active_clients s
    \<and> ms_procs s' = ms_procs s
    \<and> (if ret < 0 then tables s' = tables s else added (pr_addr p) s s')"
  using assms
  by (auto simp: proc_table_add_def Let_def tables_def added_def absent_def cores_def ht_add_undo
      split: option.splits)

lemma silent_tables: "silent s s' \<Longrightarrow> ms_db_ip s' = ms_db_ip s \<and> ms_db_dtls_id s' = ms_db_dtls_id s
    \<and> ms_db_sid s' = ms_db_sid s \<and> addrs s' = addrs s"
  by (simp add: silent_def tables_def addrs_cores)

definition auth_effect :: "proc_st \<Rightarrow> main_server \<Rightarrow> main_server \<Rightarrow> bool" where
  "auth_effect p s s' \<longleftrightarrow> cores s' = cores s \<and> ms_scripts s' = ms_scripts s
     \<and> ms_active_clients s' = ms_active_clients s
     \<and> (tables s' = tables s \<or> added (pr_addr p) s s')"

lemma silent_auth_effect: "silent s s' \<Longrightarrow> auth_effect p s s'"
  by (simp add: silent_def auth_effect_def)

lemma enter_session_frame:
  assumes "enter_session env s p c cookie = (ret, p', s')" and "absent (pr_addr p) s" and "distinct (addrs s)"
  shows "keeps p p' \<and> same_user p p' \<and> auth_effect p s s'"
proof -
  obtain r1 p1 s1 where o: "session_open (ae_session env) s p (Some cookie) = (r1, p1, s1)"
    by (metis prod_cases3)
  obtain r2 p3 s2 where j: "join_session env s1 (p1\<lparr>pr_active_sid := True\<rparr>) c = (r2, p3, s2)"
    by (metis prod_cases3)
  obtain r3 s3 where a: "proc_table_add (ae_table env) s2 (session_fields p3 c) = (r3, s3)"
    by (metis surj_pair)
  note f = session_open_frame [OF o]
  have d1: "distinct (addrs s1)" using f assms(3) silent_tables by metis
  note g = join_session_frame [OF j d1]
  have k: "keeps p p3" "same_user p p3" "keeps p (session_fields p3 c)" "same_user p (session_fields p3 c)"
    using f g by (simp_all add: keeps_def same_user_def session_fields_def)
  have q2: "silent s s2" using f g silent_trans by blast
  have "absent (pr_addr (session_fields p3 c)) s2"
    using assms(2) silent_tables [OF q2] k by (simp add: absent_def keeps_def)
  note h = proc_table_add_frame [OF a this]
  have e3: "auth_effect p s s3"
    using h q2 silent_tables [OF q2] k
    by (auto simp: auth_effect_def silent_def added_def keeps_def split: if_splits)
  have e: "auth_effect p s s1" "auth_effect p s s2" using f q2 silent_auth_effect by blast+
  have "keeps p (p1\<lparr>pr_active_sid := True\<rparr>)" "same_user p (p1\<lparr>pr_active_sid := True\<rparr>)"
    using f by (simp_all add: keeps_def same_user_def)
  then show ?thesis
    using assms(1) o j a e e3 k f by (auto simp: enter_session_def Let_def split: if_splits)
qed

lemma auth_cookie_frame:
  assumes "handle_auth_cookie_req cfg env s p cookie = (ret, p', s')"
    and "absent (pr_addr p) s" and "distinct (addrs s)"
  shows "keeps p p' \<and> auth_effect p s s'"
proof -
  have e: "keeps p (cookie_fields cfg (p\<lparr>pr_username := u\<rparr>) c rnd)" for u c rnd
    by (simp add: keeps_def cookie_fields_def apply_default_sup_config_def)
  then have addr: "pr_addr (cookie_fields cfg (p\<lparr>pr_username := u\<rparr>) c rnd) = pr_addr p" for u c rnd
    by (simp add: keeps_def)
  have enter: "keeps p p' \<and> auth_effect p s s'"
    if "enter_session env s (cookie_fields cfg (p\<lparr>pr_username := u\<rparr>) c rnd) c cookie = (ret, p', s')" for u c rnd
    using enter_session_frame [OF that] assms(2,3) e [of u c rnd] addr [of u c rnd]
    by (simp add: keeps_def auth_effect_def)
  show ?thesis
    using assms(1) enter
    by (auto simp: handle_auth_cookie_req_def Let_def keeps_def auth_effect_def
        split: prod.splits option.splits if_splits)
qed

end
