(* ===== verification/MainInv.thy ===== *)
theory MainInv
  imports MainFrame
begin

text \<open>
  The invariant of the main process. Every pointer that the tables and the script list keep is
  one of a worker that is there, no worker is in a table twice or waits for two scripts, the
  count of clients is the number of workers, and a worker that has not presented a cookie is in
  no table and waits for no script.
\<close>

section \<open>Reachable states\<close>

text \<open>
  A state that the loop reaches, with the configuration in force. talloc gives a new worker an address that no live worker has; fork gives a positive pid.\<close>

definition fresh_event :: "main_server \<Rightarrow> main_event \<Rightarrow> bool" where
  "fresh_event s ev \<longleftrightarrow>
     (case ev of Ev_conn env \<Rightarrow>
        (cx_pid env = -1 \<or> 0 < cx_pid env) \<and> (case cx_proc env of None \<Rightarrow> True | Some a \<Rightarrow> get_proc s a = None)
      | _ \<Rightarrow> True)"

inductive main_reach :: "main_cfg \<Rightarrow> main_server \<Rightarrow> bool" where
  reach_init: "main_reach cfg main_init"
| reach_step: "main_reach cfg s \<Longrightarrow> fresh_event s ev \<Longrightarrow> main_step cfg ev s = Inr (cfg', s') \<Longrightarrow> main_reach cfg' s'"

section \<open>The invariant\<close>

definition entries_ok :: "nat list \<Rightarrow> main_server \<Rightarrow> bool" where
  "entries_ok t s \<longleftrightarrow> distinct t \<and> (\<forall>a \<in> set t. \<exists>p. get_proc s a = Some p \<and> pr_status p \<noteq> PS_AUTH_INACTIVE)"

definition scripts_ok :: "main_server \<Rightarrow> bool" where
  "scripts_ok s \<longleftrightarrow> distinct (map sw_proc (ms_scripts s))
     \<and> (\<forall>w \<in> set (ms_scripts s). \<exists>p. get_proc s (sw_proc w) = Some p \<and> pr_status p \<noteq> PS_AUTH_INACTIVE)"

definition main_ok :: "main_server \<Rightarrow> bool" where
  "main_ok s \<longleftrightarrow> distinct (addrs s) \<and> ms_active_clients s = of_nat (length (ms_procs s))
     \<and> entries_ok (ms_db_ip s) s \<and> entries_ok (ms_db_dtls_id s) s \<and> entries_ok (ms_db_sid s) s
     \<and> set (ms_db_ip s) = set (ms_db_sid s) \<and> set (ms_db_dtls_id s) = set (ms_db_sid s)
     \<and> scripts_ok s \<and> (\<forall>p \<in> set (ms_procs s). pr_pid p \<noteq> -1)"

text \<open>What the invariants see of a worker: its status, pid and user.\<close>

definition seen :: "main_server \<Rightarrow> nat \<Rightarrow> (auth_status \<times> int \<times> string) option" where
  "seen s a = map_option (\<lambda>p. (pr_status p, pr_pid p, pr_username p)) (get_proc s a)"

lemma get_proc_iff: "distinct (addrs s) \<Longrightarrow> get_proc s a = Some p \<longleftrightarrow> p \<in> set (ms_procs s) \<and> pr_addr p = a"
proof -
  assume d: "distinct (addrs s)"
  have "distinct (map pr_addr ps) \<Longrightarrow> tbl_get pr_addr a ps = Some p \<longleftrightarrow> p \<in> set ps \<and> pr_addr p = a" for ps
    by (induction ps) (auto simp: tbl_get_def image_iff)
  then show ?thesis using d by (simp add: get_proc_def addrs_def)
qed

lemma get_proc_None: "get_proc s a = None \<longleftrightarrow> a \<notin> set (addrs s)"
  by (auto simp: get_proc_def tbl_get_def find_None_all addrs_def)

lemma seen_of_cores:
  "seen s a = map_option (\<lambda>p. (pr_status p, pr_pid p, pr_username p)) (tbl_get pr_addr a (cores s))"
proof -
  have "map_option (\<lambda>p. (pr_status p, pr_pid p, pr_username p)) (tbl_get pr_addr a (map core ps))
      = map_option (\<lambda>p. (pr_status p, pr_pid p, pr_username p)) (tbl_get pr_addr a ps)" for ps
    by (induction ps) (auto simp: tbl_get_def)
  then show ?thesis by (simp add: seen_def get_proc_def cores_def)
qed

lemma seen_cores: "cores s' = cores s \<Longrightarrow> seen s' a = seen s a"
  by (simp add: seen_of_cores)

lemma entries_ok_seen:
  "entries_ok t s \<longleftrightarrow> distinct t \<and> (\<forall>a \<in> set t. \<exists>st x. seen s a = Some (st, x) \<and> st \<noteq> PS_AUTH_INACTIVE)"
  by (auto simp: entries_ok_def seen_def)

lemma scripts_ok_seen:
  "scripts_ok s \<longleftrightarrow> distinct (map sw_proc (ms_scripts s))
     \<and> (\<forall>w \<in> set (ms_scripts s). \<exists>st x. seen s (sw_proc w) = Some (st, x) \<and> st \<noteq> PS_AUTH_INACTIVE)"
  by (auto simp: scripts_ok_def seen_def)

lemma main_ok_seen:
  "main_ok s \<longleftrightarrow> distinct (addrs s) \<and> ms_active_clients s = of_nat (length (addrs s))
     \<and> entries_ok (ms_db_ip s) s \<and> entries_ok (ms_db_dtls_id s) s \<and> entries_ok (ms_db_sid s) s
     \<and> set (ms_db_ip s) = set (ms_db_sid s) \<and> set (ms_db_dtls_id s) = set (ms_db_sid s)
     \<and> scripts_ok s \<and> (\<forall>a st pid u. seen s a = Some (st, pid, u) \<longrightarrow> pid \<noteq> -1)"
proof -
  have e: "(\<forall>p \<in> set (ms_procs s). pr_pid p \<noteq> -1) \<longleftrightarrow> (\<forall>a st pid u. seen s a = Some (st, pid, u) \<longrightarrow> pid \<noteq> -1)"
    if "distinct (addrs s)"
    unfolding seen_def map_option_eq_Some get_proc_iff [OF that] by blast
  have l: "length (ms_procs s) = length (addrs s)" by (simp add: addrs_def)
  show ?thesis
  proof (cases "distinct (addrs s)")
    case True
    show ?thesis unfolding main_ok_def l e [OF True] ..
  qed (simp add: main_ok_def)
qed

lemma main_ok_silent:
  assumes "silent s s'" and "main_ok s"
  shows "main_ok s'"
proof -
  have "seen s' = seen s" by (rule ext, rule seen_cores) (use assms(1) in \<open>simp add: silent_def\<close>)
  then show ?thesis
    using assms silent_tables [OF assms(1)]
    by (simp add: main_ok_seen entries_ok_seen scripts_ok_seen silent_def)
qed

lemma idle_absent:
  assumes "main_ok s" and "get_proc s a = Some p" and "pr_status p = PS_AUTH_INACTIVE"
  shows "absent a s \<and> a \<notin> sw_proc ` set (ms_scripts s)"
  using assms by (auto simp: main_ok_def entries_ok_def scripts_ok_def absent_def)

section \<open>Changes of the list of workers\<close>

lemma get_put: "get_proc s (pr_addr p) \<noteq> None \<Longrightarrow>
    get_proc (put_proc p s) = (get_proc s)(pr_addr p := Some p)"
proof (rule ext)
  fix b assume a: "get_proc s (pr_addr p) \<noteq> None"
  show "get_proc (put_proc p s) b = ((get_proc s)(pr_addr p := Some p)) b"
  proof (cases "b = pr_addr p")
    case True
    then show ?thesis using a by (auto simp: get_proc_def put_proc_def tbl_get_const_update)
  next
    case False
    then show ?thesis by (simp add: get_proc_def put_proc_def tbl_get_const_other)
  qed
qed

lemma addrs_put [simp]: "addrs (put_proc p s) = addrs s"
proof -
  have "map pr_addr (tbl_update pr_addr (pr_addr p) (\<lambda>_. p) ps) = map pr_addr ps" for ps
    by (induction ps) auto
  then show ?thesis by (simp add: addrs_def put_proc_def)
qed

lemma put_fields [simp]:
  "ms_scripts (put_proc p s) = ms_scripts s" "ms_active_clients (put_proc p s) = ms_active_clients s"
  "tables (put_proc p s) = tables s" "ms_db_ip (put_proc p s) = ms_db_ip s"
  "ms_db_dtls_id (put_proc p s) = ms_db_dtls_id s" "ms_db_sid (put_proc p s) = ms_db_sid s"
  by (simp_all add: put_proc_def tables_def)

lemma seen_put: "get_proc s (pr_addr p) \<noteq> None \<Longrightarrow>
    seen (put_proc p s) = (seen s)(pr_addr p := Some (pr_status p, pr_pid p, pr_username p))"
  by (rule ext) (simp add: seen_def get_put)

lemma remove_first_map: "map f (remove_first (\<lambda>x. f x = k) xs) = remove1 k (map f xs)"
  by (induction xs) auto

lemma get_removed:
  assumes "distinct (addrs s)" and "ms_procs s' = remove_first (\<lambda>q. pr_addr q = a) (ms_procs s)"
  shows "get_proc s' = (get_proc s)(a := None)"
proof (rule ext)
  fix b
  have "distinct (map pr_addr ps) \<Longrightarrow> tbl_get pr_addr b (remove_first (\<lambda>q. pr_addr q = a) ps)
      = (if b = a then None else tbl_get pr_addr b ps)" for ps
  proof (induction ps)
    case (Cons p ps)
    have "pr_addr p \<notin> set (map pr_addr ps) \<Longrightarrow> tbl_get pr_addr (pr_addr p) ps = None"
      by (simp add: tbl_get_def find_None_all) (metis imageI)
    then show ?case using Cons by (auto simp: tbl_get_def)
  qed (simp add: tbl_get_def)
  from this [of "ms_procs s"] show "get_proc s' b = ((get_proc s)(a := None)) b"
    using assms by (simp add: get_proc_def addrs_def)
qed

section \<open>The effect of a command\<close>

text \<open>
  A worker's command changes only what is seen of that worker, and enters it in the tables or
  the script list only when it leaves the state before authentication.
\<close>

definition cmd_effect :: "nat \<Rightarrow> main_server \<Rightarrow> main_server \<Rightarrow> bool" where
  "cmd_effect a s s' \<longleftrightarrow> addrs s' = addrs s \<and> ms_active_clients s' = ms_active_clients s
     \<and> (\<forall>b. b \<noteq> a \<longrightarrow> seen s' b = seen s b)
     \<and> (\<exists>st pid u st' u'. seen s a = Some (st, pid, u) \<and> seen s' a = Some (st', pid, u')
          \<and> (st \<noteq> PS_AUTH_INACTIVE \<longrightarrow> st' \<noteq> PS_AUTH_INACTIVE \<and> u' = u)
          \<and> (tables s' = tables s
             \<or> st = PS_AUTH_INACTIVE \<and> st' \<noteq> PS_AUTH_INACTIVE \<and> added a s s')
          \<and> (ms_scripts s' = ms_scripts s
             \<or> st = PS_AUTH_INACTIVE \<and> st' \<noteq> PS_AUTH_INACTIVE
               \<and> (\<exists>w. ms_scripts s' = w # ms_scripts s \<and> sw_proc w = a)))"

lemma set_ht_add [simp]: "set (ht_add i a t) = insert a (set t)"
proof -
  have "set (take i t) \<union> set (drop i t) = set t" by (metis append_take_drop_id set_append)
  then show ?thesis by (auto simp: ht_add_def)
qed

lemma distinct_ht_add: "distinct (ht_add i a t) \<longleftrightarrow> distinct t \<and> a \<notin> set t"
proof -
  have "distinct (ht_add i a t) \<longleftrightarrow> distinct (a # take i t @ drop i t)"
    unfolding ht_add_def by (metis distinct_append distinct.simps(2) append_Cons mset_append
        add_mset_add_single mset.simps(2) union_commute distinct_count_atmost_1 mset_eq_imp_distinct_iff)
  then show ?thesis by auto
qed


lemma idle_seen_absent:
  assumes "main_ok s" and "seen s a = Some (PS_AUTH_INACTIVE, x)"
  shows "a \<notin> set (ms_db_ip s) \<and> a \<notin> set (ms_db_dtls_id s) \<and> a \<notin> set (ms_db_sid s)
    \<and> a \<notin> sw_proc ` set (ms_scripts s)"
  using assms by (auto simp: main_ok_seen entries_ok_seen scripts_ok_seen)

lemma entries_ok_effect:
  assumes "entries_ok t s" and "\<forall>b. b \<noteq> a \<longrightarrow> seen s' b = seen s b"
    and "seen s a = Some (st, x)" and "seen s' a = Some (st', x')"
    and "st \<noteq> PS_AUTH_INACTIVE \<longrightarrow> st' \<noteq> PS_AUTH_INACTIVE"
  shows "entries_ok t s'"
  using assms unfolding entries_ok_seen by (metis option.inject prod.inject)

lemma entries_ok_added:
  assumes "entries_ok t s'" and "a \<notin> set t" and "seen s' a = Some (st', x')" and "st' \<noteq> PS_AUTH_INACTIVE"
  shows "entries_ok (ht_add i a t) s'"
  using assms by (auto simp: entries_ok_seen distinct_ht_add)

lemma main_ok_effect:
  assumes ok: "main_ok s" and eff: "cmd_effect a s s'"
  shows "main_ok s'"
proof -
  obtain st pid u st' u' where e: "seen s a = Some (st, pid, u)" "seen s' a = Some (st', pid, u')"
    "st \<noteq> PS_AUTH_INACTIVE \<longrightarrow> st' \<noteq> PS_AUTH_INACTIVE \<and> u' = u"
    "tables s' = tables s \<or> st = PS_AUTH_INACTIVE \<and> st' \<noteq> PS_AUTH_INACTIVE \<and> added a s s'"
    "ms_scripts s' = ms_scripts s \<or> st = PS_AUTH_INACTIVE \<and> st' \<noteq> PS_AUTH_INACTIVE
       \<and> (\<exists>w. ms_scripts s' = w # ms_scripts s \<and> sw_proc w = a)"
    using eff unfolding cmd_effect_def by blast
  have o: "\<forall>b. b \<noteq> a \<longrightarrow> seen s' b = seen s b" using eff by (simp add: cmd_effect_def)
  have keep: "entries_ok t s'" if "entries_ok t s" for t
    using entries_ok_effect [OF that o e(1,2)] e(3) by blast
  have idle: "st = PS_AUTH_INACTIVE \<Longrightarrow> a \<notin> set (ms_db_ip s) \<and> a \<notin> set (ms_db_dtls_id s)
      \<and> a \<notin> set (ms_db_sid s) \<and> a \<notin> sw_proc ` set (ms_scripts s)"
    using idle_seen_absent [OF ok] e(1) by blast
  have t: "entries_ok (ms_db_ip s) s'" "entries_ok (ms_db_dtls_id s) s'" "entries_ok (ms_db_sid s) s'"
    using ok keep by (simp_all add: main_ok_def)
  have tables: "entries_ok (ms_db_ip s') s' \<and> entries_ok (ms_db_dtls_id s') s' \<and> entries_ok (ms_db_sid s') s'
      \<and> set (ms_db_ip s') = set (ms_db_sid s') \<and> set (ms_db_dtls_id s') = set (ms_db_sid s')"
  proof (cases "tables s' = tables s")
    case True
    then show ?thesis using t ok by (simp add: tables_def main_ok_def)
  next
    case False
    then obtain i j k where n: "st = PS_AUTH_INACTIVE" "st' \<noteq> PS_AUTH_INACTIVE" "ms_db_ip s' = ht_add i a (ms_db_ip s)"
      "ms_db_dtls_id s' = ht_add j a (ms_db_dtls_id s)" "ms_db_sid s' = ht_add k a (ms_db_sid s)"
      using e(4) by (auto simp: added_def tables_def)
    show ?thesis
      using n idle entries_ok_added [OF t(1) _ e(2)] entries_ok_added [OF t(2) _ e(2)]
        entries_ok_added [OF t(3) _ e(2)] ok by (simp add: main_ok_def)
  qed
  have sc: "\<forall>w \<in> set (ms_scripts s). \<exists>st x. seen s' (sw_proc w) = Some (st, x) \<and> st \<noteq> PS_AUTH_INACTIVE"
  proof
    fix w assume w: "w \<in> set (ms_scripts s)"
    then obtain st2 x where "seen s (sw_proc w) = Some (st2, x)" "st2 \<noteq> PS_AUTH_INACTIVE"
      using ok by (auto simp: main_ok_seen scripts_ok_seen)
    then show "\<exists>st x. seen s' (sw_proc w) = Some (st, x) \<and> st \<noteq> PS_AUTH_INACTIVE"
      using o e(1-3) by (cases "sw_proc w = a") auto
  qed
  have scripts: "scripts_ok s'"
  proof (cases "ms_scripts s' = ms_scripts s")
    case True
    then show ?thesis using sc ok by (simp add: scripts_ok_seen main_ok_def)
  next
    case False
    then obtain w where "st = PS_AUTH_INACTIVE" "st' \<noteq> PS_AUTH_INACTIVE" "ms_scripts s' = w # ms_scripts s" "sw_proc w = a"
      using e(5) by blast
    then show ?thesis using sc idle e(2) ok by (auto simp: scripts_ok_seen main_ok_def)
  qed
  have pids: "seen s b = Some (x, q, y) \<Longrightarrow> q \<noteq> -1" for b x q y
    using ok unfolding main_ok_seen by blast
  have "q \<noteq> -1" if "seen s' b = Some (x, q, y)" for b x q y
    using that pids [OF e(1)] pids [of b x q y] o e(2) by (cases "b = a") auto
  then have pids': "\<forall>b st pid u. seen s' b = Some (st, pid, u) \<longrightarrow> pid \<noteq> -1" by blast
  have "addrs s' = addrs s" "ms_active_clients s' = ms_active_clients s"
    using eff unfolding cmd_effect_def by blast+
  moreover have "distinct (addrs s)" "ms_active_clients s = of_nat (length (addrs s))"
    using ok unfolding main_ok_seen by blast+
  ultimately have "distinct (addrs s')" "ms_active_clients s' = of_nat (length (addrs s'))" by simp_all
  then show ?thesis unfolding main_ok_seen using tables scripts pids' by blast
qed

section \<open>Commands of a worker\<close>

lemma silent_effect:
  assumes "silent s s1" and "keeps p p'" and "same_user p p'" and "get_proc s (pr_addr p) = Some p"
  shows "cmd_effect (pr_addr p) s (put_proc p' s1)"
proof -
  have s1: "seen s1 b = seen s b" for b
    by (rule seen_cores) (use assms(1) in \<open>simp add: silent_def\<close>)
  have a: "pr_addr p' = pr_addr p" using assms(2) by (simp add: keeps_def)
  have p: "seen s (pr_addr p) = Some (pr_status p, pr_pid p, pr_username p)"
    using assms(4) by (simp add: seen_def)
  then have "get_proc s1 (pr_addr p') \<noteq> None" using s1 [of "pr_addr p"] a by (auto simp: seen_def)
  then have "seen (put_proc p' s1) = (seen s1)(pr_addr p := Some (pr_status p, pr_pid p, pr_username p))"
    using seen_put [of s1 p'] assms(2,3) by (simp add: keeps_def same_user_def)
  then show ?thesis
    using assms(1) s1 p silent_tables [OF assms(1)] by (simp add: cmd_effect_def silent_def)
qed


text \<open>The process waits for its connect script.\<close>

definition waits :: "nat \<Rightarrow> main_server \<Rightarrow> main_server \<Rightarrow> bool" where
  "waits a s s' \<longleftrightarrow> cores s' = cores s \<and> tables s' = tables s \<and> ms_active_clients s' = ms_active_clients s
     \<and> (\<exists>w. ms_scripts s' = w # ms_scripts s \<and> sw_proc w = a)"

lemma silent_waits: "silent s s1 \<Longrightarrow> waits a s1 s2 \<Longrightarrow> waits a s s2"
  by (auto simp: silent_def waits_def)

lemma waits_silent: "waits a s s1 \<Longrightarrow> silent s1 s2 \<Longrightarrow> waits a s s2"
  by (auto simp: silent_def waits_def)

lemma user_connected_frame:
  "user_connected cfg env s p = (ret, s') \<Longrightarrow>
    silent s s' \<or> ret = ERR_WAIT_FOR_SCRIPT \<and> waits (pr_addr p) s s'"
  by (auto simp: user_connected_def call_script_def Let_def add_to_script_list_def waits_def
      out_def cores_def tables_def silent_def err_codes split: if_splits prod.splits)

lemma user_disconnected_frame: "silent s (user_disconnected cfg env s p)"
  by (simp add: user_disconnected_def call_script_def Let_def)

lemma accept_user_frame:
  assumes "accept_user cfg env s p c = (ret, p', s')"
  shows "keeps p p' \<and> same_user p p' \<and> (silent s s' \<or> ret = ERR_WAIT_FOR_SCRIPT \<and> waits (pr_addr p) s s')
    \<and> (0 \<le> ret \<or> \<not> silent s s' \<longrightarrow> check_multiple_users cfg s p = 0)"
proof (cases "check_multiple_users cfg s p < 0")
  case True
  then show ?thesis using assms by (auto simp: accept_user_def Let_def same_user_def)
next
  case False
  then have chk: "check_multiple_users cfg s p = 0"
    by (simp add: check_multiple_users_def Let_def split: if_splits)
  obtain r p1 s1 where o: "open_tun cfg (xe_lease env) (xe_tun env) s p = (r, p1, s1)"
    by (metis prod_cases3)
  note f = open_tun_frame [OF o]
  obtain r2 s2 where u: "user_connected cfg (xe_script env) s1 p1 = (r2, s2)" by (metis surj_pair)
  have "silent s s2 \<or> r2 = ERR_WAIT_FOR_SCRIPT \<and> waits (pr_addr p) s s2"
    using user_connected_frame [OF u] f silent_trans silent_waits by (auto simp: keeps_def)
  then show ?thesis
    using assms chk o u f by (auto simp: accept_user_def Let_def split: if_splits)
qed

lemma check_cores:
  assumes "cores s1 = cores s"
  shows "check_multiple_users cfg s1 p = check_multiple_users cfg s p"
proof -
  let ?P = "\<lambda>q. pr_addr q \<noteq> pr_addr p \<and> pr_pid q \<noteq> -1 \<and> pr_username p = pr_username q"
  have "length (filter ?P (ms_procs x)) = length (filter ?P (cores x))" for x
    by (simp add: cores_def filter_map comp_def)
  then show ?thesis by (simp add: check_multiple_users_def assms)
qed

text \<open>The other workers of a user.\<close>

definition others :: "main_server \<Rightarrow> nat \<Rightarrow> string \<Rightarrow> nat set" where
  "others s a u = {b. b \<noteq> a \<and> (\<exists>st pid. seen s b = Some (st, pid, u))}"

lemma finite_others: "finite (others s a u)"
proof -
  have "others s a u \<subseteq> set (addrs s)"
    by (auto simp: others_def seen_def) (metis get_proc_None option.distinct(1))
  then show ?thesis using finite_subset by blast
qed

lemma check_multiple_others:
  assumes "check_multiple_users cfg s p = 0" and "mg_max_same_clients cfg \<noteq> 0" and "main_ok s"
    and "length (ms_procs s) < 2 ^ 32 - 1"
  shows "card (others s (pr_addr p) (pr_username p)) < unat (mg_max_same_clients cfg)"
proof -
  let ?P = "\<lambda>q. pr_addr q \<noteq> pr_addr p \<and> pr_pid q \<noteq> -1 \<and> pr_username p = pr_username q"
  let ?n = "length (filter ?P (ms_procs s))"
  have d: "distinct (addrs s)" and pids: "\<forall>q \<in> set (ms_procs s). pr_pid q \<noteq> -1"
    using assms(3) by (simp_all add: main_ok_def)
  have "others s (pr_addr p) (pr_username p) = pr_addr ` set (filter ?P (ms_procs s))"
    using pids by (auto simp: others_def seen_def get_proc_iff [OF d])
  moreover have "inj_on pr_addr (set (filter ?P (ms_procs s)))"
    using d by (auto simp: addrs_def distinct_map intro: inj_on_subset)
  ultimately have "card (others s (pr_addr p) (pr_username p)) = card (set (filter ?P (ms_procs s)))"
    by (simp add: card_image)
  also have "\<dots> \<le> ?n" by (rule card_length)
  finally have le: "card (others s (pr_addr p) (pr_username p)) \<le> ?n" .
  have small: "?n + 1 < 2 ^ 32" using length_filter_le [of ?P "ms_procs s"] assms(4) by linarith
  have "\<not> mg_max_same_clients cfg < 1 + of_nat ?n"
    using assms(1,2) by (auto simp: check_multiple_users_def Let_def split: if_splits)
  then have "unat (of_nat (?n + 1) :: u32) \<le> unat (mg_max_same_clients cfg)"
    by (simp add: word_le_nat_alt linorder_not_less add.commute)
  moreover have "unat (of_nat (?n + 1) :: u32) = ?n + 1"
    using small by (simp add: unat_of_nat take_bit_nat_eq_self del: of_nat_Suc of_nat_add)
  ultimately have "?n + 1 \<le> unat (mg_max_same_clients cfg)" by simp
  then show ?thesis using le by linarith
qed

definition auth_over :: "proc_st \<Rightarrow> bool" where
  "auth_over p \<longleftrightarrow> pr_status p = PS_AUTH_FAILED \<or> pr_status p = PS_AUTH_COMPLETED"

lemma auth_res_frame:
  assumes "handle_cookie_auth_res cfg env s p c result = Inr (ret, p', s')"
  shows "pr_addr p' = pr_addr p \<and> pr_pid p' = pr_pid p \<and> same_user p p' \<and> auth_over p'
    \<and> (silent s s' \<or> waits (pr_addr p) s s')
    \<and> (pr_status p' = PS_AUTH_COMPLETED \<or> \<not> silent s s' \<longrightarrow>
         result = 0 \<and> check_multiple_users cfg s p = 0)"
proof -
  let ?x = "if result = 0 then
              (case accept_user cfg env s p c of
                 (ret, p1, s1) \<Rightarrow>
                   (ret, p1\<lparr>pr_status := (if ret < 0 then PS_AUTH_FAILED else PS_AUTH_COMPLETED)\<rparr>, s1))
            else (if result < 0 then result else ERR_BAD_COMMAND, p\<lparr>pr_status := PS_AUTH_FAILED\<rparr>, s)"
  obtain r p1 s1 where x: "?x = (r, p1, s1)" by (rule prod_cases3)
  have f: "pr_addr p1 = pr_addr p \<and> pr_pid p1 = pr_pid p \<and> same_user p p1 \<and> auth_over p1
    \<and> (silent s s1 \<or> r = ERR_WAIT_FOR_SCRIPT \<and> waits (pr_addr p) s s1)
    \<and> (r = 0 \<or> pr_status p1 = PS_AUTH_COMPLETED \<or> \<not> silent s s1 \<longrightarrow>
         result = 0 \<and> check_multiple_users cfg s p = 0)"
  proof (cases "result = 0")
    case True
    obtain r2 p2 s2 where a: "accept_user cfg env s p c = (r2, p2, s2)" by (metis prod_cases3)
    show ?thesis
      using accept_user_frame [OF a] x a True by (auto simp: keeps_def same_user_def auth_over_def split: if_splits)
  next
    case False
    then show ?thesis
      using x by (auto simp: same_user_def auth_over_def err_codes split: if_splits)
  qed
  show ?thesis
  proof (cases "r = ERR_WAIT_FOR_SCRIPT")
    case True
    then have "p' = p1" "s' = s1" using assms x by (simp_all add: handle_cookie_auth_res_def)
    then show ?thesis using f by blast
  next
    case False
    then obtain r3 p3 where h: "handle_script_exit (xe_human env) (xe_send env) (xe_route env) s1 p1 r
        = Inr (r3, p3, s')" "p' = (if r3 < 0 then p3\<lparr>pr_status := PS_AUTH_FAILED\<rparr> else p3)"
      using assms x by (auto simp: handle_cookie_auth_res_def split: sum.splits prod.splits)
    note g = script_exit_frame [OF h(1)]
    have "silent s s'" using f g False silent_trans by blast
    then show ?thesis using f g h(2) by (auto simp: same_user_def auth_over_def)
  qed
qed


text \<open>A worker whose client has been let in, or is about to be when its script ends well.\<close>

definition let_in :: "main_server \<Rightarrow> nat \<Rightarrow> bool" where
  "let_in s a \<longleftrightarrow> (\<exists>pid u. seen s a = Some (PS_AUTH_COMPLETED, pid, u)) \<or> a \<in> sw_proc ` set (ms_scripts s)"

text \<open>The limit held when the worker was let in.\<close>

definition admits :: "main_cfg \<Rightarrow> nat \<Rightarrow> main_server \<Rightarrow> main_server \<Rightarrow> bool" where
  "admits cfg a s s' \<longleftrightarrow> (let_in s' a \<longrightarrow> let_in s a \<or> mg_max_same_clients cfg = 0
     \<or> (\<forall>st pid u. seen s' a = Some (st, pid, u) \<longrightarrow> card (others s a u) < unat (mg_max_same_clients cfg)))"

lemma seen_some: "get_proc s a = Some p \<Longrightarrow> seen s a = Some (pr_status p, pr_pid p, pr_username p)"
  by (simp add: seen_def)

lemma seen_ext: "cores s' = cores s \<Longrightarrow> seen s' = seen s"
  by (rule ext) (rule seen_cores)

lemma seen_put_cores:
  assumes "cores s1 = cores s" and "get_proc s (pr_addr p) \<noteq> None"
  shows "seen (put_proc p s1) = (seen s)(pr_addr p := Some (pr_status p, pr_pid p, pr_username p))"
proof -
  have "seen s1 (pr_addr p) \<noteq> None" using assms seen_ext [OF assms(1)] by (simp add: seen_def)
  then have "get_proc s1 (pr_addr p) \<noteq> None" by (simp add: seen_def)
  then show ?thesis using seen_put seen_ext [OF assms(1)] by metis
qed

lemma silent_admits:
  assumes "silent s s1" and "keeps p p'" and "same_user p p'" and "get_proc s (pr_addr p) = Some p"
  shows "admits cfg (pr_addr p) s (put_proc p' s1)"
proof -
  have a: "pr_addr p' = pr_addr p" using assms(2) by (simp add: keeps_def)
  have "seen (put_proc p' s1) (pr_addr p) = seen s (pr_addr p)"
    using seen_put_cores [of s1 s p'] assms a
    by (simp add: silent_def keeps_def same_user_def seen_some)
  then show ?thesis using assms(1) by (simp add: admits_def let_in_def silent_def)
qed

lemma auth_cookie_effect:
  assumes cmd: "cmd_auth_cookie cfg env s p m = Inr (ret, p2, s2)"
    and get: "get_proc s (pr_addr p) = Some p" and ok: "main_ok s"
  shows "cmd_effect (pr_addr p) s (put_proc p2 s2)
    \<and> (length (ms_procs s) < 2 ^ 32 - 1 \<longrightarrow> admits cfg (pr_addr p) s (put_proc p2 s2)) \<and> pr_addr p2 = pr_addr p"
proof (cases "pr_status p = PS_AUTH_INACTIVE \<and> m \<noteq> None")
  case False
  then have r: "p2 = p" "s2 = s" using cmd by (auto simp: cmd_auth_cookie_def split: option.splits if_splits)
  show ?thesis
    unfolding r using silent_effect [of s s p p] silent_admits [of s s p p] get by (simp add: same_user_def)
next
  case True
  then obtain cookie where st: "pr_status p = PS_AUTH_INACTIVE" and m: "m = Some cookie" by blast
  have abs: "absent (pr_addr p) s" "pr_addr p \<notin> sw_proc ` set (ms_scripts s)"
    using idle_absent [OF ok get st] by simp_all
  have d: "distinct (addrs s)" using ok by (simp add: main_ok_def)
  obtain r1 p1 s1 where h: "handle_auth_cookie_req cfg (wc_auth env) s p cookie = (r1, p1, s1)"
    by (rule prod_cases3)
  obtain r2 where g: "handle_cookie_auth_res cfg (wc_accept env) s1 p1 True r1 = Inr (r2, p2, s2)"
    using cmd st m h by (auto simp: cmd_auth_cookie_def split: sum.splits prod.splits)
  have f1: "keeps p p1" "auth_effect p s s1" using auth_cookie_frame [OF h abs(1) d] by blast+
  note f2 = auth_res_frame [OF g]
  have a: "pr_addr p1 = pr_addr p" "pr_addr p2 = pr_addr p" "pr_pid p2 = pr_pid p"
    using f1 f2 by (simp_all add: keeps_def)
  have cores1: "cores s1 = cores s" using f1 by (simp add: auth_effect_def)
  have cores2: "cores s2 = cores s" using f2 cores1 by (auto simp: silent_def waits_def)
  have seen2: "seen (put_proc p2 s2) = (seen s)(pr_addr p := Some (pr_status p2, pr_pid p, pr_username p2))"
    using seen_put_cores [OF cores2, of p2] get a by simp
  have over: "pr_status p2 \<noteq> PS_AUTH_INACTIVE" using f2 by (auto simp: auth_over_def)
  have tabs: "tables s2 = tables s1" "ms_active_clients s2 = ms_active_clients s"
    using f1 f2 by (auto simp: silent_def waits_def auth_effect_def)
  have "tables s1 = tables s \<or> added (pr_addr p) s s1" using f1 by (simp add: auth_effect_def)
  then have t: "tables (put_proc p2 s2) = tables s \<or> added (pr_addr p) s (put_proc p2 s2)"
    using tabs by (simp add: added_def)
  have sc1: "ms_scripts s1 = ms_scripts s" using f1 by (simp add: auth_effect_def)
  then have sc: "ms_scripts s2 = ms_scripts s \<or> (\<exists>w. ms_scripts s2 = w # ms_scripts s \<and> sw_proc w = pr_addr p)"
    using f2 a by (auto simp: silent_def waits_def)
  have "addrs s2 = addrs s" using cores2 by (simp add: addrs_cores)
  then have ad: "addrs (put_proc p2 s2) = addrs s" by simp
  have eff: "cmd_effect (pr_addr p) s (put_proc p2 s2)"
    unfolding cmd_effect_def seen2 seen_some [OF get] using ad tabs t sc over st by simp
  have "admits cfg (pr_addr p) s (put_proc p2 s2)" if few: "length (ms_procs s) < 2 ^ 32 - 1"
  proof (cases "mg_max_same_clients cfg = 0 \<or> \<not> let_in (put_proc p2 s2) (pr_addr p)")
    case True
    then show ?thesis by (auto simp: admits_def)
  next
    case False
    have "pr_status p2 = PS_AUTH_COMPLETED \<or> ms_scripts s2 \<noteq> ms_scripts s1"
      using False abs(2) sc1 by (auto simp: let_in_def seen2)
    then have chk: "check_multiple_users cfg s1 p1 = 0" using f2 by (auto simp: silent_def)
    have "check_multiple_users cfg s p1 = check_multiple_users cfg s1 p1"
      using check_cores [OF cores1] by metis
    then have "card (others s (pr_addr p1) (pr_username p1)) < unat (mg_max_same_clients cfg)"
      using check_multiple_others [of cfg s p1] chk False ok few by simp
    then show ?thesis using f2 a seen2 by (simp add: admits_def same_user_def)
  qed
  then show ?thesis using eff a by blast
qed


lemma other_command_frame:
  assumes "worker_command cfg env s p req = Inr (ret, p', s')" and "\<forall>m. req \<noteq> R_auth_cookie m"
  shows "silent s s' \<and> keeps p p' \<and> same_user p p'"
proof (cases req)
  case (R_ban_ip m)
  then show ?thesis
    using assms(1) by (auto simp: worker_command_def cmd_ban_ip_def send_msg_to_worker_def same_user_def
        split: option.splits prod.splits sum.splits)
next
  case (R_tun_mtu m)
  then show ?thesis
    using assms(1) by (auto simp: worker_command_def set_tun_mtu_def keeps_def same_user_def
        split: option.splits if_splits)
next
  case (R_session_info m)
  then show ?thesis
    using assms(1) by (auto simp: worker_command_def set_session_info_def keeps_def same_user_def
        split: option.splits)
next
  case (R_resume_store m)
  then show ?thesis
    using assms(1) by (auto simp: worker_command_def cmd_resume_store_def same_user_def
        split: option.splits prod.splits)
next
  case (R_resume_delete m)
  then show ?thesis
    using assms(1) by (auto simp: worker_command_def same_user_def split: option.splits)
next
  case (R_resume_fetch m)
  then show ?thesis
    using assms(1) by (auto simp: worker_command_def cmd_fetch_reply_def send_msg_to_worker_def Let_def
        keeps_def same_user_def split: option.splits if_splits prod.splits)
next
  case R_unknown
  then show ?thesis using assms(1) by (simp add: worker_command_def same_user_def)
qed (use assms(2) in simp)

lemma handle_commands_effect:
  assumes "handle_commands cfg env s p r = Inr (ret, p', s')"
    and "get_proc s (pr_addr p) = Some p" and "main_ok s"
  shows "cmd_effect (pr_addr p) s (put_proc p' s')
    \<and> (length (ms_procs s) < 2 ^ 32 - 1 \<longrightarrow> admits cfg (pr_addr p) s (put_proc p' s')) \<and> pr_addr p' = pr_addr p"
proof (cases "\<exists>m. r = Recv (R_auth_cookie m)")
  case True
  then show ?thesis
    using auth_cookie_effect assms by (auto simp: handle_commands_def worker_command_def)
next
  case False
  then have "silent s s' \<and> keeps p p' \<and> same_user p p'"
    using assms(1) other_command_frame [of cfg env s p _ ret p' s']
    by (cases r) (auto simp: handle_commands_def same_user_def)
  then show ?thesis
    using silent_effect silent_admits assms(2) by (auto simp: keeps_def)
qed

section \<open>Removing a worker\<close>

lemma unlink_effect:
  assumes "distinct (addrs s)"
  shows "addrs (unlink_proc s p k) = remove1 (pr_addr p) (addrs s)
    \<and> seen (unlink_proc s p k) = (seen s)(pr_addr p := None)
    \<and> ms_active_clients (unlink_proc s p k) = ms_active_clients s - 1
    \<and> tables (unlink_proc s p k) = tables s \<and> ms_scripts (unlink_proc s p k) = ms_scripts s"
proof -
  have procs: "ms_procs (unlink_proc s p k) = remove_first (\<lambda>q. pr_addr q = pr_addr p) (ms_procs s)"
    by (simp add: unlink_proc_def Let_def out_def)
  have "seen (unlink_proc s p k) = (seen s)(pr_addr p := None)"
    using get_removed [OF assms procs] by (auto simp: seen_def)
  then show ?thesis
    using procs by (simp add: addrs_def remove_first_map) (simp add: unlink_proc_def Let_def out_def tables_def)
qed

lemma leave_session_effect:
  assumes "leave_session cfg env s p = (p', s')"
  shows "pr_addr p' = pr_addr p \<and> cores s' = cores s \<and> tables s' = tables s
    \<and> ms_active_clients s' = ms_active_clients s
    \<and> ms_scripts s' = remove_first (\<lambda>w. sw_proc w = pr_addr p) (ms_scripts s)"
proof -
  obtain p1 s1 where c: "(if pr_active_sid p then snd (session_close (re_session env) s p) else (p, s)) = (p1, s1)"
    by (rule prod.exhaust)
  have q: "silent s s1 \<and> pr_addr p1 = pr_addr p"
  proof (cases "pr_active_sid p")
    case True
    then obtain r where "session_close (re_session env) s p = (r, p1, s1)"
      using c by (metis prod.collapse)
    from session_close_frame [OF this] show ?thesis by (simp add: keeps_def)
  qed (use c in simp)
  let ?s2 = "remove_from_script_list s1 p1"
  have s': "s' = (if pr_status p1 = PS_AUTH_COMPLETED then user_disconnected cfg (re_script env) ?s2 p1 else ?s2)"
      "pr_addr p' = pr_addr p1"
    using assms c by (auto simp: leave_session_def Let_def)
  then have "silent ?s2 s'" using user_disconnected_frame by simp
  then show ?thesis
    using q s' by (simp add: silent_def remove_from_script_list_def cores_def tables_def)
qed

lemma release_effect:
  "cores (release_proc s p) = cores s \<and> ms_active_clients (release_proc s p) = ms_active_clients s
    \<and> ms_scripts (release_proc s p) = ms_scripts s
    \<and> tables (release_proc s p) = (remove1 (pr_addr p) (ms_db_ip s),
         remove1 (pr_addr p) (ms_db_dtls_id s), remove1 (pr_addr p) (ms_db_sid s))"
proof -
  have "pr_addr (close_tun q) = pr_addr q" for q by (simp add: close_tun_def)
  then show ?thesis
    by (simp add: release_proc_def proc_table_del_def cores_def tables_def set_leases_def split: prod.splits)
qed

lemma remove_proc_effect:
  assumes "remove_proc cfg env s p k = Inr s'" and "distinct (addrs s)"
  shows "addrs s' = remove1 (pr_addr p) (addrs s) \<and> seen s' = (seen s)(pr_addr p := None)
    \<and> ms_active_clients s' = ms_active_clients s - 1
    \<and> tables s' = (remove1 (pr_addr p) (ms_db_ip s), remove1 (pr_addr p) (ms_db_dtls_id s),
         remove1 (pr_addr p) (ms_db_sid s))
    \<and> ms_scripts s' = remove_first (\<lambda>w. sw_proc w = pr_addr p) (ms_scripts s)"
proof -
  obtain p1 s1 where l: "leave_session cfg env (unlink_proc s p k) p = (p1, s1)" by (metis surj_pair)
  obtain p2 s2 where i: "remove_proc_iroutes (re_route env) s1 p1 = Inr (p2, s2)" "s' = release_proc s2 p2"
    using assms(1) l by (auto simp: remove_proc_def split: sum.splits)
  have q: "silent s1 s2" "pr_addr p2 = pr_addr p1"
    using run_iroutes_frame [OF i(1) [unfolded remove_proc_iroutes_def]] by (simp_all add: keeps_def)
  note e = unlink_effect [OF assms(2), of p k] leave_session_effect [OF l] release_effect [of s2 p2]
  have c: "cores s' = cores (unlink_proc s p k)" using e q i(2) by (simp add: silent_def)
  show ?thesis
    using e q i(2) c seen_ext [OF c] silent_tables [OF q(1)] by (simp add: addrs_cores silent_def tables_def)
qed

lemma main_ok_remove:
  assumes "remove_proc cfg env s p k = Inr s'" and "main_ok s" and "get_proc s (pr_addr p) \<noteq> None"
  shows "main_ok s'"
proof -
  let ?a = "pr_addr p"
  have d: "distinct (addrs s)" using assms(2) by (simp add: main_ok_def)
  note e = remove_proc_effect [OF assms(1) d]
  have t: "entries_ok (remove1 ?a x) s'" if "entries_ok x s" for x
    using that e by (auto simp: entries_ok_seen)
  have sw: "map sw_proc (ms_scripts s') = remove1 ?a (map sw_proc (ms_scripts s))"
    using e by (simp add: remove_first_map)
  have dw: "distinct (map sw_proc (ms_scripts s))" using assms(2) by (simp add: main_ok_def scripts_ok_def)
  have "scripts_ok s'"
    unfolding scripts_ok_seen
  proof (intro conjI ballI)
    show "distinct (map sw_proc (ms_scripts s'))" using sw dw by simp
    fix w assume "w \<in> set (ms_scripts s')"
    then have "sw_proc w \<in> set (map sw_proc (ms_scripts s)) - {?a}"
      using sw dw by (metis image_eqI set_map set_remove1_eq)
    then obtain w2 where "w2 \<in> set (ms_scripts s)" "sw_proc w2 = sw_proc w" "sw_proc w \<noteq> ?a" by auto
    moreover then obtain st x where "seen s (sw_proc w) = Some (st, x)" "st \<noteq> PS_AUTH_INACTIVE"
      using assms(2) unfolding main_ok_seen scripts_ok_seen by metis
    ultimately show "\<exists>st x. seen s' (sw_proc w) = Some (st, x) \<and> st \<noteq> PS_AUTH_INACTIVE" using e by simp
  qed
  moreover have "distinct (addrs s')" "ms_active_clients s' = of_nat (length (addrs s'))"
  proof -
    show "distinct (addrs s')" using e d by simp
    have "?a \<in> set (addrs s)" using assms(3) get_proc_None [of s ?a] by simp
    then have "length (addrs s) = Suc (length (addrs s'))"
      using e by (simp add: length_remove1) (metis One_nat_def Suc_pred length_pos_if_in_set)
    moreover have "ms_active_clients s = of_nat (length (addrs s))" using assms(2) by (simp add: main_ok_seen)
    ultimately show "ms_active_clients s' = of_nat (length (addrs s'))" using e by simp
  qed
  moreover have "seen s' b = Some (st, pid, u) \<Longrightarrow> pid \<noteq> -1" for b st pid u
    using e assms(2) unfolding main_ok_seen by (metis fun_upd_apply option.distinct(1))
  moreover have "entries_ok (ms_db_ip s') s' \<and> entries_ok (ms_db_dtls_id s') s' \<and> entries_ok (ms_db_sid s') s'
      \<and> set (ms_db_ip s') = set (ms_db_sid s') \<and> set (ms_db_dtls_id s') = set (ms_db_sid s')"
  proof -
    have "ms_db_ip s' = remove1 ?a (ms_db_ip s)" "ms_db_dtls_id s' = remove1 ?a (ms_db_dtls_id s)"
      "ms_db_sid s' = remove1 ?a (ms_db_sid s)" using e by (simp_all add: tables_def)
    moreover have "entries_ok (ms_db_ip s) s" "entries_ok (ms_db_dtls_id s) s" "entries_ok (ms_db_sid s) s"
      "set (ms_db_ip s) = set (ms_db_sid s)" "set (ms_db_dtls_id s) = set (ms_db_sid s)"
      using assms(2) by (simp_all add: main_ok_def)
    moreover from this have "distinct (ms_db_ip s)" "distinct (ms_db_dtls_id s)" "distinct (ms_db_sid s)"
      by (simp_all add: entries_ok_def)
    ultimately show ?thesis using t by simp
  qed
  ultimately show ?thesis unfolding main_ok_seen by blast
qed


section \<open>Children, connections, datagrams, the control socket\<close>

lemma remove_first_elem: "x \<in> set (remove_first P xs) \<Longrightarrow> x \<in> set xs"
  by (induction xs) (auto split: if_splits)

lemma distinct_remove_first: "distinct (map f xs) \<Longrightarrow> distinct (map f (remove_first P xs))"
  by (induction xs) (auto dest: remove_first_elem)

lemma cleanup_child_cases:
  assumes "cleanup_child cfg env s pid status = Inr s'"
  shows "(s' = s \<or> s' = s\<lparr>ms_terminate := True\<rparr>)
    \<or> (\<exists>w p p1 s2 s3 ret. w \<in> set (ms_scripts s) \<and> get_proc s (sw_proc w) = Some p \<and> cores s2 = cores s
        \<and> tables s2 = tables s \<and> ms_active_clients s2 = ms_active_clients s
        \<and> ms_scripts s2 = remove_first (\<lambda>w. sw_pid w = pid) (ms_scripts s)
        \<and> ms_procs s2 = ms_procs s
        \<and> handle_script_exit (cv_human env) (cv_send env) (cv_route env) s2 p (WEXITSTATUS status) = Inr (ret, p1, s3)
        \<and> (if ret < 0 then remove_proc cfg (cv_remove env) (put_proc p1 s3) p1 True = Inr s'
           else s' = put_proc p1 s3))"
proof -
  define s1 where "s1 = (if pid = mg_sec_mod_pid cfg then s\<lparr>ms_terminate := True\<rparr> else s)"
  have s1: "ms_scripts s1 = ms_scripts s" "ms_procs s1 = ms_procs s" "tables s1 = tables s"
    "ms_active_clients s1 = ms_active_clients s"
    by (simp_all add: s1_def tables_def)
  show ?thesis
  proof (cases "List.find (\<lambda>w. sw_pid w = pid) (ms_scripts s)")
    case None
    then have "s' = s1" using assms s1 by (simp add: cleanup_child_def Let_def flip: s1_def)
    then show ?thesis by (simp add: s1_def)
  next
    case (Some w)
    define s2 where "s2 = s1\<lparr>ms_scripts := remove_first (\<lambda>w. sw_pid w = pid) (ms_scripts s)\<rparr>"
    obtain p where p: "get_proc s2 (sw_proc w) = Some p"
      using assms Some s1 by (auto simp: cleanup_child_def Let_def simp flip: s1_def s2_def split: option.splits)
    obtain ret p1 s3 where h: "handle_script_exit (cv_human env) (cv_send env) (cv_route env) s2 p (WEXITSTATUS status)
        = Inr (ret, p1, s3)"
      "(if ret < 0 then remove_proc cfg (cv_remove env) (put_proc p1 s3) p1 True else Inr (put_proc p1 s3)) = Inr s'"
      using assms Some s1 p
      by (auto simp: cleanup_child_def Let_def simp flip: s1_def s2_def split: sum.splits prod.splits)
    have "w \<in> set (ms_scripts s)" using find_Some_iff_ex [OF Some] by simp
    moreover have "get_proc s (sw_proc w) = Some p" using p s1 by (simp add: get_proc_def s2_def)
    moreover have "cores s2 = cores s" "tables s2 = tables s" "ms_active_clients s2 = ms_active_clients s"
      "ms_scripts s2 = remove_first (\<lambda>w. sw_pid w = pid) (ms_scripts s)" "ms_procs s2 = ms_procs s"
      using s1 by (simp_all add: s2_def cores_def tables_def)
    ultimately show ?thesis using h by (metis sum.inject(2))
  qed
qed

text \<open>No worker comes or is let in.\<close>

definition shrinks :: "main_server \<Rightarrow> main_server \<Rightarrow> bool" where
  "shrinks s s' \<longleftrightarrow> (\<forall>a. let_in s' a \<longrightarrow> let_in s a)
    \<and> (\<forall>a st q u. seen s' a = Some (st, q, u) \<longrightarrow> (\<exists>st. seen s a = Some (st, q, u)))"

lemma shrinks_trans: "shrinks s s1 \<Longrightarrow> shrinks s1 s2 \<Longrightarrow> shrinks s s2"
  unfolding shrinks_def by blast

lemma silent_shrinks: "silent s s' \<Longrightarrow> shrinks s s'"
  using seen_ext [of s' s] by (simp add: shrinks_def let_in_def silent_def)

lemma remove_shrinks:
  assumes "remove_proc cfg env s p k = Inr s'" and "distinct (addrs s)"
  shows "shrinks s s'"
proof -
  have e: "seen s' = (seen s)(pr_addr p := None)"
      "ms_scripts s' = remove_first (\<lambda>w. sw_proc w = pr_addr p) (ms_scripts s)"
    using remove_proc_effect [OF assms] by blast+
  have "let_in s b" if "let_in s' b" for b
    using that e by (auto simp: let_in_def dest: remove_first_elem split: if_splits)
  moreover have "seen s b = Some x" if "seen s' b = Some x" for b x
    using that e by (auto split: if_splits)
  ultimately show ?thesis unfolding shrinks_def by blast
qed

text \<open>A child that was no script, or a script whose worker stays, or a worker that goes.\<close>

lemma cleanup_child_effect:
  assumes c: "cleanup_child cfg env s pid status = Inr s'" and ok: "main_ok s"
  shows "main_ok s' \<and> shrinks s s'"
  using cleanup_child_cases [OF c]
proof (elim disjE exE conjE)
  assume "s' = s" then show ?thesis using ok silent_shrinks by simp
next
  assume "s' = s\<lparr>ms_terminate := True\<rparr>"
  then have "silent s s'" by simp
  then show ?thesis using main_ok_silent ok silent_shrinks by blast
next
  fix w p p1 s2 s3 ret
  assume w: "w \<in> set (ms_scripts s)" "get_proc s (sw_proc w) = Some p" "cores s2 = cores s"
    and t: "tables s2 = tables s" "ms_active_clients s2 = ms_active_clients s"
    and sc: "ms_scripts s2 = remove_first (\<lambda>w. sw_pid w = pid) (ms_scripts s)"
    and h: "handle_script_exit (cv_human env) (cv_send env) (cv_route env) s2 p (WEXITSTATUS status) = Inr (ret, p1, s3)"
    and r: "if ret < 0 then remove_proc cfg (cv_remove env) (put_proc p1 s3) p1 True = Inr s'
           else s' = put_proc p1 s3"
  let ?a = "pr_addr p" and ?s = "put_proc p1 s3"
  have d: "distinct (addrs s)" using ok by (simp add: main_ok_def)
  have a: "sw_proc w = ?a" using get_proc_addr w(2) by metis
  note f = script_exit_frame [OF h]
  have c3: "cores s3 = cores s" using f w(3) by (simp add: silent_def)
  have over: "pr_status p \<noteq> PS_AUTH_INACTIVE" using ok w by (auto simp: main_ok_def scripts_ok_def)
  have over1: "pr_status p1 \<noteq> PS_AUTH_INACTIVE" using f over by simp
  have seen1: "seen ?s = (seen s)(?a := Some (pr_status p1, pr_pid p, pr_username p))"
    using seen_put_cores [OF c3, of p1] f w(2) a by (simp add: same_user_def)
  have sc1: "ms_scripts ?s = remove_first (\<lambda>w. sw_pid w = pid) (ms_scripts s)" using f sc by (simp add: silent_def)
  have t1: "tables ?s = tables s" "ms_active_clients ?s = ms_active_clients s" using f t by (simp_all add: silent_def)
  have old: "seen s ?a = Some (pr_status p, pr_pid p, pr_username p)" using w(2) a by (simp add: seen_def)
  have ad: "addrs ?s = addrs s" using c3 by (simp add: addrs_cores [of s3] addrs_cores [of s])
  have keep: "entries_ok x ?s" if "entries_ok x s" for x
    using that old over1 by (auto simp: entries_ok_seen seen1)
  have "scripts_ok ?s"
    unfolding scripts_ok_seen sc1 seen1
    using ok over1 distinct_remove_first [of sw_proc "ms_scripts s"]
    by (auto simp: main_ok_seen scripts_ok_seen dest: remove_first_elem)
  moreover have pids: "seen s b = Some (x, q, y) \<Longrightarrow> q \<noteq> -1" for b x q y
    using ok unfolding main_ok_seen by blast
  have "q \<noteq> -1" if "seen ?s b = Some (st, q, u)" for b st q u
    using that pids [OF old] pids [of b st q u] by (auto simp: seen1 split: if_splits)
  moreover have "ms_db_ip ?s = ms_db_ip s" "ms_db_dtls_id ?s = ms_db_dtls_id s" "ms_db_sid ?s = ms_db_sid s"
    using t1 by (simp_all add: tables_def)
  moreover have "entries_ok (ms_db_ip s) ?s" "entries_ok (ms_db_dtls_id s) ?s" "entries_ok (ms_db_sid s) ?s"
    using ok keep by (simp_all add: main_ok_def)
  moreover have "set (ms_db_ip s) = set (ms_db_sid s)" "set (ms_db_dtls_id s) = set (ms_db_sid s)"
    "distinct (addrs ?s)" "ms_active_clients ?s = of_nat (length (addrs ?s))"
    using ok ad t1 by (simp_all add: main_ok_seen)
  ultimately have ok1: "main_ok ?s" unfolding main_ok_seen by metis
  have "?a \<in> sw_proc ` set (ms_scripts s)" using w(1) a by (metis imageI)
  then have acc: "let_in s b" if "let_in ?s b" for b
    using that seen1 sc1 by (auto simp: let_in_def dest: remove_first_elem split: if_splits)
  have same: "\<exists>st. seen s b = Some (st, q, u)" if "seen ?s b = Some (st, q, u)" for b st q u
    using that old seen1 by (auto split: if_splits)
  have sh: "shrinks s ?s" using acc same unfolding shrinks_def by blast
  show ?thesis
  proof (cases "ret < 0")
    case False
    then show ?thesis using r ok1 sh by simp
  next
    case True
    then have rm: "remove_proc cfg (cv_remove env) ?s p1 True = Inr s'" using r by simp
    have "seen ?s (pr_addr p1) \<noteq> None" using seen1 f by simp
    then have "get_proc ?s (pr_addr p1) \<noteq> None" by (simp add: seen_def)
    then have "main_ok s'" using main_ok_remove [OF rm ok1] by simp
    moreover have "shrinks ?s s'" using remove_shrinks [OF rm] ad d by simp
    ultimately show ?thesis using sh shrinks_trans by blast
  qed
qed

lemma cleanup_children_effect:
  "cleanup_children cfg s cs = Inr s' \<Longrightarrow> main_ok s \<Longrightarrow> main_ok s' \<and> shrinks s s'"
proof (induction cfg s cs rule: cleanup_children.induct)
  case (2 cfg s env pid status cs)
  then obtain s1 where c: "cleanup_child cfg env s pid status = Inr s1"
    by (auto split: sum.splits)
  note e = cleanup_child_effect [OF c "2.prems"(2)]
  have "cleanup_children cfg s1 cs = Inr s'" using "2.prems"(1) c by simp
  from "2.IH" [OF c this] e show ?case using shrinks_trans by blast
qed (auto simp: shrinks_def)

lemma main_ok_new:
  assumes "new_proc addr now s pid fd ra rl = Some s'" and "addr = Some a" and "get_proc s a = None"
    and "main_ok s" and "pid \<noteq> -1"
  shows "main_ok s' \<and> seen s' = (seen s)(a := Some (PS_AUTH_INACTIVE, pid, [])) \<and> ms_scripts s' = ms_scripts s
    \<and> addrs s' = a # addrs s \<and> ms_active_clients s' = ms_active_clients s + 1"
proof -
  let ?p = "(zero_proc a)\<lparr>pr_pid := pid, pr_tun_fd := -1, pr_fd := fd, pr_conn_time := now,
    pr_remote_addr := ra, pr_remote_addr_len := rl\<rparr>"
  have s': "s' = s\<lparr>ms_procs := ?p # ms_procs s, ms_active_clients := ms_active_clients s + 1\<rparr>"
    using assms(1,2) by (simp add: new_proc_def Let_def)
  have f: "ms_scripts s' = ms_scripts s" "tables s' = tables s" "addrs s' = a # addrs s"
    "ms_active_clients s' = ms_active_clients s + 1"
    by (simp_all add: s' tables_def addrs_def zero_proc_def)
  have "get_proc s' = (get_proc s)(a := Some ?p)"
    by (rule ext) (simp add: s' get_proc_def tbl_get_def zero_proc_def)
  then have seen: "seen s' = (seen s)(a := Some (PS_AUTH_INACTIVE, pid, []))"
    by (auto simp: seen_def zero_proc_def)
  have none: "seen s a = None" using assms(3) by (simp add: seen_def)
  have keep: "entries_ok x s'" if "entries_ok x s" for x
    using that none by (auto simp: entries_ok_seen seen)
  have "scripts_ok s'" using assms(4) none by (auto simp: main_ok_seen scripts_ok_seen seen f)
  moreover have pids: "seen s b = Some (x, q, y) \<Longrightarrow> q \<noteq> -1" for b x q y
    using assms(4) unfolding main_ok_seen by blast
  have "q \<noteq> -1" if "seen s' b = Some (st, q, u)" for b st q u
    using that pids [of b st q u] assms(5) by (auto simp: seen split: if_splits)
  moreover have "ms_db_ip s' = ms_db_ip s" "ms_db_dtls_id s' = ms_db_dtls_id s" "ms_db_sid s' = ms_db_sid s"
    using f by (simp_all add: tables_def)
  moreover have "entries_ok (ms_db_ip s) s'" "entries_ok (ms_db_dtls_id s) s'" "entries_ok (ms_db_sid s) s'"
    using assms(4) keep by (simp_all add: main_ok_def)
  moreover have "set (ms_db_ip s) = set (ms_db_sid s)" "set (ms_db_dtls_id s) = set (ms_db_sid s)"
    "distinct (addrs s')" "ms_active_clients s' = of_nat (length (addrs s'))"
    using assms(3,4) f get_proc_None [of s a] by (simp_all add: main_ok_seen)
  ultimately have "main_ok s'" unfolding main_ok_seen by metis
  then show ?thesis using seen f by blast
qed

lemma accept_conn_cases:
  "silent s (accept_conn cfg env s)
    \<or> (\<exists>a s1. silent s s1 \<and> ms_procs s1 = ms_procs s \<and> cx_proc env = Some a \<and> cx_pid env \<noteq> -1
         \<and> (mg_max_clients cfg = 0 \<or> ms_active_clients s < mg_max_clients cfg)
         \<and> new_proc (Some a) (cx_now env) s1 (cx_pid env) (cx_cmd_fd env) (cx_addr env) (cx_addr_len env)
             = Some (accept_conn cfg env s))"
proof -
  obtain banned db where b: "check_if_banned (mg_ban cfg) (cx_ban_alloc env) (cx_now env) (cx_now2 env)
      (ms_ban s) (cx_ip env) = (banned, db)" by (metis surj_pair)
  let ?s1 = "s\<lparr>ms_ban := db\<rparr>"
  show ?thesis
  proof (cases "(mg_max_clients cfg = 0 \<or> ms_active_clients s < mg_max_clients cfg) \<and> cx_wrapper env
      \<and> banned = 0 \<and> cx_socketpair env \<and> cx_pid env \<noteq> -1 \<and> cx_proc env \<noteq> None")
    case True
    then obtain a where a: "cx_proc env = Some a" by blast
    have "new_proc (Some a) (cx_now env) ?s1 (cx_pid env) (cx_cmd_fd env) (cx_addr env) (cx_addr_len env)
        = Some (accept_conn cfg env s)"
      using True a b by (auto simp: accept_conn_def Let_def new_proc_def not_le word_neq_0_conv)
    moreover have "silent s ?s1" "ms_procs ?s1 = ms_procs s" by simp_all
    ultimately show ?thesis using a True by blast
  next
    case False
    then have "silent s (accept_conn cfg env s)"
      using b by (auto simp: accept_conn_def Let_def new_proc_def not_le word_neq_0_conv)
    then show ?thesis by blast
  qed
qed

lemma forward_udp_frame: "main_ok s \<Longrightarrow> silent s (snd (forward_udp_to_owner cfg env s))"
proof -
  assume ok: "main_ok s"
  have found: "silent s (put_proc (p\<lparr>pr_udp_fd_receive_time := t\<rparr>) (out m s))"
    if "get_proc s (pr_addr p) = Some p" for p t m
  proof -
    have "silent (out m s) (put_proc (p\<lparr>pr_udp_fd_receive_time := t\<rparr>) (out m s))"
      by (rule silent_put [where q = p])
        (use that ok in \<open>simp_all add: get_proc_def out_def core_def main_ok_def addrs_def\<close>)
    then show ?thesis by simp
  qed
  have srch: "proc_search_ip s x n = Some p \<Longrightarrow> get_proc s (pr_addr p) = Some p"
    "proc_search_dtls_id s y = Some p \<Longrightarrow> get_proc s (pr_addr p) = Some p" for x n y p
    by (auto simp: proc_search_ip_def proc_search_dtls_id_def Let_def dest: ht_search_get split: if_splits)
  show ?thesis
    using found srch by (auto simp: forward_udp_to_owner_def Let_def split: option.splits)
qed

end
