(* ===== verification/MainStep.thy ===== *)
theory MainStep
  imports MainInv
begin

text \<open>
  The invariant over whole runs of the main process, with the limits on the number of clients
  and on the connections of one user, and the absence of dangling worker pointers.
\<close>

section \<open>The control socket\<close>

lemma terminate_proc_effect:
  assumes "terminate_proc cfg env s p = Inr s'" and "main_ok s" and "get_proc s (pr_addr p) = Some p"
  shows "main_ok s' \<and> shrinks s s' \<and> set (addrs s) - {pr_addr p} \<subseteq> set (addrs s')"
proof (cases "pr_pid p \<noteq> -1 \<and> pr_pid p \<noteq> 0")
  case True
  then have "silent s s'" using assms(1) by (auto simp: terminate_proc_def)
  then show ?thesis using main_ok_silent assms(2) silent_shrinks silent_tables by fastforce
next
  case False
  then have r: "remove_proc cfg (cl_remove env) s p True = Inr s'"
    using assms(1) by (auto simp: terminate_proc_def split: if_splits)
  have d: "distinct (addrs s)" using assms(2) by (simp add: main_ok_def)
  then have "addrs s' = remove1 (pr_addr p) (addrs s)" using remove_proc_effect [OF r] by blast
  then show ?thesis using main_ok_remove [OF r assms(2)] remove_shrinks [OF r d] assms(3) d by simp
qed

lemma iroutes_errors: "run_iroutes r s p = Inl e \<Longrightarrow> e \<noteq> Freed_worker \<and> e \<noteq> Null_worker"
  by (auto simp: run_iroutes_def split: option.splits sum.splits)

lemma remove_errors: "remove_proc cfg env s p k = Inl e \<Longrightarrow> e \<noteq> Freed_worker \<and> e \<noteq> Null_worker"
  unfolding remove_proc_def remove_proc_iroutes_def
  by (auto split: prod.splits sum.splits dest: iroutes_errors)

lemma disconnect_effect:
  assumes "main_ok s" and "distinct as" and "set as \<subseteq> set (addrs s)"
  shows "disconnect cfg env hit one st s as \<noteq> Inl Freed_worker
    \<and> (\<forall>st' s'. disconnect cfg env hit one st s as = Inr (st', s') \<longrightarrow> main_ok s' \<and> shrinks s s')"
  using assms
proof (induction as arbitrary: s st)
  case Nil
  then show ?case using silent_shrinks [of s s] by simp
next
  case (Cons a as)
  obtain p where p: "get_proc s a = Some p" using Cons.prems(3) get_proc_None [of s a] by auto
  have a: "pr_addr p = a" using p by (rule get_proc_addr)
  show ?case
  proof (cases "hit p")
    case False
    then show ?thesis using Cons.IH [OF Cons.prems(1), of st] Cons.prems(2,3) p by simp
  next
    case True
    show ?thesis
    proof (cases "terminate_proc cfg env s p")
      case (Inl e)
      then have "e \<noteq> Freed_worker" by (auto simp: terminate_proc_def dest: remove_errors split: if_splits)
      then show ?thesis using Inl p True by simp
    next
      case (Inr s1)
      then have e: "main_ok s1" "shrinks s s1" "set (addrs s) - {a} \<subseteq> set (addrs s1)"
        using terminate_proc_effect [OF Inr Cons.prems(1)] p a by simp_all
      then have "set as \<subseteq> set (addrs s1)" using Cons.prems(2,3) by auto
      then have "disconnect cfg env hit one True s1 as \<noteq> Inl Freed_worker
          \<and> (\<forall>st' s'. disconnect cfg env hit one True s1 as = Inr (st', s') \<longrightarrow> main_ok s' \<and> shrinks s1 s')"
        using Cons.IH [OF e(1)] Cons.prems(2) by simp
      then show ?thesis using Inr p True e shrinks_trans by auto
    qed
  qed
qed

lemma disconnect_all:
  assumes "main_ok s"
  shows "disconnect cfg env hit one st s (map pr_addr (ms_procs s)) \<noteq> Inl Freed_worker
    \<and> (\<forall>st' s'. disconnect cfg env hit one st s (map pr_addr (ms_procs s)) = Inr (st', s') \<longrightarrow>
        main_ok s' \<and> shrinks s s')"
  by (rule disconnect_effect [OF assms]) (use assms in \<open>simp_all add: main_ok_def addrs_def\<close>)

lemma ctl_effect:
  assumes "main_ok s"
  shows "ctl_handle_commands cfg env s buf \<noteq> Inl Freed_worker
    \<and> (\<forall>r s'. ctl_handle_commands cfg env s buf = Inr (r, s') \<longrightarrow> main_ok s' \<and> shrinks s s')"
proof -
  have q: "silent s s' \<Longrightarrow> main_ok s' \<and> shrinks s s'" for s'
    using main_ok_silent [OF _ assms] silent_shrinks by blast
  have ban: "snd (method_unban_ip s ip) = s\<lparr>ms_ban := snd (remove_ip_from_ban_list (ms_ban s) ip)\<rparr>" for ip
    by (simp add: method_unban_ip_def split: prod.splits)
  have "ctl_method cfg env s cmd msg \<noteq> Inl Freed_worker
      \<and> (\<forall>r s'. ctl_method cfg env s cmd msg = Inr (r, s') \<longrightarrow> main_ok s' \<and> shrinks s s')" for cmd msg
  proof (cases "cmd = CTL_CMD_DISCONNECT_NAME \<or> cmd = CTL_CMD_DISCONNECT_ID")
    case True
    then show ?thesis
      using disconnect_all [OF assms, of cfg env] q [of s]
      by (auto simp: ctl_method_def ctl_cmds method_disconnect_user_name_def method_disconnect_user_id_def
          map_sum_def split: option.splits sum.splits)
  next
    case False
    then have "case ctl_method cfg env s cmd msg of Inl e \<Rightarrow> e = Bad_memory Null_pointer | Inr (r, s') \<Rightarrow> silent s s'"
      using ban by (auto simp: ctl_method_def method_reload_def method_stop_def method_list_banned_def method_unban_ip_def split: option.splits prod.splits)
    then show ?thesis using q by (auto split: sum.splits)
  qed
  then show ?thesis using q [of s] by (simp add: ctl_handle_commands_def)
qed

section \<open>Steps\<close>

lemma script_exit_errors:
  "handle_script_exit h send renv s p code = Inl e \<Longrightarrow> e \<noteq> Freed_worker \<and> e \<noteq> Null_worker"
  unfolding handle_script_exit_def apply_proc_iroutes_def Let_def
  by (auto split: prod.splits sum.splits if_splits dest: iroutes_errors)

lemma no_dangling_command: "handle_commands cfg env s p r \<noteq> Inl Freed_worker"
proof -
  have auth: "handle_cookie_auth_res cfg e s p c x \<noteq> Inl Freed_worker" for e s p c x
    unfolding handle_cookie_auth_res_def
    by (auto split: prod.splits sum.splits dest: script_exit_errors)
  show ?thesis
    unfolding handle_commands_def worker_command_def cmd_ban_ip_def cmd_fetch_reply_def cmd_auth_cookie_def
      send_msg_to_worker_def Let_def
    using auth by (auto split: received.splits worker_req.splits option.splits prod.splits sum.splits)
qed

lemma cleanup_child_no_dangling: "main_ok s \<Longrightarrow> cleanup_child cfg env s pid status \<noteq> Inl Freed_worker"
proof
  assume ok: "main_ok s" and c: "cleanup_child cfg env s pid status = Inl Freed_worker"
  have live: "List.find P (ms_scripts s) = Some w \<Longrightarrow> get_proc s (sw_proc w) = None \<Longrightarrow> False" for P w
    using find_Some_iff_ex [of P "ms_scripts s" w] ok by (fastforce simp: main_ok_def scripts_ok_def)
  have g: "get_proc (s\<lparr>ms_terminate := b, ms_scripts := x\<rparr>) = get_proc s"
      "get_proc (s\<lparr>ms_scripts := x\<rparr>) = get_proc s" for b x
    by (rule ext, simp add: get_proc_def)+
  show False
    using c
    by (auto simp: cleanup_child_def Let_def g split: if_splits option.splits sum.splits prod.splits
        dest: remove_errors script_exit_errors live)
qed

lemma cleanup_no_dangling: "main_ok s \<Longrightarrow> cleanup_children cfg s cs \<noteq> Inl Freed_worker"
proof (induction cfg s cs rule: cleanup_children.induct)
  case (2 cfg s env pid status cs)
  show ?case
  proof (cases "cleanup_child cfg env s pid status")
    case (Inl e)
    then show ?thesis using cleanup_child_no_dangling [OF "2.prems", of cfg env pid status]
      by simp
  next
    case (Inr s1)
    then show ?thesis using "2.IH" cleanup_child_effect [OF Inr "2.prems"] by simp
  qed
qed simp


text \<open>The state after the worker's command, before the worker is removed when that fails.\<close>

definition commanded :: "main_cfg \<Rightarrow> main_event \<Rightarrow> nat \<Rightarrow> main_server \<Rightarrow> main_server \<Rightarrow> bool" where
  "commanded cfg ev a s s1 \<longleftrightarrow>
     (\<exists>env renv r p ret p1 s0. ev = Ev_cmd a env renv r \<and> get_proc s a = Some p
        \<and> handle_commands cfg env s p r = Inr (ret, p1, s0) \<and> s1 = put_proc p1 s0)"

lemma command_round_effect:
  assumes "command_round cfg env renv s p r = Inr s'" and "get_proc s (pr_addr p) = Some p" and "main_ok s"
  shows "\<exists>s1. commanded cfg (Ev_cmd (pr_addr p) env renv r) (pr_addr p) s s1
    \<and> cmd_effect (pr_addr p) s s1 \<and> main_ok s1
    \<and> (length (ms_procs s) < 2 ^ 32 - 1 \<longrightarrow> admits cfg (pr_addr p) s s1) \<and> main_ok s' \<and> shrinks s1 s'"
proof -
  obtain ret p1 s0 where h: "handle_commands cfg env s p r = Inr (ret, p1, s0)"
    "(if ret < 0 then remove_proc cfg renv (put_proc p1 s0) p1 (ret \<noteq> ERR_WORKER_TERMINATED)
      else Inr (put_proc p1 s0)) = Inr s'"
    using assms(1) by (auto simp: command_round_def split: sum.splits prod.splits)
  let ?s1 = "put_proc p1 s0"
  have e: "cmd_effect (pr_addr p) s ?s1" "pr_addr p1 = pr_addr p"
    "length (ms_procs s) < 2 ^ 32 - 1 \<longrightarrow> admits cfg (pr_addr p) s ?s1"
    using handle_commands_effect [OF h(1) assms(2,3)] by blast+
  have ok1: "main_ok ?s1" using main_ok_effect [OF assms(3) e(1)] .
  have "main_ok s' \<and> shrinks ?s1 s'"
  proof (cases "ret < 0")
    case False
    then show ?thesis using h(2) ok1 silent_shrinks [of ?s1 ?s1] by simp
  next
    case True
    then have rm: "remove_proc cfg renv ?s1 p1 (ret \<noteq> ERR_WORKER_TERMINATED) = Inr s'" using h(2) by simp
    have "seen ?s1 (pr_addr p1) \<noteq> None" using e(1,2) by (auto simp: cmd_effect_def)
    then have "get_proc ?s1 (pr_addr p1) \<noteq> None" by (simp add: seen_def)
    then show ?thesis using main_ok_remove [OF rm ok1] remove_shrinks [OF rm] ok1 by (simp add: main_ok_def)
  qed
  moreover have "commanded cfg (Ev_cmd (pr_addr p) env renv r) (pr_addr p) s ?s1"
    using assms(2) h(1) by (auto simp: commanded_def)
  ultimately show ?thesis using e ok1 by blast
qed

text \<open>
  What one event does: a worker's command, a new worker, or nothing that lets anybody in.
\<close>

lemma main_step_effect:
  assumes "main_step cfg ev s = Inr (cfg', s')" and "fresh_event s ev" and "main_ok s"
  shows "main_ok s' \<and>
    (shrinks s s'
     \<or> (\<exists>a s1. commanded cfg ev a s s1 \<and> cmd_effect a s s1 \<and> main_ok s1 \<and> (length (ms_procs s) < 2 ^ 32 - 1 \<longrightarrow> admits cfg a s s1) \<and> shrinks s1 s')
     \<or> (\<exists>a pid. seen s' = (seen s)(a := Some (PS_AUTH_INACTIVE, pid, [])) \<and> ms_scripts s' = ms_scripts s
          \<and> addrs s' = a # addrs s \<and> (mg_max_clients cfg = 0 \<or> ms_active_clients s < mg_max_clients cfg)))"
proof -
  have q: "silent s s' \<Longrightarrow> main_ok s' \<and> shrinks s s'"
    using main_ok_silent [OF _ assms(3)] silent_shrinks by blast
  show ?thesis
  proof (cases ev)
    case (Ev_conn env)
    then have s': "s' = accept_conn cfg env s" using assms(1) by (auto simp: main_step_def)
    consider "silent s s'" | (new) a s1 where "silent s s1" "ms_procs s1 = ms_procs s" "cx_proc env = Some a"
        "cx_pid env \<noteq> -1" "mg_max_clients cfg = 0 \<or> ms_active_clients s < mg_max_clients cfg"
        "new_proc (Some a) (cx_now env) s1 (cx_pid env) (cx_cmd_fd env) (cx_addr env) (cx_addr_len env) = Some s'"
      using accept_conn_cases [of s cfg env] unfolding s' by blast
    then show ?thesis
    proof cases
      case 1
      then show ?thesis using q by blast
    next
      case (new a s1)
      have free: "get_proc s1 a = None"
        using assms(2) Ev_conn new(2,3) by (simp add: fresh_event_def get_proc_def)
      have frame: "seen s1 = seen s" "addrs s1 = addrs s" "ms_scripts s1 = ms_scripts s"
        using new(1) silent_tables [OF new(1)] seen_ext [of s1 s] by (simp_all add: silent_def)
      have "main_ok s' \<and> seen s' = (seen s1)(a := Some (PS_AUTH_INACTIVE, cx_pid env, []))
          \<and> ms_scripts s' = ms_scripts s1 \<and> addrs s' = a # addrs s1"
        using main_ok_new [OF new(6) refl free main_ok_silent [OF new(1) assms(3)] new(4)] by blast
      then show ?thesis using new(5) unfolding frame by blast
    qed
  next
    case (Ev_cmd a env renv r)
    show ?thesis
    proof (cases "get_proc s a")
      case None
      then show ?thesis using assms(1) Ev_cmd q by (auto simp: main_step_def)
    next
      case (Some p)
      then have "pr_addr p = a" "command_round cfg env renv s p r = Inr s'"
        using assms(1) Ev_cmd get_proc_addr by (auto simp: main_step_def map_sum_def split: sum.splits)
      then show ?thesis using command_round_effect [of cfg env renv s p r s'] Some assms(3) Ev_cmd by blast
    qed
  next
    case (Ev_sec_mod al now sent r)
    have "silent s (snd (handle_sec_mod_commands cfg al now sent s r))"
      by (auto simp: handle_sec_mod_commands_def Let_def split: received.splits secmod_req.splits
          option.splits prod.splits)
    then show ?thesis using q assms(1) Ev_sec_mod by (auto simp: main_step_def split: prod.splits)
  next
    case (Ev_children cs)
    then show ?thesis using cleanup_children_effect [of cfg s cs s'] assms(1,3) by (auto simp: main_step_def map_sum_def split: sum.splits)
  next
    case (Ev_udp env)
    then have "snd (forward_udp_to_owner cfg env s) = s'" using assms(1) by (auto simp: main_step_def)
    then have "silent s s'" using forward_udp_frame [OF assms(3), of cfg env] by simp
    then show ?thesis using q by blast
  next
    case (Ev_ctl env buf)
    then obtain r where "ctl_handle_commands cfg env s buf = Inr (r, s')"
      using assms(1) by (auto simp: main_step_def map_sum_def split: sum.splits)
    then show ?thesis using ctl_effect [OF assms(3)] by blast
  next
    case (Ev_reload new)
    then have "silent s s'" using assms(1) by (auto simp: main_step_def)
    then show ?thesis using q by blast
  next
    case (Ev_maintenance tm now)
    then have "silent s s'" using assms(1) by (auto simp: main_step_def maintenance_def)
    then show ?thesis using q by blast
  qed
qed

lemma main_reach_ok: "main_reach cfg s \<Longrightarrow> main_ok s"
proof (induction rule: main_reach.induct)
  case reach_init
  then show ?case by (simp add: main_ok_def main_init_def addrs_def entries_ok_def scripts_ok_def)
next
  case (reach_step cfg s ev cfg' s')
  then show ?case using main_step_effect by blast
qed

end
