(* ===== verification/MainProps.thy ===== *)
theory MainProps
  imports MainStep LeasePool
begin

text \<open>
  What the main process keeps true over every sequence of events: no dangling worker, the
  limits on clients, no admission without a cookie that the security module confirmed, and
  what becomes of a datagram. With them some of its faults.
\<close>

section \<open>No dangling worker\<close>

lemma main_step_no_dangling:
  assumes "main_ok s"
  shows "main_step cfg ev s \<noteq> Inl Freed_worker"
proof (cases ev)
  case (Ev_cmd a env renv r)
  have "command_round cfg env renv s p r \<noteq> Inl Freed_worker" for p
    using no_dangling_command [of cfg env s p r]
    by (auto simp: command_round_def split: sum.splits prod.splits if_splits dest: remove_errors)
  then show ?thesis using Ev_cmd by (auto simp: main_step_def map_sum_def split: option.splits sum.splits)
next
  case (Ev_children cs)
  then show ?thesis using cleanup_no_dangling [OF assms] by (auto simp: main_step_def map_sum_def split: sum.splits)
next
  case (Ev_ctl env buf)
  then show ?thesis using ctl_effect [OF assms, of cfg env buf]
    by (auto simp: main_step_def map_sum_def split: sum.splits)
qed (simp_all add: main_step_def split: prod.splits)

text \<open>A configuration and a run for the witnesses: one client connects and logs in.\<close>

definition example_main_cfg :: main_cfg where
  "example_main_cfg = \<lparr>mg_max_clients = 16, mg_max_same_clients = 2, mg_connect_script = False,
     mg_disconnect_script = False, mg_network_name = ''vpns'', mg_network = example_net,
     mg_deny_roaming = False, mg_udp_port = 443, mg_unix_conn_file = False, mg_uid = -1, mg_gid = -1,
     mg_cookie_timeout = 300, mg_cookie_key = [5], mg_ban = example_ban_cfg, mg_sec_mod_pid = 2,
     mg_rx_per_sec = 0, mg_tx_per_sec = 0, mg_dns = [], mg_nbns = [], mg_routes = [], mg_no_routes = []\<rparr>"

text \<open>The client at 10.1.1.1 connects, and its worker is at the address 7.\<close>

definition example_sa :: sockaddr where
  "example_sa = \<lparr>sa_family = AF_INET, sa_addr = [10, 1, 1, 1]\<rparr>"

definition example_conn :: conn_env where
  "example_conn = \<lparr>cx_addr = example_sa, cx_addr_len = 16, cx_wrapper = True, cx_ip = Some ''10.1.1.1'',
     cx_ban_alloc = example_alloc, cx_now = 1000, cx_now2 = 1000, cx_socketpair = True, cx_pid = 101,
     cx_cmd_fd = 9, cx_proc = Some 7\<rparr>"

text \<open>Its cookie unpacks to the user alice; the security module opens the session.\<close>

definition example_sealed :: "byte list" where
  "example_sealed = replicate 12 9 @ [6] @ [5, 0, 0, 0, 0, 0, 0, 0, 0, 0, 0, 0]"

definition example_main_cookie :: cookie_msg where
  "example_main_cookie = \<lparr>ck_username = Some ''alice'', ck_groupname = None, ck_hostname = None,
     ck_ip = Some ''10.1.1.1'', ck_tls_auth_ok = False, ck_ipv4_seed = 4,
     ck_sid = replicate SID_SIZE 3, ck_expiration = 0\<rparr>"

definition example_reply :: session_reply_msg where
  "example_reply = \<lparr>sp_no_udp = None, sp_deny_roaming = None, sp_ipv6_prefix = None, sp_rx_per_sec = 0,
     sp_tx_per_sec = 0, sp_net_priority = 0, sp_ipv4_net = None, sp_ipv4_netmask = None,
     sp_ipv6_net = None, sp_cgroup = None, sp_xml_config_file = None, sp_explicit_ipv4 = None,
     sp_explicit_ipv6 = None, sp_routes = [], sp_no_routes = [], sp_iroutes = [], sp_dns = [], sp_nbns = []\<rparr>"

definition example_session :: session_env where
  "example_session = \<lparr>sn_send = 0, sn_reply = (0, Some example_reply), sn_stats = (0, 0, 0)\<rparr>"

definition example_human :: human where
  "example_human a n = (if sa_addr a = [10, 1, 1, 1] then Some ''10.1.1.1'' else Some ''10.0.0.4'')"

definition example_tun :: tun_env where
  "example_tun = \<lparr>tu_open = 11, tu_setiff = Some ''vpns0'', tu_persist = True, tu_owner = True,
     tu_group = True, tu_socket = True, tu_addr = True, tu_dstaddr = True, tu_flags = True, tu_ipv6 = True\<rparr>"

definition example_command :: command_env where
  "example_command = \<lparr>
     wc_auth = \<lparr>ae_cookie = example_cookie_env\<lparr>cn_unpack := (\<lambda>_. Some example_main_cookie)\<rparr>,
       ae_rnd = Some (replicate 32 8), ae_session = example_session, ae_human = example_human,
       ae_table = \<lparr>te_ip = Some 0, te_dtls = Some 0, te_sid = Some 0\<rparr>\<rparr>,
     wc_accept = \<lparr>xe_lease = example_env, xe_tun = example_tun,
       xe_script = \<lparr>ve_fork_pid = 102, ve_talloc = True\<rparr>, xe_human = example_human, xe_send = 0,
       xe_route = example_route_env\<rparr>,
     wc_now = 1001, wc_ban_alloc = example_alloc, wc_store = example_store, wc_reply_sent = True,
     wc_mtu_socket = True, wc_mtu_ioctl = True\<rparr>"

definition example_remove :: remove_env where
  "example_remove = \<lparr>re_session = example_session, re_script = \<lparr>ve_fork_pid = 103, ve_talloc = True\<rparr>,
     re_route = example_route_env\<rparr>"

definition example_events :: "main_event list" where
  "example_events = [Ev_conn example_conn,
     Ev_cmd 7 example_command example_remove (Recv (R_auth_cookie (Some example_sealed)))]"

text \<open>The state after the two events.\<close>

fun fresh_run :: "main_cfg \<Rightarrow> main_event list \<Rightarrow> main_server \<Rightarrow> bool" where
  "fresh_run cfg [] s \<longleftrightarrow> True"
| "fresh_run cfg (ev # evs) s \<longleftrightarrow>
     fresh_event s ev \<and> (case main_step cfg ev s of Inl e \<Rightarrow> True | Inr (cfg1, s1) \<Rightarrow> fresh_run cfg1 evs s1)"

lemma run_cases:
  assumes "fresh_run cfg (ev # evs) s" and "main_run cfg (ev # evs) s = Inr r"
  obtains cfg1 s1 where "main_step cfg ev s = Inr (cfg1, s1)" "main_run cfg1 evs s1 = Inr r" "fresh_event s ev"
    "fresh_run cfg1 evs s1"
  using assms by (auto split: sum.splits)

lemma main_reach_run:
  "main_reach cfg s \<Longrightarrow> fresh_run cfg evs s \<Longrightarrow> main_run cfg evs s = Inr (cfg', s') \<Longrightarrow> main_reach cfg' s'"
proof (induction evs arbitrary: cfg s)
  case (Cons ev evs)
  from Cons.prems(2,3) obtain cfg1 s1 where "main_step cfg ev s = Inr (cfg1, s1)" "main_run cfg1 evs s1 = Inr (cfg', s')"
      "fresh_event s ev" "fresh_run cfg1 evs s1"
    by (rule run_cases)
  then show ?case using Cons.IH main_reach.reach_step [OF Cons.prems(1)] by blast
qed simp

text \<open>Only reading the file again changes the configuration.\<close>

lemma main_step_cfg:
  assumes "main_step cfg ev s = Inr (cfg', s')"
  shows "cfg' = (case ev of Ev_reload new \<Rightarrow> reload_main cfg new | _ \<Rightarrow> cfg)"
  using assms by (auto simp: main_step_def map_sum_def split: main_event.splits sum.splits option.splits prod.splits)

lemma main_run_cfg: "main_run cfg evs s = Inr (cfg', s') \<Longrightarrow> \<forall>new. Ev_reload new \<notin> set evs \<Longrightarrow> cfg' = cfg"
proof (induction evs arbitrary: cfg s)
  case (Cons ev evs)
  then obtain cfg1 s1 where "main_step cfg ev s = Inr (cfg1, s1)" "main_run cfg1 evs s1 = Inr (cfg', s')"
    by (auto split: sum.splits)
  then show ?case using Cons.IH [of cfg1 s1] main_step_cfg [of cfg ev s cfg1 s1] Cons.prems(2)
    by (cases ev) auto
qed simp

definition example_state :: main_server where
  "example_state = (case main_run example_main_cfg example_events main_init of Inr (_, s) \<Rightarrow> s | Inl e \<Rightarrow> main_init)"

lemma example_main_run: "main_run example_main_cfg example_events main_init = Inr (example_main_cfg, example_state)"
proof -
  have "case main_run example_main_cfg example_events main_init of Inr _ \<Rightarrow> True | Inl _ \<Rightarrow> False" by code_simp
  then obtain c where c: "main_run example_main_cfg example_events main_init = Inr (c, example_state)"
    by (auto simp: example_state_def split: sum.splits prod.splits)
  then have "c = example_main_cfg" by (rule main_run_cfg) (simp add: example_events_def)
  then show ?thesis using c by simp
qed

lemma example_main_reach: "main_reach example_main_cfg example_state"
proof (rule main_reach_run [OF main_reach.reach_init _ example_main_run])
  show "fresh_run example_main_cfg example_events main_init" by code_simp
qed

text \<open>
  C3: no dangling worker. Whatever the events and the outcomes of the system calls, in every
  state that the loop reaches the workers are distinct, active_clients is their number (modulo
  2^32), the three tables and the script list name only workers that are there, each at most
  once and none before authentication, and no event makes the loop use a worker that was freed.
\<close>

theorem main_no_dangling:
  assumes "main_reach cfg s"
  shows "main_ok s \<and> main_step cfg ev s \<noteq> Inl Freed_worker"
  using main_reach_ok [OF assms] main_step_no_dangling by blast

theorem main_no_dangling_witness:
  "main_ok example_state \<and> main_step example_main_cfg (Ev_conn example_conn) example_state \<noteq> Inl Freed_worker"
  using main_no_dangling [OF example_main_reach] .

section \<open>The limits on clients\<close>

lemma shrinks_addrs: "shrinks s s' \<Longrightarrow> set (addrs s') \<subseteq> set (addrs s)"
proof
  fix a assume "shrinks s s'" and "a \<in> set (addrs s')"
  then obtain x where "seen s' a = Some x" using get_proc_None [of s' a] by (auto simp: seen_def)
  then obtain st q u where "seen s' a = Some (st, q, u)" by (metis prod_cases3)
  then obtain st2 where "seen s a = Some (st2, q, u)" using \<open>shrinks s s'\<close> unfolding shrinks_def by blast
  then show "a \<in> set (addrs s)" using get_proc_None [of s a] by (auto simp: seen_def)
qed

lemma shrinks_length: "shrinks s s' \<Longrightarrow> main_ok s' \<Longrightarrow> length (addrs s') \<le> length (addrs s)"
  using card_mono [OF _ shrinks_addrs, of s s'] card_length [of "addrs s"]
  by (simp add: main_ok_def distinct_card)

text \<open>Workers that were let in, or wait for their script, for one user.\<close>

definition users :: "main_server \<Rightarrow> string \<Rightarrow> nat set" where
  "users s u = {a. let_in s a \<and> (\<exists>st q. seen s a = Some (st, q, u))}"

lemma seen_in_addrs: "seen s a = Some x \<Longrightarrow> a \<in> set (addrs s)"
  using get_proc_None [of s a] by (auto simp: seen_def)

lemma finite_users: "finite (users s u)"
proof (rule finite_subset)
  show "users s u \<subseteq> set (addrs s)" using seen_in_addrs by (force simp: users_def)
qed simp

lemma users_shrink: "shrinks s s' \<Longrightarrow> users s' u \<subseteq> users s u"
  unfolding users_def shrinks_def by blast

text \<open>A worker that is entered by a command.\<close>

lemma users_command:
  assumes e: "cmd_effect a s s1" and adm: "admits cfg a s s1" and lim: "mg_max_same_clients cfg \<noteq> 0" "unat (mg_max_same_clients cfg) \<le> n"
    and n: "card (users s u) \<le> n"
    and ok: "main_ok s"
  shows "card (users s1 u) \<le> n"
proof -
  have other: "let_in s1 b = let_in s b" "seen s1 b = seen s b" if "b \<noteq> a" for b
    using e that by (auto simp: let_in_def cmd_effect_def)
  have mem: "b \<in> users s1 v \<longleftrightarrow> b \<in> users s v" if "b \<noteq> a" for b v
    using other [OF that] by (simp add: users_def)
  show ?thesis
  proof (cases "a \<in> users s1 u")
    case False
    then have "users s1 u \<subseteq> users s u" using mem [of _ u] by (metis subsetI)
    then show ?thesis using n card_mono [OF finite_users, of "users s1 u" s u] by simp
  next
    case True
    then obtain st q where st: "seen s1 a = Some (st, q, u)" "let_in s1 a" by (auto simp: users_def)
    show ?thesis
    proof (cases "let_in s a")
      case acc: True
      obtain st0 q0 u0 where s0: "seen s a = Some (st0, q0, u0)" using e by (auto simp: cmd_effect_def)
      have "st0 \<noteq> PS_AUTH_INACTIVE"
      proof
        assume i: "st0 = PS_AUTH_INACTIVE"
        then have "a \<notin> sw_proc ` set (ms_scripts s)" using idle_seen_absent [OF ok] s0 by blast
        then show False using acc s0 i by (simp add: let_in_def)
      qed
      then have "u0 = u" using e s0 st(1) by (auto simp: cmd_effect_def)
      then have "a \<in> users s u" using acc s0 by (auto simp: users_def)
      then have "users s1 u \<subseteq> users s u" using mem [of _ u] by (metis subsetI)
      then show ?thesis using n card_mono [OF finite_users, of "users s1 u" s u] by simp
    next
      case False
      then have c: "card (others s a u) < unat (mg_max_same_clients cfg)"
        using adm lim st by (simp add: admits_def)
      have "users s u - {a} \<subseteq> others s a u" by (auto simp: users_def others_def)
      then have "users s1 u \<subseteq> insert a (others s a u)" using mem [of _ u] by (intro subsetI) (case_tac "x = a", simp, blast)
      then have "card (users s1 u) \<le> card (insert a (others s a u))"
        using finite_others by (intro card_mono) simp_all
      also have "\<dots> \<le> Suc (card (others s a u))" by (rule card_insert_le_m1) simp_all
      finally show ?thesis using c lim(2) by simp
    qed
  qed
qed

lemma users_new:
  assumes "seen s' = (seen s)(a := Some (PS_AUTH_INACTIVE, q, []))" and "ms_scripts s' = ms_scripts s"
    and "main_ok s'"
  shows "users s' u \<subseteq> users s u"
proof
  fix b assume b: "b \<in> users s' u"
  have "seen s' a = Some (PS_AUTH_INACTIVE, q, [])" using assms(1) by simp
  then have "\<not> let_in s' a" using idle_seen_absent [OF assms(3)] by (auto simp: let_in_def)
  then have "b \<noteq> a" using b by (auto simp: users_def)
  then show "b \<in> users s u" using b assms(1,2) by (simp add: users_def let_in_def)
qed

lemma length_addrs: "length (ms_procs s) = length (addrs s)" by (simp add: addrs_def)

lemma clients_step:
  assumes st: "main_step cfg ev s = Inr (cfg', s')" and fr: "fresh_event s ev" and ok: "main_ok s"
    and max: "mg_max_clients cfg \<noteq> 0" "unat (mg_max_clients cfg) \<le> n"
    and n: "length (ms_procs s) \<le> n" "n < 2 ^ 32"
  shows "length (ms_procs s') \<le> n"
proof -
  from main_step_effect [OF st fr ok] have ok': "main_ok s'" by blast
  from main_step_effect [OF st fr ok] consider "shrinks s s'"
    | a s1 where "cmd_effect a s s1" "main_ok s1" "shrinks s1 s'"
    | a where "addrs s' = a # addrs s" "ms_active_clients s < mg_max_clients cfg"
    using max by blast
  then show ?thesis
  proof cases
    case 1
    then show ?thesis using shrinks_length [OF 1 ok'] n by (simp add: length_addrs)
  next
    case (2 a s1)
    then have "addrs s1 = addrs s" by (simp add: cmd_effect_def)
    then show ?thesis using shrinks_length [OF 2(3) ok'] n by (simp add: length_addrs)
  next
    case (3 a)
    have "length (ms_procs s) < 2 ^ 32" using n by simp
    then have "unat (ms_active_clients s) = length (ms_procs s)"
      using ok by (simp add: main_ok_def unat_of_nat take_bit_eq_mod)
    then show ?thesis using 3 max by (simp add: length_addrs word_less_nat_alt)
  qed
qed

text \<open>The same for the workers of one user.\<close>

lemma users_step:
  assumes st: "main_step cfg ev s = Inr (cfg', s')" and fr: "fresh_event s ev" and ok: "main_ok s"
    and few: "length (ms_procs s) < 2 ^ 32 - 1"
    and lim: "mg_max_same_clients cfg \<noteq> 0" "unat (mg_max_same_clients cfg) \<le> n"
    and n: "card (users s u) \<le> n"
  shows "card (users s' u) \<le> n"
proof -
  have step: "card (users s2 u) \<le> n" if "card (users s1 u) \<le> n" "users s2 u \<subseteq> users s1 u" for s1 s2
    using that card_mono [OF finite_users that(2)] by simp
  from main_step_effect [OF st fr ok] have ok': "main_ok s'" by blast
  from main_step_effect [OF st fr ok] few
  consider "shrinks s s'" | a s1 where "cmd_effect a s s1" "admits cfg a s s1" "shrinks s1 s'"
    | a q where "seen s' = (seen s)(a := Some (PS_AUTH_INACTIVE, q, []))" "ms_scripts s' = ms_scripts s"
    by blast
  then show ?thesis
  proof cases
    case 1
    then show ?thesis using step [OF n users_shrink] by blast
  next
    case (2 a s1)
    then show ?thesis using step [OF users_command [OF 2(1,2) lim n ok] users_shrink] by blast
  next
    case (3 a q)
    then show ?thesis using step [OF n users_new [OF 3 ok']] by blast
  qed
qed

text \<open>The configurations that are in force during a run.\<close>

fun configs :: "main_cfg \<Rightarrow> main_event list \<Rightarrow> main_cfg list" where
  "configs cfg [] = [cfg]"
| "configs cfg (ev # evs) = cfg # configs (case ev of Ev_reload new \<Rightarrow> reload_main cfg new | _ \<Rightarrow> cfg) evs"

text \<open>What a limit of a configuration allows: 0 stands for no limit.\<close>

definition allows :: "u32 \<Rightarrow> nat \<Rightarrow> bool" where
  "allows limit n \<longleftrightarrow> limit \<noteq> 0 \<and> unat limit \<le> n"

lemma run_limits:
  assumes "main_reach cfg s" and "fresh_run cfg evs s" and "main_run cfg evs s = Inr (cfg', s')"
    and "\<forall>c \<in> set (configs cfg evs). allows (mg_max_clients c) m \<and> allows (mg_max_same_clients c) n"
    and "m < 2 ^ 32 - 1" and "length (ms_procs s) \<le> m" and "card (users s u) \<le> n"
  shows "length (ms_procs s') \<le> m \<and> card (users s' u) \<le> n"
  using assms(1-4,6,7)
proof (induction evs arbitrary: cfg s)
  case (Cons ev evs)
  from Cons.prems(2,3) obtain cfg1 s1 where st: "main_step cfg ev s = Inr (cfg1, s1)"
      "main_run cfg1 evs s1 = Inr (cfg', s')" "fresh_event s ev" "fresh_run cfg1 evs s1"
    by (rule run_cases)
  note ok = main_reach_ok [OF Cons.prems(1)]
  have lim: "mg_max_clients cfg \<noteq> 0" "unat (mg_max_clients cfg) \<le> m" "mg_max_same_clients cfg \<noteq> 0"
      "unat (mg_max_same_clients cfg) \<le> n"
    using Cons.prems(4) by (simp_all add: allows_def)
  have "length (ms_procs s1) \<le> m"
    using clients_step [OF st(1,3) ok lim(1,2) Cons.prems(5)] assms(5) by simp
  moreover have "card (users s1 u) \<le> n"
    using users_step [OF st(1,3) ok _ lim(3,4) Cons.prems(6)] Cons.prems(5) assms(5) by simp
  moreover have "set (configs cfg1 evs) \<subseteq> set (configs cfg (ev # evs))"
    using main_step_cfg [OF st(1)] by auto
  ultimately show ?case
    using Cons.IH [OF main_reach.reach_step [OF Cons.prems(1) st(3,1)] st(4,2)] Cons.prems(4) by blast
qed simp

lemma start_limits: "length (ms_procs main_init) \<le> m" "card (users main_init u) \<le> n"
  by (simp_all add: users_def seen_def get_proc_def tbl_get_def main_init_def)

text \<open>
  The limit on clients. As long as every configuration that is in force sets max-clients, the main
  process never has more workers than the largest of these limits, so active_clients does not wrap.
\<close>

theorem clients_limited:
  assumes "fresh_run cfg evs main_init" and "main_run cfg evs main_init = Inr (cfg', s')"
    and "\<forall>c \<in> set (configs cfg evs). allows (mg_max_clients c) m \<and> allows (mg_max_same_clients c) n"
    and "m < 2 ^ 32 - 1"
  shows "length (ms_procs s') \<le> m"
  using run_limits [OF main_reach.reach_init assms start_limits] by blast

theorem clients_limited_witness:
  "mg_max_clients example_main_cfg = 16 \<and> length (ms_procs example_state) \<le> 16"
proof -
  have "fresh_run example_main_cfg example_events main_init" by code_simp
  then have "length (ms_procs example_state) \<le> 16"
    by (rule clients_limited [OF _ example_main_run, of _ 2])
      (simp_all add: example_events_def example_main_cfg_def allows_def)
  then show ?thesis by (simp add: example_main_cfg_def)
qed

text \<open>
  C4: the limit on a user's connections, when the configuration may be read again at any time. Let every
  configuration that is in force during a run set max-clients and max-same-clients (neither is 0, which
  means no limit), max-clients never 2^32 - 1, and let n be the largest max-same-clients among them.
  Then however logins, scripts, roaming, disconnections and reloads interleave, no user has more than n
  workers that were let in or wait for their connect script. A reload that lowers the limit does not
  remove workers, so the limit in force at the end need not hold.
\<close>

theorem user_limited:
  assumes "fresh_run cfg evs main_init" and "main_run cfg evs main_init = Inr (cfg', s')"
    and "\<forall>c \<in> set (configs cfg evs). allows (mg_max_clients c) m \<and> allows (mg_max_same_clients c) n"
    and "m < 2 ^ 32 - 1"
  shows "card (users s' u) \<le> n"
  using run_limits [OF main_reach.reach_init assms start_limits] by blast

text \<open>The example, with the configuration read again at its end, for one worker less.\<close>

definition example_reloaded :: "main_event list" where
  "example_reloaded = example_events @ [Ev_reload (example_main_cfg\<lparr>mg_max_same_clients := 1\<rparr>)]"

theorem user_limited_witness:
  "\<exists>cfg' s'. main_run example_main_cfg example_reloaded main_init = Inr (cfg', s')
    \<and> mg_max_same_clients cfg' = 1 \<and> card (users s' ''alice'') \<le> 2"
proof -
  have "case main_run example_main_cfg example_reloaded main_init of Inr (c, _) \<Rightarrow> mg_max_same_clients c = 1 | Inl _ \<Rightarrow> False"
    by code_simp
  then obtain cfg' s' where run: "main_run example_main_cfg example_reloaded main_init = Inr (cfg', s')"
      "mg_max_same_clients cfg' = 1"
    by (auto split: sum.splits)
  have "fresh_run example_main_cfg example_reloaded main_init" by code_simp
  then have "card (users s' ''alice'') \<le> 2"
    by (rule user_limited [OF _ run(1), of 16])
      (simp_all add: example_reloaded_def example_events_def example_main_cfg_def allows_def reload_main_def)
  then show ?thesis using run by blast
qed

section \<open>Nobody is let in without a cookie\<close>

text \<open>
  What lets the worker \<open>p\<close> in with a cookie: the cookie opens under the server's key, the
  security module answered OK for it, where roaming is denied the client's address is that of
  the cookie, and a worker that holds the same session belongs to the same user.
\<close>

definition vouched :: "main_cfg \<Rightarrow> auth_env \<Rightarrow> main_server \<Rightarrow> proc_st \<Rightarrow> byte list \<Rightarrow> string \<Rightarrow> bool" where
  "vouched cfg env s p cookie u \<longleftrightarrow>
     (\<exists>ret c v n m. decrypt_cookie (ae_cookie env) (mg_cookie_key cfg) cookie = (ret, Some c) \<and> 0 \<le> ret
        \<and> ck_username c = Some v \<and> u = strlcpy_str MAX_USERNAME_SIZE v \<and> length (ck_sid c) = SID_SIZE
        \<and> 0 \<le> sn_send (ae_session env) \<and> sn_reply (ae_session env) = (n, Some m) \<and> 0 \<le> n
        \<and> (or_old (sp_deny_roaming m) (mg_deny_roaming cfg) \<longrightarrow>
             ck_ip c \<noteq> None \<and> ck_ip c = ae_human env (pr_remote_addr p) (pr_remote_addr_len p))
        \<and> (\<forall>old. proc_search_sid s (ck_sid c) = Some old \<longrightarrow> pr_username old = u))"

lemma get_proc_out [simp]: "get_proc (out m s) = get_proc s"
  by (rule ext) (simp add: get_proc_def out_def)

lemma search_sid_out [simp]: "proc_search_sid (out m s) sid = proc_search_sid s sid"
proof -
  have "ht_search (out m s) P t = ht_search s P t" for P t
    by (induction t) (simp_all split: option.splits)
  then show ?thesis by (simp add: proc_search_sid_def) (simp add: out_def)
qed

lemma enter_session_vouched:
  assumes "enter_session env s p c cookie = (0, p', s')"
  shows "\<exists>n m. 0 \<le> sn_send (ae_session env) \<and> sn_reply (ae_session env) = (n, Some m) \<and> 0 \<le> n
    \<and> pr_username p' = pr_username p
    \<and> \<not> roaming_denied (ae_human env) (p\<lparr>pr_config := fill_group_cfg m (pr_config p), pr_active_sid := True\<rparr>) c
    \<and> (\<forall>old. proc_search_sid s (ck_sid c) = Some old \<longrightarrow> pr_username old = pr_username p)"
proof -
  let ?p2 = "\<lambda>m. p\<lparr>pr_config := fill_group_cfg m (pr_config p), pr_active_sid := True\<rparr>"
  let ?s1 = "out (O_session_open (pr_addr p) (pr_sid p) (Some cookie)) s"
  obtain n m where o: "0 \<le> sn_send (ae_session env)" "sn_reply (ae_session env) = (n, Some m)" "0 \<le> n"
    using assms by (auto simp: enter_session_def session_open_def Let_def not_less split: if_splits prod.splits option.splits)
  have r: "\<not> roaming_denied (ae_human env) (?p2 m) c"
    using assms o by (auto simp: enter_session_def session_open_def Let_def split: if_splits)
  obtain r3 p3 s2 where j: "join_session env ?s1 (?p2 m) c = (r3, p3, s2)" by (rule prod_cases3)
  have r3: "\<not> r3 < 0" "p' = session_fields p3 c"
    using assms o r j by (auto simp: enter_session_def session_open_def Let_def split: if_splits prod.splits)
  have "pr_username (session_fields q c) = pr_username q" "pr_username (set_leases l q) = pr_username q" for q l
    by (simp_all add: session_fields_def set_leases_def)
  then have "pr_username p' = pr_username p"
    "\<forall>old. proc_search_sid s (ck_sid c) = Some old \<longrightarrow> pr_username old = pr_username p"
    using j r3 by (auto simp: join_session_def take_over_def Let_def split: option.splits if_splits prod.splits)
  then show ?thesis using o r by blast
qed

lemma cookie_req_vouched:
  assumes "handle_auth_cookie_req cfg env s p cookie = (0, p', s')"
  shows "vouched cfg env s p cookie (pr_username p')"
proof -
  obtain ret c v rnd where d: "decrypt_cookie (ae_cookie env) (mg_cookie_key cfg) cookie = (ret, Some c)" "0 \<le> ret"
      "ck_username c = Some v" "length (ck_sid c) = SID_SIZE"
      "enter_session env s (cookie_fields cfg (p\<lparr>pr_username := strlcpy_str MAX_USERNAME_SIZE v\<rparr>) c rnd) c cookie
        = (0, p', s')"
    using assms by (auto simp: handle_auth_cookie_req_def Let_def not_less split: if_splits option.splits prod.splits)
  let ?p = "cookie_fields cfg (p\<lparr>pr_username := strlcpy_str MAX_USERNAME_SIZE v\<rparr>) c rnd"
  have f: "pr_username ?p = strlcpy_str MAX_USERNAME_SIZE v" "pr_remote_addr ?p = pr_remote_addr p"
    "pr_remote_addr_len ?p = pr_remote_addr_len p" "gf_deny_roaming (pr_config ?p) = mg_deny_roaming cfg"
    by (simp_all add: cookie_fields_def apply_default_sup_config_def)
  from enter_session_vouched [OF d(5)] obtain n m where e: "0 \<le> sn_send (ae_session env)"
    "sn_reply (ae_session env) = (n, Some m)" "0 \<le> n" "pr_username p' = pr_username ?p"
    "\<not> roaming_denied (ae_human env) (?p\<lparr>pr_config := fill_group_cfg m (pr_config ?p), pr_active_sid := True\<rparr>) c"
    "\<forall>old. proc_search_sid s (ck_sid c) = Some old \<longrightarrow> pr_username old = pr_username ?p"
    by blast
  have "or_old (sp_deny_roaming m) (mg_deny_roaming cfg) \<longrightarrow>
      ck_ip c \<noteq> None \<and> ck_ip c = ae_human env (pr_remote_addr p) (pr_remote_addr_len p)"
    using e(5) f by (auto simp: roaming_denied_def fill_group_cfg_def split: option.splits)
  then show ?thesis unfolding vouched_def e(4) f(1) using d e f(1) by metis
qed

text \<open>A command that lets its worker in is AUTH_COOKIE_REQ with a cookie that is vouched for.\<close>

lemma command_vouched:
  assumes h: "handle_commands cfg env s p r = Inr (ret, p1, s0)" and get: "get_proc s (pr_addr p) = Some p"
    and ok: "main_ok s" and acc: "let_in (put_proc p1 s0) (pr_addr p)" "\<not> let_in s (pr_addr p)"
  shows "\<exists>cookie. r = Recv (R_auth_cookie (Some cookie)) \<and> vouched cfg (wc_auth env) s p cookie (pr_username p1)
    \<and> check_multiple_users cfg s p1 = 0"
proof (cases "\<exists>cookie. r = Recv (R_auth_cookie (Some cookie)) \<and> pr_status p = PS_AUTH_INACTIVE")
  case False
  have "silent s s0 \<and> keeps p p1 \<and> same_user p p1"
  proof (cases "\<exists>m. r = Recv (R_auth_cookie m)")
    case True
    then show ?thesis using h False
      by (auto simp: handle_commands_def worker_command_def cmd_auth_cookie_def same_user_def split: option.splits if_splits)
  next
    case False
    then show ?thesis using h other_command_frame [of cfg env s p _ ret p1 s0]
      by (cases r) (auto simp: handle_commands_def same_user_def)
  qed
  then have q: "silent s s0" "keeps p p1" "same_user p p1" by simp_all
  have "cores s0 = cores s" using q(1) by (simp add: silent_def)
  then have "seen (put_proc p1 s0) = (seen s)(pr_addr p := Some (pr_status p, pr_pid p, pr_username p))"
    using seen_put_cores [of s0 s p1] q get by (simp add: keeps_def same_user_def)
  then show ?thesis using acc q(1) seen_some [OF get] by (auto simp: let_in_def silent_def)
next
  case True
  then obtain cookie where r: "r = Recv (R_auth_cookie (Some cookie))" and st: "pr_status p = PS_AUTH_INACTIVE" by blast
  obtain r1 p2 s1 where q: "handle_auth_cookie_req cfg (wc_auth env) s p cookie = (r1, p2, s1)" by (rule prod_cases3)
  obtain r2 where g: "handle_cookie_auth_res cfg (wc_accept env) s1 p2 True r1 = Inr (r2, p1, s0)"
    using h r st q by (auto simp: handle_commands_def worker_command_def cmd_auth_cookie_def split: sum.splits prod.splits)
  have abs: "absent (pr_addr p) s" "pr_addr p \<notin> sw_proc ` set (ms_scripts s)"
    using idle_absent [OF ok get st] by simp_all
  have f1: "keeps p p2" "auth_effect p s s1" using auth_cookie_frame [OF q abs(1)] ok by (simp_all add: main_ok_def)
  note f2 = auth_res_frame [OF g]
  have a: "pr_addr p1 = pr_addr p" using f1 f2 by (simp add: keeps_def)
  have cores: "cores s0 = cores s" using f1 f2 by (auto simp: silent_def waits_def auth_effect_def)
  have "seen (put_proc p1 s0) (pr_addr p) = Some (pr_status p1, pr_pid p1, pr_username p1)"
    using seen_put_cores [OF cores, of p1] a get by simp
  then have "pr_status p1 = PS_AUTH_COMPLETED \<or> \<not> silent s1 s0"
    using acc(1) abs(2) f1 by (auto simp: let_in_def silent_def auth_effect_def)
  then have "r1 = 0" "check_multiple_users cfg s1 p2 = 0" using f2 by blast+
  moreover have "pr_username p1 = pr_username p2" using f2 by (simp add: same_user_def)
  moreover have "check_multiple_users cfg s1 p2 = check_multiple_users cfg s p1"
    using f1 f2 check_cores [of s1 s cfg p2] by (simp add: auth_effect_def check_multiple_users_def same_user_def)
  ultimately show ?thesis using cookie_req_vouched q r by auto
qed

lemma let_in_seen: "main_ok s \<Longrightarrow> let_in s a \<Longrightarrow> \<exists>st q u. seen s a = Some (st, q, u)"
  unfolding main_ok_seen scripts_ok_seen let_in_def by (metis imageE prod_cases3)

lemma login_vouched:
  assumes "main_reach cfg s" and "fresh_event s ev" and "main_step cfg ev s = Inr (cfg', s')"
    and "let_in s' a" and "\<not> let_in s a"
  shows "\<exists>env renv cookie p u. ev = Ev_cmd a env renv (Recv (R_auth_cookie (Some cookie)))
    \<and> get_proc s a = Some p \<and> vouched cfg (wc_auth env) s p cookie u
    \<and> (\<exists>st q. seen s' a = Some (st, q, u))"
proof -
  note ok = main_reach_ok [OF assms(1)]
  have ok': "main_ok s'" using main_step_effect [OF assms(3,2) ok] by blast
  from main_step_effect [OF assms(3,2) ok] consider "shrinks s s'"
    | b s1 where "commanded cfg ev b s s1" "cmd_effect b s s1" "shrinks s1 s'"
    | b q where "seen s' = (seen s)(b := Some (PS_AUTH_INACTIVE, q, []))" "ms_scripts s' = ms_scripts s" "main_ok s'"
    by blast
  then show ?thesis
  proof cases
    case 1
    then show ?thesis using assms(4,5) by (simp add: shrinks_def)
  next
    case (2 b s1)
    obtain env renv r p ret p1 s0 where c: "ev = Ev_cmd b env renv r" "get_proc s b = Some p"
      "handle_commands cfg env s p r = Inr (ret, p1, s0)" "s1 = put_proc p1 s0"
      using 2(1) unfolding commanded_def by blast
    have b: "pr_addr p = b" using c(2) get_proc_addr by blast
    have acc: "let_in s1 a" using 2(3) assms(4) by (simp add: shrinks_def)
    have "a = b"
    proof (rule ccontr)
      assume "a \<noteq> b"
      then have "let_in s1 a = let_in s a" using 2(2) by (auto simp: let_in_def cmd_effect_def)
      then show False using acc assms(5) by simp
    qed
    moreover obtain cookie where k: "r = Recv (R_auth_cookie (Some cookie))"
        "vouched cfg (wc_auth env) s p cookie (pr_username p1)"
      using command_vouched [OF c(3)] b c(2,4) ok acc assms(5) \<open>a = b\<close> by blast
    moreover have "\<exists>st q. seen s' a = Some (st, q, pr_username p1)"
    proof -
      have b1: "pr_addr p1 = b" using handle_commands_effect [OF c(3)] b c(2) ok by simp
      obtain st q u where u: "seen s' a = Some (st, q, u)" using let_in_seen [OF _ assms(4)] ok' by blast
      then obtain st2 where s1: "seen s1 a = Some (st2, q, u)" using 2(3) unfolding shrinks_def by blast
      then have "b \<in> set (addrs s0)" using seen_in_addrs [OF s1] \<open>a = b\<close> c(4) by simp
      then have "get_proc s0 (pr_addr p1) \<noteq> None" using get_proc_None [of s0 b] b1 by simp
      then have "seen s1 b = Some (pr_status p1, pr_pid p1, pr_username p1)"
        using seen_put [of s0 p1] c(4) b1 by simp
      then show ?thesis using s1 u \<open>a = b\<close> by simp
    qed
    ultimately show ?thesis using c b by blast
  next
    case (3 b q)
    then have "users s' u \<subseteq> users s u" for u by (rule users_new)
    moreover obtain st x u where "seen s' a = Some (st, x, u)" using let_in_seen [OF ok' assms(4)] by blast
    ultimately have "a \<in> users s u" using assms(4) by (metis (mono_tags, lifting) mem_Collect_eq subsetD users_def)
    then show ?thesis using assms(5) by (simp add: users_def)
  qed
qed

text \<open>
  No admission without a cookie. Whatever state the loop has reached, a step after which a
  client is let in (or waits for its connect script) that was not before is the command
  AUTH_COOKIE_REQ of that very worker, with a cookie that opens under the server's key and
  names the user, that the security module confirmed, that comes from the address in the
  cookie where roaming is denied, and whose session no other user's worker holds.
\<close>

theorem login_needs_cookie:
  assumes "main_reach cfg s" and "fresh_event s ev" and "main_step cfg ev s = Inr (cfg', s')"
    and "let_in s' a" and "\<not> let_in s a"
  shows "\<exists>env renv cookie p u. ev = Ev_cmd a env renv (Recv (R_auth_cookie (Some cookie)))
    \<and> get_proc s a = Some p \<and> vouched cfg (wc_auth env) s p cookie u
    \<and> (\<exists>st q. seen s' a = Some (st, q, u))"
  by (rule login_vouched [OF assms])

definition example_state1 :: main_server where
  "example_state1 = accept_conn example_main_cfg example_conn main_init"

lemma example_main_run1: "main_step example_main_cfg (hd (tl example_events)) example_state1 = Inr (example_main_cfg, example_state)"
  using example_main_run
  by (simp add: example_events_def example_state1_def main_step_def [of _ "Ev_conn _"] split: sum.splits prod.splits)

theorem login_needs_cookie_witness:
  "\<exists>p. get_proc example_state1 7 = Some p
    \<and> vouched example_main_cfg (wc_auth example_command) example_state1 p example_sealed ''alice''"
proof -
  have "main_reach example_main_cfg example_state1"
  proof (rule main_reach.reach_step [OF main_reach.reach_init])
    show "fresh_event main_init (Ev_conn example_conn)" by code_simp
    show "main_step example_main_cfg (Ev_conn example_conn) main_init = Inr (example_main_cfg, example_state1)"
      by (simp add: main_step_def example_state1_def)
  qed
  moreover have "fresh_event example_state1 (hd (tl example_events))"
    by (simp add: fresh_event_def example_events_def)
  moreover have "seen example_state 7 = Some (PS_AUTH_COMPLETED, 101, ''alice'')" by code_simp
  moreover have "seen example_state1 7 = Some (PS_AUTH_INACTIVE, 101, [])" by code_simp
  moreover have "ms_scripts example_state1 = []" by code_simp
  ultimately show ?thesis
    using login_needs_cookie [OF _ _ example_main_run1, of 7] by (auto simp: let_in_def example_events_def)
qed

section \<open>Datagrams\<close>

lemma search_dtls_found:
  assumes "proc_search_dtls_id s sid = Some p"
  shows "pr_addr p \<in> set (ms_db_dtls_id s) \<and> get_proc s (pr_addr p) = Some p \<and> dtls_id_cmp sid p"
proof -
  have "ht_search s f t = Some p \<Longrightarrow> pr_addr p \<in> set t \<and> get_proc s (pr_addr p) = Some p \<and> f p" for f t
    by (induction t) (auto split: option.splits if_splits dest: get_proc_addr)
  from this [of "dtls_id_cmp sid" "ms_db_dtls_id s"] show ?thesis using assms by (simp add: proc_search_dtls_id_def)
qed

text \<open>The session id in a hello, as far as it was received.\<close>

definition received_id :: "byte list \<Rightarrow> byte list" where
  "received_id data = take (unat (data ! 59)) (drop 60 data)"

text \<open>A session id that fits the array of the worker was received as a whole.\<close>

lemma hello_id:
  assumes "length (data @ st) = 1536" and "RECORD_PAYLOAD_POS + HANDSHAKE_SESSION_ID_POS + GNUTLS_SID + 2 \<le> length data"
    and "length (hello_session_id (data @ st)) \<le> GNUTLS_SID"
  shows "hello_session_id (data @ st) = received_id data \<and> length (received_id data) = unat (data ! 59)"
proof -
  let ?n = "unat (data ! 59)"
  have l: "93 \<le> length data" using assms(2) by (simp add: udp_consts)
  then have h: "hello_session_id (data @ st) = take ?n (drop 60 data @ st)"
    by (simp add: hello_session_id_def udp_consts nth_append)
  have "?n < 256" by (rule order.strict_trans2 [OF unsigned_less]) simp
  then have "length (hello_session_id (data @ st)) = ?n" using l assms(1) unfolding h by simp
  then have "?n \<le> 32" using assms(3) by (simp add: udp_consts)
  then show ?thesis using l unfolding h by (simp add: received_id_def)
qed

text \<open>
  C40: where a DTLS hello goes. A hello datagram leads to at most one message: a worker that is
  in the table of session ids and whose session id, all of whose bytes were received, is the
  one in the hello, gets the datagram with the connected socket, and only when more than sixty
  seconds have passed since it last got one. Its time of receipt is set; every other worker, the list's
  order, the tables, scripts, leases, bans and every other field of the state stay as they were.
\<close>

theorem hello_goes_to_owner:
  assumes "main_reach cfg s" and "ue_recv env = Some (data, addr, len)" and "data ! 0 = 22"
    and "length (data @ ue_stack env) = 1536"
    and "\<forall>p \<in> set (ms_procs s). length (pr_dtls_session_id p) \<le> GNUTLS_SID"
    and "main_step cfg (Ev_udp env) s = Inr (cfg', s')"
  shows "s' = s \<or> (\<exists>p. pr_addr p \<in> set (ms_db_dtls_id s) \<and> get_proc s (pr_addr p) = Some p
      \<and> pr_dtls_session_id_size p = length (received_id data)
      \<and> take (pr_dtls_session_id_size p) (pr_dtls_session_id p) = received_id data
      \<and> UDP_FD_RESEND_TIME < ue_now env - pr_udp_fd_receive_time p
      \<and> s' = put_proc (p\<lparr>pr_udp_fd_receive_time := ue_now env\<rparr>) (out (O_udp_fd (pr_addr p) True data) s)
      \<and> get_proc s' = (get_proc s)(pr_addr p := Some (p\<lparr>pr_udp_fd_receive_time := ue_now env\<rparr>))
      \<and> addrs s' = addrs s)"
proof (cases "s' = s")
  case False
  have s': "s' = snd (forward_udp_to_owner cfg env s)" using assms(6) by (auto simp: main_step_def)
  obtain p where p: "proc_search_dtls_id s (hello_session_id (data @ ue_stack env)) = Some p"
    "RECORD_PAYLOAD_POS + HANDSHAKE_SESSION_ID_POS + GNUTLS_SID + 2 \<le> length data"
    "UDP_FD_RESEND_TIME < ue_now env - pr_udp_fd_receive_time p"
    "s' = put_proc (p\<lparr>pr_udp_fd_receive_time := ue_now env\<rparr>) (out (O_udp_fd (pr_addr p) True data) s)"
  proof -
    have "0 < length data" if "RECORD_PAYLOAD_POS + HANDSHAKE_SESSION_ID_POS + GNUTLS_SID + 2 \<le> length data"
      by (rule less_le_trans [OF _ that]) (simp add: udp_consts)
    then show thesis
      using that False assms(2,3) unfolding s'
      by (auto simp: forward_udp_to_owner_def Let_def not_le not_less nth_append split: if_splits option.splits)
  qed
  note f = search_dtls_found [OF p(1)]
  let ?id = "hello_session_id (data @ ue_stack env)"
  have "p \<in> set (ms_procs s)"
    using f get_proc_iff [of s] main_reach_ok [OF assms(1)] by (simp add: main_ok_def)
  then have "length (pr_dtls_session_id p) \<le> GNUTLS_SID" using assms(5) by blast
  moreover have "length ?id \<le> length (pr_dtls_session_id p)"
    using f unfolding dtls_id_cmp_def by (metis length_take min.cobounded1)
  ultimately have id: "?id = received_id data" using hello_id [OF assms(4) p(2)] by simp
  then have cmp: "pr_dtls_session_id_size p = length (received_id data)"
    "take (pr_dtls_session_id_size p) (pr_dtls_session_id p) = received_id data"
    using f unfolding dtls_id_cmp_def id by (blast, blast)
  have g: "get_proc s' = (get_proc s)(pr_addr p := Some (p\<lparr>pr_udp_fd_receive_time := ue_now env\<rparr>))"
    unfolding p(4) using get_put [of "out (O_udp_fd (pr_addr p) True data) s" "p\<lparr>pr_udp_fd_receive_time := ue_now env\<rparr>"] f
    by simp
  have "addrs s' = addrs s" unfolding p(4) by (simp add: addrs_def [of "out _ s"] out_def) (simp add: addrs_def)
  then show ?thesis using f p(3,4) cmp g by blast
qed simp

text \<open>A hello with the session id that the example's worker was given.\<close>

definition example_hello :: "byte list" where
  "example_hello = [22, 254, 255] @ replicate 10 0 @ replicate 46 0 @ [32] @ replicate 32 8 @ [0]"

definition example_udp :: udp_env where
  "example_udp = \<lparr>ue_recv = Some (example_hello, example_sa, 16), ue_stack = replicate 1443 0,
     ue_now = 1100, ue_socket = True, ue_connect = True, ue_send = True\<rparr>"

theorem hello_goes_to_owner_witness:
  "\<exists>s'. main_step example_main_cfg (Ev_udp example_udp) example_state = Inr (example_main_cfg, s')
    \<and> ms_out s' = ms_out example_state @ [O_udp_fd 7 True example_hello]"
proof -
  let ?s = "snd (forward_udp_to_owner example_main_cfg example_udp example_state)"
  have st: "main_step example_main_cfg (Ev_udp example_udp) example_state = Inr (example_main_cfg, ?s)" by (simp add: main_step_def)
  have r: "ue_recv example_udp = Some (example_hello, example_sa, 16)" by (simp add: example_udp_def)
  have "ms_out ?s \<noteq> ms_out example_state" by code_simp
  then have ne: "?s \<noteq> example_state" by metis
  have ids: "\<forall>p \<in> set (ms_procs example_state). length (pr_dtls_session_id p) \<le> GNUTLS_SID" by code_simp
  have h: "example_hello ! 0 = 22" "length (example_hello @ ue_stack example_udp) = 1536"
    by (simp_all add: example_hello_def example_udp_def)
  obtain p where p: "pr_addr p \<in> set (ms_db_dtls_id example_state)"
      "?s = put_proc (p\<lparr>pr_udp_fd_receive_time := ue_now example_udp\<rparr>) (out (O_udp_fd (pr_addr p) True example_hello) example_state)"
    using hello_goes_to_owner [OF example_main_reach r h ids st] ne by blast
  have "ms_out ?s = ms_out example_state @ [O_udp_fd (pr_addr p) True example_hello]"
    unfolding p(2) by (simp add: put_proc_def out_def)
  moreover have "ms_db_dtls_id example_state = [7]" by code_simp
  ultimately show ?thesis using st p(1) by auto
qed

section \<open>Scripts and the end\<close>

lemma send_ok:
  "0 \<le> send \<Longrightarrow> fst (send_cookie_auth_reply h send s p ok) = 0"
  by (simp add: send_cookie_auth_reply_def Let_def)

text \<open>
  A connect script that is killed lets the client in. The exit status that is passed on is
  WEXITSTATUS of the wait status, which is 0 when a signal ended the script, so a worker whose
  connect script was killed by a signal is told OK and is authenticated from then on.
\<close>

theorem killed_script_accepts:
  assumes "main_reach cfg s" and "List.find (\<lambda>w. sw_pid w = pid) (ms_scripts s) = Some w"
    and "get_proc s (sw_proc w) = Some p" and "0 \<le> cv_send env" and "gf_iroutes (pr_config p) = []"
    and "0 < signal" and "signal < 127"
  shows "\<exists>s'. main_step cfg (Ev_children [(env, pid, signal)]) s = Inr (cfg, s')
    \<and> seen s' (sw_proc w) = Some (PS_AUTH_COMPLETED, pr_pid p, pr_username p)"
proof -
  define s1 where "s1 = (if pid = mg_sec_mod_pid cfg then s\<lparr>ms_terminate := True\<rparr> else s)"
  define s2 where "s2 = s1\<lparr>ms_scripts := remove_first (\<lambda>w. sw_pid w = pid) (ms_scripts s)\<rparr>"
  have g: "get_proc s2 = get_proc s" by (rule ext) (simp add: s2_def s1_def get_proc_def)
  have sc: "ms_scripts s1 = ms_scripts s" by (simp add: s1_def)
  let ?p = "p\<lparr>pr_status := PS_AUTH_COMPLETED\<rparr>"
  obtain s3 where s3: "send_cookie_auth_reply (cv_human env) (cv_send env) s2 ?p True = (0, s3)"
    using send_ok [OF assms(4)] by (metis prod.collapse)
  have a: "pr_addr p = sw_proc w" using assms(3) get_proc_addr by blast
  have ex: "WEXITSTATUS signal = 0" using assms(6,7) by (simp add: WEXITSTATUS_def)
  have h: "handle_script_exit (cv_human env) (cv_send env) (cv_route env) s2 p (WEXITSTATUS signal)
      = Inr (0, ?p\<lparr>pr_tun_fd := -1\<rparr>, s3)"
    using assms(5) s3
    by (simp add: ex handle_script_exit_def Let_def apply_proc_iroutes_def run_iroutes_def apply_iroutes_def)
  have c: "cleanup_child cfg env s pid signal = Inr (put_proc (?p\<lparr>pr_tun_fd := -1\<rparr>) s3)"
    using assms(2,3) h g sc by (simp add: cleanup_child_def Let_def flip: s1_def s2_def)
  have "silent s2 s3" using script_exit_frame [OF h] by blast
  then have "cores s3 = cores s2" by (simp add: silent_def)
  then have "seen (put_proc (?p\<lparr>pr_tun_fd := -1\<rparr>) s3) (sw_proc w) = Some (PS_AUTH_COMPLETED, pr_pid p, pr_username p)"
    using seen_put_cores [of s3 s2 "?p\<lparr>pr_tun_fd := -1\<rparr>"] a assms(3) g by simp
  then show ?thesis using c by (simp add: main_step_def)
qed

text \<open>The example with a connect script, killed by SIGKILL.\<close>

definition example_script_cfg :: main_cfg where
  "example_script_cfg = example_main_cfg\<lparr>mg_connect_script := True\<rparr>"

definition example_waiting :: main_server where
  "example_waiting = (case main_run example_script_cfg example_events main_init of Inr (_, s) \<Rightarrow> s | Inl e \<Rightarrow> main_init)"

lemma example_waiting_reach: "main_reach example_script_cfg example_waiting"
proof (rule main_reach_run [OF main_reach.reach_init])
  show "fresh_run example_script_cfg example_events main_init" by code_simp
  have "case main_run example_script_cfg example_events main_init of Inr _ \<Rightarrow> True | Inl _ \<Rightarrow> False" by code_simp
  then obtain c where c: "main_run example_script_cfg example_events main_init = Inr (c, example_waiting)"
    by (auto simp: example_waiting_def split: sum.splits prod.splits)
  then have "c = example_script_cfg" by (rule main_run_cfg) (simp add: example_events_def)
  then show "main_run example_script_cfg example_events main_init = Inr (example_script_cfg, example_waiting)"
    using c by simp
qed

definition example_child :: child_env where
  "example_child = \<lparr>cv_human = example_human, cv_send = 0, cv_route = example_route_env,
     cv_remove = example_remove\<rparr>"

theorem killed_script_accepts_witness:
  "seen example_waiting 7 = Some (PS_AUTH_FAILED, 101, ''alice'')
    \<and> (\<exists>s'. main_step example_script_cfg (Ev_children [(example_child, 102, 9)]) example_waiting = Inr (example_script_cfg, s')
        \<and> seen s' 7 = Some (PS_AUTH_COMPLETED, 101, ''alice''))"
proof -
  let ?w = "\<lparr>sw_pid = 102, sw_up = True, sw_proc = 7\<rparr>"
  have w: "List.find (\<lambda>w. sw_pid w = 102) (ms_scripts example_waiting) = Some ?w" by code_simp
  have s: "seen example_waiting 7 = Some (PS_AUTH_FAILED, 101, ''alice'')" by code_simp
  then obtain p where p: "get_proc example_waiting 7 = Some p" "pr_pid p = 101" "pr_username p = ''alice''"
    by (auto simp: seen_def)
  have "map_option (\<lambda>p. gf_iroutes (pr_config p)) (get_proc example_waiting 7) = Some []" by code_simp
  then have i: "gf_iroutes (pr_config p) = []" using p by simp
  show ?thesis
    using killed_script_accepts [OF example_waiting_reach w, of p example_child 9] p i s
    by (simp add: example_child_def)
qed

lemma kill_workers_all:
  assumes "main_ok s" and "distinct as" and "set as = set (addrs s)"
  shows "kill_workers cfg env s as \<noteq> Inl Freed_worker
    \<and> (\<forall>s'. kill_workers cfg env s as = Inr s' \<longrightarrow> ms_procs s' = [] \<and> main_ok s')"
  using assms
proof (induction as arbitrary: s)
  case (Cons a as)
  obtain p where p: "get_proc s a = Some p" using Cons.prems(3) get_proc_None [of s a] by auto
  have a: "pr_addr p = a" using p by (rule get_proc_addr)
  have d: "distinct (addrs s)" using Cons.prems(1) by (simp add: main_ok_def)
  have pid: "pr_pid p \<noteq> -1" using p Cons.prems(1) get_proc_iff [OF d] by (simp add: main_ok_def)
  show ?case
  proof (cases "remove_proc cfg env s p True")
    case (Inl e)
    then show ?thesis using remove_errors [OF Inl] p pid by simp
  next
    case (Inr s1)
    have "addrs s1 = remove1 a (addrs s)" using remove_proc_effect [OF Inr d] a by simp
    then have "set as = set (addrs s1)" using Cons.prems(2,3) d by auto
    then show ?thesis
      using Cons.IH [OF main_ok_remove [OF Inr Cons.prems(1)]] Cons.prems(2) Inr p pid a by simp
  qed
qed (simp add: addrs_def)

text \<open>
  A clean end. When the main process stops, kill_children visits every worker once and
  removes it: it never uses a freed worker, and when it returns no worker, table entry or
  waiting script is left and active_clients is 0.
\<close>

theorem kill_children_all:
  assumes "main_reach cfg s"
  shows "kill_children cfg env s \<noteq> Inl Freed_worker
    \<and> (\<forall>s'. kill_children cfg env s = Inr s' \<longrightarrow> ms_procs s' = [] \<and> ms_active_clients s' = 0
         \<and> ms_db_ip s' = [] \<and> ms_db_dtls_id s' = [] \<and> ms_db_sid s' = [] \<and> ms_scripts s' = [])"
proof -
  let ?s = "out (O_kill (mg_sec_mod_pid cfg)) s"
  have ok: "main_ok ?s" using main_ok_silent [OF _ main_reach_ok [OF assms], of ?s] by simp
  have as: "distinct (map pr_addr (ms_procs s))" "set (map pr_addr (ms_procs s)) = set (addrs ?s)"
    using main_reach_ok [OF assms] by (simp_all add: main_ok_def addrs_def) (simp add: out_def)
  have e: "ms_active_clients s' = 0 \<and> ms_db_ip s' = [] \<and> ms_db_dtls_id s' = [] \<and> ms_db_sid s' = [] \<and> ms_scripts s' = []"
    if "main_ok s'" "ms_procs s' = []" for s'
  proof -
    have "get_proc s' a = None" for a using that(2) by (simp add: get_proc_def tbl_get_def)
    then have "t = []" if "entries_ok t s'" for t using that by (cases t) (auto simp: entries_ok_def)
    moreover have "ms_scripts s' = []"
      using that(1) \<open>\<And>a. get_proc s' a = None\<close> by (cases "ms_scripts s'") (auto simp: main_ok_def scripts_ok_def)
    ultimately show ?thesis using that by (auto simp: main_ok_def)
  qed
  show ?thesis
    using kill_workers_all [OF ok as] e unfolding kill_children_def by blast
qed

theorem kill_children_all_witness:
  "kill_children example_main_cfg example_remove example_state \<noteq> Inl Freed_worker"
  using kill_children_all [OF example_main_reach] by blast

end
