(* ===== verification/Login.thy ===== *)
theory Login
  imports MainProps SecProps
begin

text \<open>
  The main process and the security module together: what main.c's loop lets in is what the
  security module authenticated.
\<close>

text \<open>
  What session_open gets when the security module, in the state \<open>db\<close>, answers its request:
  \<open>m\<close> is the configuration that comes with an OK.
\<close>

definition secmod_session ::
  "'c sec_cfg \<Rightarrow> sm_env \<Rightarrow> 'c client_db \<Rightarrow> session_reply_msg \<Rightarrow> byte list \<Rightarrow> byte list \<Rightarrow> session_env" where
  "secmod_session scfg env db m sid cookie =
     \<lparr>sn_send = 0,
      sn_reply = (case process_packet_from_main scfg env db (Mc_session_open (Some
            \<lparr>sr_sid = sid, sr_cookie = Some cookie, sr_uptime = None, sr_bytes_in = None, sr_bytes_out = None\<rparr>)) of
          Inl err \<Rightarrow> (-1, None)
        | Inr (ret, ms, as, db') \<Rightarrow> (0, if M_session_ok \<in> set ms then Some m else None)),
      sn_stats = (0, 0, 0)\<rparr>"

lemma secmod_ok:
  assumes "sm_run scfg ks ko tr db" and "sn_reply (secmod_session scfg env db m sid cookie) = (n, Some m')"
  shows "\<exists>ev r ms. (ev, r, ms) \<in> set tr \<and> accepted scfg ev sid \<and> issued ms cookie sid"
proof -
  let ?req = "\<lparr>sr_sid = sid, sr_cookie = Some cookie, sr_uptime = None, sr_bytes_in = None, sr_bytes_out = None\<rparr>"
  obtain ret ms as db' where p: "process_packet_from_main scfg env db (Mc_session_open (Some ?req)) = Inr (ret, ms, as, db')"
    "M_session_ok \<in> set ms"
    using assms(2) by (auto simp: secmod_session_def split: sum.splits prod.splits if_splits)
  obtain e where "find_client_entry db sid = Some e" "ce_status e = PS_AUTH_COMPLETED" "cookie = ce_cookie e"
    using step_opens [OF step_main [OF p(1)] p(2)] by auto
  with completed_issued [OF assms(1)] show ?thesis by blast
qed

text \<open>
  C2: nobody is let in without credentials. The main process takes a state that its loop can
  reach, the security module one that its own can, and the answer to the session request of a
  cookie is the security module's. Then a step that lets a client in is the command of its
  worker with a cookie that opens under the server's key, and before, in the security module's
  trace, the credentials of the cookie's session were accepted and that cookie was issued.
\<close>

theorem login_needs_credentials:
  assumes "main_reach cfg s" and "fresh_event s ev" and "main_step cfg ev s = Inr (cfg', s')"
    and "let_in s' a" and "\<not> let_in s a"
    and "sm_run scfg ks ko tr db"
    and "\<And>env renv cookie ret c. ev = Ev_cmd a env renv (Recv (R_auth_cookie (Some cookie))) \<Longrightarrow>
      decrypt_cookie (ae_cookie (wc_auth env)) (mg_cookie_key cfg) cookie = (ret, Some c) \<Longrightarrow>
      \<exists>smenv m. ae_session (wc_auth env) = secmod_session scfg smenv db m (ck_sid c) cookie"
  shows "\<exists>env renv cookie ret c ev' r ms. ev = Ev_cmd a env renv (Recv (R_auth_cookie (Some cookie)))
    \<and> decrypt_cookie (ae_cookie (wc_auth env)) (mg_cookie_key cfg) cookie = (ret, Some c)
    \<and> (ev', r, ms) \<in> set tr \<and> accepted scfg ev' (ck_sid c) \<and> issued ms cookie (ck_sid c)"
proof -
  obtain env renv cookie p u where l: "ev = Ev_cmd a env renv (Recv (R_auth_cookie (Some cookie)))"
    "vouched cfg (wc_auth env) s p cookie u"
    using login_vouched [OF assms(1-5)] by blast
  then obtain ret c n m where v: "decrypt_cookie (ae_cookie (wc_auth env)) (mg_cookie_key cfg) cookie = (ret, Some c)"
    "sn_reply (ae_session (wc_auth env)) = (n, Some m)"
    unfolding vouched_def by blast
  obtain smenv m2 where "ae_session (wc_auth env) = secmod_session scfg smenv db m2 (ck_sid c) cookie"
    using assms(7) [OF l(1) v(1)] by blast
  then have "\<exists>ev' r ms. (ev', r, ms) \<in> set tr \<and> accepted scfg ev' (ck_sid c) \<and> issued ms cookie (ck_sid c)"
    using secmod_ok [OF assms(6)] v(2) by metis
  then show ?thesis using l(1) v(1) by blast
qed

section \<open>A login through both processes\<close>

definition example_login_cfg :: main_cfg where
  "example_login_cfg = example_main_cfg\<lparr>mg_cookie_key := [3]\<rparr>"

definition example_login_cookie :: cookie_msg where
  "example_login_cookie = example_main_cookie\<lparr>ck_username := Some ''u'', ck_sid := example_sid\<rparr>"

definition example_login_command :: command_env where
  "example_login_command = example_command\<lparr>wc_auth := (wc_auth example_command)\<lparr>
     ae_cookie := example_cookie_env\<lparr>cn_unpack := (\<lambda>_. Some example_login_cookie)\<rparr>,
     ae_session := secmod_session (example_sec_cfg False) example_sm_env [example_entry] example_reply
       example_sid example_enc_cookie\<rparr>\<rparr>"

definition example_login_event :: main_event where
  "example_login_event = Ev_cmd 7 example_login_command example_remove (Recv (R_auth_cookie (Some example_enc_cookie)))"

definition example_login_state :: main_server where
  "example_login_state = (case main_step example_login_cfg example_login_event example_state1 of
     Inr (_, s) \<Rightarrow> s | Inl e \<Rightarrow> main_init)"

theorem login_needs_credentials_witness:
  "let_in example_login_state 7 \<and> \<not> let_in example_state1 7
    \<and> (\<exists>ev r ms. accepted (example_sec_cfg False) ev example_sid \<and> issued ms example_enc_cookie example_sid)"
proof -
  have start: "main_reach example_login_cfg example_state1"
  proof (rule main_reach.reach_step [OF main_reach.reach_init])
    show "fresh_event main_init (Ev_conn example_conn)" by code_simp
    have "accept_conn example_login_cfg example_conn main_init = example_state1" by code_simp
    then show "main_step example_login_cfg (Ev_conn example_conn) main_init = Inr (example_login_cfg, example_state1)"
      by (simp add: main_step_def)
  qed
  have fresh: "fresh_event example_state1 example_login_event" by (simp add: fresh_event_def example_login_event_def)
  have "case main_step example_login_cfg example_login_event example_state1 of Inr _ \<Rightarrow> True | Inl _ \<Rightarrow> False"
    by code_simp
  then obtain c where "main_step example_login_cfg example_login_event example_state1 = Inr (c, example_login_state)"
    by (auto simp: example_login_state_def split: sum.splits prod.splits)
  then have step: "main_step example_login_cfg example_login_event example_state1 = Inr (example_login_cfg, example_login_state)"
    using main_step_cfg by (fastforce simp: example_login_event_def)
  have "seen example_login_state 7 = Some (PS_AUTH_COMPLETED, 101, ''u'')" by code_simp
  then have new: "let_in example_login_state 7" by (simp add: let_in_def)
  have "seen example_state1 7 = Some (PS_AUTH_INACTIVE, 101, [])" "ms_scripts example_state1 = []" by code_simp+
  then have old: "\<not> let_in example_state1 7" by (simp add: let_in_def)
  have "decrypt_cookie (ae_cookie (wc_auth example_login_command)) (mg_cookie_key example_login_cfg) example_enc_cookie
      = (0, Some example_login_cookie)" by code_simp
  then show ?thesis
    using login_needs_credentials [OF start fresh step new old example_run [of False "\<lambda>_ _. None"]] new old
    by (fastforce simp: example_login_event_def example_login_command_def example_login_cookie_def)
qed

end
