(* ===== verification/Wire.thy ===== *)
theory Wire
  imports Prelude
begin

text \<open>
  The messages between the processes (common.c): a command byte, a length of two bytes and a
  packed message over a stream socket, with the loops that read and write all of a buffer.
  What protobuf-c packs and unpacks is a parameter.
\<close>

section \<open>A stream socket\<close>

text \<open>
  What the receiver of a stream finds: segments of data, calls that are interrupted or would
  block, and errors. After the list the stream has ended: read gives nothing, every time.
\<close>

datatype input = Data "byte list" | Again | Fail

text \<open>One read: the bytes, or None for -1 with the flag that says EAGAIN or EINTR.\<close>

fun read_some :: "nat \<Rightarrow> input list \<Rightarrow> (bool + byte list) \<times> input list" where
  "read_some n [] = (Inr [], [])"
| "read_some n (Data bs # q) =
     (if length bs \<le> n then (Inr bs, q) else (Inr (take n bs), Data (drop n bs) # q))"
| "read_some n (Again # q) = (Inl True, q)"
| "read_some n (Fail # q) = (Inl False, q)"

text \<open>
  force_read goes on while bytes are missing, also when read says that the stream has ended. It
  gives the bytes, or None for -1.
\<close>

partial_function (option) force_read ::
  "nat \<Rightarrow> input list \<Rightarrow> byte list \<Rightarrow> (byte list option \<times> input list) option" where
  "force_read left q got =
     (if left = 0 then Some (Some got, q)
      else (case read_some left q of
              (Inl again, q1) \<Rightarrow> if again then force_read left q1 got else Some (None, q1)
            | (Inr bs, q1) \<Rightarrow> force_read (left - length bs) q1 (got @ bs)))"

text \<open>
  force_read_timeout asks select first, whose answers are given: it may be interrupted, fail or
  run out of time; a read of nothing ends it.
\<close>

datatype sel_result = Sel_ready | Sel_interrupted | Sel_failed

fun force_read_timeout ::
  "nat \<Rightarrow> sel_result list \<Rightarrow> input list \<Rightarrow> byte list \<Rightarrow> (byte list option \<times> input list) option" where
  "force_read_timeout left [] q got = (if left = 0 then Some (Some got, q) else None)"
| "force_read_timeout left (sel # sels) q got =
     (if left = 0 then Some (Some got, q)
      else
        (case sel of
           Sel_interrupted \<Rightarrow> force_read_timeout left sels q got
         | Sel_failed \<Rightarrow> Some (None, q)
         | Sel_ready \<Rightarrow>
             (case read_some left q of
                (Inl again, q1) \<Rightarrow> if again then force_read_timeout left sels q1 got else Some (None, q1)
              | (Inr bs, q1) \<Rightarrow>
                  if bs = [] then Some (None, q1)
                  else force_read_timeout (left - length bs) sels q1 (got @ bs))))"

text \<open>The answers of write: how many bytes were taken, or -1 with EAGAIN or EINTR, or another error.\<close>

datatype written = Wrote nat | Write_again | Write_failed

text \<open>force_write: what reached the socket and the result; None while it still waits.\<close>

fun force_write :: "byte list \<Rightarrow> written list \<Rightarrow> (byte list \<times> bool) option" where
  "force_write bs [] = (if bs = [] then Some ([], True) else None)"
| "force_write bs (w # ws) =
     (if bs = [] then Some ([], True)
      else
        (case w of
           Write_failed \<Rightarrow> Some ([], False)
         | Write_again \<Rightarrow> force_write bs ws
         | Wrote n \<Rightarrow> map_option (\<lambda>(sent, ok). (take n bs @ sent, ok)) (force_write (drop n bs) ws)))"

section \<open>Messages\<close>

datatype wire_error = Heap_overflow

text \<open>The header: the length is a uint16_t in the machine's byte order.\<close>

definition u16_of :: "nat \<Rightarrow> 16 word" where "u16_of n = word_of_nat n"

definition header_bytes :: "byte \<Rightarrow> 16 word \<Rightarrow> byte list" where
  "header_bytes cmd len = [cmd, ucast len, ucast (drop_bit 8 len)]"

text \<open>
  \<open>packed\<close> is what pack writes, get_size its length; \<open>alloc\<close> says whether talloc_size succeeds,
  \<open>sent\<close> is what sendmsg takes of the bytes, None for an error. The buffer that pack writes into
  has the length of the header.
\<close>

definition send_socket_msg ::
  "bool \<Rightarrow> nat option \<Rightarrow> byte \<Rightarrow> byte list \<Rightarrow> wire_error + int \<times> byte list" where
  "send_socket_msg alloc sent cmd packed =
     (let len = u16_of (length packed) in
      if 0 < len then
        if \<not> alloc then Inr (-1, [])
        else if unat len < length packed then Inl Heap_overflow
        else (case sent of
                None \<Rightarrow> Inr (-1, [])
              | Some n \<Rightarrow> let bs = take n (header_bytes cmd len @ packed) in Inr (int (length bs), bs))
      else (case sent of
              None \<Rightarrow> Inr (-1, [])
            | Some n \<Rightarrow> let bs = take n (header_bytes cmd len) in Inr (int (length bs), bs)))"

text \<open>The control message that came with the header.\<close>

datatype control = Ctl_none | Ctl_other | Ctl_fd int

record recv_env =
  rv_control :: control
  rv_alloc :: bool
  rv_junk :: "byte list"

text \<open>
  recvmsg is tried again only when it is interrupted; what it does not fill of the header is
  what was on the stack (\<open>rv_junk\<close>).
\<close>

fun recv_header :: "input list \<Rightarrow> (bool + byte list) \<times> input list" where
  "recv_header (Again # q) = recv_header q"
| "recv_header q = read_some 3 q"

definition recv_length :: "byte list \<Rightarrow> nat" where
  "recv_length h = unat (h ! 1) + 256 * unat (h ! 2)"

definition recv_socket_msg ::
  "recv_env \<Rightarrow> (byte list \<Rightarrow> 'm option) \<Rightarrow> byte \<Rightarrow> bool \<Rightarrow> input list
    \<Rightarrow> (int \<times> int option \<times> 'm option \<times> input list) option" where
  "recv_socket_msg env unpack cmd want_fd q =
     (case recv_header q of
        (Inl _, q1) \<Rightarrow> Some (ERR_BAD_COMMAND, None, None, q1)
      | (Inr bs, q1) \<Rightarrow>
          if bs = [] then Some (ERR_PEER_TERMINATED, None, None, q1)
          else
            let h = bs @ drop (length bs) (rv_junk env) in
            if h ! 0 \<noteq> cmd then Some (ERR_BAD_COMMAND, None, None, q1)
            else if want_fd \<and> rv_control env = Ctl_other then Some (ERR_BAD_COMMAND, None, None, q1)
            else
              let fd = (if want_fd then (case rv_control env of Ctl_fd i \<Rightarrow> Some i | _ \<Rightarrow> None) else None) in
              if recv_length h = 0 then Some (0, fd, None, q1)
              else if \<not> rv_alloc env then Some (ERR_MEM, None, None, q1)
              else
                (case force_read (recv_length h) q1 [] of
                   None \<Rightarrow> None
                 | Some (None, q2) \<Rightarrow> Some (ERR_BAD_COMMAND, None, None, q2)
                 | Some (Some data, q2) \<Rightarrow>
                     (case unpack data of
                        None \<Rightarrow> Some (ERR_MEM, None, None, q2)
                      | Some m \<Rightarrow> Some (0, fd, Some m, q2))))"

section \<open>Reading all of a buffer\<close>

definition data_of :: "input list \<Rightarrow> byte list" where
  "data_of q = concat (map (\<lambda>x. case x of Data bs \<Rightarrow> bs | _ \<Rightarrow> []) q)"

lemma data_of_simps [simp]:
  "data_of [] = []" "data_of (Data bs # q) = bs @ data_of q" "data_of (Again # q) = data_of q"
  "data_of (Fail # q) = data_of q"
  by (simp_all add: data_of_def)

lemma force_read_0 [simp]: "force_read 0 q got = Some (Some got, q)"
  by (subst force_read.simps) simp

text \<open>However the stream is cut, the bytes that are there are read, and no more.\<close>

lemma force_read_all:
  assumes "n \<le> length (data_of q)" and "Fail \<notin> set q"
  shows "\<exists>q'. force_read n q got = Some (Some (got @ take n (data_of q)), q')
    \<and> data_of q' = drop n (data_of q) \<and> Fail \<notin> set q'"
  using assms
proof (induction q arbitrary: n got)
  case (Cons x q)
  show ?case
  proof (cases "n = 0")
    case False
    show ?thesis
    proof (cases x)
      case (Data bs)
      show ?thesis
      proof (cases "length bs \<le> n")
        case True
        then have r: "force_read n (x # q) got = force_read (n - length bs) q (got @ bs)"
          using False Data by (subst force_read.simps) simp
        have "n - length bs \<le> length (data_of q)" using Cons.prems Data True by simp
        then show ?thesis using Cons.IH [of "n - length bs" "got @ bs"] Cons.prems(2) Data True unfolding r by simp
      next
        case cut: False
        then have "force_read n (x # q) got = Some (Some (got @ take n bs), Data (drop n bs) # q)"
          using False Data by (subst force_read.simps) simp
        then show ?thesis using Cons.prems(2) Data cut by simp
      qed
    next
      case Again
      then have "force_read n (x # q) got = force_read n q got" using False by (subst force_read.simps) simp
      then show ?thesis using Cons Again by simp
    qed (use Cons.prems in simp)
  qed (use Cons.prems in simp)
qed simp

lemma force_read_ended: "force_read n q got = Some y \<Longrightarrow> \<not> (0 < n \<and> q = [])"
proof (rule force_read.raw_induct [where P = "\<lambda>n q got y. \<not> (0 < n \<and> q = [])"])
  fix again :: "nat \<Rightarrow> input list \<Rightarrow> byte list \<Rightarrow> (byte list option \<times> input list) option"
    and left q got y
  assume ih: "\<And>q got b y. again q got b = Some y \<Longrightarrow> \<not> (0 < q \<and> got = [])"
    and step: "(if left = 0 then Some (Some got, q)
      else (case read_some left q of
              (Inl again', q1) \<Rightarrow> if again' then again left q1 got else Some (None, q1)
            | (Inr bs, q1) \<Rightarrow> again (left - length bs) q1 (got @ bs))) = Some y"
  show "\<not> (0 < left \<and> q = [])"
  proof
    assume e: "0 < left \<and> q = []"
    then have "again left q got = Some y" using step by simp
    then show False using ih e by blast
  qed
qed

text \<open>When the stream ends before that, the loop never does.\<close>

lemma force_read_stuck:
  assumes "length (data_of q) < n" and "Fail \<notin> set q"
  shows "force_read n q got = None"
  using assms
proof (induction q arbitrary: n got)
  case Nil
  then show ?case using force_read_ended [of n "[]" got] by (cases "force_read n [] got") auto
next
  case (Cons x q)
  show ?case
  proof (cases x)
    case (Data bs)
    then have "force_read n (x # q) got = force_read (n - length bs) q (got @ bs)"
      using Cons.prems by (subst force_read.simps) simp
    then show ?thesis using Cons.IH [of "n - length bs" "got @ bs"] Cons.prems Data by simp
  next
    case Again
    then have "force_read n (x # q) got = force_read n q got" using Cons.prems by (subst force_read.simps) simp
    then show ?thesis using Cons.IH [of n got] Cons.prems Again by simp
  qed (use Cons.prems in simp)
qed

section \<open>Messages that arrive\<close>

lemma header_split:
  "fst (recv_header q) = Inr h \<Longrightarrow> Fail \<notin> set q \<Longrightarrow>
    data_of q = h @ data_of (snd (recv_header q)) \<and> Fail \<notin> set (snd (recv_header q))"
  by (induction q rule: recv_header.induct) (auto split: if_splits)

lemma length_bytes_u16:
  assumes "n < 2 ^ 16"
  shows "unat (ucast (u16_of n) :: byte) + 256 * unat (ucast (drop_bit 8 (u16_of n)) :: byte) = n"
proof -
  have n: "unat (u16_of n) = n" using assms by (simp add: u16_of_def unat_of_nat take_bit_eq_mod)
  have "unat (ucast (u16_of n) :: byte) = n mod 256"
    using n by (simp add: unsigned_ucast_eq take_bit_eq_mod)
  moreover have "unat (ucast (drop_bit 8 (u16_of n)) :: byte) = n div 256"
  proof -
    have "unat (drop_bit 8 (u16_of n)) = n div 256"
      using n assms by (simp only: unsigned_drop_bit_eq) (simp add: drop_bit_eq_div take_bit_eq_mod)
    then show ?thesis using assms by (simp only: unsigned_ucast_eq) (simp add: take_bit_eq_mod)
  qed
  ultimately show ?thesis by simp
qed

text \<open>
  C33: messages between the processes. A message of 1 to 65535 bytes that sendmsg took as a whole is
  received as it was sent, and whatever follows stays in the stream, when the three bytes of its
  header arrive together; the body may be cut anyhow. (A cut header is an error of the receiver.)
  No read fails, allocations succeed, and where a descriptor is expected no other control message
  comes.
\<close>

theorem message_roundtrip:
  assumes "send_socket_msg True (Some n) cmd packed = Inr (r, bs)" and "length bs = 3 + length packed"
    and "0 < length packed" and "length packed < 2 ^ 16" and "unpack packed = Some m"
    and "data_of q = bs @ rest" and "Fail \<notin> set q" and "fst (recv_header q) = Inr h" and "length h = 3"
    and "rv_alloc env" and "\<not> (want_fd \<and> rv_control env = Ctl_other)"
  shows "\<exists>fd q'. recv_socket_msg env unpack cmd want_fd q = Some (0, fd, Some m, q') \<and> data_of q' = rest"
proof -
  let ?len = "u16_of (length packed)"
  have len: "unat ?len = length packed" using assms(4) by (simp add: u16_of_def unat_of_nat take_bit_eq_mod)
  then have "0 < ?len" using assms(3) by (simp add: word_less_nat_alt)
  then have "bs = take n (header_bytes cmd ?len @ packed)"
    using assms(1) len by (auto simp: send_socket_msg_def Let_def)
  moreover have "length (header_bytes cmd ?len @ packed) = 3 + length packed" by (simp add: header_bytes_def)
  ultimately have bs: "bs = header_bytes cmd ?len @ packed" using assms(2) by (simp add: take_all)
  obtain q1 where q1: "recv_header q = (Inr h, q1)" using assms(8) by (metis prod.collapse)
  have d: "data_of q = h @ data_of q1" "Fail \<notin> set q1" using header_split [OF assms(8,7)] q1 by simp_all
  then have h: "h = header_bytes cmd ?len" "data_of q1 = packed @ rest"
  proof -
    have "h @ data_of q1 = header_bytes cmd ?len @ packed @ rest" using d(1) assms(6) bs by simp
    moreover have "length h = length (header_bytes cmd ?len)" using assms(9) by (simp add: header_bytes_def)
    ultimately show "h = header_bytes cmd ?len" "data_of q1 = packed @ rest" using append_eq_append_conv by blast+
  qed
  have rl: "recv_length h = length packed"
    using length_bytes_u16 [OF assms(4)] by (simp add: h(1) recv_length_def header_bytes_def)
  obtain q2 where q2: "force_read (length packed) q1 [] = Some (Some packed, q2)" "data_of q2 = rest"
    using force_read_all [of "length packed" q1 "[]"] d(2) h(2) by auto
  have "h \<noteq> []" "\<And>x. (h @ x) ! 0 = cmd" "\<And>x. recv_length (h @ x) = length packed"
    using rl by (simp_all add: h(1) header_bytes_def recv_length_def)
  then have "recv_socket_msg env unpack cmd want_fd q = Some (0, if want_fd then (case rv_control env of Ctl_fd i \<Rightarrow> Some i | _ \<Rightarrow> None) else None, Some m, q2)"
    using q1 assms(3,5,9,10,11) rl q2(1) by (simp add: recv_socket_msg_def Let_def)
  then show ?thesis using q2(2) by blast
qed

definition example_recv :: recv_env where
  "example_recv = \<lparr>rv_control = Ctl_none, rv_alloc = True, rv_junk = [0, 0, 0]\<rparr>"

definition example_stream :: "input list" where
  "example_stream = [Again, Data [7, 2, 0, 65], Again, Data [66, 9]]"

theorem message_roundtrip_witness:
  "\<exists>fd q'. recv_socket_msg example_recv Some 7 False example_stream = Some (0, fd, Some [65, 66], q')
    \<and> data_of q' = [9]"
proof -
  have s: "send_socket_msg True (Some 5) 7 [65, 66] = Inr (5, [7, 2, 0, 65, 66])" by code_simp
  show ?thesis
    by (rule message_roundtrip [OF s, where h = "[7, 2, 0]"]) (simp_all add: example_stream_def example_recv_def)
qed

text \<open>
  A peer that dies in the middle of a message. When the stream ends before all of the
  message that its header announces is there, recv_socket_msg does not return: force_read takes
  the end of the stream for a read of no bytes and tries again for ever.
\<close>

theorem recv_never_returns:
  assumes "fst (recv_header q) = Inr h" and "length h = 3" and "h ! 0 = cmd" and "Fail \<notin> set q"
    and "length (data_of q) < 3 + recv_length h" and "rv_alloc env"
  shows "recv_socket_msg env unpack cmd False q = None"
proof -
  obtain q1 where q1: "recv_header q = (Inr h, q1)" using assms(1) by (metis prod.collapse)
  have d: "data_of q = h @ data_of q1" "Fail \<notin> set q1" using header_split [OF assms(1,4)] q1 by simp_all
  then have few: "length (data_of q1) < recv_length h" using assms(2,5) by simp
  have "\<And>x. (h @ x) ! 0 = h ! 0" "\<And>x. recv_length (h @ x) = recv_length h"
    using assms(2) by (simp_all add: nth_append recv_length_def)
  moreover have "h \<noteq> []" using assms(2) by auto
  moreover have "0 < recv_length h" using few by simp
  ultimately show ?thesis
    using q1 assms(3,6) force_read_stuck [OF few d(2)] by (simp add: recv_socket_msg_def Let_def)
qed

theorem recv_never_returns_witness:
  "recv_socket_msg example_recv Some 7 False [Data [7, 2, 0, 65]] = None"
  by (rule recv_never_returns [where h = "[7, 2, 0]"]) (simp_all add: example_recv_def recv_length_def)

text \<open>
  A message that is too long for the header: pack writes all of it into a buffer of its length
  modulo 2^16.
\<close>

lemma long_message_overflows:
  assumes "2 ^ 16 < length packed" and "length packed mod 2 ^ 16 \<noteq> 0"
  shows "send_socket_msg True sent cmd packed = Inl Heap_overflow"
proof -
  have "unat (u16_of (length packed)) = length packed mod 2 ^ 16"
    by (simp add: u16_of_def unat_of_nat take_bit_eq_mod)
  then show ?thesis using assms by (simp add: send_socket_msg_def Let_def word_less_nat_alt mod_less_eq_dividend)
     (meson assms(1) less_le_trans mod_less_divisor nat_less_le not_less zero_less_numeral zero_less_power)
qed

section \<open>Writing all of a buffer\<close>

lemma force_write_all:
  "force_write bs ws = Some (sent, ok) \<Longrightarrow> (if ok then sent = bs else \<exists>rest. bs = sent @ rest)"
proof (induction bs ws arbitrary: sent ok rule: force_write.induct)
  case (2 bs w ws)
  show ?case
  proof (cases "bs = []")
    case False
    show ?thesis
    proof (cases w)
      case (Wrote n)
      then obtain s where "force_write (drop n bs) ws = Some (s, ok)" "sent = take n bs @ s"
        using 2 False by auto
      then show ?thesis using 2(1) [OF False Wrote] by (auto split: if_splits) (metis append_take_drop_id append.assoc)
    qed (use 2 False in auto)
  qed (use 2 in auto)
qed (auto split: if_splits)

end
