(* ===== verification/TlsSend.thy ===== *)
theory TlsSend
  imports Wire
begin

text \<open>
  Sending over the channels of a client (tlslib.c). gnutls_record_send may take fewer bytes than
  it is given: a record holds 16384 bytes at most, and a client can ask for less. What it
  answers is a parameter.
\<close>

definition GNUTLS_E_AGAIN :: int where "GNUTLS_E_AGAIN = -28"
definition GNUTLS_E_INTERRUPTED :: int where "GNUTLS_E_INTERRUPTED = -52"

lemmas gnutls_codes = GNUTLS_E_AGAIN_def GNUTLS_E_INTERRUPTED_def

text \<open>
  The loop of cstp_send and dtls_send. \<open>mem\<close> is the memory from \<open>p\<close> on: the data and what comes
  behind it. Every call offers \<open>data_size\<close> bytes from \<open>p\<close>, whatever \<open>left\<close> is. The result is what
  was sent and the return value, None while the loop goes on.
\<close>

fun record_send_loop :: "byte list \<Rightarrow> int \<Rightarrow> nat \<Rightarrow> int list \<Rightarrow> (byte list \<times> int) option" where
  "record_send_loop mem left data_size [] = (if left \<le> 0 then Some ([], int data_size) else None)"
| "record_send_loop mem left data_size (ret # rets) =
     (if left \<le> 0 then Some ([], int data_size)
      else if ret < 0 \<and> ret \<noteq> GNUTLS_E_AGAIN \<and> ret \<noteq> GNUTLS_E_INTERRUPTED then Some ([], ret)
      else if 0 < ret then
        map_option (\<lambda>(sent, r). (take (nat ret) mem @ sent, r))
          (record_send_loop (drop (nat ret) mem) (left - ret) data_size rets)
      else record_send_loop mem left data_size rets)"

text \<open>\<open>session\<close> says that there is a TLS session; without one the socket is written to.\<close>

definition cstp_send ::
  "bool \<Rightarrow> int list \<Rightarrow> written list \<Rightarrow> byte list \<Rightarrow> byte list \<Rightarrow> (byte list \<times> int) option" where
  "cstp_send session rets ws data behind =
     (if session then record_send_loop (data @ behind) (int (length data)) (length data) rets
      else map_option (\<lambda>(sent, ok). (sent, if ok then int (length data) else -1)) (force_write data ws))"

definition dtls_send :: "int list \<Rightarrow> byte list \<Rightarrow> byte list \<Rightarrow> (byte list \<times> int) option" where
  "dtls_send rets data behind = record_send_loop (data @ behind) (int (length data)) (length data) rets"

section \<open>What is sent\<close>

text \<open>Calls that would block change nothing; one that takes all of the data ends the loop.\<close>

lemma record_send_whole:
  assumes "data \<noteq> []" and "\<forall>r \<in> set waits. r = GNUTLS_E_AGAIN \<or> r = GNUTLS_E_INTERRUPTED"
  shows "record_send_loop (data @ behind) (int (length data)) (length data) (waits @ int (length data) # rets)
    = Some (data, int (length data))"
  using assms(2)
proof (induction waits)
  case Nil
  have "record_send_loop m 0 n rs = Some ([], int n)" for m n rs by (cases rs) simp_all
  then show ?case using assms(1) by simp
next
  case (Cons w ws)
  then show ?case using assms(1) by (auto simp: gnutls_codes)
qed

lemma record_send_chunks:
  assumes "0 < k" and "left \<le> m * k" and "(m - 1) * k < left"
  shows "record_send_loop mem (int left) n (replicate m (int k)) = Some (take (m * k) mem, int n)"
  using assms(2,3)
proof (induction m arbitrary: mem left)
  case (Suc m)
  show ?case
  proof (cases m)
    case 0
    then have "int left - int k \<le> 0" "0 < left" using Suc.prems by simp_all
    then show ?thesis using assms(1) 0 by simp
  next
    case (Suc m')
    have k: "k \<le> left" using Suc.prems(2) Suc by simp
    then have i: "int left - int k = int (left - k)" by simp
    have "left - k \<le> m * k" "(m - 1) * k < left - k"
      using Suc.prems Suc k by auto
    then have "record_send_loop (drop k mem) (int left - int k) n (replicate m (int k))
        = Some (take (m * k) (drop k mem), int n)"
      unfolding i by (rule Suc.IH)
    then show ?thesis using assms(1) k Suc.prems Suc by (simp add: take_add add.commute)
  qed
qed simp

text \<open>
  C30: cstp_send gives away memory. When the session takes only k bytes of data at a time, as a
  client with a small record size makes it do, every call offers as many bytes as the first one,
  from further and further on. After \<open>m\<close> calls the client has all of the data and then the
  \<open>m * k - length data\<close> bytes that lie behind it in memory, and the loop reports success.
\<close>

theorem cstp_send_leaks:
  assumes "0 < k" and "length data \<le> m * k" and "(m - 1) * k < length data"
  shows "cstp_send True (replicate m (int k)) ws data behind
    = Some (data @ take (m * k - length data) behind, int (length data))"
  using record_send_chunks [of k "length data" m "data @ behind" "length data"] assms
  by (simp add: cstp_send_def)

theorem cstp_send_leaks_witness:
  "cstp_send True [2, 2] [] [65, 66, 67] [1, 2, 3] = Some ([65, 66, 67, 1], 3)"
  using cstp_send_leaks [of 2 "[65, 66, 67]" 2 "[]" "[1, 2, 3]"] by (simp add: numeral_2_eq_2)

end
