(* ===== verification/Worker.thy ===== *)
theory Worker
  imports Bandwidth HttpReq TlsSend
begin

text \<open>
  A worker that serves its client's tunnel (worker-vpn.c, with worker.h): its state, the ban
  points and statistics it reports, the discovery of the MTU and the periodic checks. What it
  sends is recorded in order; exit_worker, and the use of the DTLS session after it was
  released, stop it.
\<close>

section \<open>State\<close>

datatype udp_port_state = UP_DISABLED | UP_WAIT_FD | UP_SETUP | UP_HANDSHAKE | UP_INACTIVE | UP_ACTIVE

text \<open>\<open>udp_state > UP_WAIT_FD\<close>\<close>

definition udp_open :: "udp_port_state \<Rightarrow> bool" where
  "udp_open st \<longleftrightarrow> st \<noteq> UP_DISABLED \<and> st \<noteq> UP_WAIT_FD"

text \<open>The pointer dtls_session: NULL, a session, or one that gnutls_deinit released.\<close>

datatype dtls_handle = No_dtls | Dtls_open | Dtls_freed

datatype worker_out =
  To_client "byte list"
| To_client_dtls "byte list"
| To_tun "byte list"
| To_main_mtu u32
| To_main_info
| To_main_ban u32
| To_secmod_stats u64 u64 int
| Tls_bye
| Dtls_bye

record worker =
  wk_session :: bool
  wk_dtls_session :: dtls_handle
  wk_suite :: "dtls_suite option"
  wk_dtls_comp :: "comp_method option"
  wk_cstp_comp :: "comp_method option"
  wk_udp_state :: udp_port_state
  wk_udp_fd :: int
  wk_udp_msg :: "byte list option"
  wk_udp_recv_time :: int
  wk_last_msg_udp :: int
  wk_last_msg_tcp :: int
  wk_last_nc_msg :: int
  wk_last_periodic_check :: int
  wk_last_tls_rehandshake :: int
  wk_last_dtls_rehandshake :: int
  wk_last_stats_msg :: int
  wk_session_start :: int
  wk_last_good_mtu :: u32
  wk_last_bad_mtu :: u32
  wk_conn_mtu :: u32
  wk_crypto_overhead :: u32
  wk_b_tx :: bandwidth_st
  wk_b_rx :: bandwidth_st
  wk_bytes_in :: u64
  wk_bytes_out :: u64
  wk_ipv6 :: bool            \<comment> \<open>vinfo.ipv6 is set\<close>
  wk_ban_points :: u32
  wk_auth_complete :: bool
  wk_sid_set :: bool
  wk_terminate :: bool
  wk_out :: "worker_out list"

record worker_cfg =
  vc_idle_timeout :: u32
  vc_stats_report_time :: u32
  vc_rekey_time :: int
  vc_no_compress_limit :: u32
  vc_try_mtu :: bool
  vc_dpd :: u32
  vc_max_ban_score :: int
  vc_ban_points_wrong_password :: u32

text \<open>
  What happens outside in one round: the results of the sends, as functions of the state and the
  bytes, what is fatal, whether the other processes can be reached, the clock; the compression
  methods, given the room there is and the bytes; the tun device; whether GnuTLS sets up a DTLS
  session, the size of data it leaves room for, whether it pulls a datagram; unpacking of a UdpFdMsg.
\<close>

record net_env =
  ne_cstp :: "worker \<Rightarrow> byte list \<Rightarrow> int"
  ne_dtls :: "worker \<Rightarrow> byte list \<Rightarrow> int"
  ne_fatal :: "int \<Rightarrow> bool"
  ne_sock_fatal :: bool
  ne_secmod :: bool
  ne_ban_sent :: bool
  ne_ban_reply :: "bool option"
  ne_time :: int
  ne_mss :: "int option"
  ne_compress :: "comp_method \<Rightarrow> nat \<Rightarrow> byte list \<Rightarrow> byte list option"
  ne_decompress :: "comp_method \<Rightarrow> nat \<Rightarrow> byte list \<Rightarrow> byte list option"
  ne_tun_write :: "byte list \<Rightarrow> bool"
  ne_dtls_init :: bool
  ne_data_mtu :: u32
  ne_pulls :: bool
  ne_unpack_udp :: "byte list \<Rightarrow> (bool \<times> byte list) option"

definition GNUTLS_E_LARGE_PACKET :: int where "GNUTLS_E_LARGE_PACKET = -7"
definition GNUTLS_E_REHANDSHAKE :: int where "GNUTLS_E_REHANDSHAKE = -37"

text \<open>
  exit_worker was called; the DTLS session was used after its release, or while it was NULL; a
  loop still waits for the peer.
\<close>

datatype worker_stop = Exited worker | Freed_session | Null_session | Waiting worker

type_synonym 'a wres = "worker_stop + 'a \<times> worker"

definition wbind :: "'a wres \<Rightarrow> ('a \<Rightarrow> worker \<Rightarrow> 'b wres) \<Rightarrow> 'b wres" where
  "wbind m f = (case m of Inl e \<Rightarrow> Inl e | Inr (x, ws) \<Rightarrow> f x ws)"

lemma wbind_simps [simp]: "wbind (Inl e) f = Inl e" "wbind (Inr (x, ws)) f = f x ws"
  by (simp_all add: wbind_def)

definition with_dtls :: "worker \<Rightarrow> 'a wres \<Rightarrow> 'a wres" where
  "with_dtls ws m =
     (case wk_dtls_session ws of
        No_dtls \<Rightarrow> Inl Null_session | Dtls_freed \<Rightarrow> Inl Freed_session | Dtls_open \<Rightarrow> m)"

definition wout :: "worker_out \<Rightarrow> worker \<Rightarrow> worker" where
  "wout m ws = ws\<lparr>wk_out := wk_out ws @ [m]\<rparr>"

section \<open>Leaving\<close>

definition send_stats_to_secmod :: "net_env \<Rightarrow> worker \<Rightarrow> int \<Rightarrow> worker" where
  "send_stats_to_secmod env ws now =
     (let ws1 = ws\<lparr>wk_last_stats_msg := now\<rparr>
      in if ne_secmod env
         then wout (To_secmod_stats (wk_bytes_in ws1) (wk_bytes_out ws1) (now - wk_session_start ws1)) ws1
         else ws1)"

text \<open>
  Reporting points: the message carries the points of the call, and a reply that is not OK ends
  the process.
\<close>

definition ws_add_score_to_ip :: "worker_cfg \<Rightarrow> net_env \<Rightarrow> worker \<Rightarrow> u32 \<Rightarrow> bool \<Rightarrow> unit wres" where
  "ws_add_score_to_ip cfg env ws points final =
     (if vc_max_ban_score cfg = 0 then Inr ((), ws)
      else
        let ws1 = (if final then ws else ws\<lparr>wk_ban_points := wk_ban_points ws + points\<rparr>) in
        if \<not> final \<and> points < vc_ban_points_wrong_password cfg then Inr ((), ws1)
        else if \<not> ne_ban_sent env then Inr ((), ws1)
        else
          let ws2 = wout (To_main_ban points) ws1 in
          if final then Inr ((), ws2)
          else (case ne_ban_reply env of
                  None \<Rightarrow> Inr ((), ws2)
                | Some ok \<Rightarrow> if ok then Inr ((), ws2) else Inl (Exited ws2)))"

definition exit_worker :: "worker_cfg \<Rightarrow> net_env \<Rightarrow> worker \<Rightarrow> worker_stop" where
  "exit_worker cfg env ws =
     (let ws1 = (if wk_auth_complete ws then send_stats_to_secmod env ws (ne_time env) else ws)
      in case (if 0 < wk_ban_points ws1 then ws_add_score_to_ip cfg env ws1 0 True else Inr ((), ws1)) of
           Inl stop \<Rightarrow> stop | Inr (_, ws2) \<Rightarrow> Exited ws2)"

text \<open>FATAL_ERR_CMD for the TLS channel and GNUTLS_FATAL_ERR_CMD for the DTLS one.\<close>

definition cstp_fatal :: "net_env \<Rightarrow> worker \<Rightarrow> int \<Rightarrow> bool" where
  "cstp_fatal env ws ret \<longleftrightarrow> ret < 0 \<and> (if wk_session ws then ne_fatal env ret else ne_sock_fatal env)"

definition dtls_fatal :: "net_env \<Rightarrow> int \<Rightarrow> bool" where
  "dtls_fatal env ret \<longleftrightarrow> ret < 0 \<and> ne_fatal env ret"

text \<open>A send over each channel; bytes that were sent are recorded.\<close>

definition do_cstp :: "net_env \<Rightarrow> worker \<Rightarrow> byte list \<Rightarrow> int \<times> worker" where
  "do_cstp env ws bs = (let ret = ne_cstp env ws bs in (ret, if ret < 0 then ws else wout (To_client bs) ws))"

definition do_dtls :: "net_env \<Rightarrow> worker \<Rightarrow> byte list \<Rightarrow> int wres" where
  "do_dtls env ws bs =
     with_dtls ws
       (let ret = ne_dtls env ws bs in
        Inr (ret, if ret < 0 then ws else wout (To_client_dtls bs) ws))"

section \<open>The MTU\<close>

definition mtu_send :: "worker \<Rightarrow> u32 \<Rightarrow> worker" where
  "mtu_send ws mtu = wout (To_main_mtu mtu) ws"

definition mtu_set :: "worker \<Rightarrow> u32 \<Rightarrow> unit wres" where
  "mtu_set ws mtu =
     (if wk_dtls_session ws = Dtls_freed then Inl Freed_session
      else Inr ((), mtu_send (ws\<lparr>wk_conn_mtu := mtu\<rparr>) mtu))"

definition MIN_MTU :: "worker \<Rightarrow> u32" where "MIN_MTU ws = (if wk_ipv6 ws then 1281 else 257)"

text \<open>dtls_close; the pointer keeps its value.\<close>

definition dtls_close :: "worker \<Rightarrow> unit wres" where
  "dtls_close ws = with_dtls ws (Inr ((), wout Dtls_bye (ws\<lparr>wk_dtls_session := Dtls_freed\<rparr>)))"

definition mtu_not_ok :: "worker \<Rightarrow> int wres" where
  "mtu_not_ok ws =
     (let mn = MIN_MTU ws; ws1 = ws\<lparr>wk_last_bad_mtu := wk_conn_mtu ws\<rparr> in
      if wk_last_good_mtu ws1 = mn
      then wbind (dtls_close ws1) (\<lambda>_ ws2. Inr (-1, ws2\<lparr>wk_udp_state := UP_DISABLED\<rparr>))
      else
        let ws2 = (if wk_conn_mtu ws1 \<le> wk_last_good_mtu ws1
                   then ws1\<lparr>wk_last_good_mtu := max (2 * wk_conn_mtu ws1 div 3) mn\<rparr> else ws1)
        in wbind (mtu_set ws2 (wk_last_good_mtu ws2)) (\<lambda>_ ws3. Inr (0, ws3)))"

definition mtu_discovery_init :: "worker \<Rightarrow> u32 \<Rightarrow> worker" where
  "mtu_discovery_init ws mtu = ws\<lparr>wk_last_good_mtu := mtu, wk_last_bad_mtu := mtu\<rparr>"

definition mtu_ok :: "worker \<Rightarrow> unit wres" where
  "mtu_ok ws =
     (if wk_last_bad_mtu ws = wk_conn_mtu ws + 1 \<or> wk_last_bad_mtu ws = wk_conn_mtu ws then Inr ((), ws)
      else mtu_set (ws\<lparr>wk_last_good_mtu := wk_conn_mtu ws\<rparr>) ((wk_conn_mtu ws + wk_last_bad_mtu ws) div 2))"

definition session_info_send :: "worker \<Rightarrow> unit wres" where
  "session_info_send ws =
     (if wk_udp_state ws \<noteq> UP_DISABLED \<and> wk_dtls_session ws = Dtls_freed then Inl Freed_session
      else Inr ((), wout To_main_info ws))"

section \<open>Periodic checks\<close>

definition PERIODIC_CHECK_TIME :: int where "PERIODIC_CHECK_TIME = 30"
definition DPD_TRIES :: u32 where "DPD_TRIES = 2"
definition DPD_MAX_TRIES :: u32 where "DPD_MAX_TRIES = 3"
definition CSTP_DTLS_OVERHEAD :: nat where "CSTP_DTLS_OVERHEAD = 1"
definition CSTP_OVERHEAD :: nat where "CSTP_OVERHEAD = 8"

definition AC_PKT_DATA :: byte where "AC_PKT_DATA = 0"
definition AC_PKT_DPD_OUT :: byte where "AC_PKT_DPD_OUT = 3"
definition AC_PKT_DPD_RESP :: byte where "AC_PKT_DPD_RESP = 4"
definition AC_PKT_DISCONN :: byte where "AC_PKT_DISCONN = 5"
definition AC_PKT_KEEPALIVE :: byte where "AC_PKT_KEEPALIVE = 7"
definition AC_PKT_COMPRESSED :: byte where "AC_PKT_COMPRESSED = 8"

lemmas ac_consts = AC_PKT_DATA_def AC_PKT_DPD_OUT_def AC_PKT_DPD_RESP_def AC_PKT_DISCONN_def
  AC_PKT_KEEPALIVE_def AC_PKT_COMPRESSED_def

text \<open>The header of a CSTP packet: STF, the version, the length, the type.\<close>

definition cstp_header :: "nat \<Rightarrow> byte \<Rightarrow> byte list" where
  "cstp_header n typ = [0x53, 0x54, 0x46, 1, word_of_nat (n div 256), word_of_nat n, typ, 0]"

text \<open>The dead peer detection of each channel; \<open>dpd\<close> times the tries is computed in 32 bits.\<close>

definition check_udp :: "worker_cfg \<Rightarrow> net_env \<Rightarrow> worker \<Rightarrow> int \<Rightarrow> u32 \<Rightarrow> unit wres" where
  "check_udp cfg env ws now dpd =
     (if wk_udp_state ws = UP_ACTIVE \<and> uint (DPD_TRIES * dpd) < now - wk_last_msg_udp ws \<and> 0 < dpd then
        wbind (do_dtls env ws [AC_PKT_DPD_OUT])
          (\<lambda>ret ws1. if dtls_fatal env ret then Inl (exit_worker cfg env ws1)
             else if uint (DPD_MAX_TRIES * dpd) < now - wk_last_msg_udp ws1
             then Inr ((), ws1\<lparr>wk_udp_state := UP_INACTIVE\<rparr>) else Inr ((), ws1))
      else Inr ((), ws))"

definition check_tcp :: "worker_cfg \<Rightarrow> net_env \<Rightarrow> worker \<Rightarrow> int \<Rightarrow> u32 \<Rightarrow> int wres" where
  "check_tcp cfg env ws now dpd =
     (if 0 < dpd \<and> uint (DPD_TRIES * dpd) < now - wk_last_msg_tcp ws then
        (case do_cstp env ws (cstp_header 0 AC_PKT_DPD_OUT) of
           (ret, ws1) \<Rightarrow>
             if cstp_fatal env ws1 ret then Inl (exit_worker cfg env ws1)
             else if uint (DPD_MAX_TRIES * dpd) < now - wk_last_msg_tcp ws1 then Inr (-1, ws1)
             else Inr (0, ws1))
      else Inr (0, ws))"

text \<open>The MSS of the TCP connection; the comparison is unsigned.\<close>

definition check_mss :: "net_env \<Rightarrow> worker \<Rightarrow> u32 \<Rightarrow> unit wres" where
  "check_mss env ws overhead =
     (case ne_mss env of
        None \<Rightarrow> Inr ((), ws)
      | Some mss \<Rightarrow>
          let mx = mss - 13; m = (word_of_int mx :: u32) - overhead in
          if 0 < mx \<and> m < wk_conn_mtu ws then mtu_set ws (min (wk_conn_mtu ws) m) else Inr ((), ws))"

definition periodic_check :: "worker_cfg \<Rightarrow> net_env \<Rightarrow> worker \<Rightarrow> u32 \<Rightarrow> int \<Rightarrow> u32 \<Rightarrow> int wres" where
  "periodic_check cfg env ws overhead now dpd =
     (if now - wk_last_periodic_check ws < PERIODIC_CHECK_TIME then Inr (0, ws)
      else if 0 < vc_idle_timeout cfg \<and> uint (vc_idle_timeout cfg) < now - wk_last_nc_msg ws
      then Inr (0, ws\<lparr>wk_terminate := True, wk_last_periodic_check := now\<rparr>)
      else
        let ws1 = (if 0 < vc_stats_report_time cfg
                      \<and> uint (vc_stats_report_time cfg) \<le> now - wk_last_stats_msg ws \<and> wk_sid_set ws
                   then send_stats_to_secmod env ws now else ws)
        in wbind (check_udp cfg env ws1 now dpd)
             (\<lambda>_ ws2. wbind (check_tcp cfg env ws2 now dpd)
                (\<lambda>ret ws3. if ret < 0 then Inr (ret, ws3)
                   else wbind (check_mss env ws3 overhead)
                     (\<lambda>_ ws4. Inr (0, ws4\<lparr>wk_last_periodic_check := now\<rparr>)))))"

end
