(* ===== verification/WorkerData.thy ===== *)
theory WorkerData
  imports Worker
begin

text \<open>
  The packets of the tunnel (worker-vpn.c): what a worker makes of a packet of its tun device, of
  data on the TLS and the DTLS channel, of commands of the main process (worker-misc.c), and one
  round of its main loop. What GnuTLS and the devices answer is given to each step.
\<close>

definition UDP_SWITCH_TIME :: int where "UDP_SWITCH_TIME = 15"
definition ACTIVE_SESSION_TIMEOUT :: int where "ACTIVE_SESSION_TIMEOUT = 30"
definition WS_BUFFER_SIZE :: nat where "WS_BUFFER_SIZE = 16 * 1024"

section \<open>From the tun device\<close>

text \<open>A packet is sent compressed when that makes it shorter.\<close>

definition try_compress :: "net_env \<Rightarrow> comp_method \<Rightarrow> byte list \<Rightarrow> byte list option" where
  "try_compress env m pkt =
     (case ne_compress env m (WS_BUFFER_SIZE - 8) pkt of
        None \<Rightarrow> None
      | Some z \<Rightarrow> if 0 < length z \<and> length z < length pkt then Some z else None)"

text \<open>Type and data of what DTLS and TLS are to send.\<close>

definition tun_payloads ::
  "worker_cfg \<Rightarrow> net_env \<Rightarrow> worker \<Rightarrow> byte list \<Rightarrow> (byte \<times> byte list) \<times> (byte \<times> byte list)" where
  "tun_payloads cfg env ws pkt =
     (let raw = (AC_PKT_DATA, pkt); long = uint (vc_no_compress_limit cfg) < int (length pkt) in
      if wk_udp_state ws = UP_ACTIVE \<and> wk_dtls_comp ws \<noteq> None \<and> long then
        (case try_compress env (the (wk_dtls_comp ws)) pkt of
           None \<Rightarrow> (raw, raw)
         | Some z \<Rightarrow> ((AC_PKT_COMPRESSED, z),
                     if wk_cstp_comp ws = wk_dtls_comp ws then (AC_PKT_COMPRESSED, z) else raw))
      else if wk_cstp_comp ws \<noteq> None \<and> long then
        (case try_compress env (the (wk_cstp_comp ws)) pkt of
           None \<Rightarrow> (raw, raw) | Some z \<Rightarrow> (raw, (AC_PKT_COMPRESSED, z)))
      else (raw, raw))"

definition cstp_frame :: "byte \<times> byte list \<Rightarrow> byte list" where
  "cstp_frame p = cstp_header (length (snd p)) (fst p) @ snd p"

definition add_bytes_out :: "nat \<Rightarrow> worker \<Rightarrow> worker" where
  "add_bytes_out n ws = ws\<lparr>wk_bytes_out := wk_bytes_out ws + word_of_nat n\<rparr>"

text \<open>
  Over DTLS; the result says whether TLS has to be tried. What was sent is compared with the MTU
  as an unsigned number.
\<close>

definition tun_send_dtls :: "worker_cfg \<Rightarrow> net_env \<Rightarrow> worker \<Rightarrow> byte \<times> byte list \<Rightarrow> bool wres" where
  "tun_send_dtls cfg env ws p =
     wbind (do_dtls env (add_bytes_out (length (snd p)) ws) (fst p # snd p))
       (\<lambda>ret ws1.
          if dtls_fatal env ret then Inl (exit_worker cfg env ws1)
          else if ret = GNUTLS_E_LARGE_PACKET then wbind (mtu_not_ok ws1) (\<lambda>_ ws2. Inr (True, ws2))
          else if wk_conn_mtu ws1 \<le> word_of_int ret \<and> vc_try_mtu cfg
          then wbind (mtu_ok ws1) (\<lambda>_ ws2. Inr (False, ws2))
          else Inr (False, ws1))"

definition tun_send_tls :: "worker_cfg \<Rightarrow> net_env \<Rightarrow> worker \<Rightarrow> byte \<times> byte list \<Rightarrow> unit wres" where
  "tun_send_tls cfg env ws p =
     (case do_cstp env (add_bytes_out (length (snd p)) ws) (cstp_frame p) of
        (ret, ws1) \<Rightarrow> if cstp_fatal env ws1 ret then Inl (exit_worker cfg env ws1) else Inr ((), ws1))"

text \<open>What tun_read gives: bytes, nothing yet, or an error. It reads at most the MTU.\<close>

datatype tun_in = Tun_data "byte list" | Tun_again | Tun_failed

definition tun_mainloop :: "worker_cfg \<Rightarrow> net_env \<Rightarrow> worker \<Rightarrow> timespec \<Rightarrow> tun_in \<Rightarrow> int wres" where
  "tun_mainloop cfg env ws tnow t =
     (case t of
        Tun_failed \<Rightarrow> Inr (-1, ws)
      | Tun_again \<Rightarrow> Inr (0, ws)
      | Tun_data bs \<Rightarrow>
          let pkt = take (unat (wk_conn_mtu ws)) bs in
          if pkt = [] then Inr (0, ws)
          else
            (case tun_payloads cfg env ws pkt of
               (dt, ct) \<Rightarrow>
                 (case bandwidth_update (wk_b_tx ws) (word_of_nat (length (snd dt))) tnow of
                    (ok, b) \<Rightarrow>
                      let ws1 = ws\<lparr>wk_b_tx := b\<rparr> in
                      if \<not> ok then Inr (0, ws1)
                      else
                        wbind (if wk_udp_state ws1 = UP_ACTIVE then tun_send_dtls cfg env ws1 dt
                               else Inr (False, ws1))
                          (\<lambda>retry ws2.
                             wbind (if wk_udp_state ws2 \<noteq> UP_ACTIVE \<or> retry
                                    then tun_send_tls cfg env ws2 ct else Inr ((), ws2))
                               (\<lambda>_ ws3. Inr (0, ws3\<lparr>wk_last_nc_msg := tv_sec tnow\<rparr>))))))"

section \<open>From the client\<close>

text \<open>Answering a dead peer detection; over DTLS a packet that is too large is tried once more.\<close>

definition answer_dpd :: "net_env \<Rightarrow> worker \<Rightarrow> bool \<Rightarrow> byte \<Rightarrow> int wres" where
  "answer_dpd env ws tls head =
     (if tls then
        (case do_cstp env ws (cstp_header 0 AC_PKT_DPD_RESP) of
           (ret, ws1) \<Rightarrow> if ret < 0 then Inr (-1, ws1) else Inr (uint head, ws1))
      else
        wbind (do_dtls env ws [AC_PKT_DPD_RESP])
          (\<lambda>ret ws1.
             wbind (if ret = GNUTLS_E_LARGE_PACKET
                    then wbind (mtu_not_ok ws1) (\<lambda>_ ws2. do_dtls env ws2 [AC_PKT_DPD_RESP])
                    else Inr (ret, ws1))
               (\<lambda>ret2 ws2. if ret2 < 0 then Inr (-1, ws2) else Inr (uint head, ws2))))"

definition write_tun :: "net_env \<Rightarrow> worker \<Rightarrow> byte \<Rightarrow> byte list \<Rightarrow> nat \<Rightarrow> int \<Rightarrow> int wres" where
  "write_tun env ws head plain n now =
     (if ne_tun_write env plain
      then Inr (uint head, (wout (To_tun plain) ws)
                  \<lparr>wk_bytes_in := wk_bytes_in ws + word_of_nat n, wk_last_nc_msg := now\<rparr>)
      else Inr (-1, ws))"

text \<open>\<open>tls\<close> says that the data came over the TLS session.\<close>

definition parse_data ::
  "worker_cfg \<Rightarrow> net_env \<Rightarrow> worker \<Rightarrow> bool \<Rightarrow> byte \<Rightarrow> byte list \<Rightarrow> int \<Rightarrow> int wres" where
  "parse_data cfg env ws tls head buf now =
     (if head = AC_PKT_DPD_OUT then answer_dpd env ws tls head
      else if head = AC_PKT_DISCONN then Inl (exit_worker cfg env ws)
      else if head = AC_PKT_COMPRESSED then
        (case (if tls then wk_cstp_comp ws else wk_dtls_comp ws) of
           None \<Rightarrow> Inr (-1, ws)
         | Some m \<Rightarrow>
             (case ne_decompress env m WS_BUFFER_SIZE buf of
                None \<Rightarrow> Inr (-1, ws)
              | Some plain \<Rightarrow>
                  if plain = [] then Inr (-1, ws) else write_tun env ws head plain (length buf) now))
      else if head = AC_PKT_DATA then write_tun env ws head buf (length buf) now
      else Inr (uint head, ws))"

definition cstp_magic :: "byte list \<Rightarrow> bool" where
  "cstp_magic bs \<longleftrightarrow> bs ! 0 = 0x53 \<and> bs ! 1 = 0x54 \<and> bs ! 2 = 0x46 \<and> bs ! 3 = 1 \<and> bs ! 7 = 0"

definition cstp_length :: "byte list \<Rightarrow> nat" where
  "cstp_length bs = unat (bs ! 4) * 256 + unat (bs ! 5)"

definition parse_cstp_data :: "worker_cfg \<Rightarrow> net_env \<Rightarrow> worker \<Rightarrow> byte list \<Rightarrow> int \<Rightarrow> int wres" where
  "parse_cstp_data cfg env ws bs now =
     (if length bs < 8 then Inr (-1, ws)
      else if \<not> cstp_magic bs then Inr (-1, ws)
      else if length bs \<noteq> 8 + cstp_length bs then Inr (-1, ws)
      else wbind (parse_data cfg env ws True (bs ! 6) (drop 8 bs) now)
             (\<lambda>ret ws1. Inr (ret, ws1\<lparr>wk_last_msg_tcp := now\<rparr>)))"

definition parse_dtls_data :: "worker_cfg \<Rightarrow> net_env \<Rightarrow> worker \<Rightarrow> byte list \<Rightarrow> int \<Rightarrow> int wres" where
  "parse_dtls_data cfg env ws bs now =
     (if bs = [] then Inr (-1, ws)
      else wbind (parse_data cfg env ws False (hd bs) (tl bs) now)
             (\<lambda>ret ws1. Inr (ret, ws1\<lparr>wk_last_msg_udp := now\<rparr>)))"

section \<open>The TLS channel\<close>

text \<open>What a receive gives: bytes (none when the client has gone), or a negative error.\<close>

datatype rx = Rx "byte list" | Rx_error int

text \<open>A loop that repeats a handshake; None when it has not ended with the results given.\<close>

fun retry :: "(int \<Rightarrow> bool) \<Rightarrow> int list \<Rightarrow> int option" where
  "retry again [] = None"
| "retry again (r # rs) = (if again r then retry again rs else Some r)"

text \<open>
  A rehandshake within half of the rekey time of the last one is refused; C rounds the half
  towards zero.
\<close>

definition too_soon :: "worker_cfg \<Rightarrow> int \<Rightarrow> int \<Rightarrow> bool" where
  "too_soon cfg prev now \<longleftrightarrow> 0 < prev
     \<and> now - prev < (let t = vc_rekey_time cfg in if t < 0 then - (- t div 2) else t div 2)"

definition tls_rehandshake :: "worker_cfg \<Rightarrow> net_env \<Rightarrow> worker \<Rightarrow> int \<Rightarrow> int list \<Rightarrow> int wres" where
  "tls_rehandshake cfg env ws now hs =
     (if too_soon cfg (wk_last_tls_rehandshake ws) now then Inr (-1, ws)
      else
        (case retry (\<lambda>r. r < 0 \<and> \<not> ne_fatal env r) hs of
           None \<Rightarrow> Inl (Waiting ws)
         | Some r \<Rightarrow> if r < 0 \<and> ne_fatal env r then Inl (exit_worker cfg env ws)
                    else Inr (0, ws\<lparr>wk_last_tls_rehandshake := now\<rparr>)))"

definition tls_mainloop ::
  "worker_cfg \<Rightarrow> net_env \<Rightarrow> worker \<Rightarrow> timespec \<Rightarrow> rx \<Rightarrow> int list \<Rightarrow> int wres" where
  "tls_mainloop cfg env ws tnow rx hs =
     (case rx of
        Rx_error ret \<Rightarrow>
          if cstp_fatal env ws ret then Inl (exit_worker cfg env ws)
          else if ret = GNUTLS_E_REHANDSHAKE then tls_rehandshake cfg env ws (tv_sec tnow) hs
          else Inr (0, ws)
      | Rx bs \<Rightarrow>
          if bs = [] then Inr (-1, ws)
          else if length bs < 8 then Inr (0, ws)
          else
            (case bandwidth_update (wk_b_rx ws) (word_of_nat (length bs - 8)) tnow of
               (ok, b) \<Rightarrow>
                 let ws1 = ws\<lparr>wk_b_rx := b\<rparr> in
                 if \<not> ok then Inr (0, ws1)
                 else
                   wbind (parse_cstp_data cfg env ws1 bs (tv_sec tnow))
                     (\<lambda>ret ws2.
                        if ret < 0 then Inr (ret, ws2)
                        else if (ret = uint AC_PKT_DATA \<or> ret = uint AC_PKT_COMPRESSED)
                               \<and> wk_udp_state ws2 = UP_ACTIVE
                               \<and> UDP_SWITCH_TIME < tv_sec tnow - wk_udp_recv_time ws2
                        then Inr (0, ws2\<lparr>wk_udp_state := UP_INACTIVE\<rparr>)
                        else Inr (0, ws2))))"

section \<open>The DTLS channel\<close>

text \<open>
  The datagram that came with the socket is pulled before the socket is read; the result is the
  data that GnuTLS gets.
\<close>

definition dtls_pull :: "worker \<Rightarrow> nat \<Rightarrow> byte list \<Rightarrow> byte list \<times> worker" where
  "dtls_pull ws n received =
     (case wk_udp_msg ws of
        Some m \<Rightarrow> (take n m, ws\<lparr>wk_udp_msg := None\<rparr>)
      | None \<Rightarrow> (received, ws))"

definition setup_dtls_connection :: "net_env \<Rightarrow> worker \<Rightarrow> int wres" where
  "setup_dtls_connection env ws =
     (if wk_suite ws = None then Inr (-1, ws)
      else if \<not> ne_dtls_init env then Inr (-1, ws)
      else Inr (0, ws\<lparr>wk_udp_state := UP_HANDSHAKE, wk_dtls_session := Dtls_open\<rparr>))"

text \<open>
  The handshake, with the results of gnutls_handshake in order; behind them it would block. A
  packet that is too large makes the MTU smaller and the handshake go on at once.
\<close>

definition dtls_established :: "net_env \<Rightarrow> worker \<Rightarrow> unit wres" where
  "dtls_established env ws =
     (let mtu = min (ne_data_mtu env - word_of_nat CSTP_DTLS_OVERHEAD) (wk_conn_mtu ws) in
      wbind (mtu_set (mtu_discovery_init (ws\<lparr>wk_udp_state := UP_ACTIVE\<rparr>) mtu) mtu)
        (\<lambda>_ ws1. session_info_send ws1))"

fun dtls_handshake :: "net_env \<Rightarrow> worker \<Rightarrow> int list \<Rightarrow> unit wres" where
  "dtls_handshake env ws [] = with_dtls ws (Inr ((), ws))"
| "dtls_handshake env ws (ret # hs) =
     with_dtls ws
       (if ret < 0 \<and> ne_fatal env ret then Inr ((), ws\<lparr>wk_udp_state := UP_DISABLED\<rparr>)
        else if ret = GNUTLS_E_LARGE_PACKET
        then wbind (mtu_not_ok ws) (\<lambda>_ ws1. dtls_handshake env ws1 hs)
        else if ret = 0 then dtls_established env ws
        else Inr ((), ws))"

definition dtls_rehandshake :: "worker_cfg \<Rightarrow> net_env \<Rightarrow> worker \<Rightarrow> int \<Rightarrow> int list \<Rightarrow> int wres" where
  "dtls_rehandshake cfg env ws now hs =
     (if too_soon cfg (wk_last_dtls_rehandshake ws) now then Inr (-1, ws)
      else
        (case retry (\<lambda>r. r = GNUTLS_E_AGAIN \<or> r = GNUTLS_E_INTERRUPTED) hs of
           None \<Rightarrow> Inl (Waiting ws)
         | Some r \<Rightarrow> if dtls_fatal env r then Inl (exit_worker cfg env ws)
                    else Inr (0, ws\<lparr>wk_last_dtls_rehandshake := now\<rparr>)))"

definition dtls_receive ::
  "worker_cfg \<Rightarrow> net_env \<Rightarrow> worker \<Rightarrow> timespec \<Rightarrow> rx \<Rightarrow> int list \<Rightarrow> int wres" where
  "dtls_receive cfg env ws tnow rx hs =
     (case rx of
        Rx_error ret \<Rightarrow>
          if dtls_fatal env ret then Inl (exit_worker cfg env ws)
          else if ret = GNUTLS_E_REHANDSHAKE then dtls_rehandshake cfg env ws (tv_sec tnow) hs
          else Inr (0, ws)
      | Rx bs \<Rightarrow>
          if bs = [] then Inr (0, ws)
          else
            (case bandwidth_update (wk_b_rx ws) (word_of_nat (length bs - 1)) tnow of
               (ok, b) \<Rightarrow>
                 let ws1 = ws\<lparr>wk_udp_state := UP_ACTIVE, wk_b_rx := b\<rparr> in
                 if \<not> ok then Inr (0, ws1)
                 else parse_dtls_data cfg env ws1 bs (tv_sec tnow)))"

definition dtls_mainloop ::
  "worker_cfg \<Rightarrow> net_env \<Rightarrow> worker \<Rightarrow> timespec \<Rightarrow> rx \<Rightarrow> int list \<Rightarrow> int wres" where
  "dtls_mainloop cfg env ws tnow rx hs =
     (if wk_udp_state ws = UP_ACTIVE \<or> wk_udp_state ws = UP_INACTIVE then
        with_dtls ws
          (wbind (dtls_receive cfg env ws tnow rx hs)
             (\<lambda>ret ws1. if ret < 0 then Inr (ret, ws1)
                else Inr (0, ws1\<lparr>wk_udp_recv_time := tv_sec tnow\<rparr>)))
      else if wk_udp_state ws = UP_SETUP then
        wbind (setup_dtls_connection env ws)
          (\<lambda>ret ws1. if ret < 0 then Inr (-1, ws1)
             else Inr (0, mtu_discovery_init ws1 (wk_conn_mtu ws1)))
      else if wk_udp_state ws = UP_HANDSHAKE then
        wbind (dtls_handshake env ws hs) (\<lambda>_ ws1. Inr (0, ws1))
      else Inr (0, ws))"

section \<open>Commands of the main process\<close>

definition CMD_UDP_FD :: byte where "CMD_UDP_FD = 10"
definition CMD_TERMINATE :: byte where "CMD_TERMINATE = 12"

datatype cmd_in = Cmd_failed | Cmd_bytes "byte list" control

text \<open>The socket of a client's datagrams; a hello starts a new DTLS session.\<close>

definition udp_fd_received ::
  "net_env \<Rightarrow> worker \<Rightarrow> (bool \<times> byte list) option \<Rightarrow> int \<Rightarrow> int wres" where
  "udp_fd_received env ws tmsg fd =
     (let hello = (case tmsg of None \<Rightarrow> True | Some (h, _) \<Rightarrow> h) in
      if \<not> hello \<and> ((wk_udp_state ws \<noteq> UP_ACTIVE \<and> wk_udp_state ws \<noteq> UP_INACTIVE)
                     \<or> ne_time env - wk_last_msg_udp ws < ACTIVE_SESSION_TIMEOUT)
      then Inr (0, ws)
      else
        let ws1 = (if hello then ws\<lparr>wk_udp_state := UP_SETUP\<rparr> else ws) in
        Inr (0, ws1\<lparr>wk_udp_msg := map_option snd tmsg, wk_udp_fd := fd\<rparr>))"

definition handle_worker_commands :: "worker_cfg \<Rightarrow> net_env \<Rightarrow> worker \<Rightarrow> cmd_in \<Rightarrow> int wres" where
  "handle_worker_commands cfg env ws c =
     (case c of
        Cmd_failed \<Rightarrow> Inl (exit_worker cfg env ws)
      | Cmd_bytes bs ctl \<Rightarrow>
          if bs = [] then Inr (ERR_NO_CMD_FD, ws)
          else if length bs < 3 \<or> length bs - 3 < recv_length bs then Inl (exit_worker cfg env ws)
          else if hd bs = CMD_TERMINATE then Inl (exit_worker cfg env ws)
          else if hd bs = CMD_UDP_FD then
            (case ctl of
               Ctl_none \<Rightarrow> Inr (-1, ws)
             | Ctl_other \<Rightarrow>
                 Inr (-1, if wk_udp_fd ws = -1 then ws\<lparr>wk_udp_state := UP_DISABLED\<rparr> else ws)
             | Ctl_fd fd \<Rightarrow>
                 udp_fd_received env ws (ne_unpack_udp env (take (recv_length bs) (drop 3 bs))) fd)
          else Inl (exit_worker cfg env ws))"

section \<open>The main loop\<close>

text \<open>The label exit.\<close>

definition worker_leave :: "worker_cfg \<Rightarrow> net_env \<Rightarrow> worker \<Rightarrow> unit wres" where
  "worker_leave cfg env ws =
     (let ws1 = (if wk_session ws then wout Tls_bye ws else ws) in
      wbind (if wk_udp_state ws1 = UP_ACTIVE \<and> wk_dtls_session ws1 \<noteq> No_dtls then dtls_close ws1
             else Inr ((), ws1))
        (\<lambda>_ ws2. Inl (exit_worker cfg env ws2)))"

text \<open>The label terminate: the client is told.\<close>

definition worker_terminate :: "worker_cfg \<Rightarrow> net_env \<Rightarrow> worker \<Rightarrow> unit wres" where
  "worker_terminate cfg env ws =
     (case do_cstp env ws (cstp_header 0 AC_PKT_DISCONN) of
        (ret, ws1) \<Rightarrow> if cstp_fatal env ws1 ret then Inl (exit_worker cfg env ws1)
                      else worker_leave cfg env ws1)"

text \<open>A step whose negative result ends the loop.\<close>

definition or_leave :: "worker_cfg \<Rightarrow> net_env \<Rightarrow> int wres \<Rightarrow> (worker \<Rightarrow> unit wres) \<Rightarrow> unit wres" where
  "or_leave cfg env m f = wbind m (\<lambda>ret ws. if ret < 0 then worker_leave cfg env ws else f ws)"

text \<open>
  What one round finds: records that GnuTLS still holds, the answer of pselect with the sockets
  that are readable, the signal SIGTERM while it waits, and what is read.
\<close>

record round_in =
  ri_tls_pending :: bool
  ri_dtls_pending :: bool
  ri_select :: sel_result
  ri_sigterm :: bool
  ri_tun_ready :: bool
  ri_tls_ready :: bool
  ri_dtls_ready :: bool
  ri_cmd_ready :: bool
  ri_now :: timespec
  ri_tun :: tun_in
  ri_tls :: rx
  ri_tls_hs :: "int list"
  ri_dtls :: rx
  ri_dtls_hs :: "int list"
  ri_cmd :: cmd_in

text \<open>dtls_pending; gnutls_record_check_pending is asked whenever the pointer is not NULL.\<close>

definition dtls_has_pending :: "round_in \<Rightarrow> worker \<Rightarrow> bool wres" where
  "dtls_has_pending ri ws =
     (if \<not> udp_open (wk_udp_state ws) then Inr (False, ws)
      else if wk_dtls_session ws = No_dtls then Inr (wk_udp_msg ws \<noteq> None, ws)
      else with_dtls ws (Inr (wk_udp_msg ws \<noteq> None \<or> ri_dtls_pending ri, ws)))"

text \<open>The descriptors are only looked at when pselect was called.\<close>

definition round_channels ::
  "worker_cfg \<Rightarrow> net_env \<Rightarrow> round_in \<Rightarrow> bool \<Rightarrow> bool \<Rightarrow> worker \<Rightarrow> unit wres" where
  "round_channels cfg env ri tls_p dtls_p ws =
     (let polled = \<not> tls_p \<and> \<not> dtls_p; now = ri_now ri in
      or_leave cfg env (if polled \<and> ri_tun_ready ri then tun_mainloop cfg env ws now (ri_tun ri) else Inr (0, ws))
      (\<lambda>ws1. or_leave cfg env
        (if polled \<and> ri_tls_ready ri \<or> tls_p then tls_mainloop cfg env ws1 now (ri_tls ri) (ri_tls_hs ri)
         else Inr (0, ws1))
      (\<lambda>ws2. or_leave cfg env
        (if udp_open (wk_udp_state ws2) \<and> (polled \<and> ri_dtls_ready ri \<or> dtls_p)
         then dtls_mainloop cfg env (if ne_pulls env then snd (dtls_pull ws2 WS_BUFFER_SIZE []) else ws2)
                now (ri_dtls ri) (ri_dtls_hs ri)
         else Inr (0, ws2))
      (\<lambda>ws3.
         if polled \<and> ri_cmd_ready ri then
           wbind (handle_worker_commands cfg env ws3 (ri_cmd ri))
             (\<lambda>ret ws4. if ret = ERR_NO_CMD_FD then worker_terminate cfg env ws4
                else if ret < 0 then worker_leave cfg env ws4 else Inr ((), ws4))
         else Inr ((), ws3)))))"

definition worker_round ::
  "worker_cfg \<Rightarrow> net_env \<Rightarrow> u32 \<Rightarrow> worker \<Rightarrow> round_in \<Rightarrow> unit wres" where
  "worker_round cfg env overhead ws ri =
     (if wk_terminate ws then worker_terminate cfg env ws
      else
        let tls_p = (wk_session ws \<and> ri_tls_pending ri) in
        wbind (dtls_has_pending ri ws)
          (\<lambda>dtls_p ws1.
             if \<not> tls_p \<and> \<not> dtls_p \<and> ri_select ri = Sel_interrupted
             then Inr ((), ws1\<lparr>wk_terminate := ri_sigterm ri\<rparr>)
             else if \<not> tls_p \<and> \<not> dtls_p \<and> ri_select ri = Sel_failed then worker_leave cfg env ws1
             else or_leave cfg env (periodic_check cfg env ws1 overhead (tv_sec (ri_now ri)) (vc_dpd cfg))
                    (round_channels cfg env ri tls_p dtls_p)))"

fun worker_run ::
  "worker_cfg \<Rightarrow> u32 \<Rightarrow> worker \<Rightarrow> (net_env \<times> round_in) list \<Rightarrow> unit wres" where
  "worker_run cfg overhead ws [] = Inr ((), ws)"
| "worker_run cfg overhead ws ((env, ri) # rs) =
     wbind (worker_round cfg env overhead ws ri) (\<lambda>_ ws1. worker_run cfg overhead ws1 rs)"

end
