(* ===== verification/WorkerInv.thy ===== *)
theory WorkerInv
  imports WorkerData
begin

text \<open>
  What holds in every state of a worker's tunnel: the MTU never exceeds a bound that covers
  the one the tunnel starts with and MIN_MTU (mtu_not_ok raises a smaller one to it), a DTLS session exists whenever the state of the UDP channel needs one, and everything that was
  sent is well formed. Every operation keeps it, also when it stops the worker.
\<close>

definition out_ok :: "u32 \<Rightarrow> worker_out \<Rightarrow> bool" where
  "out_ok M m =
     (case m of
        To_client bs \<Rightarrow> \<exists>t p. bs = cstp_frame (t, p) \<and> length p \<le> unat M
      | To_client_dtls bs \<Rightarrow> bs \<noteq> [] \<and> length bs \<le> unat M + 1
      | To_main_mtu mtu \<Rightarrow> mtu \<le> M
      | To_main_ban p \<Rightarrow> p = 0
      | _ \<Rightarrow> True)"

definition needs_dtls :: "udp_port_state \<Rightarrow> bool" where
  "needs_dtls st \<longleftrightarrow> st = UP_HANDSHAKE \<or> st = UP_INACTIVE \<or> st = UP_ACTIVE"

text \<open>A bound that is no smaller than MIN_MTU (1281 with an IPv6 lease) and far from the end of 32 bits.\<close>

definition mtu_bound :: "bool \<Rightarrow> u32 \<Rightarrow> bool" where
  "mtu_bound ip6 M \<longleftrightarrow> (if ip6 then 1281 else 257) \<le> M \<and> M < 2 ^ 31"

text \<open>\<open>h\<close> says that there is a session whatever the state of the channel is.\<close>

definition worker_ok :: "u32 \<Rightarrow> bool \<Rightarrow> worker \<Rightarrow> bool" where
  "worker_ok M h ws \<longleftrightarrow> mtu_bound (wk_ipv6 ws) M \<and> wk_conn_mtu ws \<le> M \<and> wk_last_bad_mtu ws \<le> M
     \<and> (h \<or> needs_dtls (wk_udp_state ws) \<longrightarrow> wk_dtls_session ws \<noteq> No_dtls)
     \<and> (\<forall>m \<in> set (wk_out ws). out_ok M m)"

definition wres_all :: "(worker \<Rightarrow> bool) \<Rightarrow> 'a wres \<Rightarrow> bool" where
  "wres_all P m =
     (case m of
        Inl (Exited ws) \<Rightarrow> P ws | Inl Freed_session \<Rightarrow> True | Inl Null_session \<Rightarrow> False
      | Inl (Waiting ws) \<Rightarrow> P ws | Inr (_, ws) \<Rightarrow> P ws)"

lemma wres_all_simps [simp]:
  "wres_all P (Inr (x, ws)) = P ws" "wres_all P (Inl (Exited ws)) = P ws"
  "wres_all P (Inl Freed_session)" "\<not> wres_all P (Inl Null_session)" "wres_all P (Inl (Waiting ws)) = P ws"
  by (simp_all add: wres_all_def)

lemma wres_all_bind:
  assumes "wres_all P m" and "\<And>x ws. P ws \<Longrightarrow> wres_all Q (f x ws)" and "\<And>ws. P ws \<Longrightarrow> Q ws"
  shows "wres_all Q (wbind m f)"
proof (cases m)
  case (Inl e)
  then show ?thesis using assms(1,3) by (cases e) auto
next
  case (Inr y)
  then show ?thesis using assms(1,2) by (cases y) auto
qed

lemma wres_all_mono: "wres_all P m \<Longrightarrow> (\<And>ws. P ws \<Longrightarrow> Q ws) \<Longrightarrow> wres_all Q m"
  by (auto simp: wres_all_def split: sum.splits worker_stop.splits)

lemma worker_ok_session: "worker_ok M h ws \<Longrightarrow> needs_dtls (wk_udp_state ws) \<Longrightarrow> worker_ok M True ws"
  by (simp add: worker_ok_def)

lemma worker_ok_weaken: "worker_ok M True ws \<Longrightarrow> worker_ok M h ws"
  by (simp add: worker_ok_def)

text \<open>Changes that do not matter.\<close>

lemma worker_ok_simps [simp]:
  "worker_ok M h (ws\<lparr>wk_b_tx := b\<rparr>) = worker_ok M h ws"
  "worker_ok M h (ws\<lparr>wk_b_rx := b\<rparr>) = worker_ok M h ws"
  "worker_ok M h (ws\<lparr>wk_last_nc_msg := t\<rparr>) = worker_ok M h ws"
  "worker_ok M h (ws\<lparr>wk_last_msg_tcp := t\<rparr>) = worker_ok M h ws"
  "worker_ok M h (ws\<lparr>wk_last_msg_udp := t\<rparr>) = worker_ok M h ws"
  "worker_ok M h (ws\<lparr>wk_last_stats_msg := t\<rparr>) = worker_ok M h ws"
  "worker_ok M h (ws\<lparr>wk_last_periodic_check := t\<rparr>) = worker_ok M h ws"
  "worker_ok M h (ws\<lparr>wk_last_tls_rehandshake := t\<rparr>) = worker_ok M h ws"
  "worker_ok M h (ws\<lparr>wk_last_dtls_rehandshake := t\<rparr>) = worker_ok M h ws"
  "worker_ok M h (ws\<lparr>wk_udp_recv_time := t\<rparr>) = worker_ok M h ws"
  "worker_ok M h (ws\<lparr>wk_terminate := c\<rparr>) = worker_ok M h ws"
  "worker_ok M h (ws\<lparr>wk_bytes_out := n\<rparr>) = worker_ok M h ws"
  "worker_ok M h (ws\<lparr>wk_bytes_in := n\<rparr>) = worker_ok M h ws"
  "worker_ok M h (ws\<lparr>wk_ban_points := p\<rparr>) = worker_ok M h ws"
  "worker_ok M h (ws\<lparr>wk_udp_msg := d\<rparr>) = worker_ok M h ws"
  "worker_ok M h (ws\<lparr>wk_udp_fd := fd\<rparr>) = worker_ok M h ws"
  "worker_ok M h (ws\<lparr>wk_last_good_mtu := g\<rparr>) = worker_ok M h ws"
  by (simp_all add: worker_ok_def)

lemma worker_ok_wout [simp]: "worker_ok M h (wout m ws) = (worker_ok M h ws \<and> out_ok M m)"
  by (auto simp: worker_ok_def wout_def)

lemma worker_ok_udp:
  "worker_ok M h ws \<Longrightarrow> needs_dtls st \<longrightarrow> h \<or> needs_dtls (wk_udp_state ws)
    \<Longrightarrow> worker_ok M h (ws\<lparr>wk_udp_state := st\<rparr>)"
  by (auto simp: worker_ok_def)

lemma needs_dtls_simps [simp]:
  "needs_dtls UP_ACTIVE" "needs_dtls UP_INACTIVE" "needs_dtls UP_HANDSHAKE"
  "\<not> needs_dtls UP_SETUP" "\<not> needs_dtls UP_DISABLED" "\<not> needs_dtls UP_WAIT_FD"
  by (simp_all add: needs_dtls_def)

section \<open>Leaving and sending\<close>

lemma exit_worker_ok: "worker_ok M h ws \<Longrightarrow> wres_all (worker_ok M h) (Inl (exit_worker cfg env ws))"
  by (simp add: exit_worker_def send_stats_to_secmod_def ws_add_score_to_ip_def Let_def out_ok_def)

lemma do_cstp_ok:
  assumes "worker_ok M h ws" and "length p \<le> unat M"
  shows "worker_ok M h (snd (do_cstp env ws (cstp_frame (t, p))))"
  using assms by (auto simp: do_cstp_def Let_def out_ok_def)

lemma cstp_header_frame: "cstp_header 0 t = cstp_frame (t, [])"
  by (simp add: cstp_frame_def)

lemma do_dtls_ok:
  assumes "worker_ok M True ws" and "bs \<noteq> []" and "length bs \<le> unat M + 1"
  shows "wres_all (worker_ok M True) (do_dtls env ws bs)"
  using assms
  by (auto simp: do_dtls_def with_dtls_def Let_def out_ok_def worker_ok_def wout_def split: dtls_handle.splits)

lemma dtls_close_ok: "worker_ok M True ws \<Longrightarrow> wres_all (worker_ok M True) (dtls_close ws)"
  by (auto simp: dtls_close_def with_dtls_def worker_ok_def wout_def out_ok_def split: dtls_handle.splits)

lemma worker_leave_ok:
  assumes "worker_ok M h ws"
  shows "wres_all (worker_ok M h) (worker_leave cfg env ws)"
proof -
  have "worker_ok M h (if wk_session ws then wout Tls_bye ws else ws)" using assms by (simp add: out_ok_def)
  then show ?thesis
    unfolding worker_leave_def Let_def
  proof (intro wres_all_bind [where P = "worker_ok M h"] exit_worker_ok)
    assume ok: "worker_ok M h (if wk_session ws then wout Tls_bye ws else ws)"
    then show "wres_all (worker_ok M h)
      (if wk_udp_state (if wk_session ws then wout Tls_bye ws else ws) = UP_ACTIVE
          \<and> wk_dtls_session (if wk_session ws then wout Tls_bye ws else ws) \<noteq> No_dtls
       then dtls_close (if wk_session ws then wout Tls_bye ws else ws)
       else Inr ((), if wk_session ws then wout Tls_bye ws else ws))"
    proof (cases "wk_udp_state (if wk_session ws then wout Tls_bye ws else ws) = UP_ACTIVE")
      case True
      then have "worker_ok M True (if wk_session ws then wout Tls_bye ws else ws)"
        using ok worker_ok_session by simp
      then show ?thesis using ok dtls_close_ok [THEN wres_all_mono, OF _ worker_ok_weaken] by auto
    qed auto
  qed
qed

lemma worker_terminate_ok:
  assumes "worker_ok M h ws"
  shows "wres_all (worker_ok M h) (worker_terminate cfg env ws)"
  using do_cstp_ok [OF assms, of "[]" env AC_PKT_DISCONN]
  by (auto simp: worker_terminate_def cstp_header_frame exit_worker_ok worker_leave_ok split: prod.splits)

section \<open>The MTU\<close>

lemma mtu_set_ok: "worker_ok M h ws \<Longrightarrow> mtu \<le> M \<Longrightarrow> wres_all (worker_ok M h) (mtu_set ws mtu)"
  by (auto simp: mtu_set_def mtu_send_def out_ok_def) (auto simp: worker_ok_def)

lemma MIN_MTU_le: "worker_ok M h ws \<Longrightarrow> MIN_MTU ws \<le> M"
  by (simp add: MIN_MTU_def worker_ok_def mtu_bound_def)

lemma smaller_mtu: "c \<le> M \<Longrightarrow> M < 2 ^ 31 \<Longrightarrow> 2 * c div 3 \<le> M" for c M :: u32
proof -
  assume "c \<le> M" "M < 2 ^ 31"
  then have "unat c \<le> unat M" "unat M < 2 ^ 31" by (simp_all add: word_le_nat_alt word_less_nat_alt)
  then have "unat (2 * c) = 2 * unat c" by (simp add: unat_word_ariths)
  then show ?thesis using \<open>unat c \<le> unat M\<close> by (simp add: word_le_nat_alt unat_div)
qed

lemma middle_mtu: "c \<le> M \<Longrightarrow> b \<le> M \<Longrightarrow> M < 2 ^ 31 \<Longrightarrow> (c + b) div 2 \<le> M" for c b M :: u32
proof -
  assume "c \<le> M" "b \<le> M" "M < 2 ^ 31"
  then have n: "unat c \<le> unat M" "unat b \<le> unat M" "unat M < 2 ^ 31"
    by (simp_all add: word_le_nat_alt word_less_nat_alt)
  then have "unat (c + b) = unat c + unat b" by (simp add: unat_word_ariths)
  then show ?thesis using n by (simp add: word_le_nat_alt unat_div)
qed

lemma mtu_not_ok_ok:
  assumes "worker_ok M True ws"
  shows "wres_all (worker_ok M True) (mtu_not_ok ws)"
proof -
  have M: "M < 2 ^ 31" using assms by (simp_all add: worker_ok_def mtu_bound_def)
  let ?ws1 = "ws\<lparr>wk_last_bad_mtu := wk_conn_mtu ws\<rparr>"
  have ok: "worker_ok M True ?ws1" using assms by (simp add: worker_ok_def)
  show ?thesis
  proof (cases "wk_last_good_mtu ?ws1 = MIN_MTU ws")
    case True
    then show ?thesis
      using dtls_close_ok [OF ok]
      by (auto simp: mtu_not_ok_def Let_def intro!: wres_all_bind [where P = "worker_ok M True"] worker_ok_udp)
  next
    case False
    let ?ws2 = "if wk_conn_mtu ?ws1 \<le> wk_last_good_mtu ?ws1
      then ?ws1\<lparr>wk_last_good_mtu := max (2 * wk_conn_mtu ?ws1 div 3) (MIN_MTU ws)\<rparr> else ?ws1"
    have c: "wk_conn_mtu ws \<le> M" using assms by (simp add: worker_ok_def)
    have "wk_last_good_mtu ?ws2 \<le> M"
      using c smaller_mtu [OF c M] MIN_MTU_le [OF assms] by auto
    moreover have "worker_ok M True ?ws2" using ok by simp
    ultimately have "wres_all (worker_ok M True) (mtu_set ?ws2 (wk_last_good_mtu ?ws2))"
      by (intro mtu_set_ok)
    then show ?thesis
      using False by (auto simp: mtu_not_ok_def Let_def intro: wres_all_bind [where P = "worker_ok M True"])
  qed
qed

lemma mtu_ok_ok: "worker_ok M h ws \<Longrightarrow> wres_all (worker_ok M h) (mtu_ok ws)"
  by (auto simp: mtu_ok_def intro!: mtu_set_ok) (auto simp: worker_ok_def mtu_bound_def intro: middle_mtu)

section \<open>The periodic check\<close>

lemma check_udp_ok:
  assumes "worker_ok M h ws"
  shows "wres_all (worker_ok M h) (check_udp cfg env ws now dpd)"
proof (cases "wk_udp_state ws = UP_ACTIVE")
  case True
  then have ok: "worker_ok M True ws" using assms worker_ok_session by simp
  have "wres_all (worker_ok M True) (check_udp cfg env ws now dpd)"
    unfolding check_udp_def
    by (auto intro!: wres_all_bind [where P = "worker_ok M True"] do_dtls_ok exit_worker_ok worker_ok_udp ok)
  then show ?thesis by (rule wres_all_mono) (rule worker_ok_weaken)
next
  case False
  then show ?thesis using assms by (simp add: check_udp_def)
qed

lemma check_tcp_ok: "worker_ok M h ws \<Longrightarrow> wres_all (worker_ok M h) (check_tcp cfg env ws now dpd)"
  using do_cstp_ok [of M h ws "[]" env AC_PKT_DPD_OUT]
  by (auto simp: check_tcp_def cstp_header_frame intro!: exit_worker_ok split: prod.splits)

lemma check_mss_ok: "worker_ok M h ws \<Longrightarrow> wres_all (worker_ok M h) (check_mss env ws overhead)"
  by (auto simp: check_mss_def Let_def intro!: mtu_set_ok split: option.splits)
     (auto simp: worker_ok_def min_def split: if_splits)

lemma send_stats_ok: "worker_ok M h ws \<Longrightarrow> worker_ok M h (send_stats_to_secmod env ws now)"
  by (simp add: send_stats_to_secmod_def Let_def out_ok_def)

lemma periodic_check_ok:
  "worker_ok M h ws \<Longrightarrow> wres_all (worker_ok M h) (periodic_check cfg env ws overhead now dpd)"
  by (auto simp: periodic_check_def Let_def
      intro!: wres_all_bind [where P = "worker_ok M h"] check_udp_ok check_tcp_ok check_mss_ok send_stats_ok)

section \<open>The channels\<close>

lemma try_compress_shorter: "try_compress env m pkt = Some z \<Longrightarrow> length z < length pkt"
  by (auto simp: try_compress_def split: option.splits if_splits)

lemma tun_payloads_shorter:
  assumes "tun_payloads cfg env ws pkt = (dt, ct)"
  shows "length (snd dt) \<le> length pkt \<and> length (snd ct) \<le> length pkt"
  using assms
  by (auto simp: tun_payloads_def Let_def split: if_splits option.splits dest: try_compress_shorter)

lemma add_bytes_out_ok [simp]: "worker_ok M h (add_bytes_out n ws) = worker_ok M h ws"
  by (simp add: add_bytes_out_def)

lemma tun_send_dtls_ok:
  assumes "worker_ok M True ws" and "length (snd p) \<le> unat M"
  shows "wres_all (worker_ok M True) (tun_send_dtls cfg env ws p)"
  unfolding tun_send_dtls_def
proof (rule wres_all_bind [where P = "worker_ok M True"])
  show "wres_all (worker_ok M True) (do_dtls env (add_bytes_out (length (snd p)) ws) (fst p # snd p))"
    using assms by (intro do_dtls_ok) simp_all
qed (auto intro!: wres_all_bind [where P = "worker_ok M True"] exit_worker_ok mtu_not_ok_ok mtu_ok_ok)

lemma tun_send_tls_ok:
  assumes "worker_ok M h ws" and "length (snd p) \<le> unat M"
  shows "wres_all (worker_ok M h) (tun_send_tls cfg env ws p)"
  using do_cstp_ok [of M h "add_bytes_out (length (snd p)) ws" "snd p" env "fst p"] assms
  by (auto simp: tun_send_tls_def intro!: exit_worker_ok split: prod.splits)

lemma tun_mainloop_ok:
  assumes "worker_ok M h ws"
  shows "wres_all (worker_ok M h) (tun_mainloop cfg env ws tnow t)"
proof (cases t)
  case (Tun_data bs)
  let ?pkt = "take (unat (wk_conn_mtu ws)) bs"
  obtain dt ct where p: "tun_payloads cfg env ws ?pkt = (dt, ct)" by (cases "tun_payloads cfg env ws ?pkt")
  have "length ?pkt \<le> unat M" using assms by (auto simp: worker_ok_def word_le_nat_alt)
  then have len: "length (snd dt) \<le> unat M" "length (snd ct) \<le> unat M"
    using tun_payloads_shorter [OF p] by (meson order_trans)+
  obtain ok b where b: "bandwidth_update (wk_b_tx ws) (word_of_nat (length (snd dt))) tnow = (ok, b)"
    by (cases "bandwidth_update (wk_b_tx ws) (word_of_nat (length (snd dt))) tnow")
  have "wres_all (worker_ok M h) (if wk_udp_state ws = UP_ACTIVE
      then tun_send_dtls cfg env (ws\<lparr>wk_b_tx := b\<rparr>) dt else Inr (False, ws\<lparr>wk_b_tx := b\<rparr>))"
    using assms len(1) worker_ok_session [OF assms]
    by (auto intro!: tun_send_dtls_ok [THEN wres_all_mono, OF _ _ worker_ok_weaken])
  then show ?thesis
    using assms len(2)
    by (auto simp: Tun_data tun_mainloop_def p b Let_def
        intro!: wres_all_bind [where P = "worker_ok M h"] tun_send_tls_ok)
qed (use assms in \<open>simp_all add: tun_mainloop_def\<close>)

lemma answer_dpd_ok:
  assumes "worker_ok M h ws" and "\<not> tls \<Longrightarrow> h"
  shows "wres_all (worker_ok M h) (answer_dpd env ws tls head)"
proof (cases tls)
  case True
  then show ?thesis
    using do_cstp_ok [OF assms(1), of "[]" env AC_PKT_DPD_RESP]
    by (auto simp: answer_dpd_def cstp_header_frame split: prod.splits)
next
  case False
  then have ok: "worker_ok M True ws" "h" using assms by auto
  have "wres_all (worker_ok M True) (answer_dpd env ws False head)"
    unfolding answer_dpd_def using ok(1)
    by (auto intro!: wres_all_bind [where P = "worker_ok M True"] do_dtls_ok mtu_not_ok_ok)
  then show ?thesis using False ok(2) by simp
qed

lemma write_tun_ok: "worker_ok M h ws \<Longrightarrow> wres_all (worker_ok M h) (write_tun env ws head plain n now)"
  by (simp add: write_tun_def out_ok_def)

lemma parse_data_ok:
  assumes "worker_ok M h ws" and "\<not> tls \<Longrightarrow> h"
  shows "wres_all (worker_ok M h) (parse_data cfg env ws tls head buf now)"
  using assms
  by (auto simp: parse_data_def intro!: answer_dpd_ok exit_worker_ok write_tun_ok split: option.splits)

lemma parse_cstp_data_ok:
  "worker_ok M h ws \<Longrightarrow> wres_all (worker_ok M h) (parse_cstp_data cfg env ws bs now)"
  by (auto simp: parse_cstp_data_def intro!: wres_all_bind [where P = "worker_ok M h"] parse_data_ok)

lemma parse_dtls_data_ok:
  "worker_ok M True ws \<Longrightarrow> wres_all (worker_ok M True) (parse_dtls_data cfg env ws bs now)"
  by (auto simp: parse_dtls_data_def intro!: wres_all_bind [where P = "worker_ok M True"] parse_data_ok)

lemma tls_mainloop_ok:
  assumes "worker_ok M h ws"
  shows "wres_all (worker_ok M h) (tls_mainloop cfg env ws tnow rx hs)"
  using assms
  by (auto simp: tls_mainloop_def tls_rehandshake_def Let_def split: rx.splits option.splits prod.splits
      intro!: exit_worker_ok wres_all_bind [where P = "worker_ok M h"] parse_cstp_data_ok worker_ok_udp)

lemma dtls_established_ok: "worker_ok M True ws \<Longrightarrow> wres_all (worker_ok M True) (dtls_established env ws)"
proof -
  assume ok: "worker_ok M True ws"
  let ?m = "min (ne_data_mtu env - word_of_nat CSTP_DTLS_OVERHEAD) (wk_conn_mtu ws)"
  have m: "?m \<le> M" using ok by (auto simp: worker_ok_def min_le_iff_disj)
  then have "worker_ok M True (mtu_discovery_init (ws\<lparr>wk_udp_state := UP_ACTIVE\<rparr>) ?m)"
    using ok by (auto simp: mtu_discovery_init_def worker_ok_def)
  from mtu_set_ok [OF this m] show ?thesis
    unfolding dtls_established_def Let_def
    by (rule wres_all_bind) (auto simp: session_info_send_def out_ok_def)
qed

lemma dtls_handshake_ok: "worker_ok M True ws \<Longrightarrow> wres_all (worker_ok M True) (dtls_handshake env ws hs)"
proof (induction hs arbitrary: ws)
  case Nil
  then show ?case by (auto simp: with_dtls_def worker_ok_def split: dtls_handle.splits)
next
  case (Cons r hs)
  then have n: "wk_dtls_session ws \<noteq> No_dtls" by (simp add: worker_ok_def)
  show ?case
    using Cons n
    by (auto simp: with_dtls_def split: dtls_handle.splits
        intro!: wres_all_bind [where P = "worker_ok M True"] mtu_not_ok_ok dtls_established_ok worker_ok_udp)
qed

lemma dtls_receive_ok: "worker_ok M True ws \<Longrightarrow> wres_all (worker_ok M True) (dtls_receive cfg env ws tnow rx hs)"
  by (auto simp: dtls_receive_def dtls_rehandshake_def Let_def split: rx.splits option.splits prod.splits
      intro!: exit_worker_ok parse_dtls_data_ok)
     (auto simp: worker_ok_def)

lemma dtls_mainloop_ok:
  assumes "worker_ok M h ws"
  shows "wres_all (worker_ok M h) (dtls_mainloop cfg env ws tnow rx hs)"
proof (cases "needs_dtls (wk_udp_state ws)")
  case True
  then have ok: "worker_ok M True ws" using assms worker_ok_session by simp
  then have n: "wk_dtls_session ws \<noteq> No_dtls" by (simp add: worker_ok_def)
  have "wres_all (worker_ok M True) (dtls_mainloop cfg env ws tnow rx hs)"
    using True n ok
    by (cases "wk_udp_state ws"; cases "wk_dtls_session ws")
       (auto simp: dtls_mainloop_def with_dtls_def
        intro!: wres_all_bind [where P = "worker_ok M True"] dtls_receive_ok dtls_handshake_ok)
  then show ?thesis by (rule wres_all_mono) (rule worker_ok_weaken)
next
  case False
  then show ?thesis
    using assms
    by (auto simp: dtls_mainloop_def setup_dtls_connection_def mtu_discovery_init_def
        needs_dtls_def worker_ok_def)
qed

section \<open>The main loop\<close>

lemma handle_worker_commands_ok:
  "worker_ok M h ws \<Longrightarrow> wres_all (worker_ok M h) (handle_worker_commands cfg env ws c)"
  by (auto simp: handle_worker_commands_def udp_fd_received_def Let_def
      intro!: exit_worker_ok worker_ok_udp split: cmd_in.splits control.splits option.splits)

lemma or_leave_ok:
  assumes "wres_all (worker_ok M h) m" and "\<And>ws. worker_ok M h ws \<Longrightarrow> wres_all (worker_ok M h) (f ws)"
  shows "wres_all (worker_ok M h) (or_leave cfg env m f)"
  using assms(1) unfolding or_leave_def
  by (rule wres_all_bind) (auto intro: worker_leave_ok assms(2))

lemma dtls_pull_ok [simp]: "worker_ok M h (snd (dtls_pull ws n bs)) = worker_ok M h ws"
  by (simp add: dtls_pull_def split: option.split)

lemma round_channels_ok:
  assumes "worker_ok M h ws"
  shows "wres_all (worker_ok M h) (round_channels cfg env ri tls_p dtls_p ws)"
  using assms unfolding round_channels_def Let_def
  by (auto intro!: or_leave_ok tun_mainloop_ok tls_mainloop_ok dtls_mainloop_ok
      wres_all_bind [where P = "worker_ok M h"] handle_worker_commands_ok worker_terminate_ok worker_leave_ok)

lemma worker_round_ok:
  assumes "worker_ok M h ws"
  shows "wres_all (worker_ok M h) (worker_round cfg env overhead ws ri)"
proof -
  have "wres_all (worker_ok M h) (dtls_has_pending ri ws)"
    using assms by (cases "wk_dtls_session ws") (simp_all add: dtls_has_pending_def with_dtls_def)
  then show ?thesis
    using assms unfolding worker_round_def Let_def
    by (auto intro!: worker_terminate_ok wres_all_bind [where P = "worker_ok M h"] worker_leave_ok
        or_leave_ok periodic_check_ok round_channels_ok)
qed

lemma worker_run_ok:
  "worker_ok M h ws \<Longrightarrow> wres_all (worker_ok M h) (worker_run cfg overhead ws rs)"
  by (induction rs arbitrary: ws)
     (auto intro!: wres_all_bind [where P = "worker_ok M h"] worker_round_ok)

end
