(* ===== verification/WorkerExample.thy ===== *)
theory WorkerExample
  imports WorkerData
begin

text \<open>A worker, its configuration, its surroundings and a round, for concrete instances.\<close>

definition example_env :: net_env where
  "example_env = \<lparr>ne_cstp = (\<lambda>_ bs. int (length bs)), ne_dtls = (\<lambda>_ bs. int (length bs)),
     ne_fatal = (\<lambda>ret. ret \<noteq> GNUTLS_E_LARGE_PACKET \<and> ret \<noteq> GNUTLS_E_AGAIN), ne_sock_fatal = False, ne_secmod = True,
     ne_ban_sent = True, ne_ban_reply = Some True, ne_time = 100, ne_mss = None,
     ne_compress = (\<lambda>_ _ _. None), ne_decompress = (\<lambda>_ _ _. None),
     ne_tun_write = (\<lambda>_. True), ne_dtls_init = True, ne_data_mtu = 1401, ne_pulls = True,
     ne_unpack_udp = (\<lambda>bs. Some (True, bs))\<rparr>"

definition example_worker_cfg :: worker_cfg where
  "example_worker_cfg = \<lparr>vc_idle_timeout = 0, vc_stats_report_time = 0, vc_rekey_time = 0,
     vc_no_compress_limit = 2, vc_try_mtu = True, vc_dpd = 90, vc_max_ban_score = 10,
     vc_ban_points_wrong_password = 10\<rparr>"

definition example_worker :: worker where
  "example_worker = \<lparr>wk_session = True, wk_dtls_session = No_dtls, wk_suite = Some (hd ciphersuites),
     wk_dtls_comp = Some OC_COMP_LZS, wk_cstp_comp = Some OC_COMP_LZS, wk_udp_state = UP_WAIT_FD,
     wk_udp_fd = -1, wk_udp_msg = None, wk_udp_recv_time = 0, wk_last_msg_udp = 100, wk_last_msg_tcp = 100,
     wk_last_nc_msg = 100, wk_last_periodic_check = 0, wk_last_tls_rehandshake = 0,
     wk_last_dtls_rehandshake = 0, wk_last_stats_msg = 0, wk_session_start = 100,
     wk_last_good_mtu = 0, wk_last_bad_mtu = 0, wk_conn_mtu = 1400, wk_crypto_overhead = 30,
     wk_b_tx = bandwidth_init 0, wk_b_rx = bandwidth_init 0, wk_bytes_in = 0, wk_bytes_out = 0,
     wk_ipv6 = False, wk_ban_points = 0, wk_auth_complete = True, wk_sid_set = True,
     wk_terminate = False, wk_out = []\<rparr>"

definition example_round :: round_in where
  "example_round = \<lparr>ri_tls_pending = False, ri_dtls_pending = False, ri_select = Sel_ready, ri_sigterm = False,
     ri_tun_ready = False, ri_tls_ready = False, ri_dtls_ready = False, ri_cmd_ready = False,
     ri_now = \<lparr>tv_sec = 100, tv_nsec = 0\<rparr>, ri_tun = Tun_again, ri_tls = Rx_error GNUTLS_E_AGAIN,
     ri_tls_hs = [], ri_dtls = Rx_error GNUTLS_E_AGAIN, ri_dtls_hs = [], ri_cmd = Cmd_failed\<rparr>"

definition run_end :: "unit wres \<Rightarrow> worker" where
  "run_end m = (case m of Inr (_, ws) \<Rightarrow> ws | Inl (Exited ws) \<Rightarrow> ws | _ \<Rightarrow> example_worker)"

lemma run_end_returns:
  "(case m of Inl _ \<Rightarrow> False | Inr _ \<Rightarrow> True) \<Longrightarrow> m = Inr ((), run_end m)"
  by (auto simp: run_end_def split: sum.splits)

end
