(* ===== verification/Tunnel.thy ===== *)
theory Tunnel
  imports WorkerInv WorkerExample LzsRoundtrip
begin

text \<open>
  What the tunnel of a worker does for a packet: which frames are taken, that a packet of one end
  arrives at the other as it was, compressed or not, and what every run keeps.
\<close>

section \<open>Frames\<close>

lemma cstp_frame_parts:
  assumes "length p < 65536"
  shows "cstp_magic (cstp_frame (t, p))" "cstp_frame (t, p) ! 6 = t" "drop 8 (cstp_frame (t, p)) = p"
    "cstp_length (cstp_frame (t, p)) = length p" "length (cstp_frame (t, p)) = 8 + length p"
proof -
  have "unat (word_of_nat (length p div 256) :: byte) = length p div 256"
    using assms by (simp add: unat_of_nat take_bit_eq_mod)
  moreover have "unat (word_of_nat (length p) :: byte) = length p mod 256"
    by (simp add: unat_of_nat take_bit_eq_mod)
  ultimately show "cstp_length (cstp_frame (t, p)) = length p"
    by (simp add: cstp_length_def cstp_frame_def cstp_header_def)
qed (simp_all add: cstp_magic_def cstp_frame_def cstp_header_def)

lemma list_8: "8 \<le> length bs \<Longrightarrow> \<exists>a b c d e f g h r. bs = a # b # c # d # e # f # g # h # r"
  by (simp add: numeral_eq_Suc Suc_le_length_iff) blast

lemma frame_of_parts:
  assumes "8 \<le> length bs" and "cstp_magic bs" and "length bs = 8 + cstp_length bs"
  shows "bs = cstp_frame (bs ! 6, drop 8 bs) \<and> length (drop 8 bs) < 65536"
proof -
  obtain a b c d e f g h r where bs: "bs = a # b # c # d # e # f # g # h # r" using list_8 [OF assms(1)] by blast
  have len: "length r = unat e * 256 + unat f" using assms(3) by (simp add: bs cstp_length_def)
  have ef: "unat e < 256" "unat f < 256" by (rule order.strict_trans2 [OF unsigned_less], simp)+
  have "length r div 256 = unat e" "length r mod 256 = unat f" using ef by (simp_all add: len)
  then have "unat (word_of_nat (length r div 256) :: byte) = unat e" "unat (word_of_nat (length r) :: byte) = unat f"
    using ef by (simp_all add: unat_of_nat take_bit_eq_mod)
  then have "word_of_nat (length r div 256) = e" "word_of_nat (length r) = f"
    by (simp_all only: word_unat_eq_iff)
  then show ?thesis
    using assms(2) len ef by (simp add: bs cstp_magic_def cstp_frame_def cstp_header_def)
qed

lemma parse_cstp_frame:
  assumes "length p < 65536"
  shows "parse_cstp_data cfg env ws (cstp_frame (t, p)) now
    = wbind (parse_data cfg env ws True t p now) (\<lambda>ret ws1. Inr (ret, ws1\<lparr>wk_last_msg_tcp := now\<rparr>))"
  using cstp_frame_parts [OF assms] by (simp add: parse_cstp_data_def)

text \<open>
  The frames that a worker takes. parse_cstp_data does something with a record exactly when
  it is the header for some type and payload of less than 2^16 bytes followed by that payload;
  then it is what parse_data makes of the payload, and the time of the last message is noted.
  Every other record is an error and changes nothing.
\<close>

theorem cstp_frames_exact:
  "(\<exists>t p. length p < 65536 \<and> bs = cstp_frame (t, p)
      \<and> parse_cstp_data cfg env ws bs now
        = wbind (parse_data cfg env ws True t p now) (\<lambda>ret ws1. Inr (ret, ws1\<lparr>wk_last_msg_tcp := now\<rparr>)))
   \<or> ((\<nexists>t p. length p < 65536 \<and> bs = cstp_frame (t, p)) \<and> parse_cstp_data cfg env ws bs now = Inr (-1, ws))"
proof (cases "\<exists>t p. length p < 65536 \<and> bs = cstp_frame (t, p)")
  case True
  then show ?thesis using parse_cstp_frame by blast
next
  case False
  then have "\<not> (8 \<le> length bs \<and> cstp_magic bs \<and> length bs = 8 + cstp_length bs)"
    using frame_of_parts [of bs] by blast
  then show ?thesis using False by (auto simp: parse_cstp_data_def)
qed

section \<open>Compression\<close>

lemma tun_payloads_cases:
  assumes "tun_payloads cfg env ws pkt = (dt, ct)"
  shows "ct = (AC_PKT_DATA, pkt)
      \<or> (\<exists>m z. wk_cstp_comp ws = Some m \<and> try_compress env m pkt = Some z \<and> ct = (AC_PKT_COMPRESSED, z))"
    "dt = (AC_PKT_DATA, pkt)
      \<or> (\<exists>m z. wk_dtls_comp ws = Some m \<and> try_compress env m pkt = Some z \<and> dt = (AC_PKT_COMPRESSED, z))"
  using assms by (auto simp: tun_payloads_def Let_def split: if_splits option.splits)

text \<open>A method whose decompression, with room for \<open>limit\<close> bytes, inverts its compression.\<close>

locale codec =
  fixes comp :: "nat \<Rightarrow> byte list \<Rightarrow> byte list option"
    and decomp :: "nat \<Rightarrow> byte list \<Rightarrow> byte list option"
    and limit :: nat
  assumes restores: "comp room p = Some z \<Longrightarrow> length p \<le> limit \<Longrightarrow> decomp limit z = Some p"
begin

lemma try_compress_restores:
  assumes "try_compress env m pkt = Some z" and "ne_compress env m = comp" and "length pkt \<le> limit"
  shows "decomp limit z = Some pkt"
  using assms restores by (auto simp: try_compress_def split: option.splits if_splits)

text \<open>What parse_data writes for either payload is the packet.\<close>

lemma payload_written:
  assumes "p = (AC_PKT_DATA, pkt)
      \<or> (\<exists>z. comp' = Some m \<and> try_compress env m pkt = Some z \<and> p = (AC_PKT_COMPRESSED, z))"
    and "pkt \<noteq> []" and "length pkt \<le> limit" and "limit = WS_BUFFER_SIZE"
    and "ne_compress env m = comp" and "ne_decompress env' m = decomp"
    and "(if tls then wk_cstp_comp peer else wk_dtls_comp peer) = comp'"
  shows "parse_data cfg env' peer tls (fst p) (snd p) now
    = write_tun env' peer (fst p) pkt (length (snd p)) now"
proof (cases "p = (AC_PKT_DATA, pkt)")
  case True
  then show ?thesis by (simp add: parse_data_def ac_consts)
next
  case False
  then obtain z where z: "comp' = Some m" "try_compress env m pkt = Some z" "p = (AC_PKT_COMPRESSED, z)"
    using assms(1) by blast
  have "ne_decompress env' m WS_BUFFER_SIZE z = Some pkt"
    using try_compress_restores [OF z(2) assms(5,3)] assms(4,6) by simp
  then show ?thesis using z assms(2,7) by (simp add: parse_data_def ac_consts)
qed

end

definition lzs_comp :: "(nat \<Rightarrow> nat) \<Rightarrow> nat \<Rightarrow> byte list \<Rightarrow> byte list option" where
  "lzs_comp chain room p = (case lzs_compress chain room p of Inl _ \<Rightarrow> None | Inr z \<Rightarrow> Some z)"

text \<open>\<open>dst\<close> is what the buffer held before.\<close>

definition lzs_decomp :: "byte list \<Rightarrow> nat \<Rightarrow> byte list \<Rightarrow> byte list option" where
  "lzs_decomp dst n z = (case lzs_decompress (take n dst) z of Inl _ \<Rightarrow> None | Inr (d, k) \<Rightarrow> Some (take k d))"

interpretation lzs: codec "lzs_comp chain" "lzs_decomp dst" "length dst" for chain dst
proof
  fix room p z
  assume "lzs_comp chain room p = Some z" and len: "length p \<le> length dst"
  then have "lzs_compress chain room p = Inr z" by (auto simp: lzs_comp_def split: sum.splits)
  then obtain d where "lzs_decompress dst z = Inr (d, length p)" "take (length p) d = p"
    using lzs_inverse len by blast
  then show "lzs_decomp dst (length dst) z = Some p" by (simp add: lzs_decomp_def)
qed

section \<open>From one end to the other\<close>

lemma tun_mainloop_tls:
  assumes "length pkt \<le> unat (wk_conn_mtu ws)" and "pkt \<noteq> []" and "wk_udp_state ws \<noteq> UP_ACTIVE"
    and "tun_payloads cfg env ws pkt = (dt, ct)"
    and "fst (bandwidth_update (wk_b_tx ws) (word_of_nat (length (snd dt))) tnow)"
    and "\<And>ws1 bs. 0 \<le> ne_cstp env ws1 bs"
  shows "\<exists>ws'. tun_mainloop cfg env ws tnow (Tun_data pkt) = Inr (0, ws')
    \<and> wk_out ws' = wk_out ws @ [To_client (cstp_frame ct)]"
proof -
  obtain b where b: "bandwidth_update (wk_b_tx ws) (word_of_nat (length (snd dt))) tnow = (True, b)"
    using assms(5) by (cases "bandwidth_update (wk_b_tx ws) (word_of_nat (length (snd dt))) tnow") auto
  have "\<not> ne_cstp env ws1 bs < 0" for ws1 bs using assms(6) [of ws1 bs] by simp
  then have send: "tun_send_tls cfg env ws1 ct
      = Inr ((), wout (To_client (cstp_frame ct)) (add_bytes_out (length (snd ct)) ws1))" for ws1
    by (simp add: tun_send_tls_def do_cstp_def cstp_fatal_def Let_def)
  have "take (unat (wk_conn_mtu ws)) pkt = pkt" using assms(1) by simp
  then have "tun_mainloop cfg env ws tnow (Tun_data pkt)
      = wbind (tun_send_tls cfg env (ws\<lparr>wk_b_tx := b\<rparr>) ct)
          (\<lambda>_ ws3. Inr (0, ws3\<lparr>wk_last_nc_msg := tv_sec tnow\<rparr>))"
    using assms(2,3) by (simp add: tun_mainloop_def assms(4) b Let_def)
  then show ?thesis unfolding send by (simp add: wout_def add_bytes_out_def)
qed

text \<open>
  C9: a packet comes out as it went in. When the tun device of one end gives a packet that fits
  the MTU, the rate allows it and it goes over TLS, then one frame is sent, and the other end,
  which negotiated the same compression, makes of that frame exactly one write of the same bytes
  to its own tun device: whether or not LZS compressed it, with whatever the buffer of the
  decompressor and the memory of the compressor held before.
\<close>

theorem tunnel_roundtrip:
  assumes "length pkt \<le> unat (wk_conn_mtu ws)" and "pkt \<noteq> []" and "wk_conn_mtu ws \<le> 16384"
    and "wk_udp_state ws \<noteq> UP_ACTIVE"
    and "wk_cstp_comp ws = None \<or> wk_cstp_comp ws = Some OC_COMP_LZS"
    and "ne_compress env OC_COMP_LZS = lzs_comp chain" and "\<And>ws1 bs. 0 \<le> ne_cstp env ws1 bs"
    and "\<And>n. fst (bandwidth_update (wk_b_tx ws) n tnow)"
    and "ne_decompress env' OC_COMP_LZS = lzs_decomp dst" and "length dst = WS_BUFFER_SIZE"
    and "ne_tun_write env' pkt" and "wk_cstp_comp peer = wk_cstp_comp ws"
  shows "\<exists>ws' frame ret peer'. tun_mainloop cfg env ws tnow (Tun_data pkt) = Inr (0, ws')
    \<and> wk_out ws' = wk_out ws @ [To_client frame]
    \<and> parse_cstp_data cfg' env' peer frame now = Inr (ret, peer') \<and> 0 \<le> ret
    \<and> wk_out peer' = wk_out peer @ [To_tun pkt]"
proof -
  obtain dt ct where p: "tun_payloads cfg env ws pkt = (dt, ct)" by (cases "tun_payloads cfg env ws pkt")
  have len: "length pkt \<le> 16384" using assms(1,3) by (simp add: word_le_nat_alt)
  then have short: "length (snd ct) < 65536" using tun_payloads_shorter [OF p] by simp
  have form: "ct = (AC_PKT_DATA, pkt) \<or> (\<exists>z. wk_cstp_comp ws = Some OC_COMP_LZS
      \<and> try_compress env OC_COMP_LZS pkt = Some z \<and> ct = (AC_PKT_COMPRESSED, z))"
    using tun_payloads_cases(1) [OF p] assms(5) by auto
  have "parse_data cfg' env' peer True (fst ct) (snd ct) now
      = write_tun env' peer (fst ct) pkt (length (snd ct)) now"
    using lzs.payload_written [OF form assms(2) _ assms(10,6,9)] len assms(10,12)
    by (simp add: WS_BUFFER_SIZE_def)
  then show ?thesis
    using tun_mainloop_tls [OF assms(1,2,4) p assms(8,7)] assms(11) parse_cstp_frame [OF short, of cfg' env' peer "fst ct" now]
    by (auto simp: write_tun_def wout_def)
qed

definition example_lzs_env :: net_env where
  "example_lzs_env = example_env
     \<lparr>ne_compress := (\<lambda>m n p. if m = OC_COMP_LZS then lzs_comp (\<lambda>_. 0) n p else None),
      ne_decompress := (\<lambda>m n z. if m = OC_COMP_LZS then lzs_decomp (replicate WS_BUFFER_SIZE 0) n z else None)\<rparr>"

lemmas example_tunnel = example_env_def example_lzs_env_def example_worker_cfg_def example_worker_def

theorem tunnel_roundtrip_witness:
  "\<exists>ws' frame ret peer'. tun_mainloop example_worker_cfg example_lzs_env example_worker
      \<lparr>tv_sec = 100, tv_nsec = 0\<rparr> (Tun_data [7, 7, 7]) = Inr (0, ws')
    \<and> wk_out ws' = [To_client frame]
    \<and> parse_cstp_data example_worker_cfg example_lzs_env example_worker frame 100 = Inr (ret, peer') \<and> 0 \<le> ret
    \<and> wk_out peer' = [To_tun [7, 7, 7]]"
  using tunnel_roundtrip [of "[7, 7, 7]" example_worker example_lzs_env "\<lambda>_. 0" "\<lparr>tv_sec = 100, tv_nsec = 0\<rparr>"
      example_lzs_env "replicate WS_BUFFER_SIZE 0" example_worker example_worker_cfg example_worker_cfg 100]
  by (simp add: example_tunnel bandwidth_update_def bandwidth_init_def fun_eq_iff)

text \<open>The socket for DTLS comes with a hello, the session is set up, its handshake ends.\<close>

definition example_dtls_start :: "(net_env \<times> round_in) list" where
  "example_dtls_start =
     [(example_env, example_round\<lparr>ri_cmd_ready := True, ri_cmd := Cmd_bytes [10, 2, 0, 65, 66] (Ctl_fd 7)\<rparr>),
      (example_env, example_round\<lparr>ri_dtls_ready := True\<rparr>),
      (example_env, example_round\<lparr>ri_dtls_ready := True, ri_dtls_hs := [0]\<rparr>)]"

definition example_tunnel_rounds :: "(net_env \<times> round_in) list" where
  "example_tunnel_rounds = example_dtls_start @
     [(example_env, example_round\<lparr>ri_tun_ready := True, ri_tun := Tun_data [1, 2, 3]\<rparr>),
      (example_env, example_round\<lparr>ri_tls_ready := True, ri_tls := Rx [0x53, 0x54, 0x46, 1, 0, 1, 0, 0, 9]\<rparr>)]"

section \<open>Every run\<close>

text \<open>
  C10: what a worker's tunnel sends. From the start of its main loop, in whatever order packets,
  commands and time come and whatever the other side sends: the MTU stays within M, the larger of
  the MTU the tunnel starts with and MIN_MTU (1281 with an IPv6 lease, otherwise 257: mtu_not_ok
  raises a smaller MTU to it); every record for the TLS channel is a frame whose payload is no
  longer than M, every DTLS record is a type byte and at most M bytes, every MTU reported to the
  main process is at most M; and every report of ban points carries none. The start: no record
  sent yet, no DTLS session and a UDP channel that needs none, no bad MTU beyond M, and M below
  2^31.
\<close>

theorem tunnel_sends_wellformed:
  assumes "wk_out ws = []" and "wk_dtls_session ws = No_dtls" and "\<not> needs_dtls (wk_udp_state ws)"
    and "M = max (wk_conn_mtu ws) (MIN_MTU ws)" and "wk_last_bad_mtu ws \<le> M" and "M < 2 ^ 31"
    and "worker_run cfg overhead ws rs = Inr ((), ws') \<or> worker_run cfg overhead ws rs = Inl (Exited ws')"
  shows "wk_conn_mtu ws' \<le> M \<and> (\<forall>m \<in> set (wk_out ws'). out_ok M m)"
proof -
  have "worker_ok M False ws" using assms(1-6) by (auto simp: worker_ok_def mtu_bound_def MIN_MTU_def)
  then have "wres_all (worker_ok M False) (worker_run cfg overhead ws rs)" by (rule worker_run_ok)
  then show ?thesis using assms(7) by (auto simp: worker_ok_def)
qed

lemma example_run_returns:
  "case worker_run example_worker_cfg 0 example_worker example_tunnel_rounds of Inl _ \<Rightarrow> False | Inr _ \<Rightarrow> True"
  by code_simp

lemma example_run_ends: "worker_run example_worker_cfg 0 example_worker example_tunnel_rounds
    = Inr ((), run_end (worker_run example_worker_cfg 0 example_worker example_tunnel_rounds))"
  using example_run_returns by (rule run_end_returns)

lemma example_worker_starts:
  "wk_out example_worker = []" "wk_dtls_session example_worker = No_dtls"
  "\<not> needs_dtls (wk_udp_state example_worker)" "wk_conn_mtu example_worker \<le> 1400"
  "wk_last_bad_mtu example_worker \<le> 1400" "mtu_bound (wk_ipv6 example_worker) 1400"
  by (simp_all add: example_worker_def mtu_bound_def)

lemma example_mtu: "1400 = max (wk_conn_mtu example_worker) (MIN_MTU example_worker)" "(1400 :: u32) < 2 ^ 31"
  by (simp_all add: example_worker_def MIN_MTU_def)

theorem tunnel_sends_wellformed_witness:
  "wk_conn_mtu (run_end (worker_run example_worker_cfg 0 example_worker example_tunnel_rounds)) \<le> 1400
    \<and> list_all (out_ok 1400)
        (wk_out (run_end (worker_run example_worker_cfg 0 example_worker example_tunnel_rounds)))"
  using tunnel_sends_wellformed [OF example_worker_starts(1-3) example_mtu(1) example_worker_starts(5)
    example_mtu(2) disjI1 [OF example_run_ends]]
  unfolding list_all_iff .

text \<open>
  C24: a DTLS session is there when it is used. No sequence of events makes the worker hand a
  NULL session to GnuTLS: the states of the UDP channel in which it receives, sends, goes on with
  a handshake or closes are only reached after a session was set up.
\<close>

theorem dtls_session_exists:
  assumes "wk_out ws = []" and "wk_dtls_session ws = No_dtls" and "\<not> needs_dtls (wk_udp_state ws)"
    and "wk_conn_mtu ws \<le> M" and "wk_last_bad_mtu ws \<le> M" and "mtu_bound (wk_ipv6 ws) M"
  shows "worker_run cfg overhead ws rs \<noteq> Inl Null_session"
proof -
  have "worker_ok M False ws" using assms by (simp add: worker_ok_def)
  from worker_run_ok [OF this, of cfg overhead rs] show ?thesis by auto
qed

theorem dtls_session_exists_witness:
  "worker_run example_worker_cfg 0 example_worker example_tunnel_rounds \<noteq> Inl Null_session"
  by (rule dtls_session_exists [OF example_worker_starts])

end
