(* ===== verification/Mtu.thy ===== *)
theory Mtu
  imports WorkerExample
begin

text \<open>
  The discovery of the MTU of a worker's DTLS channel (mtu_not_ok, mtu_ok and their callers):
  where it ends, and what happens when it arrives at the smallest MTU.
\<close>

section \<open>Packets of full size\<close>

text \<open>A path that carries \<open>P\<close> bytes of data behind the type byte and rejects more.\<close>

definition path_carries :: "net_env \<Rightarrow> nat \<Rightarrow> bool" where
  "path_carries env P \<longleftrightarrow> \<not> ne_fatal env GNUTLS_E_LARGE_PACKET
     \<and> (\<forall>ws bs. ne_dtls env ws bs = (if length bs \<le> P + 1 then int (length bs) else GNUTLS_E_LARGE_PACKET))"

definition full_packet :: "worker_cfg \<Rightarrow> net_env \<Rightarrow> worker \<Rightarrow> bool wres" where
  "full_packet cfg env ws = tun_send_dtls cfg env ws (AC_PKT_DATA, replicate (unat (wk_conn_mtu ws)) 0)"

fun full_packets :: "worker_cfg \<Rightarrow> net_env \<Rightarrow> nat \<Rightarrow> worker \<Rightarrow> unit wres" where
  "full_packets cfg env 0 ws = Inr ((), ws)"
| "full_packets cfg env (Suc n) ws = wbind (full_packet cfg env ws) (\<lambda>_ ws1. full_packets cfg env n ws1)"

text \<open>The three numbers of the discovery.\<close>

definition mtus :: "worker \<Rightarrow> nat \<times> nat \<times> nat" where
  "mtus ws = (unat (wk_last_good_mtu ws), unat (wk_conn_mtu ws), unat (wk_last_bad_mtu ws))"

definition min_mtu :: "worker \<Rightarrow> nat" where "min_mtu ws = unat (MIN_MTU ws)"

text \<open>What stays: the session, and which address family there is.\<close>

definition discovering :: "bool \<Rightarrow> worker \<Rightarrow> bool" where
  "discovering ip6 ws \<longleftrightarrow> wk_dtls_session ws = Dtls_open \<and> wk_ipv6 ws = ip6"

lemma min_mtu_value: "min_mtu ws = (if wk_ipv6 ws then 1281 else 257)"
  by (simp add: min_mtu_def MIN_MTU_def)

text \<open>A packet that is too large.\<close>

lemma full_packet_rejected:
  assumes "discovering ip6 ws" and "path_carries env P" and "P < c" and "mtus ws = (g, c, b)"
  shows "full_packet cfg env ws
    = wbind (mtu_not_ok (add_bytes_out c ws)) (\<lambda>_ ws2. Inr (True, ws2))"
proof -
  have c: "c = unat (wk_conn_mtu ws)" using assms(4) by (simp add: mtus_def)
  show ?thesis
    using assms(1-3)
    by (simp add: full_packet_def tun_send_dtls_def do_dtls_def with_dtls_def discovering_def path_carries_def
        add_bytes_out_def Let_def dtls_fatal_def c GNUTLS_E_LARGE_PACKET_def)
qed

lemma full_packet_carried:
  assumes "discovering ip6 ws" and "path_carries env P" and "c \<le> P" and "mtus ws = (g, c, b)"
    and "vc_try_mtu cfg" and "c < 2 ^ 31"
  shows "\<exists>ws1. full_packet cfg env ws = wbind (mtu_ok ws1) (\<lambda>_ ws2. Inr (False, ws2))
    \<and> discovering ip6 ws1 \<and> mtus ws1 = mtus ws"
proof -
  have c: "unat (wk_conn_mtu ws) = c" using assms(4) by (simp add: mtus_def)
  have "(word_of_int (int (c + 1)) :: u32) = word_of_nat (c + 1)" by (rule of_int_of_nat_eq)
  then have "unat (word_of_int (int (c + 1)) :: u32) = c + 1"
    using assms(6) by (simp only: unat_of_nat) (simp add: take_bit_eq_mod)
  then have le: "wk_conn_mtu ws \<le> word_of_int (int (c + 1))" by (simp only: word_le_nat_alt c)
  let ?ws1 = "wout (To_client_dtls (AC_PKT_DATA # replicate c 0)) (add_bytes_out c ws)"
  have same: "wk_conn_mtu ?ws1 = wk_conn_mtu ws" by (simp add: add_bytes_out_def wout_def)
  have "do_dtls env (add_bytes_out c ws) (AC_PKT_DATA # replicate c 0) = Inr (int (c + 1), ?ws1)"
    using assms(1-3) by (simp add: do_dtls_def with_dtls_def discovering_def path_carries_def add_bytes_out_def)
  moreover have "\<not> dtls_fatal env (int (c + 1))" "int (c + 1) \<noteq> GNUTLS_E_LARGE_PACKET"
    by (simp_all add: dtls_fatal_def GNUTLS_E_LARGE_PACKET_def)
  ultimately have "full_packet cfg env ws = wbind (mtu_ok ?ws1) (\<lambda>_ ws2. Inr (False, ws2))"
    using assms(5) le by (simp only: full_packet_def tun_send_dtls_def c fst_conv snd_conv length_replicate
      wbind_simps same simp_thms if_True if_False)
  moreover have "discovering ip6 ?ws1" "mtus ?ws1 = mtus ws"
    using assms(1) by (simp_all add: discovering_def mtus_def wout_def add_bytes_out_def)
  ultimately show ?thesis by blast
qed

lemma smaller_value: "c < 2 ^ 31 \<Longrightarrow> unat m = c \<Longrightarrow> unat (2 * m div 3) = 2 * c div 3" for m :: u32
  by (simp add: unat_div unat_word_ariths)

lemma max_value: "unat (max a b) = max (unat a) (unat b)" for a b :: u32
  by (simp add: max_def word_le_nat_alt)

text \<open>One step of the discovery, over the numbers.\<close>

lemma mtu_not_ok_value:
  assumes "discovering ip6 ws" and "mtus ws = (g, c, b)" and "c < 2 ^ 31" and "g \<noteq> min_mtu ws"
  shows "\<exists>ws'. mtu_not_ok ws = Inr (0, ws') \<and> discovering ip6 ws'
    \<and> (let g' = (if c \<le> g then max (2 * c div 3) (min_mtu ws) else g) in mtus ws' = (g', g', c))"
proof -
  have n: "unat (wk_last_good_mtu ws) = g" "unat (wk_conn_mtu ws) = c" using assms(2) by (simp_all add: mtus_def)
  have "wk_last_good_mtu ws \<noteq> MIN_MTU ws" using assms(4) n by (auto simp: min_mtu_def)
  moreover have "wk_conn_mtu ws \<le> wk_last_good_mtu ws \<longleftrightarrow> c \<le> g" by (simp add: word_le_nat_alt n)
  ultimately have "mtu_not_ok ws = Inr (0,
      let g' = (if c \<le> g then max (2 * wk_conn_mtu ws div 3) (MIN_MTU ws) else wk_last_good_mtu ws)
      in wout (To_main_mtu g') (ws\<lparr>wk_last_bad_mtu := wk_conn_mtu ws, wk_last_good_mtu := g', wk_conn_mtu := g'\<rparr>))"
    using assms(1) by (simp add: mtu_not_ok_def Let_def mtu_set_def mtu_send_def discovering_def)
  moreover have "unat (max (2 * wk_conn_mtu ws div 3) (MIN_MTU ws)) = max (2 * c div 3) (min_mtu ws)"
    using smaller_value [OF assms(3) n(2)] by (simp add: max_value min_mtu_def)
  ultimately show ?thesis
    using assms(1) n by (simp add: discovering_def mtus_def wout_def Let_def)
qed

lemma mtu_ok_value:
  assumes "discovering ip6 ws" and "mtus ws = (g, c, b)" and "c + b < 2 ^ 32" and "c < 2 ^ 31"
  shows "\<exists>ws'. mtu_ok ws = Inr ((), ws') \<and> discovering ip6 ws'
    \<and> mtus ws' = (if b = c + 1 \<or> b = c then (g, c, b) else (c, (c + b) div 2, b))"
proof -
  have n: "c = unat (wk_conn_mtu ws)" "b = unat (wk_last_bad_mtu ws)" using assms(2) by (simp_all add: mtus_def)
  have add: "unat (wk_conn_mtu ws + wk_last_bad_mtu ws) = c + b"
    using assms(3) by (simp add: n unat_word_ariths)
  have "unat (wk_conn_mtu ws + 1) = c + 1" using assms(4) by (simp add: n unat_word_ariths)
  then have succ: "wk_last_bad_mtu ws = wk_conn_mtu ws + 1 \<longleftrightarrow> b = c + 1"
    by (simp add: n word_unat_eq_iff)
  have same: "wk_last_bad_mtu ws = wk_conn_mtu ws \<longleftrightarrow> b = c" by (simp add: n word_unat_eq_iff)
  show ?thesis
    using assms(1,2) unfolding mtu_ok_def succ same
    by (auto simp: mtu_set_def mtu_send_def discovering_def mtus_def wout_def unat_div add)
qed

section \<open>Where the discovery ends\<close>

text \<open>One packet of full size, over the last good MTU, the MTU and the last bad one.\<close>

fun next_mtus :: "nat \<Rightarrow> nat \<Rightarrow> nat \<times> nat \<times> nat \<Rightarrow> nat \<times> nat \<times> nat" where
  "next_mtus mn P (g, c, b) =
     (if c \<le> P then (if b = c + 1 \<or> b = c then (g, c, b) else (c, (c + b) div 2, b))
      else let g' = (if c \<le> g then max (2 * c div 3) mn else g) in (g', g', c))"

lemma full_packet_step:
  assumes "discovering ip6 ws" and "path_carries env P" and "vc_try_mtu cfg" and "mtus ws = (g, c, b)"
    and "c < 2 ^ 31" and "b < 2 ^ 31" and "P < c \<longrightarrow> g \<noteq> min_mtu ws"
  shows "\<exists>x ws'. full_packet cfg env ws = Inr (x, ws') \<and> discovering ip6 ws'
    \<and> mtus ws' = next_mtus (min_mtu ws) P (g, c, b)"
proof (cases "c \<le> P")
  case True
  obtain ws1 where ws1: "full_packet cfg env ws = wbind (mtu_ok ws1) (\<lambda>_ ws2. Inr (False, ws2))"
    "discovering ip6 ws1" "mtus ws1 = (g, c, b)"
    using full_packet_carried [OF assms(1,2) True assms(4,3,5)] assms(4) by auto
  show ?thesis
    using mtu_ok_value [OF ws1(2,3)] assms(5,6) True ws1(1) by (auto simp: Let_def)
next
  case False
  have "discovering ip6 (add_bytes_out c ws)" "mtus (add_bytes_out c ws) = (g, c, b)"
    "min_mtu (add_bytes_out c ws) = min_mtu ws"
    using assms(1,4) by (simp_all add: discovering_def mtus_def min_mtu_value add_bytes_out_def)
  then show ?thesis
    using mtu_not_ok_value [of ip6 "add_bytes_out c ws" g c b] assms(5,7) False
      full_packet_rejected [OF assms(1,2) _ assms(4)] by (auto simp: Let_def)
qed

text \<open>
  Before a packet got through the MTU is the last good one and too large; afterwards the last
  good and the last bad enclose what the path carries.
\<close>

definition searching :: "nat \<Rightarrow> nat \<Rightarrow> nat \<Rightarrow> nat \<times> nat \<times> nat \<Rightarrow> bool" where
  "searching mn P M s = (case s of (g, c, b) \<Rightarrow>
     b \<le> M \<and> (g = c \<and> P < c \<and> c \<le> b \<or> g \<le> c \<and> c < b \<and> g \<le> P \<and> P < b \<and> mn < g))"

definition distance :: "nat \<Rightarrow> nat \<Rightarrow> nat \<times> nat \<times> nat \<Rightarrow> nat" where
  "distance P M s = (case s of (g, c, b) \<Rightarrow>
     if P < g then 2 * M + 1 + c else 2 * (b - g) + (if c = g then 1 else 0))"

definition settled :: "nat \<Rightarrow> nat \<times> nat \<times> nat \<Rightarrow> bool" where
  "settled P s = (case s of (g, c, b) \<Rightarrow> c = P \<and> b = P + 1)"

lemma half_between: "c + 2 \<le> b \<Longrightarrow> c < (c + b) div 2 \<and> (c + b) div 2 < b" for b c :: nat
  by (simp add: Suc_le_eq [symmetric] less_eq_div_iff_mult_less_eq div_less_iff_less_mult)

lemma below_half: "P < (m + M) div 2 \<Longrightarrow> m \<le> P \<Longrightarrow> M \<noteq> m + 1 \<and> M \<noteq> m" for P m M :: nat
  by (simp add: Suc_le_eq [symmetric] less_eq_div_iff_mult_less_eq)

lemma settled_next: "settled P s \<Longrightarrow> next_mtus mn P s = s"
  by (cases s) (auto simp: settled_def)

lemma searching_next:
  assumes "searching mn P M s" and "3 * (mn + 1) \<le> 2 * (P + 1)" and "\<not> settled P s"
  shows "searching mn P M (next_mtus mn P s) \<and> distance P M (next_mtus mn P s) < distance P M s"
proof (cases s)
  case (fields g c b)
  consider (high) "g = c" "P < c" "c \<le> b" "b \<le> M"
    | (between) "g \<le> c" "c < b" "g \<le> P" "P < b" "mn < g" "b \<le> M"
    using assms(1) by (auto simp: fields searching_def)
  then show ?thesis
  proof cases
    case high
    then have "mn < 2 * c div 3" "2 * c div 3 < c"
      using assms(2) by (simp_all add: Suc_le_eq [symmetric] less_eq_div_iff_mult_less_eq div_less_iff_less_mult)
    then show ?thesis using high by (auto simp: fields searching_def distance_def Let_def max_def)
  next
    case between
    show ?thesis
    proof (cases "c \<le> P")
      case True
      then have "b \<noteq> c + 1" using between assms(3) by (auto simp: fields settled_def)
      then have "c < (c + b) div 2" "(c + b) div 2 < b" using half_between [of c b] between by simp_all
      then show ?thesis using between True by (auto simp: fields searching_def distance_def)
    next
      case False
      then show ?thesis using between by (auto simp: fields searching_def distance_def Let_def)
    qed
  qed
qed

lemma search_settles:
  assumes "searching mn P M (mtus ws)" and "distance P M (mtus ws) \<le> n \<or> settled P (mtus ws)"
    and "discovering ip6 ws" and "path_carries env P" and "vc_try_mtu cfg"
    and "3 * (mn + 1) \<le> 2 * (P + 1)" and "M < 2 ^ 31" and "mn = (if ip6 then 1281 else 257)"
  shows "\<exists>ws'. full_packets cfg env n ws = Inr ((), ws') \<and> settled P (mtus ws')"
  using assms(1-3)
proof (induction n arbitrary: ws)
  case 0
  obtain g c b where s: "mtus ws = (g, c, b)" by (rule prod_cases3)
  have "0 < distance P M (mtus ws)" using 0(1) by (auto simp: s searching_def distance_def)
  then show ?case using 0(2) by simp
next
  case (Suc n)
  obtain g c b where s: "mtus ws = (g, c, b)" by (rule prod_cases3)
  have bounds: "c < 2 ^ 31" "b < 2 ^ 31" "P < c \<longrightarrow> g \<noteq> min_mtu ws"
    using Suc.prems(1,3) assms(6-8) by (auto simp: s searching_def min_mtu_value discovering_def)
  have mn: "min_mtu ws = mn" using Suc.prems(3) assms(8) by (simp add: min_mtu_value discovering_def)
  obtain x ws1 where ws1: "full_packet cfg env ws = Inr (x, ws1)" "discovering ip6 ws1"
    "mtus ws1 = next_mtus mn P (mtus ws)"
    using full_packet_step [OF Suc.prems(3) assms(4,5) s bounds] by (auto simp: s mn)
  have "searching mn P M (mtus ws1) \<and> (distance P M (mtus ws1) \<le> n \<or> settled P (mtus ws1))"
  proof (cases "settled P (mtus ws)")
    case True
    then show ?thesis using ws1(3) settled_next [OF True] Suc.prems(1) by simp
  next
    case False
    then show ?thesis using ws1(3) searching_next [OF Suc.prems(1) assms(6) False] Suc.prems(2) by auto
  qed
  then show ?case using Suc.IH [of ws1] ws1 by simp
qed

text \<open>
  C11: the discovery of the MTU ends at the right one, on a path that is wide enough. With try-mtu
  set and an open DTLS session whose MTU is the initial one \<open>M\<close> (below 2^31), on a path that carries
  exactly the packets of at most \<open>P\<close> bytes, where \<open>P\<close> is less than \<open>M\<close> and about half as large again as the
  smallest MTU (three times that one plus one is at most twice \<open>P + 1\<close>): when only packets of full
  size are sent, then after any number of them greater than \<open>3 * M\<close> the MTU is exactly \<open>P\<close>. On
  narrower paths this fails, see smallest_mtu_disables_dtls.
\<close>

theorem mtu_discovery_converges:
  assumes "wk_dtls_session ws = Dtls_open" and "mtus ws = (M, M, M)" and "M < 2 ^ 31" and "P < M"
    and "path_carries env P" and "vc_try_mtu cfg" and "3 * (min_mtu ws + 1) \<le> 2 * (P + 1)"
    and "3 * M < n"
  shows "\<exists>ws'. full_packets cfg env n ws = Inr ((), ws') \<and> unat (wk_conn_mtu ws') = P"
proof -
  have "searching (min_mtu ws) P M (mtus ws)" "distance P M (mtus ws) \<le> n"
    using assms(2,4,8) by (simp_all add: searching_def distance_def)
  moreover have "discovering (wk_ipv6 ws) ws" using assms(1) by (simp add: discovering_def)
  ultimately obtain ws' where "full_packets cfg env n ws = Inr ((), ws')" "settled P (mtus ws')"
    using search_settles [of "min_mtu ws" P M ws n "wk_ipv6 ws" env cfg] assms(3,5-7)
    by (auto simp: min_mtu_value [of ws])
  then show ?thesis by (auto simp: settled_def mtus_def)
qed

definition narrow_env :: "nat \<Rightarrow> net_env" where
  "narrow_env P = example_env\<lparr>ne_dtls := (\<lambda>_ bs. if length bs \<le> P + 1 then int (length bs) else GNUTLS_E_LARGE_PACKET)\<rparr>"

definition dtls_worker :: "bool \<Rightarrow> worker" where
  "dtls_worker ip6 = example_worker\<lparr>wk_dtls_session := Dtls_open, wk_udp_state := UP_ACTIVE, wk_ipv6 := ip6,
     wk_last_good_mtu := 1400, wk_last_bad_mtu := 1400\<rparr>"

lemmas narrow_defs = narrow_env_def dtls_worker_def example_env_def example_worker_def example_worker_cfg_def

theorem mtu_discovery_converges_witness:
  "\<exists>ws'. full_packets example_worker_cfg (narrow_env 900) 4201 (dtls_worker False) = Inr ((), ws')
    \<and> unat (wk_conn_mtu ws') = 900"
  by (rule mtu_discovery_converges [where M = 1400])
     (simp_all add: narrow_defs mtus_def path_carries_def min_mtu_value)

text \<open>
  DTLS is given up although it works. When two thirds of the initial MTU are below the
  smallest one, as for every IPv6 client with an MTU of at most 1922, and the path carries the
  smallest MTU but less than the middle between it and the initial one, then the third packet of
  full size closes the session: mtu_not_ok takes a last good MTU that is the smallest one for a
  sign that even this was too large.
\<close>

theorem smallest_mtu_disables_dtls:
  assumes "wk_dtls_session ws = Dtls_open" and "mtus ws = (M, M, M)" and "M < 2 ^ 31"
    and "path_carries env P" and "vc_try_mtu cfg" and "2 * M div 3 \<le> min_mtu ws"
    and "min_mtu ws \<le> P" and "P < M" and "P < (min_mtu ws + M) div 2"
  shows "\<exists>ws'. full_packets cfg env 3 ws = Inr ((), ws')
    \<and> wk_udp_state ws' = UP_DISABLED \<and> wk_dtls_session ws' = Dtls_freed"
proof -
  let ?mn = "min_mtu ws"
  have d: "discovering (wk_ipv6 ws) ws" using assms(1) by (simp add: discovering_def)
  obtain x1 ws1 where ws1: "full_packet cfg env ws = Inr (x1, ws1)" "discovering (wk_ipv6 ws) ws1"
    "mtus ws1 = (?mn, ?mn, M)"
    using full_packet_step [OF d assms(4,5,2)] assms(3,6-8) by (auto simp: max_def Let_def)
  have mn1: "min_mtu ws1 = ?mn" using ws1(2) by (simp add: min_mtu_value discovering_def)
  have "M \<noteq> ?mn + 1" "M \<noteq> ?mn" using below_half [OF assms(9,7)] by simp_all
  then obtain x2 ws2 where ws2: "full_packet cfg env ws1 = Inr (x2, ws2)" "discovering (wk_ipv6 ws) ws2"
    "mtus ws2 = (?mn, (?mn + M) div 2, M)"
    using full_packet_step [OF ws1(2) assms(4,5) ws1(3)] assms(3,7,8) by auto
  have mn2: "min_mtu ws2 = ?mn" using ws2(2) by (simp add: min_mtu_value discovering_def)
  let ?a = "add_bytes_out ((?mn + M) div 2) ws2"
  have "wk_last_good_mtu ws2 = MIN_MTU ws2"
    using ws2(3) mn2 by (simp add: mtus_def min_mtu_def word_unat_eq_iff)
  then have "wk_last_good_mtu ?a = MIN_MTU ?a" "wk_dtls_session ?a = Dtls_open"
    using ws2(2) by (simp_all add: add_bytes_out_def MIN_MTU_def discovering_def)
  then have "mtu_not_ok ?a = Inr (-1, (wout Dtls_bye (?a\<lparr>wk_last_bad_mtu := wk_conn_mtu ?a, wk_dtls_session := Dtls_freed\<rparr>))
      \<lparr>wk_udp_state := UP_DISABLED\<rparr>)"
    by (simp add: mtu_not_ok_def Let_def dtls_close_def with_dtls_def MIN_MTU_def)
  then show ?thesis
    using ws1(1) ws2(1) full_packet_rejected [OF ws2(2) assms(4,9) ws2(3)]
    by (simp add: numeral_3_eq_3 wout_def)
qed

theorem smallest_mtu_disables_dtls_witness:
  "\<exists>ws'. full_packets example_worker_cfg (narrow_env 1300) 3 (dtls_worker True) = Inr ((), ws')
    \<and> wk_udp_state ws' = UP_DISABLED \<and> wk_dtls_session ws' = Dtls_freed"
  by (rule smallest_mtu_disables_dtls [where M = 1400 and P = 1300])
     (simp_all add: narrow_defs mtus_def path_carries_def min_mtu_value)

section \<open>The handshake\<close>

text \<open>A handshake message that is too large when the MTU is not above the last good one.\<close>

lemma mtu_not_ok_shrinks:
  assumes "wk_dtls_session ws = Dtls_open" and "wk_last_good_mtu ws \<noteq> MIN_MTU ws"
    and "wk_conn_mtu ws \<le> wk_last_good_mtu ws"
  shows "\<exists>ws'. mtu_not_ok ws = Inr (0, ws') \<and> wk_dtls_session ws' = Dtls_open
    \<and> wk_last_good_mtu ws' = max (2 * wk_conn_mtu ws div 3) (MIN_MTU ws)
    \<and> wk_conn_mtu ws' = wk_last_good_mtu ws' \<and> MIN_MTU ws' = MIN_MTU ws"
  using assms by (simp add: mtu_not_ok_def Let_def mtu_set_def mtu_send_def wout_def MIN_MTU_def)

lemma mtu_not_ok_closes:
  assumes "wk_dtls_session ws = Dtls_open" and "wk_last_good_mtu ws = MIN_MTU ws"
  shows "\<exists>ws'. mtu_not_ok ws = Inr (-1, ws') \<and> wk_dtls_session ws' = Dtls_freed"
  using assms by (simp add: mtu_not_ok_def Let_def dtls_close_def with_dtls_def wout_def MIN_MTU_def)

lemma handshake_freed: "wk_dtls_session ws = Dtls_freed \<Longrightarrow> dtls_handshake env ws hs = Inl Freed_session"
  by (cases hs) (simp_all add: with_dtls_def)

text \<open>
  The handshake uses a session that was released. When GnuTLS keeps reporting that a message
  of the DTLS handshake is too large, every answer makes the MTU smaller until it is the
  smallest one; the next answer releases the session and the loop calls gnutls_handshake with it
  again, after at most as many answers as the MTU has bytes and three more.
\<close>

theorem handshake_use_after_free:
  assumes "wk_dtls_session ws = Dtls_open" and "wk_conn_mtu ws \<le> wk_last_good_mtu ws"
    and "wk_conn_mtu ws < 2 ^ 31" and "\<not> ne_fatal env GNUTLS_E_LARGE_PACKET"
    and "unat (wk_conn_mtu ws) + 3 \<le> n"
  shows "dtls_handshake env ws (replicate n GNUTLS_E_LARGE_PACKET) = Inl Freed_session"
  using assms(1-3,5)
proof (induction n arbitrary: ws)
  case (Suc n)
  have step: "dtls_handshake env v (replicate (Suc m) GNUTLS_E_LARGE_PACKET)
      = wbind (mtu_not_ok v) (\<lambda>_ ws1. dtls_handshake env ws1 (replicate m GNUTLS_E_LARGE_PACKET))"
    if "wk_dtls_session v = Dtls_open" for v m
    using that assms(4) by (simp add: with_dtls_def)
  have close: "dtls_handshake env v (replicate (Suc m) GNUTLS_E_LARGE_PACKET) = Inl Freed_session"
    if v: "wk_dtls_session v = Dtls_open" "wk_last_good_mtu v = MIN_MTU v" for v m
    using mtu_not_ok_closes [OF v] handshake_freed unfolding step [OF v(1)] by auto
  show ?case
  proof (cases "wk_last_good_mtu ws = MIN_MTU ws")
    case True
    then show ?thesis using Suc.prems(1) by (intro close)
  next
    case False
    then obtain v where v: "mtu_not_ok ws = Inr (0, v)" "wk_dtls_session v = Dtls_open"
      "wk_last_good_mtu v = max (2 * wk_conn_mtu ws div 3) (MIN_MTU ws)"
      "wk_conn_mtu v = wk_last_good_mtu v" "MIN_MTU v = MIN_MTU ws"
      using mtu_not_ok_shrinks [OF Suc.prems(1) False Suc.prems(2)] by blast
    show ?thesis
    proof (cases "wk_last_good_mtu v = MIN_MTU v")
      case True
      obtain m where "n = Suc m" using Suc.prems(4) by (cases n) auto
      then show ?thesis using close [OF v(2) True] v(1) unfolding step [OF Suc.prems(1)] by simp
    next
      case high: False
      have c: "unat (wk_conn_mtu ws) < 2 ^ 31" using Suc.prems(3) by (simp add: word_less_nat_alt)
      have g: "wk_conn_mtu v = 2 * wk_conn_mtu ws div 3" using v(3-5) high by (auto simp: max_def split: if_splits)
      then have u: "unat (wk_conn_mtu v) = 2 * unat (wk_conn_mtu ws) div 3" using smaller_value [OF c refl] by simp
      moreover have "0 < unat (wk_conn_mtu v)"
      proof -
        have "MIN_MTU ws \<le> wk_conn_mtu v" using v(3,4) by simp
        moreover have "0 < unat (MIN_MTU ws)" by (simp add: MIN_MTU_def)
        ultimately show ?thesis by (simp add: word_le_nat_alt)
      qed
      ultimately have less: "unat (wk_conn_mtu v) < unat (wk_conn_mtu ws)" by (simp add: div_less_iff_less_mult)
      then have "dtls_handshake env v (replicate n GNUTLS_E_LARGE_PACKET) = Inl Freed_session"
        using Suc.prems(3,4) v(2,4) by (intro Suc.IH) (simp_all add: word_less_nat_alt)
      then show ?thesis using v(1) unfolding step [OF Suc.prems(1)] by simp
    qed
  qed
qed simp

theorem handshake_use_after_free_witness:
  "dtls_handshake example_env (dtls_worker False) (replicate 1403 GNUTLS_E_LARGE_PACKET) = Inl Freed_session"
  by (rule handshake_use_after_free) (simp_all add: narrow_defs)

text \<open>
  DTLS cannot come back after it was given up. When the session was released and a client's
  hello arrives on a new socket, the channel is set up again, and the next round of the main loop
  asks the released session for pending data before it sets up the new one.
\<close>

theorem restart_use_after_free:
  assumes "wk_dtls_session ws = Dtls_freed" and "udp_fd_received env ws tmsg fd = Inr (r, ws1)"
    and "case tmsg of None \<Rightarrow> True | Some (hello, _) \<Rightarrow> hello" and "\<not> wk_terminate ws"
  shows "wk_udp_state ws1 = UP_SETUP \<and> worker_round cfg env' overhead ws1 ri = Inl Freed_session"
  using assms
  by (auto simp: udp_fd_received_def Let_def worker_round_def dtls_has_pending_def udp_open_def with_dtls_def
      split: option.splits)

theorem restart_use_after_free_witness:
  "worker_round example_worker_cfg example_env 0
     (example_worker\<lparr>wk_dtls_session := Dtls_freed, wk_udp_state := UP_SETUP, wk_udp_fd := 7\<rparr>) example_round
   = Inl Freed_session"
proof -
  let ?ws = "example_worker\<lparr>wk_dtls_session := Dtls_freed, wk_udp_state := UP_DISABLED\<rparr>"
  have "udp_fd_received example_env ?ws None 7
      = Inr (0, example_worker\<lparr>wk_dtls_session := Dtls_freed, wk_udp_state := UP_SETUP, wk_udp_fd := 7\<rparr>)"
    by (simp add: udp_fd_received_def example_worker_def)
  then show ?thesis
    using restart_use_after_free [of ?ws example_env None 7] by (simp add: example_worker_def)
qed

end
