(* ===== verification/DeadPeer.thy ===== *)
theory DeadPeer
  imports WorkerExample
begin

text \<open>
  Dead peer detection of a worker (periodic_check): a client that says nothing over TLS is given
  up within a bounded time, whatever else happens in the rounds of the main loop.
\<close>

section \<open>What the rounds leave alone\<close>

definition inr_all :: "(worker \<Rightarrow> bool) \<Rightarrow> 'a wres \<Rightarrow> bool" where
  "inr_all P m \<longleftrightarrow> (\<forall>x ws. m = Inr (x, ws) \<longrightarrow> P ws)"

lemma inr_all_simps [simp]: "inr_all P (Inl e)" "inr_all P (Inr (x, ws)) = P ws"
  by (simp_all add: inr_all_def)

lemma inr_all_bind [intro]:
  assumes "inr_all P m" and "\<And>x ws. P ws \<Longrightarrow> inr_all Q (f x ws)"
  shows "inr_all Q (wbind m f)"
  using assms by (cases m) auto

text \<open>The times of the last message over TLS and of the last check, and the flag.\<close>

definition timed :: "int \<Rightarrow> int \<Rightarrow> bool \<Rightarrow> worker \<Rightarrow> bool" where
  "timed a b c ws \<longleftrightarrow> wk_last_msg_tcp ws = a \<and> wk_last_periodic_check ws = b \<and> wk_terminate ws = c"

lemma timed_simps [simp]:
  "timed a b c (wout m ws) = timed a b c ws"
  "timed a b c (add_bytes_out n ws) = timed a b c ws"
  "timed a b c (mtu_discovery_init ws mtu) = timed a b c ws"
  "timed a b c (snd (dtls_pull ws n bs)) = timed a b c ws"
  "timed a b c (send_stats_to_secmod env ws now) = timed a b c ws"
  by (auto simp: timed_def wout_def add_bytes_out_def mtu_discovery_init_def dtls_pull_def
      send_stats_to_secmod_def Let_def split: option.splits)

lemma timed_updates [simp]:
  "timed a b c (ws\<lparr>wk_b_tx := x1\<rparr>) = timed a b c ws" "timed a b c (ws\<lparr>wk_b_rx := x1\<rparr>) = timed a b c ws"
  "timed a b c (ws\<lparr>wk_last_nc_msg := x2\<rparr>) = timed a b c ws" "timed a b c (ws\<lparr>wk_last_msg_udp := x2\<rparr>) = timed a b c ws"
  "timed a b c (ws\<lparr>wk_last_tls_rehandshake := x2\<rparr>) = timed a b c ws"
  "timed a b c (ws\<lparr>wk_last_dtls_rehandshake := x2\<rparr>) = timed a b c ws"
  "timed a b c (ws\<lparr>wk_udp_recv_time := x2\<rparr>) = timed a b c ws" "timed a b c (ws\<lparr>wk_udp_state := x3\<rparr>) = timed a b c ws"
  "timed a b c (ws\<lparr>wk_dtls_session := x4\<rparr>) = timed a b c ws" "timed a b c (ws\<lparr>wk_udp_msg := x5\<rparr>) = timed a b c ws"
  "timed a b c (ws\<lparr>wk_udp_fd := x2\<rparr>) = timed a b c ws" "timed a b c (ws\<lparr>wk_bytes_in := x6\<rparr>) = timed a b c ws"
  "timed a b c (ws\<lparr>wk_conn_mtu := x7\<rparr>) = timed a b c ws" "timed a b c (ws\<lparr>wk_last_good_mtu := x7\<rparr>) = timed a b c ws"
  "timed a b c (ws\<lparr>wk_last_bad_mtu := x7\<rparr>) = timed a b c ws"
  by (simp_all add: timed_def)

lemma do_cstp_timed: "do_cstp env ws bs = (r, v) \<Longrightarrow> timed a b c v = timed a b c ws"
  by (auto simp: do_cstp_def Let_def split: if_splits)

lemma do_dtls_timed: "timed a b c ws \<Longrightarrow> inr_all (timed a b c) (do_dtls env ws bs)"
  by (simp add: do_dtls_def with_dtls_def Let_def split: dtls_handle.split)

lemma mtu_set_timed: "timed a b c ws \<Longrightarrow> inr_all (timed a b c) (mtu_set ws mtu)"
  by (simp add: mtu_set_def mtu_send_def)

lemma dtls_close_timed: "timed a b c ws \<Longrightarrow> inr_all (timed a b c) (dtls_close ws)"
  by (simp add: dtls_close_def with_dtls_def split: dtls_handle.split)

lemma mtu_not_ok_timed: "timed a b c ws \<Longrightarrow> inr_all (timed a b c) (mtu_not_ok ws)"
  by (auto simp: mtu_not_ok_def Let_def intro!: inr_all_bind [where P = "timed a b c"] dtls_close_timed mtu_set_timed)

lemma mtu_ok_timed: "timed a b c ws \<Longrightarrow> inr_all (timed a b c) (mtu_ok ws)"
  by (simp add: mtu_ok_def mtu_set_timed)

lemmas bind_timed = inr_all_bind [where P = "timed a b c" for a b c]

lemma tun_send_dtls_timed: "timed a b c ws \<Longrightarrow> inr_all (timed a b c) (tun_send_dtls cfg env ws p)"
  by (auto simp: tun_send_dtls_def intro!: bind_timed do_dtls_timed mtu_not_ok_timed mtu_ok_timed)

lemma tun_send_tls_timed: "timed a b c ws \<Longrightarrow> inr_all (timed a b c) (tun_send_tls cfg env ws p)"
  by (auto simp: tun_send_tls_def do_cstp_timed split: prod.split)

lemma tun_mainloop_timed: "timed a b c ws \<Longrightarrow> inr_all (timed a b c) (tun_mainloop cfg env ws tnow t)"
  by (auto simp: tun_mainloop_def Let_def split: tun_in.split prod.split
      intro!: bind_timed tun_send_dtls_timed tun_send_tls_timed)

lemma answer_dpd_timed: "timed a b c ws \<Longrightarrow> inr_all (timed a b c) (answer_dpd env ws tls head)"
  by (auto simp: answer_dpd_def do_cstp_timed split: prod.split intro!: bind_timed do_dtls_timed mtu_not_ok_timed)

lemma parse_data_timed: "timed a b c ws \<Longrightarrow> inr_all (timed a b c) (parse_data cfg env ws tls head buf now)"
  by (auto simp: parse_data_def write_tun_def split: option.split intro!: answer_dpd_timed)

lemma tls_mainloop_timed:
  "timed a b c ws \<Longrightarrow> (\<forall>bs. rx = Rx bs \<longrightarrow> length bs < 8) \<Longrightarrow> inr_all (timed a b c) (tls_mainloop cfg env ws tnow rx hs)"
  by (auto simp: tls_mainloop_def tls_rehandshake_def split: rx.split option.split)

lemma dtls_handshake_timed: "timed a b c ws \<Longrightarrow> inr_all (timed a b c) (dtls_handshake env ws hs)"
proof (induction hs arbitrary: ws)
  case Nil
  then show ?case by (simp add: with_dtls_def split: dtls_handle.split)
next
  case (Cons r hs)
  have "inr_all (timed a b c) (dtls_established env ws)" if "timed a b c ws" for ws
    using that by (auto simp: dtls_established_def Let_def session_info_send_def intro!: bind_timed mtu_set_timed)
  then show ?case
    using Cons by (auto simp: with_dtls_def split: dtls_handle.split intro!: bind_timed mtu_not_ok_timed)
qed

lemma dtls_receive_timed: "timed a b c ws \<Longrightarrow> inr_all (timed a b c) (dtls_receive cfg env ws tnow rx hs)"
  by (auto simp: dtls_receive_def dtls_rehandshake_def parse_dtls_data_def Let_def
      split: rx.split option.split prod.split intro!: bind_timed parse_data_timed)

lemma dtls_mainloop_timed: "timed a b c ws \<Longrightarrow> inr_all (timed a b c) (dtls_mainloop cfg env ws tnow rx hs)"
  by (auto simp: dtls_mainloop_def with_dtls_def setup_dtls_connection_def split: dtls_handle.split
      intro!: bind_timed dtls_receive_timed dtls_handshake_timed)

lemma handle_worker_commands_timed:
  "timed a b c ws \<Longrightarrow> inr_all (timed a b c) (handle_worker_commands cfg env ws cmd)"
  by (auto simp: handle_worker_commands_def udp_fd_received_def Let_def split: cmd_in.split control.split option.split)

text \<open>Leaving does not come back.\<close>

lemma worker_leave_inr [simp]: "inr_all P (worker_leave cfg env ws)"
proof -
  have "inr_all (\<lambda>_. True) m" for m :: "unit wres" by (simp add: inr_all_def)
  then show ?thesis by (auto simp: worker_leave_def Let_def intro: inr_all_bind [where P = "\<lambda>_. True"])
qed

lemma worker_terminate_inr [simp]: "inr_all P (worker_terminate cfg env ws)"
  by (auto simp: worker_terminate_def split: prod.split)

lemma or_leave_timed:
  assumes "inr_all (timed a b c) m" and "\<And>ws. timed a b c ws \<Longrightarrow> inr_all Q (f ws)"
  shows "inr_all Q (or_leave cfg env m f)"
  using assms unfolding or_leave_def by (auto intro!: bind_timed)

lemma round_channels_timed:
  assumes "timed a b c ws" and "\<forall>bs. ri_tls ri = Rx bs \<longrightarrow> length bs < 8"
  shows "inr_all (timed a b c) (round_channels cfg env ri tls_p dtls_p ws)"
  using assms unfolding round_channels_def Let_def
  by (auto intro!: or_leave_timed tun_mainloop_timed tls_mainloop_timed dtls_mainloop_timed
      bind_timed handle_worker_commands_timed)

section \<open>The check\<close>

lemma check_udp_timed: "timed a b c ws \<Longrightarrow> inr_all (timed a b c) (check_udp cfg env ws now dpd)"
  by (auto simp: check_udp_def intro!: bind_timed do_dtls_timed)

lemma check_mss_timed: "timed a b c ws \<Longrightarrow> inr_all (timed a b c) (check_mss env ws overhead)"
  by (auto simp: check_mss_def Let_def split: option.split intro!: mtu_set_timed)

lemma check_tcp_result:
  assumes "check_tcp cfg env ws now dpd = Inr (ret, ws')"
  shows "timed a b c ws' = timed a b c ws
    \<and> (0 < dpd \<and> 3 * unat dpd < 2 ^ 32 \<and> 3 * int (unat dpd) < now - wk_last_msg_tcp ws \<longrightarrow> ret = -1)"
proof -
  obtain r v where v: "do_cstp env ws (cstp_header 0 AC_PKT_DPD_OUT) = (r, v)"
    by (cases "do_cstp env ws (cstp_header 0 AC_PKT_DPD_OUT)")
  then have t: "timed a b c v = timed a b c ws" "wk_last_msg_tcp v = wk_last_msg_tcp ws"
    using do_cstp_timed [of env ws "cstp_header 0 AC_PKT_DPD_OUT" r v a b c]
    by (auto simp: do_cstp_def Let_def wout_def split: if_splits)
  have "uint (DPD_TRIES * dpd) \<le> uint (DPD_MAX_TRIES * dpd) \<and> uint (DPD_MAX_TRIES * dpd) = 3 * int (unat dpd)"
    if "3 * unat dpd < 2 ^ 32"
  proof -
    have "unat (3 * dpd) = 3 * unat dpd" "unat (2 * dpd) = 2 * unat dpd"
      using that by (simp_all add: unat_word_ariths)
    then have "int (unat (3 * dpd)) = 3 * int (unat dpd)" "int (unat (2 * dpd)) = 2 * int (unat dpd)" by simp_all
    then show ?thesis by (simp add: DPD_TRIES_def DPD_MAX_TRIES_def)
  qed
  then show ?thesis using assms v t by (auto simp: check_tcp_def split: if_splits)
qed

text \<open>
  When periodic_check lets the worker go on: it is not time yet, the worker is about to end, or
  the client was heard of recently enough and the time of the check is noted.
\<close>

lemma periodic_check_result:
  assumes "periodic_check cfg env ws overhead now dpd = Inr (ret, ws')" and "0 \<le> ret"
    and "0 < dpd" and "3 * unat dpd < 2 ^ 32" and "timed a b c ws"
  shows "now < b + 30 \<and> timed a b c ws' \<or> timed a now True ws'
    \<or> now \<le> a + 3 * int (unat dpd) \<and> timed a now c ws'"
proof (cases "now - wk_last_periodic_check ws < PERIODIC_CHECK_TIME")
  case True
  then show ?thesis using assms by (auto simp: periodic_check_def timed_def PERIODIC_CHECK_TIME_def)
next
  case due: False
  show ?thesis
  proof (cases "0 < vc_idle_timeout cfg \<and> uint (vc_idle_timeout cfg) < now - wk_last_nc_msg ws")
    case True
    then show ?thesis using assms(1,5) due by (auto simp: periodic_check_def timed_def)
  next
    case False
    define ws1 where "ws1 = (if 0 < vc_stats_report_time cfg
      \<and> uint (vc_stats_report_time cfg) \<le> now - wk_last_stats_msg ws \<and> wk_sid_set ws
      then send_stats_to_secmod env ws now else ws)"
    have t1: "timed a b c ws1" using assms(5) by (simp add: ws1_def)
    have r: "wbind (check_udp cfg env ws1 now dpd) (\<lambda>_ ws2. wbind (check_tcp cfg env ws2 now dpd)
        (\<lambda>ret ws3. if ret < 0 then Inr (ret, ws3)
           else wbind (check_mss env ws3 overhead)
             (\<lambda>_ ws4. Inr (0, ws4\<lparr>wk_last_periodic_check := now\<rparr>)))) = Inr (ret, ws')"
      using assms(1) due False by (simp add: periodic_check_def ws1_def Let_def)
    then obtain u ws2 where u: "check_udp cfg env ws1 now dpd = Inr (u, ws2)"
      by (cases "check_udp cfg env ws1 now dpd") auto
    then have t2: "timed a b c ws2" using check_udp_timed [OF t1] by (auto simp: inr_all_def)
    obtain ret3 ws3 where tcp: "check_tcp cfg env ws2 now dpd = Inr (ret3, ws3)"
      using r u by (cases "check_tcp cfg env ws2 now dpd") auto
    have t3: "timed a b c ws3" using check_tcp_result [OF tcp, of a b c] t2 by simp
    have pos: "\<not> ret3 < 0" using r u tcp assms(2) by (auto split: if_splits)
    then have "now \<le> a + 3 * int (unat dpd)"
      using check_tcp_result [OF tcp, of a b c] t2 assms(3,4) by (auto simp: timed_def)
    moreover obtain v ws4 where "check_mss env ws3 overhead = Inr (v, ws4)" "ws' = ws4\<lparr>wk_last_periodic_check := now\<rparr>"
      using r u tcp pos by (cases "check_mss env ws3 overhead") auto
    moreover have "timed a b c ws4"
      using check_mss_timed [OF t3, of env overhead] calculation(2) by (auto simp: inr_all_def)
    ultimately show ?thesis by (simp add: timed_def)
  qed
qed

section \<open>Runs\<close>

text \<open>No message of the client over TLS.\<close>

definition tls_silent :: "round_in \<Rightarrow> bool" where
  "tls_silent ri \<longleftrightarrow> (\<forall>bs. ri_tls ri = Rx bs \<longrightarrow> length bs < 8)"

lemma silent_round:
  assumes "worker_round cfg env overhead ws ri = Inr (u, ws')" and "tls_silent ri" and "timed a b False ws"
    and "0 < vc_dpd cfg" and "3 * unat (vc_dpd cfg) < 2 ^ 32" and "b \<le> B" and "a + 3 * int (unat (vc_dpd cfg)) \<le> B"
  shows "(wk_terminate ws' \<or> (\<exists>b'. timed a b' False ws' \<and> b' \<le> B))
    \<and> (ri_select ri \<noteq> Sel_interrupted \<longrightarrow> wk_terminate ws' \<or> tv_sec (ri_now ri) < B + 30)"
proof -
  let ?now = "tv_sec (ri_now ri)" and ?tls_p = "wk_session ws \<and> ri_tls_pending ri"
  have nt: "\<not> wk_terminate ws" using assms(3) by (simp add: timed_def)
  obtain p where p: "dtls_has_pending ri ws = Inr (p, ws)"
    using assms(1) nt
    by (cases "wk_dtls_session ws") (auto simp: worker_round_def dtls_has_pending_def with_dtls_def split: if_splits)
  have leave: "worker_leave cfg env v \<noteq> Inr y" for v y
    using worker_leave_inr [of "\<lambda>_. False" cfg env v] unfolding inr_all_def by (cases y) blast
  show ?thesis
  proof (cases "\<not> ?tls_p \<and> \<not> p \<and> ri_select ri = Sel_interrupted")
    case True
    then have "ws' = ws\<lparr>wk_terminate := ri_sigterm ri\<rparr>" using assms(1) nt p by (simp add: worker_round_def Let_def)
    then show ?thesis using True assms(3,6) by (auto simp: timed_def)
  next
    case False
    then have "or_leave cfg env (periodic_check cfg env ws overhead ?now (vc_dpd cfg))
        (round_channels cfg env ri ?tls_p p) = Inr (u, ws')"
      using assms(1) nt p leave by (auto simp: worker_round_def Let_def split: if_splits)
    then obtain ret ws1 where ws1: "periodic_check cfg env ws overhead ?now (vc_dpd cfg) = Inr (ret, ws1)"
      "0 \<le> ret" "round_channels cfg env ri ?tls_p p ws1 = Inr (u, ws')"
      using leave by (cases "periodic_check cfg env ws overhead ?now (vc_dpd cfg)")
        (auto simp: or_leave_def split: if_splits)
    have keep: "timed a b' c ws'" if "timed a b' c ws1" for b' c
      using round_channels_timed [OF that, of ri cfg env ?tls_p p] ws1(3) assms(2)
      by (auto simp: inr_all_def tls_silent_def)
    consider "?now < b + 30" "timed a b False ws1" | "timed a ?now True ws1"
      | "?now \<le> a + 3 * int (unat (vc_dpd cfg))" "timed a ?now False ws1"
      using periodic_check_result [OF ws1(1,2) assms(4,5,3)] by blast
    then show ?thesis
    proof cases
      case 1
      then show ?thesis using keep assms(6) by force
    next
      case 2
      then show ?thesis using keep [OF 2] by (simp add: timed_def)
    next
      case 3
      then show ?thesis using keep assms(7) by force
    qed
  qed
qed

text \<open>A worker that is to terminate does not come back from the next round.\<close>

lemma terminated_run:
  assumes "wk_terminate ws" and "worker_run cfg overhead ws rs = Inr (u, ws')"
  shows "rs = []"
proof (cases rs)
  case (Cons r rs')
  obtain env ri where r: "r = (env, ri)" by (cases r)
  have "worker_round cfg env overhead ws ri = worker_terminate cfg env ws" using assms(1) by (simp add: worker_round_def)
  then have "inr_all (\<lambda>_. False) (worker_round cfg env overhead ws ri)" by simp
  then have "\<nexists>x v. worker_round cfg env overhead ws ri = Inr (x, v)" unfolding inr_all_def by blast
  then show ?thesis using assms(2) by (cases "worker_round cfg env overhead ws ri") (auto simp: Cons r)
qed

lemma silent_run:
  assumes "worker_run cfg overhead ws rs = Inr (u, ws')" and "\<forall>(env, ri) \<in> set rs. tls_silent ri"
    and "timed a b False ws" and "b \<le> B" and "a + 3 * int (unat (vc_dpd cfg)) \<le> B"
    and "0 < vc_dpd cfg" and "3 * unat (vc_dpd cfg) < 2 ^ 32"
    and "(env, ri) \<in> set rs" and "ri_select ri \<noteq> Sel_interrupted"
  shows "wk_terminate ws' \<or> tv_sec (ri_now ri) < B + 30"
  using assms(1-4,8)
proof (induction rs arbitrary: ws b)
  case (Cons r rs)
  obtain env0 ri0 where r: "r = (env0, ri0)" by (cases r)
  obtain v ws1 where ws1: "worker_round cfg env0 overhead ws ri0 = Inr (v, ws1)"
    "worker_run cfg overhead ws1 rs = Inr (u, ws')"
    using Cons.prems(1) by (cases "worker_round cfg env0 overhead ws ri0") (auto simp: r)
  have round: "(wk_terminate ws1 \<or> (\<exists>b'. timed a b' False ws1 \<and> b' \<le> B))
      \<and> (ri_select ri0 \<noteq> Sel_interrupted \<longrightarrow> wk_terminate ws1 \<or> tv_sec (ri_now ri0) < B + 30)"
    using silent_round [OF ws1(1) _ Cons.prems(3) assms(6,7) Cons.prems(4) assms(5)] Cons.prems(2) by (auto simp: r)
  show ?case
  proof (cases "wk_terminate ws1")
    case True
    then show ?thesis using terminated_run [OF True ws1(2)] ws1(2) by simp
  next
    case False
    then show ?thesis using round Cons.IH [OF ws1(2)] Cons.prems(2,5) assms(9) by (auto simp: r)
  qed
qed simp

lemma worker_run_append:
  "worker_run cfg overhead ws rs = Inr (u, ws') \<Longrightarrow>
    worker_run cfg overhead ws (rs @ rs') = worker_run cfg overhead ws' rs'"
proof (induction rs arbitrary: ws)
  case (Cons r rs)
  obtain env ri where r: "r = (env, ri)" by (cases r)
  then show ?case using Cons by (cases "worker_round cfg env overhead ws ri") auto
qed simp

text \<open>
  C23: a dead client is given up. Let a client say nothing over TLS, and let \<open>B\<close> be three times the
  configured interval after its last message, or the time of the last check of the worker when
  that is later. A worker that is still in its main loop after some rounds, and is not about to
  terminate, has come to a round that is not merely a signal only before \<open>B + 30\<close>; so its next round,
  at most \<open>W\<close> seconds after such a one, comes before \<open>B + 30 + W\<close> (pselect waits at most 10 seconds).
  When that round comes at \<open>B + 30\<close> or later, the worker does not get through it and one more: it
  stops in one of the two. (Stopping is leaving; a rehandshake that waits for the client and the
  use of a freed DTLS session are the other outcomes that the model has.) The interval is not
  zero, and three times it fits 32 bits.
\<close>

theorem dead_peer_stopped:
  assumes "worker_run cfg overhead ws rs = Inr (u, ws')" and "\<forall>(env, ri) \<in> set (rs @ [(env, ri)]). tls_silent ri"
    and "\<not> wk_terminate ws" and "0 < vc_dpd cfg" and "3 * unat (vc_dpd cfg) < 2 ^ 32"
    and "(env0, ri0) \<in> set rs" and "ri_select ri0 \<noteq> Sel_interrupted" and "ri_select ri \<noteq> Sel_interrupted"
    and "tv_sec (ri_now ri) \<le> tv_sec (ri_now ri0) + W"
    and "B = max (wk_last_periodic_check ws) (wk_last_msg_tcp ws + 3 * int (unat (vc_dpd cfg)))"
  shows "(wk_terminate ws' \<or> tv_sec (ri_now ri0) < B + 30 \<and> tv_sec (ri_now ri) < B + 30 + W)
    \<and> (B + 30 \<le> tv_sec (ri_now ri) \<longrightarrow> (\<forall>r. \<exists>stop. worker_run cfg overhead ws' [(env, ri), r] = Inl stop))"
proof -
  have t: "timed (wk_last_msg_tcp ws) (wk_last_periodic_check ws) False ws" using assms(3) by (simp add: timed_def)
  have B: "wk_last_periodic_check ws \<le> B" "wk_last_msg_tcp ws + 3 * int (unat (vc_dpd cfg)) \<le> B" using assms(10) by simp_all
  have "wk_terminate ws' \<or> tv_sec (ri_now ri0) < B + 30"
    by (rule silent_run [OF assms(1) _ t B assms(4-7)]) (use assms(2) in auto)
  moreover have "\<exists>stop. worker_run cfg overhead ws' [(env, ri), r] = Inl stop" if late: "B + 30 \<le> tv_sec (ri_now ri)" for r
  proof (rule ccontr)
    assume "\<not> ?thesis"
    then obtain v ws2 where two: "worker_run cfg overhead ws' ([(env, ri)] @ [r]) = Inr (v, ws2)"
      by (cases "worker_run cfg overhead ws' [(env, ri), r]") auto
    then obtain w ws1 where one: "worker_run cfg overhead ws' [(env, ri)] = Inr (w, ws1)"
      by (cases "worker_round cfg env overhead ws' ri") auto
    have run: "worker_run cfg overhead ws (rs @ [(env, ri)]) = Inr (w, ws1)"
      using worker_run_append [OF assms(1)] one by simp
    then have "wk_terminate ws1"
      using silent_run [OF run assms(2) t B assms(4,5), of env ri] late assms(8) by simp
    moreover have "worker_run cfg overhead ws1 [r] = Inr (v, ws2)" using two worker_run_append [OF one] by metis
    ultimately show False using terminated_run by blast
  qed
  ultimately show ?thesis using assms(9) by auto
qed

text \<open>
  With an interval of 90 seconds and the last message at 100, the check at 370 passes and at 399
  none is due: the round at 405 ends the worker.
\<close>

definition round_at :: "int \<Rightarrow> round_in" where
  "round_at t = example_round\<lparr>ri_now := \<lparr>tv_sec = t, tv_nsec = 0\<rparr>\<rparr>"

definition silent_rounds :: "(net_env \<times> round_in) list" where
  "silent_rounds = [(example_env, round_at 370), (example_env, round_at 399)]"

lemma example_silent_returns:
  "case worker_run example_worker_cfg 0 example_worker silent_rounds of Inl _ \<Rightarrow> False | Inr (_, ws) \<Rightarrow> \<not> wk_terminate ws"
  by code_simp

theorem dead_peer_stopped_witness:
  "\<exists>stop ws'. worker_run example_worker_cfg 0 example_worker silent_rounds = Inr ((), ws')
    \<and> worker_run example_worker_cfg 0 ws' [(example_env, round_at 405), (example_env, round_at 406)] = Inl stop"
proof -
  obtain ws' where r: "worker_run example_worker_cfg 0 example_worker silent_rounds = Inr ((), ws')"
    using example_silent_returns by (auto split: sum.splits)
  have e: "(example_env, round_at 399) \<in> set silent_rounds"
      "\<forall>(env, ri) \<in> set (silent_rounds @ [(example_env, round_at 405)]). tls_silent ri"
    by (simp_all add: silent_rounds_def round_at_def example_round_def tls_silent_def)
  show ?thesis
    using dead_peer_stopped [OF r e(2) _ _ _ e(1), of 10 370] r
    by (auto simp: round_at_def example_round_def example_worker_def example_worker_cfg_def)
qed

end
