(* ===== verification/WorkerConnect.thy ===== *)
theory WorkerConnect
  imports WorkerData MainProc
begin

text \<open>
  How a worker enters its tunnel: the reply to its cookie (worker-auth.c), the network settings
  (worker-misc.c) and the headers that connect_handler answers a CONNECT request with
  (worker-vpn.c). The lines are computed in the order in which they are sent; allocations succeed.
\<close>

section \<open>Settings\<close>

text \<open>struct vpn_st, for what the client gets and for the configured network.\<close>

record vpn_st =
  vi_name :: string
  vi_ipv4_netmask :: "string option"
  vi_ipv4_network :: "string option"
  vi_ipv4 :: "string option"
  vi_ipv4_local :: "string option"
  vi_ipv6_network :: "string option"
  vi_ipv6_prefix :: nat
  vi_ipv6 :: "string option"
  vi_ipv6_local :: "string option"
  vi_mtu :: u32
  vi_routes :: "string list"
  vi_no_routes :: "string list"
  vi_dns :: "string list"
  vi_nbns :: "string list"

record conn_st =
  cn_tun_fd :: int
  cn_username :: string
  cn_groupname :: string
  cn_session_id :: "byte list"
  cn_vinfo :: vpn_st
  cn_network :: vpn_st
  cn_rx_per_sec :: u64
  cn_tx_per_sec :: u64
  cn_net_priority :: u32
  cn_udp_port :: nat
  cn_xml_config_file :: "string option"
  cn_routes :: "string list"
  cn_no_routes :: "string list"
  cn_dns :: "string list"
  cn_nbns :: "string list"
  cn_default_route :: bool

definition check_if_default_route :: "string list \<Rightarrow> bool" where
  "check_if_default_route routes \<longleftrightarrow> list_ex (\<lambda>r. r = ''default'' \<or> r = ''0.0.0.0/0'') routes"

text \<open>An address of the reply; the unspecified one stands for none.\<close>

definition reply_addr :: "string \<Rightarrow> string option \<Rightarrow> string option \<Rightarrow> string option" where
  "reply_addr none new old =
     (case new of None \<Rightarrow> old | Some a \<Rightarrow> if a = none then None else Some a)"

definition reply_value :: "'a option \<Rightarrow> 'a \<Rightarrow> 'a" where
  "reply_value new old = (case new of None \<Rightarrow> old | Some v \<Rightarrow> v)"

definition reply_vinfo :: "auth_reply \<Rightarrow> vpn_st \<Rightarrow> vpn_st" where
  "reply_vinfo m v = v
     \<lparr>vi_name := strlcpy_str 16 (ar_vname m),
      vi_ipv4 := reply_addr ''0.0.0.0'' (ar_ipv4 m) (vi_ipv4 v),
      vi_ipv6 := reply_addr ''::'' (ar_ipv6 m) (vi_ipv6 v),
      vi_ipv4_local := reply_addr ''0.0.0.0'' (ar_ipv4_local m) (vi_ipv4_local v),
      vi_ipv6_local := reply_addr ''::'' (ar_ipv6_local m) (vi_ipv6_local v)\<rparr>"

definition reply_network :: "auth_reply \<Rightarrow> vpn_st \<Rightarrow> vpn_st" where
  "reply_network m v = v
     \<lparr>vi_ipv4_netmask := (case ar_ipv4_netmask m of None \<Rightarrow> vi_ipv4_netmask v | n \<Rightarrow> n),
      vi_ipv4_network := (case ar_ipv4_network m of None \<Rightarrow> vi_ipv4_network v | n \<Rightarrow> n),
      vi_ipv6_network := (case ar_ipv6_network m of None \<Rightarrow> vi_ipv6_network v | n \<Rightarrow> n),
      vi_ipv6_prefix := (if ar_has_ipv6_prefix m then ar_ipv6_prefix m else vi_ipv6_prefix v)\<rparr>"

text \<open>The client's own routes; a default route among them drops all of them.\<close>

definition reply_routes :: "auth_reply \<Rightarrow> conn_st \<Rightarrow> conn_st" where
  "reply_routes m c =
     (let rs = (if check_if_default_route (ar_routes m) then [] else ar_routes m) in c
      \<lparr>cn_routes := rs,
       cn_default_route := (cn_default_route c \<or> check_if_default_route (ar_routes m) \<or> check_if_default_route rs),
       cn_no_routes := ar_no_routes m, cn_dns := ar_dns m, cn_nbns := ar_nbns m\<rparr>)"

text \<open>
  \<open>ret\<close> is the result of recv_socket_msg, \<open>fd\<close> the descriptor that came along (-1 for none), None
  a reply that is not OK.
\<close>

definition recv_cookie_auth_reply :: "int \<Rightarrow> int \<Rightarrow> auth_reply option \<Rightarrow> conn_st \<Rightarrow> int \<times> conn_st" where
  "recv_cookie_auth_reply ret fd msg c =
     (if ret < 0 then (ret, c)
      else
        (case msg of
           None \<Rightarrow> (ERR_AUTH_FAIL, c)
         | Some m \<Rightarrow>
             if fd = -1 then (ERR_AUTH_FAIL, c)
             else (0, reply_routes m (c
               \<lparr>cn_tun_fd := fd, cn_username := strlcpy_str 64 (ar_user_name m),
                cn_groupname := strlcpy_str 64 (ar_group_name m), cn_session_id := ar_session_id m,
                cn_vinfo := reply_vinfo m (cn_vinfo c), cn_network := reply_network m (cn_network c),
                cn_rx_per_sec := reply_value (map_option ucast (ar_rx_per_sec m)) (cn_rx_per_sec c),
                cn_tx_per_sec := reply_value (map_option ucast (ar_tx_per_sec m)) (cn_tx_per_sec c),
                cn_net_priority := reply_value (ar_net_priority m) (cn_net_priority c),
                cn_udp_port := (if ar_no_udp m = Some True then 0 else cn_udp_port c),
                cn_xml_config_file := (case ar_xml_config_file m of None \<Rightarrow> cn_xml_config_file c | f \<Rightarrow> f)\<rparr>))))"

text \<open>The MTU of the device: no socket, no answer, or a number.\<close>

datatype if_mtu = No_socket | No_mtu | If_mtu u32

definition complete_vpn_info :: "if_mtu \<Rightarrow> conn_st \<Rightarrow> int \<times> conn_st" where
  "complete_vpn_info im c =
     (let v = cn_vinfo c; n = cn_network c in
      if vi_ipv4 v = None \<and> vi_ipv6 v = None then (-1, c)
      else
        let v1 = v\<lparr>vi_dns := (if cn_dns c \<noteq> [] then cn_dns c else vi_dns n),
                   vi_nbns := (if cn_nbns c \<noteq> [] then cn_nbns c else vi_nbns n),
                   vi_routes := vi_routes n, vi_no_routes := vi_no_routes n,
                   vi_ipv4_network := vi_ipv4_network n, vi_ipv6_network := vi_ipv6_network n,
                   vi_ipv4_netmask := vi_ipv4_netmask n, vi_ipv6_prefix := vi_ipv6_prefix n\<rparr>;
            c1 = c\<lparr>cn_default_route := (cn_default_route c \<or> check_if_default_route (vi_routes n))\<rparr>
        in if vi_mtu n \<noteq> 0 then (0, c1\<lparr>cn_vinfo := v1\<lparr>vi_mtu := vi_mtu n\<rparr>\<rparr>)
           else
             (case im of
                No_socket \<Rightarrow> (-1, c1\<lparr>cn_vinfo := v1\<rparr>)
              | No_mtu \<Rightarrow> (0, c1\<lparr>cn_vinfo := v1\<lparr>vi_mtu := 1500\<rparr>\<rparr>)
              | If_mtu m \<Rightarrow> (0, c1\<lparr>cn_vinfo := v1\<lparr>vi_mtu := m\<rparr>\<rparr>)))"

section \<open>Lines\<close>

definition CRLF :: string where "CRLF = [CHR 0x0D, CHR 0x0A]"

fun dec :: "nat \<Rightarrow> string" where
  "dec n = (if n < 10 then [] else dec (n div 10)) @ [char_of (48 + n mod 10)]"

declare dec.simps [simp del]

definition hex_digit :: "nat \<Rightarrow> char" where
  "hex_digit d = (if d < 10 then char_of (48 + d) else char_of (87 + d))"

definition hex_bytes :: "byte list \<Rightarrow> string" where
  "hex_bytes bs = concat (map (\<lambda>b. [hex_digit (unat b div 16), hex_digit (unat b mod 16)]) bs)"

definition line :: "string \<Rightarrow> string \<Rightarrow> string" where "line name value = name @ '': '' @ value @ CRLF"

text \<open>Is an address or route left out for this client?\<close>

definition has_colon :: "string \<Rightarrow> bool" where "has_colon s \<longleftrightarrow> CHR '':'' \<in> set s"

definition left_out :: "http_app \<Rightarrow> string \<Rightarrow> bool" where
  "left_out req s \<longleftrightarrow> ha_no_ipv6 req \<and> has_colon s \<or> ha_no_ipv4 req \<and> \<not> has_colon s"

definition send_routes :: "http_app \<Rightarrow> string list \<Rightarrow> bool \<Rightarrow> string list" where
  "send_routes req routes incl =
     (let txt = (if incl then ''Include'' else ''Exclude'') in
      map (\<lambda>r. if has_colon r \<and> ha_full_ipv6 req then line (''X-CSTP-Split-'' @ txt @ ''-IP6'') r
               else line (''X-CSTP-Split-'' @ txt) r)
        (filter (\<lambda>r. \<not> left_out req r) routes))"

definition send_names :: "http_app \<Rightarrow> string \<Rightarrow> string list \<Rightarrow> string list" where
  "send_names req name vals = map (line name) (filter (\<lambda>s. \<not> left_out req s) vals)"

section \<open>Connecting\<close>

record conn_cfg =
  cc_dpd :: u32
  cc_mobile_dpd :: u32
  cc_idle_timeout :: u32
  cc_mobile_idle_timeout :: u32
  cc_default_domain :: "string option"
  cc_default_mtu :: u32
  cc_split_dns :: "string list"
  cc_keepalive :: u32
  cc_is_dyndns :: bool
  cc_rekey_time :: int
  cc_rekey_ssl :: bool
  cc_proxy_url :: "string option"
  cc_custom_header :: "string list"
  cc_banner :: "string option"
  cc_version :: string

text \<open>
  The surroundings: which send fails first, the MSS of the TCP connection, the record overheads
  GnuTLS estimates for TLS and DTLS, safe renegotiation, the family of the connection, what
  replace_vals makes of a text, the time.
\<close>

record connect_env =
  ce_fail :: "nat option"
  ce_mss :: "int option"
  ce_tls_overhead :: u32
  ce_dtls_overhead :: u32
  ce_session :: bool
  ce_safe_renegotiation :: bool
  ce_inet :: bool
  ce_replace :: "string \<Rightarrow> string option"
  ce_now :: int

text \<open>A mobile client has its own values.\<close>

definition client_dpd :: "conn_cfg \<Rightarrow> http_app \<Rightarrow> u32" where
  "client_dpd cfg req = (if ha_is_mobile req then cc_mobile_dpd cfg else cc_dpd cfg)"

definition client_idle :: "conn_cfg \<Rightarrow> http_app \<Rightarrow> u32" where
  "client_idle cfg req = (if ha_is_mobile req then cc_mobile_idle_timeout cfg else cc_idle_timeout cfg)"

definition intro_lines :: "conn_cfg \<Rightarrow> http_app \<Rightarrow> string list" where
  "intro_lines cfg req =
     [''HTTP/1.1 200 CONNECTED'' @ CRLF, line ''X-CSTP-Version'' ''1'', line ''X-Server-Version'' (cc_version cfg)]
     @ (if 0 < client_dpd cfg req then [line ''X-CSTP-DPD'' (dec (unat (client_dpd cfg req)))] else [])
     @ (case cc_default_domain cfg of None \<Rightarrow> [] | Some d \<Rightarrow> [line ''X-CSTP-Default-Domain'' d])"

text \<open>UDP is used when it is enabled and the client sent a master secret and a known suite.\<close>

definition udp_wanted :: "conn_st \<Rightarrow> http_app \<Rightarrow> bool" where
  "udp_wanted c req \<longleftrightarrow> cn_udp_port c \<noteq> 0 \<and> ha_master_secret_set req \<and> ha_ciphersuite req \<noteq> None"

definition base_mtu :: "connect_env \<Rightarrow> conn_cfg \<Rightarrow> http_app \<Rightarrow> u32 \<Rightarrow> u32" where
  "base_mtu env cfg req mtu =
     (let m1 = (if 0 < cc_default_mtu cfg then cc_default_mtu cfg else mtu);
          m2 = (if 0 < ha_base_mtu req then min m1 (ha_base_mtu req) else m1)
      in case ce_mss env of
           None \<Rightarrow> m2
         | Some mss \<Rightarrow> if 0 < mss - 13 \<and> word_of_int (mss - 13) < m2 then word_of_int (mss - 13) else m2)"

text \<open>The MTU of the TLS channel: base MTU less the overhead, modulo 2^32.\<close>

definition tls_mtu :: "connect_env \<Rightarrow> u32 \<Rightarrow> u32" where
  "tls_mtu env base = base - (word_of_nat CSTP_OVERHEAD + ce_tls_overhead env)"

definition mtu_req :: "u32 \<Rightarrow> vpn_st \<Rightarrow> http_app \<Rightarrow> http_app" where
  "mtu_req mtu v req =
     (if mtu < 1280 \<and> vi_ipv6 v \<noteq> None \<and> \<not> ha_no_ipv6 req then req\<lparr>ha_no_ipv6 := True\<rparr> else req)"

definition ipv4_lines :: "vpn_st \<Rightarrow> http_app \<Rightarrow> string list" where
  "ipv4_lines v req =
     (case vi_ipv4 v of
        Some a \<Rightarrow>
          if ha_no_ipv4 req then []
          else line ''X-CSTP-Address'' a
            # (case vi_ipv4_netmask v of None \<Rightarrow> [] | Some m \<Rightarrow> [line ''X-CSTP-Netmask'' m])
      | None \<Rightarrow> [])"

definition ipv6_lines :: "vpn_st \<Rightarrow> http_app \<Rightarrow> string list" where
  "ipv6_lines v req =
     (case vi_ipv6 v of
        Some a \<Rightarrow>
          if ha_no_ipv6 req \<or> vi_ipv6_prefix v = 0 then []
          else if ha_full_ipv6 req then [line ''X-CSTP-Address-IP6'' (a @ ''/'' @ dec (vi_ipv6_prefix v))]
          else
            [line ''X-CSTP-Address'' a,
             line ''X-CSTP-Netmask''
               ((case vi_ipv6_network v of None \<Rightarrow> a | Some n \<Rightarrow> n) @ ''/'' @ dec (vi_ipv6_prefix v))]
      | None \<Rightarrow> [])"

text \<open>Behind the addresses IPv6 is only for clients that can handle it.\<close>

definition routes_req :: "http_app \<Rightarrow> http_app" where
  "routes_req req =
     (if \<not> ha_full_ipv6 req \<or> ha_agent_type req \<noteq> AGENT_OPENCONNECT then req\<lparr>ha_no_ipv6 := True\<rparr> else req)"

definition dns_lines :: "conn_cfg \<Rightarrow> vpn_st \<Rightarrow> http_app \<Rightarrow> string list" where
  "dns_lines cfg v req =
     send_names req ''X-CSTP-DNS'' (vi_dns v) @ send_names req ''X-CSTP-NBNS'' (vi_nbns v)
     @ send_names req ''X-CSTP-Split-DNS'' (cc_split_dns cfg)"

definition route_lines :: "conn_st \<Rightarrow> vpn_st \<Rightarrow> http_app \<Rightarrow> string list" where
  "route_lines c v req =
     (if cn_default_route c then [] else send_routes req (vi_routes v) True @ send_routes req (cn_routes c) True)
     @ send_routes req (vi_no_routes v) False @ send_routes req (cn_no_routes c) False"

definition rekey_lines :: "connect_env \<Rightarrow> conn_cfg \<Rightarrow> string list" where
  "rekey_lines env cfg =
     (if 0 < cc_rekey_time cfg then
        [line ''X-CSTP-Rekey-Time'' (dec (nat (cc_rekey_time cfg mod 2 ^ 32))),
         line ''X-CSTP-Rekey-Method''
           (if ce_session env \<and> ce_safe_renegotiation env \<and> cc_rekey_ssl cfg then ''ssl'' else ''new-tunnel'')]
      else [line ''X-CSTP-Rekey-Method'' ''none''])"

definition misc_lines :: "connect_env \<Rightarrow> conn_cfg \<Rightarrow> http_app \<Rightarrow> string list" where
  "misc_lines env cfg req =
     [line ''X-CSTP-Keepalive'' (dec (unat (cc_keepalive cfg))),
      line ''X-CSTP-Idle-Timeout''
        (if 0 < client_idle cfg req then dec (unat (client_idle cfg req)) else ''none''),
      line ''X-CSTP-Smartcard-Removal-Disconnect'' ''true'']
     @ (if cc_is_dyndns cfg then [line ''X-CSTP-DynDNS'' ''true''] else [])
     @ rekey_lines env cfg
     @ (case cc_proxy_url cfg of
          None \<Rightarrow> []
        | Some u \<Rightarrow> (case ce_replace env u of None \<Rightarrow> [] | Some s \<Rightarrow> [line ''X-CSTP-MSIE-Proxy-Pac-URL'' s]))"

definition fixed_lines :: string where
  "fixed_lines = line ''X-CSTP-Session-Timeout'' ''none'' @ line ''X-CSTP-Disconnected-Timeout'' ''none''
     @ line ''X-CSTP-Keep'' ''true'' @ line ''X-CSTP-TCP-Keepalive'' ''true''
     @ line ''X-CSTP-Tunnel-All-DNS'' ''false'' @ line ''X-CSTP-License'' ''accept''"

definition custom_lines :: "connect_env \<Rightarrow> conn_cfg \<Rightarrow> string list" where
  "custom_lines env cfg =
     concat (map (\<lambda>h. case ce_replace env h of None \<Rightarrow> [] | Some s \<Rightarrow> [s @ CRLF]) (cc_custom_header cfg))"

text \<open>The overhead of the datagrams: IP and UDP headers.\<close>

definition proto_overhead :: "connect_env \<Rightarrow> u32" where
  "proto_overhead env = (if ce_inet env then 20 else 40) + 8"

definition dtls_crypto :: "connect_env \<Rightarrow> u32" where
  "dtls_crypto env = ce_dtls_overhead env + word_of_nat CSTP_DTLS_OVERHEAD"

definition dtls_mtu :: "connect_env \<Rightarrow> u32 \<Rightarrow> u32 \<Rightarrow> u32" where
  "dtls_mtu env base mtu = min mtu (base - proto_overhead env - dtls_crypto env)"

definition dtls_lines :: "connect_env \<Rightarrow> conn_cfg \<Rightarrow> conn_st \<Rightarrow> http_app \<Rightarrow> dtls_suite \<Rightarrow> u32 \<Rightarrow> string list" where
  "dtls_lines env cfg c req suite mtu =
     [line ''X-DTLS-Session-ID'' (hex_bytes (cn_session_id c))]
     @ (if 0 < client_dpd cfg req then [line ''X-DTLS-DPD'' (dec (unat (client_dpd cfg req)))] else [])
     @ [line ''X-DTLS-Port'' (dec (cn_udp_port c))]
     @ (if 0 < cc_rekey_time cfg then
          [line ''X-DTLS-Rekey-Time'' (dec (nat ((cc_rekey_time cfg + 10) mod 2 ^ 32)))]
          @ (if cc_rekey_ssl cfg then [line ''X-DTLS-Rekey-Method'' ''ssl''] else [])
        else [])
     @ [line ''X-DTLS-Keepalive'' (dec (unat (cc_keepalive cfg))),
        line ''X-DTLS-CipherSuite'' (ds_oc_name suite),
        line ''X-DTLS-MTU'' (dec (unat mtu))]"

definition comp_name :: "comp_method \<Rightarrow> string" where
  "comp_name m = (case m of OC_COMP_LZ4 \<Rightarrow> ''oc-lz4'' | OC_COMP_LZS \<Rightarrow> ''lzs'')"

definition tail_lines :: "conn_cfg \<Rightarrow> http_app \<Rightarrow> string list" where
  "tail_lines cfg req =
     (case cc_banner cfg of None \<Rightarrow> [] | Some b \<Rightarrow> [line ''X-CSTP-Banner'' b])
     @ (case ha_dtls_comp req of None \<Rightarrow> [] | Some m \<Rightarrow> [line ''X-DTLS-Content-Encoding'' (comp_name m)])
     @ (case ha_cstp_comp req of None \<Rightarrow> [] | Some m \<Rightarrow> [line ''X-CSTP-Content-Encoding'' (comp_name m)])
     @ [CRLF]"

text \<open>
  All of it: the lines up to the MTU, the lines behind it, the MTU, whether there is UDP, and the
  overhead that the periodic check is given.
\<close>

record conn_plan =
  cp_head :: "string list"
  cp_tail :: "string list"
  cp_mtu :: u32
  cp_udp :: bool
  cp_crypto :: u32
  cp_overhead :: u32

definition connect_plan :: "connect_env \<Rightarrow> conn_cfg \<Rightarrow> conn_st \<Rightarrow> http_app \<Rightarrow> conn_plan" where
  "connect_plan env cfg c req =
     (let v = cn_vinfo c; base = base_mtu env cfg req (vi_mtu v); mtu = tls_mtu env base;
          req1 = mtu_req mtu v req; req2 = routes_req req1;
          udp = udp_wanted c req;
          mtu2 = (if udp then dtls_mtu env base mtu else mtu);
          crypto = (if udp then dtls_crypto env else word_of_nat CSTP_OVERHEAD + ce_tls_overhead env);
          proto = (if udp then proto_overhead env else 0);
          head = intro_lines cfg req @ [line ''X-CSTP-Base-MTU'' (dec (unat base))]
            @ ipv4_lines v req1 @ ipv6_lines v req1 @ dns_lines cfg v req2 @ route_lines c v req2
            @ misc_lines env cfg req @ [fixed_lines] @ custom_lines env cfg
            @ (case ha_ciphersuite req of
                 Some s \<Rightarrow> if udp then dtls_lines env cfg c req s mtu2 else []
               | None \<Rightarrow> [])
            @ [line ''X-CSTP-MTU'' (dec (unat mtu2))]
      in \<lparr>cp_head = head, cp_tail = tail_lines cfg req, cp_mtu = mtu2, cp_udp = udp, cp_crypto = crypto,
          cp_overhead = proto + crypto\<rparr>)"

text \<open>The worker at the start of its main loop; \<open>ws\<close> is what it was before.\<close>

definition tunnel_start :: "connect_env \<Rightarrow> conn_st \<Rightarrow> http_app \<Rightarrow> conn_plan \<Rightarrow> worker \<Rightarrow> worker" where
  "tunnel_start env c req plan ws =
     (wout To_main_info (mtu_send ws (cp_mtu plan)))
       \<lparr>wk_conn_mtu := cp_mtu plan, wk_crypto_overhead := cp_crypto plan,
        wk_udp_state := (if cp_udp plan then UP_WAIT_FD else UP_DISABLED),
        wk_suite := ha_ciphersuite req, wk_dtls_comp := ha_dtls_comp req, wk_cstp_comp := ha_cstp_comp req,
        wk_ipv6 := (vi_ipv6 (cn_vinfo c) \<noteq> None), wk_auth_complete := True,
        wk_last_msg_tcp := ce_now env, wk_last_msg_udp := ce_now env, wk_last_nc_msg := ce_now env,
        wk_b_rx := bandwidth_init (cn_rx_per_sec c), wk_b_tx := bandwidth_init (cn_tx_per_sec c)\<rparr>"

text \<open>
  How connect_handler goes: it gives up behind the lines listed, or enters the main loop. A send
  that fails ends the process; a buffer that is too small for the MTU does behind the MTU.
\<close>

datatype connected = Conn_closed "string list" | Conn_tunnel "string list" worker

definition connect_send :: "connect_env \<Rightarrow> conn_st \<Rightarrow> http_app \<Rightarrow> conn_plan \<Rightarrow> worker \<Rightarrow> connected" where
  "connect_send env c req plan ws =
     (let lines = cp_head plan @ cp_tail plan in
      case ce_fail env of
        Some k \<Rightarrow>
          if k < length (cp_head plan) then Conn_closed (take k lines)
          else if word_of_nat WS_BUFFER_SIZE \<le> cp_mtu plan + word_of_nat CSTP_OVERHEAD then Conn_closed (cp_head plan)
          else if k < length lines then Conn_closed (take k lines)
          else Conn_tunnel lines (tunnel_start env c req plan ws)
      | None \<Rightarrow>
          if word_of_nat WS_BUFFER_SIZE \<le> cp_mtu plan + word_of_nat CSTP_OVERHEAD then Conn_closed (cp_head plan)
          else Conn_tunnel lines (tunnel_start env c req plan ws))"

text \<open>
  The whole handler. \<open>state\<close> and \<open>cookie_set\<close> say how far the client has authenticated, \<open>auth\<close> is
  what auth_cookie makes of the settings.
\<close>

definition unavailable :: "string list" where
  "unavailable = [''HTTP/1.1 503 Service Unavailable'' @ CRLF, line ''X-Reason'' ''Server configuration error'' @ CRLF]"

definition connect_handler ::
  "connect_env \<Rightarrow> conn_cfg \<Rightarrow> if_mtu \<Rightarrow> (conn_st \<Rightarrow> int \<times> conn_st) \<Rightarrow> string \<Rightarrow> http_app \<Rightarrow> conn_st \<Rightarrow> worker \<Rightarrow> connected" where
  "connect_handler env cfg im auth url req c ws =
     (if ha_auth_state req \<noteq> S_AUTH_COOKIE \<or> \<not> ha_cookie_set req
      then Conn_closed [''HTTP/1.1 503 Service Unavailable'' @ CRLF @ CRLF]
      else
        (case auth c of
           (ret, c1) \<Rightarrow>
             if ret < 0 then
               (if ret = ERR_AUTH_FAIL
                then Conn_closed [''HTTP/1.1 401 Unauthorized'' @ CRLF @ CRLF,
                                  line ''X-Reason'' ''Cookie is not acceptable'' @ CRLF]
                else Conn_closed [''HTTP/1.1 503 Service Unavailable'' @ CRLF @ CRLF])
             else if url \<noteq> ''/CSCOSSLC/tunnel'' then Conn_closed [''HTTP/1.1 404 Nah, go away'' @ CRLF @ CRLF]
             else if vi_name (cn_network c1) = [] then Conn_closed unavailable
             else
               (case complete_vpn_info im c1 of
                  (ret2, c2) \<Rightarrow>
                    if ret2 < 0 then Conn_closed unavailable
                    else connect_send env c2 req (connect_plan env cfg c2 req) ws)))"

text \<open>
  auth_cookie: the certificate first, then the cookie to the main process and its reply.
  \<open>cert_ok\<close> is what get_cert_info makes of the certificate, \<open>sent\<close> the result of sending.
\<close>

definition CERTIFICATE :: u32 where "CERTIFICATE = 8"

definition auth_cookie ::
  "http_app \<Rightarrow> bool \<Rightarrow> bool \<Rightarrow> bool \<Rightarrow> int \<Rightarrow> int \<Rightarrow> int \<Rightarrow> auth_reply option \<Rightarrow> conn_st \<Rightarrow> int \<times> conn_st" where
  "auth_cookie req cisco cert_auth_ok cert_ok sent ret fd msg c =
     (if (case ha_selected_auth req of None \<Rightarrow> False | Some m \<Rightarrow> wa_type m AND CERTIFICATE \<noteq> 0)
         \<and> \<not> cisco \<and> \<not> (cert_auth_ok \<and> cert_ok)
      then (-1, c)
      else if sent < 0 then (sent, c)
      else recv_cookie_auth_reply ret fd msg c)"

end
