(* ===== verification/Connect.thy ===== *)
theory Connect
  imports WorkerConnect WorkerInv WorkerExample MainLoop
begin

text \<open>
  Entering the tunnel, with its neighbours: what the main process decided reaches the worker, only
  its reply lets the worker in, and the MTU with which the main loop starts.
\<close>

section \<open>An example\<close>

definition example_vpn :: vpn_st where
  "example_vpn = \<lparr>vi_name = ''vpns'', vi_ipv4_netmask = Some ''255.255.255.0'', vi_ipv4_network = Some ''10.0.0.0'',
     vi_ipv4 = None, vi_ipv4_local = None, vi_ipv6_network = None, vi_ipv6_prefix = 64, vi_ipv6 = None,
     vi_ipv6_local = None, vi_mtu = 1500, vi_routes = [], vi_no_routes = [], vi_dns = [], vi_nbns = []\<rparr>"

definition example_conn_st :: conn_st where
  "example_conn_st = \<lparr>cn_tun_fd = -1, cn_username = [], cn_groupname = [], cn_session_id = replicate 32 0,
     cn_vinfo = example_vpn\<lparr>vi_ipv4 := Some ''10.0.0.2''\<rparr>, cn_network = example_vpn, cn_rx_per_sec = 0, cn_tx_per_sec = 0,
     cn_net_priority = 0, cn_udp_port = 443, cn_xml_config_file = None, cn_routes = [], cn_no_routes = [],
     cn_dns = [], cn_nbns = [], cn_default_route = False\<rparr>"

definition example_conn_cfg :: conn_cfg where
  "example_conn_cfg = \<lparr>cc_dpd = 90, cc_mobile_dpd = 1800, cc_idle_timeout = 0, cc_mobile_idle_timeout = 0,
     cc_default_domain = None, cc_default_mtu = 0, cc_split_dns = [], cc_keepalive = 300, cc_is_dyndns = False,
     cc_rekey_time = 0, cc_rekey_ssl = False, cc_proxy_url = None, cc_custom_header = [], cc_banner = None,
     cc_version = ''ocserv''\<rparr>"

definition example_connect_env :: connect_env where
  "example_connect_env = \<lparr>ce_fail = None, ce_mss = None, ce_tls_overhead = 50, ce_dtls_overhead = 60,
     ce_session = True, ce_safe_renegotiation = True, ce_inet = True, ce_replace = Some, ce_now = 100\<rparr>"

definition example_request :: http_app where
  "example_request = \<lparr>ha_hostname = [], ha_user_agent = [], ha_agent_type = AGENT_OPENCONNECT,
     ha_is_mobile = False, ha_spnego_set = False, ha_master_secret = replicate 48 0,
     ha_master_secret_set = False, ha_ciphersuite = None, ha_base_mtu = 1400, ha_no_ipv4 = False,
     ha_no_ipv6 = False, ha_authorization = None, ha_cookie = [1], ha_cookie_set = True,
     ha_sid = replicate 16 0, ha_sid_set = False, ha_auth_state = S_AUTH_COOKIE,
     ha_full_ipv6 = False, ha_dtls_comp = None, ha_cstp_comp = None,
     ha_auth = [\<lparr>wa_enabled = True, wa_type = 1\<rparr>], ha_selected_auth = Some \<lparr>wa_enabled = True, wa_type = 1\<rparr>\<rparr>"

definition example_client :: proc_st where
  "example_client = (zero_proc 1)\<lparr>pr_tun_name := ''vpns0'', pr_username := ''bob'',
     pr_config := zero_group_cfg\<lparr>gf_routes := [''10.1.0.0/16'', ''default''], gf_dns := [''10.0.0.1'']\<rparr>\<rparr>"

definition example_human_name :: human where "example_human_name = (\<lambda>_ _. None)"

definition example_message :: auth_reply where
  "example_message = ok_auth_reply example_human_name example_client"

lemmas connect_examples = example_vpn_def example_conn_st_def example_conn_cfg_def example_connect_env_def
  example_request_def example_worker_def

definition conn_worker :: "connected \<Rightarrow> worker" where
  "conn_worker r = (case r of Conn_tunnel _ ws \<Rightarrow> ws | Conn_closed _ \<Rightarrow> example_worker)"

definition conn_lines :: "connected \<Rightarrow> string list" where
  "conn_lines r = (case r of Conn_tunnel ls _ \<Rightarrow> ls | Conn_closed ls \<Rightarrow> ls)"

lemma conn_tunnel_parts:
  "(case r of Conn_tunnel _ _ \<Rightarrow> True | Conn_closed _ \<Rightarrow> False) \<Longrightarrow> r = Conn_tunnel (conn_lines r) (conn_worker r)"
  by (cases r) (simp_all add: conn_lines_def conn_worker_def)

lemma plan_mtu:
  "cp_mtu (connect_plan env cfg c req) =
     (let base = base_mtu env cfg req (vi_mtu (cn_vinfo c)); mtu = tls_mtu env base
      in if udp_wanted c req then dtls_mtu env base mtu else mtu)"
  by (simp add: connect_plan_def Let_def)

section \<open>Only with the reply of the main process\<close>

text \<open>
  C21: entering the tunnel. connect_handler enters the main loop only for a request of
  /CSCOSSLC/tunnel whose headers brought a cookie, when the main process answered that cookie
  with OK and a tun device; and, where certificates are asked for and the compatibility option
  is off, only with a valid certificate. The main loop starts with that session's tun device,
  and at least one address was assigned.
\<close>

theorem tunnel_needs_reply:
  assumes "connect_handler env cfg im (auth_cookie req cisco cert_auth_ok cert_ok sent ret fd msg) url req c ws
    = Conn_tunnel lines ws'"
  shows "ha_auth_state req = S_AUTH_COOKIE \<and> ha_cookie_set req \<and> url = ''/CSCOSSLC/tunnel''
    \<and> (\<exists>m. msg = Some m) \<and> fd \<noteq> -1 \<and> 0 \<le> ret \<and> 0 \<le> sent
    \<and> (\<forall>m. ha_selected_auth req = Some m \<and> wa_type m AND CERTIFICATE \<noteq> 0 \<and> \<not> cisco
        \<longrightarrow> cert_auth_ok \<and> cert_ok)
    \<and> (\<exists>c'. recv_cookie_auth_reply ret fd msg c = (0, c') \<and> cn_tun_fd c' = fd
        \<and> \<not> (vi_ipv4 (cn_vinfo c') = None \<and> vi_ipv6 (cn_vinfo c') = None))"
proof -
  let ?auth = "auth_cookie req cisco cert_auth_ok cert_ok sent ret fd msg"
  obtain r c1 where r: "?auth c = (r, c1)" by (cases "?auth c")
  have s: "ha_auth_state req = S_AUTH_COOKIE" "ha_cookie_set req" "url = ''/CSCOSSLC/tunnel''" "0 \<le> r"
    and v: "0 \<le> fst (complete_vpn_info im c1)"
    using assms r by (auto simp: connect_handler_def split: if_splits prod.splits)
  have "r = 0 \<and> fd \<noteq> -1 \<and> 0 \<le> ret \<and> 0 \<le> sent \<and> (\<exists>m. msg = Some m)
      \<and> recv_cookie_auth_reply ret fd msg c = (0, c1) \<and> cn_tun_fd c1 = fd"
    using r s(4) by (auto simp: auth_cookie_def recv_cookie_auth_reply_def ERR_AUTH_FAIL_def reply_routes_def Let_def
        split: if_splits option.splits)
  moreover have "\<not> (vi_ipv4 (cn_vinfo c1) = None \<and> vi_ipv6 (cn_vinfo c1) = None)"
    using v by (auto simp: complete_vpn_info_def Let_def split: if_splits)
  moreover have "\<forall>m. ha_selected_auth req = Some m \<and> wa_type m AND CERTIFICATE \<noteq> 0 \<and> \<not> cisco
      \<longrightarrow> cert_auth_ok \<and> cert_ok"
    using r s(4) by (auto simp: auth_cookie_def split: if_splits)
  ultimately show ?thesis using s by blast
qed

definition example_connection :: connected where
  "example_connection = connect_handler example_connect_env example_conn_cfg No_mtu
     (auth_cookie example_request False False False 0 0 5 (Some example_message))
     ''/CSCOSSLC/tunnel'' example_request example_conn_st example_worker"

lemma example_connects: "case example_connection of Conn_tunnel _ _ \<Rightarrow> True | Conn_closed _ \<Rightarrow> False"
  by (simp add: example_connection_def connect_handler_def auth_cookie_def recv_cookie_auth_reply_def
      reply_routes_def reply_vinfo_def reply_addr_def reply_network_def complete_vpn_info_def connect_examples
      example_message_def ok_auth_reply_def human_of_def example_client_def zero_proc_def zero_group_cfg_def
      CERTIFICATE_def Let_def connect_send_def plan_mtu base_mtu_def tls_mtu_def udp_wanted_def
      WS_BUFFER_SIZE_def CSTP_OVERHEAD_def)

theorem tunnel_needs_reply_witness:
  "\<exists>c'. recv_cookie_auth_reply 0 5 (Some example_message) example_conn_st = (0, c') \<and> cn_tun_fd c' = 5"
  using conn_tunnel_parts [OF example_connects] unfolding example_connection_def
  by (blast dest: tunnel_needs_reply)

section \<open>What the main process decided\<close>

lemma ucast_low: "ucast (ucast w :: u32) = (w mod 2 ^ 32 :: u64)"
proof -
  have "ucast (ucast w :: u32) = take_bit 32 w" by transfer simp
  then show ?thesis by (simp add: take_bit_eq_mod)
qed

text \<open>
  C22: from the main process to the worker. When the main process lets a worker in, its reply makes
  the worker take over everything that the reply carries of its entry of struct proc_st: the device and its
  name, the names of user and group (cut to their buffers), the DTLS session id, the remote and local
  addresses of the leases (0.0.0.0 or :: counts as none), masks and networks, rates (their low 32
  bits) and priority where they are set, no-udp as port 0, the profile, name servers and excluded
  routes. The client's own routes are taken over unless one of them is a default route, which
  replaces them all. What the entry leaves unset keeps the worker's value. The prefix of the
  IPv6 network does not arrive: whatever the group or user is configured with, the worker
  keeps its own.
\<close>

theorem reply_reaches_worker:
  assumes "send_cookie_auth_reply human 0 s p True = (0, out (O_auth_reply (pr_addr p) msg) s)"
    and "c_string (pr_tun_name p) \<noteq> []" and "fd \<noteq> -1"
    and "g = pr_config p" and "rip = (\<lambda>l. (le_rip l, le_rip_len l))" and "lip = (\<lambda>l. (le_lip l, le_lip_len l))"
  shows "\<exists>c'. recv_cookie_auth_reply 0 fd msg c = (0, c')
    \<and> cn_tun_fd c' = fd \<and> vi_name (cn_vinfo c') = take 15 (pr_tun_name p)
    \<and> cn_username c' = take 63 (pr_username p) \<and> cn_groupname c' = take 63 (pr_groupname p)
    \<and> cn_session_id c' = pr_dtls_session_id p
    \<and> vi_ipv4 (cn_vinfo c') = reply_addr ''0.0.0.0'' (human_of human rip (pr_ipv4 p)) (vi_ipv4 (cn_vinfo c))
    \<and> vi_ipv4_local (cn_vinfo c') = reply_addr ''0.0.0.0'' (human_of human lip (pr_ipv4 p)) (vi_ipv4_local (cn_vinfo c))
    \<and> vi_ipv6 (cn_vinfo c') = reply_addr ''::'' (human_of human rip (pr_ipv6 p)) (vi_ipv6 (cn_vinfo c))
    \<and> vi_ipv6_local (cn_vinfo c') = reply_addr ''::'' (human_of human lip (pr_ipv6 p)) (vi_ipv6_local (cn_vinfo c))
    \<and> vi_ipv4_netmask (cn_network c')
        = (case lc_ipv4_netmask (gf_lease g) of None \<Rightarrow> vi_ipv4_netmask (cn_network c) | Some m \<Rightarrow> Some m)
    \<and> vi_ipv4_network (cn_network c')
        = (case lc_ipv4_network (gf_lease g) of None \<Rightarrow> vi_ipv4_network (cn_network c) | Some m \<Rightarrow> Some m)
    \<and> vi_ipv6_network (cn_network c')
        = (case lc_ipv6_network (gf_lease g) of None \<Rightarrow> vi_ipv6_network (cn_network c) | Some m \<Rightarrow> Some m)
    \<and> cn_rx_per_sec c' = (if gf_rx_per_sec g = 0 then cn_rx_per_sec c else gf_rx_per_sec g mod 2 ^ 32)
    \<and> cn_tx_per_sec c' = (if gf_tx_per_sec g = 0 then cn_tx_per_sec c else gf_tx_per_sec g mod 2 ^ 32)
    \<and> cn_net_priority c' = (if gf_net_priority g = 0 then cn_net_priority c else gf_net_priority g)
    \<and> cn_udp_port c' = (if gf_no_udp g then 0 else cn_udp_port c)
    \<and> cn_xml_config_file c' = (case gf_xml_config_file g of None \<Rightarrow> cn_xml_config_file c | Some f \<Rightarrow> Some f)
    \<and> cn_dns c' = gf_dns g \<and> cn_nbns c' = gf_nbns g \<and> cn_no_routes c' = gf_no_routes g
    \<and> (if check_if_default_route (gf_routes g) then cn_routes c' = [] \<and> cn_default_route c'
       else cn_routes c' = gf_routes g \<and> cn_default_route c' = cn_default_route c)
    \<and> vi_ipv6_prefix (cn_network c') = vi_ipv6_prefix (cn_network c)"
proof -
  have "ms_out (snd (send_cookie_auth_reply human 0 s p True)) = ms_out (out (O_auth_reply (pr_addr p) msg) s)"
    by (simp add: assms(1))
  then have "msg = Some (ok_auth_reply human p)"
    using assms(2) by (simp add: send_cookie_auth_reply_def Let_def out_def)
  then show ?thesis
    using assms(3)
    by (simp add: recv_cookie_auth_reply_def reply_routes_def reply_vinfo_def reply_network_def reply_value_def
        ok_auth_reply_def Let_def strlcpy_str_def assms(4-6) ucast_low check_if_default_route_def split: option.split)
qed

theorem reply_reaches_worker_witness:
  "\<exists>c'. recv_cookie_auth_reply 0 5 (Some example_message) example_conn_st = (0, c')
    \<and> cn_username c' = ''bob'' \<and> cn_routes c' = [] \<and> cn_default_route c' \<and> cn_dns c' = [''10.0.0.1'']"
proof -
  have n: "c_string (pr_tun_name example_client) \<noteq> []" by code_simp
  have "send_cookie_auth_reply example_human_name 0 main_init example_client True
      = (0, out (O_auth_reply (pr_addr example_client) (Some example_message)) main_init)"
    using n by (simp add: send_cookie_auth_reply_def Let_def example_message_def)
  from reply_reaches_worker [OF this n, of 5, OF _ refl refl refl, of example_conn_st] show ?thesis
    by (auto simp: example_client_def check_if_default_route_def)
qed

section \<open>The MTU\<close>

lemma buffer_check:
  fixes mtu :: u32
  assumes "\<not> word_of_nat WS_BUFFER_SIZE \<le> mtu + word_of_nat CSTP_OVERHEAD" and "mtu < 2 ^ 31"
  shows "unat mtu + 8 < 16384"
proof -
  have "unat (mtu + 8) = unat mtu + 8" using assms(2) by (simp add: unat_word_ariths word_less_nat_alt)
  then show ?thesis using assms(1) by (simp add: WS_BUFFER_SIZE_def CSTP_OVERHEAD_def word_le_nat_alt)
qed

lemma connect_send_tunnel:
  assumes "connect_send env c req plan ws = Conn_tunnel lines ws'"
  shows "ws' = tunnel_start env c req plan ws \<and> lines = cp_head plan @ cp_tail plan
    \<and> \<not> word_of_nat WS_BUFFER_SIZE \<le> cp_mtu plan + word_of_nat CSTP_OVERHEAD"
  using assms by (auto simp: connect_send_def Let_def split: option.splits if_splits)

lemma no_wrap: "b \<le> a \<Longrightarrow> a < 2 ^ 31 \<Longrightarrow> a - b \<le> a \<and> a - b < 2 ^ 31" for a b :: u32
  by (simp add: word_le_nat_alt word_less_nat_alt unat_sub)

lemma plan_mtu_small:
  assumes "base_mtu env cfg req (vi_mtu (cn_vinfo c)) = base" and "base < 2 ^ 31"
    and "word_of_nat CSTP_OVERHEAD + ce_tls_overhead env \<le> base"
  shows "cp_mtu (connect_plan env cfg c req) < 2 ^ 31"
proof -
  have "tls_mtu env base < 2 ^ 31" using no_wrap [OF assms(3,2)] by (simp add: tls_mtu_def)
  then show ?thesis
    using assms(1) by (auto simp: connect_plan_def Let_def dtls_mtu_def min_less_iff_disj)
qed

text \<open>
  C12: the buffer holds every packet. When the base MTU is at least the overhead of the TLS channel,
  a worker that enters its main loop has an MTU that fits its buffer of 16384 bytes together with
  the header, and through every later run everything it sends fits as well.
\<close>

theorem tunnel_fits_buffer:
  assumes "connect_send env c req (connect_plan env cfg c req) ws = Conn_tunnel lines ws'"
    and "base_mtu env cfg req (vi_mtu (cn_vinfo c)) = base" and "base < 2 ^ 31"
    and "word_of_nat CSTP_OVERHEAD + ce_tls_overhead env \<le> base"
    and "wk_out ws = []" and "wk_dtls_session ws = No_dtls" and "wk_last_bad_mtu ws = 0"
    and "worker_run wcfg overhead ws' rs = Inr ((), ws'')"
  shows "\<exists>M. unat M + 8 < 16384 \<and> wk_conn_mtu ws' \<le> M \<and> wk_conn_mtu ws'' \<le> M
    \<and> (\<forall>m \<in> set (wk_out ws''). out_ok M m)"
proof -
  let ?p = "connect_plan env cfg c req"
  define M :: u32 where "M = max 1281 (cp_mtu ?p)"
  note t = connect_send_tunnel [OF assms(1)]
  have "unat (cp_mtu ?p) + 8 < 16384"
    using buffer_check t plan_mtu_small [OF assms(2-4)] by blast
  then have M: "unat M + 8 < 16384" "cp_mtu ?p \<le> M" by (auto simp: M_def max_def)
  then have "mtu_bound (wk_ipv6 ws') M" by (auto simp: mtu_bound_def M_def word_less_nat_alt max_def word_le_nat_alt)
  moreover have "wk_conn_mtu ws' = cp_mtu ?p" "wk_last_bad_mtu ws' = 0" "wk_dtls_session ws' = No_dtls"
    "\<not> needs_dtls (wk_udp_state ws')" "wk_out ws' = [To_main_mtu (cp_mtu ?p), To_main_info]"
    using t assms(5-7) by (simp_all add: tunnel_start_def wout_def mtu_send_def)
  ultimately have "worker_ok M False ws'" using M(2) by (simp add: worker_ok_def out_ok_def)
  then have "worker_ok M False ws''" using worker_run_ok assms(8) by (metis wres_all_simps(1))
  then show ?thesis using M \<open>wk_conn_mtu ws' = cp_mtu ?p\<close> by (auto simp: worker_ok_def)
qed

definition example_sent :: connected where
  "example_sent = connect_send example_connect_env example_conn_st example_request
     (connect_plan example_connect_env example_conn_cfg example_conn_st example_request) example_worker"

lemma example_sent_tunnel: "case example_sent of Conn_tunnel _ _ \<Rightarrow> True | Conn_closed _ \<Rightarrow> False"
  by (simp add: example_sent_def connect_send_def plan_mtu base_mtu_def tls_mtu_def udp_wanted_def
      connect_examples WS_BUFFER_SIZE_def CSTP_OVERHEAD_def Let_def)

lemma example_sent_worker:
  "conn_worker example_sent = example_worker
     \<lparr>wk_udp_state := UP_DISABLED, wk_suite := None, wk_dtls_comp := None, wk_cstp_comp := None,
      wk_conn_mtu := 1342, wk_crypto_overhead := 58, wk_out := [To_main_mtu 1342, To_main_info]\<rparr>"
  by (simp add: example_sent_def conn_worker_def connect_send_def plan_mtu base_mtu_def tls_mtu_def udp_wanted_def
      connect_examples WS_BUFFER_SIZE_def CSTP_OVERHEAD_def Let_def tunnel_start_def wout_def mtu_send_def
      connect_plan_def)

lemma example_sent_runs:
  "case worker_run example_worker_cfg 0 (conn_worker example_sent) [(example_env, example_round)] of
     Inl _ \<Rightarrow> False | Inr _ \<Rightarrow> True"
  unfolding example_sent_worker by code_simp

theorem tunnel_fits_buffer_witness:
  "\<exists>M. unat M + 8 < 16384 \<and> wk_conn_mtu (conn_worker example_sent) \<le> M
    \<and> wk_conn_mtu (run_end (worker_run example_worker_cfg 0 (conn_worker example_sent) [(example_env, example_round)])) \<le> M"
  using tunnel_fits_buffer [OF conn_tunnel_parts [OF example_sent_tunnel, unfolded example_sent_def] refl _ _ _ _ _
      run_end_returns [OF example_sent_runs, unfolded example_sent_def], folded example_sent_def]
  by (auto simp: connect_examples base_mtu_def CSTP_OVERHEAD_def)

text \<open>
  The check of the buffer wraps. A client that asks for a base MTU of 1 to 8 bytes less than
  the overhead of the TLS channel, and for no UDP, gets into the main loop with an MTU of almost
  2^32: base MTU less overhead is negative, and adding the header to it in the check makes it
  small. What tun_mainloop may then read into the buffer of 16384 bytes is not bounded.
\<close>

theorem mtu_check_wraps:
  assumes "ce_fail env = None" and "ce_mss env = None" and "cc_default_mtu cfg = 0"
    and "\<not> udp_wanted c req" and "0 < ha_base_mtu req" and "ha_base_mtu req \<le> vi_mtu (cn_vinfo c)"
    and "unat (ha_base_mtu req) + k = 8 + unat (ce_tls_overhead env)" and "1 \<le> k" and "k \<le> 8"
    and "unat (ce_tls_overhead env) < 2 ^ 31"
  shows "\<exists>lines ws'. connect_send env c req (connect_plan env cfg c req) ws = Conn_tunnel lines ws'
    \<and> unat (wk_conn_mtu ws') = 2 ^ 32 - k \<and> WS_BUFFER_SIZE < unat (wk_conn_mtu ws')"
proof -
  let ?o = "8 + ce_tls_overhead env"
  have base: "base_mtu env cfg req (vi_mtu (cn_vinfo c)) = ha_base_mtu req"
    using assms(2,3,5,6) by (simp add: base_mtu_def Let_def min_def)
  have o: "unat ?o = 8 + unat (ce_tls_overhead env)" using assms(10) by (simp add: unat_word_ariths)
  have "unat (ha_base_mtu req) = unat ?o - k" "k \<le> unat ?o" using assms(7) o by simp_all
  then have "ha_base_mtu req = ?o - word_of_nat k"
    using assms(9) by (simp add: word_unat_eq_iff unat_sub word_le_nat_alt unat_of_nat take_bit_eq_mod)
  then have m: "cp_mtu (connect_plan env cfg c req) = - word_of_nat k"
    using assms(4) base by (simp add: connect_plan_def Let_def tls_mtu_def CSTP_OVERHEAD_def)
  have "(- word_of_nat k :: u32) = word_of_nat (2 ^ 32 - k)" using assms(9) by (simp add: of_nat_diff)
  then have u: "unat (- word_of_nat k :: u32) = 2 ^ 32 - k"
    using assms(8) by (simp only: unat_of_nat) (simp add: take_bit_eq_mod)
  have "unat (- word_of_nat k + 8 :: u32) = 8 - k"
  proof -
    have "(- word_of_nat k + 8 :: u32) = word_of_nat (8 - k)" using assms(9) by (simp add: of_nat_diff)
    then show ?thesis using assms(9) by (simp only: unat_of_nat) (simp add: take_bit_eq_mod)
  qed
  then have "\<not> word_of_nat WS_BUFFER_SIZE \<le> (- word_of_nat k + word_of_nat CSTP_OVERHEAD :: u32)"
    by (simp add: WS_BUFFER_SIZE_def CSTP_OVERHEAD_def word_le_nat_alt)
  then show ?thesis
    using assms(1) u assms(9) by (simp add: connect_send_def m tunnel_start_def WS_BUFFER_SIZE_def Let_def)
qed

theorem mtu_check_wraps_witness:
  "\<exists>lines ws'. connect_send example_connect_env example_conn_st (example_request\<lparr>ha_base_mtu := 54\<rparr>)
      (connect_plan example_connect_env example_conn_cfg example_conn_st (example_request\<lparr>ha_base_mtu := 54\<rparr>))
      example_worker = Conn_tunnel lines ws'
    \<and> unat (wk_conn_mtu ws') = 2 ^ 32 - 4 \<and> WS_BUFFER_SIZE < unat (wk_conn_mtu ws')"
  by (rule mtu_check_wraps) (simp_all add: connect_examples udp_wanted_def)

end
