(* ===== verification/Plain.thy ===== *)
theory Plain
  imports HttpReq SecAuth
begin

text \<open>
  The authentication module for password files, src/auth/plain.c: reading a user's line, groups,
  and checking a password with crypt(3), which is a parameter. A file is its text; lines are cut as
  fgets cuts them for the buffer of 512 bytes.
\<close>

section \<open>Reading the file\<close>

abbreviation LF :: char where "LF \<equiv> CHR 0x0A"
abbreviation CR :: char where "CR \<equiv> CHR 0x0D"
abbreviation COLON :: char where "COLON \<equiv> CHR '':''"
abbreviation COMMA :: char where "COMMA \<equiv> CHR '',''"

definition MAX_GROUPS :: nat where "MAX_GROUPS = 32"
definition MAX_CPASS_SIZE :: nat where "MAX_CPASS_SIZE = 128"
definition MAX_PASSWORD_TRIES :: nat where "MAX_PASSWORD_TRIES = 3"

text \<open>One call of fgets with room for \<open>n\<close> characters: what it reads and what is left.\<close>

fun cut_line :: "nat \<Rightarrow> string \<Rightarrow> string \<times> string" where
  "cut_line 0 s = ([], s)"
| "cut_line (Suc n) [] = ([], [])"
| "cut_line (Suc n) (c # s) =
     (if c = LF then ([c], s) else (case cut_line n s of (l, r) \<Rightarrow> (c # l, r)))"

lemma cut_line_shorter: "cut_line n s = (l, r) \<Longrightarrow> l @ r = s"
  by (induction n s arbitrary: l rule: cut_line.induct) (auto split: if_splits prod.splits)

lemma cut_line_rest: "(l, r) = cut_line n (c # s) \<Longrightarrow> 0 < n \<Longrightarrow> length r < Suc (length s)"
  using cut_line_shorter [of n "c # s" l r] by (cases n) (auto split: if_splits prod.splits)

text \<open>All the reads of a loop; sizeof(line) - 1 = 511 leaves room for 510 characters.\<close>

function fgets_all :: "string \<Rightarrow> string list" where
  "fgets_all [] = []"
| "fgets_all (c # s) = (case cut_line 510 (c # s) of (l, r) \<Rightarrow> l # fgets_all r)"
  by pat_completeness auto
termination
  by (relation "measure length") (auto dest: cut_line_rest)

declare fgets_all.simps [simp del]

text \<open>The line without its end; it has more than four characters.\<close>

definition strip_line :: "string \<Rightarrow> string" where
  "strip_line s =
     (let a = (if last s = LF then butlast s else s) in if last a = CR then butlast a else a)"

section \<open>Groups\<close>

definition trim_right :: "string \<Rightarrow> string" where
  "trim_right s = rev (dropWhile c_isspace (rev s))"

text \<open>
  The loop of break_group_list. Spaces at the end of an element are removed from right to left;
  when the first element consists of spaces only, that runs below the start of the text. The last
  element is cut at its last space. \<open>first\<close>: is this the first element?
\<close>

definition cut_at_space :: "string \<Rightarrow> string" where
  "cut_at_space s = rev (tl (dropWhile (\<lambda>c. c \<noteq> CHR '' '') (rev s)))"

lemma skip_shorter: "x \<in> set p \<Longrightarrow> length (dropWhile f (drop (Suc n) p)) < length p"
  using length_dropWhile_le [of f "drop (Suc n) p"] by (cases p) auto

function break_groups :: "bool \<Rightarrow> string \<Rightarrow> string list \<Rightarrow> mem_error + string list" where
  "break_groups first p acc =
     (let seg = takeWhile (\<lambda>c. c \<noteq> COMMA) p in
      if COMMA \<in> set p then
        if first \<and> list_all c_isspace seg then Inl Out_of_bounds
        else
          let acc1 = (if length seg = 1 then acc else acc @ [trim_right seg]) in
          if MAX_GROUPS \<le> length acc1 then Inr acc1
          else break_groups False (dropWhile c_isspace (drop (length seg + 1) p)) acc1
      else if CHR '' '' \<in> set seg then
        if first \<and> list_all c_isspace (cut_at_space seg) then Inl Out_of_bounds
        else Inr (acc @ [trim_right (cut_at_space seg)])
      else Inr (acc @ [seg]))"
  by pat_completeness auto
termination
  by (relation "measure (\<lambda>(first, p, acc). length p)") (auto simp: skip_shorter)

declare break_groups.simps [simp del]

definition break_group_list :: "string \<Rightarrow> mem_error + string list" where
  "break_group_list text = break_groups True text []"

section \<open>The module\<close>

text \<open>The context; \<open>pc_failed\<close> says which message pass_msg is.\<close>

record plain_ctx =
  pc_username :: string
  pc_cpass :: string
  pc_groupnames :: "string list"
  pc_failed :: bool
  pc_retries :: u32

text \<open>The loop of read_auth_pass over the lines; groups and password found so far.\<close>

fun scan_passwd :: "string \<Rightarrow> string list \<Rightarrow> string list \<times> string \<Rightarrow> mem_error + string list \<times> string" where
  "scan_passwd user [] found = Inr found"
| "scan_passwd user (l # ls) found =
     (let s = c_string l in
      if length s \<le> 4 then scan_passwd user ls found
      else
        (case strtok_all COLON [] (strip_line s) of
           name # g # rest \<Rightarrow>
             if name = user then
               (case break_group_list g of
                  Inl e \<Rightarrow> Inl e
                | Inr gs \<Rightarrow>
                    (case rest of
                       [] \<Rightarrow> scan_passwd user ls (gs, snd found)
                     | h # _ \<Rightarrow> Inr (gs, strlcpy_str MAX_CPASS_SIZE h)))
             else scan_passwd user ls found
         | _ \<Rightarrow> scan_passwd user ls found))"

text \<open>None: the file cannot be opened.\<close>

definition read_auth_pass :: "string option \<Rightarrow> plain_ctx \<Rightarrow> mem_error + int \<times> plain_ctx" where
  "read_auth_pass file pctx =
     (case file of
        None \<Rightarrow> Inr (-1, pctx)
      | Some text \<Rightarrow>
          (case scan_passwd (pc_username pctx) (fgets_all text) (pc_groupnames pctx, pc_cpass pctx) of
             Inl e \<Rightarrow> Inl e
           | Inr (gs, h) \<Rightarrow> Inr (0, pctx\<lparr>pc_groupnames := gs, pc_cpass := h\<rparr>)))"

definition plain_auth_init :: "string option \<Rightarrow> string option \<Rightarrow> mem_error + int \<times> plain_ctx option" where
  "plain_auth_init file username =
     (case username of
        None \<Rightarrow> Inr (ERR_AUTH_FAIL, None)
      | Some u \<Rightarrow>
          if u = [] then Inr (ERR_AUTH_FAIL, None)
          else
            (case read_auth_pass file \<lparr>pc_username = strlcpy_str MAX_USERNAME_SIZE u, pc_cpass = [],
                    pc_groupnames = [], pc_failed = False, pc_retries = 0\<rparr> of
               Inl e \<Rightarrow> Inl e
             | Inr (ret, pctx) \<Rightarrow>
                 if ret < 0 then Inr (ERR_AUTH_FAIL, None) else Inr (ERR_AUTH_CONTINUE, Some pctx)))"

definition plain_auth_group :: "plain_ctx \<Rightarrow> string option \<Rightarrow> nat \<Rightarrow> int \<times> string" where
  "plain_auth_group pctx suggested siz =
     (case suggested of
        None \<Rightarrow> (0, case pc_groupnames pctx of [] \<Rightarrow> [] | g # _ \<Rightarrow> strlcpy_str siz g)
      | Some s \<Rightarrow>
          if s \<notin> set (pc_groupnames pctx) then (-1, [])
          else (let g = strlcpy_str siz s in
                (0, if g = [] then strlcpy_str siz (hd (pc_groupnames pctx)) else g)))"

text \<open>crypt returns NULL on an error, which strcmp is not made for.\<close>

definition plain_auth_pass ::
  "(string \<Rightarrow> string \<Rightarrow> string option) \<Rightarrow> plain_ctx \<Rightarrow> string \<Rightarrow> mem_error + int \<times> plain_ctx" where
  "plain_auth_pass crypt pctx pass =
     (let retry = (if unat (pc_retries pctx) < MAX_PASSWORD_TRIES - 1
                   then (ERR_AUTH_CONTINUE, pctx\<lparr>pc_retries := pc_retries pctx + 1, pc_failed := True\<rparr>)
                   else (ERR_AUTH_FAIL, pctx\<lparr>pc_retries := pc_retries pctx + 1\<rparr>))
      in if pc_cpass pctx = [] then Inr retry
         else (case crypt pass (pc_cpass pctx) of
                 None \<Rightarrow> Inl Null_pointer
               | Some h \<Rightarrow> if h = pc_cpass pctx then Inr (0, pctx) else Inr retry))"

definition plain_auth_msg :: "plain_ctx \<Rightarrow> int \<times> string option" where
  "plain_auth_msg pctx =
     (0, Some (if pc_failed pctx then ''Login failed.'' @ [LF] @ ''Please enter your password.''
               else ''Please enter your password.''))"

text \<open>
  plain_auth_funcs as the security module sees it, for a crypt that always returns a string and a
  file whose reading stays within bounds; then no call ends in an error.
\<close>

definition plain_auth_funcs :: "string option \<Rightarrow> (string \<Rightarrow> string \<Rightarrow> string) \<Rightarrow> plain_ctx auth_mod" where
  "plain_auth_funcs file crypt =
     \<lparr>am_allows_retries = True,
      am_auth_init = (\<lambda>u ip. case plain_auth_init file u of Inl _ \<Rightarrow> (ERR_AUTH_FAIL, None) | Inr r \<Rightarrow> r),
      am_auth_msg = (\<lambda>ctx. case ctx of None \<Rightarrow> (0, None) | Some c \<Rightarrow> plain_auth_msg c),
      am_auth_pass = (\<lambda>ctx p. case ctx of
          None \<Rightarrow> (ERR_AUTH_FAIL, None)
        | Some c \<Rightarrow> (case plain_auth_pass (\<lambda>a b. Some (crypt a b)) c p of
            Inl _ \<Rightarrow> (ERR_AUTH_FAIL, ctx) | Inr (r, c') \<Rightarrow> (r, Some c'))),
      am_auth_group = (\<lambda>ctx g. case ctx of None \<Rightarrow> (-1, []) | Some c \<Rightarrow> plain_auth_group c g MAX_GROUPNAME_SIZE),
      am_auth_user = (\<lambda>ctx u. u)\<rparr>"

text \<open>The names offered in the login form; \<open>order\<close> is the order of the hash table.\<close>

fun line_groups :: "string list \<Rightarrow> mem_error + string list" where
  "line_groups [] = Inr []"
| "line_groups (l # ls) =
     (let s = c_string l in
      case (if length s \<le> 4 then [] else strtok_all COLON [] (strip_line s)) of
        _ # g # _ \<Rightarrow>
          (case break_group_list g of
             Inl e \<Rightarrow> Inl e
           | Inr gs \<Rightarrow> (case line_groups ls of Inl e \<Rightarrow> Inl e | Inr gs' \<Rightarrow> Inr (gs @ gs')))
      | _ \<Rightarrow> line_groups ls)"

definition plain_group_list :: "(string list \<Rightarrow> string list) \<Rightarrow> string \<Rightarrow> mem_error + string list" where
  "plain_group_list order text =
     (case line_groups (fgets_all text) of
        Inl e \<Rightarrow> Inl e
      | Inr gs \<Rightarrow> Inr (take MAX_GROUPS (order (remdups (filter (\<lambda>g. 1 < length g) gs)))))"

end
