(* ===== verification/Ocpasswd.thy ===== *)
theory Ocpasswd
  imports Plain
begin

text \<open>
  The password file utility, src/ocpasswd.c: setting a password, deleting, locking and unlocking a
  user. Each command copies the file line by line into a temporary one, which must not exist yet,
  and renames it. Random bytes, crypt(3) and the outcomes of opening and renaming are parameters.
\<close>

section \<open>Lines\<close>

text \<open>What getline returns until the end of the file.\<close>

fun getlines :: "string \<Rightarrow> string list" where
  "getlines [] = []"
| "getlines (c # s) =
     (if c = LF then [LF] # getlines s
      else (case getlines s of [] \<Rightarrow> [[c]] | l # ls \<Rightarrow> (c # l) # ls))"

text \<open>The text before the first colon, if there is one before a NUL, is compared with the user.\<close>

definition field_name :: "string \<Rightarrow> string" where
  "field_name l = takeWhile (\<lambda>c. c \<noteq> COLON) l"

definition has_field :: "string \<Rightarrow> bool" where
  "has_field l \<longleftrightarrow> COLON \<in> set (c_string l)"

definition passwd_line :: "string \<Rightarrow> string \<Rightarrow> string \<Rightarrow> string" where
  "passwd_line user grp h = user @ [COLON] @ grp @ [COLON] @ h @ [LF]"

definition set_line :: "string \<Rightarrow> string \<Rightarrow> string \<Rightarrow> string" where
  "set_line user new l =
     (if \<not> has_field l then [] else if field_name l = user then new else l)"

definition is_user :: "string \<Rightarrow> string \<Rightarrow> bool" where
  "is_user user l \<longleftrightarrow> has_field l \<and> field_name l = user"

definition delete_line :: "string \<Rightarrow> string \<Rightarrow> string" where
  "delete_line user l = (if \<not> has_field l \<or> field_name l = user then [] else l)"

text \<open>A line in front of and from its second colon on; None without one.\<close>

definition second_field :: "string \<Rightarrow> (string \<times> string) option" where
  "second_field l =
     (let n = length (field_name l) + 1; r = drop n l in
      if COLON \<in> set (c_string r)
      then (let m = n + length (field_name r) + 1 in Some (take m l, drop m l)) else None)"

definition lock_line :: "string \<Rightarrow> string \<Rightarrow> string" where
  "lock_line user l =
     (if \<not> has_field l then []
      else if field_name l = user then
        (case second_field l of None \<Rightarrow> [] | Some (a, b) \<Rightarrow> a @ ''!'' @ b)
      else l)"

definition unlock_line :: "string \<Rightarrow> string \<Rightarrow> string" where
  "unlock_line user l =
     (if \<not> has_field l then []
      else if field_name l = user then
        (case second_field l of
           None \<Rightarrow> []
         | Some (a, b) \<Rightarrow> a @ (if b \<noteq> [] \<and> hd b = CHR ''!'' then tl b else b))
      else l)"

section \<open>Commands\<close>

text \<open>The password file and the temporary one; None: the file does not exist.\<close>

record passwd_fs =
  pf_file :: "string option"
  pf_tmp :: "string option"

record passwd_env =
  pe_rnd :: "byte list option"
  pe_crypt :: "string \<Rightarrow> string \<Rightarrow> string option"
  pe_sha2 :: bool    \<comment> \<open>TRY_SHA2_CRYPT\<close>
  pe_open :: bool
  pe_rename :: bool

definition SALT_SIZE :: nat where "SALT_SIZE = 16"

definition alphabet :: string where
  "alphabet = ''0123456789abcdefghijklmnopqrstuvwxyzABCDEFGHIJKLMNOPQRSTUVWXYZ./''"

definition make_salt :: "char \<Rightarrow> byte list \<Rightarrow> string" where
  "make_salt method rnd =
     ''$'' @ [method] @ ''$'' @ map (\<lambda>b. alphabet ! (unat b mod length alphabet)) rnd @ ''$''"

text \<open>The first method, then MD5; None is the exit when neither works.\<close>

definition crypt_passwd :: "passwd_env \<Rightarrow> byte list \<Rightarrow> string \<Rightarrow> string option" where
  "crypt_passwd env rnd passwd =
     (case pe_crypt env passwd (make_salt (if pe_sha2 env then CHR ''5'' else CHR ''1'') rnd) of
        Some h \<Rightarrow> Some h
      | None \<Rightarrow> pe_crypt env passwd (make_salt (CHR ''1'') rnd))"

text \<open>The temporary file becomes the password file; the flag is success.\<close>

definition rewrite_file :: "passwd_env \<Rightarrow> string \<Rightarrow> passwd_fs \<Rightarrow> bool \<times> passwd_fs" where
  "rewrite_file env text fs =
     (if pf_tmp fs \<noteq> None \<or> \<not> pe_open env then (False, fs)
      else if \<not> pe_rename env then (False, fs\<lparr>pf_tmp := Some text\<rparr>)
      else (True, fs\<lparr>pf_file := Some text\<rparr>))"

definition set_text :: "string \<Rightarrow> string \<Rightarrow> string option \<Rightarrow> string" where
  "set_text user new file =
     (case file of
        None \<Rightarrow> new
      | Some text \<Rightarrow>
          let ls = getlines text in
          concat (map (set_line user new) ls) @ (if list_ex (is_user user) ls then [] else new))"

definition crypt_int :: "passwd_env \<Rightarrow> string \<Rightarrow> string \<Rightarrow> string \<Rightarrow> passwd_fs \<Rightarrow> bool \<times> passwd_fs" where
  "crypt_int env user grp passwd fs =
     (case pe_rnd env of
        None \<Rightarrow> (False, fs)
      | Some rnd \<Rightarrow>
          (case crypt_passwd env rnd passwd of
             None \<Rightarrow> (False, fs)
           | Some h \<Rightarrow> rewrite_file env (set_text user (passwd_line user grp h) (pf_file fs)) fs))"

definition edit_file :: "passwd_env \<Rightarrow> (string \<Rightarrow> string) \<Rightarrow> passwd_fs \<Rightarrow> bool \<times> passwd_fs" where
  "edit_file env edit fs =
     (case pf_file fs of
        None \<Rightarrow> (False, fs)
      | Some text \<Rightarrow> rewrite_file env (concat (map edit (getlines text))) fs)"

definition delete_user :: "passwd_env \<Rightarrow> string \<Rightarrow> passwd_fs \<Rightarrow> bool \<times> passwd_fs" where
  "delete_user env user = edit_file env (delete_line user)"

definition lock_user :: "passwd_env \<Rightarrow> string \<Rightarrow> passwd_fs \<Rightarrow> bool \<times> passwd_fs" where
  "lock_user env user = edit_file env (lock_line user)"

definition unlock_user :: "passwd_env \<Rightarrow> string \<Rightarrow> passwd_fs \<Rightarrow> bool \<times> passwd_fs" where
  "unlock_user env user = edit_file env (unlock_line user)"

text \<open>
  The password read from a pipe, the first line of \<open>input\<close>. getline's -1 at the end of the input
  is kept in an unsigned variable, so it passes the test, and indexes the buffer. None is the exit.
\<close>

definition read_password :: "string \<Rightarrow> mem_error + string option" where
  "read_password input =
     (case getlines input of
        [] \<Rightarrow> Inl Out_of_bounds
      | l # _ \<Rightarrow>
          if length l \<le> 1 then Inr None
          else Inr (Some (c_string (if last l = LF then butlast l else l))))"

text \<open>What the options ask for, looked at in this order.\<close>

datatype passwd_cmd = Lock | Unlock | Delete | Set_password string    \<comment> \<open>the standard input\<close>

definition ocpasswd ::
  "passwd_env \<Rightarrow> passwd_cmd \<Rightarrow> string \<Rightarrow> string option \<Rightarrow> passwd_fs \<Rightarrow> mem_error + bool \<times> passwd_fs" where
  "ocpasswd env cmd user grp fs =
     (case cmd of
        Lock \<Rightarrow> Inr (lock_user env user fs)
      | Unlock \<Rightarrow> Inr (unlock_user env user fs)
      | Delete \<Rightarrow> Inr (delete_user env user fs)
      | Set_password input \<Rightarrow>
          (case read_password input of
             Inl e \<Rightarrow> Inl e
           | Inr None \<Rightarrow> Inr (False, fs)
           | Inr (Some p) \<Rightarrow>
               Inr (crypt_int env user (case grp of None \<Rightarrow> ''*'' | Some g \<Rightarrow> g) p fs)))"

end
