(* ===== verification/Passwd.thy ===== *)
theory Passwd
  imports Ocpasswd
begin

text \<open>
  The password file as a map: whatever ocpasswd does to the file, plain reads of it what the
  commands made of a map from users to groups and password hashes; and what a login against that
  file needs.
\<close>

section \<open>Tables\<close>

type_synonym entry = "string \<times> string \<times> string"    \<comment> \<open>user, groups, hash\<close>

definition entry_line :: "entry \<Rightarrow> string" where
  "entry_line e = (case e of (n, g, h) \<Rightarrow> passwd_line n g h)"

definition print_table :: "entry list \<Rightarrow> string" where
  "print_table t = concat (map entry_line t)"

definition plain_text :: "string \<Rightarrow> bool" where
  "plain_text s \<longleftrightarrow> list_all (\<lambda>c. c \<notin> set s) [NUL, COLON, LF, CR]"

definition groups_of :: "string \<Rightarrow> string list" where
  "groups_of g = (case break_group_list g of Inl _ \<Rightarrow> [] | Inr gs \<Rightarrow> gs)"

definition group_text :: "string \<Rightarrow> bool" where
  "group_text g \<longleftrightarrow> g \<noteq> [] \<and> plain_text g \<and> break_group_list g = Inr (groups_of g)"

definition user_text :: "string \<Rightarrow> bool" where
  "user_text n \<longleftrightarrow> n \<noteq> [] \<and> plain_text n"

definition pw_ok :: "entry \<Rightarrow> bool" where
  "pw_ok e \<longleftrightarrow> (case e of (n, g, h) \<Rightarrow> user_text n \<and> group_text g \<and> plain_text h)"

definition pw_table_ok :: "entry list \<Rightarrow> bool" where
  "pw_table_ok t \<longleftrightarrow> list_all pw_ok t \<and> distinct (map fst t)"

text \<open>The line fits one fgets, and the hash the module's field.\<close>

definition fits :: "entry \<Rightarrow> bool" where
  "fits e \<longleftrightarrow> (case e of (n, g, h) \<Rightarrow> length n + length g + length h \<le> 507 \<and> length h < 128)"

section \<open>Reading a table\<close>

lemma plain_text_iff: "plain_text s \<longleftrightarrow> NUL \<notin> set s \<and> COLON \<notin> set s \<and> LF \<notin> set s \<and> CR \<notin> set s"
  by (simp add: plain_text_def)

lemma getlines_line: "LF \<notin> set l \<Longrightarrow> getlines (l @ LF # s) = (l @ [LF]) # getlines s"
  by (induction l) auto

lemma cut_line_line: "LF \<notin> set l \<Longrightarrow> length l < n \<Longrightarrow> cut_line n (l @ LF # s) = (l @ [LF], s)"
proof (induction l arbitrary: n)
  case Nil
  then show ?case by (cases n) auto
next
  case (Cons c l)
  then show ?case by (cases n) auto
qed

lemma fgets_line:
  assumes "LF \<notin> set l" and "length l < 510"
  shows "fgets_all (l @ LF # s) = (l @ [LF]) # fgets_all s"
proof -
  obtain c r where c: "l @ LF # s = c # r" by (cases l) auto
  then have "fgets_all (l @ LF # s) = (case cut_line 510 (l @ LF # s) of (l, r) \<Rightarrow> l # fgets_all r)"
    by (simp add: fgets_all.simps)
  then show ?thesis using cut_line_line [OF assms] by simp
qed

lemma entry_line_split: "entry_line (n, g, h) = (n @ COLON # g @ COLON # h) @ [LF]"
  by (simp add: entry_line_def passwd_line_def)

lemma entry_no_lf: "pw_ok (n, g, h) \<Longrightarrow> LF \<notin> set (n @ COLON # g @ COLON # h)"
  by (auto simp: pw_ok_def user_text_def group_text_def plain_text_iff)

lemma getlines_table: "list_all pw_ok t \<Longrightarrow> getlines (print_table t) = map entry_line t"
proof (induction t)
  case (Cons e t)
  obtain n g h where e: "e = (n, g, h)" by (cases e)
  then show ?case
    using Cons getlines_line [OF entry_no_lf, of n g h "print_table t"]
    by (simp add: print_table_def entry_line_split)
qed (simp add: print_table_def)

lemma fgets_table: "list_all pw_ok t \<Longrightarrow> list_all fits t \<Longrightarrow> fgets_all (print_table t) = map entry_line t"
proof (induction t)
  case (Cons e t)
  obtain n g h where e: "e = (n, g, h)" by (cases e)
  then have "length (n @ COLON # g @ COLON # h) < 510" using Cons.prems by (simp add: fits_def)
  then show ?case
    using e Cons fgets_line [OF entry_no_lf, of n g h "print_table t"]
    by (simp add: print_table_def entry_line_split)
qed (simp add: print_table_def fgets_all.simps)

lemma strtok_acc:
  "d \<notin> set a \<Longrightarrow> acc @ a \<noteq> [] \<Longrightarrow> strtok_all d acc (a @ d # s) = (rev acc @ a) # strtok_all d [] s"
  by (induction a arbitrary: acc) auto

lemma strtok_end: "d \<notin> set a \<Longrightarrow> strtok_all d acc a = (if acc @ a = [] then [] else [rev acc @ a])"
  by (induction a arbitrary: acc) auto

lemma scan_line:
  assumes "pw_ok (n, g, h)" and "length h < 128"
  shows "scan_passwd u (entry_line (n, g, h) # ls) found =
    (if n = u then (if h = [] then scan_passwd u ls (groups_of g, snd found) else Inr (groups_of g, h))
     else scan_passwd u ls found)"
proof -
  have ok: "n \<noteq> []" "g \<noteq> []" "plain_text n" "plain_text g" "plain_text h" "break_group_list g = Inr (groups_of g)"
    using assms(1) by (auto simp: pw_ok_def user_text_def group_text_def)
  have c: "c_string (entry_line (n, g, h)) = entry_line (n, g, h)"
    using ok by (intro c_string_id) (auto simp: entry_line_split plain_text_iff)
  have len: "\<not> length (entry_line (n, g, h)) \<le> 4"
    using ok(1,2) by (cases n; cases g) (auto simp: entry_line_split)
  have "last (n @ COLON # g @ COLON # h) \<noteq> CR" using ok(5) by (cases h rule: rev_cases) (auto simp: plain_text_iff)
  then have s: "strip_line (entry_line (n, g, h)) = n @ COLON # g @ COLON # h"
    unfolding strip_line_def entry_line_split Let_def by (simp only: last_snoc butlast_snoc simp_thms if_True if_False)
  have "strtok_all COLON [] (n @ COLON # g @ COLON # h) = n # g # (if h = [] then [] else [h])"
    using ok by (simp add: strtok_acc strtok_end plain_text_iff)
  then show ?thesis
    using c len s ok assms(2) by (simp add: strlcpy_str_fits MAX_CPASS_SIZE_def Let_def)
qed

text \<open>What plain finds for a user of a table.\<close>

definition found_of :: "(string \<times> string) option \<Rightarrow> string list \<times> string" where
  "found_of r = (case r of None \<Rightarrow> ([], []) | Some (g, h) \<Rightarrow> (groups_of g, h))"

lemma scan_absent:
  "list_all pw_ok t \<Longrightarrow> list_all fits t \<Longrightarrow> u \<notin> set (map fst t) \<Longrightarrow> scan_passwd u (map entry_line t) found = Inr found"
proof (induction t)
  case (Cons e t)
  obtain n g h where e: "e = (n, g, h)" by (cases e)
  then have "length h < 128" using Cons.prems by (simp add: fits_def)
  then show ?case using Cons e by (auto simp: scan_line simp del: scan_passwd.simps)
qed simp

lemma scan_table:
  assumes "pw_table_ok t" and "list_all fits t"
  shows "scan_passwd u (map entry_line t) ([], []) = Inr (found_of (map_of t u))"
  using assms
proof (induction t)
  case (Cons e t)
  obtain n g h where e: "e = (n, g, h)" by (cases e)
  then have "length h < 128" using Cons.prems by (simp add: fits_def)
  then show ?case
    using Cons e scan_absent [of t u "(groups_of g, [])"]
    by (auto simp: scan_line pw_table_ok_def found_of_def simp del: scan_passwd.simps)
qed (simp add: found_of_def)

section \<open>Changing a table\<close>

lemma has_field_line: "pw_ok (n, g, h) \<Longrightarrow> has_field (entry_line (n, g, h)) \<and> field_name (entry_line (n, g, h)) = n"
proof -
  assume "pw_ok (n, g, h)"
  then have n: "NUL \<notin> set n" "COLON \<notin> set n" by (auto simp: pw_ok_def user_text_def plain_text_iff)
  have "c_string (n @ COLON # r) = n @ COLON # c_string r" for r
    using n(1) by (induction n) (auto simp: c_string_def)
  moreover have "takeWhile (\<lambda>c. c \<noteq> COLON) (n @ COLON # r) = n" for r
    using n(2) by (induction n) auto
  ultimately show ?thesis by (simp add: has_field_def field_name_def entry_line_def passwd_line_def)
qed

lemma second_field_line:
  assumes "pw_ok (n, g, h)"
  shows "second_field (entry_line (n, g, h)) = Some (n @ COLON # g @ [COLON], h @ [LF])"
proof -
  have g: "NUL \<notin> set g" "COLON \<notin> set g"
    using assms by (auto simp: pw_ok_def group_text_def plain_text_iff)
  have "c_string (g @ COLON # r) = g @ COLON # c_string r" for r
    using g(1) by (induction g) (auto simp: c_string_def)
  moreover have "takeWhile (\<lambda>c. c \<noteq> COLON) (g @ COLON # r) = g" for r
    using g(2) by (induction g) auto
  moreover have "field_name (entry_line (n, g, h)) = n" using has_field_line [OF assms] by simp
  ultimately show ?thesis
    by (simp add: second_field_def entry_line_def passwd_line_def field_name_def Let_def)
qed

text \<open>The commands on tables.\<close>

definition table_set :: "string \<Rightarrow> string \<Rightarrow> string \<Rightarrow> entry list \<Rightarrow> entry list" where
  "table_set u g h t = map (\<lambda>e. if fst e = u then (u, g, h) else e) t
     @ (if u \<in> set (map fst t) then [] else [(u, g, h)])"

definition table_edit :: "string \<Rightarrow> (string \<Rightarrow> string) \<Rightarrow> entry list \<Rightarrow> entry list" where
  "table_edit u f t = map (\<lambda>(n, g, h). if n = u then (n, g, f h) else (n, g, h)) t"

definition unlock_hash :: "string \<Rightarrow> string" where
  "unlock_hash h = (if h \<noteq> [] \<and> hd h = CHR ''!'' then tl h else h)"

lemma concat_lines:
  assumes "list_all pw_ok t" and "\<And>e. pw_ok e \<Longrightarrow> f (entry_line e) = entry_line (F e)"
  shows "concat (map f (map entry_line t)) = print_table (map F t)"
  using assms(1) by (induction t) (auto simp: print_table_def assms(2))

lemma set_text_table:
  assumes "list_all pw_ok t"
  shows "set_text u (passwd_line u g h) (Some (print_table t)) = print_table (table_set u g h t)"
proof -
  have "set_line u (passwd_line u g h) (entry_line e) = entry_line (if fst e = u then (u, g, h) else e)"
    if "pw_ok e" for e
  proof (cases e)
    case (fields n g' h')
    then have "has_field (entry_line e)" "field_name (entry_line e) = n" using has_field_line that by auto
    then show ?thesis using fields by (simp add: set_line_def entry_line_def [of "(u, g, h)"])
  qed
  then have c: "concat (map (set_line u (passwd_line u g h)) (map entry_line t))
      = print_table (map (\<lambda>e. if fst e = u then (u, g, h) else e) t)"
    using assms by (intro concat_lines)
  have "list_ex (is_user u) (map entry_line t) \<longleftrightarrow> u \<in> set (map fst t)"
    using assms
  proof (induction t)
    case (Cons e t)
    then show ?case using has_field_line by (cases e) (auto simp: is_user_def)
  qed simp
  then show ?thesis
    using c getlines_table [OF assms]
    by (simp add: set_text_def table_set_def Let_def) (simp add: print_table_def entry_line_def)
qed

lemma delete_table:
  assumes "list_all pw_ok t"
  shows "concat (map (delete_line u) (getlines (print_table t))) = print_table (filter (\<lambda>e. fst e \<noteq> u) t)"
proof -
  have "concat (map (delete_line u) (map entry_line t)) = print_table (filter (\<lambda>e. fst e \<noteq> u) t)"
    using assms
  proof (induction t)
    case (Cons e t)
    then show ?case using has_field_line by (cases e) (auto simp: delete_line_def print_table_def)
  qed (simp add: print_table_def)
  then show ?thesis using getlines_table [OF assms] by simp
qed

lemma edit_table:
  assumes "list_all pw_ok t"
    and "\<And>n g h. pw_ok (n, g, h) \<Longrightarrow> f (entry_line (n, g, h)) = entry_line (n, g, if n = u then F h else h)"
  shows "concat (map f (getlines (print_table t))) = print_table (table_edit u F t)"
proof -
  have "f (entry_line e) = entry_line (case e of (n, g, h) \<Rightarrow> if n = u then (n, g, F h) else (n, g, h))"
    if "pw_ok e" for e
    using that assms(2) by (cases e) auto
  then have "concat (map f (map entry_line t)) = print_table (table_edit u F t)"
    unfolding table_edit_def using assms(1) by (intro concat_lines)
  then show ?thesis using getlines_table [OF assms(1)] by simp
qed

lemma lock_table:
  assumes "list_all pw_ok t"
  shows "concat (map (lock_line u) (getlines (print_table t))) = print_table (table_edit u ((#) (CHR ''!'')) t)"
proof (rule edit_table [OF assms])
  fix n g h assume ok: "pw_ok (n, g, h)"
  have "lock_line u (entry_line (n, g, h)) =
      (if n = u then (n @ COLON # g @ [COLON]) @ ''!'' @ h @ [LF] else entry_line (n, g, h))"
    using has_field_line [OF ok] second_field_line [OF ok] by (auto simp: lock_line_def)
  then show "lock_line u (entry_line (n, g, h)) = entry_line (n, g, if n = u then CHR ''!'' # h else h)"
    by (simp add: entry_line_split)
qed

lemma unlock_table:
  assumes "list_all pw_ok t"
  shows "concat (map (unlock_line u) (getlines (print_table t))) = print_table (table_edit u unlock_hash t)"
proof (rule edit_table [OF assms])
  fix n g h assume ok: "pw_ok (n, g, h)"
  have "unlock_line u (entry_line (n, g, h)) =
      (if n = u then (n @ COLON # g @ [COLON]) @ unlock_hash h @ [LF] else entry_line (n, g, h))"
    using has_field_line [OF ok] second_field_line [OF ok] by (cases h) (auto simp: unlock_line_def unlock_hash_def)
  then show "unlock_line u (entry_line (n, g, h)) = entry_line (n, g, if n = u then unlock_hash h else h)"
    by (simp add: entry_line_split)
qed

section \<open>The commands as operations on a map\<close>

text \<open>The hash that a successful command stores.\<close>

definition set_hash :: "passwd_env \<Rightarrow> string \<Rightarrow> string option" where
  "set_hash env input =
     (case pe_rnd env of
        None \<Rightarrow> None
      | Some rnd \<Rightarrow> (case read_password input of Inr (Some p) \<Rightarrow> crypt_passwd env rnd p | _ \<Rightarrow> None))"

definition grp_of :: "string option \<Rightarrow> string" where
  "grp_of grp = (case grp of None \<Rightarrow> ''*'' | Some g \<Rightarrow> g)"

type_synonym passwd_map = "string \<Rightarrow> (string \<times> string) option"

definition passwd_spec :: "passwd_env \<Rightarrow> passwd_cmd \<Rightarrow> string \<Rightarrow> string option \<Rightarrow> passwd_map \<Rightarrow> passwd_map" where
  "passwd_spec env cmd u grp m =
     (case cmd of
        Lock \<Rightarrow> m(u := map_option (\<lambda>(g, h). (g, CHR ''!'' # h)) (m u))
      | Unlock \<Rightarrow> m(u := map_option (\<lambda>(g, h). (g, unlock_hash h)) (m u))
      | Delete \<Rightarrow> m(u := None)
      | Set_password input \<Rightarrow> m(u := map_option (Pair (grp_of grp)) (set_hash env input)))"

definition cmd_ok :: "passwd_env \<Rightarrow> passwd_cmd \<Rightarrow> string \<Rightarrow> string option \<Rightarrow> bool" where
  "cmd_ok env cmd u grp \<longleftrightarrow>
     (case cmd of
        Set_password input \<Rightarrow>
          user_text u \<and> group_text (grp_of grp) \<and> (case set_hash env input of None \<Rightarrow> True | Some h \<Rightarrow> plain_text h)
      | _ \<Rightarrow> True)"

lemma map_of_set: "map_of (table_set u g h t) = (map_of t)(u \<mapsto> (g, h))"
proof
  fix x
  show "map_of (table_set u g h t) x = ((map_of t)(u \<mapsto> (g, h))) x"
    by (induction t) (auto simp: table_set_def map_add_def split: if_splits option.splits)
qed

lemma map_of_edit: "map_of (table_edit u f t) = (map_of t)(u := map_option (\<lambda>(g, h). (g, f h)) (map_of t u))"
proof
  fix x
  show "map_of (table_edit u f t) x = ((map_of t)(u := map_option (\<lambda>(g, h). (g, f h)) (map_of t u))) x"
    by (induction t) (auto simp: table_edit_def)
qed

lemma map_of_delete: "map_of (filter (\<lambda>e. fst e \<noteq> u) t) = (map_of t)(u := None)"
proof
  fix x
  show "map_of (filter (\<lambda>e. fst e \<noteq> u) t) x = ((map_of t)(u := None)) x"
    by (induction t) auto
qed

lemma table_set_ok:
  assumes "pw_table_ok t" and "pw_ok (u, g, h)"
  shows "pw_table_ok (table_set u g h t)"
proof -
  have "map fst (map (\<lambda>e. if fst e = u then (u, g, h) else e) t) = map fst t" by (induction t) auto
  then show ?thesis
    using assms unfolding table_set_def pw_table_ok_def by (auto simp: list_all_iff simp del: map_map)
qed

lemma table_edit_ok:
  assumes "pw_table_ok t" and "\<And>h. plain_text h \<Longrightarrow> plain_text (f h)"
  shows "pw_table_ok (table_edit u f t)"
proof -
  have "map fst (table_edit u f t) = map fst t" by (induction t) (auto simp: table_edit_def)
  moreover have "list_all pw_ok t \<Longrightarrow> list_all pw_ok (table_edit u f t)"
    using assms(2) by (induction t) (auto simp: table_edit_def pw_ok_def split: if_splits)
  ultimately show ?thesis using assms(1) by (simp add: pw_table_ok_def)
qed

text \<open>The file holds the table; without a file the table is empty.\<close>

definition holds :: "string option \<Rightarrow> entry list \<Rightarrow> bool" where
  "holds file t \<longleftrightarrow> (case file of None \<Rightarrow> t = [] | Some text \<Rightarrow> text = print_table t)"

lemma set_text_holds:
  assumes "pw_table_ok t" and "holds file t"
  shows "set_text u (passwd_line u g h) file = print_table (table_set u g h t)"
proof (cases "file")
  case None
  then show ?thesis
    using assms(2) by (simp add: holds_def set_text_def table_set_def print_table_def entry_line_def)
next
  case (Some s)
  then show ?thesis using assms set_text_table by (simp add: holds_def pw_table_ok_def)
qed

lemma edit_step:
  assumes "edit_file env (f u) fs = (True, fs')" and "pw_table_ok t" and "holds (pf_file fs) t"
    and "concat (map (f u) (getlines (print_table t))) = print_table t'"
  shows "pf_file fs' = Some (print_table t')"
  using assms by (auto simp: edit_file_def holds_def rewrite_file_def split: option.splits if_splits)

lemma unlock_plain: "plain_text h \<Longrightarrow> plain_text (unlock_hash h)"
  by (cases h) (auto simp: unlock_hash_def plain_text_iff)

lemma passwd_step:
  assumes "ocpasswd env cmd u grp fs = Inr (True, fs')" and "pw_table_ok t" and "holds (pf_file fs) t"
    and "cmd_ok env cmd u grp"
  shows "\<exists>t'. pw_table_ok t' \<and> pf_file fs' = Some (print_table t') \<and> map_of t' = passwd_spec env cmd u grp (map_of t)"
proof (cases cmd)
  case Lock
  have "pf_file fs' = Some (print_table (table_edit u ((#) (CHR ''!'')) t))"
    using assms Lock edit_step [of env lock_line u fs fs' t] lock_table [of t u]
    by (simp add: ocpasswd_def lock_user_def pw_table_ok_def)
  moreover have "pw_table_ok (table_edit u ((#) (CHR ''!'')) t)"
    by (rule table_edit_ok [OF assms(2)]) (simp add: plain_text_iff)
  ultimately show ?thesis using Lock map_of_edit by (auto simp: passwd_spec_def)
next
  case Unlock
  have "pf_file fs' = Some (print_table (table_edit u unlock_hash t))"
    using assms Unlock edit_step [of env unlock_line u fs fs' t] unlock_table [of t u]
    by (simp add: ocpasswd_def unlock_user_def pw_table_ok_def)
  moreover have "pw_table_ok (table_edit u unlock_hash t)"
    by (rule table_edit_ok [OF assms(2)]) (rule unlock_plain)
  ultimately show ?thesis using Unlock map_of_edit by (auto simp: passwd_spec_def)
next
  case Delete
  have "pf_file fs' = Some (print_table (filter (\<lambda>e. fst e \<noteq> u) t))"
    using assms Delete edit_step [of env delete_line u fs fs' t] delete_table [of t u]
    by (simp add: ocpasswd_def delete_user_def pw_table_ok_def)
  moreover have "pw_table_ok (filter (\<lambda>e. fst e \<noteq> u) t)"
    using assms(2) by (auto simp: pw_table_ok_def list_all_iff distinct_map_filter)
  ultimately show ?thesis using Delete map_of_delete [of u t] by (auto simp: passwd_spec_def)
next
  case (Set_password input)
  then obtain rnd p h where h: "pe_rnd env = Some rnd" "read_password input = Inr (Some p)" "crypt_passwd env rnd p = Some h"
    and w: "rewrite_file env (set_text u (passwd_line u (grp_of grp) h) (pf_file fs)) fs = (True, fs')"
    using assms(1) by (auto simp: ocpasswd_def crypt_int_def grp_of_def split: sum.splits option.splits)
  have s: "set_hash env input = Some h" using h by (simp add: set_hash_def)
  have "pw_ok (u, grp_of grp, h)" using assms(4) Set_password s by (simp add: cmd_ok_def pw_ok_def)
  moreover have "pf_file fs' = Some (print_table (table_set u (grp_of grp) h t))"
    using w set_text_holds [OF assms(2,3)] by (auto simp: rewrite_file_def split: if_splits)
  ultimately show ?thesis
    using Set_password s table_set_ok [OF assms(2)] map_of_set [of u "grp_of grp" h t]
    by (intro exI [of _ "table_set u (grp_of grp) h t"]) (simp add: passwd_spec_def)
qed

lemma passwd_failed:
  assumes "ocpasswd env cmd u grp fs = Inr (False, fs')"
  shows "pf_file fs' = pf_file fs"
  using assms
  by (cases cmd) (auto simp: ocpasswd_def lock_user_def unlock_user_def delete_user_def crypt_int_def edit_file_def
      rewrite_file_def split: sum.splits option.splits if_splits)

section \<open>Sequences of commands\<close>

type_synonym passwd_call = "passwd_env \<times> passwd_cmd \<times> string \<times> string option"

text \<open>All the commands, one after the other; None when one of them reads out of bounds.\<close>

fun run_ocpasswd :: "passwd_call list \<Rightarrow> passwd_fs \<Rightarrow> (bool list \<times> passwd_fs) option" where
  "run_ocpasswd [] fs = Some ([], fs)"
| "run_ocpasswd ((env, cmd, u, grp) # cs) fs =
     (case ocpasswd env cmd u grp fs of
        Inl _ \<Rightarrow> None
      | Inr (ok, fs1) \<Rightarrow> map_option (\<lambda>(oks, fs2). (ok # oks, fs2)) (run_ocpasswd cs fs1))"

fun run_spec :: "bool list \<Rightarrow> passwd_call list \<Rightarrow> passwd_map \<Rightarrow> passwd_map" where
  "run_spec (ok # oks) ((env, cmd, u, grp) # cs) m =
     run_spec oks cs (if ok then passwd_spec env cmd u grp m else m)"
| "run_spec _ _ m = m"

definition calls_ok :: "passwd_call list \<Rightarrow> bool" where
  "calls_ok cs \<longleftrightarrow> list_all (\<lambda>(env, cmd, u, grp). cmd_ok env cmd u grp) cs"

lemma run_table:
  assumes "run_ocpasswd cs fs = Some (oks, fs')" and "pw_table_ok t" and "holds (pf_file fs) t" and "calls_ok cs"
  shows "\<exists>t'. pw_table_ok t' \<and> holds (pf_file fs') t' \<and> map_of t' = run_spec oks cs (map_of t)"
  using assms
proof (induction cs fs arbitrary: oks t rule: run_ocpasswd.induct)
  case (1 fs)
  then show ?case by auto
next
  case (2 env cmd u grp cs fs)
  obtain ok fs1 oks1 where r: "ocpasswd env cmd u grp fs = Inr (ok, fs1)"
      "run_ocpasswd cs fs1 = Some (oks1, fs')" "oks = ok # oks1"
    using 2(2) by (auto split: sum.splits prod.splits)
  have "\<exists>t1. pw_table_ok t1 \<and> holds (pf_file fs1) t1
      \<and> map_of t1 = (if ok then passwd_spec env cmd u grp (map_of t) else map_of t)"
  proof (cases ok)
    case True
    then show ?thesis
      using passwd_step [of env cmd u grp fs fs1 t] r(1) 2(3-5) by (auto simp: calls_ok_def holds_def)
  next
    case False
    then show ?thesis using passwd_failed [of env cmd u grp fs fs1] r(1) 2(3,4) by auto
  qed
  then obtain t1 where t1: "pw_table_ok t1" "holds (pf_file fs1) t1"
      "map_of t1 = (if ok then passwd_spec env cmd u grp (map_of t) else map_of t)" by blast
  have "calls_ok cs" using 2(5) by (simp add: calls_ok_def)
  from "2.IH" [OF r(1) refl r(2) t1(1,2) this] show ?case using r(3) t1(3) by auto
qed

text \<open>Every entry fits a line of plain's buffer.\<close>

definition map_fits :: "passwd_map \<Rightarrow> bool" where
  "map_fits m \<longleftrightarrow> (\<forall>u g h. m u = Some (g, h) \<longrightarrow> fits (u, g, h))"

lemma map_fits_table: "distinct (map fst t) \<Longrightarrow> map_fits (map_of t) \<Longrightarrow> list_all fits t"
  by (auto simp: map_fits_def list_all_iff)

text \<open>The module's context for a user of a table.\<close>

definition found_ctx :: "string \<Rightarrow> (string \<times> string) option \<Rightarrow> plain_ctx" where
  "found_ctx user r = \<lparr>pc_username = user, pc_cpass = snd (found_of r), pc_groupnames = fst (found_of r),
     pc_failed = False, pc_retries = 0\<rparr>"

lemma found_init:
  assumes "pw_table_ok t" and "list_all fits t" and "user \<noteq> []" and "length user < MAX_USERNAME_SIZE"
  shows "plain_auth_init (Some (print_table t)) (Some user) =
    Inr (ERR_AUTH_CONTINUE, Some (found_ctx user (map_of t user)))"
  using scan_table [OF assms(1,2), of user] fgets_table [of t] assms
  by (simp add: pw_table_ok_def plain_auth_init_def read_auth_pass_def strlcpy_str_fits found_ctx_def split: prod.split)

text \<open>
  C18: the password file refines a map. Whatever sequence of ocpasswd commands sets, deletes, locks
  and unlocks users of a well-formed file, with any of them failing, what the plain module then
  reads for a user is what the same operations make of a map: the groups of the user's entry and
  its hash, and no hash when there is no entry.
\<close>

theorem passwd_refines_map:
  assumes "run_ocpasswd cs fs = Some (oks, fs')" and "pw_table_ok t" and "holds (pf_file fs) t" and "calls_ok cs"
    and "map_fits (run_spec oks cs (map_of t))" and "pf_file fs' \<noteq> None"
    and "user \<noteq> []" and "length user < MAX_USERNAME_SIZE"
  shows "plain_auth_init (pf_file fs') (Some user) =
    Inr (ERR_AUTH_CONTINUE, Some (found_ctx user (run_spec oks cs (map_of t) user)))"
proof -
  obtain t' where t: "pw_table_ok t'" "holds (pf_file fs') t'" "map_of t' = run_spec oks cs (map_of t)"
    using run_table [OF assms(1-4)] by blast
  have f: "pf_file fs' = Some (print_table t')" using t(2) assms(6) by (auto simp: holds_def split: option.splits)
  have "list_all fits t'" using map_fits_table t assms(5) by (auto simp: pw_table_ok_def)
  then show ?thesis using f found_init [OF t(1) _ assms(7,8)] t(3) by simp
qed

section \<open>Locked users\<close>

text \<open>
  A locked user takes the security module down. Locking prefixes the user's hash with an
  exclamation mark, which is not a salt: a crypt(3) that returns NULL for it, as glibc's does, makes
  the check of any password for that user dereference NULL, in the process that all the workers share.
\<close>

theorem locked_login_crashes:
  assumes "ocpasswd env Lock u grp fs = Inr (True, fs')" and "pw_table_ok t" and "holds (pf_file fs) t"
    and "map_of t u = Some (g, h)" and "map_fits (passwd_spec env Lock u grp (map_of t))"
    and "u \<noteq> []" and "length u < MAX_USERNAME_SIZE" and "crypt p (CHR ''!'' # h) = None"
  shows "\<exists>c. plain_auth_init (pf_file fs') (Some u) = Inr (ERR_AUTH_CONTINUE, Some c)
    \<and> plain_auth_pass crypt c p = Inl Null_pointer"
proof -
  obtain t' where t: "pw_table_ok t'" "pf_file fs' = Some (print_table t')"
      "map_of t' = passwd_spec env Lock u grp (map_of t)"
    using passwd_step [OF assms(1-3)] by (auto simp: cmd_ok_def)
  have "list_all fits t'" using map_fits_table t assms(5) by (auto simp: pw_table_ok_def)
  then have "plain_auth_init (pf_file fs') (Some u) = Inr (ERR_AUTH_CONTINUE, Some (found_ctx u (map_of t' u)))"
    using found_init [OF t(1) _ assms(6,7)] t(2) by simp
  moreover have "map_of t' u = Some (g, CHR ''!'' # h)" using t(3) assms(4) by (simp add: passwd_spec_def)
  ultimately show ?thesis
    using assms(8) by (simp add: found_ctx_def found_of_def plain_auth_pass_def)
qed

section \<open>Examples\<close>

definition example_pw_env :: passwd_env where
  "example_pw_env = \<lparr>pe_rnd = Some (replicate 16 5), pe_crypt = (\<lambda>p s. if hd s = CHR ''!'' then None else Some ''$5$s$h''),
     pe_sha2 = True, pe_open = True, pe_rename = True\<rparr>"

definition example_calls :: "passwd_call list" where
  "example_calls =
     [(example_pw_env, Set_password (''secret'' @ [LF]), ''bob'', Some ''staff''),
      (example_pw_env, Set_password [LF], ''eve'', None),
      (example_pw_env, Set_password (''hello'' @ [LF]), ''eve'', None),
      (example_pw_env, Lock, ''bob'', None),
      (example_pw_env, Delete, ''eve'', None)]"

definition example_no_file :: passwd_fs where
  "example_no_file = \<lparr>pf_file = None, pf_tmp = None\<rparr>"

lemma example_hash:
  "crypt_passwd example_pw_env rnd p = Some ''$5$s$h''"
  by (simp add: crypt_passwd_def example_pw_env_def make_salt_def)

lemma example_inputs:
  "read_password (''secret'' @ [LF]) = Inr (Some ''secret'')" "read_password [LF] = Inr None"
  "read_password (''hello'' @ [LF]) = Inr (Some ''hello'')"
  by (simp_all add: read_password_def c_string_def)

lemma example_env_fields:
  "pe_rnd example_pw_env = Some (replicate 16 5)" "pe_open example_pw_env" "pe_rename example_pw_env"
  by (simp_all add: example_pw_env_def)

lemmas example_pw_simps = ocpasswd_def crypt_int_def lock_user_def delete_user_def edit_file_def rewrite_file_def
  set_text_def set_line_def lock_line_def delete_line_def second_field_def is_user_def has_field_def field_name_def
  passwd_line_def c_string_def example_hash example_inputs example_env_fields

lemma example_calls_run:
  "run_ocpasswd example_calls example_no_file =
    Some ([True, False, True, True, True], \<lparr>pf_file = Some (print_table [(''bob'', ''staff'', ''!$5$s$h'')]), pf_tmp = None\<rparr>)"
  by (simp add: example_calls_def example_no_file_def example_pw_simps print_table_def entry_line_def del: append.simps(2))
     (simp add: example_pw_simps)

lemma example_texts:
  "group_text ''staff''" "group_text ''*''" "user_text ''bob''" "user_text ''eve''" "plain_text ''$5$s$h''"
  "groups_of ''staff'' = [''staff'']"
  by (simp_all add: group_text_def user_text_def plain_text_def groups_of_def break_group_list_def break_groups.simps)

theorem passwd_refines_map_witness:
  "plain_auth_init (Some (print_table [(''bob'', ''staff'', ''!$5$s$h'')])) (Some ''bob'') = Inr (ERR_AUTH_CONTINUE, Some
    \<lparr>pc_username = ''bob'', pc_cpass = ''!$5$s$h'', pc_groupnames = [''staff''], pc_failed = False, pc_retries = 0\<rparr>)"
proof -
  have s: "set_hash example_pw_env (''secret'' @ [LF]) = Some ''$5$s$h''" "set_hash example_pw_env (''hello'' @ [LF]) = Some ''$5$s$h''"
    by (simp_all only: set_hash_def example_env_fields example_inputs example_hash option.case sum.case)
  then have m: "run_spec [True, False, True, True, True] example_calls Map.empty = [''bob'' \<mapsto> (''staff'', ''!$5$s$h'')]"
    by (auto simp: example_calls_def passwd_spec_def grp_of_def)
  have "set_hash example_pw_env [LF] = None"
    by (simp only: set_hash_def example_env_fields example_inputs option.case sum.case)
  then have ok: "calls_ok example_calls"
    using s example_texts by (simp add: calls_ok_def example_calls_def cmd_ok_def grp_of_def)
  have fit: "map_fits [''bob'' \<mapsto> (''staff'', ''!$5$s$h'')]" by (simp add: map_fits_def fits_def)
  show ?thesis
    using passwd_refines_map [OF example_calls_run, of "[]" "''bob''"] m ok fit example_texts
    by (simp add: pw_table_ok_def holds_def example_no_file_def sec_consts found_ctx_def found_of_def)
qed

theorem locked_login_crashes_witness:
  "\<exists>c. plain_auth_init (Some (print_table [(''bob'', ''staff'', ''!$5$s$h'')])) (Some ''bob'') = Inr (ERR_AUTH_CONTINUE, Some c)
    \<and> plain_auth_pass (pe_crypt example_pw_env) c ''secret'' = Inl Null_pointer"
proof -
  let ?t = "[(''bob'', ''staff'', ''$5$s$h'')]"
  have "ocpasswd example_pw_env Lock ''bob'' None \<lparr>pf_file = Some (print_table ?t), pf_tmp = None\<rparr> =
      Inr (True, \<lparr>pf_file = Some (print_table [(''bob'', ''staff'', ''!$5$s$h'')]), pf_tmp = None\<rparr>)"
    by (simp add: example_pw_simps print_table_def entry_line_def)
  moreover have "map_fits (passwd_spec example_pw_env Lock ''bob'' None (map_of ?t))"
    by (simp add: map_fits_def fits_def passwd_spec_def)
  ultimately show ?thesis
    using locked_login_crashes [of example_pw_env "''bob''" None _ _ ?t "''staff''" "''$5$s$h''" "pe_crypt example_pw_env" "''secret''"]
      example_texts
    by (fastforce simp: pw_table_ok_def pw_ok_def holds_def sec_consts example_pw_env_def)
qed

end
