(* ===== verification/SecModule.thy ===== *)
theory SecModule
  imports SecProps
begin

text \<open>
  The contract between the security module and its authentication modules: what an authentication
  module promises of its contexts holds of the context of every entry, in every run, for the user
  of that entry.
\<close>

section \<open>Accepting\<close>

text \<open>Only the result 0 of a step makes the security module send M_auth_ok, for the entry at hand.\<close>

lemma score_no_ok: "sec_mod_add_score_to_ip cfg env ip pts = (r, ms) \<Longrightarrow> M_auth_ok c u s k \<notin> set ms"
  by (auto simp: sec_mod_add_score_to_ip_def split: if_splits option.splits)

lemma reply_only_ok:
  "send_sec_auth_reply cfg env e ok = (ret, ms, e') \<Longrightarrow> M_auth_ok c u s k \<in> set ms \<Longrightarrow>
    ok \<and> k = ce_sid e \<and> u = ai_username (ce_auth_info e)"
  by (auto simp: send_sec_auth_reply_def generate_cookie_def split: prod.splits if_splits option.splits)

lemma again_no_ok: "ask_again cfg env e = (r, ms, e') \<Longrightarrow> M_auth_ok c u s k \<notin> set ms"
  by (auto simp: ask_again_def send_sec_auth_reply_msg_def split: if_splits)

definition user_after :: "'c sec_cfg \<Rightarrow> 'c client_entry \<Rightarrow> string" where
  "user_after cfg e =
     (case module_of cfg e of
        None \<Rightarrow> ai_username (ce_auth_info e)
      | Some m \<Rightarrow> am_auth_user m (ce_auth_ctx e) (ai_username (ce_auth_info e)))"

lemma fetch_ctx: "fetch_auth_msg cfg e r = (ret, e') \<Longrightarrow> ce_auth_ctx e' = ce_auth_ctx e"
  by (auto simp: fetch_auth_msg_def split: option.splits prod.splits if_splits)

lemma auth_res_accepts:
  assumes "handle_sec_auth_res cfg env e r = (ret, ms, e')" and "M_auth_ok c u s k \<in> set ms"
  shows "r = 0 \<and> k = ce_sid e \<and> u = user_after cfg e"
proof -
  obtain r1 e1 where f: "fetch_auth_msg cfg e r = (r1, e1)" by fastforce
  obtain r2 m2 where sc: "sec_mod_add_score_to_ip cfg env (ai_remote_ip (ce_auth_info e1))
      (sg_ban_points_wrong_password cfg) = (r2, m2)" by fastforce
  obtain r3 m3 e3 where a: "ask_again cfg env e1 = (r3, m3, e3)" by (metis prod_cases3)
  obtain r4 m4 e4 where b: "send_sec_auth_reply cfg env (e1\<lparr>ce_status := PS_AUTH_FAILED\<rparr>) False = (r4, m4, e4)"
    by (metis prod_cases3)
  let ?e = "e1\<lparr>ce_status := PS_AUTH_COMPLETED\<rparr>"
  let ?e2 = "case module_of cfg ?e of None \<Rightarrow> ?e
    | Some m \<Rightarrow> set_username (am_auth_user m (ce_auth_ctx ?e) (ai_username (ce_auth_info ?e))) ?e"
  obtain r5 m5 e5 where d: "send_sec_auth_reply cfg env ?e2 True = (r5, m5, e5)" by (metis prod_cases3)
  have e2: "ce_sid ?e2 = ce_sid e" using fetch_auth_msg_entry [OF f] by (auto split: option.splits)
  have u2: "ai_username (ce_auth_info ?e2) = user_after cfg e"
    using fetch_auth_msg_entry [OF f] fetch_ctx [OF f]
    by (auto simp: user_after_def module_of_def set_username_def split: option.splits)
  have out: "M_auth_ok c u s k \<notin> set m2" "M_auth_ok c u s k \<notin> set m3" "M_auth_ok c u s k \<notin> set m4"
    "M_auth_ok c u s k \<in> set m5 \<longrightarrow> k = ce_sid e \<and> u = user_after cfg e"
    using score_no_ok [OF sc] again_no_ok [OF a] reply_only_ok [OF b] reply_only_ok [OF d] e2 u2 by auto
  show ?thesis
    using assms f sc a b d out by (auto simp: handle_sec_auth_res_def Let_def split: if_splits)
qed

text \<open>The context and the user of an entry through a step.\<close>

lemma reply_ctx: "send_sec_auth_reply cfg env e ok = (ret, ms, e') \<Longrightarrow>
    ce_auth_ctx e' = ce_auth_ctx e \<and> ce_auth_info e' = ce_auth_info e"
  by (auto simp: send_sec_auth_reply_def generate_cookie_def split: prod.splits if_splits option.splits)

lemma again_ctx: "ask_again cfg env e = (ret, ms, e') \<Longrightarrow>
    ce_auth_ctx e' = ce_auth_ctx e \<and> ce_auth_info e' = ce_auth_info e"
  by (auto simp: ask_again_def send_sec_auth_reply_msg_def split: if_splits)

lemma auth_res_ctx:
  assumes "handle_sec_auth_res cfg env e r = (ret, ms, e')"
  shows "ce_auth_ctx e' = ce_auth_ctx e
    \<and> (ai_username (ce_auth_info e') = ai_username (ce_auth_info e) \<or> ai_username (ce_auth_info e') = user_after cfg e)"
proof -
  obtain r1 e1 where f: "fetch_auth_msg cfg e r = (r1, e1)" by fastforce
  note e1 = fetch_auth_msg_entry [OF f] fetch_ctx [OF f]
  obtain r3 m3 e3 where a: "ask_again cfg env e1 = (r3, m3, e3)" by (metis prod_cases3)
  obtain r4 m4 e4 where b: "send_sec_auth_reply cfg env (e1\<lparr>ce_status := PS_AUTH_FAILED\<rparr>) False = (r4, m4, e4)"
    by (metis prod_cases3)
  let ?e = "e1\<lparr>ce_status := PS_AUTH_COMPLETED\<rparr>"
  let ?e2 = "case module_of cfg ?e of None \<Rightarrow> ?e
    | Some m \<Rightarrow> set_username (am_auth_user m (ce_auth_ctx ?e) (ai_username (ce_auth_info ?e))) ?e"
  obtain r5 m5 e5 where d: "send_sec_auth_reply cfg env ?e2 True = (r5, m5, e5)" by (metis prod_cases3)
  have u2: "ai_username (ce_auth_info ?e2) = user_after cfg e" "ce_auth_ctx ?e2 = ce_auth_ctx e"
    using e1 by (auto simp: user_after_def module_of_def set_username_def split: option.splits)
  show ?thesis
    using assms f e1 a b d u2 again_ctx [OF a] reply_ctx [OF b] reply_ctx [OF d]
    by (auto simp: handle_sec_auth_res_def Let_def split: if_splits prod.splits)
qed

lemma init_accepts:
  assumes "handle_sec_auth_init cfg env db req = (ret, ms, db')" and "M_auth_ok c u s k \<in> set ms"
  shows "accepted cfg (Ev_worker env (W_auth_init (Some req))) k"
proof (cases "new_client_entry (sm_talloc env) (sm_add env) (sm_rnd env) (sm_now env) db (in_ip req)")
  case None
  then show ?thesis using assms by (auto simp: handle_sec_auth_init_def)
next
  case (Some p)
  obtain e db1 where p: "p = (e, db1)" by fastforce
  have blank: "e = blank_entry (ce_sid e) (in_ip req) (sm_now env)"
    using Some p by (auto simp: new_client_entry_def blank_entry_def Let_def split: if_splits option.splits)
  obtain r1 e1 where st: "auth_init_steps cfg req e = (r1, e1)" by fastforce
  obtain r2 m2 e2 where rs: "handle_sec_auth_res cfg env e1 r1 = (r2, m2, e2)" by (metis prod_cases3)
  have "ms = m2" using assms(1) Some p st rs by (auto simp: handle_sec_auth_init_def)
  then have "r1 = 0" "k = ce_sid e1" using auth_res_accepts [OF rs] assms(2) by auto
  moreover have "ce_sid e1 = ce_sid e"
    using auth_init_steps_entry [OF st] new_client_entry_some [OF Some [unfolded p]] by auto
  ultimately show ?thesis using st blank unfolding accepted_def by metis
qed

lemma cont_accepts:
  assumes "handle_sec_auth_cont cfg env db sid pass = (ret, ms, db')" and "M_auth_ok c u s k \<in> set ms"
  shows "accepted cfg (Ev_worker env (W_auth_cont (Some (sid, pass)))) k"
proof (cases "length sid = SID_SIZE \<and> find_client_entry db sid \<noteq> None")
  case False
  then show ?thesis using assms by (auto simp: handle_sec_auth_cont_def split: if_splits option.splits)
next
  case True
  then obtain e where e: "find_client_entry db sid = Some e" by blast
  then have sid: "ce_sid e = sid" by (rule find_sid)
  obtain r1 e1 where st: "auth_cont_steps cfg e pass = (r1, e1)" by fastforce
  obtain r2 m2 e2 where rs: "handle_sec_auth_res cfg env e1 r1 = (r2, m2, e2)" by (metis prod_cases3)
  have "ms = m2" using assms(1) True e st rs by (auto simp: handle_sec_auth_cont_def)
  then have r: "r1 = 0" "k = ce_sid e1" using auth_res_accepts [OF rs] assms(2) by auto
  then show ?thesis
    using auth_cont_steps_entry [OF st] st sid unfolding accepted_def by (cases pass) (auto split: if_splits)
qed

lemma packet_accepts:
  assumes "process_packet cfg ks ko env db cmd = Inr (ret, ms, rest)" and "M_auth_ok c u s k \<in> set ms"
  shows "accepted cfg (Ev_worker env cmd) k"
proof (cases cmd)
  case (W_auth_init req)
  then show ?thesis
    using assms init_accepts by (auto simp: process_packet_def split: option.splits prod.splits)
next
  case (W_auth_cont req)
  then show ?thesis
    using assms cont_accepts by (auto simp: process_packet_def split: option.splits prod.splits)
next
  case (W_key_op op)
  then show ?thesis using assms by (auto simp: process_packet_def split: option.splits if_splits)
next
  case (W_cli_stats req)
  then show ?thesis
    using assms by (auto simp: process_packet_def handle_sec_auth_stats_cmd_def Let_def split: option.splits if_splits)
next
  case W_unknown
  then show ?thesis using assms by (simp add: process_packet_def)
qed

section \<open>What a module promises\<close>

definition ctx_ok :: "(string \<Rightarrow> 'c \<Rightarrow> bool) \<Rightarrow> 'c client_entry \<Rightarrow> bool" where
  "ctx_ok of_user e \<longleftrightarrow> (\<forall>c. ce_auth_ctx e = Some c \<longrightarrow> of_user (ai_username (ce_auth_info e)) c)"

definition entry_ctx :: "'c sec_cfg \<Rightarrow> (string \<Rightarrow> 'c \<Rightarrow> bool) \<Rightarrow> 'c client_entry \<Rightarrow> bool" where
  "entry_ctx cfg of_user e \<longleftrightarrow> entry_ok cfg e \<and> (ce_status e = PS_AUTH_FAILED \<or> ctx_ok of_user e)"

text \<open>
  \<open>of_user\<close>: what a module's context says of a user. Made by a successful auth_init, it stays through
  auth_pass; a module has no context without a user, and does not rename the user.
\<close>

locale auth_module =
  fixes cfg :: "'c sec_cfg" and of_user :: "string \<Rightarrow> 'c \<Rightarrow> bool"
  assumes init_law: "m \<in> set (sg_auth cfg) \<Longrightarrow> as_amod m = Some am \<Longrightarrow> am_auth_init am (Some u) ip = (r, Some c)
      \<Longrightarrow> of_user (strlcpy_str (2 * MAX_USERNAME_SIZE) u) c"
    and nameless_law: "m \<in> set (sg_auth cfg) \<Longrightarrow> as_amod m = Some am \<Longrightarrow> snd (am_auth_init am None ip) = None"
    and pass_law: "m \<in> set (sg_auth cfg) \<Longrightarrow> as_amod m = Some am \<Longrightarrow> am_auth_pass am (Some c) p = (r, Some c')
      \<Longrightarrow> of_user u c \<Longrightarrow> of_user u c'"
    and none_law: "m \<in> set (sg_auth cfg) \<Longrightarrow> as_amod m = Some am \<Longrightarrow> snd (am_auth_pass am None p) = None"
    and user_law: "m \<in> set (sg_auth cfg) \<Longrightarrow> as_amod m = Some am \<Longrightarrow> am_auth_user am ctx u = u"
    and name_law: "of_user u c \<Longrightarrow> u \<noteq> []"
begin

lemma module_mem: "entry_ok cfg e \<Longrightarrow> module_of cfg e = Some am \<Longrightarrow> \<exists>m \<in> set (sg_auth cfg). as_amod m = Some am"
  by (auto simp: entry_ok_def module_of_def split: option.splits intro: nth_mem)

lemma user_same: "entry_ok cfg e \<Longrightarrow> user_after cfg e = ai_username (ce_auth_info e)"
  using module_mem [of e] user_law by (fastforce simp: user_after_def split: option.splits)

lemma ctx_cong: "ctx_ok of_user e \<Longrightarrow> ce_auth_ctx e' = ce_auth_ctx e \<Longrightarrow> ai_username (ce_auth_info e') = ai_username (ce_auth_info e)
    \<Longrightarrow> ctx_ok of_user e'"
  by (simp add: ctx_ok_def)

lemma res_ctx:
  assumes "handle_sec_auth_res cfg env e r = (ret, ms, e')" and "entry_ok cfg e" and "r = 0 \<Longrightarrow> ce_module e \<noteq> None"
    and "r = 0 \<or> r = ERR_AUTH_CONTINUE \<Longrightarrow> ctx_ok of_user e"
  shows "entry_ctx cfg of_user e'"
proof (cases "r = 0 \<or> r = ERR_AUTH_CONTINUE")
  case True
  then have "ctx_ok of_user e'"
    using ctx_cong [OF assms(4)] auth_res_ctx [OF assms(1)] user_same [OF assms(2)] by auto
  then show ?thesis using auth_res_ok [OF assms(1,2,3)] by (simp add: entry_ctx_def)
next
  case False
  then have "ce_status e' = PS_AUTH_FAILED" using auth_res_failure [OF assms(1)] by simp
  then show ?thesis using auth_res_ok [OF assms(1,2,3)] by (simp add: entry_ctx_def)
qed

lemma init_module_ctx:
  assumes "init_module cfg req e = (0, nc, e')" and "entry_ok cfg e" and "ce_auth_ctx e = None"
  shows "ctx_ok of_user e'"
proof (cases "module_of cfg e")
  case None
  then show ?thesis using assms by (simp add: init_module_def ctx_ok_def)
next
  case (Some am)
  then obtain m where m: "m \<in> set (sg_auth cfg)" "as_amod m = Some am" using module_mem assms(2) by blast
  show ?thesis
  proof (cases "in_user_name req")
    case None
    then show ?thesis
      using assms(1) Some nameless_law [OF m, of "in_ip req"]
      by (auto simp: init_module_def ctx_ok_def set_groupname_def Let_def split: prod.splits if_splits)
  next
    case u: (Some u)
    then show ?thesis
      using assms(1) Some init_law [OF m, of u "in_ip req"]
      by (auto simp: init_module_def ctx_ok_def set_groupname_def set_username_def Let_def split: prod.splits if_splits)
  qed
qed

lemma cert_group_ctx: "init_cert_group cfg req e = (r, e') \<Longrightarrow> ctx_ok of_user e \<Longrightarrow> ctx_ok of_user e'"
  by (auto simp: init_cert_group_def ctx_ok_def set_groupname_def split: option.splits if_splits)

lemma status_ctx:
  assumes "check_user_group_status cfg e tls u gs = (r, e')" and "ctx_ok of_user e"
  shows "ctx_ok of_user e'"
proof -
  have "ce_auth_ctx e' = ce_auth_ctx e
      \<and> (ai_username (ce_auth_info e') = ai_username (ce_auth_info e) \<or> ai_username (ce_auth_info e) = [])"
    using assms(1)
    by (auto simp: check_user_group_status_def set_username_def set_groupname_def Let_def split: option.splits if_splits)
  then show ?thesis using assms(2) name_law by (auto simp: ctx_ok_def)
qed

lemma init_steps_ctx:
  assumes "auth_init_steps cfg req e = (ret, e')" and "ret = 0 \<or> ret = ERR_AUTH_CONTINUE"
    and "ce_auth_ctx e = None"
  shows "ctx_ok of_user e'"
proof -
  obtain r1 e1 where 1: "set_module cfg e (in_auth_type req) = (r1, e1)" by fastforce
  let ?e2 = "case in_hostname req of None \<Rightarrow> e1
    | Some h \<Rightarrow> e1\<lparr>ce_hostname := strlcpy_str MAX_HOSTNAME_SIZE h\<rparr>"
  obtain r2 nc e3 where 2: "init_module cfg req ?e2 = (r2, nc, e3)" by (metis prod_cases3)
  obtain r3 e4 where 3: "init_cert_group cfg req e3 = (r3, e4)" by fastforce
  obtain r4 e5 where 4: "check_user_group_status cfg e4 (in_tls_auth_ok req) (in_cert_user_name req)
      (in_cert_group_names req) = (r4, e5)" by fastforce
  have n1: "r1 < 0 \<Longrightarrow> r1 = -1" using 1 by (auto simp: set_module_def split: option.splits if_splits)
  have n2: "r2 \<noteq> ERR_AUTH_CONTINUE"
    using 2 by (auto simp: init_module_def err_codes Let_def split: option.splits prod.splits if_splits)
  have n3: "r3 < 0 \<Longrightarrow> r3 = -1" using 3 by (auto simp: init_cert_group_def split: option.splits if_splits)
  have n4: "r4 < 0 \<Longrightarrow> r4 = -1"
    using 4 by (auto simp: check_user_group_status_def Let_def split: option.splits if_splits)
  note neg = n1 n2 n3 n4
  have ok: "\<not> r1 < 0" "r2 = 0" "\<not> r3 < 0" "\<not> r4 < 0" "e' = e5\<lparr>ce_status := PS_AUTH_INIT\<rparr>"
    using assms(1,2) 1 2 3 4 neg by (auto simp: auth_init_steps_def Let_def err_codes split: if_splits)
  have "entry_ok cfg e1" "ce_auth_ctx e1 = None"
    using 1 ok(1) assms(3) set_module_ok [OF 1] by (auto simp: entry_ok_def set_module_def split: option.splits if_splits)
  then have "entry_ok cfg ?e2" "ce_auth_ctx ?e2 = None" by (auto simp: entry_ok_def split: option.splits)
  then have "ctx_ok of_user e3" using init_module_ctx 2 ok(2) by blast
  then have "ctx_ok of_user e5" using cert_group_ctx [OF 3] status_ctx [OF 4] by blast
  then show ?thesis using ok(5) by (simp add: ctx_ok_def)
qed

lemma cont_steps_ctx:
  assumes "auth_cont_steps cfg e pass = (r, e')" and "entry_ok cfg e" and "ctx_ok of_user e"
  shows "ctx_ok of_user e'"
proof (cases "(ce_status e \<noteq> PS_AUTH_INIT \<and> ce_status e \<noteq> PS_AUTH_CONT) \<or> pass = None \<or> module_of cfg e = None")
  case True
  then show ?thesis using assms by (auto simp: auth_cont_steps_def split: if_splits option.splits)
next
  case False
  then obtain p am where p: "pass = Some p" "module_of cfg e = Some am" by auto
  obtain m where m: "m \<in> set (sg_auth cfg)" "as_amod m = Some am" using module_mem assms(2) p(2) by blast
  obtain r1 c1 where r: "am_auth_pass am (ce_auth_ctx e) p = (r1, c1)" by fastforce
  have e': "e' = e\<lparr>ce_status := PS_AUTH_CONT, ce_auth_ctx := c1\<rparr>"
    using assms(1) False p r by (auto simp: auth_cont_steps_def)
  show ?thesis
  proof (cases "ce_auth_ctx e")
    case None
    then have "c1 = None" using none_law [OF m, of p] r by simp
    then show ?thesis using e' by (simp add: ctx_ok_def)
  next
    case (Some c)
    then show ?thesis using e' r assms(3) pass_law [OF m, of c p r1] by (auto simp: ctx_ok_def)
  qed
qed

section \<open>In every run\<close>

lemma entry_ctx_cong:
  "entry_ctx cfg of_user e \<Longrightarrow> ce_module e' = ce_module e \<Longrightarrow> ce_auth_ctx e' = ce_auth_ctx e
    \<Longrightarrow> ai_username (ce_auth_info e') = ai_username (ce_auth_info e)
    \<Longrightarrow> ce_status e' = ce_status e \<or> ce_status e' = PS_AUTH_FAILED \<Longrightarrow> entry_ctx cfg of_user e'"
  by (auto simp: entry_ctx_def ctx_ok_def elim: entry_ok_cong)

lemma db_put: "list_all (entry_ctx cfg of_user) db \<Longrightarrow> entry_ctx cfg of_user e \<Longrightarrow> list_all (entry_ctx cfg of_user) (put_entry db e)"
  by (induction db) (auto simp: put_entry_def)

lemma db_find: "list_all (entry_ctx cfg of_user) db \<Longrightarrow> find_client_entry db k = Some e \<Longrightarrow> entry_ctx cfg of_user e"
  by (auto simp: list_all_iff find_client_entry_def tbl_get_def dest: find_Some_iff_ex)

lemma init_ctx:
  assumes "handle_sec_auth_init cfg env db req = (ret, ms, db')" and "list_all (entry_ctx cfg of_user) db"
  shows "list_all (entry_ctx cfg of_user) db'"
proof (cases "new_client_entry (sm_talloc env) (sm_add env) (sm_rnd env) (sm_now env) db (in_ip req)")
  case None
  then show ?thesis using assms by (auto simp: handle_sec_auth_init_def)
next
  case (Some p)
  obtain e db1 where p: "p = (e, db1)" by fastforce
  note new = new_client_entry_some [OF Some [unfolded p]]
  have blank: "ce_auth_ctx e = None" "ce_module e = None" "ce_status e = PS_AUTH_INACTIVE"
    using Some p by (auto simp: new_client_entry_def blank_entry_def Let_def split: if_splits option.splits)
  obtain r1 e1 where st: "auth_init_steps cfg req e = (r1, e1)" by fastforce
  obtain r2 m2 e2 where rs: "handle_sec_auth_res cfg env e1 r1 = (r2, m2, e2)" by (metis prod_cases3)
  have "db' = put_entry db1 e2" using assms Some p st rs by (auto simp: handle_sec_auth_init_def)
  moreover have "entry_ctx cfg of_user e2"
    using res_ctx [OF rs] auth_init_steps_ok [OF st] init_steps_ctx [OF st _ blank(1)] blank by blast
  moreover have "list_all (entry_ctx cfg of_user) db1"
    using new assms(2) blank by (simp add: entry_ctx_def entry_ok_def ctx_ok_def)
  ultimately show ?thesis by (simp add: db_put)
qed

lemma cont_ctx:
  assumes "handle_sec_auth_cont cfg env db sid pass = (ret, ms, db')" and "list_all (entry_ctx cfg of_user) db"
  shows "list_all (entry_ctx cfg of_user) db'"
proof (cases "length sid = SID_SIZE \<and> find_client_entry db sid \<noteq> None")
  case False
  then show ?thesis
    using assms by (auto simp: handle_sec_auth_cont_def split: if_splits option.splits)
next
  case True
  then obtain e where e: "find_client_entry db sid = Some e" by blast
  obtain r1 e1 where st: "auth_cont_steps cfg e pass = (r1, e1)" by fastforce
  obtain r2 m2 e2 where rs: "handle_sec_auth_res cfg env e1 r1 = (r2, m2, e2)" by (metis prod_cases3)
  have inv: "entry_ctx cfg of_user e" by (rule db_find [OF assms(2) e])
  then have ok: "entry_ok cfg e" by (simp add: entry_ctx_def)
  have "r1 = 0 \<or> r1 = ERR_AUTH_CONTINUE \<Longrightarrow> ctx_ok of_user e1"
    using cont_steps_ctx [OF st ok] auth_cont_steps_entry [OF st] inv
    by (auto simp: entry_ctx_def err_codes split: if_splits)
  then have "entry_ctx cfg of_user e2"
    using res_ctx [OF rs] auth_cont_steps_ok [OF st ok] by blast
  moreover have "db' = put_entry db e2" using assms True e st rs by (auto simp: handle_sec_auth_cont_def)
  ultimately show ?thesis using assms(2) by (simp add: db_put)
qed

lemma open_ctx:
  assumes h: "handle_sec_auth_session_open cfg env db req = Inr (ret, ms, as, db')" and ok: "list_all (entry_ctx cfg of_user) db"
  shows "list_all (entry_ctx cfg of_user) db'"
proof (cases "find_client_entry db (sr_sid req)")
  case None
  then have "session_failed env [] db = Inr (ret, ms, as, db')"
    using h by (simp add: handle_sec_auth_session_open_def split: if_splits)
  then show ?thesis using ok by (auto dest!: session_failed_out)
next
  case (Some e)
  then have "entry_ctx cfg of_user e" using ok by (rule db_find [rotated])
  then have "entry_ctx cfg of_user (e\<lparr>ce_status := PS_AUTH_FAILED\<rparr>)"
    "entry_ctx cfg of_user (e\<lparr>ce_session_is_open := b\<rparr>)"
    "entry_ctx cfg of_user (e\<lparr>ce_session_is_open := b, ce_time := t, ce_in_use := n\<rparr>)" for b t n
    by (auto elim!: entry_ctx_cong)
  then show ?thesis using session_open_out [OF h Some] ok by (auto intro!: db_put)
qed

lemma close_ctx:
  assumes "handle_sec_auth_session_close env db req = (ret, ms, db')" and "list_all (entry_ctx cfg of_user) db"
  shows "list_all (entry_ctx cfg of_user) db'"
proof (cases "find_client_entry db (sr_sid req)")
  case None
  then show ?thesis
    using assms by (auto simp: handle_sec_auth_session_close_def split: if_splits)
next
  case (Some e)
  then have e: "entry_ctx cfg of_user e" using assms(2) by (rule db_find [rotated])
  obtain e' where "db' = db \<or> db' = put_entry db e' \<and> ce_module e' = ce_module e \<and> ce_status e' = ce_status e
      \<and> ce_auth_ctx e' = ce_auth_ctx e \<and> ai_username (ce_auth_info e') = ai_username (ce_auth_info e)"
    using assms(1) Some
    by (fastforce simp: handle_sec_auth_session_close_def expire_client_entry_def Let_def split: if_splits)
  then show ?thesis using e assms(2) by (auto intro!: db_put elim!: entry_ctx_cong)
qed

lemma stats_ctx:
  assumes "handle_sec_auth_stats_cmd cfg db req = Inr (ret, ms, as, db')" and "list_all (entry_ctx cfg of_user) db"
  shows "list_all (entry_ctx cfg of_user) db'"
proof (cases "find_client_entry db (cs_sid req)")
  case None
  then show ?thesis
    using assms by (auto simp: handle_sec_auth_stats_cmd_def split: if_splits)
next
  case (Some e)
  then have e: "entry_ctx cfg of_user e" using assms(2) by (rule db_find [rotated])
  have "ai_username (update_ips req ai) = ai_username ai" for ai by (simp add: update_ips_def Let_def)
  then obtain e' where "db' = db \<or> db' = put_entry db e' \<and> ce_module e' = ce_module e \<and> ce_status e' = ce_status e
      \<and> ce_auth_ctx e' = ce_auth_ctx e \<and> ai_username (ce_auth_info e') = ai_username (ce_auth_info e)"
    using assms(1) Some
    by (fastforce simp: handle_sec_auth_stats_cmd_def Let_def split: if_splits option.splits)
  then show ?thesis using e assms(2) by (auto intro!: db_put elim!: entry_ctx_cong)
qed

lemma worker_ctx:
  assumes "process_packet cfg ks ko env db cmd = Inr (ret, ms, as, db')" and "list_all (entry_ctx cfg of_user) db"
  shows "list_all (entry_ctx cfg of_user) db'"
proof (cases cmd)
  case (W_auth_init req)
  then show ?thesis
    using assms by (cases req) (auto simp: process_packet_def dest: init_ctx split: prod.splits)
next
  case (W_auth_cont req)
  then show ?thesis
    using assms by (cases req) (auto simp: process_packet_def dest: cont_ctx split: prod.splits)
next
  case (W_cli_stats req)
  then show ?thesis using assms by (cases req) (auto simp: process_packet_def dest: stats_ctx)
qed (use assms in \<open>auto simp: process_packet_def split: option.splits prod.splits if_splits\<close>)

lemma main_ctx:
  assumes "process_packet_from_main cfg env db cmd = Inr (ret, ms, as, db')" and "list_all (entry_ctx cfg of_user) db"
  shows "list_all (entry_ctx cfg of_user) db'"
proof (cases cmd)
  case (Mc_session_open req)
  then show ?thesis
    using assms by (cases req)
      (auto simp: process_packet_from_main_def handle_sec_auth_session_cmd_def dest: open_ctx)
next
  case (Mc_session_close req)
  then show ?thesis
    using assms by (cases req) (auto simp: process_packet_from_main_def handle_sec_auth_session_cmd_def
        dest: close_ctx split: prod.splits)
qed (use assms in \<open>simp add: process_packet_from_main_def\<close>)

lemma run_ctx: "sm_run cfg ks ko tr db \<Longrightarrow> list_all (entry_ctx cfg of_user) db"
proof (induction rule: sm_run.induct)
  case run_init
  then show ?case by (simp add: sec_mod_client_db_init_def)
next
  case (run_step tr db x db')
  from run_step.hyps(2) show ?case
  proof cases
    case step_maintenance
    then show ?thesis using run_step.IH by (auto simp: cleanup_client_entries_def list_all_iff)
  qed (use run_step.IH worker_ctx main_ctx in blast)+
qed

text \<open>A cookie after a password: the module accepted it, with a context of the user of the cookie.\<close>

lemma cont_accepts_user:
  assumes "sm_run cfg ks ko tr db" and "handle_sec_auth_cont cfg env db sid pass = (ret, ms, db')"
    and "M_auth_ok c u s k \<in> set ms"
  shows "\<exists>m am p e ctx'. m \<in> set (sg_auth cfg) \<and> as_amod m = Some am \<and> pass = Some p \<and> k = sid
    \<and> find_client_entry db sid = Some e \<and> am_auth_pass am (ce_auth_ctx e) p = (0, ctx')
    \<and> u = ai_username (ce_auth_info e) \<and> ctx_ok of_user e"
proof -
  obtain e where e: "length sid = SID_SIZE" "find_client_entry db sid = Some e"
    using assms(2,3) by (auto simp: handle_sec_auth_cont_def split: if_splits option.splits)
  obtain r1 e1 where st: "auth_cont_steps cfg e pass = (r1, e1)" by fastforce
  obtain r2 m2 e2 where rs: "handle_sec_auth_res cfg env e1 r1 = (r2, m2, e2)" by (metis prod_cases3)
  have "ms = m2" using assms(2) e st rs by (auto simp: handle_sec_auth_cont_def)
  then have r: "r1 = 0" "k = ce_sid e1" "u = user_after cfg e1" using auth_res_accepts [OF rs] assms(3) by auto
  have inv: "entry_ctx cfg of_user e" using db_find [OF run_ctx [OF assms(1)] e(2)] .
  then have ok: "entry_ok cfg e" by (simp add: entry_ctx_def)
  have st0: "ce_status e = PS_AUTH_INIT \<or> ce_status e = PS_AUTH_CONT" "ce_sid e1 = ce_sid e"
    using auth_cont_steps_entry [OF st] r(1) by (auto split: if_splits)
  obtain p am where p: "pass = Some p" "module_of cfg e = Some am" "am_auth_pass am (ce_auth_ctx e) p = (0, ce_auth_ctx e1)"
      "ce_auth_info e1 = ce_auth_info e"
    using st r(1) st0 by (auto simp: auth_cont_steps_def split: option.splits prod.splits if_splits)
  obtain m where "m \<in> set (sg_auth cfg)" "as_amod m = Some am" using module_mem [OF ok p(2)] by blast
  moreover have "u = ai_username (ce_auth_info e)"
    using r(3) user_same auth_cont_steps_ok [OF st ok] p(4) by simp
  moreover have "ctx_ok of_user e" using inv st0(1) by (auto simp: entry_ctx_def)
  ultimately show ?thesis using p e(2) r(2) st0(2) find_sid [OF e(2)] by auto
qed

end

end
