(* ===== verification/WorkerAuth.thy ===== *)
theory WorkerAuth
  imports Html WorkerConnect SecAuth
begin

text \<open>
  The login of a worker's client, src/worker-auth.c: what the client posted, the page that asks for
  a user name, password and group, the questions to the security module and the answer with the
  cookie. A response is the list of the texts it is sent in; the GnuTLS reads of the certificate,
  base64, the socket to the security module and its answer are parameters. Allocations succeed,
  those of the page's text excepted.
\<close>

unbundle bit_operations_syntax

section \<open>The posted form\<close>

text \<open>strcasestr for a lower case word: the text from its first occurrence on.\<close>

fun strcasestr :: "string \<Rightarrow> string \<Rightarrow> string option" where
  "strcasestr [] w = (if casecmp_prefix [] w then Some [] else None)"
| "strcasestr (c # s) w = (if casecmp_prefix (c # s) w then Some (c # s) else strcasestr s w)"

text \<open>The value of an XML element, up to its closing tag or the end.\<close>

fun xml_value :: "string \<Rightarrow> string \<Rightarrow> string" where
  "xml_value end_tag [] = []"
| "xml_value end_tag (c # s) =
     (if c = CHR ''<'' \<and> casecmp_prefix (c # s) end_tag then [] else c # xml_value end_tag s)"

definition form_value :: "string \<Rightarrow> string" where
  "form_value s = takeWhile (\<lambda>c. c \<noteq> CHR ''&'') s"

text \<open>The tags have buffers of 64 bytes. The string functions see the body up to its first NUL.\<close>

definition parse_reply :: "string \<Rightarrow> string \<Rightarrow> string option \<Rightarrow> string option" where
  "parse_reply body field xml_field =
     (if body = [] then None
      else if str_contains body ''<?xml'' then
        let f = (case xml_field of None \<Rightarrow> field | Some x \<Rightarrow> x);
            start_tag = take 63 (''<'' @ f @ ''>''); end_tag = take 63 (''</'' @ f @ ''>'')
        in (case strcasestr (c_string body) start_tag of
              None \<Rightarrow> None
            | Some p \<Rightarrow>
                let v = drop (length start_tag) p; len = length (xml_value end_tag v)
                in if len = 0 then Some [] else map_option (c_string \<circ> fst) (unescape_html True v len))
      else
        let tag = take 63 (field @ ''='')
        in (case strcasestr (c_string body) tag of
              None \<Rightarrow> None
            | Some p \<Rightarrow>
                let v = drop (length tag) p; len = length (form_value v)
                in if len = 0 then Some [] else map_option (c_string \<circ> fst) (unescape_url True v len)))"

definition USERNAME_FIELD :: string where "USERNAME_FIELD = ''username''"
definition PASSWORD_FIELD :: string where "PASSWORD_FIELD = ''password''"
definition GROUPNAME_FIELD :: string where "GROUPNAME_FIELD = ''group%5flist''"
definition GROUPNAME_FIELD2 :: string where "GROUPNAME_FIELD2 = ''group_list''"
definition GROUPNAME_FIELD_XML :: string where "GROUPNAME_FIELD_XML = ''group-select''"

section \<open>State and surroundings\<close>

text \<open>
  The fields of worker_st and http_req_st that a login uses; \<open>lg_out\<close> is what the client was sent,
  \<open>lg_asked\<close> what the security module was.
\<close>

record login =
  lg_app :: http_app
  lg_body :: string
  lg_username :: string
  lg_groupname :: string
  lg_cert_username :: string
  lg_cert_groups :: "string list"
  lg_session_id :: "byte list"
  lg_out :: "string list"
  lg_asked :: "worker_cmd list"

record login_cfg =
  lc_group_list :: "(string \<times> string option) list"    \<comment> \<open>group_list with friendly_group_list\<close>
  lc_default_select_group :: "string option"
  lc_cookie_timeout :: u32
  lc_cert_group_oid :: bool
  lc_auth_methods :: nat
  lc_banner :: "string option"
  lc_xml_config :: "(string \<times> string) option"    \<comment> \<open>file and its hash\<close>
  lc_cert_hash :: string
  lc_anyconnect :: bool    \<comment> \<open>ANYCONNECT_CLIENT_COMPAT\<close>

datatype auth_rep = Rep_ok | Rep_failed | Rep_msg

record sec_reply =
  sr_reply :: auth_rep
  sr_user_name :: "string option"
  sr_reply_sid :: "byte list option"
  sr_reply_cookie :: "byte list option"
  sr_dtls_session_id :: "byte list"
  sr_msg :: "string option"

text \<open>The peer's certificate: is it parsed, its user, its groups up to the first that is not there.\<close>

record peer_cert =
  px_import :: bool
  px_user :: "string option"
  px_groups :: "string option list"

text \<open>
  \<open>lv_fail\<close>: which send of a response fails first; \<open>lv_str\<close>: the page's text can be built;
  \<open>lv_reply cmd\<close>: result of recv_msg and the answer of the security module.
\<close>

record login_env =
  lv_http_ver :: nat
  lv_fail :: "nat option"
  lv_str :: bool
  lv_cert_auth_ok :: bool
  lv_cert :: "peer_cert option"
  lv_base64 :: "byte list \<Rightarrow> string"
  lv_remote_ip :: string
  lv_connect :: bool
  lv_sent :: "worker_cmd \<Rightarrow> int"
  lv_reply :: "worker_cmd \<Rightarrow> int \<times> sec_reply"

datatype login_result = Returned int login | Exited login

definition selected_type :: "login \<Rightarrow> u32" where
  "selected_type l = (case ha_selected_auth (lg_app l) of None \<Rightarrow> 0 | Some m \<Rightarrow> wa_type m)"

text \<open>The selected method has some of these types.\<close>

definition sel :: "u32 \<Rightarrow> login \<Rightarrow> bool" where
  "sel t l \<longleftrightarrow> selected_type l AND t \<noteq> 0"

definition auth_state :: "login \<Rightarrow> ws_auth_state" where
  "auth_state l = ha_auth_state (lg_app l)"

definition set_state :: "ws_auth_state \<Rightarrow> login \<Rightarrow> login" where
  "set_state s l = l\<lparr>lg_app := (lg_app l)\<lparr>ha_auth_state := s\<rparr>\<rparr>"

definition set_sid :: "byte list option \<Rightarrow> login \<Rightarrow> login" where
  "set_sid sid l =
     (case sid of
        Some s \<Rightarrow> if length s = WS_SID_SIZE
                  then l\<lparr>lg_app := (lg_app l)\<lparr>ha_sid := s, ha_sid_set := True\<rparr>\<rparr> else l
      | None \<Rightarrow> l)"

text \<open>Send these texts, \<open>done\<close> of the response being sent already; the result is that of the last send.\<close>

definition put :: "login_env \<Rightarrow> nat \<Rightarrow> string list \<Rightarrow> login \<Rightarrow> int \<times> login" where
  "put env n texts l =
     (case lv_fail env of
        Some k \<Rightarrow>
          if n \<le> k \<and> k < n + length texts then (-1, l\<lparr>lg_out := lg_out l @ take (k - n) texts\<rparr>)
          else (0, l\<lparr>lg_out := lg_out l @ texts\<rparr>)
      | None \<Rightarrow> (0, l\<lparr>lg_out := lg_out l @ texts\<rparr>))"

section \<open>The certificate\<close>

fun read_cert_groups :: "string option list \<Rightarrow> string list option" where
  "read_cert_groups [] = Some []"
| "read_cert_groups (None # gs) = None"
| "read_cert_groups (Some g # gs) = map_option ((#) g) (read_cert_groups gs)"

definition get_cert_names :: "login_cfg \<Rightarrow> peer_cert \<Rightarrow> login \<Rightarrow> int \<times> login" where
  "get_cert_names cfg crt l =
     (if lg_cert_username l \<noteq> [] \<or> lg_cert_groups l \<noteq> [] then (0, l)
      else if \<not> px_import crt then (-1, l)
      else
        (case px_user crt of
           None \<Rightarrow> (-1, l)
         | Some u \<Rightarrow>
             let l1 = l\<lparr>lg_cert_username := u\<rparr> in
             if \<not> lc_cert_group_oid cfg then (0, l1)
             else (case read_cert_groups (px_groups crt) of
                     None \<Rightarrow> (-1, l1)
                   | Some gs \<Rightarrow> (0, l1\<lparr>lg_cert_groups := gs\<rparr>))))"

definition get_cert_info :: "login_env \<Rightarrow> login_cfg \<Rightarrow> login \<Rightarrow> int \<times> login" where
  "get_cert_info env cfg l =
     (case lv_cert env of
        None \<Rightarrow> (-1, l)
      | Some crt \<Rightarrow> (case get_cert_names cfg crt l of (ret, l1) \<Rightarrow> (if ret < 0 then -1 else 0, l1)))"

section \<open>The answer of the security module\<close>

text \<open>Result, message for the client and worker; \<open>txt\<close> is never NULL here.\<close>

definition recv_auth_reply :: "int \<Rightarrow> sec_reply \<Rightarrow> login \<Rightarrow> int \<times> string option \<times> login" where
  "recv_auth_reply ret m l =
     (if ret < 0 then (ret, None, l)
      else
        (case sr_reply m of
           Rep_msg \<Rightarrow>
             if sr_msg m = None then (ERR_AUTH_FAIL, None, l)
             else (ERR_AUTH_CONTINUE, sr_msg m, set_sid (sr_reply_sid m) l)
         | Rep_ok \<Rightarrow>
             (case sr_user_name m of
                None \<Rightarrow> (ERR_AUTH_FAIL, None, l)
              | Some u \<Rightarrow>
                  let l1 = set_sid (sr_reply_sid m) (l\<lparr>lg_username := strlcpy_str MAX_USERNAME_SIZE u\<rparr>)
                  in (case sr_reply_cookie m of
                        None \<Rightarrow> (ERR_AUTH_FAIL, None, l1)
                      | Some c \<Rightarrow>
                          if c = [] \<or> length (sr_dtls_session_id m) \<noteq> 32 then (ERR_AUTH_FAIL, None, l1)
                          else (0, sr_msg m,
                                l1\<lparr>lg_app := (lg_app l1)\<lparr>ha_cookie := c, ha_cookie_set := True\<rparr>,
                                   lg_session_id := sr_dtls_session_id m\<rparr>)))
         | Rep_failed \<Rightarrow> (ERR_AUTH_FAIL, None, l)))"

section \<open>Pages\<close>

definition NL :: string where "NL = [CHR 0x0A]"

definition VERSION_MSG :: string where
  \<open>VERSION_MSG = ''<version who="sg">0.1(1)</version>'' @ NL\<close>

definition xml_head :: string where
  \<open>xml_head = ''<?xml version="1.0" encoding="UTF-8"?>'' @ NL\<close>

definition login_msg_start :: "agent_type \<Rightarrow> string \<Rightarrow> string" where
  \<open>login_msg_start agent msg = xml_head
     @ (if agent = AGENT_OPENCONNECT_V3 then []
        else ''<config-auth client="vpn" type="auth-request">'' @ NL @ VERSION_MSG)
     @ ''<auth id="main">'' @ NL @ ''<message>'' @ msg @ ''</message>'' @ NL
     @ ''<form method="post" action="/auth">'' @ NL\<close>

definition login_msg_end :: "agent_type \<Rightarrow> string" where
  "login_msg_end agent = ''</form></auth>'' @ NL
     @ (if agent = AGENT_OPENCONNECT_V3 then [] else ''</config-auth>'')"

definition login_msg_user :: string where
  \<open>login_msg_user = ''<input type="text" name="username" label="Username:" />'' @ NL\<close>

definition login_msg_password :: string where
  \<open>login_msg_password = ''<input type="password" name="password" label="Password:" />'' @ NL\<close>

definition success_msg_head :: "agent_type \<Rightarrow> string" where
  \<open>success_msg_head agent = xml_head
     @ (if agent = AGENT_OPENCONNECT_V3 then []
        else ''<config-auth client="vpn" type="complete">'' @ NL @ VERSION_MSG)
     @ ''<auth id="success">'' @ NL @ ''<title>SSL VPN Service</title>''\<close>

definition success_msg_foot :: "agent_type \<Rightarrow> string" where
  "success_msg_foot agent =
     (if agent = AGENT_OPENCONNECT_V3 then ''</auth>'' else ''</auth></config-auth>'') @ NL"

text \<open>One option of the group list; snprintf into 128 bytes.\<close>

definition group_option :: "string \<Rightarrow> string \<Rightarrow> string" where
  \<open>group_option value name =
     take 127 (''<option value="'' @ value @ ''">'' @ name @ ''</option>'' @ NL)\<close>

definition append_group_idx :: "string \<times> string option \<Rightarrow> string" where
  "append_group_idx g = group_option (fst g) (case snd g of None \<Rightarrow> fst g | Some n \<Rightarrow> n)"

definition append_group_str :: "login_cfg \<Rightarrow> string \<Rightarrow> string" where
  "append_group_str cfg grp =
     group_option grp
       (case List.find (\<lambda>g. fst g = grp) (lc_group_list cfg) of
          Some (_, Some n) \<Rightarrow> n | _ \<Rightarrow> grp)"

definition plain_option :: "string \<Rightarrow> string" where
  "plain_option g = ''<option>'' @ g @ ''</option>'' @ NL"

text \<open>The groups, the one the client selected first.\<close>

definition cert_login :: "login_env \<Rightarrow> login \<Rightarrow> bool" where
  "cert_login env l \<longleftrightarrow> sel CERTIFICATE l \<and> lv_cert_auth_ok env"

definition offered_cert_groups :: "login_env \<Rightarrow> login_cfg \<Rightarrow> login \<Rightarrow> string list" where
  "offered_cert_groups env cfg l =
     (if cert_login env l
      then filter (\<lambda>g. g \<notin> set (map fst (lc_group_list cfg)) \<and> \<not> (lg_groupname l \<noteq> [] \<and> g = lg_groupname l))
             (lg_cert_groups l)
      else [])"

definition offered_groups :: "login_cfg \<Rightarrow> login \<Rightarrow> (string \<times> string option) list" where
  "offered_groups cfg l =
     filter (\<lambda>g. \<not> (lg_groupname l \<noteq> [] \<and> fst g = lg_groupname l)) (lc_group_list cfg)"

definition group_select :: "login_env \<Rightarrow> login_cfg \<Rightarrow> login \<Rightarrow> string" where
  \<open>group_select env cfg l =
     (if lc_group_list cfg = [] \<and> lg_cert_groups l = [] then []
      else ''<select name="group_list" label="GROUP:">'' @ NL
        @ (if lg_groupname l \<noteq> [] then append_group_str cfg (lg_groupname l) else [])
        @ (case lc_default_select_group cfg of None \<Rightarrow> [] | Some g \<Rightarrow> plain_option g)
        @ concat (map plain_option (offered_cert_groups env cfg l))
        @ concat (map append_group_idx (offered_groups cfg l))
        @ ''</select>'' @ NL)\<close>

text \<open>The form asked for, and the worker after reading the certificate; None on an error.\<close>

definition login_page :: "login_env \<Rightarrow> login_cfg \<Rightarrow> string option \<Rightarrow> login \<Rightarrow> string option \<times> login" where
  "login_page env cfg pmsg l =
     (let agent = ha_agent_type (lg_app l) in
      if \<not> lv_str env then (None, l)
      else if auth_state l = S_AUTH_REQ then
        (Some (login_msg_start agent (case pmsg of None \<Rightarrow> ''Please enter your password'' | Some m \<Rightarrow> m)
               @ login_msg_password @ login_msg_end agent), l)
      else
        (case (if cert_login env l then get_cert_info env cfg l else (0, l)) of
           (ret, l1) \<Rightarrow>
             if ret < 0 then (None, l1)
             else
               (Some (login_msg_start agent (case pmsg of None \<Rightarrow> ''Please enter your username'' | Some m \<Rightarrow> m)
                      @ (if sel AUTH_TYPE_USERNAME_PASS l then login_msg_user else [])
                      @ group_select env cfg l1 @ login_msg_end agent), l1)))"

definition no_sid_cookie :: string where
  "no_sid_cookie =
     ''Set-Cookie: webvpncontext=; expires=Thu, 01 Jan 1970 22:00:00 GMT; path=/; Secure'' @ CRLF"

text \<open>The last, empty text stands for cstp_uncork.\<close>

definition send_login_page :: "login_env \<Rightarrow> login_cfg \<Rightarrow> string option \<Rightarrow> login \<Rightarrow> int \<times> login" where
  "send_login_page env cfg pmsg l =
     (case put env 0
             [''HTTP/1.'' @ dec (lv_http_ver env) @ '' 200 OK'' @ CRLF,
              if ha_sid_set (lg_app l)
              then ''Set-Cookie: webvpncontext='' @ lv_base64 env (ha_sid (lg_app l)) @ ''; Max-Age=''
                   @ dec (unat (lc_cookie_timeout cfg)) @ ''; Secure'' @ CRLF
              else no_sid_cookie,
              line ''Content-Type'' ''text/xml''] l of
        (ret, l1) \<Rightarrow>
          if ret < 0 then (-1, l1)
          else
            (case login_page env cfg pmsg l1 of
               (None, l2) \<Rightarrow> (-1, l2)
             | (Some page, l2) \<Rightarrow>
                 put env 3
                   [line ''Content-Length'' (dec (length page)), line ''X-Transcend-Version'' ''1'', CRLF, page, []]
                   l2))"

text \<open>The challenge of a GSSAPI authentication.\<close>

definition basic_auth_handler :: "login_env \<Rightarrow> login_cfg \<Rightarrow> string option \<Rightarrow> login \<Rightarrow> int \<times> login" where
  "basic_auth_handler env cfg msg l =
     put env 0
       ([''HTTP/1.'' @ dec (lv_http_ver env) @ '' 401 Unauthorized'' @ CRLF]
        @ (if 1 < lc_auth_methods cfg then [line ''X-HTTP-Auth-Support'' ''fallback''] else [])
        @ [case msg of None \<Rightarrow> line ''WWW-Authenticate'' ''Negotiate''
           | Some m \<Rightarrow> line ''WWW-Authenticate'' (''Negotiate '' @ m),
           line ''Content-Length'' ''0'', CRLF, []]) l"

text \<open>The answer to a successful login; the banner has a buffer of MAX_BANNER_SIZE + 32 bytes.\<close>

definition webvpnc_cookie :: "login_cfg \<Rightarrow> string" where
  "webvpnc_cookie cfg =
     ''Set-Cookie: webvpnc=bu:/&p:t&iu:1/&sh:'' @ lc_cert_hash cfg
     @ (case lc_xml_config cfg of
          None \<Rightarrow> []
        | Some (file, h) \<Rightarrow>
            ''&lu:/+CSCOT+/translation-table?textdomain%3DAnyConnect%26type%3Dmanifest&fu:profiles%2F''
            @ file @ ''&fh:'' @ h)
     @ ''; path=/; Secure'' @ CRLF"

definition post_common_handler :: "login_env \<Rightarrow> login_cfg \<Rightarrow> string option \<Rightarrow> login \<Rightarrow> int \<times> login" where
  "post_common_handler env cfg imsg l =
     (let agent = ha_agent_type (lg_app l);
          msg = (case lc_banner cfg of
                   None \<Rightarrow> [] | Some b \<Rightarrow> take 287 (''<banner>'' @ b @ ''</banner>''));
          body = success_msg_head agent @ msg @ success_msg_foot agent
      in put env 0
           ([''HTTP/1.'' @ dec (lv_http_ver env) @ '' 200 OK'' @ CRLF, line ''Connection'' ''Keep-Alive'']
            @ (case imsg of
                 Some m \<Rightarrow> if sel AUTH_TYPE_GSSAPI l \<and> m \<noteq> []
                           then [line ''WWW-Authenticate'' (''Negotiate '' @ m)] else []
               | None \<Rightarrow> [])
            @ [line ''Content-Type'' ''text/xml'', line ''Content-Length'' (dec (length body)),
               line ''X-Transcend-Version'' ''1'',
               ''Set-Cookie: webvpn='' @ lv_base64 env (ha_cookie (lg_app l)) @ ''; Secure'' @ CRLF]
            @ (if lc_anyconnect cfg
               then [''Set-Cookie: webvpnc=; expires=Thu, 01 Jan 1970 22:00:00 GMT; path=/; Secure'' @ CRLF,
                     webvpnc_cookie cfg]
               else [])
            @ [CRLF @ body, []]) l)"

section \<open>Posting\<close>

text \<open>
  get_auth_handler2; \<open>post\<close> is post_auth_handler, which a GSSAPI request is handed to, None when
  it does not return.
\<close>

definition no_authorization :: "login \<Rightarrow> bool" where
  "no_authorization l \<longleftrightarrow> (case ha_authorization (lg_app l) of None \<Rightarrow> True | Some a \<Rightarrow> a = [])"

definition before_cookie :: "login \<Rightarrow> bool" where
  "before_cookie l \<longleftrightarrow> auth_state l \<in> {S_AUTH_INACTIVE, S_AUTH_INIT, S_AUTH_REQ}"

definition returned :: "int \<times> login \<Rightarrow> login_result option" where
  "returned r = Some (Returned (fst r) (snd r))"

definition get_auth_handler2 ::
  "login_env \<Rightarrow> login_cfg \<Rightarrow> (login \<Rightarrow> login_result option) \<Rightarrow> string option \<Rightarrow> login \<Rightarrow> login_result option" where
  "get_auth_handler2 env cfg post pmsg l =
     (if sel AUTH_TYPE_GSSAPI l \<and> before_cookie l then
        if no_authorization l then returned (basic_auth_handler env cfg None l) else post l
      else returned (send_login_page env cfg pmsg l))"

text \<open>How a login attempt goes on before anything is sent to the security module.\<close>

datatype attempt =
  Ask_auth "string option" login    \<comment> \<open>get_auth_handler2 with this message\<close>
| Challenge login
| Auth_fail string login
| Ask_secmod worker_cmd login

definition auth_failed :: string where "auth_failed = ''Authentication failed''"

text \<open>The token follows the word Negotiate and a space; \<open>authorization_size\<close> is the header's length.\<close>

definition token_of :: "login \<Rightarrow> string option" where
  "token_of l =
     (case ha_authorization (lg_app l) of
        None \<Rightarrow> None | Some a \<Rightarrow> if 10 < length a then Some (c_string (drop 10 a)) else None)"

definition posted_group :: "string \<Rightarrow> string option" where
  "posted_group body =
     (case parse_reply body GROUPNAME_FIELD (Some GROUPNAME_FIELD_XML) of
        None \<Rightarrow> parse_reply body GROUPNAME_FIELD2 (Some GROUPNAME_FIELD_XML)
      | Some g \<Rightarrow> Some g)"

text \<open>The group: whether the default was chosen, the request's group and the worker.\<close>

definition choose_group :: "login_cfg \<Rightarrow> login \<Rightarrow> bool \<times> string option \<times> login" where
  "choose_group cfg l =
     (case posted_group (lg_body l) of
        None \<Rightarrow> (False, None, l)
      | Some g \<Rightarrow>
          if lc_default_select_group cfg = Some g then (True, None, l)
          else (let g1 = strlcpy_str MAX_GROUPNAME_SIZE g in (False, Some g1, l\<lparr>lg_groupname := g1\<rparr>)))"

definition empty_init :: "string option \<Rightarrow> login_env \<Rightarrow> login \<Rightarrow> init_req" where
  "empty_init grp env l =
     \<lparr>in_ip = lv_remote_ip env, in_auth_type = 0, in_hostname = Some (ha_hostname (lg_app l)),
      in_user_name = None, in_group_name = grp, in_tls_auth_ok = False, in_cert_user_name = None,
      in_cert_group_names = []\<rparr>"

text \<open>The certificate's part of the request, the last step before the security module.\<close>

definition init_certificate :: "login_env \<Rightarrow> login_cfg \<Rightarrow> bool \<Rightarrow> init_req \<Rightarrow> login \<Rightarrow> attempt" where
  "init_certificate env cfg def_group req l =
     (if \<not> sel AUTH_TYPE_CERTIFICATE l then Ask_secmod (W_auth_init (Some req)) l
      else if \<not> lv_cert_auth_ok env then Auth_fail ''No certificate'' l
      else
        (case get_cert_info env cfg l of
           (ret, l1) \<Rightarrow>
             if ret < 0 then Auth_fail ''Could not read certificate'' l1
             else if \<not> def_group \<and> lg_cert_groups l1 \<noteq> [] \<and> lg_groupname l1 = []
             then Ask_auth (Some ''Please select your group'') l1
             else Ask_secmod (W_auth_init (Some (req
                    \<lparr>in_tls_auth_ok := True, in_cert_user_name := Some (lg_cert_username l1),
                     in_cert_group_names := lg_cert_groups l1,
                     in_auth_type := in_auth_type req OR AUTH_TYPE_CERTIFICATE\<rparr>))) l1))"

definition init_user :: "login_env \<Rightarrow> login_cfg \<Rightarrow> bool \<Rightarrow> init_req \<Rightarrow> login \<Rightarrow> attempt" where
  "init_user env cfg def_group req l =
     (if \<not> sel AUTH_TYPE_USERNAME_PASS l then init_certificate env cfg def_group req l
      else
        (case parse_reply (lg_body l) USERNAME_FIELD None of
           None \<Rightarrow> Ask_auth None l
         | Some u \<Rightarrow>
             let u1 = strlcpy_str MAX_USERNAME_SIZE u in
             init_certificate env cfg def_group
               (req\<lparr>in_user_name := Some u1, in_auth_type := in_auth_type req OR AUTH_TYPE_USERNAME_PASS\<rparr>)
               (l\<lparr>lg_username := u1\<rparr>)))"

definition auth_init_attempt :: "login_env \<Rightarrow> login_cfg \<Rightarrow> login \<Rightarrow> attempt" where
  "auth_init_attempt env cfg l =
     (case choose_group cfg l of
        (def_group, grp, l1) \<Rightarrow>
          let req = empty_init grp env l1 in
          if \<not> sel AUTH_TYPE_GSSAPI l1 then init_user env cfg def_group req l1
          else if no_authorization l1 then Challenge l1
          else
            (case token_of l1 of
               None \<Rightarrow> Auth_fail auth_failed l1
             | Some t \<Rightarrow>
                 init_user env cfg def_group
                   (req\<lparr>in_user_name := Some t, in_auth_type := in_auth_type req OR AUTH_TYPE_GSSAPI\<rparr>) l1))"

definition auth_cont_attempt :: "login \<Rightarrow> attempt" where
  "auth_cont_attempt l =
     (let sid = (if ha_sid_set (lg_app l) then ha_sid (lg_app l) else []) in
      if sel AUTH_TYPE_GSSAPI l then
        (case token_of l of
           None \<Rightarrow> Auth_fail auth_failed l
         | Some t \<Rightarrow> Ask_secmod (W_auth_cont (Some (sid, Some t))) l)
      else if sel AUTH_TYPE_USERNAME_PASS l then
        (case parse_reply (lg_body l) PASSWORD_FIELD None of
           None \<Rightarrow> Auth_fail ''No password'' l
         | Some p \<Rightarrow> Ask_secmod (W_auth_cont (Some (sid, Some p))) l)
      else Auth_fail auth_failed l)"

text \<open>A session id of an earlier request makes this one a continuation.\<close>

definition resume_state :: "login \<Rightarrow> login" where
  "resume_state l =
     (if ha_sid_set (lg_app l) \<and> auth_state l = S_AUTH_INACTIVE then set_state S_AUTH_INIT l else l)"

definition login_attempt :: "login_env \<Rightarrow> login_cfg \<Rightarrow> login \<Rightarrow> attempt" where
  "login_attempt env cfg l =
     (if auth_state l = S_AUTH_INACTIVE then auth_init_attempt env cfg l
      else if auth_state l = S_AUTH_INIT \<or> auth_state l = S_AUTH_REQ then auth_cont_attempt l
      else Auth_fail auth_failed l)"

text \<open>The label auth_fail; exit_worker does not return.\<close>

definition auth_fail :: "login_env \<Rightarrow> string \<Rightarrow> login \<Rightarrow> login_result option" where
  "auth_fail env reason l =
     Some (Exited (snd (put env 0
       [''HTTP/1.'' @ dec (lv_http_ver env) @ '' 401 Unauthorized'' @ CRLF @ line ''Content-Length'' ''0''
        @ line ''X-Reason'' reason @ CRLF] l)))"

text \<open>The state of the worker once its request is sent.\<close>

definition asked_state :: "worker_cmd \<Rightarrow> ws_auth_state" where
  "asked_state cmd = (case cmd of W_auth_init _ \<Rightarrow> S_AUTH_INIT | _ \<Rightarrow> S_AUTH_REQ)"

definition handle_reply ::
  "login_env \<Rightarrow> login_cfg \<Rightarrow> (string option \<Rightarrow> login \<Rightarrow> login_result option) \<Rightarrow> int \<times> sec_reply \<Rightarrow> login
    \<Rightarrow> login_result option" where
  "handle_reply env cfg ask rep l =
     (case recv_auth_reply (fst rep) (snd rep) l of
        (ret, msg, l1) \<Rightarrow>
          if ret = ERR_AUTH_CONTINUE then
            let l2 = set_state S_AUTH_REQ l1 in
            if sel AUTH_TYPE_GSSAPI l2 then returned (basic_auth_handler env cfg msg l2) else ask msg l2
          else if ret < 0 then
            if sel AUTH_TYPE_GSSAPI l1 then
              let a = ws_switch_auth_to USERNAME_PASS (ws_disable_auth GSSAPI (lg_app l1)) in
              if \<not> fst a then auth_fail env auth_failed (l1\<lparr>lg_app := snd a\<rparr>)
              else ask None (l1\<lparr>lg_app := (snd a)\<lparr>ha_auth_state := S_AUTH_INACTIVE, ha_sid_set := False\<rparr>\<rparr>)
            else auth_fail env auth_failed l1
          else returned (post_common_handler env cfg msg (set_state S_AUTH_COOKIE l1)))"

definition post_body ::
  "login_env \<Rightarrow> login_cfg \<Rightarrow> (string option \<Rightarrow> login \<Rightarrow> login_result option) \<Rightarrow> login \<Rightarrow> login_result option" where
  "post_body env cfg ask l =
     (case login_attempt env cfg (resume_state l) of
        Ask_auth pmsg l1 \<Rightarrow> ask pmsg l1
      | Challenge l1 \<Rightarrow> returned (basic_auth_handler env cfg None l1)
      | Auth_fail reason l1 \<Rightarrow> auth_fail env reason l1
      | Ask_secmod cmd l1 \<Rightarrow>
          if \<not> lv_connect env \<or> lv_sent env cmd < 0 then auth_fail env ''Internal error'' l1
          else handle_reply env cfg ask (lv_reply env cmd)
                 ((set_state (asked_state cmd) l1)\<lparr>lg_asked := lg_asked l1 @ [cmd]\<rparr>))"

text \<open>post_auth_handler and get_auth_handler2 call each other; fuel counts the calls of the former.\<close>

primrec post_auth_handler :: "nat \<Rightarrow> login_env \<Rightarrow> login_cfg \<Rightarrow> login \<Rightarrow> login_result option" where
  "post_auth_handler 0 env cfg l = None"
| "post_auth_handler (Suc n) env cfg l =
     post_body env cfg (get_auth_handler2 env cfg (post_auth_handler n env cfg)) l"

definition get_auth_handler :: "nat \<Rightarrow> login_env \<Rightarrow> login_cfg \<Rightarrow> login \<Rightarrow> login_result option" where
  "get_auth_handler n env cfg l = get_auth_handler2 env cfg (post_auth_handler n env cfg) None l"

end
