(* ===== verification/LoginForm.thy ===== *)
theory LoginForm
  imports WorkerAuth SecModule
begin

text \<open>
  What the login of WorkerAuth does for its client: posted fields are read back exactly, they reach
  the security module, only its acceptance yields a cookie, and the two handlers that call each
  other come to an end, except for one configuration.
\<close>

section \<open>Reading a form\<close>

text \<open>The body a client posts: fields in order, values percent-encoded.\<close>

fun form_body :: "(char \<Rightarrow> bool) \<Rightarrow> (string \<times> string) list \<Rightarrow> string" where
  "form_body safe [] = []"
| "form_body safe [(k, v)] = k @ ''='' @ percent_encode safe v"
| "form_body safe ((k, v) # f # fs) = k @ ''='' @ percent_encode safe v @ ''&'' @ form_body safe (f # fs)"

text \<open>Characters left as they are by the client's encoder cannot be taken for the form's own.\<close>

definition safe_ok :: "(char \<Rightarrow> bool) \<Rightarrow> bool" where
  "safe_ok safe \<longleftrightarrow> list_all (\<lambda>c. \<not> safe c) [NUL, CHR ''='', CHR ''&'', CHR ''<'']"

definition key_ok :: "string \<Rightarrow> bool" where
  "key_ok k \<longleftrightarrow> list_all (\<lambda>c. c \<notin> set k) [NUL, CHR ''='', CHR ''&'', CHR ''<'']"

definition ends_with :: "string \<Rightarrow> string \<Rightarrow> bool" where
  "ends_with k s \<longleftrightarrow> length k \<le> length s \<and> map ascii_lower (drop (length s - length k) s) = k"

lemma lower_plain: "c \<in> {CHR ''='', CHR ''&''} \<Longrightarrow> ascii_lower c = c"
  by (auto simp: ascii_lower_def)

lemma lower_eq [simp]: "ascii_lower c = CHR ''='' \<longleftrightarrow> c = CHR ''=''"
proof
  assume a: "ascii_lower c = CHR ''=''"
  show "c = CHR ''=''"
  proof (cases "65 \<le> (of_char c :: nat) \<and> (of_char c :: nat) \<le> 90")
    case True
    then have "of_char (ascii_lower c) = ((of_char c + 32) mod 256 :: nat)" by (simp add: ascii_lower_def)
    then show ?thesis using a True by simp
  next
    case False
    then show ?thesis using a by (simp add: ascii_lower_def Let_def split: if_splits)
  qed
qed (simp add: lower_plain)

lemma no_match_amp:
  assumes "casecmp_prefix (t @ CHR ''&'' # r) (k @ ''='')" and "CHR ''='' \<notin> set t" and "CHR ''&'' \<notin> set k"
  shows False
  using assms
proof (induction t arbitrary: k)
  case Nil
  then show ?case by (cases k) (auto simp: lower_plain)
next
  case (Cons c t)
  then show ?case by (cases k) auto
qed

lemma match_key:
  assumes "casecmp_prefix (t @ CHR ''='' # r) (k @ ''='')" and "CHR ''='' \<notin> set t" and "CHR ''='' \<notin> set k"
  shows "map ascii_lower t = k"
  using assms
proof (induction t arbitrary: k)
  case Nil
  then show ?case by (cases k) (auto simp: lower_plain)
next
  case (Cons c t)
  then show ?case by (cases k) auto
qed

lemma strcasestr_skip:
  "(\<And>a b. t = a @ b \<Longrightarrow> b \<noteq> [] \<Longrightarrow> \<not> casecmp_prefix (b @ r) w) \<Longrightarrow> strcasestr (t @ r) w = strcasestr r w"
proof (induction t)
  case (Cons c t)
  have "strcasestr (t @ r) w = strcasestr r w"
    by (rule Cons.IH) (metis Cons.prems append_Cons)
  moreover have "\<not> casecmp_prefix ((c # t) @ r) w" using Cons.prems [of "[]" "c # t"] by simp
  ultimately show ?case by simp
qed simp

lemma strcasestr_here: "casecmp_prefix s w \<Longrightarrow> strcasestr s w = Some s"
  by (cases s) auto

lemma casecmp_self: "map ascii_lower k = k \<Longrightarrow> casecmp_prefix (k @ r) k"
  by (induction k) auto

lemma percent_chars:
  assumes "c \<in> set (percent_encode safe s)"
  shows "safe c \<or> c = CHR ''%'' \<or> (\<exists>n < 16. c = hexdigit n)"
  using assms
proof (induction s)
  case (Cons d s)
  have "of_char d div 16 < (16 :: nat)" using less_mult_imp_div_less [of "of_char d" 16 16] by simp
  moreover have "of_char d mod 16 < (16 :: nat)" by simp
  ultimately have "\<exists>n<16. hexdigit (of_char d div 16) = hexdigit n" "\<exists>n<16. hexdigit (of_char d mod 16) = hexdigit n"
    by blast+
  then show ?case using Cons by (fastforce simp: percent_byte_def split: if_splits)
qed simp

lemma percent_clean:
  assumes "safe_ok safe" and "c \<in> {NUL, CHR ''='', CHR ''&'', CHR ''<''}"
  shows "c \<notin> set (percent_encode safe s)"
proof
  assume "c \<in> set (percent_encode safe s)"
  moreover have "list_all (\<lambda>n. hexdigit n \<notin> {NUL, CHR ''='', CHR ''&'', CHR ''<''}) [0..<16]" by code_simp
  ultimately show False
    using percent_chars [of c safe s] assms by (auto simp: safe_ok_def list_all_iff)
qed

lemma percent_nil [simp]: "percent_encode safe s = [] \<longleftrightarrow> s = []"
  by (cases s) (auto simp: percent_byte_def)

lemma skip_field:
  assumes "safe_ok safe" and "key_ok k'" and "key_ok k" and "\<not> ends_with k k'"
  shows "strcasestr ((k' @ ''='' @ percent_encode safe v @ ''&'') @ r) (k @ ''='') = strcasestr r (k @ ''='')"
proof (rule strcasestr_skip, rule notI)
  fix a b
  assume t: "k' @ ''='' @ percent_encode safe v @ ''&'' = a @ b" and "b \<noteq> []"
    and m: "casecmp_prefix (b @ r) (k @ ''='')"
  have clean: "CHR ''='' \<notin> set (percent_encode safe v)" "CHR ''='' \<notin> set k'" "CHR ''='' \<notin> set k" "CHR ''&'' \<notin> set k"
    using percent_clean [OF assms(1)] assms(2,3) by (auto simp: key_ok_def)
  consider us where "k' = a @ us" "b = us @ ''='' @ percent_encode safe v @ ''&''"
    | us where "us @ b = percent_encode safe v @ ''&''"
  proof -
    obtain us where "(k' = a @ us \<and> us @ ''='' @ percent_encode safe v @ ''&'' = b)
        \<or> (k' @ us = a \<and> ''='' @ percent_encode safe v @ ''&'' = us @ b)"
      using t unfolding append_eq_append_conv2 by blast
    then show thesis using that by (cases us) auto
  qed
  then show False
  proof cases
    case (1 us)
    then have "map ascii_lower us = k"
      using m clean match_key [of us "percent_encode safe v @ ''&'' @ r" k] by auto
    then show False using assms(4) 1 by (auto simp: ends_with_def)
  next
    case (2 us)
    then obtain d where d: "b = d @ ''&''"
      using \<open>b \<noteq> []\<close> by (metis append_butlast_last_id last_appendR last_snoc)
    then have "CHR ''='' \<notin> set d" using 2(1) clean(1) by (metis Un_iff append.assoc append_same_eq set_append)
    then show False using d m clean(4) no_match_amp [of d r k] by simp
  qed
qed

lemma str_contains_head: "c \<notin> set s \<Longrightarrow> \<not> str_contains s (c # w)"
  by (induction s) (auto simp: has_prefix_def)

lemma form_body_Cons:
  "form_body safe ((k, v) # fs) = k @ ''='' @ percent_encode safe v @ (if fs = [] then [] else ''&'' @ form_body safe fs)"
  by (cases fs) auto

lemma form_clean:
  assumes "safe_ok safe" and "list_all (\<lambda>(k, v). key_ok k) fs" and "c \<in> {NUL, CHR ''<''}"
  shows "c \<notin> set (form_body safe fs)"
  using assms(2)
proof (induction fs)
  case (Cons f fs)
  obtain k v where f: "f = (k, v)" by (cases f)
  then show ?case
    using Cons percent_clean [OF assms(1), of c v] assms(3) by (auto simp: form_body_Cons key_ok_def)
qed simp

text \<open>The fields before the wanted one do not end with its name.\<close>

definition earlier_ok :: "string \<Rightarrow> (string \<times> string) list \<Rightarrow> bool" where
  "earlier_ok k fs \<longleftrightarrow> list_all (\<lambda>(k', v). \<not> ends_with k k') fs"

lemma strcasestr_form:
  assumes "safe_ok safe" and "list_all (\<lambda>(k, v). key_ok k) pre" and "key_ok k" and "map ascii_lower k = k"
    and "earlier_ok k pre"
  shows "strcasestr (form_body safe (pre @ (k, v) # post)) (k @ ''='') = Some (form_body safe ((k, v) # post))"
  using assms(2,5)
proof (induction pre)
  case Nil
  have "casecmp_prefix ((k @ ''='') @ r) (k @ ''='')" for r
    by (rule casecmp_self) (simp add: assms(4) lower_plain)
  then show ?case by (simp add: form_body_Cons strcasestr_here)
next
  case (Cons f pre)
  obtain k' v' where f: "f = (k', v')" by (cases f)
  then have "form_body safe ((f # pre) @ (k, v) # post)
      = (k' @ ''='' @ percent_encode safe v' @ ''&'') @ form_body safe (pre @ (k, v) # post)"
    by (simp add: form_body_Cons)
  then show ?case
    using Cons f skip_field [OF assms(1) _ assms(3), of k' v'] by (simp add: earlier_ok_def)
qed

lemma form_value_field:
  assumes "safe_ok safe"
  shows "form_value (percent_encode safe v @ (if fs = [] then [] else ''&'' @ rest)) = percent_encode safe v"
proof -
  have "list_all (\<lambda>c. c \<noteq> CHR ''&'') (percent_encode safe v)"
    using percent_clean [OF assms, of "CHR ''&''" v] by (auto simp: list_all_iff)
  then show ?thesis by (auto simp: form_value_def takeWhile_append list_all_iff takeWhile_eq_all_conv)
qed

lemma unescape_field: "unescape_url True (percent_encode safe v @ rest) (length (percent_encode safe v)) = Some (v, length v)"
  using unescape_url_loop_encode [of "[]" safe v rest "[]"] by (simp add: unescape_url_def)

lemma parse_form:
  assumes "safe_ok safe" and "list_all (\<lambda>(k, v). key_ok k) (pre @ (k, v) # post)" and "map ascii_lower k = k"
    and "length k < 63" and "earlier_ok k pre" and "NUL \<notin> set v"
  shows "parse_reply (form_body safe (pre @ (k, v) # post)) k x = Some v"
proof -
  let ?b = "form_body safe (pre @ (k, v) # post)"
  have b: "?b \<noteq> []" by (cases pre) (auto simp: form_body_Cons)
  have c: "c_string ?b = ?b" "\<not> str_contains ?b ''<?xml''"
    using form_clean [OF assms(1,2)] by (auto simp: c_string_id str_contains_head)
  have s: "strcasestr ?b (k @ ''='') = Some (form_body safe ((k, v) # post))"
    using assms strcasestr_form [of safe pre k v post] by simp
  have d: "drop (length (k @ ''='')) (form_body safe ((k, v) # post))
      = percent_encode safe v @ (if post = [] then [] else ''&'' @ form_body safe post)"
    by (simp add: form_body_Cons)
  have t: "take 63 (k @ ''='') = k @ ''=''" using assms(4) by simp
  show ?thesis
    unfolding parse_reply_def Let_def
    using b c s d form_value_field [OF assms(1), of v post "form_body safe post"] unescape_field
    by (simp add: t assms(6) c_string_id del: drop_append take_append)
qed

lemma casecmp_mono: "casecmp_prefix s w \<Longrightarrow> casecmp_prefix (s @ r) w"
  by (induction s w rule: casecmp_prefix.induct) auto

lemma strcasestr_mono: "strcasestr (s @ r) w = None \<Longrightarrow> strcasestr s w = None"
proof (induction s)
  case Nil
  have "strcasestr r w = None \<Longrightarrow> \<not> casecmp_prefix [] w"
    using casecmp_mono [of "[]" w r] strcasestr_here [of r w] by auto
  then show ?case using Nil by simp
next
  case (Cons c s)
  then show ?case using casecmp_mono [of "c # s" w r] by (auto split: if_splits)
qed

lemma strcasestr_absent:
  assumes "safe_ok safe" and "list_all (\<lambda>(k, v). key_ok k) fs" and "key_ok k" and "earlier_ok k fs"
  shows "strcasestr (form_body safe fs) (k @ ''='') = None"
proof -
  have "fs \<noteq> [] \<Longrightarrow> strcasestr (form_body safe fs @ ''&'') (k @ ''='') = None"
    using assms(2,4)
  proof (induction fs)
    case (Cons f fs)
    obtain k' v where f: "f = (k', v)" by (cases f)
    then have "strcasestr (form_body safe (f # fs) @ ''&'') (k @ ''='')
        = strcasestr (if fs = [] then [] else form_body safe fs @ ''&'') (k @ ''='')"
      using skip_field [OF assms(1) _ assms(3), of k' v] Cons.prems by (simp add: form_body_Cons earlier_ok_def)
    also have "\<dots> = None" using Cons by (cases k) (auto simp: earlier_ok_def)
    finally show ?case .
  qed simp
  then show ?thesis by (cases "fs = []") (cases k, auto dest: strcasestr_mono)
qed

lemma parse_absent:
  assumes "safe_ok safe" and "list_all (\<lambda>(k, v). key_ok k) fs" and "key_ok k" and "earlier_ok k fs"
    and "length k < 63"
  shows "parse_reply (form_body safe fs) k x = None"
proof -
  have "c_string (form_body safe fs) = form_body safe fs" "\<not> str_contains (form_body safe fs) ''<?xml''"
    using form_clean [OF assms(1,2)] by (auto simp: c_string_id str_contains_head)
  moreover have "take 63 (k @ ''='') = k @ ''=''" using assms(5) by simp
  ultimately show ?thesis
    using strcasestr_absent [OF assms(1-4)] by (simp add: parse_reply_def Let_def del: take_append)
qed

section \<open>One attempt\<close>

definition login_of :: "login_result \<Rightarrow> login" where
  "login_of r = (case r of Returned _ l \<Rightarrow> l | Exited l \<Rightarrow> l)"

lemma login_of_simps [simp]: "login_of (Returned ret l) = l" "login_of (Exited l) = l"
  by (simp_all add: login_of_def)

lemma put_frame [simp]:
  "lg_app (snd (put env n ts l)) = lg_app l" "lg_asked (snd (put env n ts l)) = lg_asked l"
  "lg_username (snd (put env n ts l)) = lg_username l"
  by (auto simp: put_def split: option.splits)

lemma get_cert_info_frame [simp]:
  "lg_app (snd (get_cert_info env cfg l)) = lg_app l" "lg_asked (snd (get_cert_info env cfg l)) = lg_asked l"
  "lg_groupname (snd (get_cert_info env cfg l)) = lg_groupname l" "lg_body (snd (get_cert_info env cfg l)) = lg_body l"
  by (auto simp: get_cert_info_def get_cert_names_def Let_def split: option.splits prod.splits)

lemma login_page_frame [simp]:
  "lg_app (snd (login_page env cfg m l)) = lg_app l" "lg_asked (snd (login_page env cfg m l)) = lg_asked l"
  using get_cert_info_frame [of env cfg l]
  by (auto simp: login_page_def Let_def simp del: get_cert_info_frame split: prod.splits)

lemma send_login_page_frame [simp]:
  "lg_app (snd (send_login_page env cfg m l)) = lg_app l" "lg_asked (snd (send_login_page env cfg m l)) = lg_asked l"
  by (auto simp: send_login_page_def split_beta split: option.splits)

definition attempt_login :: "attempt \<Rightarrow> login" where
  "attempt_login a = (case a of Ask_auth _ l \<Rightarrow> l | Challenge l \<Rightarrow> l | Auth_fail _ l \<Rightarrow> l | Ask_secmod _ l \<Rightarrow> l)"

lemma attempt_login_simps [simp]:
  "attempt_login (Ask_auth m l) = l" "attempt_login (Challenge l) = l" "attempt_login (Auth_fail r l) = l"
  "attempt_login (Ask_secmod c l) = l"
  by (simp_all add: attempt_login_def)

text \<open>An attempt leaves what the request said and what the security module was asked alone.\<close>

definition same_request :: "login \<Rightarrow> login \<Rightarrow> bool" where
  "same_request l l1 \<longleftrightarrow> lg_app l1 = lg_app l \<and> lg_asked l1 = lg_asked l \<and> lg_body l1 = lg_body l"

lemma same_request_refl [simp]: "same_request l l"
  by (simp add: same_request_def)

lemma certificate_same: "same_request l (attempt_login (init_certificate env cfg d req l))"
  by (auto simp: init_certificate_def same_request_def split_beta)

lemma init_user_same: "same_request l (attempt_login (init_user env cfg d req l))"
  using certificate_same by (auto simp: init_user_def Let_def same_request_def split: option.splits)

lemma group_same: "same_request l (snd (snd (choose_group cfg l)))"
  by (auto simp: choose_group_def same_request_def Let_def split: option.splits)

lemma init_same: "same_request l (attempt_login (auth_init_attempt env cfg l))"
  using init_user_same group_same [of l cfg]
  by (auto simp: auth_init_attempt_def split_beta Let_def same_request_def split: option.splits)

lemma attempt_same: "same_request l (attempt_login (login_attempt env cfg l))"
  using init_same
  by (auto simp: login_attempt_def auth_cont_attempt_def same_request_def Let_def split: option.splits)

lemma same_sel: "same_request l l1 \<Longrightarrow> sel t l1 = sel t l \<and> auth_state l1 = auth_state l
    \<and> no_authorization l1 = no_authorization l \<and> token_of l1 = token_of l"
  by (simp add: same_request_def sel_def selected_type_def auth_state_def no_authorization_def token_of_def)

lemma resume_inactive:
  assumes "auth_state (resume_state l) = S_AUTH_INACTIVE" and "same_request (resume_state l) l1"
  shows "resume_state l = l \<and> resume_state l1 = l1"
proof (cases "ha_sid_set (lg_app l) \<and> auth_state l = S_AUTH_INACTIVE")
  case True
  then show ?thesis using assms(1) by (simp add: resume_state_def set_state_def auth_state_def)
next
  case False
  then have "resume_state l = l" by (auto simp: resume_state_def)
  then show ?thesis using False assms(2) by (auto simp: resume_state_def same_request_def auth_state_def)
qed

section \<open>The two handlers\<close>

text \<open>A request for the form is made only by the first message of a login.\<close>

lemma ask_inactive:
  "login_attempt env cfg l = Ask_auth m l1 \<Longrightarrow> auth_state l = S_AUTH_INACTIVE"
  by (auto simp: login_attempt_def auth_cont_attempt_def Let_def split: if_splits option.splits)

text \<open>And then the same request asks for it again.\<close>

lemma choose_group_again:
  "choose_group cfg l = (d, g, l1) \<Longrightarrow> choose_group cfg l1 = (d, g, l1)"
  by (auto simp: choose_group_def Let_def split: option.splits if_splits)

lemma cert_info_again:
  assumes "get_cert_info env cfg l = (ret, l1)" and "lg_cert_groups l1 \<noteq> []" and "0 \<le> ret"
  shows "get_cert_info env cfg l1 = (0, l1)"
  using assms by (auto simp: get_cert_info_def get_cert_names_def Let_def split: option.splits if_splits)

lemma choose_group_stable:
  assumes "choose_group cfg l = (d, g, l0)" and "lg_body l1 = lg_body l" and "lg_groupname l1 = lg_groupname l0"
  shows "choose_group cfg l1 = (d, g, l1)"
  using assms by (auto simp: choose_group_def Let_def split: option.splits if_splits)

lemma certificate_again:
  assumes "init_certificate env cfg d req l = Ask_auth m l1"
  shows "init_certificate env cfg d req' l1 = Ask_auth m l1 \<and> lg_groupname l1 = lg_groupname l
    \<and> lg_username l1 = lg_username l"
proof -
  obtain ret l2 where g: "get_cert_info env cfg l = (ret, l2)" by fastforce
  have u: "lg_username l2 = lg_username l" "lg_app l2 = lg_app l" "lg_groupname l2 = lg_groupname l"
    using g by (auto simp: get_cert_info_def get_cert_names_def Let_def split: option.splits if_splits)
  have "0 \<le> ret \<and> l2 = l1 \<and> lg_cert_groups l1 \<noteq> []"
    using assms g by (auto simp: init_certificate_def split: if_splits)
  then show ?thesis
    using assms g u cert_info_again [OF g] by (auto simp: init_certificate_def sel_def selected_type_def split: if_splits)
qed

lemma user_again:
  assumes "init_user env cfg d req l = Ask_auth m l1"
  shows "init_user env cfg d req' l1 = Ask_auth m l1 \<and> lg_groupname l1 = lg_groupname l"
proof (cases "sel AUTH_TYPE_USERNAME_PASS l")
  case False
  then show ?thesis
    using assms certificate_again [of env cfg d req l m l1 req'] certificate_same [of l env cfg d req]
      same_sel [of l l1] by (auto simp: init_user_def)
next
  case True
  show ?thesis
  proof (cases "parse_reply (lg_body l) USERNAME_FIELD None")
    case None
    then show ?thesis using assms True by (auto simp: init_user_def)
  next
    case (Some u)
    let ?u = "strlcpy_str MAX_USERNAME_SIZE u"
    let ?l = "l\<lparr>lg_username := ?u\<rparr>"
    let ?req = "\<lambda>r. r\<lparr>in_user_name := Some ?u, in_auth_type := in_auth_type r OR AUTH_TYPE_USERNAME_PASS\<rparr>"
    have i: "init_certificate env cfg d (?req req) ?l = Ask_auth m l1"
      using assms True Some by (simp add: init_user_def Let_def)
    then have s: "same_request l l1" using certificate_same [of ?l env cfg d "?req req"] by (simp add: same_request_def)
    have e: "l1\<lparr>lg_username := ?u\<rparr> = l1" using certificate_again [OF i] by simp
    have "init_user env cfg d req' l1 = init_certificate env cfg d (?req req') (l1\<lparr>lg_username := ?u\<rparr>)"
      using Some True same_sel [OF s] s by (simp add: init_user_def Let_def same_request_def)
    then show ?thesis using certificate_again [OF i, of "?req req'"] unfolding e by simp
  qed
qed

lemma attempt_again:
  assumes "login_attempt env cfg l = Ask_auth m l1"
  shows "login_attempt env cfg l1 = Ask_auth m l1"
proof -
  obtain d g l0 where c: "choose_group cfg l = (d, g, l0)" by (metis prod_cases3)
  have s0: "same_request l l0" using group_same [of l cfg] c by simp
  have s: "same_request l l1" using attempt_same [of l env cfg] assms by simp
  have i: "auth_init_attempt env cfg l = Ask_auth m l1"
    using assms ask_inactive [OF assms] by (simp add: login_attempt_def)
  then obtain req where u: "init_user env cfg d req l0 = Ask_auth m l1"
    using c by (auto simp: auth_init_attempt_def Let_def split: if_splits option.splits)
  have c1: "choose_group cfg l1 = (d, g, l1)"
    using choose_group_stable [OF c] user_again [OF u] s by (simp add: same_request_def)
  have "auth_init_attempt env cfg l1 = Ask_auth m l1"
    using i c c1 user_again [OF u] same_sel [OF s0] same_sel [OF s]
    by (auto simp: auth_init_attempt_def Let_def split: if_splits option.splits)
  then show ?thesis using ask_inactive [OF assms] same_sel [OF s] by (simp add: login_attempt_def)
qed

lemma ask_authorized:
  assumes "login_attempt env cfg l = Ask_auth m l1" and "sel AUTH_TYPE_GSSAPI l"
  shows "\<not> no_authorization l"
proof -
  obtain d g l0 where c: "choose_group cfg l = (d, g, l0)" by (metis prod_cases3)
  then show ?thesis
    using assms ask_inactive [OF assms(1)] group_same [of l cfg] same_sel [of l l0]
    by (auto simp: login_attempt_def auth_init_attempt_def Let_def split: if_splits)
qed

lemma send_page_returns: "returned r \<noteq> None"
  by (simp add: returned_def)

text \<open>After a reply the methods with GSSAPI are off, so the form is sent without another attempt.\<close>

lemma switched_off:
  assumes "ws_switch_auth_to t (ws_disable_auth g a) = (True, a1)"
  shows "\<exists>m. ha_selected_auth a1 = Some m \<and> wa_type m AND g = 0"
proof -
  obtain m where "ha_selected_auth a1 = Some m" "wa_enabled m"
    "Some m = ha_selected_auth (ws_disable_auth g a) \<or> m \<in> set (ha_auth (ws_disable_auth g a))"
    using assms by (auto simp: ws_switch_auth_to_def dest!: find_Some_iff_ex split: option.splits if_splits)
  then show ?thesis
    by (cases "ha_selected_auth a") (auto simp: ws_disable_auth_def Let_def split: if_splits)
qed

abbreviation form_only :: "login_env \<Rightarrow> login_cfg \<Rightarrow> string option \<Rightarrow> login \<Rightarrow> login_result option" where
  "form_only env cfg \<equiv> \<lambda>pmsg l. returned (send_login_page env cfg pmsg l)"

lemma reply_once:
  "handle_reply env cfg (get_auth_handler2 env cfg post) rep l = handle_reply env cfg (form_only env cfg) rep l"
proof -
  have "get_auth_handler2 env cfg post m (l1\<lparr>lg_app := (snd a)\<lparr>ha_auth_state := s, ha_sid_set := b\<rparr>\<rparr>)
      = form_only env cfg m (l1\<lparr>lg_app := (snd a)\<lparr>ha_auth_state := s, ha_sid_set := b\<rparr>\<rparr>)"
    if "a = ws_switch_auth_to USERNAME_PASS (ws_disable_auth GSSAPI (lg_app l1))" and "fst a" for a m l1 s b
    using switched_off [of USERNAME_PASS GSSAPI "lg_app l1" "snd a"] that
    by (auto simp: get_auth_handler2_def sel_def selected_type_def AUTH_TYPE_GSSAPI_def GSSAPI_def prod_eq_iff)
  then show ?thesis
    by (auto simp: handle_reply_def Let_def get_auth_handler2_def split: prod.splits)
qed

definition asks_form :: "attempt \<Rightarrow> bool" where
  "asks_form a \<longleftrightarrow> (case a of Ask_auth _ _ \<Rightarrow> True | _ \<Rightarrow> False)"

lemma post_step:
  "post_auth_handler (Suc n) env cfg l =
     (case login_attempt env cfg (resume_state l) of
        Ask_auth m l1 \<Rightarrow> if sel AUTH_TYPE_GSSAPI l then post_auth_handler n env cfg l1 else form_only env cfg m l1
      | _ \<Rightarrow> post_body env cfg (form_only env cfg) l)"
proof (cases "login_attempt env cfg (resume_state l)")
  case (Ask_auth m l1)
  have i: "auth_state (resume_state l) = S_AUTH_INACTIVE" by (rule ask_inactive [OF Ask_auth])
  have s: "same_request (resume_state l) l1" using attempt_same [of "resume_state l" env cfg] Ask_auth by simp
  have r: "resume_state l = l" using resume_inactive [OF i s] by simp
  have "sel AUTH_TYPE_GSSAPI l1 = sel AUTH_TYPE_GSSAPI l" "before_cookie l1"
    "sel AUTH_TYPE_GSSAPI l \<Longrightarrow> \<not> no_authorization l1"
    using same_sel [OF s] i r ask_authorized [of env cfg l m l1] Ask_auth by (auto simp: before_cookie_def)
  then show ?thesis using Ask_auth r by (auto simp: post_body_def get_auth_handler2_def)
qed (auto simp: post_body_def reply_once)

lemma endless:
  assumes "login_attempt env cfg (resume_state l) = Ask_auth m l1" and "sel AUTH_TYPE_GSSAPI l"
  shows "post_auth_handler n env cfg l = None"
  using assms
proof (induction n arbitrary: l)
  case (Suc n)
  have i: "auth_state (resume_state l) = S_AUTH_INACTIVE" by (rule ask_inactive [OF Suc.prems(1)])
  have s: "same_request (resume_state l) l1" using attempt_same [of "resume_state l" env cfg] Suc.prems by simp
  have "login_attempt env cfg (resume_state l1) = Ask_auth m l1" "sel AUTH_TYPE_GSSAPI l1"
    using attempt_again [OF Suc.prems(1)] resume_inactive [OF i s] same_sel [OF s] Suc.prems(2) by auto
  then show ?case using Suc by (simp add: post_step del: post_auth_handler.simps)
qed simp

lemma body_returns: "post_body env cfg (form_only env cfg) l \<noteq> None"
  by (auto simp: post_body_def returned_def auth_fail_def handle_reply_def Let_def split: attempt.splits prod.splits)

lemma returns_iff:
  "post_auth_handler (Suc n) env cfg l \<noteq> None
    \<longleftrightarrow> \<not> (sel AUTH_TYPE_GSSAPI l \<and> asks_form (login_attempt env cfg (resume_state l)))"
proof (cases "sel AUTH_TYPE_GSSAPI l \<and> asks_form (login_attempt env cfg (resume_state l))")
  case True
  then obtain m l1 where "login_attempt env cfg (resume_state l) = Ask_auth m l1"
    by (auto simp: asks_form_def split: attempt.splits)
  then show ?thesis using True endless [of env cfg l m l1 "Suc n"] by simp
next
  case False
  then show ?thesis
    using body_returns [of env cfg l]
    by (auto simp: post_step asks_form_def returned_def simp del: post_auth_handler.simps split: attempt.splits)
qed

section \<open>Coming to an end\<close>

text \<open>
  Termination of a login. post_auth_handler and get_auth_handler2 call each other, but unless
  the selected method has GSSAPI together with a password or a certificate, whatever the client
  posts, one call of post_auth_handler comes to an end, for both entry points.
\<close>

theorem login_returns:
  assumes "\<not> (sel AUTH_TYPE_GSSAPI l \<and> (sel AUTH_TYPE_USERNAME_PASS l \<or> sel AUTH_TYPE_CERTIFICATE l))"
  shows "post_auth_handler (Suc n) env cfg l \<noteq> None \<and> get_auth_handler (Suc n) env cfg l \<noteq> None"
proof -
  have "\<not> asks_form (login_attempt env cfg (resume_state l))" if "sel AUTH_TYPE_GSSAPI l"
  proof
    assume "asks_form (login_attempt env cfg (resume_state l))"
    then obtain m l1 where a: "login_attempt env cfg (resume_state l) = Ask_auth m l1"
      by (auto simp: asks_form_def split: attempt.splits)
    have i: "auth_state (resume_state l) = S_AUTH_INACTIVE" by (rule ask_inactive [OF a])
    have r: "resume_state l = l" using resume_inactive [OF i same_request_refl] by simp
    obtain d g l0 where c: "choose_group cfg l = (d, g, l0)" by (metis prod_cases3)
    then show False
      using a i r that assms group_same [of l cfg] same_sel [of l l0]
      by (auto simp: login_attempt_def auth_init_attempt_def init_user_def init_certificate_def Let_def
          split: if_splits option.splits)
  qed
  then have "post_auth_handler (Suc n) env cfg l \<noteq> None" using returns_iff [of n env cfg l] by blast
  then show ?thesis
    by (auto simp: get_auth_handler_def get_auth_handler2_def returned_def simp del: post_auth_handler.simps)
qed

text \<open>
  C32: an endless recursion. With GSSAPI and certificates in one method, which the configuration
  allows, a client whose valid certificate names groups, and that sends an authorization without
  choosing a group, makes the two handlers call each other without end.
\<close>

theorem login_never_returns:
  assumes "auth_state l = S_AUTH_INACTIVE" and "\<not> ha_sid_set (lg_app l)"
    and "sel AUTH_TYPE_GSSAPI l" and "sel AUTH_TYPE_CERTIFICATE l" and "\<not> sel AUTH_TYPE_USERNAME_PASS l"
    and "token_of l \<noteq> None" and "lv_cert_auth_ok env"
    and "get_cert_info env cfg l = (0, l1)" and "lg_cert_groups l1 \<noteq> []" and "lg_groupname l = []"
    and "posted_group (lg_body l) = None"
  shows "post_auth_handler n env cfg l = None \<and> get_auth_handler n env cfg l = None"
proof -
  have r: "resume_state l = l" using assms(2) by (simp add: resume_state_def)
  have c: "choose_group cfg l = (False, None, l)" using assms(11) by (simp add: choose_group_def)
  have au: "\<not> no_authorization l" using assms(6) by (auto simp: token_of_def no_authorization_def split: option.splits)
  have "lg_groupname l1 = []" using assms(8,10) get_cert_info_frame(3) [of env cfg l] by simp
  then have "login_attempt env cfg (resume_state l) = Ask_auth (Some ''Please select your group'') l1"
    using assms r c au by (auto simp: login_attempt_def auth_init_attempt_def init_user_def init_certificate_def Let_def)
  then have "post_auth_handler n env cfg l = None" by (rule endless [OF _ assms(3)])
  then show ?thesis
    using assms(1,3) au by (auto simp: get_auth_handler_def get_auth_handler2_def before_cookie_def)
qed

section \<open>The security module's answer\<close>

lemma set_sid_frame [simp]:
  "lg_asked (set_sid s l) = lg_asked l" "lg_username (set_sid s l) = lg_username l" "ha_auth_state (lg_app (set_sid s l)) = ha_auth_state (lg_app l)"
  by (auto simp: set_sid_def split: option.splits)

lemma recv_frame:
  assumes "recv_auth_reply ret m l = (r, t, l1)"
  shows "lg_asked l1 = lg_asked l \<and> auth_state l1 = auth_state l"
  using assms
  by (auto simp: recv_auth_reply_def auth_state_def Let_def split: if_splits auth_rep.splits option.splits)

lemma recv_ok:
  assumes "recv_auth_reply ret m l = (r, t, l1)" and "0 \<le> r"
  shows "0 \<le> ret \<and> sr_reply m = Rep_ok \<and> sr_reply_cookie m = Some (ha_cookie (lg_app l1))
    \<and> (\<exists>u. sr_user_name m = Some u \<and> lg_username l1 = strlcpy_str MAX_USERNAME_SIZE u)
    \<and> (\<forall>s. sr_reply_sid m = Some s \<and> length s = WS_SID_SIZE \<longrightarrow> ha_sid (lg_app l1) = s)"
  using assms
  by (auto simp: recv_auth_reply_def err_codes set_sid_def Let_def split: if_splits auth_rep.splits option.splits)

lemma set_state_simps [simp]:
  "auth_state (set_state s l) = s" "lg_asked (set_state s l) = lg_asked l" "lg_username (set_state s l) = lg_username l"
  "ha_cookie (lg_app (set_state s l)) = ha_cookie (lg_app l)" "ha_sid (lg_app (set_state s l)) = ha_sid (lg_app l)"
  by (simp_all add: set_state_def auth_state_def)

lemma common_frame [simp]:
  "lg_app (snd (post_common_handler env cfg m l)) = lg_app l" "lg_asked (snd (post_common_handler env cfg m l)) = lg_asked l"
  "lg_username (snd (post_common_handler env cfg m l)) = lg_username l"
  by (simp_all add: post_common_handler_def Let_def)

lemma basic_frame [simp]:
  "lg_app (snd (basic_auth_handler env cfg m l)) = lg_app l" "lg_asked (snd (basic_auth_handler env cfg m l)) = lg_asked l"
  by (simp_all add: basic_auth_handler_def)

lemma switch_frame: "ha_auth_state (snd (ws_switch_auth_to t (ws_disable_auth g a))) = ha_auth_state a"
  by (auto simp: ws_switch_auth_to_def ws_disable_auth_def Let_def split: option.splits)

definition accepted_reply :: "int \<times> sec_reply \<Rightarrow> login \<Rightarrow> bool" where
  "accepted_reply rep l \<longleftrightarrow> 0 \<le> fst rep \<and> sr_reply (snd rep) = Rep_ok
     \<and> sr_reply_cookie (snd rep) = Some (ha_cookie (lg_app l))
     \<and> (\<exists>u. sr_user_name (snd rep) = Some u \<and> lg_username l = strlcpy_str MAX_USERNAME_SIZE u)
     \<and> (\<forall>s. sr_reply_sid (snd rep) = Some s \<and> length s = WS_SID_SIZE \<longrightarrow> ha_sid (lg_app l) = s)"

lemma reply_outcome:
  assumes "handle_reply env cfg (form_only env cfg) rep l = Some r" and "auth_state l \<noteq> S_AUTH_COOKIE"
  shows "lg_asked (login_of r) = lg_asked l \<and>
    (auth_state (login_of r) = S_AUTH_COOKIE \<longrightarrow> accepted_reply rep (login_of r))"
proof -
  obtain ret t l1 where rc: "recv_auth_reply (fst rep) (snd rep) l = (ret, t, l1)" by (metis prod_cases3)
  note f = recv_frame [OF rc]
  show ?thesis
  proof (cases "ret < 0")
    case True
    then show ?thesis
      using assms rc f switch_frame [of USERNAME_PASS GSSAPI "lg_app l1"]
      by (auto simp: handle_reply_def returned_def auth_fail_def auth_state_def set_state_def Let_def
          split: if_splits)
  next
    case False
    then show ?thesis
      using assms rc f recv_ok [OF rc]
      by (auto simp: handle_reply_def returned_def accepted_reply_def err_codes)
  qed
qed

lemma resume_frame [simp]: "lg_asked (resume_state l) = lg_asked l"
  "auth_state l \<noteq> S_AUTH_COOKIE \<Longrightarrow> auth_state (resume_state l) \<noteq> S_AUTH_COOKIE"
  by (auto simp: resume_state_def)

lemma asked_state_open: "asked_state cmd \<noteq> S_AUTH_COOKIE"
  by (cases cmd) (simp_all add: asked_state_def)

lemma body_outcome:
  assumes "post_body env cfg (form_only env cfg) l = Some r" and "auth_state l \<noteq> S_AUTH_COOKIE"
    and "auth_state (login_of r) = S_AUTH_COOKIE"
  shows "\<exists>cmd l1. lg_asked (login_of r) = lg_asked l @ [cmd] \<and> accepted_reply (lv_reply env cmd) (login_of r)
    \<and> login_attempt env cfg (resume_state l) = Ask_secmod cmd l1"
proof -
  have s: "same_request (resume_state l) (attempt_login (login_attempt env cfg (resume_state l)))" by (rule attempt_same)
  have st: "auth_state (resume_state l) \<noteq> S_AUTH_COOKIE" using assms(2) by simp
  show ?thesis
  proof (cases "login_attempt env cfg (resume_state l)")
    case (Ask_secmod cmd l1)
    let ?l = "(set_state (asked_state cmd) l1)\<lparr>lg_asked := lg_asked l1 @ [cmd]\<rparr>"
    have "auth_state ?l \<noteq> S_AUTH_COOKIE" using asked_state_open by (simp add: auth_state_def set_state_def)
    moreover have "lg_asked l1 = lg_asked l" "auth_state l1 \<noteq> S_AUTH_COOKIE"
      using s st Ask_secmod same_sel [OF s] by (simp_all add: same_request_def)
    ultimately show ?thesis
      using assms(1,3) Ask_secmod reply_outcome [of env cfg "lv_reply env cmd" ?l r]
      by (auto simp: post_body_def auth_fail_def auth_state_def split: if_splits)
  qed (use assms s st same_sel [OF s] in \<open>auto simp: post_body_def returned_def auth_fail_def auth_state_def\<close>)
qed

lemma post_outcome:
  assumes "post_auth_handler n env cfg l = Some r" and "auth_state l \<noteq> S_AUTH_COOKIE"
    and "auth_state (login_of r) = S_AUTH_COOKIE"
  shows "\<exists>cmd l1. lg_asked (login_of r) = lg_asked l @ [cmd] \<and> accepted_reply (lv_reply env cmd) (login_of r)
    \<and> login_attempt env cfg (resume_state l) = Ask_secmod cmd l1"
proof (cases n)
  case (Suc k)
  then show ?thesis
    using assms returns_iff [of k env cfg l] body_outcome [of env cfg l r]
    by (auto simp: post_step post_body_def asks_form_def simp del: post_auth_handler.simps split: attempt.splits)
qed (use assms in simp)

text \<open>The message on the worker's socket as the worker reads it; others go to the main process.\<close>

definition worker_reply :: "byte list \<Rightarrow> sm_msg \<Rightarrow> sec_reply option" where
  "worker_reply dtls msg =
     (case msg of
        M_auth_ok c u s k \<Rightarrow> Some \<lparr>sr_reply = Rep_ok, sr_user_name = Some u, sr_reply_sid = Some k,
          sr_reply_cookie = Some c, sr_dtls_session_id = dtls, sr_msg = s\<rparr>
      | M_auth_failed \<Rightarrow> Some \<lparr>sr_reply = Rep_failed, sr_user_name = None, sr_reply_sid = None,
          sr_reply_cookie = None, sr_dtls_session_id = [], sr_msg = None\<rparr>
      | M_auth_msg s k \<Rightarrow> Some \<lparr>sr_reply = Rep_msg, sr_user_name = None, sr_reply_sid = Some k,
          sr_reply_cookie = None, sr_dtls_session_id = [], sr_msg = s\<rparr>
      | _ \<Rightarrow> None)"

definition no_reply :: "int \<times> sec_reply" where
  "no_reply = (ERR_PEER_TERMINATED, \<lparr>sr_reply = Rep_failed, sr_user_name = None, sr_reply_sid = None,
     sr_reply_cookie = None, sr_dtls_session_id = [], sr_msg = None\<rparr>)"

text \<open>process_packet of the security module at the other end of the worker's socket.\<close>

definition secmod_answer ::
  "byte list \<Rightarrow> 'c sec_cfg \<Rightarrow> nat \<Rightarrow> (nat \<Rightarrow> byte list \<Rightarrow> byte list option) \<Rightarrow> sm_env \<Rightarrow> 'c client_db \<Rightarrow> worker_cmd
    \<Rightarrow> int \<times> sec_reply" where
  "secmod_answer dtls scfg ks ko senv db cmd =
     (case process_packet scfg ks ko senv db cmd of
        Inl _ \<Rightarrow> no_reply
      | Inr (_, ms, _) \<Rightarrow>
          (case List.map_filter (worker_reply dtls) ms of [] \<Rightarrow> no_reply | m # _ \<Rightarrow> (0, m)))"

lemma answer_ok:
  assumes "0 \<le> fst (secmod_answer dtls scfg ks ko senv db cmd)"
    and "sr_reply (snd (secmod_answer dtls scfg ks ko senv db cmd)) = Rep_ok"
  shows "\<exists>ret ms rest c u s k. process_packet scfg ks ko senv db cmd = Inr (ret, ms, rest) \<and> M_auth_ok c u s k \<in> set ms
    \<and> worker_reply dtls (M_auth_ok c u s k) = Some (snd (secmod_answer dtls scfg ks ko senv db cmd))"
proof (cases "process_packet scfg ks ko senv db cmd")
  case (Inl x)
  then show ?thesis using assms by (simp add: secmod_answer_def no_reply_def err_codes)
next
  case (Inr p)
  obtain ret ms rest where p: "p = (ret, ms, rest)" by (metis prod_cases3)
  show ?thesis
  proof (cases "List.map_filter (worker_reply dtls) ms")
    case Nil
    then show ?thesis using assms Inr p by (simp add: secmod_answer_def no_reply_def err_codes)
  next
    case (Cons m rs)
    then have "m \<in> set (List.map_filter (worker_reply dtls) ms)" by simp
    then obtain x where x: "x \<in> set ms" "worker_reply dtls x = Some m"
      unfolding List.map_filter_def by auto
    have "snd (secmod_answer dtls scfg ks ko senv db cmd) = m" using Inr p Cons by (simp add: secmod_answer_def)
    moreover have "sr_reply m = Rep_ok" using assms(2) calculation by simp
    then obtain c u s k where "x = M_auth_ok c u s k"
      using x(2) by (cases x) (auto simp: worker_reply_def)
    ultimately show ?thesis using x Inr p by blast
  qed
qed

section \<open>Only with the security module\<close>

text \<open>
  C5: a worker lets its client have a cookie only when the security module accepted it. When a login
  ends in the state S_AUTH_COOKIE, the worker asked the security module, its very last question;
  process_packet answered it with the cookie the worker now holds, issued for a session whose
  credentials that question proved; and the worker took over that session's id.
\<close>

theorem login_cookie_accepted:
  assumes "post_auth_handler n env cfg l = Some r" and "auth_state l \<noteq> S_AUTH_COOKIE"
    and "auth_state (login_of r) = S_AUTH_COOKIE"
    and "lv_reply env = secmod_answer dtls scfg ks ko senv db"
  shows "\<exists>cmd ret ms rest k. lg_asked (login_of r) = lg_asked l @ [cmd]
    \<and> process_packet scfg ks ko senv db cmd = Inr (ret, ms, rest)
    \<and> issued ms (ha_cookie (lg_app (login_of r))) k \<and> accepted scfg (Ev_worker senv cmd) k
    \<and> (length k = WS_SID_SIZE \<longrightarrow> ha_sid (lg_app (login_of r)) = k)"
proof -
  obtain cmd where cmd: "lg_asked (login_of r) = lg_asked l @ [cmd]"
      "accepted_reply (secmod_answer dtls scfg ks ko senv db cmd) (login_of r)"
    using post_outcome [OF assms(1-3)] assms(4) by auto
  obtain ret ms rest c u s k where p: "process_packet scfg ks ko senv db cmd = Inr (ret, ms, rest)"
      "M_auth_ok c u s k \<in> set ms"
      "worker_reply dtls (M_auth_ok c u s k) = Some (snd (secmod_answer dtls scfg ks ko senv db cmd))"
    using answer_ok cmd(2) unfolding accepted_reply_def by metis
  have "c = ha_cookie (lg_app (login_of r))" "length k = WS_SID_SIZE \<longrightarrow> ha_sid (lg_app (login_of r)) = k"
    using cmd(2) p(3) by (auto simp: accepted_reply_def worker_reply_def dest!: sym [of "sec_reply_ext _ _ _ _ _ _ _"])
  then show ?thesis using cmd(1) p(1,2) packet_accepts [OF p(1,2)] unfolding issued_def by blast
qed

section \<open>What was typed\<close>

definition session_of :: "login \<Rightarrow> byte list" where
  "session_of l = (if ha_sid_set (lg_app l) then ha_sid (lg_app l) else [])"

lemma reply_asked:
  assumes "handle_reply env cfg (form_only env cfg) rep l = Some r"
  shows "lg_asked (login_of r) = lg_asked l"
proof -
  obtain ret t l1 where rc: "recv_auth_reply (fst rep) (snd rep) l = (ret, t, l1)" by (metis prod_cases3)
  then show ?thesis
    using assms recv_frame [OF rc]
    by (auto simp: handle_reply_def returned_def auth_fail_def Let_def split: if_splits)
qed

lemma secmod_asked:
  assumes "login_attempt env cfg (resume_state l) = Ask_secmod cmd l1"
    and "lv_connect env" and "0 \<le> lv_sent env cmd"
  shows "\<exists>r. post_auth_handler (Suc n) env cfg l = Some r \<and> lg_asked (login_of r) = lg_asked l @ [cmd]"
proof -
  obtain r where r: "post_body env cfg (form_only env cfg) l = Some r"
    using body_returns [of env cfg l] by blast
  have "lg_asked l1 = lg_asked l"
    using attempt_same [of "resume_state l" env cfg] assms(1) by (simp add: same_request_def)
  then have "lg_asked (login_of r) = lg_asked l @ [cmd]"
    using r assms reply_asked [of env cfg "lv_reply env cmd"] by (auto simp: post_body_def)
  then show ?thesis using r assms(1) by (auto simp: post_step simp del: post_auth_handler.simps)
qed

text \<open>
  C17: the round trip of a password. A client that continues a login, by the worker's state or by
  the session id of its cookie, posts its password percent-encoded in a form, after other fields
  whose names do not end in password. The security module is asked, once, with exactly that
  password for exactly that session.
\<close>

theorem password_reaches_secmod:
  assumes "auth_state l = S_AUTH_REQ \<or> auth_state l = S_AUTH_INIT \<or> auth_state l = S_AUTH_INACTIVE \<and> ha_sid_set (lg_app l)"
    and "sel AUTH_TYPE_USERNAME_PASS l" and "\<not> sel AUTH_TYPE_GSSAPI l"
    and "lg_body l = form_body safe (pre @ (''password'', p) # post)" and "safe_ok safe"
    and "list_all (\<lambda>(k, v). key_ok k) (pre @ (''password'', p) # post)" and "earlier_ok ''password'' pre" and "NUL \<notin> set p"
    and "lv_connect env" and "0 \<le> lv_sent env (W_auth_cont (Some (session_of l, Some p)))"
  shows "\<exists>r. post_auth_handler (Suc n) env cfg l = Some r
    \<and> lg_asked (login_of r) = lg_asked l @ [W_auth_cont (Some (session_of l, Some p))]"
proof -
  have "map ascii_lower ''password'' = ''password''" by code_simp
  then have p: "parse_reply (lg_body l) PASSWORD_FIELD None = Some p"
    using parse_form [OF assms(5,6)] assms(4,7,8) by (simp add: PASSWORD_FIELD_def)
  have "auth_state (resume_state l) = S_AUTH_REQ \<or> auth_state (resume_state l) = S_AUTH_INIT"
    using assms(1) by (auto simp: resume_state_def)
  moreover have "sel t (resume_state l) = sel t l" "lg_body (resume_state l) = lg_body l"
    "ha_sid_set (lg_app (resume_state l)) = ha_sid_set (lg_app l)" "ha_sid (lg_app (resume_state l)) = ha_sid (lg_app l)" for t
    by (simp_all add: resume_state_def set_state_def sel_def selected_type_def)
  ultimately have "login_attempt env cfg (resume_state l)
      = Ask_secmod (W_auth_cont (Some (session_of l, Some p))) (resume_state l)"
    using p assms(2,3) by (auto simp: login_attempt_def auth_cont_attempt_def session_of_def Let_def)
  then show ?thesis by (rule secmod_asked [OF _ assms(9,10)])
qed

text \<open>
  What the first form says. With a user name and a group, and no session yet, the security
  module is asked to start a login with the user name and group posted, cut to the worker's
  fields; the group of the configuration that stands for the default is not passed on.
\<close>

theorem username_reaches_secmod:
  assumes "auth_state l = S_AUTH_INACTIVE" and "\<not> ha_sid_set (lg_app l)"
    and "sel AUTH_TYPE_USERNAME_PASS l" and "\<not> sel AUTH_TYPE_GSSAPI l" and "\<not> sel AUTH_TYPE_CERTIFICATE l"
    and "lg_body l = form_body safe [(''username'', u), (''group_list'', g)]" and "safe_ok safe"
    and "NUL \<notin> set u" and "NUL \<notin> set g" and "lv_connect env"
    and "req = (empty_init (if lc_default_select_group cfg = Some g then None else Some (take 63 g)) env l)
      \<lparr>in_user_name := Some (take 63 u), in_auth_type := AUTH_TYPE_USERNAME_PASS\<rparr>"
    and "0 \<le> lv_sent env (W_auth_init (Some req))"
  shows "\<exists>r. post_auth_handler (Suc n) env cfg l = Some r
    \<and> lg_asked (login_of r) = lg_asked l @ [W_auth_init (Some req)]"
proof -
  let ?fs = "[(''username'', u), (''group_list'', g)]"
  have k: "list_all (\<lambda>(k, v). key_ok k) ?fs" "key_ok ''group%5flist''" by (simp_all add: key_ok_def)
  have low: "map ascii_lower ''username'' = ''username''" "map ascii_lower ''group_list'' = ''group_list''" by code_simp+
  have e: "earlier_ok ''group%5flist'' ?fs" "earlier_ok ''group_list'' [(''username'', u)]"
    by (simp_all add: earlier_ok_def ends_with_def ascii_lower_def)
  have "parse_reply (lg_body l) ''group%5flist'' x = None" for x
    using parse_absent [OF assms(7) k e(1), of x] assms(6) by simp
  moreover have "parse_reply (lg_body l) ''group_list'' x = Some g" for x
    using parse_form [OF assms(7), of "[(''username'', u)]" "''group_list''" g "[]" x] k(1) low e(2) assms(6,9) by simp
  ultimately have c: "choose_group cfg l =
      (if lc_default_select_group cfg = Some g then (True, None, l)
       else (False, Some (take 63 g), l\<lparr>lg_groupname := take 63 g\<rparr>))"
    by (simp add: choose_group_def posted_group_def GROUPNAME_FIELD_def GROUPNAME_FIELD2_def strlcpy_str_def
        sec_consts Let_def)
  have "parse_reply (lg_body l) ''username'' None = Some u"
    using parse_form [OF assms(7), of "[]" "''username''" u "[(''group_list'', g)]" None] k(1) low assms(6,8)
    by (simp add: earlier_ok_def)
  then have "\<exists>l1. login_attempt env cfg (resume_state l) = Ask_secmod (W_auth_init (Some req)) l1"
    using assms(1-5,11) c
    by (simp add: resume_state_def login_attempt_def auth_init_attempt_def init_user_def init_certificate_def
        USERNAME_FIELD_def sel_def selected_type_def Let_def strlcpy_str_def sec_consts empty_init_def)
  then show ?thesis using secmod_asked [OF _ assms(10,12)] by blast
qed

section \<open>Examples\<close>

definition example_form_app :: "u32 \<Rightarrow> http_app" where
  "example_form_app type = \<lparr>ha_hostname = [], ha_user_agent = [], ha_agent_type = AGENT_OPENCONNECT,
     ha_is_mobile = False, ha_spnego_set = True, ha_master_secret = [], ha_master_secret_set = False,
     ha_ciphersuite = None, ha_base_mtu = 0, ha_no_ipv4 = False, ha_no_ipv6 = False,
     ha_authorization = Some ''Negotiate YIIC'', ha_cookie = [], ha_cookie_set = False,
     ha_sid = replicate 16 0, ha_sid_set = False, ha_auth_state = S_AUTH_INACTIVE,
     ha_full_ipv6 = False, ha_dtls_comp = None, ha_cstp_comp = None,
     ha_auth = [\<lparr>wa_enabled = True, wa_type = type\<rparr>], ha_selected_auth = Some \<lparr>wa_enabled = True, wa_type = type\<rparr>\<rparr>"

definition example_client_login :: "u32 \<Rightarrow> (string \<times> string) list \<Rightarrow> login" where
  "example_client_login type fs = \<lparr>lg_app = example_form_app type, lg_body = form_body is_alpha fs,
     lg_username = [], lg_groupname = [], lg_cert_username = [], lg_cert_groups = [], lg_session_id = [],
     lg_out = [], lg_asked = []\<rparr>"

definition example_login_cfg :: login_cfg where
  "example_login_cfg = \<lparr>lc_group_list = [], lc_default_select_group = None, lc_cookie_timeout = 300,
     lc_cert_group_oid = True, lc_auth_methods = 1, lc_banner = None, lc_xml_config = None,
     lc_cert_hash = [], lc_anyconnect = False\<rparr>"

definition example_login_env :: "string option list \<Rightarrow> login_env" where
  "example_login_env groups = \<lparr>lv_http_ver = 1, lv_fail = None, lv_str = True, lv_cert_auth_ok = True,
     lv_cert = Some \<lparr>px_import = True, px_user = Some ''u'', px_groups = groups\<rparr>, lv_base64 = (\<lambda>_. ''AAAA''),
     lv_remote_ip = ''10.0.0.1'', lv_connect = True, lv_sent = (\<lambda>_. 0),
     lv_reply = secmod_answer (replicate 32 0) (example_sec_cfg False) 0 (\<lambda>_ _. None) example_sm_env []\<rparr>"

lemmas example_login_defs = example_form_app_def example_client_login_def example_login_cfg_def example_login_env_def
  sel_def selected_type_def auth_state_def auth_types CERTIFICATE_def

theorem login_returns_witness:
  "post_auth_handler 1 (example_login_env []) example_login_cfg (example_client_login 5 []) \<noteq> None"
  using login_returns [of "example_client_login 5 []" 0 "example_login_env []" example_login_cfg]
  by (simp add: example_login_defs del: post_auth_handler.simps)

theorem login_never_returns_witness:
  "get_auth_handler 1000 (example_login_env [Some ''staff'']) example_login_cfg (example_client_login 72 []) = None"
  using login_never_returns [of "example_client_login 72 []" "example_login_env [Some ''staff'']" example_login_cfg]
  by (simp add: example_login_defs token_of_def get_cert_info_def get_cert_names_def posted_group_def parse_reply_def Let_def)

theorem password_reaches_secmod_witness:
  "\<exists>r. post_auth_handler 1 (example_login_env []) example_login_cfg
      (set_state S_AUTH_REQ (example_client_login 5 [(''password'', ''a=b&c'')])) = Some r
    \<and> lg_asked (login_of r) = [W_auth_cont (Some ([], Some ''a=b&c''))]"
  using password_reaches_secmod [of "set_state S_AUTH_REQ (example_client_login 5 [(''password'', ''a=b&c'')])"
      is_alpha "[]" "''a=b&c''" "[]" "example_login_env []" 0 example_login_cfg]
  by (simp add: example_login_defs set_state_def safe_ok_def key_ok_def earlier_ok_def session_of_def is_alpha_def
      Let_def del: post_auth_handler.simps)

theorem username_reaches_secmod_witness:
  "\<exists>r. post_auth_handler 1 (example_login_env []) example_login_cfg
      (example_client_login 5 [(''username'', ''bob''), (''group_list'', ''R&D'')]) = Some r
    \<and> lg_asked (login_of r) = [W_auth_init (Some \<lparr>in_ip = ''10.0.0.1'', in_auth_type = 1, in_hostname = Some [],
        in_user_name = Some ''bob'', in_group_name = Some ''R&D'', in_tls_auth_ok = False,
        in_cert_user_name = None, in_cert_group_names = []\<rparr>)]"
  using username_reaches_secmod [of "example_client_login 5 [(''username'', ''bob''), (''group_list'', ''R&D'')]"
      is_alpha "''bob''" "''R&D''" "example_login_env []" _ example_login_cfg 0, OF _ _ _ _ _ _ _ _ _ _ refl]
  by (simp add: example_login_defs safe_ok_def is_alpha_def empty_init_def Let_def del: post_auth_handler.simps)

text \<open>The certificate login of SecProps, from the worker's side.\<close>

definition example_worker_init :: init_req where
  "example_worker_init = example_init\<lparr>in_hostname := Some []\<rparr>"

lemma example_worker_steps:
  "auth_init_steps (example_sec_cfg acct) example_worker_init (blank_entry example_sid ''10.0.0.1'' 100) =
     (0, example_entry\<lparr>ce_status := PS_AUTH_INIT, ce_cookie := []\<rparr>)"
  by (simp add: auth_init_steps_def set_module_def init_module_def init_cert_group_def module_of_def
      check_user_group_status_def is_certificate_def set_username_def blank_entry_def example_entry_def
      example_sec_cfg_def example_worker_init_def example_init_def auth_types strlcpy_str_def sec_consts MAX_IP_STR_def)

lemma example_worker_packet:
  "process_packet (example_sec_cfg acct) 0 ko example_sm_env [] (W_auth_init (Some example_worker_init)) =
     Inr (0, [M_auth_ok example_enc_cookie ''u'' None example_sid], [], [example_entry])"
proof -
  have "in_ip example_worker_init = ''10.0.0.1''" by (simp add: example_worker_init_def example_init_def)
  then show ?thesis
    by (simp add: process_packet_def handle_sec_auth_init_def example_fields example_new example_worker_steps
        example_res example_put)
qed

lemma example_worker_answer:
  "secmod_answer dtls (example_sec_cfg acct) 0 ko example_sm_env [] (W_auth_init (Some example_worker_init)) =
     (0, \<lparr>sr_reply = Rep_ok, sr_user_name = Some ''u'', sr_reply_sid = Some example_sid,
          sr_reply_cookie = Some example_enc_cookie, sr_dtls_session_id = dtls, sr_msg = None\<rparr>)"
  by (simp add: secmod_answer_def example_worker_packet worker_reply_def List.map_filter_def)

definition example_logged_in :: login_result where
  "example_logged_in = the (post_auth_handler 1 (example_login_env []) example_login_cfg (example_client_login 8 []))"

lemma example_worker_attempt:
  "login_attempt (example_login_env []) example_login_cfg (resume_state (example_client_login 8 [])) =
     Ask_secmod (W_auth_init (Some example_worker_init))
       ((example_client_login 8 [])\<lparr>lg_cert_username := ''u''\<rparr>)"
  by (simp add: example_login_defs resume_state_def login_attempt_def auth_init_attempt_def init_user_def
      init_certificate_def choose_group_def posted_group_def parse_reply_def get_cert_info_def get_cert_names_def
      empty_init_def example_worker_init_def example_init_def Let_def)

lemma example_login_runs:
  "post_auth_handler 1 (example_login_env []) example_login_cfg (example_client_login 8 []) = Some example_logged_in
    \<and> auth_state (login_of example_logged_in) = S_AUTH_COOKIE"
proof -
  have env: "lv_connect (example_login_env [])" "lv_sent (example_login_env []) cmd = 0"
    "lv_reply (example_login_env []) = secmod_answer (replicate 32 0) (example_sec_cfg False) 0 (\<lambda>_ _. None) example_sm_env []"
    for cmd by (simp_all add: example_login_env_def)
  have "\<exists>r. post_auth_handler 1 (example_login_env []) example_login_cfg (example_client_login 8 []) = Some r
      \<and> auth_state (login_of r) = S_AUTH_COOKIE"
    by (simp add: post_body_def example_worker_attempt env handle_reply_def example_worker_answer recv_auth_reply_def
        err_codes example_enc_cookie_def returned_def Let_def auth_state_def set_state_def)
  then show ?thesis by (auto simp: example_logged_in_def)
qed

theorem login_cookie_accepted_witness:
  "\<exists>cmd ret ms rest k. lg_asked (login_of example_logged_in) = [cmd]
    \<and> process_packet (example_sec_cfg False) 0 (\<lambda>_ _. None) example_sm_env [] cmd = Inr (ret, ms, rest)
    \<and> accepted (example_sec_cfg False) (Ev_worker example_sm_env cmd) k"
proof -
  have "auth_state (example_client_login 8 []) \<noteq> S_AUTH_COOKIE" "lg_asked (example_client_login 8 []) = []"
    "lv_reply (example_login_env []) = secmod_answer (replicate 32 0) (example_sec_cfg False) 0 (\<lambda>_ _. None) example_sm_env []"
    by (simp_all add: example_login_defs)
  then show ?thesis
    using login_cookie_accepted [OF example_login_runs [THEN conjunct1] _ example_login_runs [THEN conjunct2]]
    by fastforce
qed

end
