(* ===== verification/ModuleLogin.thy ===== *)
theory ModuleLogin
  imports SecModule LoginForm
begin

text \<open>
  Logging in with authentication modules that always ask for a password: a cookie, at the security
  module and at the end of a worker's form, means that a module accepted the posted password, with
  a context of the user of the session.
\<close>

section \<open>What a login sends\<close>

lemma certificate_asks_init: "init_certificate env cfg d req l \<noteq> Ask_secmod (W_auth_cont x) l1"
  by (simp add: init_certificate_def split: prod.split)

lemma attempt_password:
  assumes "login_attempt env cfg l = Ask_secmod (W_auth_cont (Some (k, Some pass))) l1" and "\<not> sel AUTH_TYPE_GSSAPI l"
  shows "parse_reply (lg_body l) PASSWORD_FIELD None = Some pass"
proof -
  have "auth_init_attempt env cfg l \<noteq> Ask_secmod (W_auth_cont x) l1" for x
    using certificate_asks_init by (simp add: auth_init_attempt_def init_user_def Let_def split: prod.split option.split)
  then show ?thesis
    using assms by (auto simp: login_attempt_def auth_cont_attempt_def Let_def split: if_splits option.splits)
qed

section \<open>The contract\<close>

text \<open>Every method has a module, and no module accepts a user without a password.\<close>

locale password_module = auth_module +
  assumes modules_law: "m \<in> set (sg_auth cfg) \<Longrightarrow> as_amod m \<noteq> None"
    and asks_law: "m \<in> set (sg_auth cfg) \<Longrightarrow> as_amod m = Some am \<Longrightarrow> fst (am_auth_init am u ip) < 0"
    and refuses_law: "m \<in> set (sg_auth cfg) \<Longrightarrow> as_amod m = Some am \<Longrightarrow> fst (am_auth_pass am None p) \<noteq> 0"
begin

lemma init_continues: "auth_init_steps cfg req e \<noteq> (0, e')"
proof
  assume h: "auth_init_steps cfg req e = (0, e')"
  obtain r1 e1 where 1: "set_module cfg e (in_auth_type req) = (r1, e1)" by fastforce
  let ?e2 = "case in_hostname req of None \<Rightarrow> e1 | Some x \<Rightarrow> e1\<lparr>ce_hostname := strlcpy_str MAX_HOSTNAME_SIZE x\<rparr>"
  obtain r2 nc e3 where 2: "init_module cfg req ?e2 = (r2, nc, e3)" by (metis prod_cases3)
  have ok: "\<not> r1 < 0" "r2 = 0" "\<not> nc"
    using h 1 2 by (auto simp: auth_init_steps_def Let_def err_codes split: if_splits prod.splits)
  obtain m am where m: "m \<in> set (sg_auth cfg)" "as_amod m = Some am" "module_of cfg ?e2 = Some am"
  proof -
    have "\<exists>i < length (sg_auth cfg). ce_module e1 = Some i"
      using 1 ok(1) set_module_ok [OF 1] by auto
    then obtain i where i: "i < length (sg_auth cfg)" "ce_module ?e2 = Some i" by (auto split: option.split)
    then obtain am where "as_amod (sg_auth cfg ! i) = Some am" using modules_law nth_mem by blast
    then show ?thesis using that [of "sg_auth cfg ! i" am] i by (simp add: module_of_def)
  qed
  have "0 \<le> fst (am_auth_init am (in_user_name req) (in_ip req))"
    using 2 ok(2,3) m(3) by (auto simp: init_module_def Let_def split: prod.splits if_splits)
  then show False using asks_law [OF m(1,2), of "in_user_name req" "in_ip req"] by simp
qed

text \<open>The packet that brings a cookie is one with a password that the module accepts.\<close>

lemma packet_password:
  assumes "sm_run cfg ks ko tr db" and "process_packet cfg ks ko env db cmd = Inr (ret, ms, rest)"
    and "M_auth_ok c u s k \<in> set ms"
  shows "\<exists>pass m am x r. cmd = W_auth_cont (Some (k, Some pass)) \<and> m \<in> set (sg_auth cfg) \<and> as_amod m = Some am
    \<and> am_auth_pass am (Some x) pass = (0, r) \<and> of_user u x"
proof -
  have acc: "accepted cfg (Ev_worker env cmd) k" by (rule packet_accepts [OF assms(2,3)])
  then obtain pass where cmd: "cmd = W_auth_cont (Some (k, Some pass))"
    using init_continues by (auto simp: accepted_def)
  then obtain db' where "handle_sec_auth_cont cfg env db k (Some pass) = (ret, ms, db')"
    using assms(2) by (auto simp: process_packet_def split: prod.splits)
  from cont_accepts_user [OF assms(1) this assms(3)] obtain m am e ctx' where
    m: "m \<in> set (sg_auth cfg)" "as_amod m = Some am" "am_auth_pass am (ce_auth_ctx e) pass = (0, ctx')"
      "u = ai_username (ce_auth_info e)" "ctx_ok of_user e" by blast
  obtain x where "ce_auth_ctx e = Some x" "of_user u x"
    using m(3-5) refuses_law [OF m(1,2), of pass] by (cases "ce_auth_ctx e") (auto simp: ctx_ok_def)
  then show ?thesis using cmd m by auto
qed

text \<open>The password that a continued login sends is the one of the form.\<close>

lemma form_password:
  assumes "sm_run cfg ks ko tr db" and "lv_reply env = secmod_answer dtls cfg ks ko senv db"
    and "post_auth_handler n env wcfg l = Some r" and "auth_state l \<noteq> S_AUTH_COOKIE"
    and "auth_state (login_of r) = S_AUTH_COOKIE" and "\<not> sel AUTH_TYPE_GSSAPI l"
  shows "\<exists>u pass m am x y. parse_reply (lg_body l) PASSWORD_FIELD None = Some pass
    \<and> lg_username (login_of r) = strlcpy_str MAX_USERNAME_SIZE u
    \<and> m \<in> set (sg_auth cfg) \<and> as_amod m = Some am \<and> am_auth_pass am (Some x) pass = (0, y) \<and> of_user u x"
proof -
  obtain cmd l1 where cmd: "accepted_reply (secmod_answer dtls cfg ks ko senv db cmd) (login_of r)"
      "login_attempt env wcfg (resume_state l) = Ask_secmod cmd l1"
    using post_outcome [OF assms(3-5)] assms(2) by auto
  obtain ret ms rest c u s k where p: "process_packet cfg ks ko senv db cmd = Inr (ret, ms, rest)" "M_auth_ok c u s k \<in> set ms"
      "worker_reply dtls (M_auth_ok c u s k) = Some (snd (secmod_answer dtls cfg ks ko senv db cmd))"
    using answer_ok cmd(1) unfolding accepted_reply_def by metis
  obtain pass m am x y where pw: "cmd = W_auth_cont (Some (k, Some pass))" "m \<in> set (sg_auth cfg)" "as_amod m = Some am"
      "am_auth_pass am (Some x) pass = (0, y)" "of_user u x"
    using packet_password [OF assms(1) p(1,2)] by blast
  have "sel t (resume_state l) = sel t l" "lg_body (resume_state l) = lg_body l" for t
    by (simp_all add: resume_state_def set_state_def sel_def selected_type_def)
  then have "parse_reply (lg_body l) PASSWORD_FIELD None = Some pass"
    using attempt_password cmd(2) pw(1) assms(6) by metis
  moreover have "lg_username (login_of r) = strlcpy_str MAX_USERNAME_SIZE u"
    using cmd(1) p(3)
    by (auto simp: accepted_reply_def worker_reply_def dest!: sym [of "sec_reply_ext _ _ _ _ _ _ _"])
  ultimately show ?thesis using pw by blast
qed

end

end
