(* ===== verification/PlainLogin.thy ===== *)
theory PlainLogin
  imports Passwd ModuleLogin
begin

text \<open>
  Logging in with a password file: the plain module keeps the contract of authentication modules,
  so that a cookie, at the security module and at the end of a worker's form, means that the
  password verifies against the hash the file has for the user.
\<close>

section \<open>The plain module\<close>

definition plain_cfg :: "plain_ctx sec_cfg \<Rightarrow> string \<Rightarrow> (string \<Rightarrow> string \<Rightarrow> string) \<Rightarrow> plain_ctx sec_cfg" where
  "plain_cfg base pwf crypt = base\<lparr>sg_auth :=
     [\<lparr>as_enabled = True, as_type = AUTH_TYPE_PLAIN, as_amod = Some (plain_auth_funcs (Some pwf) crypt)\<rparr>]\<rparr>"

text \<open>What a context knows of its user: the groups and the hash of the file.\<close>

definition plain_of_user :: "string \<Rightarrow> string \<Rightarrow> plain_ctx \<Rightarrow> bool" where
  "plain_of_user pwf u c \<longleftrightarrow> u \<noteq> [] \<and> pc_username c = strlcpy_str MAX_USERNAME_SIZE u
     \<and> scan_passwd (pc_username c) (fgets_all pwf) ([], []) = Inr (pc_groupnames c, pc_cpass c)"

lemma plain_pass_same:
  "plain_auth_pass crypt c p = Inr (r, c') \<Longrightarrow>
    pc_username c' = pc_username c \<and> pc_groupnames c' = pc_groupnames c \<and> pc_cpass c' = pc_cpass c"
  by (auto simp: plain_auth_pass_def Let_def split: if_splits option.splits)

lemma plain_pass_ok:
  "plain_auth_pass crypt c p = Inr (0, c') \<Longrightarrow> pc_cpass c \<noteq> [] \<and> crypt p (pc_cpass c) = Some (pc_cpass c)"
  by (auto simp: plain_auth_pass_def err_codes Let_def split: if_splits option.splits)

lemma plain_init_ctx:
  "plain_auth_init (Some pwf) (Some u) = Inr (r, Some c) \<Longrightarrow>
    r = ERR_AUTH_CONTINUE \<and> plain_of_user pwf (strlcpy_str (2 * MAX_USERNAME_SIZE) u) c"
  by (auto simp: plain_auth_init_def read_auth_pass_def plain_of_user_def strlcpy_str_def sec_consts take_Cons'
      split: if_splits sum.splits prod.splits)

lemma plain_init_negative: "fst (am_auth_init (plain_auth_funcs (Some pwf) crypt) u ip) < 0"
  by (auto simp: plain_auth_funcs_def plain_auth_init_def err_codes split: option.splits if_splits sum.splits prod.splits)

interpretation plain: password_module "plain_cfg base pwf crypt" "plain_of_user pwf" for base pwf crypt
proof (unfold_locales, goal_cases)
  case (1 m am u ip r c)
  then show ?case
    by (auto simp: plain_cfg_def plain_auth_funcs_def dest: plain_init_ctx split: sum.splits)
next
  case (2 m am ip)
  then show ?case by (auto simp: plain_cfg_def plain_auth_funcs_def plain_auth_init_def)
next
  case (3 m am c p r c' u)
  then show ?case
    by (auto simp: plain_cfg_def plain_auth_funcs_def plain_of_user_def dest!: plain_pass_same split: sum.splits prod.splits)
next
  case (4 m am p)
  then show ?case by (auto simp: plain_cfg_def plain_auth_funcs_def)
next
  case (5 m am ctx u)
  then show ?case by (auto simp: plain_cfg_def plain_auth_funcs_def)
next
  case (6 u c)
  then show ?case by (simp add: plain_of_user_def)
next
  case (7 m)
  then show ?case by (simp add: plain_cfg_def)
next
  case (8 m am u ip)
  then show ?case using plain_init_negative [of pwf crypt u ip] by (simp add: plain_cfg_def)
next
  case (9 m am p)
  then show ?case by (auto simp: plain_cfg_def plain_auth_funcs_def err_codes)
qed

section \<open>Only with the password\<close>

text \<open>What the module checks: crypt gives the hash of the file back, and it is not empty.\<close>

lemma plain_accepts:
  assumes "m \<in> set (sg_auth (plain_cfg base pwf crypt))" and "as_amod m = Some am" and "am_auth_pass am (Some x) pass = (0, y)"
    and "plain_of_user pwf u x"
  shows "\<exists>gs h. scan_passwd (strlcpy_str MAX_USERNAME_SIZE u) (fgets_all pwf) ([], []) = Inr (gs, h) \<and> h \<noteq> [] \<and> crypt pass h = h"
proof -
  have "am = plain_auth_funcs (Some pwf) crypt" using assms(1,2) by (simp add: plain_cfg_def)
  then obtain c' where "plain_auth_pass (\<lambda>a b. Some (crypt a b)) x pass = Inr (0, c')"
    using assms(3) by (auto simp: plain_auth_funcs_def err_codes split: sum.splits prod.splits)
  from plain_pass_ok [OF this] show ?thesis using assms(4) by (auto simp: plain_of_user_def)
qed

text \<open>
  A login with a password file, from the form to the file. Where the security module uses the
  plain module, a worker's login ends with a cookie only when the client posted a password that
  verifies against the hash which the file has for the user of the session.
\<close>

theorem form_login_needs_password:
  assumes "sm_run (plain_cfg base pwf crypt) ks ko tr db"
    and "lv_reply env = secmod_answer dtls (plain_cfg base pwf crypt) ks ko senv db"
    and "post_auth_handler n env cfg l = Some r" and "auth_state l \<noteq> S_AUTH_COOKIE"
    and "auth_state (login_of r) = S_AUTH_COOKIE" and "\<not> sel AUTH_TYPE_GSSAPI l"
  shows "\<exists>u pass gs h. parse_reply (lg_body l) PASSWORD_FIELD None = Some pass
    \<and> lg_username (login_of r) = strlcpy_str MAX_USERNAME_SIZE u
    \<and> scan_passwd (strlcpy_str MAX_USERNAME_SIZE u) (fgets_all pwf) ([], []) = Inr (gs, h)
    \<and> h \<noteq> [] \<and> crypt pass h = h"
  using plain.form_password [OF assms] plain_accepts by meson

section \<open>An example\<close>

definition example_pw_file :: string where
  "example_pw_file = print_table [(''bob'', ''staff'', ''$5$s$h'')]"

text \<open>A crypt that accepts one password for that hash.\<close>

definition example_crypt :: "string \<Rightarrow> string \<Rightarrow> string" where
  "example_crypt p s = (if p = ''secret'' then s else ''*'')"

definition example_plain_base :: "plain_ctx sec_cfg" where
  "example_plain_base = \<lparr>sg_auth = [], sg_acct_open = False, sg_acct_stats = False, sg_acct_close = False,
     sg_cookie_timeout = 300, sg_max_ban_score = 0, sg_ban_points_wrong_password = 10, sg_predictable_ips = False,
     sg_cert_user_oid = False, sg_cert_group_oid = False\<rparr>"

abbreviation example_plain :: "plain_ctx sec_cfg" where
  "example_plain \<equiv> plain_cfg example_plain_base example_pw_file example_crypt"

definition example_plain_ctx :: plain_ctx where
  "example_plain_ctx = \<lparr>pc_username = ''bob'', pc_cpass = ''$5$s$h'', pc_groupnames = [''staff''], pc_failed = False,
     pc_retries = 0\<rparr>"

definition example_user_init :: init_req where
  "example_user_init = \<lparr>in_ip = ''10.0.0.1'', in_auth_type = AUTH_TYPE_USERNAME_PASS, in_hostname = Some [],
     in_user_name = Some ''bob'', in_group_name = None, in_tls_auth_ok = False, in_cert_user_name = None,
     in_cert_group_names = []\<rparr>"

definition example_plain_entry :: "auth_status \<Rightarrow> plain_ctx client_entry" where
  "example_plain_entry st = (blank_entry example_sid ''10.0.0.1'' 100)\<lparr>ce_status := st, ce_auth_type := AUTH_TYPE_PLAIN,
     ce_module := Some 0, ce_auth_ctx := Some example_plain_ctx, ce_auth_info := \<lparr>ai_username = ''bob'',
       ai_groupname = ''staff'', ai_remote_ip = ''10.0.0.1'', ai_ipv4 = [], ai_ipv6 = []\<rparr>\<rparr>"

lemma example_scan: "scan_passwd ''bob'' (fgets_all example_pw_file) ([], []) = Inr ([''staff''], ''$5$s$h'')"
proof -
  have g: "break_group_list ''staff'' = Inr [''staff'']" by (simp add: break_group_list_def break_groups.simps)
  have t: "pw_table_ok [(''bob'', ''staff'', ''$5$s$h'')]" "list_all fits [(''bob'', ''staff'', ''$5$s$h'')]"
    using g by (simp_all add: pw_table_ok_def pw_ok_def user_text_def group_text_def plain_text_def groups_of_def fits_def)
  show ?thesis
    using scan_table [OF t, of "''bob''"] fgets_table [of "[(''bob'', ''staff'', ''$5$s$h'')]"] t g
    by (simp add: example_pw_file_def found_of_def groups_of_def pw_table_ok_def del: scan_passwd.simps)
qed

lemma example_plain_init: "plain_auth_init (Some example_pw_file) (Some ''bob'') = Inr (ERR_AUTH_CONTINUE, Some example_plain_ctx)"
  by (simp add: plain_auth_init_def read_auth_pass_def example_scan strlcpy_str_fits sec_consts example_plain_ctx_def
      del: scan_passwd.simps)

lemma example_user_steps:
  "auth_init_steps example_plain example_user_init (blank_entry example_sid ''10.0.0.1'' 100) =
     (ERR_AUTH_CONTINUE, example_plain_entry PS_AUTH_INIT)"
  by (simp add: auth_init_steps_def set_module_def init_module_def init_cert_group_def module_of_def
      check_user_group_status_def is_certificate_def set_username_def set_groupname_def blank_entry_def
      example_plain_entry_def plain_cfg_def example_plain_base_def example_user_init_def auth_types strlcpy_str_def
      sec_consts MAX_IP_STR_def plain_auth_funcs_def example_plain_init plain_auth_group_def example_plain_ctx_def err_codes)

text \<open>The first packet: the module wants the password.\<close>

abbreviation example_asked :: "plain_ctx client_entry" where
  "example_asked \<equiv> example_plain_entry PS_AUTH_INIT"

lemma example_user_res:
  "handle_sec_auth_res example_plain example_sm_env example_asked ERR_AUTH_CONTINUE =
     (0, [M_auth_msg (Some ''Please enter your password.'') example_sid], example_asked)"
  by (simp add: handle_sec_auth_res_def fetch_auth_msg_def module_of_def ask_again_def send_sec_auth_reply_msg_def
      plain_cfg_def plain_auth_funcs_def plain_auth_msg_def example_plain_ctx_def example_plain_entry_def blank_entry_def
      example_sm_env_def)

lemma example_user_packet:
  "process_packet example_plain 0 ko example_sm_env [] (W_auth_init (Some example_user_init)) =
     Inr (0, [M_auth_msg (Some ''Please enter your password.'') example_sid], [], [example_asked])"
proof -
  have "in_ip example_user_init = ''10.0.0.1''" by (simp add: example_user_init_def)
  moreover have "ce_sid example_asked = example_sid" by (simp add: example_plain_entry_def blank_entry_def)
  ultimately show ?thesis
    by (simp add: process_packet_def handle_sec_auth_init_def example_fields example_new example_user_steps
        example_user_res example_put)
qed

lemma example_user_run:
  "\<exists>tr. sm_run example_plain 0 ko tr [example_asked]"
proof -
  have "sm_step example_plain 0 ko sec_mod_client_db_init
     (Ev_worker example_sm_env (W_auth_init (Some example_user_init)), 0,
       [M_auth_msg (Some ''Please enter your password.'') example_sid]) [example_asked]"
    unfolding sec_mod_client_db_init_def by (rule step_worker [OF example_user_packet])
  then show ?thesis using run_step [OF run_init] by blast
qed

text \<open>The second one: the password, and the cookie.\<close>

lemma example_pass_steps:
  "auth_cont_steps example_plain example_asked (Some ''secret'') = (0, example_plain_entry PS_AUTH_CONT)"
  by (simp add: auth_cont_steps_def module_of_def plain_cfg_def plain_auth_funcs_def plain_auth_pass_def
      example_plain_ctx_def example_plain_entry_def blank_entry_def example_crypt_def)

lemma example_pass_res:
  "\<exists>e. handle_sec_auth_res example_plain example_sm_env (example_plain_entry PS_AUTH_CONT) 0 =
     (0, [M_auth_ok example_enc_cookie ''bob'' (Some ''Please enter your password.'') example_sid], e)"
  by (simp add: handle_sec_auth_res_def fetch_auth_msg_def module_of_def send_sec_auth_reply_def set_username_def
      generate_cookie_def cookie_of_def example_encrypt err_codes plain_cfg_def example_plain_base_def
      plain_auth_funcs_def plain_auth_msg_def example_plain_ctx_def example_plain_entry_def blank_entry_def
      example_sm_env_def)

lemma example_pass_answer:
  "secmod_answer dtls example_plain 0 ko example_sm_env [example_asked] (W_auth_cont (Some (example_sid, Some ''secret''))) =
     (0, \<lparr>sr_reply = Rep_ok, sr_user_name = Some ''bob'', sr_reply_sid = Some example_sid,
          sr_reply_cookie = Some example_enc_cookie, sr_dtls_session_id = dtls,
          sr_msg = Some ''Please enter your password.''\<rparr>)"
proof -
  have f: "find_client_entry [example_asked] example_sid = Some example_asked"
    by (simp add: find_client_entry_def example_plain_entry_def blank_entry_def tbl_defs)
  have len: "length example_sid = SID_SIZE" by (simp add: example_sid_def SID_SIZE_def)
  obtain e where e: "handle_sec_auth_res example_plain example_sm_env (example_plain_entry PS_AUTH_CONT) 0 =
     (0, [M_auth_ok example_enc_cookie ''bob'' (Some ''Please enter your password.'') example_sid], e)"
    using example_pass_res by blast
  show ?thesis
    by (simp add: secmod_answer_def process_packet_def handle_sec_auth_cont_def len f example_pass_steps e
        worker_reply_def List.map_filter_def)
qed

definition example_password_login :: login where
  "example_password_login =
     (let l = example_client_login 5 [(''password'', ''secret'')] in
      l\<lparr>lg_app := (lg_app l)\<lparr>ha_sid := example_sid, ha_sid_set := True\<rparr>\<rparr>)"

definition example_password_env :: login_env where
  "example_password_env = (example_login_env [])\<lparr>lv_reply :=
     secmod_answer (replicate 32 0) example_plain 0 (\<lambda>_ _. None) example_sm_env [example_asked]\<rparr>"

lemma example_password_body: "parse_reply (lg_body example_password_login) PASSWORD_FIELD None = Some ''secret''"
proof -
  have "parse_reply (form_body is_alpha [(''password'', ''secret'')]) PASSWORD_FIELD None = Some ''secret''"
    using parse_form [of is_alpha "[]" "''password''" "''secret''" "[]"]
    by (simp add: safe_ok_def key_ok_def earlier_ok_def is_alpha_def PASSWORD_FIELD_def ascii_lower_def)
  then show ?thesis by (simp add: example_password_login_def example_client_login_def)
qed

lemma example_password_attempt:
  "login_attempt example_password_env example_login_cfg (resume_state example_password_login) =
     Ask_secmod (W_auth_cont (Some (example_sid, Some ''secret''))) (set_state S_AUTH_INIT example_password_login)"
proof -
  have "ha_sid_set (lg_app example_password_login)" "auth_state example_password_login = S_AUTH_INACTIVE"
      "ha_sid (lg_app example_password_login) = example_sid" "\<not> sel AUTH_TYPE_GSSAPI example_password_login"
      "sel AUTH_TYPE_USERNAME_PASS example_password_login"
    by (simp_all add: example_password_login_def example_login_defs Let_def)
  then show ?thesis
    using example_password_body
    by (simp add: resume_state_def login_attempt_def auth_cont_attempt_def set_state_def auth_state_def sel_def
        selected_type_def)
qed

lemma example_password_runs:
  "\<exists>r. post_auth_handler 1 example_password_env example_login_cfg example_password_login = Some r
    \<and> auth_state (login_of r) = S_AUTH_COOKIE"
proof -
  have env: "lv_connect example_password_env" "lv_sent example_password_env cmd = 0"
    "lv_reply example_password_env = secmod_answer (replicate 32 0) example_plain 0 (\<lambda>_ _. None) example_sm_env [example_asked]"
    for cmd by (simp_all add: example_password_env_def example_login_env_def)
  show ?thesis
    by (simp add: post_body_def example_password_attempt env handle_reply_def example_pass_answer recv_auth_reply_def
        err_codes example_enc_cookie_def returned_def Let_def auth_state_def set_state_def)
qed

theorem form_login_needs_password_witness:
  "\<exists>u pass gs h. parse_reply (lg_body example_password_login) PASSWORD_FIELD None = Some pass
    \<and> scan_passwd (strlcpy_str MAX_USERNAME_SIZE u) (fgets_all example_pw_file) ([], []) = Inr (gs, h)
    \<and> h \<noteq> [] \<and> example_crypt pass h = h"
proof -
  obtain tr where t: "sm_run example_plain 0 (\<lambda>_ _. None) tr [example_asked]" using example_user_run by blast
  obtain r where r: "post_auth_handler 1 example_password_env example_login_cfg example_password_login = Some r"
      "auth_state (login_of r) = S_AUTH_COOKIE" using example_password_runs by blast
  have l: "lv_reply example_password_env =
      secmod_answer (replicate 32 0) example_plain 0 (\<lambda>_ _. None) example_sm_env [example_asked]"
    "auth_state example_password_login \<noteq> S_AUTH_COOKIE" "\<not> sel AUTH_TYPE_GSSAPI example_password_login"
    by (simp_all add: example_password_env_def example_password_login_def example_login_defs Let_def)
  show ?thesis using form_login_needs_password [OF t l(1) r(1) l(2) r(2) l(3)] by metis
qed

end
