(* ===== verification/SubConfig.thy ===== *)
theory SubConfig
  imports Plain Html
begin

text \<open>
  The options in brackets behind an authentication method of the configuration, src/subconfig.c,
  and the errors of reading a configuration.
\<close>

section \<open>Errors\<close>

text \<open>exit(1) with a message, or an access outside of an array.\<close>

datatype cfg_error = Cfg_exit | Cfg_memory mem_error

text \<open>What comes after a step that can end the program.\<close>

definition and_then :: "'e + 'a \<Rightarrow> ('a \<Rightarrow> 'e + 'b) \<Rightarrow> 'e + 'b" where
  "and_then x f = (case x of Inl e \<Rightarrow> Inl e | Inr v \<Rightarrow> f v)"

lemma and_then_simps [simp]: "and_then (Inl e) f = Inl e" "and_then (Inr v) f = f v"
  by (simp_all add: and_then_def)

lemma and_then_Inr: "and_then x f = Inr y \<longleftrightarrow> (\<exists>v. x = Inr v \<and> f v = Inr y)"
  by (auto simp: and_then_def split: sum.splits)

definition check :: "bool \<Rightarrow> cfg_error + unit" where
  "check ok = (if ok then Inr () else Inl Cfg_exit)"

lemma check_Inr [simp]: "check ok = Inr u \<longleftrightarrow> ok"
  by (simp add: check_def)

lemma check_True [simp]: "check True = Inr ()"
  by (simp add: check_def)

section \<open>Strings\<close>

definition c_strcasecmp :: "string \<Rightarrow> string \<Rightarrow> bool" where
  "c_strcasecmp a b \<longleftrightarrow> map ascii_lower a = map ascii_lower b"

definition CHECK_TRUE :: "string \<Rightarrow> bool" where
  "CHECK_TRUE s \<longleftrightarrow> c_strcasecmp s ''true'' \<or> c_strcasecmp s ''yes''"

text \<open>strchr: what is in front of the first \<open>c\<close>, and behind it.\<close>

definition strchr :: "char \<Rightarrow> string \<Rightarrow> (string \<times> string) option" where
  "strchr c s =
     (if c \<in> set s then Some (takeWhile (\<lambda>x. x \<noteq> c) s, tl (dropWhile (\<lambda>x. x \<noteq> c) s)) else None)"

lemma strchr_here: "c \<notin> set a \<Longrightarrow> strchr c (a @ c # b) = Some (a, b)"
  unfolding strchr_def by (induction a) auto

lemma strchr_absent: "c \<notin> set s \<Longrightarrow> strchr c s = None"
  by (simp add: strchr_def)

lemma strchr_split: "strchr c s = Some (a, b) \<Longrightarrow> s = a @ c # b \<and> c \<notin> set a"
  using strchr_here [of c] by (cases "c \<in> set s") (auto simp: strchr_absent dest!: split_list_first)

abbreviation LBRACKET :: char where "LBRACKET \<equiv> CHR ''[''"
abbreviation RBRACKET :: char where "RBRACKET \<equiv> CHR '']''"

section \<open>The options\<close>

definition MAX_SUBOPTIONS :: nat where "MAX_SUBOPTIONS = 5"

text \<open>
  The loop of expand_brackets_string; the text it reads is the same in every iteration. A length
  of zero is unsigned, so that the test of the last character reads far behind the text.
\<close>

fun expand_pairs :: "nat \<Rightarrow> string \<Rightarrow> cfg_error + (string \<times> string) list" where
  "expand_pairs 0 p = Inr []"
| "expand_pairs (Suc n) p =
     (case strchr (CHR ''='') p of
        None \<Rightarrow> Inl Cfg_exit
      | Some (name, q0) \<Rightarrow>
          let q = dropWhile c_isspace q0 in
          (case (case strchr COMMA q of
                   Some (v, _) \<Rightarrow> Some (v, False)
                 | None \<Rightarrow> (case strchr RBRACKET q of None \<Rightarrow> None | Some (v, _) \<Rightarrow> Some (v, True))) of
             None \<Rightarrow> Inl Cfg_exit
           | Some (v, finish) \<Rightarrow>
               if name = [] \<or> v = [] then Inl (Cfg_memory Out_of_bounds)
               else
                 let pr = (trim_right name, trim_right v) in
                 if finish then Inr [pr] else and_then (expand_pairs n p) (\<lambda>r. Inr (pr # r))))"

definition expand_brackets_string :: "string \<Rightarrow> cfg_error + (string \<times> string) list" where
  "expand_brackets_string str =
     (case strchr LBRACKET str of
        None \<Rightarrow> Inr []
      | Some (_, p) \<Rightarrow> expand_pairs MAX_SUBOPTIONS (dropWhile c_isspace p))"

text \<open>Up to the first comma, or else the closing bracket.\<close>

definition upto_comma :: "string \<Rightarrow> cfg_error + string" where
  "upto_comma p =
     (case strchr COMMA p of
        Some (v, _) \<Rightarrow> Inr v
      | None \<Rightarrow> (case strchr RBRACKET p of None \<Rightarrow> Inl Cfg_exit | Some (v, _) \<Rightarrow> Inr v))"

definition get_brackets_string1 :: "string \<Rightarrow> cfg_error + string option" where
  "get_brackets_string1 str =
     (case strchr LBRACKET str of
        None \<Rightarrow> Inr None
      | Some (_, p) \<Rightarrow> and_then (upto_comma (dropWhile c_isspace p)) (\<lambda>v. Inr (Some v)))"

definition get_brackets_string2 :: "string \<Rightarrow> cfg_error + string option" where
  "get_brackets_string2 str =
     (case strchr LBRACKET str of
        None \<Rightarrow> Inr None
      | Some (_, p) \<Rightarrow>
          (case strchr COMMA p of
             None \<Rightarrow> Inr None
           | Some (_, q) \<Rightarrow> and_then (upto_comma (dropWhile c_isspace q)) (\<lambda>v. Inr (Some v))))"

section \<open>The methods\<close>

text \<open>gssapi_cfg_st: keytab and no_local_map; radius_cfg_st: config and nas_identifier.\<close>

datatype auth_additional =
  Gssapi_cfg "string option" bool
| Radius_cfg string "string option"
| Pam_cfg int
| Plain_cfg string

fun gssapi_options :: "(string \<times> string) list \<Rightarrow> string option \<Rightarrow> bool \<Rightarrow> cfg_error + auth_additional" where
  "gssapi_options [] keytab no_map = Inr (Gssapi_cfg keytab no_map)"
| "gssapi_options ((n, v) # vals) keytab no_map =
     (if c_strcasecmp n ''keytab'' then gssapi_options vals (Some v) no_map
      else if c_strcasecmp n ''require-local-user-map'' then gssapi_options vals keytab (\<not> CHECK_TRUE v)
      else Inl Cfg_exit)"

definition gssapi_get_brackets_string :: "string \<Rightarrow> cfg_error + auth_additional" where
  "gssapi_get_brackets_string str =
     and_then (expand_brackets_string str) (\<lambda>vals. gssapi_options vals None False)"

text \<open>The first character of the brackets tells the legacy format.\<close>

definition legacy_format :: "string \<Rightarrow> bool" where
  "legacy_format str \<longleftrightarrow> char_at str 0 = LBRACKET \<and> (char_at str 1 = CHR ''/'' \<or> char_at str 1 = CHR ''.'')"

text \<open>The flag: the configuration of users comes from radius.\<close>

fun radius_options ::
  "(string \<times> string) list \<Rightarrow> string option \<times> string option \<times> bool
    \<Rightarrow> cfg_error + string option \<times> string option \<times> bool" where
  "radius_options [] r = Inr r"
| "radius_options ((n, v) # vals) (config, nas, grpcfg) =
     (if c_strcasecmp n ''config'' then radius_options vals (Some v, nas, grpcfg)
      else if c_strcasecmp n ''nas-identifier'' then radius_options vals (config, Some v, grpcfg)
      else if c_strcasecmp n ''groupconfig'' then radius_options vals (config, nas, grpcfg \<or> CHECK_TRUE v)
      else Inl Cfg_exit)"

definition radius_get_brackets_string :: "string \<Rightarrow> cfg_error + auth_additional \<times> bool" where
  "radius_get_brackets_string str =
     and_then
       (if legacy_format str then
          and_then (get_brackets_string1 str) (\<lambda>config.
          and_then (get_brackets_string2 str) (\<lambda>p.
            case p of
              None \<Rightarrow> Inr (config, None, False)
            | Some s \<Rightarrow> if c_strcasecmp s ''groupconfig'' then Inr (config, None, True) else Inl Cfg_exit))
        else and_then (expand_brackets_string str) (\<lambda>vals. radius_options vals (None, None, False)))
       (\<lambda>(config, nas, grpcfg).
          case config of None \<Rightarrow> Inl Cfg_exit | Some c \<Rightarrow> Inr (Radius_cfg c nas, grpcfg))"

fun pam_options :: "(string \<times> string) list \<Rightarrow> int \<Rightarrow> cfg_error + auth_additional" where
  "pam_options [] gid_min = Inr (Pam_cfg gid_min)"
| "pam_options ((n, v) # vals) gid_min =
     (if c_strcasecmp n ''gid-min'' then
        (let g = sint (atoi v) in if g < 0 then Inl Cfg_exit else pam_options vals g)
      else Inl Cfg_exit)"

definition pam_get_brackets_string :: "string \<Rightarrow> cfg_error + auth_additional" where
  "pam_get_brackets_string str = and_then (expand_brackets_string str) (\<lambda>vals. pam_options vals 0)"

fun plain_options :: "(string \<times> string) list \<Rightarrow> string option \<Rightarrow> cfg_error + string option" where
  "plain_options [] passwd = Inr passwd"
| "plain_options ((n, v) # vals) passwd =
     (if c_strcasecmp n ''passwd'' then plain_options vals (Some v) else Inl Cfg_exit)"

definition plain_get_brackets_string :: "string \<Rightarrow> cfg_error + auth_additional" where
  "plain_get_brackets_string str =
     and_then
       (if legacy_format str then get_brackets_string1 str
        else and_then (expand_brackets_string str) (\<lambda>vals. plain_options vals None))
       (\<lambda>passwd. case passwd of None \<Rightarrow> Inl Cfg_exit | Some f \<Rightarrow> Inr (Plain_cfg f))"

end
