(* ===== verification/SupFile.thy ===== *)
theory SupFile
  imports SubConfig MainProc
begin

text \<open>
  Configuration files of users and groups, src/sup-config/file.c: what the security module adds to
  its reply when a session is opened. The autoopts parser is a parameter: a file is the list of the
  names and values it finds.
\<close>

section \<open>Values\<close>

datatype opt_value = Opt_string string | Opt_numeric int | Opt_other

type_synonym options = "(string \<times> opt_value) list"

definition MAX_CONFIG_ENTRIES :: nat where "MAX_CONFIG_ENTRIES = 96"

text \<open>optionGetValue with a name.\<close>

definition option_get :: "options \<Rightarrow> string \<Rightarrow> opt_value option" where
  "option_get pov name = map_option snd (List.find (\<lambda>(n, v). n = name) pov)"

text \<open>READ_RAW_STRING and READ_RAW_NUMERIC; the value and whether it was set.\<close>

definition raw_string :: "options \<Rightarrow> string \<Rightarrow> string option \<Rightarrow> string option" where
  "raw_string pov name old = (case option_get pov name of Some (Opt_string s) \<Rightarrow> Some s | _ \<Rightarrow> old)"

definition raw_numeric :: "options \<Rightarrow> string \<Rightarrow> u32 \<times> bool \<Rightarrow> u32 \<times> bool" where
  "raw_numeric pov name old =
     (case option_get pov name of
        Some (Opt_numeric n) \<Rightarrow> (word_of_int n, True)
      | Some (Opt_string s) \<Rightarrow> (atoi s, True)
      | _ \<Rightarrow> old)"

text \<open>strtol with base 16 of a text that starts with 0x, and the packing of the priority.\<close>

definition strtol16 :: "string \<Rightarrow> u32" where
  "strtol16 s = word_of_int (min (2 ^ 63 - 1) (int (foldl (\<lambda>v c. 16 * v + the (hexval c)) 0
     (takeWhile (\<lambda>c. hexval c \<noteq> None) (drop 2 s)))))"

definition TOS_PACK :: "u32 \<Rightarrow> u32" where
  "TOS_PACK x = push_bit 4 x"

definition prio_tos :: "string \<Rightarrow> u32" where
  "prio_tos s = (if take 2 s = ''0x'' then TOS_PACK (strtol16 s) else atoi s + 1)"

definition raw_prio_tos :: "options \<Rightarrow> string \<Rightarrow> u32 \<times> bool \<Rightarrow> u32 \<times> bool" where
  "raw_prio_tos pov name old =
     (case option_get pov name of Some (Opt_string s) \<Rightarrow> (prio_tos s, True) | _ \<Rightarrow> old)"

text \<open>READ_TF: without a value the flag is reset, and the value stays.\<close>

definition raw_tf :: "options \<Rightarrow> string \<Rightarrow> bool \<times> bool \<Rightarrow> bool \<times> bool" where
  "raw_tf pov name old =
     (case raw_string pov name None of None \<Rightarrow> (fst old, False) | Some s \<Rightarrow> (CHECK_TRUE s, True))"

text \<open>
  The loop of READ_RAW_MULTI_LINE from the first value on. The string of a value that is none is
  read from elsewhere, and behind the last one a NULL is stored.
\<close>

fun raw_multi_loop :: "string \<Rightarrow> options \<Rightarrow> string list \<Rightarrow> mem_error + string list" where
  "raw_multi_loop name [] acc = Inr acc"
| "raw_multi_loop name ((n, v) # vals) acc =
     (if MAX_CONFIG_ENTRIES \<le> length acc then Inr acc
      else if n \<noteq> name then raw_multi_loop name vals acc
      else (case v of Opt_string s \<Rightarrow> raw_multi_loop name vals (acc @ [s]) | _ \<Rightarrow> Inl Out_of_bounds))"

definition raw_multi_line :: "options \<Rightarrow> string \<Rightarrow> string list \<Rightarrow> mem_error + string list" where
  "raw_multi_line pov name old =
     (case dropWhile (\<lambda>(n, v). n \<noteq> name) pov of
        (n, Opt_string s) # vals \<Rightarrow>
          and_then (raw_multi_loop name ((n, Opt_string s) # vals) old) (\<lambda>acc.
            if MAX_CONFIG_ENTRIES \<le> length acc then Inl Out_of_bounds else Inr acc)
      | _ \<Rightarrow> Inr old)"

text \<open>dns and nbns, with their aliases.\<close>

definition raw_aliases :: "options \<Rightarrow> string \<Rightarrow> string \<Rightarrow> string \<Rightarrow> string list \<Rightarrow> mem_error + string list" where
  "raw_aliases pov name alias6 alias4 old =
     and_then (raw_multi_line pov name old) (\<lambda>l.
       if l \<noteq> [] then Inr l
       else and_then (raw_multi_line pov alias6 l) (raw_multi_line pov alias4))"

section \<open>Prefixes\<close>

text \<open>extract_prefix cuts the string at the slash.\<close>

definition extract_prefix :: "string option \<Rightarrow> u32 \<times> string option" where
  "extract_prefix network =
     (case network of
        None \<Rightarrow> (0, None)
      | Some s \<Rightarrow> (case strchr (CHR ''/'') s of None \<Rightarrow> (0, Some s) | Some (net, p) \<Rightarrow> (atoi p, Some net)))"

definition valid_ipv6_prefix :: "u32 \<Rightarrow> bool" where
  "valid_ipv6_prefix p \<longleftrightarrow> p \<in> {16, 32, 48, 64, 80, 96, 112, 128}"

section \<open>The reply\<close>

text \<open>SecAuthSessionReplyMsg while it is filled; a pair is a value with its has_ flag.\<close>

record sup_reply =
  ur_no_udp :: "bool \<times> bool"
  ur_deny_roaming :: "bool \<times> bool"
  ur_routes :: "string list"
  ur_iroutes :: "string list"
  ur_dns :: "string list"
  ur_nbns :: "string list"
  ur_ipv4_net :: "string option"
  ur_ipv4_netmask :: "string option"
  ur_ipv6_net :: "string option"
  ur_ipv6_prefix :: "u32 \<times> bool"
  ur_cgroup :: "string option"
  ur_xml_config_file :: "string option"
  ur_rx_per_sec :: "u32 \<times> bool"
  ur_tx_per_sec :: "u32 \<times> bool"
  ur_net_priority :: "u32 \<times> bool"
  ur_explicit_ipv4 :: "string option"
  ur_explicit_ipv6 :: "string option"
  ur_no_routes :: "string list"

definition empty_sup_reply :: sup_reply where
  "empty_sup_reply = \<lparr>ur_no_udp = (False, False), ur_deny_roaming = (False, False), ur_routes = [],
     ur_iroutes = [], ur_dns = [], ur_nbns = [], ur_ipv4_net = None, ur_ipv4_netmask = None,
     ur_ipv6_net = None, ur_ipv6_prefix = (0, False), ur_cgroup = None, ur_xml_config_file = None,
     ur_rx_per_sec = (0, False), ur_tx_per_sec = (0, False), ur_net_priority = (0, False),
     ur_explicit_ipv4 = None, ur_explicit_ipv6 = None, ur_no_routes = []\<rparr>"

text \<open>The network and the prefix, which the network can have; an odd prefix is only logged.\<close>

definition read_ipv6_prefix :: "options \<Rightarrow> string option \<Rightarrow> bool \<Rightarrow> string option \<times> u32 \<times> bool" where
  "read_ipv6_prefix pov net has =
     (case extract_prefix net of
        (p, net1) \<Rightarrow> (net1, if p = 0 then raw_numeric pov ''ipv6-prefix'' (p, has) else (p, True)))"

definition in_kb :: "u32 \<times> bool \<Rightarrow> u32 \<times> bool" where
  "in_kb x = (fst x div 1000, snd x)"

text \<open>What parse_group_cfg_file does with a file that has values.\<close>

definition read_options :: "options \<Rightarrow> sup_reply \<Rightarrow> mem_error + sup_reply" where
  "read_options pov m =
     and_then (raw_multi_line pov ''route'' (ur_routes m)) (\<lambda>routes.
     and_then (raw_multi_line pov ''no-route'' (ur_no_routes m)) (\<lambda>no_routes.
     and_then (raw_multi_line pov ''iroute'' (ur_iroutes m)) (\<lambda>iroutes.
     and_then (raw_aliases pov ''dns'' ''ipv6-dns'' ''ipv4-dns'' (ur_dns m)) (\<lambda>dns.
     and_then (raw_aliases pov ''nbns'' ''ipv6-nbns'' ''ipv4-nbns'' (ur_nbns m)) (\<lambda>nbns.
       let prefix = read_ipv6_prefix pov (raw_string pov ''ipv6-network'' (ur_ipv6_net m)) (snd (ur_ipv6_prefix m)) in
       Inr \<lparr>ur_no_udp = raw_tf pov ''no-udp'' (ur_no_udp m),
         ur_deny_roaming = raw_tf pov ''deny-roaming'' (ur_deny_roaming m),
         ur_routes = routes, ur_iroutes = iroutes, ur_dns = dns, ur_nbns = nbns,
         ur_ipv4_net = raw_string pov ''ipv4-network'' (ur_ipv4_net m),
         ur_ipv4_netmask = raw_string pov ''ipv4-netmask'' (ur_ipv4_netmask m),
         ur_ipv6_net = fst prefix, ur_ipv6_prefix = snd prefix,
         ur_cgroup = raw_string pov ''cgroup'' (ur_cgroup m),
         ur_xml_config_file = raw_string pov ''user-profile'' (ur_xml_config_file m),
         ur_rx_per_sec = in_kb (raw_numeric pov ''rx-data-per-sec'' (ur_rx_per_sec m)),
         ur_tx_per_sec = in_kb (raw_numeric pov ''tx-data-per-sec'' (ur_tx_per_sec m)),
         ur_net_priority = raw_prio_tos pov ''net-priority'' (ur_net_priority m),
         ur_explicit_ipv4 = raw_string pov ''explicit-ipv4'' (ur_explicit_ipv4 m),
         ur_explicit_ipv6 = raw_string pov ''explicit-ipv6'' (ur_explicit_ipv6 m),
         ur_no_routes = no_routes\<rparr>)))))"

section \<open>Files\<close>

text \<open>Which files can be read, and what configFileLoad makes of them; None: it fails.\<close>

record sup_files =
  uf_access :: "string \<Rightarrow> bool"
  uf_load :: "string \<Rightarrow> options option"

definition parse_group_cfg_file :: "sup_files \<Rightarrow> sup_reply \<Rightarrow> string \<Rightarrow> mem_error + int \<times> sup_reply" where
  "parse_group_cfg_file fs m pwf =
     (case uf_load fs pwf of
        None \<Rightarrow> Inr (0, m)
      | Some [] \<Rightarrow> Inr (ERR_READ_CONFIG, m)
      | Some pov \<Rightarrow> and_then (read_options pov m) (\<lambda>m1. Inr (0, m1)))"

definition read_sup_config_file ::
  "sup_files \<Rightarrow> sup_reply \<Rightarrow> string \<Rightarrow> string option \<Rightarrow> mem_error + int \<times> sup_reply" where
  "read_sup_config_file fs m pwf fallback =
     (if uf_access fs pwf then parse_group_cfg_file fs m pwf
      else (case fallback of None \<Rightarrow> Inr (0, m) | Some f \<Rightarrow> parse_group_cfg_file fs m f))"

record sup_cfg =
  uc_per_group_dir :: "string option"
  uc_per_user_dir :: "string option"
  uc_default_group_conf :: "string option"
  uc_default_user_conf :: "string option"

definition POSIX_PATH_MAX :: nat where "POSIX_PATH_MAX = 256"

definition sup_path :: "string \<Rightarrow> string \<Rightarrow> string" where
  "sup_path dir name = take (POSIX_PATH_MAX - 1) (dir @ ''/'' @ name)"

definition get_sup_config ::
  "sup_files \<Rightarrow> sup_cfg \<Rightarrow> auth_info \<Rightarrow> sup_reply \<Rightarrow> mem_error + int \<times> sup_reply" where
  "get_sup_config fs cfg ai m =
     and_then
       (case uc_per_group_dir cfg of
          None \<Rightarrow> Inr (0, m)
        | Some d \<Rightarrow>
            if ai_groupname ai = [] then Inr (0, m)
            else read_sup_config_file fs m (sup_path d (ai_groupname ai)) (uc_default_group_conf cfg))
       (\<lambda>(ret, m1).
          if ret < 0 then Inr (ret, m1)
          else (case uc_per_user_dir cfg of
                  None \<Rightarrow> Inr (0, m1)
                | Some d \<Rightarrow> read_sup_config_file fs m1 (sup_path d (ai_username ai)) (uc_default_user_conf cfg)))"

text \<open>The message as the main process unpacks it: a value without its flag is not sent.\<close>

definition sent_value :: "'a \<times> bool \<Rightarrow> 'a option" where
  "sent_value x = (if snd x then Some (fst x) else None)"

definition sent_number :: "u32 \<times> bool \<Rightarrow> u32" where
  "sent_number x = (if snd x then fst x else 0)"

definition session_reply_of :: "sup_reply \<Rightarrow> session_reply_msg" where
  "session_reply_of m =
     \<lparr>sp_no_udp = sent_value (ur_no_udp m), sp_deny_roaming = sent_value (ur_deny_roaming m),
      sp_ipv6_prefix = map_option unat (sent_value (ur_ipv6_prefix m)),
      sp_rx_per_sec = sent_number (ur_rx_per_sec m), sp_tx_per_sec = sent_number (ur_tx_per_sec m),
      sp_net_priority = sent_number (ur_net_priority m), sp_ipv4_net = ur_ipv4_net m,
      sp_ipv4_netmask = ur_ipv4_netmask m, sp_ipv6_net = ur_ipv6_net m, sp_cgroup = ur_cgroup m,
      sp_xml_config_file = ur_xml_config_file m, sp_explicit_ipv4 = ur_explicit_ipv4 m,
      sp_explicit_ipv6 = ur_explicit_ipv6 m, sp_routes = ur_routes m, sp_no_routes = ur_no_routes m,
      sp_iroutes = map (map of_char) (ur_iroutes m), sp_dns = ur_dns m, sp_nbns = ur_nbns m\<rparr>"

end
