(* ===== verification/Config.thy ===== *)
theory Config
  imports SupFile SecAuth
begin

text \<open>
  The configuration file of the server, src/config.c: which options there are, how each is read,
  the authentication and accounting methods, and the checks of the result, at the start and when it
  is read again. The autoopts parser gives the names and values; the user database, name
  resolution, the groups of an authentication module and hashes of files are parameters.
\<close>

section \<open>Options\<close>

definition available_options :: "string list" where
  "available_options = [''auth'', ''enable-auth'', ''route'', ''no-route'', ''select-group'', ''custom-header'',
     ''split-dns'', ''acct'', ''listen-host'', ''listen-host-is-dyndns'', ''compression'', ''no-compress-limit'',
     ''tcp-port'', ''max-ban-score'', ''ban-points-wrong-password'', ''ban-connection'', ''ban-points-kkdcp'',
     ''udp-port'', ''keepalive'', ''dpd'', ''mobile-dpd'', ''rate-limit-ms'', ''ocsp-response'', ''server-cert'',
     ''server-key'', ''dh-params'', ''pin-file'', ''srk-pin-file'', ''user-profile'', ''ca-cert'', ''default-domain'',
     ''crl'', ''cert-user-oid'', ''cert-group-oid'', ''connect-script'', ''disconnect-script'', ''pid-file'', ''kkdcp'',
     ''socket-file'', ''listen-clear-file'', ''occtl-socket-file'', ''banner'', ''use-seccomp'', ''isolate-workers'',
     ''predictable-ips'', ''session-control'', ''auto-select-group'', ''default-select-group'',
     ''always-require-cert'', ''cisco-client-compat'', ''deny-roaming'', ''use-utmp'', ''use-dbus'', ''use-occtl'',
     ''try-mtu-discovery'', ''ping-leases'', ''tls-priorities'', ''chroot-dir'', ''mtu'', ''net-priority'',
     ''output-buffer'', ''cookie-timeout'', ''stats-report-time'', ''rekey-time'', ''rekey-method'', ''auth-timeout'',
     ''idle-timeout'', ''mobile-idle-timeout'', ''max-clients'', ''min-reauth-time'', ''ban-reset-time'',
     ''max-same-clients'', ''rx-data-per-sec'', ''tx-data-per-sec'', ''run-as-user'', ''run-as-group'', ''device'',
     ''cgroup'', ''proxy-url'', ''ipv4-network'', ''ipv4-netmask'', ''dns'', ''ipv4-dns'', ''ipv6-dns'', ''nbns'',
     ''ipv4-nbns'', ''ipv6-nbns'', ''ipv6-network'', ''ipv6-prefix'', ''route-add-cmd'', ''route-del-cmd'',
     ''config-per-user'', ''config-per-group'', ''default-user-config'', ''default-group-config'']"

definition mandatory :: "string \<Rightarrow> bool" where
  "mandatory name \<longleftrightarrow> name \<in> set [''auth'', ''server-cert'', ''server-key'', ''socket-file'', ''device'']"

text \<open>
  The values from the first one of that name on, as handle_option leaves it in the table; nothing
  for an option the table does not have.
\<close>

definition get_option :: "options \<Rightarrow> string \<Rightarrow> options" where
  "get_option pov name =
     (if name \<in> set available_options then dropWhile (\<lambda>(n, v). \<not> c_strcasecmp n name) pov else [])"

definition missing :: "string \<Rightarrow> 'a \<Rightarrow> cfg_error + 'a" where
  "missing name old = (if mandatory name then Inl Cfg_exit else Inr old)"

text \<open>READ_STRING, PREAD_STRING.\<close>

definition read_string :: "options \<Rightarrow> string \<Rightarrow> string option \<Rightarrow> cfg_error + string option" where
  "read_string pov name old =
     (case get_option pov name of (n, Opt_string s) # vals \<Rightarrow> Inr (Some s) | _ \<Rightarrow> missing name old)"

text \<open>The same for an option that is not mandatory.\<close>

definition opt_string :: "options \<Rightarrow> string \<Rightarrow> string option" where
  "opt_string pov name = (case get_option pov name of (n, Opt_string s) # vals \<Rightarrow> Some s | _ \<Rightarrow> None)"

text \<open>READ_NUMERIC, before the value is stored in its field.\<close>

definition read_num :: "options \<Rightarrow> string \<Rightarrow> int \<Rightarrow> int" where
  "read_num pov name old =
     (case get_option pov name of
        (n, Opt_numeric i) # vals \<Rightarrow> i
      | (n, Opt_string s) # vals \<Rightarrow> sint (atoi s)
      | _ \<Rightarrow> old)"

abbreviation num :: "options \<Rightarrow> string \<Rightarrow> u32" where
  "num pov name \<equiv> word_of_int (read_num pov name 0)"

text \<open>A field of type int.\<close>

definition to_int :: "int \<Rightarrow> int" where
  "to_int i = sint (word_of_int i :: u32)"

definition read_tf :: "options \<Rightarrow> string \<Rightarrow> bool \<Rightarrow> bool" where
  "read_tf pov name def = (case opt_string pov name of None \<Rightarrow> def | Some s \<Rightarrow> CHECK_TRUE s)"

definition read_prio_tos :: "options \<Rightarrow> string \<Rightarrow> u32" where
  "read_prio_tos pov name = (case opt_string pov name of None \<Rightarrow> 0 | Some s \<Rightarrow> prio_tos s)"

text \<open>
  READ_MULTI_LINE: only lines with the option's own spelling count. Behind the last one a NULL is
  stored, also when the array is full.
\<close>

fun multi_loop :: "string \<Rightarrow> options \<Rightarrow> string list \<Rightarrow> cfg_error + string list" where
  "multi_loop name [] acc = Inr acc"
| "multi_loop name ((n, v) # vals) acc =
     (if n \<noteq> name then multi_loop name vals acc
      else
        (case v of
           Opt_string s \<Rightarrow>
             if MAX_CONFIG_ENTRIES \<le> length acc + 1 then Inl (Cfg_memory Out_of_bounds)
             else multi_loop name vals (acc @ [s])
         | _ \<Rightarrow> Inl (Cfg_memory Out_of_bounds)))"

definition read_multi_line :: "options \<Rightarrow> string \<Rightarrow> string list \<Rightarrow> cfg_error + string list" where
  "read_multi_line pov name old =
     (case get_option pov name of
        (n, Opt_string s) # vals \<Rightarrow> multi_loop name ((n, Opt_string s) # vals) old
      | _ \<Rightarrow> missing name old)"

definition read_aliases :: "options \<Rightarrow> string \<Rightarrow> string \<Rightarrow> string \<Rightarrow> cfg_error + string list" where
  "read_aliases pov name alias6 alias4 =
     and_then (read_multi_line pov name []) (\<lambda>l.
       if l \<noteq> [] then Inr l
       else and_then (read_multi_line pov alias6 l) (read_multi_line pov alias4))"

text \<open>READ_MULTI_BRACKET_LINE for the groups: the name, and the friendly one in brackets.\<close>

fun bracket_loop :: "string \<Rightarrow> options \<Rightarrow> (string \<times> string option) list \<Rightarrow> cfg_error + (string \<times> string option) list" where
  "bracket_loop name [] acc = Inr acc"
| "bracket_loop name ((n, v) # vals) acc =
     (if n \<noteq> name then bracket_loop name vals acc
      else
        (case v of
           Opt_string s \<Rightarrow>
             and_then (get_brackets_string1 s) (\<lambda>friendly.
               if MAX_CONFIG_ENTRIES \<le> length acc + 1 then Inl (Cfg_memory Out_of_bounds)
               else bracket_loop name vals (acc @ [(takeWhile (\<lambda>c. c \<noteq> LBRACKET) s, friendly)]))
         | _ \<Rightarrow> Inl (Cfg_memory Out_of_bounds)))"

definition read_multi_bracket_line :: "options \<Rightarrow> string \<Rightarrow> cfg_error + (string \<times> string option) list" where
  "read_multi_bracket_line pov name =
     (case get_option pov name of
        (n, Opt_string s) # vals \<Rightarrow> bracket_loop name ((n, Opt_string s) # vals) []
      | _ \<Rightarrow> missing name [])"

section \<open>Methods\<close>

datatype auth_mod_id = Mod_pam | Mod_gssapi | Mod_radius | Mod_plain

record auth_type =
  at_name :: string
  at_mod :: "auth_mod_id option"
  at_type :: u32

definition avail_auth_types :: "auth_type list" where
  "avail_auth_types =
     [\<lparr>at_name = ''pam'', at_mod = Some Mod_pam, at_type = AUTH_TYPE_PAM\<rparr>,
      \<lparr>at_name = ''gssapi'', at_mod = Some Mod_gssapi, at_type = AUTH_TYPE_GSSAPI\<rparr>,
      \<lparr>at_name = ''radius'', at_mod = Some Mod_radius, at_type = AUTH_TYPE_RADIUS\<rparr>,
      \<lparr>at_name = ''plain'', at_mod = Some Mod_plain, at_type = AUTH_TYPE_PLAIN\<rparr>,
      \<lparr>at_name = ''certificate'', at_mod = None, at_type = AUTH_TYPE_CERTIFICATE\<rparr>]"

definition find_auth_type :: "string \<Rightarrow> auth_type option" where
  "find_auth_type s = List.find (\<lambda>t. casecmp_prefix s (at_name t)) avail_auth_types"

text \<open>The options in brackets; the flag: the configuration of users comes from radius.\<close>

definition get_brackets :: "auth_mod_id \<Rightarrow> string \<Rightarrow> cfg_error + auth_additional \<times> bool" where
  "get_brackets m str =
     (case m of
        Mod_pam \<Rightarrow> and_then (pam_get_brackets_string str) (\<lambda>a. Inr (a, False))
      | Mod_gssapi \<Rightarrow> and_then (gssapi_get_brackets_string str) (\<lambda>a. Inr (a, False))
      | Mod_radius \<Rightarrow> radius_get_brackets_string str
      | Mod_plain \<Rightarrow> and_then (plain_get_brackets_string str) (\<lambda>a. Inr (a, False)))"

text \<open>auth_struct_st, and what the methods make of the permanent configuration.\<close>

record auth_struct =
  au_name :: "string option"
  au_additional :: "auth_additional option"
  au_type :: u32
  au_amod :: "auth_mod_id option"
  au_enabled :: bool

definition zero_auth :: auth_struct where
  "zero_auth = \<lparr>au_name = None, au_additional = None, au_type = 0, au_amod = None, au_enabled = False\<rparr>"

definition MAX_AUTH_METHODS :: nat where "MAX_AUTH_METHODS = 4"

record auth_cfg =
  ac_auth :: "auth_struct list"
  ac_methods :: nat
  ac_sup_radius :: bool

definition set_additional :: "auth_type \<Rightarrow> string \<Rightarrow> auth_struct \<Rightarrow> cfg_error + auth_struct \<times> bool" where
  "set_additional t s a =
     (case at_mod t of
        None \<Rightarrow> Inr (a, False)
      | Some m \<Rightarrow>
          and_then (get_brackets m (drop (length (at_name t)) s)) (\<lambda>(add, grpcfg).
            Inr (a\<lparr>au_additional := Some add\<rparr>, grpcfg)))"

text \<open>What the primary method becomes with another value.\<close>

definition merge_auth :: "auth_type \<Rightarrow> auth_struct \<Rightarrow> auth_struct" where
  "merge_auth t a = a\<lparr>au_amod := (if au_amod a = None then at_mod t else au_amod a),
     au_type := au_type a OR at_type t,
     au_name := Some (case au_name a of None \<Rightarrow> at_name t | Some n \<Rightarrow> n @ ''+'' @ at_name t),
     au_enabled := True\<rparr>"

text \<open>figure_auth_funcs for one of the values of auth, and for one of enable-auth.\<close>

definition primary_auth :: "string \<Rightarrow> auth_cfg \<Rightarrow> cfg_error + auth_cfg" where
  "primary_auth s c =
     (case find_auth_type s of
        None \<Rightarrow> Inl Cfg_exit
      | Some t \<Rightarrow>
          and_then (set_additional t s (ac_auth c ! 0)) (\<lambda>(a, grpcfg).
            if au_amod a \<noteq> None \<and> at_mod t \<noteq> None then Inl Cfg_exit
            else Inr (c\<lparr>ac_auth := (ac_auth c)[0 := merge_auth t a], ac_methods := 1,
                        ac_sup_radius := ac_sup_radius c \<or> grpcfg\<rparr>)))"

definition append_auth :: "string \<Rightarrow> auth_cfg \<Rightarrow> cfg_error + auth_cfg" where
  "append_auth s c =
     (case find_auth_type s of
        None \<Rightarrow> Inl Cfg_exit
      | Some t \<Rightarrow>
          let x = ac_methods c in
          and_then (set_additional t s (ac_auth c ! x)) (\<lambda>(a, grpcfg).
            let a1 = a\<lparr>au_name := Some (at_name t), au_amod := at_mod t, au_type := au_type a OR at_type t,
                       au_enabled := True\<rparr>
            in if MAX_AUTH_METHODS \<le> x + 1 then Inl Cfg_exit
               else Inr (c\<lparr>ac_auth := (ac_auth c)[x := a1], ac_methods := x + 1,
                           ac_sup_radius := ac_sup_radius c \<or> grpcfg\<rparr>)))"

fun figure_auth_funcs :: "(string \<Rightarrow> auth_cfg \<Rightarrow> cfg_error + auth_cfg) \<Rightarrow> string list \<Rightarrow> auth_cfg \<Rightarrow> cfg_error + auth_cfg" where
  "figure_auth_funcs add [] c = Inr c"
| "figure_auth_funcs add (s # ss) c = and_then (add s c) (figure_auth_funcs add ss)"

datatype acct_mod = Acct_pam | Acct_radius

definition ALL_AUTH_TYPES :: u32 where
  "ALL_AUTH_TYPES = (AUTH_TYPE_PAM OR AUTH_TYPE_PLAIN OR AUTH_TYPE_CERTIFICATE OR AUTH_TYPE_RADIUS OR AUTH_TYPE_GSSAPI)
     AND NOT AUTH_TYPE_USERNAME_PASS"

definition acct_auth_types :: "acct_mod \<Rightarrow> u32" where
  "acct_auth_types m =
     (case m of Acct_pam \<Rightarrow> AUTH_TYPE_PAM AND NOT AUTH_TYPE_USERNAME_PASS | Acct_radius \<Rightarrow> ALL_AUTH_TYPES)"

text \<open>The module, its options and the flag of the users' configuration.\<close>

definition figure_acct_funcs :: "string \<Rightarrow> u32 \<Rightarrow> cfg_error + acct_mod \<times> auth_additional option \<times> bool" where
  "figure_acct_funcs acct auth_type =
     (if casecmp_prefix acct ''pam'' then
        (if acct_auth_types Acct_pam AND auth_type = 0 then Inl Cfg_exit else Inr (Acct_pam, None, False))
      else if casecmp_prefix acct ''radius'' then
        and_then (radius_get_brackets_string (drop 6 acct)) (\<lambda>(add, grpcfg).
          if acct_auth_types Acct_radius AND auth_type = 0 then Inl Cfg_exit else Inr (Acct_radius, Some add, grpcfg))
      else Inl Cfg_exit)"

section \<open>Kerberos proxies\<close>

definition MAX_KRB_REALMS :: nat where "MAX_KRB_REALMS = 16"

record kkdcp_realm =
  kr_realm :: string
  kr_addr :: "byte list"
  kr_dgram :: bool

record kkdcp =
  kk_url :: "string option"
  kk_realms :: "kkdcp_realm list"

text \<open>
  One value in its parts: path, realm, protocol, server and port. The realm is not cut where the
  server begins, but only at the colon in front of the port.
\<close>

definition split_kkdcp :: "string \<Rightarrow> (string \<times> string \<times> bool \<times> string \<times> string) option" where
  "split_kkdcp s =
     (case strchr (CHR '' '') s of
        None \<Rightarrow> None
      | Some (path, r) \<Rightarrow>
          let realm = dropWhile c_isspace r in
          (case strchr (CHR '' '') realm of
             None \<Rightarrow> None
           | Some (_, r1) \<Rightarrow>
               let server = dropWhile c_isspace r1 in
               if take 4 server \<noteq> ''udp@'' \<and> take 4 server \<noteq> ''tcp@'' then None
               else (case strchr COLON (drop 4 server) of
                       None \<Rightarrow> None
                     | Some (host, port) \<Rightarrow>
                         Some (path, take (length realm - length port - 1) realm, take 4 server = ''udp@'', host, port))))"

text \<open>A URL that was not seen yet is kept at the index of its value, not behind the others.\<close>

definition add_kkdcp ::
  "(bool \<Rightarrow> string \<Rightarrow> string \<Rightarrow> byte list option) \<Rightarrow> nat \<Rightarrow> string \<Rightarrow> kkdcp list \<times> nat \<Rightarrow> cfg_error + kkdcp list \<times> nat" where
  "add_kkdcp resolve i s c =
     (case c of
        (ks, siz) \<Rightarrow>
          (case split_kkdcp s of
             None \<Rightarrow> Inl Cfg_exit
           | Some (path, realm, dgram, host, port) \<Rightarrow>
               (case resolve dgram host port of
                  None \<Rightarrow> Inl Cfg_exit
                | Some addr \<Rightarrow>
                    if list_ex (\<lambda>k. kk_url k = None) (take siz ks) then Inl (Cfg_memory Null_pointer)
                    else
                      let found = filter (\<lambda>j. kk_url (ks ! j) = Some path) [0..<siz];
                          j = (if found = [] then i else last found);
                          k = (if found = [] then (ks ! i)\<lparr>kk_url := Some path\<rparr> else ks ! j);
                          siz1 = (if found = [] then siz + 1 else siz)
                      in if MAX_KRB_REALMS \<le> length (kk_realms k) then Inl Cfg_exit
                         else Inr (ks[j := k\<lparr>kk_realms := kk_realms k
                                  @ [\<lparr>kr_realm = realm, kr_addr = addr, kr_dgram = dgram\<rparr>]\<rparr>], siz1))))"

fun add_kkdcps ::
  "(bool \<Rightarrow> string \<Rightarrow> string \<Rightarrow> byte list option) \<Rightarrow> nat \<Rightarrow> string list \<Rightarrow> kkdcp list \<times> nat \<Rightarrow> cfg_error + kkdcp list \<times> nat" where
  "add_kkdcps resolve i [] c = Inr c"
| "add_kkdcps resolve i (s # ss) c = and_then (add_kkdcp resolve i s c) (add_kkdcps resolve (i + 1) ss)"

definition parse_kkdcp ::
  "(bool \<Rightarrow> string \<Rightarrow> string \<Rightarrow> byte list option) \<Rightarrow> string list \<Rightarrow> cfg_error + kkdcp list \<times> nat" where
  "parse_kkdcp resolve urlfw =
     add_kkdcps resolve 0 urlfw (replicate (length urlfw) \<lparr>kk_url = None, kk_realms = []\<rparr>, 0)"

end
