(* ===== verification/CfgFile.thy ===== *)
theory CfgFile
  imports Config
begin

text \<open>
  The structures that src/config.c fills: what parse_cfg_file reads of a file, at the start and when
  it is read again, the checks of check_cfg, and the entry points cmd_parser and reload_cfg_file.
  All methods and options are compiled in.
\<close>

section \<open>The configuration\<close>

datatype cert_req = CERT_IGNORE | CERT_REQUEST | CERT_REQUIRE

text \<open>The members of vpn_st and of cfg_st that the configuration fills.\<close>

record cfg_network =
  cw_name :: string
  cw_ipv4_netmask :: "string option"
  cw_ipv4 :: "string option"
  cw_ipv6_prefix :: u32
  cw_ipv6 :: "string option"
  cw_routes :: "string list"
  cw_no_routes :: "string list"
  cw_dns :: "string list"
  cw_nbns :: "string list"

record cfg_st =
  cf_is_dyndns :: bool
  cf_stats_report_time :: u32
  cf_kkdcp :: "kkdcp list"
  cf_kkdcp_size :: nat
  cf_pin_file :: "string option"
  cf_srk_pin_file :: "string option"
  cf_cert :: "string list"
  cf_key :: "string list"
  cf_ca :: "string option"
  cf_crl :: "string option"
  cf_dh_params_file :: "string option"
  cf_cert_user_oid :: "string option"
  cf_cert_group_oid :: "string option"
  cf_cert_req :: cert_req
  cf_priorities :: "string option"
  cf_enable_compression :: bool
  cf_no_compress_limit :: u32
  cf_banner :: "string option"
  cf_ocsp_response :: "string option"
  cf_default_domain :: "string option"
  cf_group_list :: "string list"
  cf_friendly_group_list :: "string option list"
  cf_default_select_group :: "string option"
  cf_custom_header :: "string list"
  cf_split_dns :: "string list"
  cf_deny_roaming :: bool
  cf_cookie_timeout :: int
  cf_rekey_time :: int
  cf_rekey_method :: u32
  cf_min_reauth_time :: int
  cf_max_ban_score :: int
  cf_ban_reset_time :: int
  cf_ban_points_wrong_password :: u32
  cf_ban_points_connect :: u32
  cf_ban_points_kkdcp :: u32
  cf_isolate :: bool
  cf_auth_timeout :: u32
  cf_idle_timeout :: u32
  cf_mobile_idle_timeout :: u32
  cf_keepalive :: u32
  cf_dpd :: u32
  cf_mobile_dpd :: u32
  cf_foreground :: bool
  cf_debug :: u32
  cf_max_clients :: u32
  cf_max_same_clients :: u32
  cf_use_utmp :: bool
  cf_use_dbus :: bool
  cf_use_occtl :: bool
  cf_try_mtu :: bool
  cf_cisco_client_compat :: bool
  cf_rate_limit_ms :: u32
  cf_ping_leases :: bool
  cf_rx_per_sec :: u64
  cf_tx_per_sec :: u64
  cf_net_priority :: u32
  cf_output_buffer :: u32
  cf_default_mtu :: u32
  cf_predictable_ips :: bool
  cf_route_add_cmd :: "string option"
  cf_route_del_cmd :: "string option"
  cf_connect_script :: "string option"
  cf_disconnect_script :: "string option"
  cf_cgroup :: "string option"
  cf_proxy_url :: "string option"
  cf_xml_config_file :: "string option"
  cf_xml_config_hash :: "string option"
  cf_cert_hash :: "string option"
  cf_per_group_dir :: "string option"
  cf_per_user_dir :: "string option"
  cf_default_group_conf :: "string option"
  cf_default_user_conf :: "string option"
  cf_network :: cfg_network

definition zero_network :: cfg_network where
  "zero_network = \<lparr>cw_name = [], cw_ipv4_netmask = None, cw_ipv4 = None, cw_ipv6_prefix = 0, cw_ipv6 = None,
     cw_routes = [], cw_no_routes = [], cw_dns = [], cw_nbns = []\<rparr>"

definition zero_cfg :: cfg_st where
  "zero_cfg = \<lparr>cf_is_dyndns = False, cf_stats_report_time = 0, cf_kkdcp = [], cf_kkdcp_size = 0, cf_pin_file = None,
     cf_srk_pin_file = None, cf_cert = [], cf_key = [], cf_ca = None, cf_crl = None, cf_dh_params_file = None,
     cf_cert_user_oid = None, cf_cert_group_oid = None, cf_cert_req = CERT_IGNORE, cf_priorities = None,
     cf_enable_compression = False, cf_no_compress_limit = 0, cf_banner = None, cf_ocsp_response = None,
     cf_default_domain = None, cf_group_list = [], cf_friendly_group_list = [], cf_default_select_group = None,
     cf_custom_header = [], cf_split_dns = [], cf_deny_roaming = False, cf_cookie_timeout = 0,
     cf_rekey_time = 0, cf_rekey_method = 0, cf_min_reauth_time = 0, cf_max_ban_score = 0,
     cf_ban_reset_time = 0, cf_ban_points_wrong_password = 0, cf_ban_points_connect = 0,
     cf_ban_points_kkdcp = 0, cf_isolate = False, cf_auth_timeout = 0, cf_idle_timeout = 0,
     cf_mobile_idle_timeout = 0, cf_keepalive = 0, cf_dpd = 0, cf_mobile_dpd = 0, cf_foreground = False,
     cf_debug = 0, cf_max_clients = 0, cf_max_same_clients = 0, cf_use_utmp = False, cf_use_dbus = False,
     cf_use_occtl = False, cf_try_mtu = False, cf_cisco_client_compat = False, cf_rate_limit_ms = 0,
     cf_ping_leases = False, cf_rx_per_sec = 0, cf_tx_per_sec = 0, cf_net_priority = 0, cf_output_buffer = 0,
     cf_default_mtu = 0, cf_predictable_ips = False, cf_route_add_cmd = None, cf_route_del_cmd = None,
     cf_connect_script = None, cf_disconnect_script = None, cf_cgroup = None, cf_proxy_url = None,
     cf_xml_config_file = None, cf_xml_config_hash = None, cf_cert_hash = None, cf_per_group_dir = None,
     cf_per_user_dir = None, cf_default_group_conf = None, cf_default_user_conf = None,
     cf_network = zero_network\<rparr>"

text \<open>perm_cfg_st; the name of the file with the process id is a static variable of config.c.\<close>

record perm_cfg =
  pm_config :: cfg_st
  pm_auth :: auth_cfg
  pm_acct :: "(acct_mod \<times> auth_additional option) option"
  pm_chroot_dir :: "string option"
  pm_occtl_socket_file :: "string option"
  pm_socket_file_prefix :: "string option"
  pm_uid :: u32
  pm_gid :: u32
  pm_listen_host :: "string option"
  pm_unix_conn_file :: "string option"
  pm_port :: u32
  pm_udp_port :: u32
  pm_pid_file :: string

definition zero_auth_cfg :: auth_cfg where
  "zero_auth_cfg = \<lparr>ac_auth = replicate MAX_AUTH_METHODS zero_auth, ac_methods = 0, ac_sup_radius = False\<rparr>"

definition zero_perm :: perm_cfg where
  "zero_perm = \<lparr>pm_config = zero_cfg, pm_auth = zero_auth_cfg, pm_acct = None, pm_chroot_dir = None,
     pm_occtl_socket_file = None, pm_socket_file_prefix = None, pm_uid = 0, pm_gid = 0, pm_listen_host = None,
     pm_unix_conn_file = None, pm_port = 0, pm_udp_port = 0, pm_pid_file = []\<rparr>"

text \<open>
  \<open>cx_group_list\<close> is the group_list function of a module, if it has one; \<open>cx_sha1\<close> the hash of a
  file, or of the certificate in it.
\<close>

record cfg_env =
  cx_access :: "string \<Rightarrow> bool"
  cx_load :: "string \<Rightarrow> options option"
  cx_pwnam :: "string \<Rightarrow> u32 option"
  cx_grnam :: "string \<Rightarrow> u32 option"
  cx_resolve :: "bool \<Rightarrow> string \<Rightarrow> string \<Rightarrow> byte list option"
  cx_group_list :: "auth_mod_id \<Rightarrow> (auth_additional option \<Rightarrow> string list) option"
  cx_sha1 :: "string \<Rightarrow> bool \<Rightarrow> string option"

section \<open>Defaults\<close>

definition DEFAULT_PASSWORD_POINTS :: int where "DEFAULT_PASSWORD_POINTS = 10"
definition DEFAULT_CONNECT_POINTS :: int where "DEFAULT_CONNECT_POINTS = 1"
definition DEFAULT_KKDCP_POINTS :: int where "DEFAULT_KKDCP_POINTS = 1"
definition DEFAULT_MAX_BAN_SCORE :: int where "DEFAULT_MAX_BAN_SCORE = int MAX_PASSWORD_TRIES * DEFAULT_PASSWORD_POINTS"
definition DEFAULT_BAN_RESET_TIME :: int where "DEFAULT_BAN_RESET_TIME = 300"
definition MIN_NO_COMPRESS_LIMIT :: u32 where "MIN_NO_COMPRESS_LIMIT = 64"
definition DEFAULT_NO_COMPRESS_LIMIT :: u32 where "DEFAULT_NO_COMPRESS_LIMIT = 256"
definition DEFAULT_DPD_TIME :: u32 where "DEFAULT_DPD_TIME = 600"
definition DEFAULT_COOKIE_RECON_TIMEOUT :: int where "DEFAULT_COOKIE_RECON_TIMEOUT = 120"
definition REKEY_METHOD_SSL :: u32 where "REKEY_METHOD_SSL = 1"
definition REKEY_METHOD_NEW_TUNNEL :: u32 where "REKEY_METHOD_NEW_TUNNEL = 2"
definition MAX_BANNER_SIZE :: nat where "MAX_BANNER_SIZE = 256"
definition OCCTL_UNIX_SOCKET :: string where "OCCTL_UNIX_SOCKET = ''/var/run/occtl.socket''"

definition if_zero :: "'a::zero \<Rightarrow> 'a \<Rightarrow> 'a" where
  "if_zero x d = (if x = 0 then d else x)"

definition if_minus :: "'a::{one, uminus} \<Rightarrow> 'a \<Rightarrow> 'a" where
  "if_minus x d = (if x = -1 then d else x)"

definition no_compress_limit_of :: "u32 \<Rightarrow> u32" where
  "no_compress_limit_of x =
     (let y = if_zero x DEFAULT_NO_COMPRESS_LIMIT in if y < MIN_NO_COMPRESS_LIMIT then MIN_NO_COMPRESS_LIMIT else y)"

definition dpd_of :: "options \<Rightarrow> u32" where
  "dpd_of pov = if_zero (num pov ''dpd'') DEFAULT_DPD_TIME"

section \<open>The parts that can fail\<close>

definition rekey_method_of :: "options \<Rightarrow> cfg_error + u32" where
  "rekey_method_of pov =
     (case opt_string pov ''rekey-method'' of
        None \<Rightarrow> Inr REKEY_METHOD_SSL
      | Some s \<Rightarrow> if s = ''ssl'' then Inr REKEY_METHOD_SSL
                  else if s = ''new-tunnel'' then Inr REKEY_METHOD_NEW_TUNNEL else Inl Cfg_exit)"

definition ipv4_prefix_to_mask :: "u32 \<Rightarrow> string option" where
  "ipv4_prefix_to_mask prefix =
     map_of [(8, ''255.0.0.0''), (16, ''255.255.0.0''), (24, ''255.255.255.0''), (25, ''255.255.255.128''),
       (26, ''255.255.255.192''), (27, ''255.255.255.224''), (28, ''255.255.255.240''), (29, ''255.255.255.248''),
       (30, ''255.255.255.252'')] prefix"

text \<open>The name, the addresses and the prefixes of the network.\<close>

definition read_addresses :: "options \<Rightarrow> cfg_error + cfg_network" where
  "read_addresses pov =
     and_then (read_string pov ''device'' (Some [])) (\<lambda>dev.
     case extract_prefix (opt_string pov ''ipv4-network'') of (prefix4, ipv4) \<Rightarrow>
     case extract_prefix (opt_string pov ''ipv6-network'') of (prefix6, ipv6) \<Rightarrow>
     let prefix = (if prefix6 = 0 then num pov ''ipv6-prefix'' else prefix6) in
     and_then (check (prefix = 0 \<or> valid_ipv6_prefix prefix)) (\<lambda>_.
       Inr (zero_network\<lparr>cw_name := strlcpy_str IFNAMSIZ (the dev),
            cw_ipv4_netmask := (if prefix4 = 0 then opt_string pov ''ipv4-netmask'' else ipv4_prefix_to_mask prefix4),
            cw_ipv4 := ipv4, cw_ipv6_prefix := prefix, cw_ipv6 := ipv6\<rparr>)))"

text \<open>A default route stands for all of them.\<close>

definition routes_of :: "string list \<Rightarrow> string list" where
  "routes_of routes = (if ''0.0.0.0/0'' \<in> set routes \<or> ''default'' \<in> set routes then [] else routes)"

text \<open>The groups of the login form and their friendly names.\<close>

definition read_group_list :: "cfg_env \<Rightarrow> options \<Rightarrow> auth_cfg \<Rightarrow> cfg_error + string list \<times> string option list" where
  "read_group_list env pov ac =
     (let a = ac_auth ac ! 0;
          f = (if read_tf pov ''auto-select-group'' False
               then (case au_amod a of None \<Rightarrow> None | Some m \<Rightarrow> cx_group_list env m) else None)
      in case f of
           Some g \<Rightarrow> Inr (g (au_additional a), [])
         | None \<Rightarrow> and_then (read_multi_bracket_line pov ''select-group'') (\<lambda>l. Inr (map fst l, map snd l)))"

section \<open>parse_cfg_file\<close>

text \<open>The part for the start only.\<close>

definition read_methods :: "options \<Rightarrow> auth_cfg \<Rightarrow> cfg_error + auth_cfg" where
  "read_methods pov ac =
     and_then (read_multi_line pov ''auth'' []) (\<lambda>auth.
     and_then (figure_auth_funcs primary_auth auth ac) (\<lambda>ac1.
     and_then (read_multi_line pov ''enable-auth'' []) (\<lambda>auth2.
     and_then (figure_auth_funcs append_auth auth2 ac1) (\<lambda>ac2.
     and_then (check (au_enabled (ac_auth ac2 ! 0))) (\<lambda>_. Inr ac2)))))"

definition read_id :: "(string \<Rightarrow> u32 option) \<Rightarrow> options \<Rightarrow> string \<Rightarrow> u32 \<Rightarrow> cfg_error + u32" where
  "read_id get pov name old =
     (case opt_string pov name of
        None \<Rightarrow> Inr old
      | Some s \<Rightarrow> (case get s of None \<Rightarrow> Inl Cfg_exit | Some i \<Rightarrow> Inr i))"

definition read_start :: "cfg_env \<Rightarrow> options \<Rightarrow> perm_cfg \<Rightarrow> cfg_error + perm_cfg" where
  "read_start env pov p =
     and_then (read_methods pov ((pm_auth p)\<lparr>ac_sup_radius := False\<rparr>)) (\<lambda>ac.
     and_then (case opt_string pov ''acct'' of
                 None \<Rightarrow> Inr (pm_acct p, ac)
               | Some s \<Rightarrow> and_then (figure_acct_funcs s (au_type (ac_auth ac ! 0))) (\<lambda>(m, add, grpcfg).
                   Inr (Some (m, add), ac\<lparr>ac_sup_radius := ac_sup_radius ac \<or> grpcfg\<rparr>))) (\<lambda>(acct, ac1).
     and_then (read_id (cx_pwnam env) pov ''run-as-user'' (pm_uid p)) (\<lambda>uid.
     and_then (read_id (cx_grnam env) pov ''run-as-group'' (pm_gid p)) (\<lambda>gid.
       Inr (p\<lparr>pm_auth := ac1, pm_acct := acct,
              pm_listen_host := (case opt_string pov ''listen-host'' of None \<Rightarrow> pm_listen_host p | Some s \<Rightarrow> Some s),
              pm_unix_conn_file := (case opt_string pov ''listen-clear-file'' of None \<Rightarrow> pm_unix_conn_file p | Some s \<Rightarrow> Some s),
              pm_port := word_of_int (read_num pov ''tcp-port'' (uint (pm_port p))),
              pm_udp_port := word_of_int (read_num pov ''udp-port'' (uint (pm_udp_port p))),
              pm_uid := uid, pm_gid := gid\<rparr>)))))"

text \<open>The files of the sockets and the directory, kept when they are not there.\<close>

definition read_perm :: "options \<Rightarrow> perm_cfg \<Rightarrow> cfg_error + perm_cfg" where
  "read_perm pov p =
     and_then (read_string pov ''socket-file'' (pm_socket_file_prefix p)) (\<lambda>prefix.
       Inr (p\<lparr>pm_socket_file_prefix := prefix,
              pm_occtl_socket_file := (case opt_string pov ''occtl-socket-file'' of
                  Some s \<Rightarrow> Some s
                | None \<Rightarrow> if pm_occtl_socket_file p = None then Some OCCTL_UNIX_SOCKET else pm_occtl_socket_file p),
              pm_chroot_dir := (case opt_string pov ''chroot-dir'' of None \<Rightarrow> pm_chroot_dir p | Some s \<Rightarrow> Some s)\<rparr>))"

text \<open>All the values, with the options that cannot fail.\<close>

definition cfg_of ::
  "options \<Rightarrow> cfg_st \<Rightarrow> kkdcp list \<times> nat \<Rightarrow> string list \<Rightarrow> string list \<Rightarrow> u32 \<Rightarrow> cfg_network \<Rightarrow> string list \<Rightarrow> string list
    \<Rightarrow> string list \<times> string option list \<Rightarrow> cfg_st" where
  "cfg_of pov old kkdcp_tab cert key rekey network custom_header split_dns groups =
     \<lparr>cf_is_dyndns = read_tf pov ''listen-host-is-dyndns'' False,
       cf_stats_report_time = num pov ''stats-report-time'', cf_kkdcp = fst kkdcp_tab,
       cf_kkdcp_size = snd kkdcp_tab, cf_pin_file = opt_string pov ''pin-file'',
       cf_srk_pin_file = opt_string pov ''srk-pin-file'', cf_cert = cert, cf_key = key,
       cf_ca = opt_string pov ''ca-cert'', cf_crl = opt_string pov ''crl'',
       cf_dh_params_file = opt_string pov ''dh-params'', cf_cert_user_oid = opt_string pov ''cert-user-oid'',
       cf_cert_group_oid = opt_string pov ''cert-group-oid'', cf_cert_req = CERT_IGNORE,
       cf_priorities = opt_string pov ''tls-priorities'',
       cf_enable_compression = read_tf pov ''compression'' False,
       cf_no_compress_limit = no_compress_limit_of (num pov ''no-compress-limit''),
       cf_banner = opt_string pov ''banner'', cf_ocsp_response = opt_string pov ''ocsp-response'',
       cf_default_domain = opt_string pov ''default-domain'', cf_group_list = fst groups,
       cf_friendly_group_list = snd groups, cf_default_select_group = opt_string pov ''default-select-group'',
       cf_custom_header = custom_header, cf_split_dns = split_dns,
       cf_deny_roaming = read_tf pov ''deny-roaming'' False,
       cf_cookie_timeout = if_zero (read_num pov ''cookie-timeout'' 0) DEFAULT_COOKIE_RECON_TIMEOUT,
       cf_rekey_time = if_minus (read_num pov ''rekey-time'' (-1)) (24 * 60 * 60), cf_rekey_method = rekey,
       cf_min_reauth_time = read_num pov ''min-reauth-time'' 0,
       cf_max_ban_score = if_minus (to_int (read_num pov ''max-ban-score'' (-1))) DEFAULT_MAX_BAN_SCORE,
       cf_ban_reset_time = if_minus (to_int (read_num pov ''ban-reset-time'' (-1))) DEFAULT_BAN_RESET_TIME,
       cf_ban_points_wrong_password = word_of_int (read_num pov ''ban-points-wrong-password'' DEFAULT_PASSWORD_POINTS),
       cf_ban_points_connect = word_of_int (read_num pov ''ban-points-connection'' DEFAULT_CONNECT_POINTS),
       cf_ban_points_kkdcp = word_of_int (read_num pov ''ban-points-kkdcp'' DEFAULT_KKDCP_POINTS),
       cf_isolate = read_tf pov ''use-seccomp'' False \<or> read_tf pov ''isolate-workers'' False,
       cf_auth_timeout = num pov ''auth-timeout'', cf_idle_timeout = num pov ''idle-timeout'',
       cf_mobile_idle_timeout = if_minus (word_of_int (read_num pov ''mobile-idle-timeout'' (-1))) (num pov ''idle-timeout''),
       cf_keepalive = num pov ''keepalive'', cf_dpd = dpd_of pov,
       cf_mobile_dpd = if_zero (num pov ''mobile-dpd'') (dpd_of pov), cf_foreground = cf_foreground old,
       cf_debug = cf_debug old, cf_max_clients = num pov ''max-clients'',
       cf_max_same_clients = num pov ''max-same-clients'', cf_use_utmp = read_tf pov ''use-utmp'' True,
       cf_use_dbus = read_tf pov ''use-dbus'' False,
       cf_use_occtl = read_tf pov ''use-dbus'' False \<or> read_tf pov ''use-occtl'' False,
       cf_try_mtu = read_tf pov ''try-mtu-discovery'' False,
       cf_cisco_client_compat = read_tf pov ''cisco-client-compat'' False \<or> \<not> read_tf pov ''always-require-cert'' True,
       cf_rate_limit_ms = num pov ''rate-limit-ms'', cf_ping_leases = read_tf pov ''ping-leases'' False,
       cf_rx_per_sec = word_of_int (read_num pov ''rx-data-per-sec'' 0) div 1000,
       cf_tx_per_sec = word_of_int (read_num pov ''tx-data-per-sec'' 0) div 1000,
       cf_net_priority = read_prio_tos pov ''net-priority'', cf_output_buffer = num pov ''output-buffer'',
       cf_default_mtu = num pov ''mtu'', cf_predictable_ips = read_tf pov ''predictable-ips'' True,
       cf_route_add_cmd = opt_string pov ''route-add-cmd'', cf_route_del_cmd = opt_string pov ''route-del-cmd'',
       cf_connect_script = opt_string pov ''connect-script'',
       cf_disconnect_script = opt_string pov ''disconnect-script'', cf_cgroup = opt_string pov ''cgroup'',
       cf_proxy_url = opt_string pov ''proxy-url'', cf_xml_config_file = opt_string pov ''user-profile'',
       cf_xml_config_hash = None, cf_cert_hash = None, cf_per_group_dir = opt_string pov ''config-per-group'',
       cf_per_user_dir = opt_string pov ''config-per-user'',
       cf_default_group_conf = opt_string pov ''default-group-config'',
       cf_default_user_conf = opt_string pov ''default-user-config'', cf_network = network\<rparr>"

text \<open>
  What is read each time, in the order in which it can fail. The configuration was zero, but for
  what the command line sets.
\<close>

definition read_cfg :: "cfg_env \<Rightarrow> options \<Rightarrow> perm_cfg \<Rightarrow> cfg_error + perm_cfg" where
  "read_cfg env pov p =
     (let old = pm_config p in
     and_then (read_multi_line pov ''kkdcp'' []) (\<lambda>urlfw.
     and_then (parse_kkdcp (cx_resolve env) urlfw) (\<lambda>kkdcp_tab.
     and_then (read_multi_line pov ''server-cert'' []) (\<lambda>cert.
     and_then (read_multi_line pov ''server-key'' []) (\<lambda>key.
     and_then (read_perm pov p) (\<lambda>p1.
     and_then (rekey_method_of pov) (\<lambda>rekey.
     and_then (read_addresses pov) (\<lambda>net.
     and_then (read_multi_line pov ''custom-header'' []) (\<lambda>custom_header.
     and_then (read_multi_line pov ''split-dns'' []) (\<lambda>split_dns.
     and_then (read_multi_line pov ''route'' []) (\<lambda>routes.
     and_then (read_multi_line pov ''no-route'' []) (\<lambda>no_routes.
     and_then (read_group_list env pov (pm_auth p)) (\<lambda>groups.
     and_then (read_aliases pov ''dns'' ''ipv6-dns'' ''ipv4-dns'') (\<lambda>dns.
     and_then (check (''local'' \<notin> set dns)) (\<lambda>_.
     and_then (read_aliases pov ''nbns'' ''ipv6-nbns'' ''ipv4-nbns'') (\<lambda>nbns.
     let network = net\<lparr>cw_routes := routes_of routes, cw_no_routes := no_routes, cw_dns := dns, cw_nbns := nbns\<rparr> in
       Inr (p1\<lparr>pm_config := cfg_of pov old kkdcp_tab cert key rekey network custom_header split_dns groups\<rparr>)))))))))))))))))"


definition DEFAULT_CFG_FILE :: string where "DEFAULT_CFG_FILE = ''/etc/ocserv/ocserv.conf''"
definition OLD_DEFAULT_CFG_FILE :: string where "OLD_DEFAULT_CFG_FILE = ''/etc/ocserv.conf''"

definition load_cfg :: "cfg_env \<Rightarrow> string \<Rightarrow> options option" where
  "load_cfg env pwf =
     (case cx_load env pwf of
        Some pov \<Rightarrow> Some pov
      | None \<Rightarrow> if pwf = DEFAULT_CFG_FILE then cx_load env OLD_DEFAULT_CFG_FILE else None)"

definition parse_cfg_file :: "cfg_env \<Rightarrow> string \<Rightarrow> perm_cfg \<Rightarrow> bool \<Rightarrow> cfg_error + perm_cfg" where
  "parse_cfg_file env pwf p reload =
     (case load_cfg env pwf of
        None \<Rightarrow> Inl Cfg_exit
      | Some [] \<Rightarrow> Inl Cfg_exit
      | Some pov \<Rightarrow>
          and_then (if reload then Inr p else read_start env pov p) (\<lambda>p1.
          and_then (read_cfg env pov p1) (\<lambda>p2.
            Inr (p2\<lparr>pm_pid_file := (if \<not> reload \<and> pm_pid_file p2 = []
                                   then (case opt_string pov ''pid-file'' of
                                           None \<Rightarrow> [] | Some s \<Rightarrow> strlcpy_str POSIX_PATH_MAX s)
                                   else pm_pid_file p2)\<rparr>))))"

section \<open>check_cfg\<close>

definition has_cert_type :: "auth_struct \<Rightarrow> bool" where
  "has_cert_type a \<longleftrightarrow> au_type a AND AUTH_TYPE_CERTIFICATE \<noteq> 0"

definition cert_req_of :: "auth_cfg \<Rightarrow> cfg_st \<Rightarrow> cert_req" where
  "cert_req_of ac c =
     (if has_cert_type (ac_auth ac ! 0) then (if cf_cisco_client_compat c then CERT_REQUEST else CERT_REQUIRE)
      else if list_ex (\<lambda>i. has_cert_type (ac_auth ac ! i)) [1..<ac_methods ac] then CERT_REQUEST else cf_cert_req c)"

text \<open>The hash of the profile, which may lie below the directory of chroot-dir.\<close>

definition xml_hash :: "cfg_env \<Rightarrow> perm_cfg \<Rightarrow> cfg_error + string option" where
  "xml_hash env p =
     (case cf_xml_config_file (pm_config p) of
        None \<Rightarrow> Inr (cf_xml_config_hash (pm_config p))
      | Some f \<Rightarrow>
          (case cx_sha1 env f False of
             Some h \<Rightarrow> Inr (Some h)
           | None \<Rightarrow>
               (case pm_chroot_dir p of
                  None \<Rightarrow> Inl Cfg_exit
                | Some d \<Rightarrow>
                    (case cx_sha1 env (sup_path d f) False of None \<Rightarrow> Inl Cfg_exit | Some h \<Rightarrow> Inr (Some h)))))"

text \<open>What check_cfg fills in.\<close>

definition finish_cfg :: "cfg_env \<Rightarrow> perm_cfg \<Rightarrow> string option \<Rightarrow> perm_cfg" where
  "finish_cfg env p h =
     (let c = pm_config p in
      p\<lparr>pm_config := c\<lparr>cf_cert_req := cert_req_of (pm_auth p) c,
          cf_cert_hash := (case cf_cert c of [] \<Rightarrow> cf_cert_hash c | f # _ \<Rightarrow> cx_sha1 env f True),
          cf_xml_config_hash := h,
          cf_keepalive := if_zero (cf_keepalive c) 3600,
          cf_dpd := if_zero (cf_dpd c) 60,
          cf_priorities := (case cf_priorities c of
              None \<Rightarrow> Some ''NORMAL:%SERVER_PRECEDENCE:%COMPAT'' | Some s \<Rightarrow> Some s)\<rparr>\<rparr>)"

definition check_cfg :: "cfg_env \<Rightarrow> perm_cfg \<Rightarrow> cfg_error + perm_cfg" where
  "check_cfg env p =
     (let c = pm_config p; n = cf_network c; req = cert_req_of (pm_auth p) c in
      and_then (check (\<not> (cw_ipv4 n = None \<and> cw_ipv6 n = None))) (\<lambda>_.
      and_then (check (\<not> (cw_ipv4 n \<noteq> None \<and> cw_ipv4_netmask n = None))) (\<lambda>_.
      and_then (check (\<not> (cw_ipv6 n \<noteq> None \<and> cw_ipv6_prefix n = 0))) (\<lambda>_.
      and_then (check (case cf_banner c of None \<Rightarrow> True | Some b \<Rightarrow> length b \<le> MAX_BANNER_SIZE)) (\<lambda>_.
      and_then (check (length (cf_cert c) = length (cf_key c))) (\<lambda>_.
      and_then (check (\<not> (req \<noteq> CERT_IGNORE \<and> cf_cert_user_oid c = None))) (\<lambda>_.
      and_then (check (\<not> (pm_unix_conn_file p \<noteq> None \<and> req \<noteq> CERT_IGNORE))) (\<lambda>_.
      and_then (xml_hash env p) (\<lambda>h.
        Inr (finish_cfg env p h))))))))))"

section \<open>Entry points\<close>

text \<open>The command line: foreground, the file for the process id, the debug level, the file.\<close>

record cmd_args =
  ca_foreground :: bool
  ca_pid_file :: "string option"
  ca_debug :: u32
  ca_config :: "string option"

definition cmd_parser :: "cfg_env \<Rightarrow> cmd_args \<Rightarrow> cfg_error + perm_cfg" where
  "cmd_parser env a =
     (let p = zero_perm\<lparr>pm_config := zero_cfg\<lparr>cf_foreground := ca_foreground a, cf_debug := ca_debug a\<rparr>,
                pm_pid_file := (case ca_pid_file a of None \<Rightarrow> [] | Some f \<Rightarrow> strlcpy_str POSIX_PATH_MAX f)\<rparr>
      in and_then (case ca_config a of
                     Some f \<Rightarrow> Inr f
                   | None \<Rightarrow> if cx_access env DEFAULT_CFG_FILE then Inr DEFAULT_CFG_FILE else Inl Cfg_exit) (\<lambda>pwf.
         and_then (parse_cfg_file env pwf p False) (check_cfg env)))"

definition clear_cfg :: "perm_cfg \<Rightarrow> perm_cfg" where
  "clear_cfg p = p\<lparr>pm_config := zero_cfg\<rparr>"

definition reload_cfg_file :: "cfg_env \<Rightarrow> string \<Rightarrow> perm_cfg \<Rightarrow> cfg_error + perm_cfg" where
  "reload_cfg_file env pwf p =
     and_then (parse_cfg_file env pwf (clear_cfg p) True) (check_cfg env)"

end
