(* ===== verification/SupLayers.thy ===== *)
theory SupLayers
  imports SupFile MainAuth
begin

text \<open>
  What a client gets of the configuration of its group and of its user: the two files are layers
  over the configuration of the server, with the exceptions that the code makes.
\<close>

section \<open>Reading lines\<close>

definition all_strings :: "options \<Rightarrow> bool" where
  "all_strings pov \<longleftrightarrow> list_all (\<lambda>(n, v). case v of Opt_string s \<Rightarrow> True | _ \<Rightarrow> False) pov"

definition lines_of :: "string \<Rightarrow> options \<Rightarrow> string list" where
  "lines_of name pov =
     List.map_filter (\<lambda>(n, v). case v of Opt_string s \<Rightarrow> if n = name then Some s else None | _ \<Rightarrow> None) pov"

lemma lines_of_simps [simp]:
  "lines_of name [] = []"
  "lines_of name ((n, Opt_string s) # pov) = (if n = name then s # lines_of name pov else lines_of name pov)"
  by (simp_all add: lines_of_def List.map_filter_def)

lemma all_strings_Cons [simp]: "all_strings ((n, v) # pov) \<longleftrightarrow> (\<exists>s. v = Opt_string s) \<and> all_strings pov"
  by (cases v) (auto simp: all_strings_def)

lemma raw_multi_loop_lines:
  "all_strings pov \<Longrightarrow> raw_multi_loop name pov acc = Inr r \<Longrightarrow> length r < MAX_CONFIG_ENTRIES \<Longrightarrow>
    r = acc @ lines_of name pov"
  by (induction name pov acc rule: raw_multi_loop.induct) (auto split: if_splits)

lemma drop_lines:
  "all_strings pov \<Longrightarrow> lines_of name (dropWhile (\<lambda>(n, v). n \<noteq> name) pov) = lines_of name pov"
  by (induction pov) auto

lemma drop_strings: "all_strings pov \<Longrightarrow> all_strings (dropWhile f pov)"
  by (induction pov) (auto simp: all_strings_def)

lemma raw_multi_lines:
  assumes "all_strings pov" and "raw_multi_line pov name old = Inr r"
  shows "r = old @ lines_of name pov"
proof (cases "dropWhile (\<lambda>(n, v). n \<noteq> name) pov")
  case Nil
  then have "lines_of name pov = []" "r = old"
    using assms drop_lines [OF assms(1), of name] unfolding raw_multi_line_def by (auto simp del: dropWhile_eq_Nil_conv)
  then show ?thesis by simp
next
  case (Cons e vals)
  obtain n s where e: "e = (n, Opt_string s)"
    using drop_strings [OF assms(1), of "\<lambda>(n, v). n \<noteq> name"] Cons by (cases e) auto
  then have "raw_multi_loop name (dropWhile (\<lambda>(n, v). n \<noteq> name) pov) old = Inr r" "length r < MAX_CONFIG_ENTRIES"
    using assms(2) Cons by (auto simp: raw_multi_line_def and_then_Inr split: if_splits)
  then show ?thesis
    using raw_multi_loop_lines drop_strings [OF assms(1)] drop_lines [OF assms(1)] by metis
qed

lemma raw_aliases_lines:
  assumes "all_strings pov" and "raw_aliases pov name a6 a4 old = Inr r"
  shows "r = (let l = old @ lines_of name pov in if l \<noteq> [] then l else lines_of a6 pov @ lines_of a4 pov)"
  using assms(2) by (auto simp: raw_aliases_def and_then_Inr Let_def split: if_splits dest!: raw_multi_lines [OF assms(1)])

section \<open>Layers\<close>

definition string_of :: "string \<Rightarrow> options \<Rightarrow> string option" where
  "string_of name pov = raw_string pov name None"

definition flag_of :: "string \<Rightarrow> options \<Rightarrow> bool option" where
  "flag_of name pov = map_option CHECK_TRUE (string_of name pov)"

definition prio_of :: "string \<Rightarrow> options \<Rightarrow> u32 option" where
  "prio_of name pov = sent_value (raw_prio_tos pov name (0, False))"

definition number_of :: "string \<Rightarrow> options \<Rightarrow> u32 option" where
  "number_of name pov = sent_value (raw_numeric pov name (0, False))"

text \<open>The value of the last layer that has one.\<close>

fun last_of :: "(options \<Rightarrow> 'a option) \<Rightarrow> options list \<Rightarrow> 'a option" where
  "last_of f [] = None"
| "last_of f (l # ls) = set_if (last_of f ls) (f l)"

definition file_layer :: "sup_files \<Rightarrow> string \<Rightarrow> string option \<Rightarrow> options list" where
  "file_layer fs pwf fallback =
     (case (if uf_access fs pwf then uf_load fs pwf
            else (case fallback of None \<Rightarrow> None | Some f \<Rightarrow> uf_load fs f)) of
        None \<Rightarrow> []
      | Some pov \<Rightarrow> [pov])"

text \<open>The files that are read for a client: its group's first, then its own.\<close>

definition sup_layers :: "sup_files \<Rightarrow> sup_cfg \<Rightarrow> auth_info \<Rightarrow> options list" where
  "sup_layers fs cfg ai =
     (case uc_per_group_dir cfg of
        None \<Rightarrow> []
      | Some d \<Rightarrow> if ai_groupname ai = [] then []
                  else file_layer fs (sup_path d (ai_groupname ai)) (uc_default_group_conf cfg))
     @ (case uc_per_user_dir cfg of
          None \<Rightarrow> []
        | Some d \<Rightarrow> file_layer fs (sup_path d (ai_username ai)) (uc_default_user_conf cfg))"

fun read_layers :: "options list \<Rightarrow> sup_reply \<Rightarrow> mem_error + sup_reply" where
  "read_layers [] m = Inr m"
| "read_layers (l # ls) m = and_then (read_options l m) (read_layers ls)"

lemma read_layers_append: "read_layers (a @ b) m = and_then (read_layers a m) (read_layers b)"
  by (induction a arbitrary: m) (auto simp: and_then_def split: sum.splits)

lemma parse_layer:
  "parse_group_cfg_file fs m pwf = Inr (ret, m1) \<Longrightarrow> \<not> ret < 0 \<Longrightarrow>
    read_layers (case uf_load fs pwf of None \<Rightarrow> [] | Some pov \<Rightarrow> [pov]) m = Inr m1"
  by (auto simp: parse_group_cfg_file_def err_codes and_then_Inr split: option.splits list.splits)

lemma sup_file_layer:
  "read_sup_config_file fs m pwf fallback = Inr (ret, m1) \<Longrightarrow> \<not> ret < 0 \<Longrightarrow>
    read_layers (file_layer fs pwf fallback) m = Inr m1"
  using parse_layer by (fastforce simp: read_sup_config_file_def file_layer_def split: if_splits option.splits)

lemma get_sup_config_layers:
  assumes "get_sup_config fs cfg ai m = Inr (0, m')"
  shows "read_layers (sup_layers fs cfg ai) m = Inr m'"
proof -
  obtain ret m1 where g: "(case uc_per_group_dir cfg of None \<Rightarrow> Inr (0, m)
      | Some d \<Rightarrow> if ai_groupname ai = [] then Inr (0, m)
          else read_sup_config_file fs m (sup_path d (ai_groupname ai)) (uc_default_group_conf cfg)) = Inr (ret, m1)"
    and u: "(if ret < 0 then Inr (ret, m1)
          else (case uc_per_user_dir cfg of None \<Rightarrow> Inr (0, m1)
                | Some d \<Rightarrow> read_sup_config_file fs m1 (sup_path d (ai_username ai)) (uc_default_user_conf cfg))) = Inr (0, m')"
    using assms unfolding get_sup_config_def and_then_Inr by auto
  have ret: "\<not> ret < 0" using u by (auto split: if_splits)
  have "read_layers (case uc_per_group_dir cfg of None \<Rightarrow> [] | Some d \<Rightarrow> if ai_groupname ai = [] then []
      else file_layer fs (sup_path d (ai_groupname ai)) (uc_default_group_conf cfg)) m = Inr m1"
    using g ret sup_file_layer by (auto split: option.splits if_splits)
  moreover have "read_layers (case uc_per_user_dir cfg of None \<Rightarrow> []
      | Some d \<Rightarrow> file_layer fs (sup_path d (ai_username ai)) (uc_default_user_conf cfg)) m1 = Inr m'"
    using u ret sup_file_layer by (auto split: option.splits if_splits)
  ultimately show ?thesis by (simp add: sup_layers_def read_layers_append)
qed

section \<open>What layers make of the reply\<close>

lemma raw_string_old: "raw_string pov name old = set_if (string_of name pov) old"
  by (auto simp: raw_string_def string_of_def set_if_def split: option.splits opt_value.splits)

lemma set_if_None [simp]: "set_if x None = x"
  by (simp add: set_if_def)

lemma set_if_assoc: "set_if a (set_if b c) = set_if (set_if a b) c"
  by (cases a) (simp_all add: set_if_def)

lemmas read_options_simps = read_options_def and_then_Inr Let_def

lemma layer_strings:
  assumes "read_layers ls m = Inr m'"
  shows "ur_cgroup m' = set_if (last_of (string_of ''cgroup'') ls) (ur_cgroup m)
    \<and> ur_xml_config_file m' = set_if (last_of (string_of ''user-profile'') ls) (ur_xml_config_file m)
    \<and> ur_ipv4_net m' = set_if (last_of (string_of ''ipv4-network'') ls) (ur_ipv4_net m)
    \<and> ur_ipv4_netmask m' = set_if (last_of (string_of ''ipv4-netmask'') ls) (ur_ipv4_netmask m)
    \<and> ur_explicit_ipv4 m' = set_if (last_of (string_of ''explicit-ipv4'') ls) (ur_explicit_ipv4 m)
    \<and> ur_explicit_ipv6 m' = set_if (last_of (string_of ''explicit-ipv6'') ls) (ur_explicit_ipv6 m)"
  using assms
proof (induction ls arbitrary: m)
  case (Cons l ls)
  obtain m1 where m1: "read_options l m = Inr m1" "read_layers ls m1 = Inr m'"
    using Cons.prems by (auto simp: and_then_Inr)
  have "ur_cgroup m1 = set_if (string_of ''cgroup'' l) (ur_cgroup m)
    \<and> ur_xml_config_file m1 = set_if (string_of ''user-profile'' l) (ur_xml_config_file m)
    \<and> ur_ipv4_net m1 = set_if (string_of ''ipv4-network'' l) (ur_ipv4_net m)
    \<and> ur_ipv4_netmask m1 = set_if (string_of ''ipv4-netmask'' l) (ur_ipv4_netmask m)
    \<and> ur_explicit_ipv4 m1 = set_if (string_of ''explicit-ipv4'' l) (ur_explicit_ipv4 m)
    \<and> ur_explicit_ipv6 m1 = set_if (string_of ''explicit-ipv6'' l) (ur_explicit_ipv6 m)"
    using m1(1) by (auto simp: read_options_simps raw_string_old)
  then show ?case using Cons.IH [OF m1(2)] by (simp add: set_if_assoc)
qed (simp add: set_if_def)

lemma layer_lines:
  assumes "read_layers ls m = Inr m'" and "list_all all_strings ls"
  shows "ur_routes m' = ur_routes m @ concat (map (lines_of ''route'') ls)
    \<and> ur_no_routes m' = ur_no_routes m @ concat (map (lines_of ''no-route'') ls)
    \<and> ur_iroutes m' = ur_iroutes m @ concat (map (lines_of ''iroute'') ls)"
  using assms
proof (induction ls arbitrary: m)
  case (Cons l ls)
  obtain m1 where m1: "read_options l m = Inr m1" "read_layers ls m1 = Inr m'"
    using Cons.prems by (auto simp: and_then_Inr)
  have "ur_routes m1 = ur_routes m @ lines_of ''route'' l" "ur_no_routes m1 = ur_no_routes m @ lines_of ''no-route'' l"
      "ur_iroutes m1 = ur_iroutes m @ lines_of ''iroute'' l"
    using m1(1) Cons.prems(2) raw_multi_lines [of l] by (auto simp: read_options_simps)
  then show ?case using Cons.IH [OF m1(2)] Cons.prems(2) by simp
qed simp

lemma layer_flags:
  assumes "read_layers ls m = Inr m'" and "ls \<noteq> []"
  shows "sent_value (ur_no_udp m') = flag_of ''no-udp'' (last ls)
    \<and> sent_value (ur_deny_roaming m') = flag_of ''deny-roaming'' (last ls)"
  using assms
proof (induction ls arbitrary: m)
  case (Cons l ls)
  obtain m1 where m1: "read_options l m = Inr m1" "read_layers ls m1 = Inr m'"
    using Cons.prems by (auto simp: and_then_Inr)
  have "sent_value (ur_no_udp m1) = flag_of ''no-udp'' l \<and> sent_value (ur_deny_roaming m1) = flag_of ''deny-roaming'' l"
    using m1(1)
    by (auto simp: read_options_simps raw_tf_def flag_of_def string_of_def sent_value_def split: option.splits)
  then show ?case using Cons.IH [OF m1(2)] m1(2) by (cases "ls = []") auto
qed simp

lemma raw_prio_old: "sent_value (raw_prio_tos pov name old) = set_if (prio_of name pov) (sent_value old)"
  by (auto simp: raw_prio_tos_def prio_of_def sent_value_def set_if_def split: option.splits opt_value.splits)

lemma layer_priority:
  assumes "read_layers ls m = Inr m'"
  shows "sent_value (ur_net_priority m') = set_if (last_of (prio_of ''net-priority'') ls) (sent_value (ur_net_priority m))"
  using assms
proof (induction ls arbitrary: m)
  case (Cons l ls)
  obtain m1 where m1: "read_options l m = Inr m1" "read_layers ls m1 = Inr m'"
    using Cons.prems by (auto simp: and_then_Inr)
  have "sent_value (ur_net_priority m1) = set_if (prio_of ''net-priority'' l) (sent_value (ur_net_priority m))"
    using m1(1) by (auto simp: read_options_simps raw_prio_old)
  then show ?case using Cons.IH [OF m1(2)] by (simp add: set_if_assoc)
qed (simp add: set_if_def)

text \<open>A rate is divided by 1000 once for each layer from the one that sets it.\<close>

fun rate_of :: "string \<Rightarrow> options list \<Rightarrow> u32 \<Rightarrow> u32" where
  "rate_of name [] r = r"
| "rate_of name (l # ls) r = rate_of name ls (or_old (number_of name l) r div 1000)"

lemma sent_rate: "sent_number (in_kb (raw_numeric pov name old)) = or_old (number_of name pov) (sent_number old) div 1000"
  by (auto simp: in_kb_def raw_numeric_def number_of_def sent_number_def sent_value_def or_old_def
      split: option.splits opt_value.splits)

lemma layer_rates:
  assumes "read_layers ls m = Inr m'"
  shows "sent_number (ur_rx_per_sec m') = rate_of ''rx-data-per-sec'' ls (sent_number (ur_rx_per_sec m))
    \<and> sent_number (ur_tx_per_sec m') = rate_of ''tx-data-per-sec'' ls (sent_number (ur_tx_per_sec m))"
  using assms
proof (induction ls arbitrary: m)
  case (Cons l ls)
  obtain m1 where m1: "read_options l m = Inr m1" "read_layers ls m1 = Inr m'"
    using Cons.prems by (auto simp: and_then_Inr)
  have "sent_number (ur_rx_per_sec m1) = or_old (number_of ''rx-data-per-sec'' l) (sent_number (ur_rx_per_sec m)) div 1000
    \<and> sent_number (ur_tx_per_sec m1) = or_old (number_of ''tx-data-per-sec'' l) (sent_number (ur_tx_per_sec m)) div 1000"
    using m1(1) by (auto simp: read_options_simps sent_rate)
  then show ?case using Cons.IH [OF m1(2)] by simp
qed simp

lemma no_flags:
  assumes "read_layers ls empty_sup_reply = Inr m" and "ls = []"
  shows "sent_value (ur_no_udp m) = None \<and> sent_value (ur_deny_roaming m) = None"
proof -
  have "m = empty_sup_reply" using assms by simp
  then show ?thesis by (simp add: empty_sup_reply_def sent_value_def)
qed

section \<open>What the client gets\<close>

text \<open>
  Name servers: a layer's values come behind those of the layers before it, and its aliases count
  only while there is none.
\<close>

fun servers_of :: "string \<Rightarrow> string \<Rightarrow> string \<Rightarrow> options list \<Rightarrow> string list \<Rightarrow> string list" where
  "servers_of name a6 a4 [] known = known"
| "servers_of name a6 a4 (l # ls) known =
     servers_of name a6 a4 ls
       (let here = known @ lines_of name l in if here \<noteq> [] then here else lines_of a6 l @ lines_of a4 l)"

lemma layer_servers:
  assumes "read_layers ls m = Inr m'" and "list_all all_strings ls"
  shows "ur_dns m' = servers_of ''dns'' ''ipv6-dns'' ''ipv4-dns'' ls (ur_dns m)
    \<and> ur_nbns m' = servers_of ''nbns'' ''ipv6-nbns'' ''ipv4-nbns'' ls (ur_nbns m)"
  using assms
proof (induction ls arbitrary: m)
  case (Cons l ls)
  obtain m1 where m1: "read_options l m = Inr m1" "read_layers ls m1 = Inr m'"
    using Cons.prems by (auto simp: and_then_Inr)
  then obtain dns nbns where a: "raw_aliases l ''dns'' ''ipv6-dns'' ''ipv4-dns'' (ur_dns m) = Inr dns"
      "raw_aliases l ''nbns'' ''ipv6-nbns'' ''ipv4-nbns'' (ur_nbns m) = Inr nbns"
      "ur_dns m1 = dns" "ur_nbns m1 = nbns"
    by (auto simp: read_options_simps)
  have "all_strings l" using Cons.prems(2) by simp
  then show ?case
    using Cons.IH [OF m1(2)] Cons.prems(2) a raw_aliases_lines [OF _ a(1)] raw_aliases_lines [OF _ a(2)] by simp
qed simp

text \<open>The IPv6 network without the prefix it is written with, and the prefix that a layer itself sets.\<close>

definition net6_of :: "options \<Rightarrow> string option" where
  "net6_of pov = snd (extract_prefix (string_of ''ipv6-network'' pov))"

definition prefix6_of :: "options \<Rightarrow> u32 option" where
  "prefix6_of pov =
     (let p = fst (extract_prefix (string_of ''ipv6-network'' pov)) in
      if p \<noteq> 0 then Some p else number_of ''ipv6-prefix'' pov)"

text \<open>
  The prefix of the last layer, where that sets one; a prefix of an earlier layer is reset to 0,
  which is sent as well.
\<close>

definition layers_prefix :: "options list \<Rightarrow> u32 option" where
  "layers_prefix ls =
     (if ls = [] then None
      else case prefix6_of (last ls) of
        Some p \<Rightarrow> Some p
      | None \<Rightarrow> if list_ex (\<lambda>l. prefix6_of l \<noteq> None) ls then Some 0 else None)"

definition no_slash :: "string option \<Rightarrow> bool" where
  "no_slash x \<longleftrightarrow> (case x of None \<Rightarrow> True | Some s \<Rightarrow> CHR ''/'' \<notin> set s)"

lemma extract_no_slash: "no_slash net \<Longrightarrow> extract_prefix net = (0, net)"
  by (auto simp: no_slash_def extract_prefix_def strchr_absent split: option.splits)

lemma extract_cuts: "no_slash (snd (extract_prefix net))"
  by (auto simp: no_slash_def extract_prefix_def strchr_def split: option.splits dest!: set_takeWhileD)

lemma layer_prefix_step:
  assumes "read_options l m = Inr m1" and "no_slash (ur_ipv6_net m)"
  shows "ur_ipv6_net m1 = set_if (net6_of l) (ur_ipv6_net m) \<and> no_slash (ur_ipv6_net m1)
    \<and> sent_value (ur_ipv6_prefix m1)
        = (case prefix6_of l of Some p \<Rightarrow> Some p | None \<Rightarrow> if snd (ur_ipv6_prefix m) then Some 0 else None)
    \<and> snd (ur_ipv6_prefix m1) = (snd (ur_ipv6_prefix m) \<or> prefix6_of l \<noteq> None)"
proof -
  let ?net = "set_if (string_of ''ipv6-network'' l) (ur_ipv6_net m)"
  have x: "(ur_ipv6_net m1, ur_ipv6_prefix m1) = read_ipv6_prefix l ?net (snd (ur_ipv6_prefix m))"
    using assms(1) by (auto simp: read_options_simps raw_string_old)
  show ?thesis
  proof (cases "string_of ''ipv6-network'' l")
    case None
    then have "net6_of l = None" "prefix6_of l = number_of ''ipv6-prefix'' l"
      by (simp_all add: net6_of_def prefix6_of_def extract_prefix_def)
    then show ?thesis
      using x None assms(2) extract_no_slash [OF assms(2)]
      by (auto simp: read_ipv6_prefix_def set_if_def raw_numeric_def number_of_def sent_value_def
          split: option.splits opt_value.splits)
  next
    case (Some s)
    obtain p n where e: "extract_prefix (Some s) = (p, Some n)"
      by (cases "strchr (CHR ''/'') s") (auto simp: extract_prefix_def)
    then have "net6_of l = Some n" "prefix6_of l = (if p \<noteq> 0 then Some p else number_of ''ipv6-prefix'' l)"
      using Some by (simp_all add: net6_of_def prefix6_of_def)
    then show ?thesis
      using x Some e extract_cuts [of "Some s"]
      by (auto simp: read_ipv6_prefix_def set_if_def raw_numeric_def number_of_def sent_value_def
          split: option.splits opt_value.splits if_splits)
  qed
qed

lemma layer_net6:
  assumes "read_layers ls m = Inr m'" and "no_slash (ur_ipv6_net m)"
  shows "ur_ipv6_net m' = set_if (last_of net6_of ls) (ur_ipv6_net m)
    \<and> snd (ur_ipv6_prefix m') = (snd (ur_ipv6_prefix m) \<or> list_ex (\<lambda>l. prefix6_of l \<noteq> None) ls)
    \<and> (ls \<noteq> [] \<longrightarrow> sent_value (ur_ipv6_prefix m')
        = (case prefix6_of (last ls) of Some p \<Rightarrow> Some p
           | None \<Rightarrow> if snd (ur_ipv6_prefix m) \<or> list_ex (\<lambda>l. prefix6_of l \<noteq> None) ls then Some 0 else None))"
  using assms
proof (induction ls arbitrary: m)
  case (Cons l ls)
  obtain m1 where m1: "read_options l m = Inr m1" "read_layers ls m1 = Inr m'"
    using Cons.prems by (auto simp: and_then_Inr)
  note s = layer_prefix_step [OF m1(1) Cons.prems(2)]
  show ?case
    using Cons.IH [OF m1(2)] s m1(2) by (cases "ls = []") (auto simp: set_if_assoc split: option.splits)
qed (simp add: set_if_def)

lemma sent_number_value: "sent_number x = or_old (sent_value x) 0"
  by (simp add: sent_number_def sent_value_def or_old_def)

definition lines_or :: "'a list \<Rightarrow> 'a list \<Rightarrow> 'a list" where
  "lines_or l old = (if l \<noteq> [] then l else old)"

definition rate_or :: "u32 \<Rightarrow> u64 \<Rightarrow> u64" where
  "rate_or r old = (if r \<noteq> 0 then ucast r else old)"


lemma raw_prefix_absent: "number_of name pov = None \<Longrightarrow> raw_numeric pov name old = old"
  by (auto simp: number_of_def sent_value_def raw_numeric_def split: option.splits opt_value.splits if_splits)

text \<open>
  What a group's file asks for is lost when its members have files of their own. If the user's
  file does not repeat them, the group's deny-roaming and no-udp have no effect, its rate limit is
  divided by 1000 twice, and its IPv6 network comes without the prefix, so that the address of the
  client is taken from the network of the server.
\<close>

theorem group_settings_lost:
  assumes "get_sup_config fs cfg ai empty_sup_reply = Inr (0, m)" and "sup_layers fs cfg ai = [g, u]"
    and "c' = fill_group_cfg (session_reply_of m) c"
    and "flag_of ''deny-roaming'' u = None" and "flag_of ''no-udp'' u = None"
    and "number_of ''rx-data-per-sec'' g = Some r" and "number_of ''rx-data-per-sec'' u = None"
    and "string_of ''ipv6-network'' g = Some (net @ CHR ''/'' # prefix)" and "CHR ''/'' \<notin> set net" and "atoi prefix \<noteq> 0"
    and "string_of ''ipv6-network'' u = None" and "number_of ''ipv6-prefix'' u = None"
  shows "gf_deny_roaming c' = gf_deny_roaming c \<and> gf_no_udp c' = gf_no_udp c
    \<and> gf_rx_per_sec c' = rate_or (r div 1000 div 1000) (gf_rx_per_sec c)
    \<and> lc_ipv6_network (gf_lease c') = Some net
    \<and> ipv6_network env vn (p\<lparr>lp_config := gf_lease c'\<rparr>) = ipv6_network env vn (p\<lparr>lp_config := (gf_lease c')\<lparr>lc_ipv6_network := None\<rparr>\<rparr>)"
proof -
  have r: "read_layers [g, u] empty_sup_reply = Inr m" using get_sup_config_layers [OF assms(1)] assms(2) by simp
  then obtain m1 where m1: "read_options g empty_sup_reply = Inr m1" "read_options u m1 = Inr m"
    by (auto simp: and_then_Inr)
  have f: "sent_value (ur_no_udp m) = None" "sent_value (ur_deny_roaming m) = None"
    using layer_flags [OF r] assms(4,5) by simp_all
  have n: "sent_number (ur_rx_per_sec m) = r div 1000 div 1000"
    using layer_rates [OF r] assms(6,7) by (simp add: or_old_def)
  have "ur_ipv6_net m1 = Some net" "snd (ur_ipv6_prefix m1)"
    using m1(1) assms(8-10) strchr_here [OF assms(9), of prefix]
    by (auto simp: read_options_simps raw_string_old set_if_def read_ipv6_prefix_def extract_prefix_def)
  then have v: "ur_ipv6_net m = Some net" "ur_ipv6_prefix m = (0, True)"
    using m1(2) assms(9,11) raw_prefix_absent [OF assms(12)]
    by (auto simp: read_options_simps raw_string_old set_if_def read_ipv6_prefix_def extract_prefix_def strchr_absent)
  have s: "lc_ipv6_prefix (gf_lease c') = 0" "lc_ipv6_network (gf_lease c') = Some net"
    using v unfolding assms(3)
    by (simp_all add: fill_group_cfg_def fill_lease_cfg_def session_reply_of_def sent_value_def or_old_def set_if_def)
  then have "ipv6_network env vn (p\<lparr>lp_config := gf_lease c'\<rparr>)
      = ipv6_network env vn (p\<lparr>lp_config := (gf_lease c')\<lparr>lc_ipv6_network := None\<rparr>\<rparr>)"
    by (simp add: ipv6_network_def)
  then show ?thesis
    using f n s(2) unfolding assms(3)
    by (simp add: fill_group_cfg_def session_reply_of_def or_old_def rate_or_def)
qed

section \<open>Examples\<close>

definition example_group_file :: options where
  "example_group_file = [(''deny-roaming'', Opt_string ''true''), (''no-udp'', Opt_string ''yes''),
     (''rx-data-per-sec'', Opt_string ''2000000''), (''ipv6-network'', Opt_string ''fd00::/64''),
     (''route'', Opt_string ''10.1.0.0/16''), (''cgroup'', Opt_string ''cpu:staff'')]"

definition example_user_file :: options where
  "example_user_file = [(''route'', Opt_string ''10.2.0.0/16''), (''cgroup'', Opt_string ''cpu:bob'')]"

definition example_sup_files :: sup_files where
  "example_sup_files = \<lparr>uf_access = (\<lambda>f. True),
     uf_load = (\<lambda>f. if f = ''/g/staff'' then Some example_group_file
                     else if f = ''/u/bob'' then Some example_user_file else None)\<rparr>"

definition example_sup_cfg :: sup_cfg where
  "example_sup_cfg = \<lparr>uc_per_group_dir = Some ''/g'', uc_per_user_dir = Some ''/u'',
     uc_default_group_conf = None, uc_default_user_conf = None\<rparr>"

definition example_sup_info :: auth_info where
  "example_sup_info = \<lparr>ai_username = ''bob'', ai_groupname = ''staff'', ai_remote_ip = [], ai_ipv4 = [], ai_ipv6 = []\<rparr>"

definition example_sup_reply :: sup_reply where
  "example_sup_reply = (case get_sup_config example_sup_files example_sup_cfg example_sup_info empty_sup_reply of
     Inl e \<Rightarrow> empty_sup_reply | Inr (ret, m) \<Rightarrow> m)"

lemma example_sup_runs:
  "get_sup_config example_sup_files example_sup_cfg example_sup_info empty_sup_reply = Inr (0, example_sup_reply)"
proof -
  have "(case get_sup_config example_sup_files example_sup_cfg example_sup_info empty_sup_reply of
     Inl e \<Rightarrow> False | Inr (ret, m) \<Rightarrow> ret = 0)" by code_simp
  then show ?thesis by (auto simp: example_sup_reply_def split: sum.splits prod.splits)
qed

lemma example_sup_layers:
  "sup_layers example_sup_files example_sup_cfg example_sup_info = [example_group_file, example_user_file]"
  by (simp add: sup_layers_def example_sup_cfg_def example_sup_info_def file_layer_def example_sup_files_def
      sup_path_def POSIX_PATH_MAX_def)


theorem group_settings_lost_witness:
  "\<not> gf_deny_roaming (fill_group_cfg (session_reply_of example_sup_reply) zero_group_cfg)
    \<and> gf_rx_per_sec (fill_group_cfg (session_reply_of example_sup_reply) zero_group_cfg) = 2"
proof -
  have u: "flag_of ''deny-roaming'' example_user_file = None" "flag_of ''no-udp'' example_user_file = None"
      "number_of ''rx-data-per-sec'' example_user_file = None" "string_of ''ipv6-network'' example_user_file = None"
      "number_of ''ipv6-prefix'' example_user_file = None"
    by code_simp+
  have g: "number_of ''rx-data-per-sec'' example_group_file = Some 2000000"
      "string_of ''ipv6-network'' example_group_file = Some (''fd00::'' @ CHR ''/'' # ''64'')"
    by code_simp+
  have p: "CHR ''/'' \<notin> set ''fd00::''" "atoi ''64'' \<noteq> 0" by code_simp+
  show ?thesis
    using group_settings_lost [OF example_sup_runs example_sup_layers refl u(1,2) g(1) u(3) g(2) p u(4,5), of zero_group_cfg]
    by (simp add: zero_group_cfg_def rate_or_def)
qed

end
