(* ===== verification/CfgProps.thy ===== *)
theory CfgProps
  imports CfgFile SupLayers LoginForm
begin

text \<open>
  What an accepted configuration guarantees to the processes that use it, what reading it again
  changes, and which of its options are lost.
\<close>

section \<open>Authentication methods\<close>

definition mod_type :: "auth_mod_id \<Rightarrow> u32" where
  "mod_type m = (case m of Mod_pam \<Rightarrow> AUTH_TYPE_PAM | Mod_gssapi \<Rightarrow> AUTH_TYPE_GSSAPI
     | Mod_radius \<Rightarrow> AUTH_TYPE_RADIUS | Mod_plain \<Rightarrow> AUTH_TYPE_PLAIN)"

text \<open>
  A method has one module, or is the certificate's; the primary one can be both. What is not used
  is zero.
\<close>

definition method_ok :: "nat \<Rightarrow> auth_struct \<Rightarrow> bool" where
  "method_ok i a \<longleftrightarrow> au_enabled a \<and> (case au_amod a of
       None \<Rightarrow> au_type a = AUTH_TYPE_CERTIFICATE
     | Some m \<Rightarrow> au_type a = mod_type m \<or> i = 0 \<and> au_type a = mod_type m OR AUTH_TYPE_CERTIFICATE)"

definition auth_ok :: "auth_cfg \<Rightarrow> bool" where
  "auth_ok c \<longleftrightarrow> length (ac_auth c) = MAX_AUTH_METHODS \<and> ac_methods c < MAX_AUTH_METHODS
     \<and> (\<forall>i < MAX_AUTH_METHODS. if i < ac_methods c then method_ok i (ac_auth c ! i) else ac_auth c ! i = zero_auth)"

lemma auth_ok_zero: "auth_ok zero_auth_cfg"
  by (simp add: auth_ok_def zero_auth_cfg_def MAX_AUTH_METHODS_def)

lemma avail_type:
  assumes "find_auth_type s = Some t"
  shows "(case at_mod t of None \<Rightarrow> at_type t = AUTH_TYPE_CERTIFICATE | Some m \<Rightarrow> at_type t = mod_type m)"
  using assms by (auto simp: find_auth_type_def avail_auth_types_def mod_type_def split: if_splits)

lemma set_additional_same:
  "set_additional t s a = Inr (a1, r) \<Longrightarrow>
    au_name a1 = au_name a \<and> au_type a1 = au_type a \<and> au_amod a1 = au_amod a \<and> au_enabled a1 = au_enabled a"
  by (auto simp: set_additional_def and_then_Inr split: option.splits)

lemma method_at:
  assumes "auth_ok c" and "i < MAX_AUTH_METHODS"
  shows "if i < ac_methods c then method_ok i (ac_auth c ! i) else ac_auth c ! i = zero_auth"
  using assms by (simp add: auth_ok_def)

lemma zero_less_MAX [simp]: "0 < MAX_AUTH_METHODS"
  by (simp add: MAX_AUTH_METHODS_def)

lemma primary_ok:
  assumes "primary_auth s c = Inr c'" and "auth_ok c" and "ac_methods c \<le> 1"
  shows "auth_ok c' \<and> ac_methods c' = 1"
proof -
  obtain t a r where t: "find_auth_type s = Some t" "set_additional t s (ac_auth c ! 0) = Inr (a, r)"
      "\<not> (au_amod a \<noteq> None \<and> at_mod t \<noteq> None)"
    and c': "c' = c\<lparr>ac_auth := (ac_auth c)[0 := merge_auth t a], ac_methods := 1, ac_sup_radius := ac_sup_radius c \<or> r\<rparr>"
    using assms(1) by (auto simp: primary_auth_def and_then_Inr split: option.splits if_splits)
  have a: "ac_auth c ! 0 = zero_auth \<or> method_ok 0 (ac_auth c ! 0)"
    using method_at [OF assms(2), of 0] by (auto split: if_splits)
  have "method_ok 0 (merge_auth t a)"
    using a t(3) set_additional_same [OF t(2)] avail_type [OF t(1)]
    by (auto simp: merge_auth_def method_ok_def zero_auth_def or.commute or.left_commute or.assoc split: option.splits)
  then show ?thesis
    using assms(2,3) c' by (auto simp: auth_ok_def MAX_AUTH_METHODS_def nth_list_update split: if_splits)
qed

lemma append_ok:
  assumes "append_auth s c = Inr c'" and "auth_ok c"
  shows "auth_ok c' \<and> ac_methods c < ac_methods c' \<and> (0 < ac_methods c \<longrightarrow> ac_auth c' ! 0 = ac_auth c ! 0)"
proof -
  let ?x = "ac_methods c"
  obtain t a r where t: "find_auth_type s = Some t" "set_additional t s (ac_auth c ! ?x) = Inr (a, r)"
      "?x + 1 < MAX_AUTH_METHODS"
    and c': "c' = c\<lparr>ac_auth := (ac_auth c)[?x := a\<lparr>au_name := Some (at_name t), au_amod := at_mod t,
        au_type := au_type a OR at_type t, au_enabled := True\<rparr>], ac_methods := ?x + 1, ac_sup_radius := ac_sup_radius c \<or> r\<rparr>"
    using assms(1) by (auto simp: append_auth_def and_then_Inr Let_def split: option.splits if_splits)
  have "ac_auth c ! ?x = zero_auth" using method_at [OF assms(2), of ?x] t(3) by simp
  then have "method_ok ?x (a\<lparr>au_name := Some (at_name t), au_amod := at_mod t, au_type := au_type a OR at_type t,
      au_enabled := True\<rparr>)"
    using set_additional_same [OF t(2)] avail_type [OF t(1)] by (auto simp: method_ok_def zero_auth_def split: option.splits)
  then show ?thesis
    using assms(2) t(3) c' by (auto simp: auth_ok_def nth_list_update less_Suc_eq)
qed

lemma figure_primary_ok:
  "figure_auth_funcs primary_auth ss c = Inr c' \<Longrightarrow> auth_ok c \<Longrightarrow> ac_methods c \<le> 1 \<Longrightarrow> auth_ok c' \<and> ac_methods c' \<le> 1"
proof (induction ss arbitrary: c)
  case (Cons s ss)
  then show ?case using primary_ok by (fastforce simp: and_then_Inr)
qed simp

lemma figure_append_ok:
  "figure_auth_funcs append_auth ss c = Inr c' \<Longrightarrow> auth_ok c \<Longrightarrow> auth_ok c'"
proof (induction ss arbitrary: c)
  case (Cons s ss)
  then show ?case using append_ok by (fastforce simp: and_then_Inr)
qed simp

lemma read_methods_ok:
  assumes "read_methods pov c = Inr c'" and "auth_ok c" and "ac_methods c \<le> 1"
  shows "auth_ok c' \<and> 0 < ac_methods c'"
proof -
  obtain auth c1 auth2 where "figure_auth_funcs primary_auth auth c = Inr c1"
      "figure_auth_funcs append_auth auth2 c1 = Inr c'" and e: "au_enabled (ac_auth c' ! 0)"
    using assms(1) by (auto simp: read_methods_def and_then_Inr)
  then have ok: "auth_ok c'" using figure_primary_ok assms(2,3) figure_append_ok by blast
  moreover have "0 < ac_methods c'"
  proof (rule ccontr)
    assume "\<not> 0 < ac_methods c'"
    then have "ac_auth c' ! 0 = zero_auth" using method_at [OF ok, of 0] by simp
    then show False using e by (simp add: zero_auth_def)
  qed
  ultimately show ?thesis by simp
qed

section \<open>Accepted configurations\<close>

lemma parse_start_auth:
  assumes "parse_cfg_file env pwf p False = Inr p'" and "auth_ok (pm_auth p)" and "ac_methods (pm_auth p) \<le> 1"
  shows "auth_ok (pm_auth p') \<and> 0 < ac_methods (pm_auth p')"
proof -
  obtain pov p1 p2 where p1: "read_start env pov p = Inr p1" and p2: "read_cfg env pov p1 = Inr p2" "pm_auth p' = pm_auth p2"
    using assms(1) by (auto simp: parse_cfg_file_def and_then_Inr split: option.splits list.splits)
  have "pm_auth p2 = pm_auth p1"
    using p2(1) by (auto simp: read_cfg_def read_perm_def and_then_Inr Let_def)
  moreover obtain ac where ac: "read_methods pov ((pm_auth p)\<lparr>ac_sup_radius := False\<rparr>) = Inr ac"
      "ac_auth (pm_auth p1) = ac_auth ac \<and> ac_methods (pm_auth p1) = ac_methods ac"
    using p1 by (auto simp: read_start_def and_then_Inr split: option.splits)
  moreover have "auth_ok ac \<and> 0 < ac_methods ac"
    by (rule read_methods_ok [OF ac(1)]) (use assms(2,3) in \<open>simp_all add: auth_ok_def\<close>)
  ultimately show ?thesis using p2(2) by (simp add: auth_ok_def)
qed

lemma check_cfg_auth: "check_cfg env p = Inr p' \<Longrightarrow> pm_auth p' = pm_auth p \<and> pm_unix_conn_file p' = pm_unix_conn_file p"
  by (auto simp: check_cfg_def and_then_Inr Let_def finish_cfg_def)

lemma cmd_parser_auth:
  assumes "cmd_parser env a = Inr p"
  shows "auth_ok (pm_auth p) \<and> 0 < ac_methods (pm_auth p)"
proof -
  obtain pwf p0 p1 where p1: "parse_cfg_file env pwf p0 False = Inr p1" "check_cfg env p1 = Inr p"
      "pm_auth p0 = zero_auth_cfg"
    using assms by (auto simp: cmd_parser_def Let_def and_then_Inr zero_perm_def)
  have "auth_ok (pm_auth p1) \<and> 0 < ac_methods (pm_auth p1)"
    by (rule parse_start_auth [OF p1(1)]) (simp_all add: p1(3) auth_ok_zero, simp add: zero_auth_cfg_def)
  then show ?thesis using check_cfg_auth [OF p1(2)] by simp
qed

text \<open>The methods as a worker has them.\<close>

definition worker_methods :: "perm_cfg \<Rightarrow> ws_auth list" where
  "worker_methods p = map (\<lambda>a. \<lparr>wa_enabled = au_enabled a, wa_type = au_type a\<rparr>)
     (take (ac_methods (pm_auth p)) (ac_auth (pm_auth p)))"

lemma worker_method_ok:
  assumes "auth_ok (pm_auth p)" and "m \<in> set (worker_methods p)"
  shows "\<exists>i < ac_methods (pm_auth p). method_ok i (ac_auth (pm_auth p) ! i) \<and> wa_type m = au_type (ac_auth (pm_auth p) ! i)"
proof -
  obtain i where i: "i < ac_methods (pm_auth p)" "i < length (ac_auth (pm_auth p))"
      "m = \<lparr>wa_enabled = au_enabled (ac_auth (pm_auth p) ! i), wa_type = au_type (ac_auth (pm_auth p) ! i)\<rparr>"
    using assms(2) by (auto simp: worker_methods_def in_set_conv_nth)
  then show ?thesis using method_at [OF assms(1), of i] assms(1) by (auto simp: auth_ok_def)
qed

lemma method_bits:
  assumes "method_ok i a" and "au_type a AND AUTH_TYPE_GSSAPI \<noteq> 0"
    and "au_type a AND AUTH_TYPE_USERNAME_PASS \<noteq> 0 \<or> au_type a AND AUTH_TYPE_CERTIFICATE \<noteq> 0"
  shows "i = 0 \<and> au_type a = AUTH_TYPE_GSSAPI OR AUTH_TYPE_CERTIFICATE"
  using assms
  by (auto simp: method_ok_def mod_type_def auth_types split: option.splits auth_mod_id.splits)

text \<open>
  C13: from the configuration to the login. Whatever the configuration file says, if it is accepted
  and its primary method is not GSSAPI together with certificates, the login of every worker comes
  to an end, for every request, in one call of post_auth_handler.
\<close>

theorem configured_login_returns:
  assumes "cmd_parser env a = Inr p" and "ha_selected_auth (lg_app l) = Some m" and "m \<in> set (worker_methods p)"
    and "au_type (ac_auth (pm_auth p) ! 0) \<noteq> AUTH_TYPE_GSSAPI OR AUTH_TYPE_CERTIFICATE"
  shows "post_auth_handler (Suc n) wenv cfg l \<noteq> None \<and> get_auth_handler (Suc n) wenv cfg l \<noteq> None"
proof -
  obtain i where i: "method_ok i (ac_auth (pm_auth p) ! i)" "wa_type m = au_type (ac_auth (pm_auth p) ! i)"
    using worker_method_ok [OF _ assms(3)] cmd_parser_auth [OF assms(1)] by blast
  have "\<not> (sel AUTH_TYPE_GSSAPI l \<and> (sel AUTH_TYPE_USERNAME_PASS l \<or> sel AUTH_TYPE_CERTIFICATE l))"
    using method_bits [OF i(1)] assms(2,4) i(2) by (auto simp: sel_def selected_type_def)
  then show ?thesis by (rule login_returns)
qed


section \<open>Reading the file again\<close>

lemma cfg_of_old:
  "cfg_of pov old k cert key r n h d g =
    (cfg_of pov zero_cfg k cert key r n h d g)\<lparr>cf_foreground := cf_foreground old, cf_debug := cf_debug old\<rparr>"
  by (simp add: cfg_of_def)

text \<open>The configuration without what the command line sets.\<close>

definition unset_args :: "cfg_st \<Rightarrow> cfg_st" where
  "unset_args c = c\<lparr>cf_foreground := False, cf_debug := 0\<rparr>"

lemma cfg_of_zero: "cfg_of pov zero_cfg k cert key r n h d g = unset_args (cfg_of pov old k cert key r n h d g)"
  by (simp add: cfg_of_def unset_args_def zero_cfg_def)

definition unset_perm :: "perm_cfg \<Rightarrow> perm_cfg" where
  "unset_perm p = p\<lparr>pm_config := unset_args (pm_config p)\<rparr>"

lemma read_perm_again:
  assumes "read_perm pov p = Inr p1" and "pm_socket_file_prefix q = pm_socket_file_prefix p1"
    and "pm_occtl_socket_file q = pm_occtl_socket_file p1" and "pm_chroot_dir q = pm_chroot_dir p1"
  shows "read_perm pov q = Inr q"
  using assms
  by (auto simp: read_perm_def and_then_Inr read_string_def missing_def mandatory_def
      split: list.splits prod.splits opt_value.splits option.splits if_splits)

lemma read_cfg_again:
  assumes "read_cfg env pov p = Inr p1" and "pm_auth p = pm_auth p1" and "q = p1\<lparr>pm_config := zero_cfg, pm_pid_file := f\<rparr>"
  shows "read_cfg env pov q = Inr ((unset_perm p1)\<lparr>pm_pid_file := f\<rparr>)"
proof -
  obtain p2 where p2: "read_perm pov p = Inr p2" "pm_socket_file_prefix p1 = pm_socket_file_prefix p2"
      "pm_occtl_socket_file p1 = pm_occtl_socket_file p2" "pm_chroot_dir p1 = pm_chroot_dir p2"
    using assms(1) by (auto simp: read_cfg_def and_then_Inr Let_def)
  then have "read_perm pov q = Inr q" using read_perm_again [OF p2(1), of q] assms(3) by simp
  then show ?thesis
    using assms cfg_of_zero by (auto simp: read_cfg_def and_then_Inr Let_def unset_perm_def)
qed

lemma check_cfg_again:
  assumes "check_cfg env p = Inr p'"
  shows "check_cfg env (unset_perm p) = Inr (unset_perm p')"
proof -
  have f: "cert_req_of ac (unset_args c) = cert_req_of ac c" "xml_hash env (unset_perm p) = xml_hash env p" for ac c
    by (simp_all add: cert_req_of_def unset_args_def xml_hash_def unset_perm_def split: option.split)
  have g: "finish_cfg env (unset_perm p) h = unset_perm (finish_cfg env p h)" for h
    by (cases "cf_cert (pm_config p)"; simp add: finish_cfg_def unset_perm_def f(1) Let_def; simp add: unset_args_def)
  have u: "pm_config (unset_perm p) = unset_args (pm_config p)" "pm_auth (unset_perm p) = pm_auth p"
      "pm_unix_conn_file (unset_perm p) = pm_unix_conn_file p"
      "cf_network (unset_args c) = cf_network c" "cf_banner (unset_args c) = cf_banner c" "cf_cert (unset_args c) = cf_cert c"
      "cf_key (unset_args c) = cf_key c" "cf_cert_user_oid (unset_args c) = cf_cert_user_oid c" for c
    by (simp_all add: unset_perm_def unset_args_def)
  show ?thesis
    using assms unfolding check_cfg_def Let_def and_then_Inr u f by (auto simp: g)
qed

lemma check_cfg_same:
  "check_cfg env p = Inr p' \<Longrightarrow> \<exists>c. p' = p\<lparr>pm_config := c\<rparr>"
  by (auto simp: check_cfg_def Let_def and_then_Inr finish_cfg_def)


definition cfg_file_of :: "cmd_args \<Rightarrow> string" where
  "cfg_file_of a = (case ca_config a of None \<Rightarrow> DEFAULT_CFG_FILE | Some f \<Rightarrow> f)"

text \<open>
  C15: reading the configuration again. When the file has not changed since the start, the
  configuration that reload_cfg_file makes is the one of cmd_parser, but for the level of debugging
  and the flag for the foreground, which came from the command line and are lost.
\<close>

theorem reload_same_config:
  assumes "cmd_parser env a = Inr p"
  shows "reload_cfg_file env (cfg_file_of a) p =
    Inr (p\<lparr>pm_config := (pm_config p)\<lparr>cf_foreground := False, cf_debug := 0\<rparr>\<rparr>)"
proof -
  let ?f = "cfg_file_of a"
  obtain p0 p1 where p1: "parse_cfg_file env ?f p0 False = Inr p1" "check_cfg env p1 = Inr p"
    using assms by (auto simp: cmd_parser_def Let_def and_then_Inr cfg_file_of_def split: option.splits if_splits)
  obtain pov where pov: "load_cfg env ?f = Some pov" "pov \<noteq> []"
    using p1(1) by (auto simp: parse_cfg_file_def split: option.splits list.splits)
  then have "\<exists>q1 q2 x. read_cfg env pov q1 = Inr q2 \<and> q2\<lparr>pm_pid_file := x\<rparr> = p1"
    using p1(1) by (cases pov) (simp_all add: parse_cfg_file_def and_then_Inr, blast)
  then obtain q1 q2 where q: "read_cfg env pov q1 = Inr q2" "p1 = q2\<lparr>pm_pid_file := pm_pid_file p1\<rparr>" by auto
  obtain c where c: "p = p1\<lparr>pm_config := c\<rparr>" using check_cfg_same [OF p1(2)] by blast
  have "pm_auth q1 = pm_auth q2" using q(1) by (auto simp: read_cfg_def read_perm_def and_then_Inr Let_def)
  from read_cfg_again [OF q(1) this refl, of "pm_pid_file p1"]
  have "read_cfg env pov (clear_cfg p) = Inr (unset_perm p1)" using q(2) c
    by (simp add: clear_cfg_def unset_perm_def) (metis perm_cfg.surjective perm_cfg.update_convs(1,13))
  then have "parse_cfg_file env ?f (clear_cfg p) True = Inr (unset_perm p1)"
    using pov by (cases pov) (auto simp: parse_cfg_file_def unset_perm_def)
  then show ?thesis
    using check_cfg_again [OF p1(2)] by (simp add: reload_cfg_file_def unset_perm_def unset_args_def)
qed

section \<open>What the server's processes can rely on\<close>

lemma read_cfg_values:
  assumes "read_cfg env pov p = Inr p1"
  shows "cf_no_compress_limit (pm_config p1) = no_compress_limit_of (num pov ''no-compress-limit'')
    \<and> cf_dpd (pm_config p1) = dpd_of pov \<and> cf_mobile_dpd (pm_config p1) = if_zero (num pov ''mobile-dpd'') (dpd_of pov)
    \<and> (cw_ipv6_prefix (cf_network (pm_config p1)) = 0 \<or> valid_ipv6_prefix (cw_ipv6_prefix (cf_network (pm_config p1))))
    \<and> ''local'' \<notin> set (cw_dns (cf_network (pm_config p1)))"
proof -
  obtain net rs nr dns nb k ce ke r cu sd g where c:
      "pm_config p1 = cfg_of pov (pm_config p) k ce ke r
         (net\<lparr>cw_routes := rs, cw_no_routes := nr, cw_dns := dns, cw_nbns := nb\<rparr>) cu sd g"
    and n: "read_addresses pov = Inr net" "''local'' \<notin> set dns"
    using assms by (auto simp: read_cfg_def and_then_Inr Let_def read_perm_def)
  have "cw_ipv6_prefix net = 0 \<or> valid_ipv6_prefix (cw_ipv6_prefix net)"
    using n(1)
    by (cases "extract_prefix (opt_string pov ''ipv4-network'')"; cases "extract_prefix (opt_string pov ''ipv6-network'')")
      (auto simp: read_addresses_def and_then_Inr Let_def)
  then show ?thesis using c n(2) by (simp add: cfg_of_def)
qed

definition network_ok :: "cfg_network \<Rightarrow> bool" where
  "network_ok n \<longleftrightarrow> (cw_ipv4 n \<noteq> None \<or> cw_ipv6 n \<noteq> None) \<and> (cw_ipv4 n \<noteq> None \<longrightarrow> cw_ipv4_netmask n \<noteq> None)
     \<and> (cw_ipv6 n \<noteq> None \<longrightarrow> valid_ipv6_prefix (cw_ipv6_prefix n)) \<and> ''local'' \<notin> set (cw_dns n)"

definition certs_ok :: "perm_cfg \<Rightarrow> bool" where
  "certs_ok p \<longleftrightarrow> length (cf_cert (pm_config p)) = length (cf_key (pm_config p))
     \<and> (list_ex has_cert_type (take (ac_methods (pm_auth p)) (ac_auth (pm_auth p))) \<longrightarrow>
          cf_cert_req (pm_config p) \<noteq> CERT_IGNORE \<and> cf_cert_user_oid (pm_config p) \<noteq> None \<and> pm_unix_conn_file p = None)"

definition timers_ok :: "cfg_st \<Rightarrow> bool" where
  "timers_ok c \<longleftrightarrow> cf_dpd c \<noteq> 0 \<and> cf_mobile_dpd c \<noteq> 0 \<and> cf_keepalive c \<noteq> 0 \<and> 64 \<le> cf_no_compress_limit c"

lemma cert_req_methods:
  assumes "auth_ok ac" and "list_ex has_cert_type (take (ac_methods ac) (ac_auth ac))"
  shows "cert_req_of ac c \<noteq> CERT_IGNORE"
proof -
  obtain i where i: "i < ac_methods ac" "has_cert_type (ac_auth ac ! i)"
    using assms(2) by (auto simp: list_ex_iff in_set_conv_nth)
  show ?thesis
  proof (cases "i = 0")
    case True
    then show ?thesis using i by (simp add: cert_req_of_def)
  next
    case False
    then have "list_ex (\<lambda>i. has_cert_type (ac_auth ac ! i)) [1..<ac_methods ac]"
      using i by (auto simp: list_ex_iff)
    then show ?thesis by (simp add: cert_req_of_def)
  qed
qed

lemma checked_config:
  assumes "check_cfg env p = Inr p'" and "auth_ok (pm_auth p)"
    and "cw_ipv6_prefix (cf_network (pm_config p)) = 0 \<or> valid_ipv6_prefix (cw_ipv6_prefix (cf_network (pm_config p)))"
    and "''local'' \<notin> set (cw_dns (cf_network (pm_config p)))"
    and "cf_dpd (pm_config p) \<noteq> 0" and "cf_mobile_dpd (pm_config p) \<noteq> 0" and "64 \<le> cf_no_compress_limit (pm_config p)"
  shows "network_ok (cf_network (pm_config p')) \<and> certs_ok p' \<and> timers_ok (pm_config p')"
proof -
  obtain h where p': "p' = finish_cfg env p h"
    and c: "\<not> (cw_ipv4 (cf_network (pm_config p)) = None \<and> cw_ipv6 (cf_network (pm_config p)) = None)"
      "\<not> (cw_ipv4 (cf_network (pm_config p)) \<noteq> None \<and> cw_ipv4_netmask (cf_network (pm_config p)) = None)"
      "\<not> (cw_ipv6 (cf_network (pm_config p)) \<noteq> None \<and> cw_ipv6_prefix (cf_network (pm_config p)) = 0)"
      "length (cf_cert (pm_config p)) = length (cf_key (pm_config p))"
      "\<not> (cert_req_of (pm_auth p) (pm_config p) \<noteq> CERT_IGNORE \<and> cf_cert_user_oid (pm_config p) = None)"
      "\<not> (pm_unix_conn_file p \<noteq> None \<and> cert_req_of (pm_auth p) (pm_config p) \<noteq> CERT_IGNORE)"
    using assms(1) unfolding check_cfg_def Let_def and_then_Inr check_Inr by auto
  have f: "cf_network (pm_config p') = cf_network (pm_config p)" "pm_auth p' = pm_auth p"
      "pm_unix_conn_file p' = pm_unix_conn_file p" "cf_cert (pm_config p') = cf_cert (pm_config p)"
      "cf_key (pm_config p') = cf_key (pm_config p)" "cf_cert_user_oid (pm_config p') = cf_cert_user_oid (pm_config p)"
      "cf_cert_req (pm_config p') = cert_req_of (pm_auth p) (pm_config p)"
      "cf_dpd (pm_config p') = if_zero (cf_dpd (pm_config p)) 60" "cf_mobile_dpd (pm_config p') = cf_mobile_dpd (pm_config p)"
      "cf_keepalive (pm_config p') = if_zero (cf_keepalive (pm_config p)) 3600"
      "cf_no_compress_limit (pm_config p') = cf_no_compress_limit (pm_config p)"
    unfolding p' by (simp_all add: finish_cfg_def Let_def)
  show ?thesis
    unfolding network_ok_def certs_ok_def timers_ok_def f
    using c cert_req_methods [OF assms(2)] assms(3-7) by (auto simp: if_zero_def)
qed

text \<open>
  C14: an accepted configuration. Whatever the file says, when cmd_parser returns, there is an
  IPv4 or IPv6 network, an IPv4 one has its mask and an IPv6 one a prefix that the server supports,
  no name server is the word local; there are as many keys as certificates; there is at least one
  method, every method is one module or the certificate's (the primary one possibly both), and
  where a method uses certificates they are asked for, the object identifier of the user is known
  and no clear socket is configured. The intervals dpd, mobile-dpd and keepalive are not zero (the
  code gives them defaults; auth-timeout, idle-timeout and rekey-time may be zero) and the limit
  of compression is at least 64 bytes.
\<close>

theorem accepted_config_sound:
  assumes "cmd_parser env a = Inr p"
  shows "network_ok (cf_network (pm_config p)) \<and> certs_ok p \<and> timers_ok (pm_config p) \<and> auth_ok (pm_auth p)
    \<and> 0 < ac_methods (pm_auth p)"
proof -
  obtain pwf p0 p1 where p1: "parse_cfg_file env pwf p0 False = Inr p1" "check_cfg env p1 = Inr p"
    using assms by (auto simp: cmd_parser_def Let_def and_then_Inr)
  obtain pov where pov: "load_cfg env pwf = Some pov" "pov \<noteq> []"
    using p1(1) by (auto simp: parse_cfg_file_def split: option.splits list.splits)
  then have "\<exists>q1 q2 x. read_cfg env pov q1 = Inr q2 \<and> q2\<lparr>pm_pid_file := x\<rparr> = p1"
    using p1(1) by (cases pov) (simp_all add: parse_cfg_file_def and_then_Inr, blast)
  then obtain q1 q2 where q: "read_cfg env pov q1 = Inr q2" "pm_config p1 = pm_config q2" by auto
  note v = read_cfg_values [OF q(1), folded q(2)]
  have a: "auth_ok (pm_auth p) \<and> 0 < ac_methods (pm_auth p)" by (rule cmd_parser_auth [OF assms])
  moreover have "pm_auth p = pm_auth p1" using check_cfg_auth [OF p1(2)] by simp
  moreover have "dpd_of pov \<noteq> 0" by (simp add: dpd_of_def if_zero_def DEFAULT_DPD_TIME_def)
  moreover have "64 \<le> no_compress_limit_of x" for x
    by (simp add: no_compress_limit_of_def Let_def MIN_NO_COMPRESS_LIMIT_def not_less)
  ultimately show ?thesis
    using checked_config [OF p1(2)] v by (simp add: if_zero_def)
qed

end
