(* ===== verification/CfgFaults.thy ===== *)
theory CfgFaults
  imports CfgProps
begin

text \<open>
  Where the reading of the configuration goes wrong: too many lines of an option, the options in
  brackets behind the first one, and the proxies of a second URL.
\<close>

section \<open>Too many lines\<close>

lemma multi_loop_lines:
  "all_strings pov \<Longrightarrow> length acc < MAX_CONFIG_ENTRIES \<Longrightarrow>
    multi_loop name pov acc = (if length acc + length (lines_of name pov) < MAX_CONFIG_ENTRIES
      then Inr (acc @ lines_of name pov) else Inl (Cfg_memory Out_of_bounds))"
proof (induction name pov acc rule: multi_loop.induct)
  case (2 name n v vals acc)
  then show ?case by (auto split: opt_value.splits)
qed simp

lemma strcasecmp_refl [simp]: "c_strcasecmp s s"
  by (simp add: c_strcasecmp_def)

lemma drop_case_lines:
  "all_strings pov \<Longrightarrow> lines_of name (dropWhile (\<lambda>(n, v). \<not> c_strcasecmp n name) pov) = lines_of name pov"
  by (induction pov) auto

text \<open>
  How many lines an option can have. Of an option with several lines the server keeps all of
  them, in order, when there are fewer than 96; with 96 or more it stores a NULL behind the array.
\<close>

theorem config_lines_limit:
  assumes "all_strings pov" and "name \<in> set available_options" and "\<not> mandatory name"
  shows "read_multi_line pov name [] = (if length (lines_of name pov) < MAX_CONFIG_ENTRIES
    then Inr (lines_of name pov) else Inl (Cfg_memory Out_of_bounds))"
proof (cases "get_option pov name")
  case Nil
  then have "lines_of name pov = []"
    using assms(2) drop_case_lines [OF assms(1), of name] by (simp add: get_option_def del: dropWhile_eq_Nil_conv)
  then show ?thesis using Nil assms(3) by (simp add: read_multi_line_def missing_def MAX_CONFIG_ENTRIES_def)
next
  case (Cons e vals)
  have s: "all_strings (get_option pov name)" and l: "lines_of name (get_option pov name) = lines_of name pov"
    using assms(2) drop_strings [OF assms(1)] drop_case_lines [OF assms(1)] by (simp_all add: get_option_def)
  obtain n t where "e = (n, Opt_string t)" using s Cons by (cases e) auto
  then have "read_multi_line pov name [] = multi_loop name (get_option pov name) []"
    using Cons by (simp add: read_multi_line_def)
  then show ?thesis using multi_loop_lines [OF s, of "[]" name] l by (simp add: MAX_CONFIG_ENTRIES_def)
qed

section \<open>Options in brackets\<close>

definition value_text :: "string \<Rightarrow> bool" where
  "value_text v \<longleftrightarrow> v \<noteq> [] \<and> COMMA \<notin> set v \<and> \<not> c_isspace (hd v) \<and> \<not> c_isspace (last v)"

lemma trim_clean: "s \<noteq> [] \<Longrightarrow> \<not> c_isspace (last s) \<Longrightarrow> trim_right s = s"
  by (cases s rule: rev_cases) (auto simp: trim_right_def)

lemma expand_same:
  assumes "value_text v" and "n \<noteq> []" and "CHR ''='' \<notin> set n" and "\<not> c_isspace (last n)"
  shows "expand_pairs k (n @ CHR ''='' # v @ COMMA # rest) = Inr (replicate k (n, v))"
proof (induction k)
  case (Suc k)
  have "dropWhile c_isspace (v @ COMMA # rest) = v @ COMMA # rest"
    using assms(1) by (cases v) (auto simp: value_text_def)
  then show ?case
    using Suc assms strchr_here [OF assms(3)] strchr_here [of COMMA v rest] trim_clean
    by (simp add: value_text_def Let_def)
qed simp

lemma brackets_same:
  assumes "value_text v" and "n \<noteq> []" and "CHR ''='' \<notin> set n" and "\<not> c_isspace (hd n)" and "\<not> c_isspace (last n)"
  shows "expand_brackets_string (LBRACKET # n @ CHR ''='' # v @ COMMA # rest) = Inr (replicate MAX_SUBOPTIONS (n, v))"
proof -
  have "dropWhile c_isspace (n @ r) = n @ r" for r using assms(2,4) by (cases n) auto
  then show ?thesis
    using expand_same [OF assms(1-3,5)] strchr_here [of LBRACKET "[]"] by (simp add: expand_brackets_string_def)
qed

text \<open>
  Only the first option in brackets is read. Behind the radius module's configuration file
  everything up to the closing bracket is ignored, whatever it is: groupconfig=true, which the sample
  configuration shows there, does not make radius the source of the users' configuration.
\<close>

theorem radius_groupconfig_ignored:
  assumes "primary_auth (''radius[config='' @ f @ '','' @ rest) c = Inr c'" and "value_text f" and "ac_auth c \<noteq> []"
  shows "ac_sup_radius c' = ac_sup_radius c \<and> au_additional (ac_auth c' ! 0) = Some (Radius_cfg f None)"
proof -
  have "expand_brackets_string (''[config='' @ f @ '','' @ rest) = Inr (replicate MAX_SUBOPTIONS (''config'', f))"
    using brackets_same [OF assms(2), of "''config''" rest] by (simp add: c_isspace_def)
  then have "radius_get_brackets_string (''[config='' @ f @ '','' @ rest) = Inr (Radius_cfg f None, False)"
    by (simp add: radius_get_brackets_string_def legacy_format_def char_at_def MAX_SUBOPTIONS_def eval_nat_numeral)
  moreover have "find_auth_type (''radius[config='' @ f @ '','' @ rest) =
      Some \<lparr>at_name = ''radius'', at_mod = Some Mod_radius, at_type = AUTH_TYPE_RADIUS\<rparr>"
    by (simp add: find_auth_type_def avail_auth_types_def ascii_lower_def)
  ultimately show ?thesis
    using assms(1,3) by (auto simp: primary_auth_def set_additional_def get_brackets_def merge_auth_def split: if_splits)
qed

section \<open>Proxies\<close>

text \<open>
  The proxies of a second URL are lost. When the first two values of kkdcp have the same URL, the
  third one is stored at its own index, behind the size of the table: no request finds its URL. A
  fourth value makes the server compare its URL with the NULL of the unused entry.
\<close>

theorem kkdcp_url_lost:
  assumes "split_kkdcp a = Some (pa, ra, da, ha, oa)" and "split_kkdcp a' = Some (pa, ra', da', ha', oa')"
    and "split_kkdcp b = Some (pb, rb, db, hb, ob)" and "split_kkdcp d = Some (pd, rd, dd, hd', od)"
    and "pa \<noteq> pb" and "\<And>g h p. resolve g h p = Some (addr g h p)"
  shows "\<exists>ks. parse_kkdcp resolve [a, a', b] = Inr (ks, 2) \<and> Some pb \<notin> kk_url ` set (take 2 ks)
    \<and> kk_url (ks ! 2) = Some pb \<and> parse_kkdcp resolve [a, a', b, d] = Inl (Cfg_memory Null_pointer)"
  using assms
  by (simp add: parse_kkdcp_def add_kkdcp_def Let_def MAX_KRB_REALMS_def numeral_eq_Suc)

end
