(* ===== verification/ConfiguredLogin.thy ===== *)
theory ConfiguredLogin
  imports CfgFaults PlainLogin
begin

text \<open>
  From the configuration file to the login: the security module and the worker with the methods of
  an accepted configuration.
\<close>

section \<open>Methods of the configuration\<close>

text \<open>perm_config->auth as the security module reads it; \<open>mods\<close> gives a module for its options.\<close>

definition sec_methods :: "(auth_mod_id \<Rightarrow> auth_additional option \<Rightarrow> 'c auth_mod) \<Rightarrow> perm_cfg \<Rightarrow> 'c auth_method list" where
  "sec_methods mods p = map (\<lambda>a. \<lparr>as_enabled = au_enabled a, as_type = au_type a,
       as_amod = map_option (\<lambda>m. mods m (au_additional a)) (au_amod a)\<rparr>)
     (take (ac_methods (pm_auth p)) (ac_auth (pm_auth p)))"

lemma read_multi_line_lines:
  assumes "all_strings pov" and "name \<in> set available_options" and "read_multi_line pov name [] = Inr l"
  shows "l = lines_of name pov"
proof (cases "get_option pov name")
  case Nil
  then have "lines_of name pov = []"
    using assms(2) drop_case_lines [OF assms(1), of name] by (simp add: get_option_def del: dropWhile_eq_Nil_conv)
  then show ?thesis using Nil assms(3) by (simp add: read_multi_line_def missing_def split: if_splits)
next
  case (Cons e vals)
  have s: "all_strings (get_option pov name)" and l: "lines_of name (get_option pov name) = lines_of name pov"
    using assms(2) drop_strings [OF assms(1)] drop_case_lines [OF assms(1)] by (simp_all add: get_option_def)
  obtain n t where "e = (n, Opt_string t)" using s Cons by (cases e) auto
  then have "read_multi_line pov name [] = multi_loop name (get_option pov name) []"
    using Cons by (simp add: read_multi_line_def)
  then show ?thesis
    using multi_loop_lines [OF s, of "[]" name] l assms(3) by (simp add: MAX_CONFIG_ENTRIES_def split: if_splits)
qed

lemma expand_single:
  assumes "value_text v" and "RBRACKET \<notin> set v" and "n \<noteq> []" and "CHR ''='' \<notin> set n" and "\<not> c_isspace (hd n)"
    and "\<not> c_isspace (last n)"
  shows "expand_brackets_string (LBRACKET # n @ CHR ''='' # v @ [RBRACKET]) = Inr [(n, v)]"
proof -
  have n: "dropWhile c_isspace (n @ r) = n @ r" for r using assms(3,5) by (cases n) auto
  have v: "dropWhile c_isspace (v @ [RBRACKET]) = v @ [RBRACKET]"
    using assms(1) by (cases v) (auto simp: value_text_def)
  have "strchr COMMA (v @ [RBRACKET]) = None" using assms(1) by (auto simp: strchr_def value_text_def)
  then show ?thesis
    using n v assms strchr_here [OF assms(4)] strchr_here [OF assms(2), of "[]"] strchr_here [of LBRACKET "[]"] trim_clean
    by (simp add: expand_brackets_string_def MAX_SUBOPTIONS_def eval_nat_numeral value_text_def Let_def)
qed

definition plain_line :: "string \<Rightarrow> string" where
  "plain_line f = ''plain[passwd='' @ f @ '']''"

definition plain_auth :: "string \<Rightarrow> auth_struct" where
  "plain_auth f = \<lparr>au_name = Some ''plain'', au_additional = Some (Plain_cfg f), au_type = AUTH_TYPE_PLAIN,
     au_amod = Some Mod_plain, au_enabled = True\<rparr>"

lemma primary_plain:
  assumes "value_text f" and "RBRACKET \<notin> set f" and "ac_auth c ! 0 = zero_auth"
  shows "primary_auth (plain_line f) c =
    Inr (c\<lparr>ac_auth := (ac_auth c)[0 := plain_auth f], ac_methods := 1\<rparr>)"
proof -
  have "expand_brackets_string (''[passwd='' @ f @ '']'') = Inr [(''passwd'', f)]"
    using expand_single [OF assms(1,2), of "''passwd''"] by (simp add: c_isspace_def)
  then have "plain_get_brackets_string (''[passwd='' @ f @ '']'') = Inr (Plain_cfg f)"
    by (simp add: plain_get_brackets_string_def legacy_format_def char_at_def)
  moreover have "find_auth_type (plain_line f) =
      Some \<lparr>at_name = ''plain'', at_mod = Some Mod_plain, at_type = AUTH_TYPE_PLAIN\<rparr>"
    by (simp add: plain_line_def find_auth_type_def avail_auth_types_def ascii_lower_def)
  ultimately show ?thesis
    using assms(3)
    by (simp add: primary_auth_def set_additional_def get_brackets_def merge_auth_def plain_line_def plain_auth_def zero_auth_def)
qed

lemma plain_only:
  assumes "read_methods pov c = Inr c'" and "ac_auth c = replicate MAX_AUTH_METHODS zero_auth" and "all_strings pov"
    and "lines_of ''auth'' pov = [plain_line f]" and "lines_of ''enable-auth'' pov = []"
    and "value_text f" and "RBRACKET \<notin> set f"
  shows "ac_methods c' = 1 \<and> ac_auth c' ! 0 = plain_auth f \<and> length (ac_auth c') = MAX_AUTH_METHODS"
proof -
  obtain auth c1 auth2 where m: "read_multi_line pov ''auth'' [] = Inr auth" "figure_auth_funcs primary_auth auth c = Inr c1"
      "read_multi_line pov ''enable-auth'' [] = Inr auth2" "figure_auth_funcs append_auth auth2 c1 = Inr c'"
    using assms(1) by (auto simp: read_methods_def and_then_Inr)
  have k: "''auth'' \<in> set available_options" "''enable-auth'' \<in> set available_options"
    by (simp_all add: available_options_def)
  have "auth = [plain_line f]" "auth2 = []"
    using read_multi_line_lines [OF assms(3) k(1) m(1)] read_multi_line_lines [OF assms(3) k(2) m(3)] assms(4,5) by simp_all
  moreover have "ac_auth c ! 0 = zero_auth" using assms(2) by (simp add: MAX_AUTH_METHODS_def)
  ultimately show ?thesis
    using m primary_plain [OF assms(6,7), of c] assms(2) by (auto simp: MAX_AUTH_METHODS_def)
qed

lemma configured_plain:
  assumes "cmd_parser cenv a = Inr p" and "load_cfg cenv (cfg_file_of a) = Some pov" and "all_strings pov"
    and "lines_of ''auth'' pov = [plain_line f]" and "lines_of ''enable-auth'' pov = []"
    and "value_text f" and "RBRACKET \<notin> set f"
  shows "take (ac_methods (pm_auth p)) (ac_auth (pm_auth p)) = [plain_auth f]"
proof -
  obtain p0 p1 where p1: "parse_cfg_file cenv (cfg_file_of a) p0 False = Inr p1" "check_cfg cenv p1 = Inr p"
      "pm_auth p0 = zero_auth_cfg"
    using assms(1) by (auto simp: cmd_parser_def Let_def and_then_Inr cfg_file_of_def zero_perm_def split: option.splits if_splits)
  obtain q1 q2 where q: "read_start cenv pov p0 = Inr q1" "read_cfg cenv pov q1 = Inr q2" "pm_auth p1 = pm_auth q2"
    using p1(1) assms(2) by (cases pov) (auto simp: parse_cfg_file_def and_then_Inr)
  obtain ac where ac: "read_methods pov (zero_auth_cfg\<lparr>ac_sup_radius := False\<rparr>) = Inr ac"
      "ac_auth (pm_auth q1) = ac_auth ac" "ac_methods (pm_auth q1) = ac_methods ac"
    using q(1) p1(3) by (auto simp: read_start_def and_then_Inr split: option.splits)
  have "pm_auth q2 = pm_auth q1" using q(2) by (auto simp: read_cfg_def read_perm_def and_then_Inr Let_def)
  moreover have "ac_methods ac = 1 \<and> ac_auth ac ! 0 = plain_auth f \<and> length (ac_auth ac) = MAX_AUTH_METHODS"
    by (rule plain_only [OF ac(1) _ assms(3-7)]) (simp add: zero_auth_cfg_def)
  moreover have "pm_auth p = pm_auth p1" using check_cfg_auth [OF p1(2)] by simp
  ultimately show ?thesis
    using ac(2,3) q(3) by (cases "ac_auth ac") (auto simp: MAX_AUTH_METHODS_def)
qed

section \<open>The login\<close>

text \<open>
  C6: from the configuration file to the cookie. When the only method in an accepted configuration
  file is a password file, no worker's login ends with a cookie unless the client posted a password
  that verifies against the non-empty hash which that password file has for the session's user.
\<close>

theorem configured_login_needs_password:
  assumes "cmd_parser cenv a = Inr p" and "load_cfg cenv (cfg_file_of a) = Some pov" and "all_strings pov"
    and "lines_of ''auth'' pov = [plain_line f]" and "lines_of ''enable-auth'' pov = []"
    and "value_text f" and "RBRACKET \<notin> set f"
    and "mods Mod_plain (Some (Plain_cfg f)) = plain_auth_funcs (Some pwf) crypt"
    and "sg_auth scfg = sec_methods mods p" and "sm_run scfg ks ko tr db"
    and "ha_selected_auth (lg_app l) = Some m" and "m \<in> set (worker_methods p)"
    and "lv_reply env = secmod_answer dtls scfg ks ko senv db"
    and "post_auth_handler n env cfg l = Some r" and "auth_state l \<noteq> S_AUTH_COOKIE"
    and "auth_state (login_of r) = S_AUTH_COOKIE"
  shows "\<exists>u pass gs h. parse_reply (lg_body l) PASSWORD_FIELD None = Some pass
    \<and> lg_username (login_of r) = strlcpy_str MAX_USERNAME_SIZE u
    \<and> scan_passwd (strlcpy_str MAX_USERNAME_SIZE u) (fgets_all pwf) ([], []) = Inr (gs, h)
    \<and> h \<noteq> [] \<and> crypt pass h = h"
proof -
  have t: "take (ac_methods (pm_auth p)) (ac_auth (pm_auth p)) = [plain_auth f]"
    by (rule configured_plain [OF assms(1-7)])
  have "sg_auth (plain_cfg scfg pwf crypt) = sg_auth scfg"
    using assms(8,9) t by (simp add: plain_cfg_def sec_methods_def plain_auth_def)
  then have c: "scfg = plain_cfg scfg pwf crypt" by (simp add: plain_cfg_def)
  have "wa_type m = AUTH_TYPE_PLAIN" using assms(12) t by (simp add: worker_methods_def plain_auth_def)
  then have g: "\<not> sel AUTH_TYPE_GSSAPI l" using assms(11) by (simp add: sel_def selected_type_def auth_types)
  show ?thesis
    using form_login_needs_password [of scfg pwf crypt ks ko tr db env dtls senv n cfg l r] assms(10,13-16) c g by metis
qed

end
