(* ===== verification/CfgExamples.thy ===== *)
theory CfgExamples
  imports CfgFaults
begin

text \<open>
  A configuration file that the server accepts, and concrete instances of what CfgProps and CfgFaults
  show.
\<close>

section \<open>A configuration\<close>

definition example_options :: "string \<Rightarrow> options" where
  "example_options auth = [(''auth'', Opt_string auth), (''ban-points-connection'', Opt_string ''5''), (''device'', Opt_string ''vpns''),
     (''ipv4-network'', Opt_string ''10.0.0.0/24''), (''route'', Opt_string ''10.1.0.0/16''),
     (''server-cert'', Opt_string ''/etc/cert.pem''), (''server-key'', Opt_string ''/etc/key.pem''),
     (''socket-file'', Opt_string ''/run/ocserv'')]"

definition example_cfg_env :: "options \<Rightarrow> cfg_env" where
  "example_cfg_env pov = \<lparr>cx_access = (\<lambda>f. True), cx_load = (\<lambda>f. Some pov), cx_pwnam = (\<lambda>u. None), cx_grnam = (\<lambda>g. None),
     cx_resolve = (\<lambda>d h p. None), cx_group_list = (\<lambda>m. None), cx_sha1 = (\<lambda>f c. Some ''00'')\<rparr>"

definition example_args :: cmd_args where
  "example_args = \<lparr>ca_foreground = True, ca_pid_file = None, ca_debug = 3, ca_config = Some ''/etc/ocserv.conf''\<rparr>"

abbreviation example_file :: options where
  "example_file \<equiv> example_options ''plain[passwd=/etc/ocpasswd]''"

definition example_auth :: auth_cfg where
  "example_auth = \<lparr>ac_auth = [\<lparr>au_name = Some ''plain'', au_additional = Some (Plain_cfg ''/etc/ocpasswd''),
     au_type = AUTH_TYPE_PLAIN, au_amod = Some Mod_plain, au_enabled = True\<rparr>, zero_auth, zero_auth, zero_auth],
     ac_methods = 1, ac_sup_radius = False\<rparr>"

lemma strcasecmp_length [code]: "c_strcasecmp a b = (if length a = length b then map ascii_lower a = map ascii_lower b else False)"
  using map_eq_imp_length_eq by (auto simp: c_strcasecmp_def)

lemma get_option_code [code]:
  "get_option pov name = (case dropWhile (\<lambda>(n, v). \<not> c_strcasecmp n name) pov of
     [] \<Rightarrow> [] | x # xs \<Rightarrow> if name \<in> set available_options then x # xs else [])"
  by (simp add: get_option_def split: list.split)

lemma example_lines:
  "read_multi_line example_file ''kkdcp'' [] = Inr []" "read_multi_line example_file ''server-cert'' [] = Inr [''/etc/cert.pem'']"
  "read_multi_line example_file ''server-key'' [] = Inr [''/etc/key.pem'']"
  "read_multi_line example_file ''custom-header'' [] = Inr []" "read_multi_line example_file ''split-dns'' [] = Inr []"
  "read_multi_line example_file ''route'' [] = Inr [''10.1.0.0/16'']" "read_multi_line example_file ''no-route'' [] = Inr []"
  "read_aliases example_file ''dns'' ''ipv6-dns'' ''ipv4-dns'' = Inr []"
  "read_aliases example_file ''nbns'' ''ipv6-nbns'' ''ipv4-nbns'' = Inr []"
  "read_string example_file ''socket-file'' x = Inr (Some ''/run/ocserv'')"
  "rekey_method_of example_file = Inr REKEY_METHOD_SSL"
  by code_simp+

lemma example_methods: "read_methods example_file zero_auth_cfg = Inr example_auth"
  by code_simp

lemma example_absent:
  "opt_string example_file ''acct'' = None" "opt_string example_file ''run-as-user'' = None"
  "opt_string example_file ''run-as-group'' = None" "opt_string example_file ''ipv6-network'' = None"
  "opt_string example_file ''banner'' = None" "opt_string example_file ''user-profile'' = None"
  "opt_string example_file ''auto-select-group'' = None" "read_multi_bracket_line example_file ''select-group'' = Inr []"
  by code_simp+

lemma example_addresses:
  "read_addresses example_file = Inr (zero_network\<lparr>cw_name := ''vpns'', cw_ipv4_netmask := Some ''255.255.255.0'',
     cw_ipv4 := Some ''10.0.0.0'', cw_ipv6_prefix := 0, cw_ipv6 := None\<rparr>)"
  by code_simp

lemma example_kkdcp: "parse_kkdcp f [] = Inr ([], 0)"
  by (simp add: parse_kkdcp_def)

lemma example_start:
  "\<exists>p1. read_start (example_cfg_env example_file) example_file (zero_perm\<lparr>pm_config := c, pm_pid_file := []\<rparr>) = Inr p1
    \<and> pm_auth p1 = example_auth"
proof -
  have "zero_auth_cfg\<lparr>ac_sup_radius := False\<rparr> = zero_auth_cfg" by (simp add: zero_auth_cfg_def)
  then show ?thesis by (simp add: read_start_def read_id_def example_absent example_methods zero_perm_def)
qed

definition example_net :: cfg_network where
  "example_net = zero_network\<lparr>cw_name := ''vpns'', cw_ipv4_netmask := Some ''255.255.255.0'',
     cw_ipv4 := Some ''10.0.0.0'', cw_ipv6_prefix := 0, cw_ipv6 := None, cw_routes := [''10.1.0.0/16''],
     cw_no_routes := [], cw_dns := [], cw_nbns := []\<rparr>"

definition example_cfg :: "cfg_st \<Rightarrow> cfg_st" where
  "example_cfg old = cfg_of example_file old ([], 0) [''/etc/cert.pem''] [''/etc/key.pem''] REKEY_METHOD_SSL
     example_net [] [] ([], [])"

lemma example_read:
  assumes "pm_auth p1 = example_auth"
  shows "\<exists>p2. read_cfg (example_cfg_env example_file) example_file p1 = Inr p2 \<and> pm_auth p2 = example_auth
    \<and> pm_config p2 = example_cfg (pm_config p1)"
proof -
  have "read_group_list (example_cfg_env example_file) example_file (pm_auth p1) = Inr ([], [])"
    by (simp add: read_group_list_def read_tf_def example_absent)
  moreover have "routes_of [''10.1.0.0/16''] = [''10.1.0.0/16'']" by (simp add: routes_of_def)
  ultimately show ?thesis
    using assms
    by (simp add: read_cfg_def read_perm_def example_lines example_kkdcp example_addresses Let_def example_cfg_def
        example_net_def)
qed

lemma example_check:
  assumes "pm_auth p2 = example_auth" and "pm_config p2 = example_cfg old"
  shows "\<exists>p. check_cfg (example_cfg_env example_file) p2 = Inr p \<and> pm_auth p = example_auth"
proof -
  have f: "cf_network (example_cfg old) = example_net" "cf_banner (example_cfg old) = None" "cf_cert_req (example_cfg old) = CERT_IGNORE"
      "length (cf_cert (example_cfg old)) = length (cf_key (example_cfg old))" "cf_xml_config_file (example_cfg old) = None"
    by (simp_all add: example_cfg_def cfg_of_def example_absent)
  have "cert_req_of example_auth (example_cfg old) = CERT_IGNORE"
    by (simp add: cert_req_of_def has_cert_type_def example_auth_def auth_types f)
  moreover have "xml_hash (example_cfg_env example_file) p2 = Inr (cf_xml_config_hash (example_cfg old))"
    using assms f(5) by (simp add: xml_hash_def)
  ultimately show ?thesis
    using assms f by (simp add: check_cfg_def Let_def example_net_def zero_network_def finish_cfg_def)
qed

lemma example_accepted:
  "\<exists>p. cmd_parser (example_cfg_env example_file) example_args = Inr p \<and> pm_auth p = example_auth"
proof -
  let ?e = "example_cfg_env example_file"
  let ?c = "zero_cfg\<lparr>cf_foreground := True, cf_debug := 3\<rparr>"
  obtain p1 where p1: "read_start ?e example_file (zero_perm\<lparr>pm_config := ?c, pm_pid_file := []\<rparr>) = Inr p1" "pm_auth p1 = example_auth"
    using example_start by blast
  obtain p2 where p2: "read_cfg ?e example_file p1 = Inr p2" "pm_auth p2 = example_auth" "pm_config p2 = example_cfg (pm_config p1)"
    using example_read [OF p1(2)] by blast
  have "\<exists>o1 os. example_file = o1 # os" by (simp add: example_options_def)
  moreover have "load_cfg ?e ''/etc/ocserv.conf'' = Some example_file" by (simp add: load_cfg_def example_cfg_env_def)
  ultimately obtain p3 where "parse_cfg_file ?e ''/etc/ocserv.conf'' (zero_perm\<lparr>pm_config := ?c, pm_pid_file := []\<rparr>) False = Inr p3"
      "pm_auth p3 = example_auth" "pm_config p3 = example_cfg (pm_config p1)"
    using p1 p2 by (auto simp: parse_cfg_file_def)
  then show ?thesis using example_check [of p3] by (auto simp: cmd_parser_def example_args_def Let_def)
qed

theorem configured_login_returns_witness:
  "post_auth_handler 1 (example_login_env []) example_login_cfg (example_client_login 5 []) \<noteq> None"
proof -
  obtain p where p: "cmd_parser (example_cfg_env example_file) example_args = Inr p" "pm_auth p = example_auth"
    using example_accepted by blast
  have "\<lparr>wa_enabled = True, wa_type = 5\<rparr> \<in> set (worker_methods p)"
    "au_type (ac_auth (pm_auth p) ! 0) \<noteq> AUTH_TYPE_GSSAPI OR AUTH_TYPE_CERTIFICATE"
    using p(2) by (simp_all add: worker_methods_def example_auth_def auth_types)
  then show ?thesis
    using configured_login_returns [OF p(1), of "example_client_login 5 []" "\<lparr>wa_enabled = True, wa_type = 5\<rparr>" 0]
    by (simp add: example_client_login_def example_form_app_def del: post_auth_handler.simps)
qed
theorem accepted_config_sound_witness:
  "\<exists>p. cmd_parser (example_cfg_env example_file) example_args = Inr p \<and> network_ok (cf_network (pm_config p))
    \<and> certs_ok p \<and> auth_ok (pm_auth p)"
  using example_accepted accepted_config_sound by blast

theorem reload_same_config_witness:
  "\<exists>p. cmd_parser (example_cfg_env example_file) example_args = Inr p
    \<and> reload_cfg_file (example_cfg_env example_file) (cfg_file_of example_args) p =
        Inr (p\<lparr>pm_config := (pm_config p)\<lparr>cf_foreground := False, cf_debug := 0\<rparr>\<rparr>)"
  using example_accepted reload_same_config by blast

section \<open>Faults\<close>

theorem config_lines_limit_witness:
  "read_multi_line (replicate 96 (''route'', Opt_string ''10.0.0.0/8'')) ''route'' [] = Inl (Cfg_memory Out_of_bounds)"
proof -
  have a: "all_strings (replicate k (''route'', Opt_string r))" "lines_of ''route'' (replicate k (''route'', Opt_string r)) = replicate k r"
    for k r by (induction k) (simp_all add: all_strings_def)
  have "''route'' \<in> set available_options" by (simp add: available_options_def)
  then show ?thesis
    using config_lines_limit [OF a(1), of "''route''"] a(2) by (simp add: mandatory_def MAX_CONFIG_ENTRIES_def)
qed

theorem radius_groupconfig_ignored_witness:
  "\<exists>c'. primary_auth ''radius[config=/etc/r.conf,groupconfig=true]'' zero_auth_cfg = Inr c'
    \<and> \<not> ac_sup_radius c' \<and> au_additional (ac_auth c' ! 0) = Some (Radius_cfg ''/etc/r.conf'' None)"
proof -
  have "case primary_auth ''radius[config=/etc/r.conf,groupconfig=true]'' zero_auth_cfg of Inl e \<Rightarrow> False | Inr c \<Rightarrow> True"
    by code_simp
  then obtain c' where c': "primary_auth ''radius[config=/etc/r.conf,groupconfig=true]'' zero_auth_cfg = Inr c'"
    by (auto split: sum.splits)
  moreover have "value_text ''/etc/r.conf''" by (simp add: value_text_def c_isspace_def)
  ultimately show ?thesis
    using radius_groupconfig_ignored [of "''/etc/r.conf''" "''groupconfig=true]''" zero_auth_cfg c']
    by (simp add: zero_auth_cfg_def MAX_AUTH_METHODS_def)
qed

theorem kkdcp_url_lost_witness:
  "\<exists>ks. parse_kkdcp (\<lambda>d h p. Some [1]) [''/A R.A udp@h1:88'', ''/A R.B udp@h2:88'', ''/B R.C tcp@h3:88''] = Inr (ks, 2)
    \<and> Some ''/B'' \<notin> kk_url ` set (take 2 ks)"
proof -
  have "split_kkdcp ''/A R.A udp@h1:88'' = Some (''/A'', ''R.A udp@h1'', True, ''h1'', ''88'')"
    "split_kkdcp ''/A R.B udp@h2:88'' = Some (''/A'', ''R.B udp@h2'', True, ''h2'', ''88'')"
    "split_kkdcp ''/B R.C tcp@h3:88'' = Some (''/B'', ''R.C tcp@h3'', False, ''h3'', ''88'')"
    by code_simp+
  from kkdcp_url_lost [OF this(1,2,3,1), of "\<lambda>d h p. Some [1]" "\<lambda>d h p. [1]"] show ?thesis by auto
qed

end
