(* ===== verification/ConfiguredExample.thy ===== *)
theory ConfiguredExample
  imports ConfiguredLogin CfgExamples
begin

text \<open>
  The example configuration, its security module and a worker: the password of the file's user is
  posted, and the login ends with a cookie.
\<close>

section \<open>A configured login\<close>

definition example_mods :: "auth_mod_id \<Rightarrow> auth_additional option \<Rightarrow> plain_ctx auth_mod" where
  "example_mods m add = plain_auth_funcs (if add = Some (Plain_cfg ''/etc/ocpasswd'') then Some example_pw_file else None) example_crypt"

lemma example_sec_methods:
  assumes "pm_auth p = example_auth"
  shows "sg_auth example_plain = sec_methods example_mods p"
  using assms by (simp add: plain_cfg_def sec_methods_def example_auth_def example_mods_def)

lemma example_file_lines:
  "lines_of ''auth'' example_file = [plain_line ''/etc/ocpasswd'']" "lines_of ''enable-auth'' example_file = []"
  "all_strings example_file"
  by (simp_all add: example_options_def lines_of_def List.map_filter_def plain_line_def all_strings_def)

theorem configured_login_needs_password_witness:
  "\<exists>u pass gs h. parse_reply (lg_body example_password_login) PASSWORD_FIELD None = Some pass
    \<and> scan_passwd (strlcpy_str MAX_USERNAME_SIZE u) (fgets_all example_pw_file) ([], []) = Inr (gs, h)
    \<and> h \<noteq> [] \<and> example_crypt pass h = h"
proof -
  obtain p where p: "cmd_parser (example_cfg_env example_file) example_args = Inr p" "pm_auth p = example_auth"
    using example_accepted by blast
  obtain tr where t: "sm_run example_plain 0 (\<lambda>_ _. None) tr [example_asked]" using example_user_run by blast
  obtain r where r: "post_auth_handler 1 example_password_env example_login_cfg example_password_login = Some r"
      "auth_state (login_of r) = S_AUTH_COOKIE" using example_password_runs by blast
  have read_file: "load_cfg (example_cfg_env example_file) (cfg_file_of example_args) = Some example_file"
    by (simp add: load_cfg_def example_cfg_env_def)
  have text_ok: "value_text ''/etc/ocpasswd''" "RBRACKET \<notin> set ''/etc/ocpasswd''"
    by (simp_all add: value_text_def c_isspace_def)
  have mods: "example_mods Mod_plain (Some (Plain_cfg ''/etc/ocpasswd'')) = plain_auth_funcs (Some example_pw_file) example_crypt"
    by (simp add: example_mods_def)
  have m: "ha_selected_auth (lg_app example_password_login) = Some \<lparr>wa_enabled = True, wa_type = 5\<rparr>"
    "\<lparr>wa_enabled = True, wa_type = 5\<rparr> \<in> set (worker_methods p)"
    "auth_state example_password_login \<noteq> S_AUTH_COOKIE"
    using p(2) by (simp_all add: worker_methods_def example_auth_def auth_types example_password_login_def example_login_defs Let_def)
  have env: "lv_reply example_password_env =
      secmod_answer (replicate 32 0) example_plain 0 (\<lambda>_ _. None) example_sm_env [example_asked]"
    by (simp add: example_password_env_def)
  show ?thesis
    using configured_login_needs_password [OF p(1) read_file example_file_lines(3,1,2) text_ok mods example_sec_methods [OF p(2)]
        t m(1,2) env r(1) m(3) r(2)] by metis
qed

end
