(* ===== verification/Radius.thy ===== *)
theory Radius
  imports SupFile SecMod
begin

text \<open>
  The radius modules: authentication (src/auth/radius.c), the settings that the server sends with
  its answer (src/sup-config/radius.c), and accounting (src/acct/radius.c). What freeradius-client
  does is a parameter: whether an attribute can be added to a request, and the answer to a request.
\<close>

section \<open>The client library\<close>

text \<open>The attributes of a request for authentication.\<close>

datatype auth_attr = User_name string | User_password string | Nas_identifier string
  | Calling_station_id string | Authenticate_only

text \<open>
  The attributes of an answer, by number and type; the flag of the service type says that it is
  framed. An address of four bytes is a number, longer ones are bytes.
\<close>

datatype reply_attr = Service_type bool | Group_name string | Framed_ipv6_address "byte list"
  | Framed_ipv6_prefix string | Dns_server_ipv6 "byte list" | Framed_ip_address u32 | Framed_ip_netmask u32
  | Ms_primary_dns u32 | Ms_secondary_dns u32 | Framed_route string | Framed_ipv6_route string | Other_attr

datatype aaa_result = Aaa_ok | Aaa_challenge | Aaa_failed

record radius_lib =
  rl_add :: "auth_attr \<Rightarrow> bool"
  rl_aaa :: "auth_attr list \<Rightarrow> aaa_result \<times> reply_attr list"
  rl_default_realm :: "string option"
  rl_ntop4 :: "u32 \<Rightarrow> string"
  rl_ntop6 :: "byte list \<Rightarrow> string option"
  rl_talloc :: bool

section \<open>State\<close>

text \<open>radius_ctx_st.\<close>

record radius_ctx =
  rx_username :: string
  rx_groupname :: string
  rx_remote_ip :: string
  rx_ipv4 :: string
  rx_ipv4_mask :: string
  rx_ipv4_dns1 :: string
  rx_ipv4_dns2 :: string
  rx_ipv6 :: string
  rx_ipv6_net :: string
  rx_ipv6_prefix :: u32
  rx_ipv6_dns1 :: string
  rx_ipv6_dns2 :: string
  rx_routes :: "string list"
  rx_pass_msg :: string
  rx_retries :: u32

definition pass_msg_first :: string where "pass_msg_first = ''Please enter your password.''"
definition pass_msg_second :: string where "pass_msg_second = ''Please enter your challenge password.''"
definition pass_msg_failed :: string where "pass_msg_failed = ''Login failed.'' @ [LF] @ ''Please enter your password.''"

text \<open>The identifier of the server; without a configuration or its dictionary the process ends.\<close>

definition radius_global_init :: "(string \<Rightarrow> bool) \<Rightarrow> bool \<Rightarrow> auth_additional option \<Rightarrow> cfg_error + string" where
  "radius_global_init read_config dictionary add =
     (case add of
        Some (Radius_cfg config nas) \<Rightarrow>
          if read_config config \<and> dictionary
          then Inr (case nas of None \<Rightarrow> [] | Some n \<Rightarrow> strlcpy_str 64 n)
          else Inl Cfg_exit
      | _ \<Rightarrow> Inl Cfg_exit)"

section \<open>Authentication\<close>

definition USERNAME_ROOM :: nat where "USERNAME_ROOM = 2 * MAX_USERNAME_SIZE"

text \<open>The realm is added to a name that has none; any other name is copied without a bound.\<close>

definition radius_name :: "radius_lib \<Rightarrow> string \<Rightarrow> mem_error + string" where
  "radius_name lib u =
     (case rl_default_realm lib of
        Some realm \<Rightarrow>
          if CHR ''@'' \<notin> set u \<and> realm \<noteq> [] then Inr (take (USERNAME_ROOM - 1) (u @ ''@'' @ realm))
          else if length u < USERNAME_ROOM then Inr u else Inl Out_of_bounds
      | None \<Rightarrow> if length u < USERNAME_ROOM then Inr u else Inl Out_of_bounds)"

definition radius_auth_init :: "radius_lib \<Rightarrow> string option \<Rightarrow> string \<Rightarrow> mem_error + int \<times> radius_ctx option" where
  "radius_auth_init lib username ip =
     (case username of
        None \<Rightarrow> Inr (ERR_AUTH_FAIL, None)
      | Some u \<Rightarrow>
          if u = [] \<or> \<not> rl_talloc lib then Inr (ERR_AUTH_FAIL, None)
          else
            and_then (radius_name lib u) (\<lambda>name.
              Inr (ERR_AUTH_CONTINUE, Some \<lparr>rx_username = name, rx_groupname = [], rx_remote_ip = strlcpy_str MAX_IP_STR ip,
                rx_ipv4 = [], rx_ipv4_mask = [], rx_ipv4_dns1 = [], rx_ipv4_dns2 = [], rx_ipv6 = [], rx_ipv6_net = [],
                rx_ipv6_prefix = 0, rx_ipv6_dns1 = [], rx_ipv6_dns2 = [], rx_routes = [],
                rx_pass_msg = pass_msg_first, rx_retries = 0\<rparr>)))"

definition radius_auth_group :: "radius_ctx \<Rightarrow> string option \<Rightarrow> nat \<Rightarrow> int \<times> string" where
  "radius_auth_group pctx suggested siz =
     (case suggested of
        Some s \<Rightarrow> if s = rx_groupname pctx then (0, strlcpy_str siz (rx_groupname pctx)) else (-1, [])
      | None \<Rightarrow> (0, strlcpy_str siz (rx_groupname pctx)))"

text \<open>
  A route is what comes before the first space behind its slash; without a slash it is dropped.
  \<open>len\<close> is the length that the answer gives.
\<close>

definition append_route :: "string \<Rightarrow> nat \<Rightarrow> radius_ctx \<Rightarrow> radius_ctx" where
  "append_route route len pctx =
     (case strchr (CHR ''/'') route of
        None \<Rightarrow> pctx
      | Some (net, r) \<Rightarrow>
          let n = (case strchr (CHR '' '') r of None \<Rightarrow> len | Some (m, _) \<Rightarrow> length net + 1 + length m)
          in pctx\<lparr>rx_routes := rx_routes pctx @ [take n route]\<rparr>)"

text \<open>What one attribute of the answer changes; None: the answer is refused.\<close>

definition read_attr :: "radius_lib \<Rightarrow> reply_attr \<Rightarrow> radius_ctx \<Rightarrow> radius_ctx option" where
  "read_attr lib a pctx =
     (case a of
        Service_type framed \<Rightarrow> if framed then Some pctx else None
      | Group_name g \<Rightarrow> Some (pctx\<lparr>rx_groupname := strlcpy_str MAX_GROUPNAME_SIZE g\<rparr>)
      | Framed_ipv6_address bs \<Rightarrow>
          Some (case rl_ntop6 lib bs of
                  None \<Rightarrow> pctx
                | Some s \<Rightarrow> pctx\<lparr>rx_ipv6 := s, rx_ipv6_prefix := 64, rx_ipv6_net := strlcpy_str MAX_IP_STR s\<rparr>)
      | Framed_ipv6_prefix s \<Rightarrow>
          Some (if 2 < length s \<and> length s \<le> 18
                   \<and> rl_ntop6 lib (map of_char (drop 2 s) @ replicate (18 - length s) 0) \<noteq> None
                then append_route (c_string s) (length s) pctx else pctx)
      | Dns_server_ipv6 bs \<Rightarrow>
          Some (case rl_ntop6 lib bs of
                  None \<Rightarrow> pctx
                | Some s \<Rightarrow> if rx_ipv6_dns1 pctx = [] then pctx\<lparr>rx_ipv6_dns1 := s\<rparr> else pctx\<lparr>rx_ipv6_dns2 := s\<rparr>)
      | Framed_ip_address n \<Rightarrow> Some (pctx\<lparr>rx_ipv4 := rl_ntop4 lib n\<rparr>)
      | Framed_ip_netmask n \<Rightarrow> Some (pctx\<lparr>rx_ipv4_mask := rl_ntop4 lib n\<rparr>)
      | Ms_primary_dns n \<Rightarrow> Some (pctx\<lparr>rx_ipv4_dns1 := rl_ntop4 lib n\<rparr>)
      | Ms_secondary_dns n \<Rightarrow> Some (pctx\<lparr>rx_ipv4_dns2 := rl_ntop4 lib n\<rparr>)
      | Framed_route s \<Rightarrow> Some (append_route s (length s) pctx)
      | Framed_ipv6_route s \<Rightarrow> Some (append_route s (length s) pctx)
      | Other_attr \<Rightarrow> Some pctx)"

text \<open>The loop; the flag says that it went through. What it has read before it fails stays.\<close>

fun read_reply :: "radius_lib \<Rightarrow> reply_attr list \<Rightarrow> radius_ctx \<Rightarrow> bool \<times> radius_ctx" where
  "read_reply lib [] pctx = (True, pctx)"
| "read_reply lib (a # as) pctx =
     (case read_attr lib a pctx of None \<Rightarrow> (False, pctx) | Some c \<Rightarrow> read_reply lib as c)"

definition auth_request :: "string \<Rightarrow> radius_ctx \<Rightarrow> string \<Rightarrow> auth_attr list" where
  "auth_request nas pctx pass =
     [User_name (rx_username pctx), User_password pass] @ (if nas = [] then [] else [Nas_identifier nas])
     @ [Calling_station_id (rx_remote_ip pctx), Authenticate_only]"

definition radius_retry :: "radius_ctx \<Rightarrow> int \<times> radius_ctx" where
  "radius_retry pctx =
     (let c = pctx\<lparr>rx_retries := rx_retries pctx + 1\<rparr> in
      if rx_retries pctx < word_of_nat (MAX_PASSWORD_TRIES - 1) then (ERR_AUTH_CONTINUE, c\<lparr>rx_pass_msg := pass_msg_failed\<rparr>)
      else (ERR_AUTH_FAIL, c))"

definition radius_auth_pass :: "radius_lib \<Rightarrow> string \<Rightarrow> radius_ctx \<Rightarrow> string \<Rightarrow> int \<times> radius_ctx" where
  "radius_auth_pass lib nas pctx pass =
     (let req = auth_request nas pctx pass in
      if \<not> list_all (rl_add lib) req then (ERR_AUTH_FAIL, pctx)
      else
        (case rl_aaa lib req of
           (Aaa_ok, recvd) \<Rightarrow>
             (case read_reply lib recvd pctx of (True, c) \<Rightarrow> (0, c) | (False, c) \<Rightarrow> radius_retry c)
         | (Aaa_challenge, _) \<Rightarrow> (ERR_AUTH_CONTINUE, pctx\<lparr>rx_pass_msg := pass_msg_second\<rparr>)
         | (Aaa_failed, _) \<Rightarrow> radius_retry pctx))"

definition radius_auth_msg :: "radius_ctx \<Rightarrow> int \<times> string option" where
  "radius_auth_msg pctx = (0, Some (rx_pass_msg pctx))"

text \<open>radius_auth_funcs as the security module sees it; a name that overruns the buffer is not modelled here.\<close>

definition radius_auth_funcs :: "radius_lib \<Rightarrow> string \<Rightarrow> radius_ctx auth_mod" where
  "radius_auth_funcs lib nas =
     \<lparr>am_allows_retries = True,
      am_auth_init = (\<lambda>u ip. case radius_auth_init lib u ip of Inl _ \<Rightarrow> (ERR_AUTH_FAIL, None) | Inr r \<Rightarrow> r),
      am_auth_msg = (\<lambda>ctx. case ctx of None \<Rightarrow> (0, None) | Some c \<Rightarrow> radius_auth_msg c),
      am_auth_pass = (\<lambda>ctx p. case ctx of
          None \<Rightarrow> (ERR_AUTH_FAIL, None)
        | Some c \<Rightarrow> (case radius_auth_pass lib nas c p of (r, c') \<Rightarrow> (r, Some c'))),
      am_auth_group = (\<lambda>ctx g. case ctx of None \<Rightarrow> (-1, []) | Some c \<Rightarrow> radius_auth_group c g MAX_GROUPNAME_SIZE),
      am_auth_user = (\<lambda>ctx u. u)\<rparr>"

section \<open>The user's settings\<close>

definition nonempty :: "string list \<Rightarrow> string list" where
  "nonempty = filter (\<lambda>s. s \<noteq> [])"

definition set_text_if :: "string \<Rightarrow> string option \<Rightarrow> string option" where
  "set_text_if s old = (if s = [] then old else Some s)"

definition radius_sup_config :: "radius_ctx option \<Rightarrow> sup_reply \<Rightarrow> sup_reply" where
  "radius_sup_config ctx m =
     (case ctx of
        None \<Rightarrow> m
      | Some c \<Rightarrow>
          let dns = nonempty [rx_ipv4_dns1 c, rx_ipv4_dns2 c, rx_ipv6_dns1 c, rx_ipv6_dns2 c] in
          m\<lparr>ur_explicit_ipv4 := set_text_if (rx_ipv4 c) (ur_explicit_ipv4 m),
            ur_ipv4_netmask := set_text_if (rx_ipv4_mask c) (ur_ipv4_netmask m),
            ur_routes := (if rx_routes c = [] then ur_routes m else rx_routes c),
            ur_dns := (if dns = [] then ur_dns m else dns),
            ur_explicit_ipv6 := set_text_if (rx_ipv6 c) (ur_explicit_ipv6 m),
            ur_ipv6_net := set_text_if (rx_ipv6_net c) (ur_ipv6_net m),
            ur_ipv6_prefix := (if rx_ipv6_prefix c = 0 then ur_ipv6_prefix m else (rx_ipv6_prefix c, True))\<rparr>)"

section \<open>Accounting\<close>

datatype acct_status = Acct_start | Acct_alive | Acct_stop

datatype acct_attr = Status_type acct_status | Terminate_cause_user_request | Acct_nas_identifier string
  | Acct_user_name string | Acct_service_framed | Acct_protocol_ppp | Acct_framed_ip u32 | Acct_calling_station string
  | Acct_session_id string | Acct_authentic_radius | Acct_port_async | Session_time u32
  | Input_octets u32 | Output_octets u32 | Input_gigawords u32 | Output_gigawords u32

text \<open>Attributes are added until one of them cannot be.\<close>

definition add_attrs :: "(acct_attr \<Rightarrow> bool) \<Rightarrow> acct_attr list \<Rightarrow> acct_attr list" where
  "add_attrs add as = takeWhile add as"

definition append_stats :: "(acct_attr \<Rightarrow> bool) \<Rightarrow> stats \<Rightarrow> acct_attr list" where
  "append_stats add s = add_attrs add
     ((if st_uptime s \<noteq> 0 then [Session_time (word_of_int (st_uptime s))] else [])
      @ [Input_octets (ucast (st_bytes_in s)), Output_octets (ucast (st_bytes_out s)),
         Input_gigawords (ucast (st_bytes_in s div 4294967296)),
         Output_gigawords (ucast (st_bytes_in s div 4294967296))])"

text \<open>\<open>psid\<close> is the printable session id; \<open>pton\<close> reads an IPv4 address.\<close>

definition append_acct_standard ::
  "(acct_attr \<Rightarrow> bool) \<Rightarrow> (string \<Rightarrow> u32) \<Rightarrow> string \<Rightarrow> string \<Rightarrow> auth_info \<Rightarrow> acct_attr list" where
  "append_acct_standard add pton nas psid ai = add_attrs add
     ((if nas = [] then [] else [Acct_nas_identifier nas])
      @ [Acct_user_name (ai_username ai), Acct_service_framed, Acct_protocol_ppp]
      @ (if ai_ipv4 ai = [] then [] else [Acct_framed_ip (pton (ai_ipv4 ai))])
      @ [Acct_calling_station (ai_remote_ip ai), Acct_session_id psid, Acct_authentic_radius, Acct_port_async])"

text \<open>The request that is sent, or None.\<close>

definition radius_acct_session_stats ::
  "(acct_attr \<Rightarrow> bool) \<Rightarrow> (string \<Rightarrow> u32) \<Rightarrow> string \<Rightarrow> string \<Rightarrow> auth_info \<Rightarrow> stats \<Rightarrow> acct_attr list option" where
  "radius_acct_session_stats add pton nas psid ai s =
     (if \<not> add (Status_type Acct_alive) then None
      else Some (Status_type Acct_alive # append_acct_standard add pton nas psid ai @ append_stats add s))"

definition radius_acct_open_session ::
  "(acct_attr \<Rightarrow> bool) \<Rightarrow> (acct_attr list \<Rightarrow> bool) \<Rightarrow> (string \<Rightarrow> u32) \<Rightarrow> string \<Rightarrow> string \<Rightarrow> auth_info \<Rightarrow> nat \<Rightarrow> int \<times> acct_attr list option" where
  "radius_acct_open_session add aaa pton nas psid ai sid_size =
     (if sid_size \<noteq> SID_SIZE \<or> \<not> add (Status_type Acct_start) then (-1, None)
      else let req = Status_type Acct_start # append_acct_standard add pton nas psid ai
           in (if aaa req then 0 else -1, Some req))"

definition radius_acct_close_session ::
  "(acct_attr \<Rightarrow> bool) \<Rightarrow> (string \<Rightarrow> u32) \<Rightarrow> string \<Rightarrow> string \<Rightarrow> auth_info \<Rightarrow> stats \<Rightarrow> acct_attr list option" where
  "radius_acct_close_session add pton nas psid ai s =
     (if \<not> add (Status_type Acct_stop) \<or> \<not> add Terminate_cause_user_request then None
      else Some ([Status_type Acct_stop, Terminate_cause_user_request]
                 @ append_acct_standard add pton nas psid ai @ append_stats add s))"

end
