(* ===== verification/RadiusLogin.thy ===== *)
theory RadiusLogin
  imports Radius SupLayers PlainLogin
begin

text \<open>
  Logging in with radius: the module keeps the contract of authentication modules, so that a cookie
  means an answer of the radius server; what that answer sets reaches the client; its group does
  not; and what is accounted.
\<close>

section \<open>The module\<close>

definition radius_cfg :: "radius_ctx sec_cfg \<Rightarrow> radius_lib \<Rightarrow> string \<Rightarrow> radius_ctx sec_cfg" where
  "radius_cfg base lib nas = base\<lparr>sg_auth :=
     [\<lparr>as_enabled = True, as_type = AUTH_TYPE_RADIUS, as_amod = Some (radius_auth_funcs lib nas)\<rparr>]\<rparr>"

text \<open>A context is for the name that the client gave, with the realm.\<close>

definition radius_of_user :: "radius_lib \<Rightarrow> string \<Rightarrow> radius_ctx \<Rightarrow> bool" where
  "radius_of_user lib u c \<longleftrightarrow> u \<noteq> []
     \<and> (\<exists>v. u = strlcpy_str USERNAME_ROOM v \<and> radius_name lib v = Inr (rx_username c))"

lemma append_route_same [simp]: "rx_username (append_route s n c) = rx_username c"
  "rx_retries (append_route s n c) = rx_retries c" "rx_groupname (append_route s n c) = rx_groupname c"
  "rx_ipv4 (append_route s n c) = rx_ipv4 c" "rx_ipv4_mask (append_route s n c) = rx_ipv4_mask c"
  "rx_ipv6 (append_route s n c) = rx_ipv6 c" "rx_ipv6_net (append_route s n c) = rx_ipv6_net c"
  "rx_ipv6_prefix (append_route s n c) = rx_ipv6_prefix c" "rx_remote_ip (append_route s n c) = rx_remote_ip c"
  "rx_ipv4_dns1 (append_route s n c) = rx_ipv4_dns1 c" "rx_ipv4_dns2 (append_route s n c) = rx_ipv4_dns2 c"
  "rx_ipv6_dns1 (append_route s n c) = rx_ipv6_dns1 c" "rx_ipv6_dns2 (append_route s n c) = rx_ipv6_dns2 c"
  by (auto simp: append_route_def split: option.split)

lemma read_attr_user: "read_attr lib a c = Some c' \<Longrightarrow> rx_username c' = rx_username c"
  by (cases a) (auto simp: read_attr_def split: if_splits option.splits)

lemma read_reply_user: "read_reply lib as c = (b, c') \<Longrightarrow> rx_username c' = rx_username c"
  by (induction as arbitrary: c) (auto split: option.splits dest: read_attr_user)

lemma radius_pass_user: "radius_auth_pass lib nas c p = (r, c') \<Longrightarrow> rx_username c' = rx_username c"
  by (auto simp: radius_auth_pass_def radius_retry_def Let_def split: if_splits prod.splits aaa_result.splits bool.splits
      dest: read_reply_user)

lemma radius_same_user: "radius_of_user lib u c \<Longrightarrow> radius_auth_pass lib nas c p = (r, c') \<Longrightarrow> radius_of_user lib u c'"
  using radius_pass_user by (simp add: radius_of_user_def)

lemma radius_init_ctx:
  "radius_auth_init lib (Some u) ip = Inr (r, Some c) \<Longrightarrow>
    r = ERR_AUTH_CONTINUE \<and> radius_of_user lib (strlcpy_str USERNAME_ROOM u) c \<and> rx_groupname c = []"
  by (auto simp: radius_auth_init_def radius_of_user_def strlcpy_str_def and_then_Inr USERNAME_ROOM_def sec_consts
      take_Cons' split: if_splits)

lemma radius_init_negative: "fst (am_auth_init (radius_auth_funcs lib nas) u ip) < 0"
  by (auto simp: radius_auth_funcs_def radius_auth_init_def err_codes and_then_def split: option.splits if_splits sum.splits)

interpretation radius: password_module "radius_cfg base lib nas" "radius_of_user lib" for base lib nas
proof (unfold_locales, goal_cases)
  case (1 m am u ip r c)
  then show ?case
    by (auto simp: radius_cfg_def radius_auth_funcs_def dest: radius_init_ctx [unfolded USERNAME_ROOM_def] split: sum.splits)
next
  case (2 m am ip)
  then show ?case by (auto simp: radius_cfg_def radius_auth_funcs_def radius_auth_init_def)
next
  case (3 m am c p r c' u)
  then show ?case
    by (auto simp: radius_cfg_def radius_auth_funcs_def elim: radius_same_user split: prod.splits)
next
  case (4 m am p)
  then show ?case by (auto simp: radius_cfg_def radius_auth_funcs_def)
next
  case (5 m am ctx u)
  then show ?case by (auto simp: radius_cfg_def radius_auth_funcs_def)
next
  case (6 u c)
  then show ?case by (simp add: radius_of_user_def)
next
  case (7 m)
  then show ?case by (simp add: radius_cfg_def)
next
  case (8 m am u ip)
  then show ?case using radius_init_negative [of lib nas u ip] by (simp add: radius_cfg_def)
next
  case (9 m am p)
  then show ?case by (auto simp: radius_cfg_def radius_auth_funcs_def err_codes)
qed

section \<open>Only with the server's answer\<close>

lemma read_reply_framed: "read_reply lib as c = (True, c') \<Longrightarrow> Service_type False \<notin> set as"
  by (induction as arbitrary: c) (auto simp: read_attr_def split: option.splits)

lemma radius_pass_ok:
  "radius_auth_pass lib nas c p = (0, c') \<Longrightarrow> \<exists>as. rl_aaa lib (auth_request nas c p) = (Aaa_ok, as)
    \<and> read_reply lib as c = (True, c') \<and> list_all (rl_add lib) (auth_request nas c p)"
  by (auto simp: radius_auth_pass_def radius_retry_def err_codes Let_def
      split: if_splits prod.splits aaa_result.splits bool.splits)

text \<open>
  C7: a login with radius. Where the security module uses the radius module, a worker's login ends
  with a cookie only when the server answered OK, with no service other than framed, to a request
  that has the name of the session's user, with the realm, and the password that the client posted.
\<close>

theorem radius_login_needs_accept:
  assumes "sm_run (radius_cfg base lib nas) ks ko tr db"
    and "lv_reply env = secmod_answer dtls (radius_cfg base lib nas) ks ko senv db"
    and "post_auth_handler n env wcfg l = Some r" and "auth_state l \<noteq> S_AUTH_COOKIE"
    and "auth_state (login_of r) = S_AUTH_COOKIE" and "\<not> sel AUTH_TYPE_GSSAPI l"
  shows "\<exists>v name pass req as. parse_reply (lg_body l) PASSWORD_FIELD None = Some pass
    \<and> lg_username (login_of r) = strlcpy_str MAX_USERNAME_SIZE v \<and> radius_name lib v = Inr name
    \<and> {User_name name, User_password pass} \<subseteq> set req
    \<and> rl_aaa lib req = (Aaa_ok, as) \<and> Service_type False \<notin> set as"
proof -
  obtain u pass m am x y where h: "parse_reply (lg_body l) PASSWORD_FIELD None = Some pass"
      "lg_username (login_of r) = strlcpy_str MAX_USERNAME_SIZE u" "m \<in> set (sg_auth (radius_cfg base lib nas))"
      "as_amod m = Some am" "am_auth_pass am (Some x) pass = (0, y)" "radius_of_user lib u x"
    using radius.form_password [OF assms] by blast
  obtain v where v: "u = strlcpy_str USERNAME_ROOM v" "radius_name lib v = Inr (rx_username x)"
    using h(6) by (auto simp: radius_of_user_def)
  have "am = radius_auth_funcs lib nas" using h(3,4) by (simp add: radius_cfg_def)
  then obtain c' where "radius_auth_pass lib nas x pass = (0, c')"
    using h(5) by (auto simp: radius_auth_funcs_def split: prod.splits)
  then obtain as where "rl_aaa lib (auth_request nas x pass) = (Aaa_ok, as)" "Service_type False \<notin> set as"
    using radius_pass_ok read_reply_framed by metis
  moreover have "{User_name (rx_username x), User_password pass} \<subseteq> set (auth_request nas x pass)"
    by (simp add: auth_request_def)
  moreover have "strlcpy_str MAX_USERNAME_SIZE u = strlcpy_str MAX_USERNAME_SIZE v"
    using v(1) by (simp add: strlcpy_str_def USERNAME_ROOM_def sec_consts)
  ultimately show ?thesis using h(1,2) v(2) by metis
qed

section \<open>The settings of the answer\<close>

fun last_attr :: "(reply_attr \<Rightarrow> 'a option) \<Rightarrow> reply_attr list \<Rightarrow> 'a option" where
  "last_attr f [] = None"
| "last_attr f (a # as) = set_if (last_attr f as) (f a)"

definition framed_ip :: "reply_attr \<Rightarrow> u32 option" where
  "framed_ip a = (case a of Framed_ip_address n \<Rightarrow> Some n | _ \<Rightarrow> None)"

definition framed_netmask :: "reply_attr \<Rightarrow> u32 option" where
  "framed_netmask a = (case a of Framed_ip_netmask n \<Rightarrow> Some n | _ \<Rightarrow> None)"

definition framed_ip6 :: "radius_lib \<Rightarrow> reply_attr \<Rightarrow> string option" where
  "framed_ip6 lib a = (case a of Framed_ipv6_address bs \<Rightarrow> rl_ntop6 lib bs | _ \<Rightarrow> None)"

definition route_text :: "string \<Rightarrow> string list" where
  "route_text s = (case strchr (CHR ''/'') s of
     None \<Rightarrow> []
   | Some (net, r) \<Rightarrow> [net @ CHR ''/'' # takeWhile (\<lambda>c. c \<noteq> CHR '' '') r])"

text \<open>
  The routes of an attribute. The bytes of an IPv6 prefix are taken for the text of a route, so that
  it is one only where they contain a slash.
\<close>

definition routes_in :: "radius_lib \<Rightarrow> reply_attr \<Rightarrow> string list" where
  "routes_in lib a = (case a of
     Framed_route s \<Rightarrow> route_text s
   | Framed_ipv6_route s \<Rightarrow> route_text s
   | Framed_ipv6_prefix s \<Rightarrow>
       (if 2 < length s \<and> length s \<le> 18
           \<and> rl_ntop6 lib (map of_char (drop 2 s) @ replicate (18 - length s) 0) \<noteq> None
        then route_text (c_string s) else [])
   | _ \<Rightarrow> [])"

lemma takeWhile_absent: "c \<notin> set s \<Longrightarrow> takeWhile (\<lambda>x. x \<noteq> c) s = s"
  by (induction s) auto

lemma append_route_text:
  assumes "length s \<le> n"
  shows "rx_routes (append_route s n c) = rx_routes c @ route_text s"
proof (cases "strchr (CHR ''/'') s")
  case None
  then show ?thesis by (simp add: append_route_def route_text_def)
next
  case (Some p)
  obtain net r where p: "p = (net, r)" by fastforce
  have s: "s = net @ CHR ''/'' # r" using strchr_split Some p by fast
  show ?thesis
  proof (cases "strchr (CHR '' '') r")
    case None
    then have "CHR '' '' \<notin> set r" by (auto simp: strchr_def split: if_splits)
    from takeWhile_absent [OF this] show ?thesis
      using Some p None s assms by (simp add: append_route_def route_text_def del: takeWhile_eq_all_conv)
  next
    case q: (Some q)
    obtain m t where "q = (m, t)" by fastforce
    then have r: "r = m @ CHR '' '' # t" "CHR '' '' \<notin> set m" using strchr_split q by fast+
    then have "takeWhile (\<lambda>c. c \<noteq> CHR '' '') r = m" using takeWhile_absent [OF r(2)] by (simp add: takeWhile_tail del: takeWhile_eq_all_conv)
    then show ?thesis using Some p q \<open>q = _\<close> s r by (simp add: append_route_def route_text_def)
  qed
qed

text \<open>Name servers: the IPv4 ones have their places, of the IPv6 ones the first and the last count.\<close>

definition dns_at1 :: "reply_attr \<Rightarrow> u32 option" where
  "dns_at1 a = (case a of Ms_primary_dns n \<Rightarrow> Some n | _ \<Rightarrow> None)"

definition dns_at2 :: "reply_attr \<Rightarrow> u32 option" where
  "dns_at2 a = (case a of Ms_secondary_dns n \<Rightarrow> Some n | _ \<Rightarrow> None)"

definition dns6_in :: "radius_lib \<Rightarrow> reply_attr \<Rightarrow> string list" where
  "dns6_in lib a = (case a of
     Dns_server_ipv6 bs \<Rightarrow> (case rl_ntop6 lib bs of None \<Rightarrow> [] | Some s \<Rightarrow> [s]) | _ \<Rightarrow> [])"

definition first_last :: "'a list \<Rightarrow> 'a list" where
  "first_last ts = (case ts of [] \<Rightarrow> [] | [t] \<Rightarrow> [t] | t # u \<Rightarrow> [t, last u])"

fun place_dns :: "string list \<Rightarrow> string \<times> string \<Rightarrow> string \<times> string" where
  "place_dns [] p = p"
| "place_dns (t # ts) (d1, d2) = place_dns ts (if d1 = [] then (t, d2) else (d1, t))"

lemma place_dns_append: "place_dns (a @ b) p = place_dns b (place_dns a p)"
  by (induction a p rule: place_dns.induct) auto

lemma place_dns_second: "d1 \<noteq> [] \<Longrightarrow> place_dns ts (d1, d2) = (d1, if ts = [] then d2 else last ts)"
  by (induction ts arbitrary: d2) auto

lemma place_dns_nonempty:
  assumes "[] \<notin> set ts" and "place_dns ts ([], []) = (d1, d2)"
  shows "nonempty [d1, d2] = first_last ts"
proof (cases ts)
  case (Cons t u)
  then have "(d1, d2) = (t, if u = [] then [] else last u)" using assms place_dns_second [of t u "[]"] by auto
  moreover have "last u \<noteq> []" if "u \<noteq> []" using last_in_set [OF that] assms(1) Cons by auto
  ultimately show ?thesis using Cons assms(1) by (auto simp: nonempty_def first_last_def split: list.split)
qed (use assms in \<open>simp add: nonempty_def first_last_def\<close>)

text \<open>The fields that one attribute sets, and that a list of them sets.\<close>

definition text_or :: "string \<Rightarrow> string option \<Rightarrow> string" where
  "text_or s x = (case x of None \<Rightarrow> s | Some t \<Rightarrow> t)"

definition dns6_pair :: "radius_ctx \<Rightarrow> string \<times> string" where
  "dns6_pair c = (rx_ipv6_dns1 c, rx_ipv6_dns2 c)"

definition fields_after :: "radius_lib \<Rightarrow> reply_attr list \<Rightarrow> radius_ctx \<Rightarrow> radius_ctx \<Rightarrow> bool" where
  "fields_after lib as c c' \<longleftrightarrow>
     rx_ipv4 c' = text_or (rx_ipv4 c) (map_option (rl_ntop4 lib) (last_attr framed_ip as))
     \<and> rx_ipv4_mask c' = text_or (rx_ipv4_mask c) (map_option (rl_ntop4 lib) (last_attr framed_netmask as))
     \<and> rx_ipv4_dns1 c' = text_or (rx_ipv4_dns1 c) (map_option (rl_ntop4 lib) (last_attr dns_at1 as))
     \<and> rx_ipv4_dns2 c' = text_or (rx_ipv4_dns2 c) (map_option (rl_ntop4 lib) (last_attr dns_at2 as))
     \<and> rx_ipv6 c' = text_or (rx_ipv6 c) (last_attr (framed_ip6 lib) as)
     \<and> rx_ipv6_net c' = text_or (rx_ipv6_net c) (map_option (strlcpy_str MAX_IP_STR) (last_attr (framed_ip6 lib) as))
     \<and> rx_ipv6_prefix c' = (if last_attr (framed_ip6 lib) as = None then rx_ipv6_prefix c else 64)
     \<and> dns6_pair c' = place_dns (concat (map (dns6_in lib) as)) (dns6_pair c)
     \<and> rx_routes c' = rx_routes c @ concat (map (routes_in lib) as)"

lemmas attr_fields = framed_ip_def framed_netmask_def framed_ip6_def routes_in_def dns_at1_def dns_at2_def dns6_in_def

lemma c_string_shorter: "length (c_string s) \<le> length s"
  by (simp add: c_string_def length_takeWhile_le)

lemma read_attr_fields: "read_attr lib a c = Some c' \<Longrightarrow> fields_after lib [a] c c'"
  using append_route_text [OF c_string_shorter]
  by (cases a) (auto simp: read_attr_def attr_fields fields_after_def text_or_def set_if_def append_route_text dns6_pair_def
      split: if_splits option.splits)

lemma last_attr_append: "last_attr f (as @ bs) = set_if (last_attr f bs) (last_attr f as)"
  by (induction as) (auto simp: set_if_def)

lemma text_or_set_if: "text_or s (set_if x y) = text_or (text_or s y) x"
  by (auto simp: text_or_def set_if_def split: option.split)

lemma map_set_if: "map_option g (set_if x y) = set_if (map_option g x) (map_option g y)"
  by (simp add: set_if_def)

lemma set_if_is_None: "set_if x y = None \<longleftrightarrow> x = None \<and> y = None"
  by (auto simp: set_if_def)

lemma fields_after_append:
  assumes "fields_after lib as c d" and "fields_after lib bs d e"
  shows "fields_after lib (as @ bs) c e"
  unfolding fields_after_def last_attr_append map_set_if text_or_set_if
  by (simp add: assms [unfolded fields_after_def] place_dns_append set_if_is_None del: split_paired_All)

lemma fields_after_none: "fields_after lib [] c c"
  by (simp add: fields_after_def text_or_def)

text \<open>The attributes that the loop reads: all of them, or those in front of a service type that is not framed.\<close>

definition attrs_read :: "reply_attr list \<Rightarrow> reply_attr list" where
  "attrs_read as = takeWhile (\<lambda>a. a \<noteq> Service_type False) as"

lemma read_reply_fields: "read_reply lib as c = (b, c') \<Longrightarrow> fields_after lib (attrs_read as) c c'"
proof (induction as arbitrary: c)
  case (Cons a as)
  show ?case
  proof (cases "read_attr lib a c")
    case None
    then have "a = Service_type False" by (cases a) (auto simp: read_attr_def split: if_splits option.splits)
    then show ?thesis using Cons.prems by (simp add: attrs_read_def read_attr_def fields_after_none)
  next
    case (Some c1)
    then have "a \<noteq> Service_type False" by (auto simp: read_attr_def)
    moreover have "fields_after lib (attrs_read as) c1 c'" using Cons Some by simp
    ultimately show ?thesis
      using fields_after_append [OF read_attr_fields [OF Some], of "attrs_read as" c'] by (simp add: attrs_read_def)
  qed
qed (simp add: attrs_read_def fields_after_none)

text \<open>What one password makes the module read, and what several passwords do.\<close>

definition answer_read :: "radius_lib \<Rightarrow> string \<Rightarrow> radius_ctx \<Rightarrow> string \<Rightarrow> reply_attr list" where
  "answer_read lib nas c pass =
     (if list_all (rl_add lib) (auth_request nas c pass)
      then (case rl_aaa lib (auth_request nas c pass) of (Aaa_ok, as) \<Rightarrow> attrs_read as | _ \<Rightarrow> []) else [])"

fun radius_passes :: "radius_lib \<Rightarrow> string \<Rightarrow> radius_ctx \<Rightarrow> string list \<Rightarrow> int \<times> radius_ctx" where
  "radius_passes lib nas c [] = (ERR_AUTH_CONTINUE, c)"
| "radius_passes lib nas c (p # ps) =
     (case radius_auth_pass lib nas c p of
        (r, c') \<Rightarrow> if r = ERR_AUTH_CONTINUE then radius_passes lib nas c' ps else (r, c'))"

lemma read_reply_ip: "read_reply lib as c = (b, c') \<Longrightarrow> rx_remote_ip c' = rx_remote_ip c"
proof (induction as arbitrary: c)
  case (Cons a as)
  have "rx_remote_ip d = rx_remote_ip c" if "read_attr lib a c = Some d" for d
    using that by (cases a) (auto simp: read_attr_def split: if_splits option.splits)
  then show ?case using Cons by (auto split: option.splits)
qed simp

lemma fields_after_retry: "fields_after lib as c d \<Longrightarrow> radius_retry d = (r, e) \<Longrightarrow> fields_after lib as c e"
  by (auto simp: radius_retry_def fields_after_def dns6_pair_def Let_def split: if_splits)

lemma radius_pass_fields:
  assumes "radius_auth_pass lib nas c p = (r, c')"
  shows "fields_after lib (answer_read lib nas c p) c c' \<and> rx_username c' = rx_username c \<and> rx_remote_ip c' = rx_remote_ip c"
proof (cases "list_all (rl_add lib) (auth_request nas c p)")
  case False
  then show ?thesis using assms by (simp add: radius_auth_pass_def answer_read_def fields_after_none)
next
  case True
  obtain res as where a: "rl_aaa lib (auth_request nas c p) = (res, as)" by fastforce
  show ?thesis
  proof (cases res)
    case Aaa_ok
    obtain b d where d: "read_reply lib as c = (b, d)" by fastforce
    have "radius_retry d = (r, c') \<or> c' = d"
      using assms True a Aaa_ok d by (auto simp: radius_auth_pass_def split: bool.splits)
    moreover have "fields_after lib (answer_read lib nas c p) c d"
      using read_reply_fields [OF d] True a Aaa_ok by (simp add: answer_read_def)
    moreover have "rx_remote_ip d = rx_remote_ip c" "rx_username d = rx_username c"
      using read_reply_ip [OF d] read_reply_user [OF d] by simp_all
    ultimately show ?thesis by (auto dest: fields_after_retry simp: radius_retry_def Let_def split: if_splits)
  next
    case Aaa_challenge
    then show ?thesis
      using assms True a by (auto simp: radius_auth_pass_def answer_read_def fields_after_def dns6_pair_def text_or_def)
  next
    case Aaa_failed
    then show ?thesis
      using assms True a
      by (auto simp: radius_auth_pass_def answer_read_def fields_after_def dns6_pair_def text_or_def radius_retry_def Let_def
          split: if_splits)
  qed
qed

lemma answer_read_same:
  "rx_username c' = rx_username c \<Longrightarrow> rx_remote_ip c' = rx_remote_ip c \<Longrightarrow> answer_read lib nas c' = answer_read lib nas c"
  by (simp add: fun_eq_iff answer_read_def auth_request_def)

lemma radius_passes_fields:
  "radius_passes lib nas c ps = (r, c') \<Longrightarrow> r = ERR_AUTH_CONTINUE \<Longrightarrow>
    fields_after lib (concat (map (answer_read lib nas c) ps)) c c'
    \<and> rx_username c' = rx_username c \<and> rx_remote_ip c' = rx_remote_ip c"
proof (induction ps arbitrary: c)
  case (Cons p ps)
  obtain c1 where c1: "radius_auth_pass lib nas c p = (ERR_AUTH_CONTINUE, c1)" "radius_passes lib nas c1 ps = (r, c')"
    using Cons.prems by (auto split: prod.splits if_splits)
  note f = radius_pass_fields [OF c1(1)] and g = Cons.IH [OF c1(2) Cons.prems(2)]
  then show ?case using answer_read_same [of c1 c lib nas] fields_after_append by fastforce
qed (simp add: fields_after_none)

text \<open>
  C19: what the radius server assigns is what the client gets. The attributes that count are those
  of the accepted answer and, before them, those that earlier OK answers in the same authentication gave
  in front of a service type for which they were refused: nothing clears them. When the text of an
  address is never empty, the security module's
  reply makes the main process take the last framed address, mask and IPv6 address (the latter also
  as the network, with prefix 64), the primary and secondary name server, of the IPv6 name servers
  the first and the last, and all routes that have a mask, each up to the first space behind it. A
  Framed-IPv6-Prefix counts only as a route, and only where its bytes contain a slash. What no
  such attribute sets, and every other setting, stays as it was in the server's configuration.
\<close>

theorem radius_settings_reach_client:
  assumes "radius_auth_init lib (Some u) ip = Inr (r0, Some c0)"
    and "radius_passes lib nas c0 before = (ERR_AUTH_CONTINUE, c1)" and "radius_auth_pass lib nas c1 pass = (0, c)"
    and "as = concat (map (answer_read lib nas c0) (before @ [pass]))"
    and "\<And>n. rl_ntop4 lib n \<noteq> []" and "\<And>bs. rl_ntop6 lib bs \<noteq> Some []"
    and "addr = (\<lambda>f. map_option (rl_ntop4 lib) (last_attr f as))" and "ip6 = last_attr (framed_ip6 lib) as"
  shows "fill_group_cfg (session_reply_of (radius_sup_config (Some c) empty_sup_reply)) old = old
    \<lparr>gf_routes := lines_or (concat (map (routes_in lib) as)) (gf_routes old),
     gf_dns := lines_or (List.map_filter addr [dns_at1, dns_at2] @ first_last (concat (map (dns6_in lib) as))) (gf_dns old),
     gf_lease := (gf_lease old)
       \<lparr>lc_explicit_ipv4 := set_if (addr framed_ip) (lc_explicit_ipv4 (gf_lease old)),
        lc_ipv4_netmask := set_if (addr framed_netmask) (lc_ipv4_netmask (gf_lease old)),
        lc_explicit_ipv6 := set_if ip6 (lc_explicit_ipv6 (gf_lease old)),
        lc_ipv6_network := set_if (map_option (strlcpy_str MAX_IP_STR) ip6) (lc_ipv6_network (gf_lease old)),
        lc_ipv6_prefix := (if ip6 = None then lc_ipv6_prefix (gf_lease old) else 64)\<rparr>\<rparr>"
proof -
  have c0: "rx_ipv4 c0 = []" "rx_ipv4_mask c0 = []" "rx_ipv6 c0 = []" "rx_routes c0 = []" "rx_ipv6_net c0 = []"
      "rx_ipv4_dns1 c0 = []" "rx_ipv4_dns2 c0 = []" "rx_ipv6_dns1 c0 = []" "rx_ipv6_dns2 c0 = []" "rx_ipv6_prefix c0 = 0"
    using assms(1) by (auto simp: radius_auth_init_def and_then_Inr split: if_splits)
  note p = radius_passes_fields [OF assms(2) refl]
  have "fields_after lib as c0 c"
    using fields_after_append p radius_pass_fields [OF assms(3)] answer_read_same [of c1 c0 lib nas] assms(4) by fastforce
  then have f: "rx_ipv4 c = text_or [] (addr framed_ip)" "rx_ipv4_mask c = text_or [] (addr framed_netmask)"
      "rx_ipv4_dns1 c = text_or [] (addr dns_at1)" "rx_ipv4_dns2 c = text_or [] (addr dns_at2)" "rx_ipv6 c = text_or [] ip6"
      "rx_ipv6_net c = text_or [] (map_option (strlcpy_str MAX_IP_STR) ip6)"
      "rx_ipv6_prefix c = (if ip6 = None then 0 else 64)" "rx_routes c = concat (map (routes_in lib) as)"
    and d: "place_dns (concat (map (dns6_in lib) as)) ([], []) = (rx_ipv6_dns1 c, rx_ipv6_dns2 c)"
    by (simp_all add: fields_after_def c0 assms(7,8) dns6_pair_def)
  have last6: "ip6 \<noteq> Some []"
    unfolding assms(8) using assms(6) by (induction as) (auto simp: set_if_def framed_ip6_def split: reply_attr.splits)
  have a: "addr g \<noteq> Some []" for g using assms(5,7) by auto
  have net: "map_option (strlcpy_str MAX_IP_STR) ip6 \<noteq> Some []"
    using last6 by (cases ip6; cases "the ip6") (simp_all add: strlcpy_str_def MAX_IP_STR_def)
  have t: "set_text_if (text_or [] x) None = x" "nonempty (text_or [] x # l) = (case x of None \<Rightarrow> [] | Some y \<Rightarrow> [y]) @ nonempty l"
    if "x \<noteq> Some []" for x l
    using that by (auto simp: set_text_if_def text_or_def nonempty_def split: option.split)
  have "[] \<notin> set (dns6_in lib b)" for b using assms(6) by (cases b) (auto simp: dns6_in_def split: option.split, metis)
  then have "nonempty [rx_ipv6_dns1 c, rx_ipv6_dns2 c] = first_last (concat (map (dns6_in lib) as))"
    using place_dns_nonempty [OF _ d] by auto
  then have dns: "nonempty [rx_ipv4_dns1 c, rx_ipv4_dns2 c, rx_ipv6_dns1 c, rx_ipv6_dns2 c]
      = List.map_filter addr [dns_at1, dns_at2] @ first_last (concat (map (dns6_in lib) as))"
    by (simp add: f t(2) [OF a] List.map_filter_def split: option.split)
  have sup: "radius_sup_config (Some c) empty_sup_reply = empty_sup_reply
      \<lparr>ur_explicit_ipv4 := addr framed_ip, ur_ipv4_netmask := addr framed_netmask, ur_routes := rx_routes c,
       ur_dns := nonempty [rx_ipv4_dns1 c, rx_ipv4_dns2 c, rx_ipv6_dns1 c, rx_ipv6_dns2 c], ur_explicit_ipv6 := ip6,
       ur_ipv6_net := map_option (strlcpy_str MAX_IP_STR) ip6, ur_ipv6_prefix := (if ip6 = None then (0, False) else (64, True))\<rparr>"
    using t(1) [OF last6] t(1) [OF net] f(7)
    by (simp add: radius_sup_config_def Let_def f(1,2,5,6) t(1) [OF a] empty_sup_reply_def)
  have none: "set_if None x = x" for x :: "'z option" by (simp add: set_if_def)
  have lease: "fill_lease_cfg (session_reply_of (radius_sup_config (Some c) empty_sup_reply)) l = l
       \<lparr>lc_explicit_ipv4 := set_if (addr framed_ip) (lc_explicit_ipv4 l),
        lc_ipv4_netmask := set_if (addr framed_netmask) (lc_ipv4_netmask l),
        lc_explicit_ipv6 := set_if ip6 (lc_explicit_ipv6 l),
        lc_ipv6_network := set_if (map_option (strlcpy_str MAX_IP_STR) ip6) (lc_ipv6_network l),
        lc_ipv6_prefix := (if ip6 = None then lc_ipv6_prefix l else 64)\<rparr>" for l
    unfolding sup by (cases l) (simp add: fill_lease_cfg_def session_reply_of_def empty_sup_reply_def sent_value_def or_old_def none)
  show ?thesis
    unfolding fill_group_cfg_def lease unfolding sup dns f(8)
    by (cases old) (simp add: session_reply_of_def empty_sup_reply_def sent_value_def sent_number_def lines_or_def or_old_def none)
qed

section \<open>The group of the answer\<close>

definition groupless :: "'c client_entry \<Rightarrow> bool" where
  "groupless e \<longleftrightarrow> ai_groupname (ce_auth_info e) = []"

lemma groupless_res: "handle_sec_auth_res cfg env e r = (ret, ms, e') \<Longrightarrow> groupless e' = groupless e"
proof -
  assume h: "handle_sec_auth_res cfg env e r = (ret, ms, e')"
  obtain r1 e1 where f: "fetch_auth_msg cfg e r = (r1, e1)" by fastforce
  have e1: "ce_auth_info e1 = ce_auth_info e"
    using f by (auto simp: fetch_auth_msg_def split: option.splits if_splits prod.splits)
  have "groupless (set_username u x) = groupless x" for u and x :: "'a client_entry"
    by (simp add: groupless_def set_username_def)
  then show ?thesis
    using h f e1 by (auto simp: handle_sec_auth_res_def groupless_def Let_def set_username_def split: if_splits prod.splits option.splits
        dest!: again_ctx reply_ctx)
qed

lemma radius_no_group:
  assumes "am_auth_init (radius_auth_funcs lib nas) u ip = (ret, ctx)"
    and "am_auth_group (radius_auth_funcs lib nas) ctx g = (r, grp)"
  shows "grp = [] \<and> (r = 0 \<longrightarrow> g = None \<or> g = Some [])"
proof -
  have "rx_groupname c = []" if "ctx = Some c" for c
    using assms(1) that
    by (auto simp: radius_auth_funcs_def radius_auth_init_def and_then_def split: sum.splits option.splits if_splits)
  then show ?thesis
    using assms(2)
    by (cases ctx) (auto simp: radius_auth_funcs_def radius_auth_group_def strlcpy_str_def split: option.splits if_splits)
qed

lemma radius_init_groupless:
  assumes "auth_init_steps (radius_cfg base lib nas) req e = (r, e')" and "groupless e"
  shows "groupless e' \<and> (r = 0 \<or> r = ERR_AUTH_CONTINUE \<longrightarrow> in_group_name req = None \<or> in_group_name req = Some [])"
proof -
  let ?cfg = "radius_cfg base lib nas"
  obtain r1 e1 where 1: "set_module ?cfg e (in_auth_type req) = (r1, e1)" by fastforce
  let ?e2 = "case in_hostname req of None \<Rightarrow> e1 | Some x \<Rightarrow> e1\<lparr>ce_hostname := strlcpy_str MAX_HOSTNAME_SIZE x\<rparr>"
  obtain r2 nc e3 where 2: "init_module ?cfg req ?e2 = (r2, nc, e3)" by (metis prod_cases3)
  have g2: "groupless ?e2" using 1 assms(2) by (auto simp: set_module_def groupless_def split: if_splits option.splits)
  show ?thesis
  proof (cases "r1 < 0")
    case True
    then show ?thesis
      using assms 1 by (auto simp: auth_init_steps_def set_module_def err_codes split: if_splits option.splits)
  next
    case False
    then have t: "ce_module ?e2 = Some 0" "ce_auth_type ?e2 = AUTH_TYPE_RADIUS"
      using 1 by (auto simp: set_module_def radius_cfg_def split: if_splits option.splits)
    have m: "module_of ?cfg ?e2 = Some (radius_auth_funcs lib nas)" using t(1) by (simp add: module_of_def radius_cfg_def)
    have e3: "groupless e3" "ce_auth_type e3 = AUTH_TYPE_RADIUS"
        "r2 = 0 \<longrightarrow> in_group_name req = None \<or> in_group_name req = Some []" "r2 \<noteq> ERR_AUTH_CONTINUE"
      using 2 g2 t(2)
      by (auto simp: init_module_def m groupless_def set_groupname_def set_username_def Let_def
          strlcpy_str_def err_codes split: if_splits prod.splits option.splits dest!: radius_no_group)
    have nc: "\<not> is_certificate e3" using e3(2) by (simp add: is_certificate_def auth_types)
    show ?thesis
      using assms(1) 1 2 False nc e3
      by (auto simp: auth_init_steps_def Let_def init_cert_group_def check_user_group_status_def groupless_def err_codes
          split: if_splits)
  qed
qed

lemma groupless_put: "list_all groupless db \<Longrightarrow> groupless e \<Longrightarrow> list_all groupless (put_entry db e)"
  by (induction db) (auto simp: put_entry_def)

lemma groupless_find: "list_all groupless db \<Longrightarrow> find_client_entry db k = Some e \<Longrightarrow> groupless e"
  by (auto simp: list_all_iff find_client_entry_def tbl_get_def dest: find_Some_iff_ex)

lemma init_groupless:
  assumes "handle_sec_auth_init (radius_cfg base lib nas) env db req = (ret, ms, db')" and "list_all groupless db"
  shows "list_all groupless db'"
proof (cases "new_client_entry (sm_talloc env) (sm_add env) (sm_rnd env) (sm_now env) db (in_ip req)")
  case None
  then show ?thesis using assms by (simp add: handle_sec_auth_init_def)
next
  case (Some p)
  obtain e db1 where p: "p = (e, db1)" by fastforce
  have e: "groupless e" "db1 = e # db"
    using Some p by (auto simp: new_client_entry_def blank_entry_def groupless_def tbl_add_def Let_def split: if_splits option.splits)
  obtain r1 e1 where st: "auth_init_steps (radius_cfg base lib nas) req e = (r1, e1)" by fastforce
  obtain r2 m2 e2 where rs: "handle_sec_auth_res (radius_cfg base lib nas) env e1 r1 = (r2, m2, e2)" by (metis prod_cases3)
  have "groupless e2" using groupless_res [OF rs] radius_init_groupless [OF st e(1)] by simp
  moreover have "db' = put_entry db1 e2" using assms(1) Some p st rs by (simp add: handle_sec_auth_init_def)
  ultimately show ?thesis using e assms(2) by (auto intro: groupless_put)
qed

lemma cont_groupless:
  assumes "handle_sec_auth_cont cfg env db sid pass = (ret, ms, db')" and "list_all groupless db"
  shows "list_all groupless db'"
proof (cases "length sid = SID_SIZE \<and> find_client_entry db sid \<noteq> None")
  case False
  then show ?thesis using assms by (auto simp: handle_sec_auth_cont_def split: if_splits option.splits)
next
  case True
  then obtain e where e: "find_client_entry db sid = Some e" by blast
  obtain r1 e1 where st: "auth_cont_steps cfg e pass = (r1, e1)" by fastforce
  obtain r2 m2 e2 where rs: "handle_sec_auth_res cfg env e1 r1 = (r2, m2, e2)" by (metis prod_cases3)
  have "groupless e1"
    using st groupless_find [OF assms(2) e]
    by (auto simp: auth_cont_steps_def groupless_def split: if_splits option.splits prod.splits)
  moreover have "db' = put_entry db e2" using assms(1) True e st rs by (simp add: handle_sec_auth_cont_def)
  ultimately show ?thesis using assms(2) groupless_res [OF rs] by (auto intro: groupless_put)
qed

lemma stats_groupless:
  assumes "handle_sec_auth_stats_cmd cfg db req = Inr (ret, ms, as, db')" and "list_all groupless db"
  shows "list_all groupless db'"
proof (cases "find_client_entry db (cs_sid req)")
  case None
  then show ?thesis using assms by (auto simp: handle_sec_auth_stats_cmd_def split: if_splits)
next
  case (Some e)
  have "ai_groupname (update_ips req ai) = ai_groupname ai" for ai by (simp add: update_ips_def Let_def)
  then obtain e' where "db' = db \<or> db' = put_entry db e' \<and> groupless e' = groupless e"
    using assms(1) Some
    by (fastforce simp: handle_sec_auth_stats_cmd_def groupless_def Let_def split: if_splits option.splits)
  then show ?thesis using groupless_find [OF assms(2) Some] assms(2) by (auto intro: groupless_put)
qed

lemma main_groupless:
  assumes "process_packet_from_main cfg env db cmd = Inr (ret, ms, as, db')" and "list_all groupless db"
  shows "list_all groupless db'"
proof (cases cmd)
  case (Mc_session_open req)
  have "list_all groupless d" if h: "handle_sec_auth_session_open cfg env db q = Inr (r, m, a, d)" for q r m a d
  proof (cases "find_client_entry db (sr_sid q)")
    case None
    then have "session_failed env [] db = Inr (r, m, a, d)"
      using h by (simp add: handle_sec_auth_session_open_def split: if_splits)
    then show ?thesis using assms(2) by (auto dest!: session_failed_out)
  next
    case (Some e)
    then show ?thesis
      using session_open_out [OF h Some] groupless_find [OF assms(2) Some] assms(2)
      by (auto simp: groupless_def intro!: groupless_put)
  qed
  then show ?thesis
    using Mc_session_open assms by (cases req) (auto simp: process_packet_from_main_def handle_sec_auth_session_cmd_def)
next
  case (Mc_session_close req)
  have "list_all groupless d" if h: "handle_sec_auth_session_close env db q = (r, m, d)" for q r m d
  proof (cases "find_client_entry db (sr_sid q)")
    case None
    then show ?thesis using h assms(2) by (auto simp: handle_sec_auth_session_close_def split: if_splits)
  next
    case (Some e)
    obtain e' where "d = db \<or> d = put_entry db e' \<and> groupless e' = groupless e"
      using h Some by (fastforce simp: handle_sec_auth_session_close_def expire_client_entry_def groupless_def Let_def split: if_splits)
    then show ?thesis using groupless_find [OF assms(2) Some] assms(2) by (auto intro: groupless_put)
  qed
  then show ?thesis
    using Mc_session_close assms
    by (cases req) (auto simp: process_packet_from_main_def handle_sec_auth_session_cmd_def split: prod.splits)
qed (use assms in \<open>simp add: process_packet_from_main_def\<close>)

lemma worker_groupless:
  assumes "process_packet (radius_cfg base lib nas) ks ko env db cmd = Inr (ret, ms, as, db')" and "list_all groupless db"
  shows "list_all groupless db'"
proof (cases cmd)
  case (W_auth_init req)
  then show ?thesis using assms by (cases req) (auto simp: process_packet_def dest: init_groupless split: prod.splits)
next
  case (W_auth_cont req)
  then show ?thesis using assms by (cases req) (auto simp: process_packet_def dest: cont_groupless split: prod.splits)
next
  case (W_cli_stats req)
  then show ?thesis using assms by (cases req) (auto simp: process_packet_def dest: stats_groupless)
qed (use assms in \<open>auto simp: process_packet_def split: option.splits prod.splits if_splits\<close>)

lemma radius_run_groupless: "sm_run (radius_cfg base lib nas) ks ko tr db \<Longrightarrow> list_all groupless db"
proof (induction rule: sm_run.induct)
  case run_init
  then show ?case by (simp add: sec_mod_client_db_init_def)
next
  case (run_step tr db x db')
  from run_step.hyps(2) show ?case
  proof cases
    case step_maintenance
    then show ?thesis using run_step.IH by (auto simp: cleanup_client_entries_def list_all_iff)
  qed (use run_step.IH worker_groupless main_groupless in blast)+
qed

text \<open>
  C29: groups do not work with radius. Whatever group the radius server names, in every run no entry
  of the security module has a group, so that no group's file is read for a session; and a client
  that asks for a group when it logs in is refused: no cookie and no question for the password.
\<close>

theorem radius_group_ignored:
  assumes "sm_run (radius_cfg base lib nas) ks ko tr db" and "find_client_entry db k = Some e"
    and "process_packet (radius_cfg base lib nas) ks ko env db (W_auth_init (Some req)) = Inr (ret, ms, as, db')"
    and "in_group_name req = Some g" and "g \<noteq> []"
  shows "ai_groupname (ce_auth_info e) = []
    \<and> sup_layers fs cfg (ce_auth_info e) = sup_layers fs (cfg\<lparr>uc_per_group_dir := None\<rparr>) (ce_auth_info e)
    \<and> M_auth_ok c u s i \<notin> set ms \<and> M_auth_msg s i \<notin> set ms"
proof -
  let ?cfg = "radius_cfg base lib nas"
  have e: "ai_groupname (ce_auth_info e) = []"
    using groupless_find [OF radius_run_groupless [OF assms(1)] assms(2)] by (simp add: groupless_def)
  have "sup_layers fs cfg (ce_auth_info e) = sup_layers fs (cfg\<lparr>uc_per_group_dir := None\<rparr>) (ce_auth_info e)"
    using e by (simp add: sup_layers_def split: option.split)
  moreover have "M_auth_ok c u s i \<notin> set ms \<and> M_auth_msg s i \<notin> set ms"
  proof (cases "new_client_entry (sm_talloc env) (sm_add env) (sm_rnd env) (sm_now env) db (in_ip req)")
    case None
    then show ?thesis using assms(3) by (auto simp: process_packet_def handle_sec_auth_init_def)
  next
    case (Some p)
    obtain e0 db1 where p: "p = (e0, db1)" by fastforce
    have e0: "groupless e0"
      using Some p by (auto simp: new_client_entry_def blank_entry_def groupless_def Let_def split: if_splits option.splits)
    obtain r1 e1 where st: "auth_init_steps ?cfg req e0 = (r1, e1)" by fastforce
    obtain r2 m2 e2 where rs: "handle_sec_auth_res ?cfg env e1 r1 = (r2, m2, e2)" by (metis prod_cases3)
    have "ms = m2" using assms(3) Some p st rs by (simp add: process_packet_def handle_sec_auth_init_def)
    moreover have "r1 \<noteq> 0" "r1 \<noteq> ERR_AUTH_CONTINUE" using radius_init_groupless [OF st e0] assms(4,5) by auto
    ultimately show ?thesis
      using rs
      by (auto simp: handle_sec_auth_res_def fetch_auth_msg_def sec_mod_add_score_to_ip_def send_sec_auth_reply_def Let_def
          split: if_splits prod.splits option.splits)
  qed
  ultimately show ?thesis using e by simp
qed

section \<open>Accounting\<close>

text \<open>What the radius server makes of the counts of a request.\<close>

definition acct_bytes_in :: "acct_attr list \<Rightarrow> u64" where
  "acct_bytes_in as = sum_list (map (\<lambda>a. case a of Input_octets n \<Rightarrow> ucast n | Input_gigawords n \<Rightarrow> ucast n * 4294967296 | _ \<Rightarrow> 0) as)"

definition acct_bytes_out :: "acct_attr list \<Rightarrow> u64" where
  "acct_bytes_out as = sum_list (map (\<lambda>a. case a of Output_octets n \<Rightarrow> ucast n | Output_gigawords n \<Rightarrow> ucast n * 4294967296 | _ \<Rightarrow> 0) as)"

lemma word_low: "ucast (ucast w :: u32) = (w mod 4294967296 :: u64)"
  by (rule word_uint_eqI) (simp add: unsigned_ucast_eq take_bit_eq_mod uint_mod_distrib)

lemma word_high [simp]: "w div 4294967296 mod 4294967296 = (w div 4294967296 :: u64)"
proof -
  have "uint w div 4294967296 < 4294967296" using uint_lt2p [of w] by simp
  then show ?thesis
    by (intro word_uint_eqI) (simp add: uint_div_distrib uint_mod_distrib mod_pos_pos_trivial pos_imp_zdiv_nonneg_iff)
qed

text \<open>
  What is accounted with radius. When every attribute can be added, the counts of a request give
  back exactly the bytes received; but of the bytes sent only the low word is right: the high word is
  that of the bytes received.
\<close>

theorem radius_accounts_wrong:
  "acct_bytes_in (append_stats (\<lambda>a. True) s) = st_bytes_in s
    \<and> acct_bytes_out (append_stats (\<lambda>a. True) s) = st_bytes_out s mod 4294967296 + st_bytes_in s div 4294967296 * 4294967296"
  using mod_div_mult_eq [of "st_bytes_in s" 4294967296]
  by (simp add: append_stats_def add_attrs_def acct_bytes_in_def acct_bytes_out_def word_low)

end
