(* ===== verification/RadiusExample.thy ===== *)
theory RadiusExample
  imports RadiusLogin
begin

text \<open>A radius server with one user, and concrete instances of what RadiusLogin shows.\<close>

section \<open>The server\<close>

definition example_answer :: "reply_attr list" where
  "example_answer = [Service_type True, Group_name ''staff'', Framed_ip_address 167772167, Framed_ip_netmask 4294967040,
     Framed_route ''10.1.0.0/16 10.0.0.1 1'']"

definition example_radius :: radius_lib where
  "example_radius = \<lparr>rl_add = (\<lambda>a. True),
     rl_aaa = (\<lambda>req. if User_name ''bob@corp'' \<in> set req \<and> User_password ''secret'' \<in> set req
                     then (Aaa_ok, example_answer) else (Aaa_failed, [])),
     rl_default_realm = Some ''corp'', rl_ntop4 = (\<lambda>n. if n = 167772167 then ''10.0.0.7'' else ''255.255.255.0''),
     rl_ntop6 = (\<lambda>bs. None), rl_talloc = True\<rparr>"

definition example_radius_base :: "radius_ctx sec_cfg" where
  "example_radius_base = \<lparr>sg_auth = [], sg_acct_open = False, sg_acct_stats = False, sg_acct_close = False,
     sg_cookie_timeout = 300, sg_max_ban_score = 0, sg_ban_points_wrong_password = 10, sg_predictable_ips = False,
     sg_cert_user_oid = False, sg_cert_group_oid = False\<rparr>"

abbreviation example_rad :: "radius_ctx sec_cfg" where
  "example_rad \<equiv> radius_cfg example_radius_base example_radius []"

definition example_radius_ctx :: radius_ctx where
  "example_radius_ctx = \<lparr>rx_username = ''bob@corp'', rx_groupname = [], rx_remote_ip = ''10.0.0.1'', rx_ipv4 = [],
     rx_ipv4_mask = [], rx_ipv4_dns1 = [], rx_ipv4_dns2 = [], rx_ipv6 = [], rx_ipv6_net = [], rx_ipv6_prefix = 0,
     rx_ipv6_dns1 = [], rx_ipv6_dns2 = [], rx_routes = [], rx_pass_msg = pass_msg_first, rx_retries = 0\<rparr>"

definition example_radius_done :: radius_ctx where
  "example_radius_done = example_radius_ctx\<lparr>rx_groupname := ''staff'', rx_ipv4 := ''10.0.0.7'',
     rx_ipv4_mask := ''255.255.255.0'', rx_routes := [''10.1.0.0/16'']\<rparr>"

lemma example_radius_init:
  "radius_auth_init example_radius (Some ''bob'') ''10.0.0.1'' = Inr (ERR_AUTH_CONTINUE, Some example_radius_ctx)"
  by (simp add: radius_auth_init_def radius_name_def example_radius_def example_radius_ctx_def USERNAME_ROOM_def sec_consts
      strlcpy_str_def MAX_IP_STR_def)

lemma example_radius_pass:
  "radius_auth_pass example_radius [] example_radius_ctx ''secret'' = (0, example_radius_done)"
  by (simp add: radius_auth_pass_def auth_request_def example_radius_def example_radius_ctx_def example_radius_done_def
      example_answer_def read_attr_def append_route_def strchr_def strlcpy_str_def sec_consts Let_def)

section \<open>A login\<close>

definition example_radius_entry :: "auth_status \<Rightarrow> radius_ctx \<Rightarrow> radius_ctx client_entry" where
  "example_radius_entry st c = (blank_entry example_sid ''10.0.0.1'' 100)\<lparr>ce_status := st, ce_auth_type := AUTH_TYPE_RADIUS,
     ce_module := Some 0, ce_auth_ctx := Some c, ce_auth_info := \<lparr>ai_username = ''bob'',
       ai_groupname = [], ai_remote_ip = ''10.0.0.1'', ai_ipv4 = [], ai_ipv6 = []\<rparr>\<rparr>"

abbreviation example_radius_asked :: "radius_ctx client_entry" where
  "example_radius_asked \<equiv> example_radius_entry PS_AUTH_INIT example_radius_ctx"

lemma example_radius_steps:
  "auth_init_steps example_rad example_user_init (blank_entry example_sid ''10.0.0.1'' 100) =
     (ERR_AUTH_CONTINUE, example_radius_asked)"
  by (simp add: auth_init_steps_def set_module_def init_module_def init_cert_group_def module_of_def
      check_user_group_status_def is_certificate_def set_username_def set_groupname_def blank_entry_def
      example_radius_entry_def radius_cfg_def example_radius_base_def example_user_init_def auth_types strlcpy_str_def
      sec_consts MAX_IP_STR_def radius_auth_funcs_def example_radius_init radius_auth_group_def example_radius_ctx_def err_codes)

lemma example_radius_res:
  "handle_sec_auth_res example_rad example_sm_env example_radius_asked ERR_AUTH_CONTINUE =
     (0, [M_auth_msg (Some pass_msg_first) example_sid], example_radius_asked)"
  by (simp add: handle_sec_auth_res_def fetch_auth_msg_def module_of_def ask_again_def send_sec_auth_reply_msg_def
      radius_cfg_def radius_auth_funcs_def radius_auth_msg_def example_radius_ctx_def example_radius_entry_def blank_entry_def
      example_sm_env_def)

lemma example_radius_packet:
  "process_packet example_rad 0 ko example_sm_env [] (W_auth_init (Some example_user_init)) =
     Inr (0, [M_auth_msg (Some pass_msg_first) example_sid], [], [example_radius_asked])"
proof -
  have "in_ip example_user_init = ''10.0.0.1''" by (simp add: example_user_init_def)
  moreover have "ce_sid example_radius_asked = example_sid" by (simp add: example_radius_entry_def blank_entry_def)
  ultimately show ?thesis
    by (simp add: process_packet_def handle_sec_auth_init_def example_fields example_new example_radius_steps
        example_radius_res example_put)
qed

lemma example_radius_run: "\<exists>tr. sm_run example_rad 0 ko tr [example_radius_asked]"
proof -
  have "sm_step example_rad 0 ko sec_mod_client_db_init
     (Ev_worker example_sm_env (W_auth_init (Some example_user_init)), 0, [M_auth_msg (Some pass_msg_first) example_sid])
     [example_radius_asked]"
    unfolding sec_mod_client_db_init_def by (rule step_worker [OF example_radius_packet])
  then show ?thesis using run_step [OF run_init] by blast
qed

lemma example_radius_cont:
  "auth_cont_steps example_rad example_radius_asked (Some ''secret'') = (0, example_radius_entry PS_AUTH_CONT example_radius_done)"
  by (simp add: auth_cont_steps_def module_of_def radius_cfg_def radius_auth_funcs_def example_radius_pass
      example_radius_entry_def blank_entry_def)

lemma example_radius_ok:
  "\<exists>e. handle_sec_auth_res example_rad example_sm_env (example_radius_entry PS_AUTH_CONT example_radius_done) 0 =
     (0, [M_auth_ok example_enc_cookie ''bob'' (Some pass_msg_first) example_sid], e)"
  by (simp add: handle_sec_auth_res_def fetch_auth_msg_def module_of_def send_sec_auth_reply_def set_username_def
      generate_cookie_def cookie_of_def example_encrypt err_codes radius_cfg_def example_radius_base_def
      radius_auth_funcs_def radius_auth_msg_def example_radius_ctx_def example_radius_done_def example_radius_entry_def
      blank_entry_def example_sm_env_def)

lemma example_radius_answer:
  "secmod_answer dtls example_rad 0 ko example_sm_env [example_radius_asked] (W_auth_cont (Some (example_sid, Some ''secret''))) =
     (0, \<lparr>sr_reply = Rep_ok, sr_user_name = Some ''bob'', sr_reply_sid = Some example_sid,
          sr_reply_cookie = Some example_enc_cookie, sr_dtls_session_id = dtls, sr_msg = Some pass_msg_first\<rparr>)"
proof -
  have f: "find_client_entry [example_radius_asked] example_sid = Some example_radius_asked"
    by (simp add: find_client_entry_def example_radius_entry_def blank_entry_def tbl_defs)
  have len: "length example_sid = SID_SIZE" by (simp add: example_sid_def SID_SIZE_def)
  obtain e where e: "handle_sec_auth_res example_rad example_sm_env (example_radius_entry PS_AUTH_CONT example_radius_done) 0 =
     (0, [M_auth_ok example_enc_cookie ''bob'' (Some pass_msg_first) example_sid], e)"
    using example_radius_ok by blast
  show ?thesis
    by (simp add: secmod_answer_def process_packet_def handle_sec_auth_cont_def len f example_radius_cont e
        worker_reply_def List.map_filter_def)
qed

definition example_radius_env :: login_env where
  "example_radius_env = example_password_env\<lparr>lv_reply :=
     secmod_answer (replicate 32 0) example_rad 0 (\<lambda>_ _. None) example_sm_env [example_radius_asked]\<rparr>"

lemma example_radius_attempt:
  "login_attempt example_radius_env example_login_cfg (resume_state example_password_login) =
     Ask_secmod (W_auth_cont (Some (example_sid, Some ''secret''))) (set_state S_AUTH_INIT example_password_login)"
proof -
  have "ha_sid_set (lg_app example_password_login)" "auth_state example_password_login = S_AUTH_INACTIVE"
      "ha_sid (lg_app example_password_login) = example_sid" "\<not> sel AUTH_TYPE_GSSAPI example_password_login"
      "sel AUTH_TYPE_USERNAME_PASS example_password_login"
    by (simp_all add: example_password_login_def example_login_defs Let_def)
  then show ?thesis
    using example_password_body
    by (simp add: resume_state_def login_attempt_def auth_cont_attempt_def set_state_def auth_state_def sel_def
        selected_type_def)
qed

lemma example_radius_runs:
  "\<exists>r. post_auth_handler 1 example_radius_env example_login_cfg example_password_login = Some r
    \<and> auth_state (login_of r) = S_AUTH_COOKIE"
proof -
  have env: "lv_connect example_radius_env" "lv_sent example_radius_env cmd = 0"
    "lv_reply example_radius_env = secmod_answer (replicate 32 0) example_rad 0 (\<lambda>_ _. None) example_sm_env [example_radius_asked]"
    for cmd by (simp_all add: example_radius_env_def example_password_env_def example_login_env_def)
  show ?thesis
    by (simp add: post_body_def example_radius_attempt env handle_reply_def example_radius_answer recv_auth_reply_def
        err_codes example_enc_cookie_def returned_def Let_def auth_state_def set_state_def)
qed

theorem radius_login_needs_accept_witness:
  "\<exists>v name pass req as. parse_reply (lg_body example_password_login) PASSWORD_FIELD None = Some pass
    \<and> radius_name example_radius v = Inr name \<and> {User_name name, User_password pass} \<subseteq> set req
    \<and> rl_aaa example_radius req = (Aaa_ok, as)"
proof -
  obtain tr where t: "sm_run example_rad 0 (\<lambda>_ _. None) tr [example_radius_asked]" using example_radius_run by blast
  obtain r where r: "post_auth_handler 1 example_radius_env example_login_cfg example_password_login = Some r"
      "auth_state (login_of r) = S_AUTH_COOKIE" using example_radius_runs by blast
  have l: "lv_reply example_radius_env =
      secmod_answer (replicate 32 0) example_rad 0 (\<lambda>_ _. None) example_sm_env [example_radius_asked]"
    "auth_state example_password_login \<noteq> S_AUTH_COOKIE" "\<not> sel AUTH_TYPE_GSSAPI example_password_login"
    by (simp_all add: example_radius_env_def example_password_login_def example_login_defs Let_def)
  show ?thesis using radius_login_needs_accept [OF t l(1) r(1) l(2) r(2) l(3)] by metis
qed

section \<open>Settings and groups\<close>

text \<open>A first answer that is refused for its service, and a second one that is accepted.\<close>

definition refused_answer :: "reply_attr list" where
  "refused_answer = [Framed_route ''10.9.0.0/16'', Service_type False, Framed_route ''10.8.0.0/16'']"

definition accepted_answer :: "reply_attr list" where
  "accepted_answer = [Service_type True, Framed_ip_address 167772167, Framed_ipv6_address [1], Dns_server_ipv6 [2],
     Ms_secondary_dns 1, Framed_route ''10.1.0.0/16 10.0.0.1 1'']"

definition two_answers :: radius_lib where
  "two_answers = example_radius
     \<lparr>rl_aaa := (\<lambda>req. (Aaa_ok, if User_password ''secret'' \<in> set req then accepted_answer else refused_answer)),
      rl_ntop6 := (\<lambda>bs. Some (if bs = [1] then ''fd00::1'' else ''fd00::53''))\<rparr>"

definition refused_ctx :: radius_ctx where
  "refused_ctx = example_radius_ctx\<lparr>rx_routes := [''10.9.0.0/16''], rx_retries := 1, rx_pass_msg := pass_msg_failed\<rparr>"

definition settled_ctx :: radius_ctx where
  "settled_ctx = snd (radius_auth_pass two_answers [] refused_ctx ''secret'')"

lemmas two_answers_defs = two_answers_def example_radius_def example_radius_ctx_def refused_ctx_def

lemma two_answers_init:
  "radius_auth_init two_answers (Some ''bob'') ''10.0.0.1'' = Inr (ERR_AUTH_CONTINUE, Some example_radius_ctx)"
  by (simp add: radius_auth_init_def radius_name_def two_answers_defs USERNAME_ROOM_def sec_consts strlcpy_str_def
      MAX_IP_STR_def)

lemma two_answers_first: "radius_passes two_answers [] example_radius_ctx [''typo''] = (ERR_AUTH_CONTINUE, refused_ctx)"
  by (simp add: radius_auth_pass_def auth_request_def two_answers_defs refused_answer_def read_attr_def append_route_def
      strchr_def radius_retry_def Let_def MAX_PASSWORD_TRIES_def)

lemma two_answers_second: "radius_auth_pass two_answers [] refused_ctx ''secret'' = (0, settled_ctx)"
  by (simp add: settled_ctx_def radius_auth_pass_def auth_request_def two_answers_defs accepted_answer_def read_attr_def
      append_route_def strchr_def Let_def)

lemma two_answers_read:
  "concat (map (answer_read two_answers [] example_radius_ctx) ([''typo''] @ [''secret''])) =
     Framed_route ''10.9.0.0/16'' # accepted_answer"
  by (simp add: answer_read_def auth_request_def two_answers_defs accepted_answer_def refused_answer_def attrs_read_def)

theorem radius_settings_reach_client_witness:
  "fill_group_cfg (session_reply_of (radius_sup_config (Some settled_ctx) empty_sup_reply)) zero_group_cfg = zero_group_cfg
    \<lparr>gf_routes := [''10.9.0.0/16'', ''10.1.0.0/16''], gf_dns := [''255.255.255.0'', ''fd00::53''],
     gf_lease := (gf_lease zero_group_cfg)
       \<lparr>lc_explicit_ipv4 := Some ''10.0.0.7'', lc_explicit_ipv6 := Some ''fd00::1'',
        lc_ipv6_network := Some ''fd00::1'', lc_ipv6_prefix := 64\<rparr>\<rparr>"
proof -
  have n: "rl_ntop4 two_answers n \<noteq> []" "rl_ntop6 two_answers bs \<noteq> Some []" for n bs
    by (simp_all add: two_answers_defs)
  note g = radius_settings_reach_client [OF two_answers_init two_answers_first two_answers_second
      two_answers_read [symmetric] n refl refl, of zero_group_cfg]
  show ?thesis
    unfolding g
    by (simp add: accepted_answer_def attr_fields two_answers_def example_radius_def route_text_def strchr_def set_if_def
        first_last_def List.map_filter_def lines_or_def zero_group_cfg_def strlcpy_str_def MAX_IP_STR_def)
qed

theorem radius_group_ignored_witness:
  "\<exists>ret ms as db'. process_packet example_rad 0 (\<lambda>_ _. None) example_sm_env [example_radius_asked]
      (W_auth_init (Some (example_user_init\<lparr>in_group_name := Some ''staff''\<rparr>))) = Inr (ret, ms, as, db')
    \<and> ai_groupname (ce_auth_info example_radius_asked) = [] \<and> M_auth_msg None example_sid \<notin> set ms"
proof -
  let ?req = "example_user_init\<lparr>in_group_name := Some ''staff''\<rparr>"
  obtain ret ms db' where "handle_sec_auth_init example_rad example_sm_env [example_radius_asked] ?req = (ret, ms, db')"
    by (metis prod_cases3)
  then have p: "process_packet example_rad 0 (\<lambda>_ _. None) example_sm_env [example_radius_asked] (W_auth_init (Some ?req)) =
      Inr (ret, ms, [], db')" by (simp add: process_packet_def)
  obtain tr where t: "sm_run example_rad 0 (\<lambda>_ _. None) tr [example_radius_asked]" using example_radius_run by blast
  have f: "find_client_entry [example_radius_asked] example_sid = Some example_radius_asked"
    by (simp add: find_client_entry_def example_radius_entry_def blank_entry_def tbl_defs)
  have "in_group_name ?req = Some ''staff''" "''staff'' \<noteq> []" by simp_all
  from radius_group_ignored [OF t f p this] p show ?thesis by blast
qed

end
