(* ===== verification/Pam.thy ===== *)
theory Pam
  imports Plain
begin

text \<open>
  The authentication module for PAM, src/auth/pam.c. The library runs in a coroutine that is left
  whenever PAM asks for a password; what the library does is a parameter: a process that at each
  conversation sends messages and goes on with the replies. A call that goes right is the same as
  if the library had been given all passwords at once. Allocations succeed.
\<close>

section \<open>The library\<close>

datatype pam_code = PAM_SUCCESS | PAM_NEW_AUTHTOK_REQD | PAM_CONV_ERR | PAM_OTHER int

text \<open>The messages of a conversation: a text (info or error), a prompt for a password, anything else.\<close>

datatype pam_message = Pam_text string | Pam_prompt | Pam_unknown

text \<open>
  A call into the library: it returns a code with the state of its handle, or calls back with
  messages, a reply to each one or NULL. Pam_changing marks where the code sets pctx->changing.
\<close>

datatype 's pam_proc =
  Pam_return pam_code 's
| Pam_conv "pam_message list" "string option list \<Rightarrow> 's pam_proc"
| Pam_changing "'s pam_proc"

primrec pam_then :: "'s pam_proc \<Rightarrow> (pam_code \<Rightarrow> 's \<Rightarrow> 's pam_proc) \<Rightarrow> 's pam_proc" where
  "pam_then (Pam_return r s) f = f r s"
| "pam_then (Pam_conv ms k) f = Pam_conv ms (\<lambda>rs. pam_then (k rs) f)"
| "pam_then (Pam_changing p) f = Pam_changing (pam_then p f)"

record 's pam_lib =
  pl_start :: "string \<Rightarrow> bool"
  pl_create :: bool
  pl_authenticate :: "string \<Rightarrow> string \<Rightarrow> 's pam_proc"
  pl_acct_mgmt :: "'s \<Rightarrow> 's pam_proc"
  pl_chauthtok :: "'s \<Rightarrow> 's pam_proc"

section \<open>State\<close>

datatype pam_state = PAM_S_INIT | PAM_S_WAIT_FOR_PASS | PAM_S_COMPLETE

text \<open>
  Where the coroutine stands: at its start, behind a prompt with the messages that are left and the
  replies so far, or in its last loop.
\<close>

datatype 's pam_co =
  Co_start "'s pam_proc"
| Co_prompt "pam_message list" "string option list" "string option list \<Rightarrow> 's pam_proc"
| Co_end

record 's pam_ctx =
  pa_password :: string
  pa_username :: string
  pa_co :: "'s pam_co"
  pa_cr_ret :: pam_code
  pa_changing :: bool
  pa_msg :: string
  pa_sent_msg :: bool
  pa_state :: pam_state

definition MAX_PASSWORD_SIZE :: nat where "MAX_PASSWORD_SIZE = 64"

section \<open>The coroutine\<close>

text \<open>The loop of ocserv_conv: up to the first prompt, with the messages behind it, or to the end.\<close>

fun conv_loop ::
  "pam_message list \<Rightarrow> string option list \<Rightarrow> 's pam_ctx \<Rightarrow> pam_message list option \<times> string option list \<times> 's pam_ctx" where
  "conv_loop [] rs c = (None, rs, c)"
| "conv_loop (m # ms) rs c =
     (case m of
        Pam_text s \<Rightarrow> conv_loop ms (rs @ [None]) (c\<lparr>pa_msg := pa_msg c @ s @ '' '', pa_sent_msg := True\<rparr>)
      | Pam_prompt \<Rightarrow>
          (Some ms, rs, (if pa_sent_msg c then c else c\<lparr>pa_msg := [], pa_sent_msg := True\<rparr>)
             \<lparr>pa_state := PAM_S_WAIT_FOR_PASS, pa_cr_ret := PAM_SUCCESS\<rparr>)
      | Pam_unknown \<Rightarrow> conv_loop ms (rs @ [None]) c)"

text \<open>The library's calls until the coroutine is left.\<close>

primrec run_proc :: "'s pam_proc \<Rightarrow> 's pam_ctx \<Rightarrow> 's pam_ctx" where
  "run_proc (Pam_return r s) c =
     c\<lparr>pa_co := Co_end, pa_cr_ret := r, pa_state := (if r = PAM_SUCCESS then PAM_S_COMPLETE else pa_state c)\<rparr>"
| "run_proc (Pam_conv ms k) c =
     (case conv_loop ms [] c of
        (None, rs, c1) \<Rightarrow> run_proc (k rs) c1
      | (Some rest, rs, c1) \<Rightarrow> c1\<lparr>pa_co := Co_prompt rest rs k\<rparr>)"
| "run_proc (Pam_changing p) c = run_proc p (c\<lparr>pa_changing := True\<rparr>)"

definition co_auth_user :: "'s pam_lib \<Rightarrow> string \<Rightarrow> string \<Rightarrow> 's pam_proc" where
  "co_auth_user lib user ip =
     pam_then (pl_authenticate lib user ip) (\<lambda>r s.
       if r \<noteq> PAM_SUCCESS then Pam_return r s
       else pam_then (pl_acct_mgmt lib s) (\<lambda>r s.
         if r = PAM_NEW_AUTHTOK_REQD then Pam_changing (pl_chauthtok lib s) else Pam_return r s))"

text \<open>co_call: behind a prompt the password is the reply.\<close>

definition co_call :: "'s pam_ctx \<Rightarrow> 's pam_ctx" where
  "co_call c =
     (case pa_co c of
        Co_start p \<Rightarrow> run_proc p (c\<lparr>pa_state := PAM_S_INIT\<rparr>)
      | Co_prompt ms rs k \<Rightarrow>
          (case conv_loop ms (rs @ [Some (pa_password c)]) (c\<lparr>pa_state := PAM_S_INIT, pa_sent_msg := False\<rparr>) of
             (None, rs1, c1) \<Rightarrow> run_proc (k rs1) c1
           | (Some rest, rs1, c1) \<Rightarrow> c1\<lparr>pa_co := Co_prompt rest rs1 k\<rparr>)
      | Co_end \<Rightarrow> c)"

section \<open>The module's functions\<close>

definition pam_auth_init :: "'s pam_lib \<Rightarrow> string option \<Rightarrow> string \<Rightarrow> int \<times> 's pam_ctx option" where
  "pam_auth_init lib user ip =
     (case user of
        None \<Rightarrow> (ERR_AUTH_FAIL, None)
      | Some u \<Rightarrow>
          if u = [] then (ERR_AUTH_FAIL, None)
          else if \<not> pl_start lib u \<or> \<not> pl_create lib then (-1, None)
          else (ERR_AUTH_CONTINUE, Some \<lparr>pa_password = [], pa_username = strlcpy_str MAX_USERNAME_SIZE u,
                  pa_co = Co_start (co_auth_user lib u ip), pa_cr_ret = PAM_SUCCESS, pa_changing = False, pa_msg = [],
                  pa_sent_msg = False, pa_state = PAM_S_INIT\<rparr>))"

text \<open>The text for the user; a NUL is put behind the buffer each time.\<close>

definition pam_text :: "'s pam_ctx \<Rightarrow> string \<times> 's pam_ctx" where
  "pam_text c =
     (if pa_msg c = [] then (if pa_changing c then ''Please enter the new password.'' else ''Please enter your password.'', c)
      else (c_string (pa_msg c @ [NUL]), c\<lparr>pa_msg := pa_msg c @ [NUL]\<rparr>))"

definition pam_auth_msg :: "'s pam_ctx \<Rightarrow> int \<times> string option \<times> 's pam_ctx" where
  "pam_auth_msg c =
     (if pa_state c = PAM_S_COMPLETE then (0, None, c)
      else
        let c1 = (if pa_state c = PAM_S_INIT then co_call (c\<lparr>pa_cr_ret := PAM_CONV_ERR\<rparr>) else c) in
        if pa_state c = PAM_S_INIT \<and> pa_cr_ret c1 \<noteq> PAM_SUCCESS then (ERR_AUTH_FAIL, None, c1)
        else (case pam_text c1 of (t, c2) \<Rightarrow> (0, Some t, c2)))"

definition pam_auth_pass :: "'s pam_ctx \<Rightarrow> string \<Rightarrow> int \<times> 's pam_ctx" where
  "pam_auth_pass c pass =
     (if MAX_PASSWORD_SIZE < length pass + 1 then (-1, c)
      else if pa_state c \<noteq> PAM_S_WAIT_FOR_PASS then (ERR_AUTH_FAIL, c)
      else
        let c1 = co_call (c\<lparr>pa_password := pass, pa_cr_ret := PAM_CONV_ERR\<rparr>) in
        if pa_cr_ret c1 \<noteq> PAM_SUCCESS then (ERR_AUTH_FAIL, c1)
        else if pa_state c1 \<noteq> PAM_S_COMPLETE then (ERR_AUTH_CONTINUE, c1)
        else (0, c1))"

text \<open>
  The group: \<open>groups\<close> gives the names of the groups of a user, the primary one first; None for an
  unknown user, an empty list when the groups cannot be told.
\<close>

definition pam_auth_group :: "(string \<Rightarrow> string list option) \<Rightarrow> 's pam_ctx \<Rightarrow> string option \<Rightarrow> nat \<Rightarrow> int \<times> string" where
  "pam_auth_group groups c suggested siz =
     (case groups (pa_username c) of
        None \<Rightarrow> (0, [])
      | Some gs \<Rightarrow>
          (case suggested of
             Some g \<Rightarrow> if gs = [] then (0, []) else if g \<in> set gs then (0, strlcpy_str siz g) else (-1, [])
           | None \<Rightarrow> (0, case gs of [] \<Rightarrow> [] | g # _ \<Rightarrow> strlcpy_str siz g)))"

text \<open>
  The name of the user as PAM has it in the end; \<open>item\<close> is PAM_USER, None when it cannot be read. The
  caller's buffer is cleared in any case, and the caller ignores the result.
\<close>

definition pam_auth_user :: "string option option \<Rightarrow> nat \<Rightarrow> int \<times> string" where
  "pam_auth_user item siz =
     (case item of Some (Some u) \<Rightarrow> (0, strlcpy_str siz u) | _ \<Rightarrow> (-1, []))"

text \<open>The groups that the login form offers, of those with their numbers.\<close>

definition pam_group_list :: "nat \<Rightarrow> (nat \<times> string) list \<Rightarrow> string list" where
  "pam_group_list gid_min grps = take MAX_GROUPS (map snd (filter (\<lambda>(gid, name). gid_min \<le> gid) grps))"

end
