(* ===== verification/PamLogin.thy ===== *)
theory PamLogin
  imports Pam
begin

text \<open>
  A login with PAM, from the first message to the last password, is what the library does when it is
  given the passwords one after the other, and nothing more; and where its messages go wrong.
\<close>

section \<open>The library with all passwords\<close>

text \<open>The replies to a conversation, and the passwords that are left; None: there are too few.\<close>

fun reply_all :: "pam_message list \<Rightarrow> string list \<Rightarrow> (string option list \<times> string list) option" where
  "reply_all [] pws = Some ([], pws)"
| "reply_all (m # ms) pws =
     (case m of
        Pam_prompt \<Rightarrow>
          (case pws of
             [] \<Rightarrow> None
           | p # ps \<Rightarrow> (case reply_all ms ps of None \<Rightarrow> None | Some (rs, rest) \<Rightarrow> Some (Some p # rs, rest)))
      | _ \<Rightarrow> (case reply_all ms pws of None \<Rightarrow> None | Some (rs, rest) \<Rightarrow> Some (None # rs, rest)))"

text \<open>What the library returns, with the passwords it did not ask for.\<close>

primrec pam_feed :: "'s pam_proc \<Rightarrow> string list \<Rightarrow> (pam_code \<times> string list) option" where
  "pam_feed (Pam_return r s) pws = Some (r, pws)"
| "pam_feed (Pam_conv ms k) pws = (case reply_all ms pws of None \<Rightarrow> None | Some (rs, rest) \<Rightarrow> pam_feed (k rs) rest)"
| "pam_feed (Pam_changing p) pws = pam_feed p pws"

text \<open>The same with the state that the call leaves.\<close>

primrec feed_state :: "'s pam_proc \<Rightarrow> string list \<Rightarrow> (pam_code \<times> 's \<times> string list) option" where
  "feed_state (Pam_return r s) pws = Some (r, s, pws)"
| "feed_state (Pam_conv ms k) pws = (case reply_all ms pws of None \<Rightarrow> None | Some (rs, rest) \<Rightarrow> feed_state (k rs) rest)"
| "feed_state (Pam_changing p) pws = feed_state p pws"

text \<open>
  What the library makes of the passwords: the user must be authenticated, then the account accepted, or
  its expired password changed, each call with the passwords that those before it left.
\<close>

definition pam_verdict :: "'s pam_lib \<Rightarrow> string \<Rightarrow> string \<Rightarrow> string list \<Rightarrow> (pam_code \<times> string list) option" where
  "pam_verdict lib u ip pws =
     (case feed_state (pl_authenticate lib u ip) pws of
        None \<Rightarrow> None
      | Some (r, s, rest) \<Rightarrow>
          if r \<noteq> PAM_SUCCESS then Some (r, rest)
          else
            (case feed_state (pl_acct_mgmt lib s) rest of
               None \<Rightarrow> None
             | Some (r1, s1, rest1) \<Rightarrow>
                 if r1 \<noteq> PAM_NEW_AUTHTOK_REQD then Some (r1, rest1)
                 else map_option (\<lambda>(r2, _, rest2). (r2, rest2)) (feed_state (pl_chauthtok lib s1) rest1)))"

lemma feed_then:
  "pam_feed (pam_then p f) pws = (case feed_state p pws of None \<Rightarrow> None | Some (r, s, rest) \<Rightarrow> pam_feed (f r s) rest)"
  by (induction p arbitrary: pws) (auto split: option.splits)

lemma feed_changed: "pam_feed p pws = map_option (\<lambda>(r, _, rest). (r, rest)) (feed_state p pws)"
  by (induction p arbitrary: pws) (auto split: option.splits)

lemma feed_user: "pam_feed (co_auth_user lib u ip) pws = pam_verdict lib u ip pws"
  by (auto simp: co_auth_user_def pam_verdict_def feed_then feed_changed [of "pl_chauthtok lib s" for s] split: option.splits)

text \<open>What it returns behind the messages that were answered with \<open>rs\<close>.\<close>

definition feed_conv ::
  "pam_message list \<Rightarrow> string option list \<Rightarrow> (string option list \<Rightarrow> 's pam_proc) \<Rightarrow> string list \<Rightarrow> (pam_code \<times> string list) option" where
  "feed_conv ms rs k pws =
     (case reply_all ms pws of None \<Rightarrow> None | Some (rs1, rest) \<Rightarrow> pam_feed (k (rs @ rs1)) rest)"

text \<open>What a context still does with the passwords to come, once the coroutine has run.\<close>

definition pending :: "'s pam_ctx \<Rightarrow> string list \<Rightarrow> (pam_code \<times> string list) option" where
  "pending c pws =
     (case pa_co c of
        Co_start p \<Rightarrow> pam_feed p pws
      | Co_prompt ms rs k \<Rightarrow> (case pws of [] \<Rightarrow> None | p # ps \<Rightarrow> feed_conv ms (rs @ [Some p]) k ps)
      | Co_end \<Rightarrow> Some (pa_cr_ret c, pws))"

text \<open>The context after a call: at a prompt, or at the end with its code.\<close>

definition settled :: "'s pam_ctx \<Rightarrow> bool" where
  "settled c \<longleftrightarrow>
     (case pa_co c of
        Co_start p \<Rightarrow> False
      | Co_prompt ms rs k \<Rightarrow> pa_state c = PAM_S_WAIT_FOR_PASS \<and> pa_cr_ret c = PAM_SUCCESS
      | Co_end \<Rightarrow> pa_state c = (if pa_cr_ret c = PAM_SUCCESS then PAM_S_COMPLETE else PAM_S_INIT))"

lemma conv_loop_end:
  "conv_loop ms rs c = (None, rs1, c1) \<Longrightarrow> pa_state c1 = pa_state c
    \<and> (\<exists>new. rs1 = rs @ new \<and> (\<forall>pws. reply_all ms pws = Some (new, pws)))"
proof (induction ms arbitrary: rs c)
  case (Cons m ms)
  show ?case
  proof (cases m)
    case (Pam_text s)
    then show ?thesis using Cons.IH [of "rs @ [None]"] Cons.prems by fastforce
  next
    case Pam_prompt
    then show ?thesis using Cons.prems by simp
  next
    case Pam_unknown
    then show ?thesis using Cons.IH [of "rs @ [None]"] Cons.prems by fastforce
  qed
qed simp

lemma conv_loop_prompt:
  "conv_loop ms rs c = (Some rest, rs1, c1) \<Longrightarrow> pa_state c1 = PAM_S_WAIT_FOR_PASS \<and> pa_cr_ret c1 = PAM_SUCCESS
    \<and> feed_conv ms rs k [] = None \<and> feed_conv ms rs k (p # ps) = feed_conv rest (rs1 @ [Some p]) k ps"
proof (induction ms arbitrary: rs c)
  case (Cons m ms)
  have step: "feed_conv (x # ms) rs k pws = feed_conv ms (rs @ [None]) k pws" if "x \<noteq> Pam_prompt" for x pws
    using that by (cases x) (auto simp: feed_conv_def split: option.split)
  show ?case
  proof (cases m)
    case (Pam_text s)
    then show ?thesis using Cons.IH [of "rs @ [None]"] Cons.prems step by simp
  next
    case Pam_prompt
    then show ?thesis using Cons.prems by (auto simp: feed_conv_def split: option.split)
  next
    case Pam_unknown
    then show ?thesis using Cons.IH [of "rs @ [None]"] Cons.prems step by simp
  qed
qed simp

lemma run_settles:
  "pa_state c = PAM_S_INIT \<Longrightarrow> settled (run_proc p c) \<and> (\<forall>pws. pending (run_proc p c) pws = pam_feed p pws)"
proof (induction p arbitrary: c)
  case (Pam_return r s)
  then show ?case by (simp add: settled_def pending_def)
next
  case (Pam_conv ms k)
  have f: "pam_feed (Pam_conv ms k) pws = feed_conv ms [] k pws" for pws
    by (auto simp: feed_conv_def split: option.split)
  obtain x rs c1 where l: "conv_loop ms [] c = (x, rs, c1)" by (metis prod_cases3)
  show ?case
  proof (cases x)
    case None
    then have "pa_state c1 = PAM_S_INIT" "\<forall>pws. reply_all ms pws = Some (rs, pws)"
      using conv_loop_end [of ms "[]" c rs c1] l Pam_conv.prems by auto
    then show ?thesis using Pam_conv.IH [of "k rs" c1] l None by simp
  next
    case (Some rest)
    note h = conv_loop_prompt [OF l [unfolded Some]]
    have "pending (c1\<lparr>pa_co := Co_prompt rest rs k\<rparr>) pws = feed_conv ms [] k pws" for pws
      using h [of k] by (cases pws) (simp_all add: pending_def)
    moreover have "settled (c1\<lparr>pa_co := Co_prompt rest rs k\<rparr>)" using h [of k] by (simp add: settled_def)
    ultimately show ?thesis using l Some f by simp
  qed
next
  case (Pam_changing p)
  then show ?case by simp
qed

text \<open>One password more.\<close>

lemma call_settles:
  assumes "pa_co c = Co_prompt ms rs k"
  shows "settled (co_call c) \<and> (\<forall>pws. pending (co_call c) pws = feed_conv ms (rs @ [Some (pa_password c)]) k pws)"
proof -
  let ?rs = "rs @ [Some (pa_password c)]" and ?c = "c\<lparr>pa_state := PAM_S_INIT, pa_sent_msg := False\<rparr>"
  obtain x rs1 c1 where l: "conv_loop ms ?rs ?c = (x, rs1, c1)" by (metis prod_cases3)
  show ?thesis
  proof (cases x)
    case None
    then have "pa_state c1 = PAM_S_INIT" "\<exists>new. rs1 = ?rs @ new \<and> (\<forall>pws. reply_all ms pws = Some (new, pws))"
      using conv_loop_end [of ms ?rs ?c rs1 c1] l by auto
    then show ?thesis
      using run_settles [of c1 "k rs1"] l None assms by (auto simp: co_call_def feed_conv_def)
  next
    case (Some rest)
    note h = conv_loop_prompt [OF l [unfolded Some]]
    have "pending (c1\<lparr>pa_co := Co_prompt rest rs1 k\<rparr>) pws = feed_conv ms ?rs k pws" for pws
      using h [of k] by (cases pws) (simp_all add: pending_def)
    moreover have "settled (c1\<lparr>pa_co := Co_prompt rest rs1 k\<rparr>)" using h [of k] by (simp add: settled_def)
    ultimately show ?thesis using l Some assms by (simp add: co_call_def)
  qed
qed

section \<open>A login\<close>

text \<open>
  The passwords that a client posts, each one after the message that asks for it, as the security
  module calls the module: the result of the last one. A password behind the end is refused.
\<close>

fun pam_posts :: "'s pam_ctx \<Rightarrow> string list \<Rightarrow> int" where
  "pam_posts c [] = ERR_AUTH_CONTINUE"
| "pam_posts c (p # ps) =
     (case pam_auth_pass c p of
        (r, c1) \<Rightarrow>
          if r = ERR_AUTH_CONTINUE then
            (case pam_auth_msg c1 of (m, _, c2) \<Rightarrow> if m < 0 then m else pam_posts c2 ps)
          else if r = 0 \<and> ps \<noteq> [] then ERR_AUTH_FAIL else r)"

definition pam_login :: "'s pam_ctx \<Rightarrow> string list \<Rightarrow> int" where
  "pam_login c pws = (case pam_auth_msg c of (m, _, c1) \<Rightarrow> if m < 0 then m else pam_posts c1 pws)"

text \<open>What the result ought to be.\<close>

definition feed_result :: "(pam_code \<times> string list) option \<Rightarrow> int" where
  "feed_result x = (case x of
     None \<Rightarrow> ERR_AUTH_CONTINUE
   | Some (r, rest) \<Rightarrow> if r = PAM_SUCCESS \<and> rest = [] then 0 else ERR_AUTH_FAIL)"

lemma text_same:
  assumes "pam_text c = (t, c1)"
  shows "settled c1 = settled c \<and> pending c1 = pending c \<and> pa_state c1 = pa_state c \<and> pa_co c1 = pa_co c"
proof -
  have "settled (c\<lparr>pa_msg := m\<rparr>) = settled c" "pending (c\<lparr>pa_msg := m\<rparr>) ws = pending c ws" for m ws
    by (cases "pa_co c"; simp add: settled_def pending_def)+
  then show ?thesis using assms by (auto simp: pam_text_def fun_eq_iff split: if_splits)
qed

lemma posts_waiting:
  assumes "settled c" and "pa_co c = Co_prompt ms rs k" and "list_all (\<lambda>p. length p < MAX_PASSWORD_SIZE) pws"
  shows "pam_posts c pws = feed_result (pending c pws)"
  using assms
proof (induction pws arbitrary: c ms rs k)
  case Nil
  then show ?case by (simp add: pending_def feed_result_def)
next
  case (Cons p ps)
  let ?c = "c\<lparr>pa_password := p, pa_cr_ret := PAM_CONV_ERR\<rparr>"
  have call: "settled (co_call ?c)" "pending (co_call ?c) ps = pending c (p # ps)"
    using call_settles [of ?c ms rs k] Cons.prems(2) by (simp_all add: pending_def)
  have pass: "pam_auth_pass c p = (if pa_cr_ret (co_call ?c) \<noteq> PAM_SUCCESS then (ERR_AUTH_FAIL, co_call ?c)
      else if pa_state (co_call ?c) \<noteq> PAM_S_COMPLETE then (ERR_AUTH_CONTINUE, co_call ?c) else (0, co_call ?c))"
    using Cons.prems by (simp add: pam_auth_pass_def settled_def)
  show ?case
  proof (cases "pa_co (co_call ?c)")
    case (Co_start q)
    then show ?thesis using call(1) by (simp add: settled_def)
  next
    case Co_end
    then have "pending c (p # ps) = Some (pa_cr_ret (co_call ?c), ps)"
      using call(2) by (simp add: pending_def [of "co_call ?c"])
    then show ?thesis
      using Co_end call(1) pass by (auto simp: settled_def feed_result_def err_codes split: if_splits)
  next
    case (Co_prompt ms1 rs1 k1)
    then have s: "pa_state (co_call ?c) = PAM_S_WAIT_FOR_PASS" "pa_cr_ret (co_call ?c) = PAM_SUCCESS"
      using call(1) by (simp_all add: settled_def)
    obtain t c2 where t: "pam_text (co_call ?c) = (t, c2)" by fastforce
    have m: "pam_auth_msg (co_call ?c) = (0, Some t, c2)" using s t by (simp add: pam_auth_msg_def)
    have "pam_posts c2 ps = feed_result (pending c2 ps)"
      using Cons.IH [of c2 ms1 rs1 k1] text_same [OF t] call(1) Co_prompt Cons.prems(3) by simp
    then show ?thesis using pass s m text_same [OF t] call(2) by simp
  qed
qed

text \<open>
  The module against its own coroutine. \<open>fits\<close> is what the buffer of a password takes; a longer one
  is refused with -1 wherever the module stands.
\<close>

abbreviation fits :: "string \<Rightarrow> bool" where "fits p \<equiv> length p < MAX_PASSWORD_SIZE"

lemma posts_long:
  assumes "\<not> fits p"
  shows "pam_posts c (p # ps) = -1"
  using assms by (simp add: pam_auth_pass_def err_codes)

lemma posts_split:
  assumes "settled c" and "pa_co c = Co_prompt ms rs k" and "list_all fits pws" and "\<not> fits p"
  shows "pam_posts c (pws @ p # ps) = (if pending c pws = None then -1 else ERR_AUTH_FAIL)"
  using assms(1-3)
proof (induction pws arbitrary: c ms rs k)
  case Nil
  then show ?case using posts_long [OF assms(4)] by (simp add: pending_def)
next
  case (Cons q qs)
  let ?c = "c\<lparr>pa_password := q, pa_cr_ret := PAM_CONV_ERR\<rparr>"
  have call: "settled (co_call ?c)" "pending (co_call ?c) qs = pending c (q # qs)"
    using call_settles [of ?c ms rs k] Cons.prems(2) by (simp_all add: pending_def)
  have pass: "pam_auth_pass c q = (if pa_cr_ret (co_call ?c) \<noteq> PAM_SUCCESS then (ERR_AUTH_FAIL, co_call ?c)
      else if pa_state (co_call ?c) \<noteq> PAM_S_COMPLETE then (ERR_AUTH_CONTINUE, co_call ?c) else (0, co_call ?c))"
    using Cons.prems by (simp add: pam_auth_pass_def settled_def)
  show ?case
  proof (cases "pa_co (co_call ?c)")
    case (Co_start r)
    then show ?thesis using call(1) by (simp add: settled_def)
  next
    case Co_end
    then have "pending c (q # qs) = Some (pa_cr_ret (co_call ?c), qs)" using call(2) by (simp add: pending_def [of "co_call ?c"])
    then show ?thesis using Co_end call(1) pass by (auto simp: settled_def err_codes split: if_splits)
  next
    case (Co_prompt ms1 rs1 k1)
    then have s: "pa_state (co_call ?c) = PAM_S_WAIT_FOR_PASS" "pa_cr_ret (co_call ?c) = PAM_SUCCESS"
      using call(1) by (simp_all add: settled_def)
    obtain t c2 where t: "pam_text (co_call ?c) = (t, c2)" by fastforce
    have m: "pam_auth_msg (co_call ?c) = (0, Some t, c2)" using s t by (simp add: pam_auth_msg_def)
    have "pam_posts c2 (qs @ p # ps) = (if pending c2 qs = None then -1 else ERR_AUTH_FAIL)"
      using Cons.IH [of c2 ms1 rs1 k1] text_same [OF t] call(1) Co_prompt Cons.prems(3) by simp
    then show ?thesis using pass s m text_same [OF t] call(2) by simp
  qed
qed

text \<open>
  The result for any passwords: \<open>good\<close> are those in front of the first one that is too long. When the
  library wants more than these, the long one is refused; when it lets the user in with exactly
  these and there is no other, so does the module. A user for whom it asks nothing is never let in.
\<close>

definition pam_decision :: "'s pam_lib \<Rightarrow> string \<Rightarrow> string \<Rightarrow> string list \<Rightarrow> int" where
  "pam_decision lib u ip pws =
     (let good = takeWhile fits pws; rest = drop (length good) pws in
      case pam_verdict lib u ip good of
        None \<Rightarrow> if rest = [] then ERR_AUTH_CONTINUE else -1
      | Some (r, unused) \<Rightarrow>
          if r \<noteq> PAM_SUCCESS then ERR_AUTH_FAIL
          else if good = [] then (if rest = [] then ERR_AUTH_CONTINUE else -1)
          else if unused = [] \<and> rest = [] then 0 else ERR_AUTH_FAIL)"

lemma feed_result_simps:
  "feed_result None = ERR_AUTH_CONTINUE"
  "feed_result (Some (r, rest)) = (if r = PAM_SUCCESS \<and> rest = [] then 0 else ERR_AUTH_FAIL)"
  by (simp_all add: feed_result_def)

lemma pam_login_decides:
  assumes "pam_auth_init lib (Some u) ip = (r, Some c)" and "list_all fits good" and "rest = [] \<or> \<not> fits (hd rest)"
  shows "pam_login c (good @ rest) =
    (case pam_feed (co_auth_user lib u ip) good of
       None \<Rightarrow> if rest = [] then ERR_AUTH_CONTINUE else -1
     | Some (r, unused) \<Rightarrow>
         if r \<noteq> PAM_SUCCESS then ERR_AUTH_FAIL
         else if good = [] then (if rest = [] then ERR_AUTH_CONTINUE else -1)
         else if unused = [] \<and> rest = [] then 0 else ERR_AUTH_FAIL)"
proof -
  let ?p = "co_auth_user lib u ip" and ?c = "c\<lparr>pa_cr_ret := PAM_CONV_ERR\<rparr>"
  have c: "pa_co c = Co_start ?p" "pa_state c = PAM_S_INIT"
    using assms(1) by (auto simp: pam_auth_init_def split: if_splits)
  have run: "settled (co_call ?c)" "pending (co_call ?c) ws = pam_feed ?p ws" for ws
    using run_settles [of "?c\<lparr>pa_state := PAM_S_INIT\<rparr>" ?p] c by (simp_all add: co_call_def)
  obtain t c2 where t: "pam_text (co_call ?c) = (t, c2)" by fastforce
  show ?thesis
  proof (cases "pa_co (co_call ?c)")
    case (Co_start q)
    then show ?thesis using run(1) by (simp add: settled_def)
  next
    case Co_end
    then have f: "pam_feed ?p ws = Some (pa_cr_ret (co_call ?c), ws)" for ws using run(2) [of ws] by (simp add: pending_def)
    show ?thesis
    proof (cases "pa_cr_ret (co_call ?c) = PAM_SUCCESS")
      case True
      then have st: "pa_state c2 = PAM_S_COMPLETE" using run(1) Co_end text_same [OF t] by (simp add: settled_def)
      have l: "pam_login c pws = pam_posts c2 pws" for pws using c t True by (simp add: pam_login_def pam_auth_msg_def)
      show ?thesis
      proof (cases good)
        case Nil
        then show ?thesis using l f True posts_long assms(3) by (cases rest) simp_all
      next
        case (Cons q qs)
        then have "pam_posts c2 (good @ rest) = ERR_AUTH_FAIL"
          using st assms(2) by (simp add: pam_auth_pass_def err_codes)
        then show ?thesis using l f True Cons by simp
      qed
    next
      case False
      then show ?thesis using c f by (simp add: pam_login_def pam_auth_msg_def err_codes)
    qed
  next
    case (Co_prompt ms rs k)
    then have "pa_cr_ret (co_call ?c) = PAM_SUCCESS" using run(1) by (simp add: settled_def)
    then have l: "pam_login c pws = pam_posts c2 pws" for pws using c t by (simp add: pam_login_def pam_auth_msg_def)
    have c2: "settled c2" "pa_co c2 = Co_prompt ms rs k" "pending c2 pws = pam_feed ?p pws" for pws
      using text_same [OF t] run Co_prompt by simp_all
    have nil: "pam_feed ?p [] = None" using c2(3) [of "[]"] c2(2) by (simp add: pending_def)
    show ?thesis
    proof (cases rest)
      case Nil
      then show ?thesis
        using l posts_waiting [OF c2(1,2) assms(2)] c2(3) nil
        by (auto simp: feed_result_simps split: option.split)
    next
      case (Cons p ps)
      then show ?thesis
        using l posts_split [OF c2(1,2) assms(2), of p ps] c2(3) nil assms(3)
        by (auto split: option.split)
    qed
  qed
qed

text \<open>
  C8: a login with PAM, for every library and every sequence of passwords. The module lets the user in
  after the last password exactly when the library authenticates the user and accepts the account (or
  the change of an expired password), asking for each of these passwords and no other. It asks
  for another one exactly when the library does, and refuses when the library does. Where it
  differs from the library: a password of 64 bytes or more is refused with -1, a user whom the library
  lets in without asking for anything is never let in, and passwords that the library did not ask for
  are refused.
\<close>

theorem pam_login_refines:
  assumes "pam_auth_init lib (Some u) ip = (r, Some c)"
  shows "pam_login c pws = pam_decision lib u ip pws"
proof -
  define good where "good = takeWhile fits pws"
  define rest where "rest = drop (length good) pws"
  have r: "rest = dropWhile fits pws" by (simp add: rest_def good_def dropWhile_eq_drop)
  have g: "list_all fits good" by (auto simp: good_def list_all_iff dest: set_takeWhileD)
  have "rest = [] \<or> \<not> fits (hd rest)" using hd_dropWhile [of fits pws] unfolding r by blast
  moreover have "pws = good @ rest" by (simp add: r good_def)
  ultimately show ?thesis
    using pam_login_decides [OF assms g, of rest]
    unfolding pam_decision_def Let_def good_def [symmetric] rest_def [symmetric] feed_user by simp
qed

section \<open>Messages\<close>

text \<open>
  C30: stale messages. When the library sends a text before each of two prompts, the client is shown
  the first text both times: the NUL that pam_auth_msg puts behind it hides everything that is
  appended later.
\<close>

theorem pam_message_stale:
  assumes "pam_auth_init lib (Some u) ip = (r, Some c)"
    and "pl_authenticate lib u ip = Pam_conv [Pam_text a, Pam_prompt] (\<lambda>rs. Pam_conv [Pam_text b, Pam_prompt] (k rs))"
    and "NUL \<notin> set a" and "length p < MAX_PASSWORD_SIZE"
    and "pam_auth_msg c = (r1, t1, c1)" and "pam_auth_pass c1 p = (r2, c2)" and "pam_auth_msg c2 = (r3, t3, c3)"
  shows "r1 = 0 \<and> t1 = Some (a @ '' '') \<and> r2 = ERR_AUTH_CONTINUE \<and> r3 = 0 \<and> t3 = Some (a @ '' '')"
proof -
  have c: "pa_co c = Co_start (co_auth_user lib u ip)" "pa_state c = PAM_S_INIT" "pa_msg c = []"
    using assms(1) by (auto simp: pam_auth_init_def split: if_splits)
  have cut: "c_string (a @ CHR '' '' # NUL # x) = a @ '' ''" for x
    unfolding c_string_def using assms(3) by (subst takeWhile_append2) auto
  have c1: "r1 = 0" "t1 = Some (a @ '' '')" "pa_msg c1 = a @ '' '' @ [NUL]" "pa_state c1 = PAM_S_WAIT_FOR_PASS"
      "\<exists>k'. pa_co c1 = Co_prompt [] [None] (\<lambda>rs. Pam_conv [Pam_text b, Pam_prompt] (k' rs))"
    using assms(5) c cut
    by (auto simp: pam_auth_msg_def co_call_def co_auth_user_def assms(2) pam_text_def Let_def)
  have c2: "r2 = ERR_AUTH_CONTINUE" "pa_msg c2 = (a @ '' '' @ [NUL]) @ b @ '' ''" "pa_state c2 = PAM_S_WAIT_FOR_PASS"
    using assms(4,6) c1(3-5) by (auto simp: pam_auth_pass_def co_call_def Let_def)
  show ?thesis
    using assms(7) c1(1,2) c2 cut by (simp add: pam_auth_msg_def pam_text_def Let_def)
qed

section \<open>An example\<close>

text \<open>A password and a code, with a text before the second.\<close>

definition example_pam :: "unit pam_lib" where
  "example_pam = \<lparr>pl_start = (\<lambda>u. True), pl_create = True,
     pl_authenticate = (\<lambda>u ip. Pam_conv [Pam_text ''Hello.'', Pam_prompt] (\<lambda>rs. Pam_conv [Pam_text ''Code.'', Pam_prompt] (\<lambda>qs.
        if rs = [None, Some ''secret''] \<and> qs = [None, Some ''1234''] then Pam_return PAM_SUCCESS ()
        else Pam_return (PAM_OTHER 7) ()))),
     pl_acct_mgmt = (\<lambda>s. Pam_return PAM_SUCCESS s), pl_chauthtok = (\<lambda>s. Pam_return PAM_SUCCESS s)\<rparr>"

definition example_pam_ctx :: "unit pam_ctx" where
  "example_pam_ctx = the (snd (pam_auth_init example_pam (Some ''bob'') ''10.0.0.1''))"

lemma example_pam_init:
  "pam_auth_init example_pam (Some ''bob'') ''10.0.0.1'' = (ERR_AUTH_CONTINUE, Some example_pam_ctx)"
  by (simp add: example_pam_ctx_def pam_auth_init_def example_pam_def)

theorem pam_login_refines_witness:
  "pam_login example_pam_ctx [''secret'', ''1234''] = 0 \<and> pam_login example_pam_ctx [''secret'', ''4321''] = ERR_AUTH_FAIL
    \<and> pam_login example_pam_ctx [''secret''] = ERR_AUTH_CONTINUE \<and> pam_login example_pam_ctx [''secret'', replicate 64 CHR ''x''] = -1"
  unfolding pam_login_refines [OF example_pam_init]
  by (simp add: pam_decision_def pam_verdict_def example_pam_def MAX_PASSWORD_SIZE_def)

theorem pam_message_stale_witness:
  "\<exists>c1 c2 c3. pam_auth_msg example_pam_ctx = (0, Some ''Hello. '', c1)
    \<and> pam_auth_pass c1 ''secret'' = (ERR_AUTH_CONTINUE, c2) \<and> pam_auth_msg c2 = (0, Some ''Hello. '', c3)"
proof -
  obtain r1 t1 c1 where 1: "pam_auth_msg example_pam_ctx = (r1, t1, c1)" by (metis prod_cases3)
  obtain r2 c2 where 2: "pam_auth_pass c1 ''secret'' = (r2, c2)" by fastforce
  obtain r3 t3 c3 where 3: "pam_auth_msg c2 = (r3, t3, c3)" by (metis prod_cases3)
  have "length ''secret'' < MAX_PASSWORD_SIZE" "NUL \<notin> set ''Hello.''" by (simp_all add: MAX_PASSWORD_SIZE_def)
  moreover have "pl_authenticate example_pam ''bob'' ''10.0.0.1'' =
      Pam_conv [Pam_text ''Hello.'', Pam_prompt] (\<lambda>rs. Pam_conv [Pam_text ''Code.'', Pam_prompt] (\<lambda>qs.
        if rs = [None, Some ''secret''] \<and> qs = [None, Some ''1234''] then Pam_return PAM_SUCCESS () else Pam_return (PAM_OTHER 7) ()))"
    by (simp add: example_pam_def)
  ultimately have "r1 = 0 \<and> t1 = Some (''Hello.'' @ '' '') \<and> r2 = ERR_AUTH_CONTINUE \<and> r3 = 0 \<and> t3 = Some (''Hello.'' @ '' '')"
    by (intro pam_message_stale [OF example_pam_init _ _ _ 1 2 3])
  then show ?thesis using 1 2 3 by simp
qed

end
