(* ===== verification/Kkdcp.thy ===== *)
theory Kkdcp
  imports Wire CfgProps HttpProps WorkerConnect
begin

text \<open>
  What a worker serves besides the login: the Kerberos proxy (src/worker-kkdcp.c), which passes a
  client's message to the KDC of a realm and the answer back, and the fixed pages and the profile of
  src/worker-extras.c. libtasn1, the sockets to the KDC and the file are parameters; a response
  is the list of the texts it is sent in. Allocations succeed.
\<close>

section \<open>Sending a response\<close>

text \<open>
  The texts of a response that are sent, \<open>n\<close> of them being sent before; the send number \<open>fail\<close>
  fails, and then nothing more is sent.
\<close>

definition send_texts :: "nat option \<Rightarrow> nat \<Rightarrow> string list \<Rightarrow> bool \<times> string list" where
  "send_texts fail n texts =
     (case fail of
        None \<Rightarrow> (True, texts)
      | Some k \<Rightarrow> if n \<le> k \<and> k < n + length texts then (False, take (k - n) texts) else (True, texts))"

definition status_line :: "nat \<Rightarrow> string \<Rightarrow> string" where
  "status_line ver status = ''HTTP/1.'' @ dec ver @ '' '' @ status @ CRLF"

section \<open>The Kerberos proxy\<close>

text \<open>
  libtasn1: creating the structure, decoding it, its two values with the room that there is for
  them, writing kerb-message and encoding with the room for the result. The KDC: whether a socket
  can be made and connected, what send returns, and what comes back for a message.
\<close>

record kdc_env =
  ke_create :: bool
  ke_decode :: "byte list \<Rightarrow> bool"
  ke_message :: "byte list \<Rightarrow> nat \<Rightarrow> byte list option"
  ke_domain :: "byte list \<Rightarrow> nat \<Rightarrow> string option"
  ke_write :: "byte list \<Rightarrow> bool"
  ke_encode :: "byte list \<Rightarrow> nat \<Rightarrow> byte list option"
  ke_socket :: "kkdcp_realm \<Rightarrow> bool"
  ke_connect :: "kkdcp_realm \<Rightarrow> bool"
  ke_send :: "kkdcp_realm \<Rightarrow> byte list \<Rightarrow> int"
  ke_answer :: "kkdcp_realm \<Rightarrow> byte list \<Rightarrow> input list"
  ke_select :: "sel_result list"
  ke_http_ver :: nat
  ke_fail :: "nat option"

definition KKDCP_BUF_SIZE :: nat where "KKDCP_BUF_SIZE = 16 * 1024"

definition der_decode :: "kdc_env \<Rightarrow> byte list \<Rightarrow> nat \<Rightarrow> nat \<Rightarrow> (byte list \<times> string) option" where
  "der_decode env der out_size realm_size =
     (if \<not> ke_create env \<or> \<not> ke_decode env der then None
      else
        (case ke_message env der out_size of
           None \<Rightarrow> None
         | Some sent \<Rightarrow>
             Some (sent, case ke_domain env der realm_size of None \<Rightarrow> [] | Some realm \<Rightarrow> c_string realm)))"

definition der_encode_inplace :: "kdc_env \<Rightarrow> byte list \<Rightarrow> nat \<Rightarrow> byte list option" where
  "der_encode_inplace env raw max_size =
     (if \<not> ke_create env \<or> \<not> ke_write env raw then None else ke_encode env raw max_size)"

text \<open>The slot of a realm that was not set is zero.\<close>

definition zero_realm :: kkdcp_realm where
  "zero_realm = \<lparr>kr_realm = [], kr_addr = [], kr_dgram = False\<rparr>"

definition first_realm :: "kkdcp \<Rightarrow> kkdcp_realm" where
  "first_realm k = (case kk_realms k of [] \<Rightarrow> zero_realm | kr # _ \<Rightarrow> kr)"

definition find_kkdcp :: "kkdcp list \<Rightarrow> string \<Rightarrow> kkdcp option" where
  "find_kkdcp ks url = List.find (\<lambda>k. kk_url k = Some url) ks"

definition find_realm :: "kkdcp \<Rightarrow> string \<Rightarrow> kkdcp_realm" where
  "find_realm k realm =
     (if realm \<noteq> [] \<and> 1 < length (kk_realms k) then
        (case List.find (\<lambda>kr. kr_realm kr = realm) (kk_realms k) of Some kr \<Rightarrow> kr | None \<Rightarrow> first_realm k)
      else first_realm k)"

text \<open>The length in front of a message of a stream, in network order.\<close>

definition ntohl :: "byte list \<Rightarrow> nat" where
  "ntohl bs = foldl (\<lambda>n b. 256 * n + unat b) 0 bs"

text \<open>
  The answer: the reason of a failure or the bytes in the buffer. None when the worker waits without
  end: recv of a datagram has no timeout. The length must come in one segment.
\<close>

definition kdc_reply :: "kdc_env \<Rightarrow> kkdcp_realm \<Rightarrow> byte list \<Rightarrow> (string + byte list) option" where
  "kdc_reply env kr msg =
     (if kr_dgram kr then
        (case ke_answer env kr msg of
           [] \<Rightarrow> None
         | Data bs # _ \<Rightarrow> Some (Inr (take KKDCP_BUF_SIZE bs))
         | _ \<Rightarrow> Some (Inl ''recv error''))
      else
        (case read_some 4 (ke_answer env kr msg) of
           (Inl _, _) \<Rightarrow> Some (Inl ''Recv error'')
         | (Inr h, q) \<Rightarrow>
             if length h < 4 then Some (Inl ''Recv error'')
             else if KKDCP_BUF_SIZE - 4 \<le> ntohl h then Some (Inl ''recv error'')
             else
               (case force_read_timeout (ntohl h) (ke_select env) q [] of
                  None \<Rightarrow> None
                | Some (None, _) \<Rightarrow> Some (Inl ''recv error'')
                | Some (Some bs, _) \<Rightarrow> Some (Inr (h @ bs)))))"

text \<open>What was handed to a KDC's socket, and how it went.\<close>

type_synonym asked = "(kkdcp_realm \<times> byte list) option"

definition kdc_exchange :: "kdc_env \<Rightarrow> kkdcp_realm \<Rightarrow> byte list \<Rightarrow> (asked \<times> (string + byte list)) option" where
  "kdc_exchange env kr msg =
     (if \<not> ke_socket env kr then Some (None, Inl ''socket error'')
      else if \<not> ke_connect env kr then Some (None, Inl ''connect error'')
      else if ke_send env kr msg \<noteq> int (length msg) then Some (Some (kr, msg), Inl ''send error'')
      else map_option (Pair (Some (kr, msg))) (kdc_reply env kr msg))"

text \<open>
  A run of the handler: its return value, whether the client's score was raised by
  ban_points_kkdcp, what a KDC was asked, the texts of the response, and whether they are still
  held back by cstp_cork. The last, empty text of a response stands for cstp_uncork.
\<close>

record kkdcp_run =
  kx_ret :: int
  kx_scored :: bool
  kx_asked :: asked
  kx_out :: "string list"
  kx_corked :: bool

definition kkdcp_fail :: "kdc_env \<Rightarrow> asked \<Rightarrow> bool \<Rightarrow> string list \<Rightarrow> string \<Rightarrow> kkdcp_run" where
  "kkdcp_fail env asked corked sent reason =
     \<lparr>kx_ret = -1, kx_scored = True, kx_asked = asked,
      kx_out = sent @ [status_line (ke_http_ver env) ''502 Bad Gateway'' @ ''X-Reason: '' @ reason @ CRLF @ CRLF],
      kx_corked = corked\<rparr>"

definition kkdcp_response :: "kdc_env \<Rightarrow> asked \<Rightarrow> byte list \<Rightarrow> kkdcp_run" where
  "kkdcp_response env asked reply =
     (case send_texts (ke_fail env) 0
             [status_line (ke_http_ver env) ''200 OK'', line ''Content-Type'' ''application/kerberos''] of
        (False, sent) \<Rightarrow> kkdcp_fail env asked True sent ''Unknown''
      | (True, sent) \<Rightarrow>
          (case der_encode_inplace env reply KKDCP_BUF_SIZE of
             None \<Rightarrow> kkdcp_fail env asked True sent ''DER encoding error''
           | Some raw \<Rightarrow>
               (case send_texts (ke_fail env) 2
                       [line ''Content-Length'' (dec (length raw)), line ''Connection'' ''Keep-Alive'', CRLF,
                        str_of raw, []] of
                  (False, sent2) \<Rightarrow> kkdcp_fail env asked True (sent @ sent2) ''Unknown''
                | (True, sent2) \<Rightarrow>
                    \<lparr>kx_ret = 0, kx_scored = True, kx_asked = asked, kx_out = sent @ sent2, kx_corked = False\<rparr>)))"

text \<open>post_kkdcp_handler; \<open>ks\<close> are the kkdcp_size proxies of the configuration.\<close>

definition kkdcp_handler :: "kdc_env \<Rightarrow> kkdcp list \<Rightarrow> string \<Rightarrow> byte list \<Rightarrow> kkdcp_run option" where
  "kkdcp_handler env ks url body =
     (let refused = Some \<lparr>kx_ret = -1, kx_scored = False, kx_asked = None, kx_out = [], kx_corked = False\<rparr> in
      case find_kkdcp ks url of
        None \<Rightarrow> refused
      | Some k \<Rightarrow>
          if body = [] then refused
          else
            (case der_decode env body KKDCP_BUF_SIZE 128 of
               None \<Rightarrow> Some (kkdcp_fail env None False [] ''DER decoding error'')
             | Some (msg, realm) \<Rightarrow>
                 (case kdc_exchange env (find_realm k realm) msg of
                    None \<Rightarrow> None
                  | Some (asked, Inl reason) \<Rightarrow> Some (kkdcp_fail env asked False [] reason)
                  | Some (asked, Inr reply) \<Rightarrow> Some (kkdcp_response env asked reply))))"

section \<open>The fixed pages\<close>

definition empty_msg :: string where "empty_msg = ''<html></html>'' @ [CHR 0x0A]"
definition VPN_VERSION :: string where "VPN_VERSION = ''0,0,0000'' @ [CHR 0x0A]"

definition XML_START :: string where
  "XML_START =
     ''<?xml version='' @ [CHR 0x22] @ ''1.0'' @ [CHR 0x22] @ '' encoding='' @ [CHR 0x22] @ ''UTF-8'' @ [CHR 0x22]
     @ ''?>'' @ [CHR 0x0A] @ ''<vpn rev='' @ [CHR 0x22] @ ''1.0'' @ [CHR 0x22] @ ''>'' @ [CHR 0x0A] @ ''</vpn>'' @ [CHR 0x0A]"

definition SH_SCRIPT :: string where "SH_SCRIPT = ''#!/bin/sh'' @ [CHR 0x0A, CHR 0x0A] @ ''exit 0''"

text \<open>
  The profile of the configuration: its name, the size that stat tells, and the pieces of at most
  512 bytes that fread gives until its end, None when it cannot be opened. \<open>pg_error\<close> is the error of
  the send that fails, and \<open>pg_fatal\<close> says whether it is a fatal one.
\<close>

record page_env =
  pg_http_ver :: nat
  pg_fail :: "nat option"
  pg_error :: int
  pg_fatal :: bool
  pg_profile :: "string option"
  pg_stat :: "string \<Rightarrow> int option"
  pg_read :: "string \<Rightarrow> byte list list option"

text \<open>The return value with the texts sent, or the worker left through exit_worker.\<close>

datatype page_run = Page int "string list" | Page_exit "string list"

definition page :: "page_env \<Rightarrow> string list \<Rightarrow> page_run" where
  "page env texts = (case send_texts (pg_fail env) 0 texts of (ok, sent) \<Rightarrow> Page (if ok then 0 else -1) sent)"

definition empty_handler :: "page_env \<Rightarrow> page_run" where
  "empty_handler env =
     page env [status_line (pg_http_ver env) ''200 OK'', line ''Connection'' ''Keep-Alive'',
       line ''Content-Type'' ''text/html'', line ''Content-Length'' (dec (length empty_msg)),
       line ''X-Transcend-Version'' ''1'', CRLF, empty_msg, []]"

definition string_handler :: "page_env \<Rightarrow> string \<Rightarrow> page_run" where
  "string_handler env url =
     (let data = (if url = ''/1/binaries/update.txt'' then VPN_VERSION else XML_START) in
      page env [status_line (pg_http_ver env) ''200 OK'', line ''Connection'' ''Keep-Alive'',
        line ''Content-Type'' ''text/xml'', line ''X-Transcend-Version'' ''1'',
        line ''Content-Length'' (dec (length data)) @ CRLF, data, []])"

definition dl_handler :: "page_env \<Rightarrow> page_run" where
  "dl_handler env =
     page env [status_line (pg_http_ver env) ''200 OK'', line ''Connection'' ''Keep-Alive'',
       line ''Content-Type'' ''application/x-shellscript'', line ''X-Transcend-Version'' ''1'',
       line ''Content-Length'' (dec (length SH_SCRIPT)) @ CRLF, SH_SCRIPT, []]"

text \<open>
  cstp_send_file, \<open>n\<close> texts being sent before: a send that fails ends the worker when the error is
  fatal, and else the piece is skipped and the negative result added to the total. The result is
  the total, which config_handler takes as an int.
\<close>

fun cstp_send_file :: "page_env \<Rightarrow> nat \<Rightarrow> byte list list \<Rightarrow> int \<Rightarrow> page_run" where
  "cstp_send_file env n [] acc = Page acc []"
| "cstp_send_file env n (bs # bss) acc =
     (if pg_fail env = Some n then
        if pg_fatal env then Page_exit [] else cstp_send_file env (n + 1) bss (acc + pg_error env)
      else
        (case cstp_send_file env (n + 1) bss (acc + int (length bs)) of
           Page r sent \<Rightarrow> Page r (str_of bs # sent)
         | Page_exit sent \<Rightarrow> Page_exit (str_of bs # sent)))"

definition config_handler :: "page_env \<Rightarrow> page_run" where
  "config_handler env =
     (let not_found = Page (-1) [status_line (pg_http_ver env) ''404 Not found''] in
      case pg_profile env of
        None \<Rightarrow> not_found
      | Some f \<Rightarrow>
          (case pg_stat env f of
             None \<Rightarrow> not_found
           | Some st_size \<Rightarrow>
               (case send_texts (pg_fail env) 0
                       [status_line (pg_http_ver env) ''200 OK'', line ''Connection'' ''Keep-Alive'',
                        line ''Content-Type'' ''text/xml'', line ''X-Transcend-Version'' ''1'',
                        line ''Content-Length'' (dec (unat (word_of_int st_size :: u32))), CRLF, []] of
                  (False, sent) \<Rightarrow> Page (-1) sent
                | (True, sent) \<Rightarrow>
                    (case pg_read env f of
                       None \<Rightarrow> Page (-1) sent
                     | Some bss \<Rightarrow>
                         (case cstp_send_file env 7 bss 0 of
                            Page ret sent2 \<Rightarrow> Page (if sint (word_of_int ret :: u32) < 0 then -1 else 0) (sent @ sent2)
                          | Page_exit sent2 \<Rightarrow> Page_exit (sent @ sent2))))))"

end
