(* ===== verification/KkdcpProps.thy ===== *)
theory KkdcpProps
  imports Kkdcp
begin

text \<open>What a client gets from the Kerberos proxy and from the fixed pages.\<close>

section \<open>Responses\<close>

definition head_line :: "string \<Rightarrow> bool" where
  "head_line l \<longleftrightarrow> (\<exists>t. l = t @ CRLF \<and> t \<noteq> [] \<and> CHR 0x0A \<notin> set t)"

text \<open>
  A response that a client can read: lines, one of them the length of what follows the first empty
  line.
\<close>

definition framed :: "string \<Rightarrow> string \<Rightarrow> bool" where
  "framed text body \<longleftrightarrow>
     (\<exists>ls. text = concat ls @ CRLF @ body \<and> (\<forall>l \<in> set ls. head_line l)
        \<and> line ''Content-Length'' (dec (length body)) \<in> set ls)"

lemma dec_plain: "CHR 0x0A \<notin> set (dec n)"
proof (induction n rule: dec.induct)
  case (1 n)
  have "(CHR 0x0A) \<noteq> (char_of (48 + n mod 10) :: char)"
  proof
    assume "CHR 0x0A = (char_of (48 + n mod 10) :: char)"
    then have "of_char (CHR 0x0A) = (of_char (char_of (48 + n mod 10) :: char) :: nat)" by simp
    then show False by (simp add: take_bit_eq_mod of_char_of)
  qed
  then show ?case using 1 by (subst dec.simps) auto
qed

lemma head_line_line:
  "n \<noteq> [] \<Longrightarrow> CHR 0x0A \<notin> set n \<Longrightarrow> CHR 0x0A \<notin> set v \<Longrightarrow> head_line (line n v)"
  by (auto simp: head_line_def line_def)

lemma head_line_status: "CHR 0x0A \<notin> set s \<Longrightarrow> head_line (status_line v s)"
  using dec_plain [of v] by (auto simp: head_line_def status_line_def)

lemma framedI:
  assumes "\<forall>l \<in> set ls. head_line l" and "line ''Content-Length'' (dec (length body)) \<in> set ls"
  shows "framed (concat ls @ CRLF @ body) body"
  using assms by (auto simp: framed_def)

lemmas heads = head_line_line head_line_status dec_plain

lemma send_texts_True: "send_texts f n texts = (True, sent) \<Longrightarrow> sent = texts"
  by (auto simp: send_texts_def split: option.splits if_splits)

lemma page_ok: "page env texts = Page 0 sent \<Longrightarrow> sent = texts"
  by (auto simp: page_def dest: send_texts_True split: prod.splits if_splits)

lemma empty_framed: "empty_handler env = Page 0 sent \<Longrightarrow> framed (concat sent) empty_msg"
  using framedI [of "[status_line (pg_http_ver env) ''200 OK'', line ''Connection'' ''Keep-Alive'',
      line ''Content-Type'' ''text/html'', line ''Content-Length'' (dec (length empty_msg)),
      line ''X-Transcend-Version'' ''1'']" empty_msg]
  by (auto simp: empty_handler_def heads dest!: page_ok)

lemma string_framed:
  "string_handler env url = Page 0 sent \<Longrightarrow>
    framed (concat sent) (if url = ''/1/binaries/update.txt'' then VPN_VERSION else XML_START)"
  using framedI [of "[status_line (pg_http_ver env) ''200 OK'', line ''Connection'' ''Keep-Alive'',
      line ''Content-Type'' ''text/xml'', line ''X-Transcend-Version'' ''1'', line ''Content-Length'' (dec (length b))]" b for b]
  by (auto simp: string_handler_def Let_def heads dest!: page_ok)

lemma dl_framed: "dl_handler env = Page 0 sent \<Longrightarrow> framed (concat sent) SH_SCRIPT"
  using framedI [of "[status_line (pg_http_ver env) ''200 OK'', line ''Connection'' ''Keep-Alive'',
      line ''Content-Type'' ''application/x-shellscript'', line ''X-Transcend-Version'' ''1'',
      line ''Content-Length'' (dec (length SH_SCRIPT))]" SH_SCRIPT]
  by (auto simp: dl_handler_def heads dest!: page_ok)

lemma send_file_all:
  assumes "cstp_send_file env n bss acc = Page r sent" and "pg_fail env \<noteq> None \<longrightarrow> pg_fatal env"
  shows "sent = map str_of bss \<and> r = acc + int (length (concat bss))"
  using assms(1)
proof (induction bss arbitrary: n acc sent)
  case (Cons bs bss)
  then obtain sent1 where "cstp_send_file env (n + 1) bss (acc + int (length bs)) = Page r sent1" "sent = str_of bs # sent1"
    using assms(2) by (auto split: if_splits page_run.splits)
  then show ?case using Cons.IH by fastforce
qed simp

lemma str_of_concat: "str_of (concat bss) = concat (map str_of bss)"
  by (induction bss) (simp_all add: str_of_def)

lemma config_framed:
  assumes "config_handler env = Page 0 sent" and "pg_fail env \<noteq> None \<longrightarrow> pg_fatal env"
    and "pg_profile env = Some f" and "pg_read env f = Some bss"
    and "pg_stat env f = Some (int (length (concat bss)))" and "length (concat bss) < 2 ^ 32"
  shows "framed (concat sent) (str_of (concat bss))"
proof -
  have u: "unat (word_of_nat (length (concat bss)) :: u32) = length (str_of (concat bss))"
    using assms(6) by (simp add: str_of_def unat_of_nat take_bit_eq_mod)
  define hs where "hs = [status_line (pg_http_ver env) ''200 OK'', line ''Connection'' ''Keep-Alive'',
      line ''Content-Type'' ''text/xml'', line ''X-Transcend-Version'' ''1'',
      line ''Content-Length'' (dec (length (str_of (concat bss))))]"
  have "sent = hs @ [CRLF, []] @ map str_of bss"
    using assms(1,3-5)
    by (auto simp: config_handler_def u hs_def split: prod.splits bool.splits page_run.splits if_splits
        dest!: send_texts_True send_file_all [OF _ assms(2)])
  then have "concat sent = concat hs @ CRLF @ str_of (concat bss)" by (simp add: str_of_concat)
  moreover have "\<forall>l \<in> set hs. head_line l" by (simp add: hs_def heads)
  moreover have "line ''Content-Length'' (dec (length (str_of (concat bss)))) \<in> set hs" by (simp add: hs_def)
  ultimately show ?thesis unfolding framed_def by blast
qed

text \<open>The handlers of this library for the pages; the login has its own.\<close>

definition serve_page :: "page_env \<Rightarrow> string \<Rightarrow> url_handler \<Rightarrow> page_run option" where
  "serve_page env url h =
     (case h of
        get_empty_handler \<Rightarrow> Some (empty_handler env) | get_dl_handler \<Rightarrow> Some (dl_handler env)
      | get_string_handler \<Rightarrow> Some (string_handler env url) | get_config_handler \<Rightarrow> Some (config_handler env)
      | _ \<Rightarrow> None)"

text \<open>What is in the profile, and that stat tells its size.\<close>

definition profile_is :: "page_env \<Rightarrow> byte list \<Rightarrow> bool" where
  "profile_is env bs \<longleftrightarrow>
     (case pg_profile env of
        None \<Rightarrow> False
      | Some f \<Rightarrow> map_option concat (pg_read env f) = Some bs \<and> pg_stat env f = Some (int (length bs)))"

definition page_body :: "byte list \<Rightarrow> string \<Rightarrow> url_handler \<Rightarrow> string" where
  "page_body profile url h =
     (case h of
        get_empty_handler \<Rightarrow> empty_msg | get_dl_handler \<Rightarrow> SH_SCRIPT | get_config_handler \<Rightarrow> str_of profile
      | _ \<Rightarrow> if url = ''/1/binaries/update.txt'' then VPN_VERSION else XML_START)"

text \<open>
  C27: pages are framed. When the worker serves a URL of its table with a fixed page or the profile and
  the handler succeeds, the client has got complete lines, an empty line and then the whole page,
  and a line of the head tells its exact length; the profile must be smaller than 4 GB and stat tell its
  size, and failing sends must be fatal.
\<close>

theorem pages_framed:
  assumes "http_get_url_handler url = Some h" and "serve_page env url h = Some (Page 0 sent)"
    and "profile_is env profile" and "length profile < 2 ^ 32" and "pg_fail env \<noteq> None \<longrightarrow> pg_fatal env"
  shows "framed (concat sent) (page_body profile url h)"
proof (cases h)
  case get_config_handler
  obtain f bss where "pg_profile env = Some f" "pg_read env f = Some bss" "concat bss = profile"
      "pg_stat env f = Some (int (length (concat bss)))"
    using assms(3) by (auto simp: profile_is_def split: option.splits)
  then show ?thesis
    using config_framed [OF _ assms(5)] assms(2,4) get_config_handler by (auto simp: serve_page_def page_body_def)
qed (use assms(2) empty_framed string_framed dl_framed in \<open>auto simp: serve_page_def page_body_def\<close>)

definition example_page :: page_env where
  "example_page = \<lparr>pg_http_ver = 1, pg_fail = None, pg_error = 0, pg_fatal = True, pg_profile = Some ''p.xml'',
     pg_stat = (\<lambda>_. Some 3), pg_read = (\<lambda>_. Some [[60, 120], [62]])\<rparr>"

theorem pages_framed_witness:
  "\<exists>sent. serve_page example_page ''/profiles/p.xml'' get_config_handler = Some (Page 0 sent)
     \<and> framed (concat sent) ''<x>''"
proof -
  obtain sent where s: "serve_page example_page ''/profiles/p.xml'' get_config_handler = Some (Page 0 sent)"
    by (simp add: serve_page_def config_handler_def example_page_def send_texts_def)
  have b: "page_body [60, 120, 62] ''/profiles/p.xml'' get_config_handler = ''<x>''" by code_simp
  have h: "http_get_url_handler ''/profiles/p.xml'' = Some get_config_handler" by code_simp
  have "framed (concat sent) (page_body [60, 120, 62] ''/profiles/p.xml'' get_config_handler)"
    by (rule pages_framed [OF h s]) (simp_all add: profile_is_def example_page_def)
  then show ?thesis using s b by auto
qed

section \<open>The Kerberos proxy\<close>

lemma read_some_prefix: "read_some n q = (Inr bs, q') \<Longrightarrow> data_of q = bs @ data_of q' \<and> length bs \<le> n"
  by (cases "(n, q)" rule: read_some.cases) (auto split: if_splits)

lemma read_some_again: "read_some n q = (Inl r, q') \<Longrightarrow> data_of q' = data_of q"
  by (cases "(n, q)" rule: read_some.cases) (auto split: if_splits)

lemma force_read_timeout_exact:
  "force_read_timeout n sels q got = Some (Some bs, q') \<Longrightarrow>
    bs = got @ take n (data_of q) \<and> length bs = length got + n"
proof (induction sels arbitrary: n q got)
  case (Cons sel sels)
  note IH = Cons.IH and eq = Cons.prems
  show ?case
  proof (cases "n = 0 \<or> sel \<noteq> Sel_ready")
    case True
    then show ?thesis using eq IH [of n q got] by (cases sel) (auto split: if_splits)
  next
    case False
    obtain r q1 where r: "read_some n q = (r, q1)" by fastforce
    show ?thesis
    proof (cases r)
      case (Inl again)
      then show ?thesis
        using eq False r IH [of n q1 got] read_some_again [of n q again q1] by (auto split: if_splits)
    next
      case (Inr xs)
      then have "data_of q = xs @ data_of q1" "length xs \<le> n" using read_some_prefix r by auto
      then show ?thesis using eq False r Inr IH [of "n - length xs" q1 "got @ xs"] by (auto split: if_splits)
    qed
  qed
qed (auto split: if_splits)

lemma take_rest: "\<exists>rest. xs = take n xs @ rest"
  by (metis append_take_drop_id)

text \<open>A whole message of a stream: its length in front, and as many bytes as that says.\<close>

definition whole_message :: "byte list \<Rightarrow> bool" where
  "whole_message bs \<longleftrightarrow> 4 \<le> length bs \<and> length bs = 4 + ntohl (take 4 bs)"

lemma kdc_reply_exact:
  assumes "kdc_reply env kr msg = Some (Inr reply)"
  shows "\<exists>rest. data_of (ke_answer env kr msg) = reply @ rest" and "length reply \<le> KKDCP_BUF_SIZE"
    and "\<not> kr_dgram kr \<Longrightarrow> whole_message reply"
    and "kr_dgram kr \<Longrightarrow> \<exists>bs q. ke_answer env kr msg = Data bs # q \<and> reply = take KKDCP_BUF_SIZE bs"
proof -
  have "(\<exists>rest. data_of (ke_answer env kr msg) = reply @ rest) \<and> length reply \<le> KKDCP_BUF_SIZE
      \<and> (\<not> kr_dgram kr \<longrightarrow> whole_message reply)"
  proof (cases "kr_dgram kr")
    case True
    obtain bs q where "ke_answer env kr msg = Data bs # q" "reply = take KKDCP_BUF_SIZE bs"
      using assms True by (auto simp: kdc_reply_def split: list.splits input.splits)
    then show ?thesis using True take_rest [of "bs @ data_of q" "length (take KKDCP_BUF_SIZE bs)"] by (auto simp: min_def split: if_splits)
  next
    case False
    obtain h q bs q' where r: "read_some 4 (ke_answer env kr msg) = (Inr h, q)" "4 \<le> length h"
        "ntohl h < KKDCP_BUF_SIZE - 4" "force_read_timeout (ntohl h) (ke_select env) q [] = Some (Some bs, q')"
        "reply = h @ bs"
      using assms False by (auto simp: kdc_reply_def not_less split: prod.splits sum.splits if_splits option.splits)
    note h = read_some_prefix [OF r(1)] and b = force_read_timeout_exact [OF r(4)]
    have "length h = 4" using h r(2) by simp
    moreover have "data_of (ke_answer env kr msg) = reply @ drop (ntohl h) (data_of q)"
      using h b r(5) by simp
    ultimately show ?thesis using r b False take_rest by (auto simp: whole_message_def)
  qed
  then show "\<exists>rest. data_of (ke_answer env kr msg) = reply @ rest" "length reply \<le> KKDCP_BUF_SIZE"
    "\<not> kr_dgram kr \<Longrightarrow> whole_message reply" by auto
  show "\<exists>bs q. ke_answer env kr msg = Data bs # q \<and> reply = take KKDCP_BUF_SIZE bs" if "kr_dgram kr"
    using assms that by (auto simp: kdc_reply_def split: list.splits input.splits)
qed

text \<open>
  C20: the answer of the Kerberos proxy is the KDC's. When the handler succeeds, the URL is that of a
  configured proxy, a KDC of this proxy was asked exactly the message that the client's body holds,
  for the realm that it names, and the client has got a framed response with the encoding of what
  this KDC answered: over a stream exactly one whole message, its length in front; over UDP the
  first datagram that came, cut to 16384 bytes if it is longer.
\<close>

theorem kkdcp_answers_with_kdc:
  assumes "kkdcp_handler env ks url body = Some run" and "kx_ret run = 0"
  shows "\<exists>k msg realm kr reply raw rest.
    k \<in> set ks \<and> kk_url k = Some url \<and> der_decode env body KKDCP_BUF_SIZE 128 = Some (msg, realm)
    \<and> kr = find_realm k realm \<and> kx_asked run = Some (kr, msg) \<and> data_of (ke_answer env kr msg) = reply @ rest
    \<and> (\<not> kr_dgram kr \<longrightarrow> whole_message reply)
    \<and> (kr_dgram kr \<longrightarrow> (\<exists>bs q. ke_answer env kr msg = Data bs # q \<and> reply = take KKDCP_BUF_SIZE bs))
    \<and> der_encode_inplace env reply KKDCP_BUF_SIZE = Some raw
    \<and> framed (concat (kx_out run)) (str_of raw) \<and> \<not> kx_corked run"
proof -
  obtain k where k: "find_kkdcp ks url = Some k" "body \<noteq> []"
    using assms by (auto simp: kkdcp_handler_def Let_def split: option.splits if_splits)
  obtain msg realm where d: "der_decode env body KKDCP_BUF_SIZE 128 = Some (msg, realm)"
    using assms k by (auto simp: kkdcp_handler_def kkdcp_fail_def split: option.splits)
  obtain asked reply where x: "kdc_exchange env (find_realm k realm) msg = Some (asked, Inr reply)"
      and run: "run = kkdcp_response env asked reply"
    using assms k d by (auto simp: kkdcp_handler_def kkdcp_fail_def split: option.splits sum.splits)
  have a: "asked = Some (find_realm k realm, msg)" "kdc_reply env (find_realm k realm) msg = Some (Inr reply)"
    using x by (auto simp: kdc_exchange_def split: if_splits)
  obtain raw where raw: "der_encode_inplace env reply KKDCP_BUF_SIZE = Some raw"
    using assms(2) run by (auto simp: kkdcp_response_def kkdcp_fail_def split: prod.splits bool.splits option.splits)
  define hs where "hs = [status_line (ke_http_ver env) ''200 OK'', line ''Content-Type'' ''application/kerberos'',
      line ''Content-Length'' (dec (length (str_of raw))), line ''Connection'' ''Keep-Alive'']"
  have out: "kx_out run = hs @ [CRLF, str_of raw, []] \<and> kx_asked run = asked \<and> \<not> kx_corked run"
    using assms(2) run raw
    by (auto simp: kkdcp_response_def kkdcp_fail_def hs_def str_of_def dest!: send_texts_True
        split: prod.splits bool.splits)
  have "framed (concat hs @ CRLF @ str_of raw) (str_of raw)"
    by (rule framedI) (simp_all add: hs_def heads)
  then have "framed (concat (kx_out run)) (str_of raw)" using out by simp
  then show ?thesis
    using find_Some_iff_ex [OF k(1) [unfolded find_kkdcp_def]] d a raw out kdc_reply_exact [OF a(2)] by blast
qed

section \<open>The realms of a configuration\<close>

lemma realm_prefix:
  assumes "strchr (CHR '' '') realm = Some (a, r1)" and "drop 4 (dropWhile c_isspace r1) = h @ COLON # port"
    and "4 \<le> length (dropWhile c_isspace r1)"
  shows "CHR '' '' \<in> set (take (length realm - length port - 1) realm)"
proof -
  have "realm = a @ CHR '' '' # r1" using strchr_split [OF assms(1)] by simp
  moreover have "length port + 5 \<le> length r1"
  proof -
    have "length (drop 4 (dropWhile c_isspace r1)) = length h + 1 + length port" using assms(2) by simp
    then have "length port + 5 \<le> length (dropWhile c_isspace r1)" using assms(3) by simp
    also have "\<dots> \<le> length r1" by (rule length_dropWhile_le)
    finally show ?thesis .
  qed
  ultimately show ?thesis by (simp add: take_Cons')
qed

lemma split_kkdcp_space: "split_kkdcp s = Some (path, realm, dgram, h, port) \<Longrightarrow> CHR '' '' \<in> set realm"
  using realm_prefix strchr_split [of COLON]
  by (fastforce simp: split_kkdcp_def Let_def split: option.splits if_splits prod.splits)

definition spaced :: "kkdcp \<Rightarrow> bool" where
  "spaced k \<longleftrightarrow> (kk_url k \<noteq> None \<longrightarrow> kk_realms k \<noteq> []) \<and> (\<forall>kr \<in> set (kk_realms k). CHR '' '' \<in> set (kr_realm kr))"

lemma update_all: "\<forall>x \<in> set xs. P x \<Longrightarrow> (i < length xs \<Longrightarrow> P y) \<Longrightarrow> \<forall>x \<in> set (xs[i := y]). P x"
  by (cases "i < length xs") (auto simp: list_update_beyond not_less dest!: set_update_subset_insert [THEN subsetD])

lemma add_kkdcp_spaced:
  assumes "add_kkdcp resolve i s (ks, siz) = Inr (ks', siz')" and "\<forall>k \<in> set ks. spaced k"
  shows "\<forall>k \<in> set ks'. spaced k"
proof -
  obtain path realm dgram h port where "split_kkdcp s = Some (path, realm, dgram, h, port)"
    using assms(1) by (auto simp: add_kkdcp_def split: option.splits)
  note sp = split_kkdcp_space [OF this] this
  obtain j k addr where ks': "ks' = ks[j := k\<lparr>kk_realms := kk_realms k @ [\<lparr>kr_realm = realm, kr_addr = addr, kr_dgram = dgram\<rparr>]\<rparr>]"
      and k: "kk_realms k = kk_realms (ks ! j)"
    using assms(1) sp(2) by (auto simp: add_kkdcp_def Let_def split: option.splits if_splits)
  show ?thesis
    unfolding ks' using assms(2) sp(1) k by (intro update_all) (auto simp: spaced_def)
qed

lemma add_kkdcps_spaced:
  "add_kkdcps resolve i ss (ks, siz) = Inr (ks', siz') \<Longrightarrow> \<forall>k \<in> set ks. spaced k \<Longrightarrow> \<forall>k \<in> set ks'. spaced k"
proof (induction ss arbitrary: i ks siz)
  case (Cons s ss)
  then obtain ks1 siz1 where "add_kkdcp resolve i s (ks, siz) = Inr (ks1, siz1)"
      "add_kkdcps resolve (i + 1) ss (ks1, siz1) = Inr (ks', siz')"
    by (auto simp: and_then_Inr)
  then show ?case using Cons add_kkdcp_spaced by blast
qed simp

lemma config_spaced:
  assumes "read_cfg env pov p0 = Inr p"
  shows "\<forall>k \<in> set (cf_kkdcp (pm_config p)). spaced k"
proof -
  obtain urlfw tab where t: "parse_kkdcp (cx_resolve env) urlfw = Inr tab" "cf_kkdcp (pm_config p) = fst tab"
    using assms by (auto simp: read_cfg_def and_then_Inr Let_def cfg_of_def)
  then show ?thesis
    using add_kkdcps_spaced [of "cx_resolve env" 0 urlfw] by (cases tab) (auto simp: parse_kkdcp_def spaced_def)
qed

text \<open>
  C28: a realm without a space does not choose the KDC. In every configuration that the server reads, the
  realm of every proxy still has a space and the server behind it. So when the realm that a client
  names has no space, as no Kerberos realm has, whatever is asked is asked of the first KDC of the
  URL, also where another one is configured for that realm. (A client that sends the text as it is
  stored, with the space, does reach the other one.)
\<close>

theorem kkdcp_always_first_realm:
  assumes "read_cfg env pov p0 = Inr p"
    and "kkdcp_handler kenv (take (cf_kkdcp_size (pm_config p)) (cf_kkdcp (pm_config p))) url body = Some run"
    and "der_decode kenv body KKDCP_BUF_SIZE 128 = Some (msg, realm)" and "CHR '' '' \<notin> set realm"
    and "kx_asked run = Some (kr, m)"
  shows "\<exists>k \<in> set (cf_kkdcp (pm_config p)). kk_url k = Some url \<and> kr = hd (kk_realms k) \<and> m = msg"
proof -
  let ?ks = "take (cf_kkdcp_size (pm_config p)) (cf_kkdcp (pm_config p))"
  obtain k where k: "find_kkdcp ?ks url = Some k" "body \<noteq> []"
    using assms(2,5) by (auto simp: kkdcp_handler_def Let_def split: option.splits if_splits)
  then have kin: "k \<in> set (cf_kkdcp (pm_config p))" "kk_url k = Some url"
    using find_Some_iff_ex [OF k(1) [unfolded find_kkdcp_def]] set_take_subset by fastforce+
  then have s: "spaced k" using config_spaced [OF assms(1)] by blast
  have "find_realm k realm = first_realm k"
  proof (cases "List.find (\<lambda>kr. kr_realm kr = realm) (kk_realms k)")
    case (Some r)
    then show ?thesis using s find_Some_iff_ex [OF Some] assms(4) by (auto simp: spaced_def)
  qed (simp add: find_realm_def)
  also have "\<dots> = hd (kk_realms k)"
    using s kin(2) by (auto simp: first_realm_def spaced_def split: list.splits)
  finally have r: "find_realm k realm = hd (kk_realms k)" .
  have "kx_asked run = Some (hd (kk_realms k), msg)"
    using assms(2,3,5) k r
    by (auto simp: kkdcp_handler_def kkdcp_fail_def kkdcp_response_def kdc_exchange_def
        split: option.splits sum.splits prod.splits if_splits bool.splits)
  then show ?thesis using assms(5) kin by auto
qed

text \<open>
  The error after the head of the response: an answer that libtasn1 cannot encode is reported by the
  status line of a second response behind that of the first, and both are still held back by
  cstp_cork when the handler returns.
\<close>

lemma kkdcp_late_error:
  assumes "kkdcp_handler env ks url body = Some run" and "ke_fail env = None"
    and "kx_asked run = Some (kr, msg)" and "kdc_reply env kr msg = Some (Inr reply)"
    and "ke_send env kr msg = int (length msg)" and "der_encode_inplace env reply KKDCP_BUF_SIZE = None"
  shows "kx_ret run = -1 \<and> kx_corked run
    \<and> (\<exists>rest. concat (kx_out run) = status_line (ke_http_ver env) ''200 OK'' @ rest)"
proof -
  have "run = kkdcp_response env (Some (kr, msg)) reply"
    using assms(1,3-5)
    by (auto simp: kkdcp_handler_def Let_def kkdcp_fail_def kdc_exchange_def kkdcp_response_def
        split: option.splits if_splits sum.splits prod.splits bool.splits)
  then show ?thesis using assms(2,6) by (simp add: kkdcp_response_def send_texts_def kkdcp_fail_def)
qed

end
