(* ===== verification/KkdcpExample.thy ===== *)
theory KkdcpExample
  imports KkdcpProps CfgExamples
begin

text \<open>A configuration with two realms behind one URL, and requests to it.\<close>

definition proxy_file :: options where
  "proxy_file = example_file @ [(''kkdcp'', Opt_string ''/K R.A udp@h1:88''), (''kkdcp'', Opt_string ''/K R.B tcp@h2:88'')]"

definition proxy_kkdcp :: "kkdcp list" where
  "proxy_kkdcp = [\<lparr>kk_url = Some ''/K'', kk_realms =
       [\<lparr>kr_realm = ''R.A udp@h1'', kr_addr = [1], kr_dgram = True\<rparr>, \<lparr>kr_realm = ''R.B tcp@h2'', kr_addr = [2], kr_dgram = False\<rparr>]\<rparr>,
     \<lparr>kk_url = None, kk_realms = []\<rparr>]"

definition proxy_cfg_env :: cfg_env where
  "proxy_cfg_env = (example_cfg_env proxy_file)\<lparr>cx_resolve := \<lambda>dgram h port. Some [if dgram then 1 else 2]\<rparr>"

lemma proxy_lines:
  "read_multi_line proxy_file ''kkdcp'' [] = Inr [''/K R.A udp@h1:88'', ''/K R.B tcp@h2:88'']"
  "read_multi_line proxy_file ''server-cert'' [] = Inr [''/etc/cert.pem'']" "read_multi_line proxy_file ''server-key'' [] = Inr [''/etc/key.pem'']"
  "read_multi_line proxy_file ''custom-header'' [] = Inr []" "read_multi_line proxy_file ''split-dns'' [] = Inr []"
  "read_multi_line proxy_file ''route'' [] = Inr [''10.1.0.0/16'']" "read_multi_line proxy_file ''no-route'' [] = Inr []"
  "read_aliases proxy_file ''dns'' ''ipv6-dns'' ''ipv4-dns'' = Inr []"
  "read_aliases proxy_file ''nbns'' ''ipv6-nbns'' ''ipv4-nbns'' = Inr []"
  "rekey_method_of proxy_file = Inr REKEY_METHOD_SSL"
  by code_simp+

lemma proxy_split:
  "split_kkdcp ''/K R.A udp@h1:88'' = Some (''/K'', ''R.A udp@h1'', True, ''h1'', ''88'')"
  "split_kkdcp ''/K R.B tcp@h2:88'' = Some (''/K'', ''R.B tcp@h2'', False, ''h2'', ''88'')"
  by code_simp+

lemma proxy_parsed: "parse_kkdcp (cx_resolve proxy_cfg_env) [''/K R.A udp@h1:88'', ''/K R.B tcp@h2:88''] = Inr (proxy_kkdcp, 1)"
  by (simp add: parse_kkdcp_def add_kkdcp_def proxy_split Let_def MAX_KRB_REALMS_def proxy_cfg_env_def proxy_kkdcp_def numeral_2_eq_2)

lemma proxy_absent:
  "opt_string proxy_file ''auto-select-group'' = None" "read_multi_bracket_line proxy_file ''select-group'' = Inr []"
  by code_simp+

lemma proxy_addresses: "\<exists>net. read_addresses proxy_file = Inr net"
proof -
  have "(case read_addresses proxy_file of Inr net \<Rightarrow> True | _ \<Rightarrow> False)" by code_simp
  then show ?thesis by (simp split: sum.splits)
qed

lemma proxy_perm: "\<exists>p. read_perm proxy_file zero_perm = Inr p"
proof -
  have "(case read_perm proxy_file zero_perm of Inr p \<Rightarrow> True | _ \<Rightarrow> False)" by code_simp
  then show ?thesis by (simp split: sum.splits)
qed

lemma proxy_read: "\<exists>p. read_cfg proxy_cfg_env proxy_file zero_perm = Inr p
    \<and> cf_kkdcp (pm_config p) = proxy_kkdcp \<and> cf_kkdcp_size (pm_config p) = 1"
proof -
  obtain net p where n: "read_addresses proxy_file = Inr net" "read_perm proxy_file zero_perm = Inr p"
    using proxy_addresses proxy_perm by blast
  have "read_group_list proxy_cfg_env proxy_file a = Inr ([], [])" for a
    by (simp add: read_group_list_def read_tf_def proxy_absent)
  then show ?thesis
    by (simp add: read_cfg_def proxy_lines proxy_parsed n Let_def cfg_of_def)
qed

text \<open>
  A client of the second realm, named without a space: the datagram goes to the KDC of the first.
\<close>

definition proxy_env :: kdc_env where
  "proxy_env = \<lparr>ke_create = True, ke_decode = (\<lambda>_. True), ke_message = (\<lambda>der n. Some der), ke_domain = (\<lambda>der n. Some ''R.B''),
     ke_write = (\<lambda>_. True), ke_encode = (\<lambda>raw n. Some raw), ke_socket = (\<lambda>_. True), ke_connect = (\<lambda>_. True),
     ke_send = (\<lambda>kr msg. int (length msg)),
     ke_answer = (\<lambda>kr msg. if kr_dgram kr then [Data [5, 6]] else [Data [0, 0, 0, 2], Data [5, 6, 7]]),
     ke_select = [Sel_ready, Sel_ready], ke_http_ver = 1, ke_fail = None\<rparr>"

lemma proxy_first:
  "\<exists>run. kkdcp_handler proxy_env (take 1 proxy_kkdcp) ''/K'' [9] = Some run \<and> kx_ret run = 0
    \<and> kx_asked run = Some (hd (kk_realms (hd proxy_kkdcp)), [9])"
  by (simp add: kkdcp_handler_def proxy_env_def proxy_kkdcp_def find_kkdcp_def der_decode_def find_realm_def first_realm_def
      kdc_exchange_def kdc_reply_def kkdcp_response_def send_texts_def der_encode_inplace_def KKDCP_BUF_SIZE_def c_string_def)

theorem kkdcp_always_first_realm_witness:
  "\<exists>run kr. kkdcp_handler proxy_env (take 1 proxy_kkdcp) ''/K'' [9] = Some run \<and> kx_asked run = Some (kr, [9])
     \<and> der_decode proxy_env [9] KKDCP_BUF_SIZE 128 = Some ([9], ''R.B'') \<and> kr_realm kr = ''R.A udp@h1''"
proof -
  obtain p where p: "read_cfg proxy_cfg_env proxy_file zero_perm = Inr p" "cf_kkdcp (pm_config p) = proxy_kkdcp"
      "cf_kkdcp_size (pm_config p) = 1"
    using proxy_read by blast
  obtain run kr where run: "kkdcp_handler proxy_env (take 1 proxy_kkdcp) ''/K'' [9] = Some run" "kx_asked run = Some (kr, [9])"
    using proxy_first by blast
  have d: "der_decode proxy_env [9] KKDCP_BUF_SIZE 128 = Some ([9], ''R.B'')"
    by (simp add: der_decode_def proxy_env_def c_string_def)
  have "\<exists>k \<in> set (cf_kkdcp (pm_config p)). kk_url k = Some ''/K'' \<and> kr = hd (kk_realms k) \<and> [9] = ([9] :: byte list)"
    by (rule kkdcp_always_first_realm [OF p(1) _ d _ run(2)]) (use run(1) p in simp_all)
  then have "kr_realm kr = ''R.A udp@h1''" using p(2) by (auto simp: proxy_kkdcp_def)
  then show ?thesis using run d by blast
qed

text \<open>A stream: the KDC of a realm that a client named as it is stored.\<close>

theorem kkdcp_answers_with_kdc_witness:
  "\<exists>run kr msg reply rest.
     kkdcp_handler (proxy_env\<lparr>ke_domain := \<lambda>_ _. Some ''R.B tcp@h2''\<rparr>) (take 1 proxy_kkdcp) ''/K'' [9] = Some run
     \<and> kx_asked run = Some (kr, msg) \<and> \<not> kr_dgram kr \<and> data_of (ke_answer proxy_env kr msg) = reply @ rest
     \<and> whole_message reply"
proof -
  let ?env = "proxy_env\<lparr>ke_domain := \<lambda>_ _. Some ''R.B tcp@h2''\<rparr>"
  obtain run where run: "kkdcp_handler ?env (take 1 proxy_kkdcp) ''/K'' [9] = Some run" "kx_ret run = 0"
      "kx_asked run = Some (kk_realms (hd proxy_kkdcp) ! 1, [9])"
    by (simp add: kkdcp_handler_def proxy_env_def proxy_kkdcp_def find_kkdcp_def der_decode_def find_realm_def
        kdc_exchange_def kdc_reply_def kkdcp_response_def send_texts_def der_encode_inplace_def KKDCP_BUF_SIZE_def c_string_def
        ntohl_def)
  moreover have "\<not> kr_dgram (kk_realms (hd proxy_kkdcp) ! 1)" by (simp add: proxy_kkdcp_def)
  moreover have "ke_answer ?env = ke_answer proxy_env" by simp
  ultimately show ?thesis using kkdcp_answers_with_kdc [OF run(1,2)] by (simp, metis)
qed

end
