(* ===== verification/Spec2Isabelle.thy ===== *)
theory Spec2Isabelle
  imports Html Bandwidth LzsRoundtrip LeasePool Resume SecProps Routes HttpProps Login Tunnel Mtu DeadPeer Connect
    PlainLogin ConfiguredExample RadiusExample PamLogin KkdcpExample
begin

text \<open>
  A verification library for ocserv, the VPN server in src/ocserv/Ocserv/src. All file names below
  are relative to that directory.

  \<^bold>\<open>The program.\<close> A main process accepts connections and forks a worker for each one. The worker
  speaks TLS and HTTP with its client: it shows the login form, asks the security module whether the
  credentials are right, hands the client a cookie, and when the client comes back with the cookie
  asks the main process to let it in. The main process decrypts the cookie, has the security module
  open the session, leases addresses, opens a tun device, runs a script, and answers. From then on
  the worker moves packets between the tun device and the client, over TLS and over DTLS. The
  security module is a process of its own: it holds the keys and the table of logins and sessions,
  calls an authentication module for each login, and keeps the score of failed attempts with the
  main process. A control socket lets the administrator look and interfere. The configuration file is
  read at the start and again on a signal, and what it then says is in force from there on; the files of groups and users are read by the security
  module when a session is opened.

  \<^bold>\<open>Conventions.\<close> A C struct is a record, an enum a datatype, unsigned and size_t fields that can
  wrap are words of 32 and 64 bits (\<open>u32\<close>, \<open>u64\<close> of Prelude), time_t is an integer. A handler is a function from the
  state to its C result, what it sends, and the new state. A read or write outside a buffer, a NULL
  or dangling pointer and a call of exit are values of an error type (\<open>mem_error\<close>, \<open>cfg_error\<close>,
  \<open>main_error\<close> and the like), so that a theorem about a successful result also says that no such thing happened.
  What the program gets from outside (GnuTLS, system calls, the random generator, protobuf-c,
  allocation where the code tests it, the clock) is a record of parameters, named \<open>..._env\<close>, or an
  argument.

  \<^bold>\<open>Theories, from the bottom.\<close>

  \<^item> Prelude: machine integers, return codes of vpn.h, C strings, strlcpy, and the collections the
    other theories extend. Tables: the ccan hash table as a list of entries, with the locale
    \<open>keyed_table\<close> for what its users rely on. StrBuf: the growing buffers of str.c, with the
    replacement of patterns. Wire: the framed messages of common.c. TlsSend: the send loops of
    tlslib.c.
  \<^item> Lzs: the compressor of lzs.c; LzsBits, LzsTokens, LzsRoundtrip: its bit streams, the format as
    a list of tokens, and the round trip. Html: html.c. Bandwidth: worker-bandwidth.c.
  \<^item> IpLease and LeasePool: ip-lease.c and what holds of every sequence of its calls. Ban:
    main-ban.c. Routes: route-add.c. Cookies: cookies.c. Resume: main-resume.c, worker-resume.c and
    the cache of tlslib.c.
  \<^item> SecMod, SecAuth: the security module (sec-mod-db.c, sec-mod-auth.c, sec-mod.c); SecTrace,
    SecProps: its traces and what holds after each of them; SecModule: the contract with its authentication
    modules. ModuleLogin: a login with any module that asks for passwords. Plain: auth/plain.c.
    Ocpasswd: ocpasswd.c. Passwd: the file between the two. PlainLogin: a login with a password file.
  \<^item> Radius: auth/radius.c, sup-config/radius.c and acct/radius.c. RadiusLogin, RadiusExample: logins,
    settings, groups and accounts with radius. Pam, PamLogin: auth/pam.c and its refinement of the
    PAM library.
  \<^item> MainProc, MainAuth, MainCtl, MainLoop: the main process (main.h, proc-search.c, main-user.c,
    main-auth.c, main-misc.c, tun.c, main-ctl-unix.c, main-sec-mod-cmd.c, main.c); MainFrame,
    MainInv, MainStep, MainProps: its invariant over one step for each event of the loop, where a step
    gives the configuration that is then in force and the state. Login: the main process
    together with the security module.
  \<^item> HttpHeads, HttpReq, HttpProps: a request (http-heads.h, worker-http.c). WorkerAuth, LoginForm:
    the login (worker-auth.c). WorkerConnect, Connect: the answer to CONNECT (worker-vpn.c,
    worker-auth.c, worker-misc.c). Worker, WorkerData, WorkerInv: the tunnel (worker-vpn.c);
    Tunnel, Mtu, DeadPeer: packets, the discovery of the MTU, and silent clients. WorkerExample:
    concrete instances. Kkdcp, KkdcpProps, KkdcpExample: the Kerberos proxy and the fixed pages
    (worker-kkdcp.c, worker-extras.c).
  \<^item> SubConfig (subconfig.c), SupFile (sup-config/file.c), Config and CfgFile (config.c): reading
    the configuration. SupLayers: the files of group and user as layers over the server's. CfgProps:
    what an accepted configuration guarantees. CfgFaults: where reading goes wrong. CfgExamples,
    ConfiguredLogin, ConfiguredExample: from the configuration file to the login.

  \<^bold>\<open>Interfaces.\<close> \<open>keyed_table\<close> (Tables) is the contract of a table: adding, deleting and finding
  by key against the multiset of entries; it is interpreted by \<open>list_table\<close> on the table model
  itself and by \<open>ban_table\<close>, \<open>lease_table\<close> and \<open>client_table\<close> on the tables of Ban, LeasePool and
  SecMod. \<open>auth_module\<close> (SecModule) is the contract between the security module and an
  authentication module: a context belongs to one user and stays so; \<open>password_module\<close> (ModuleLogin)
  extends it for modules that ask for a password and accept nothing before it, and proves there that a
  cookie needs an accepted password. \<open>plain\<close> (PlainLogin) interprets it on auth/plain.c and \<open>radius\<close>
  (RadiusLogin) on auth/radius.c. \<open>codec\<close> (Tunnel) is
  what the tunnel needs of a compression method; \<open>lzs\<close> interprets it on lzs.c.

  \<^bold>\<open>What is shown of each part.\<close>

  \<^item> Compression: \<open>lzs_decompress\<close> inverts \<open>lzs_compress\<close>, both stay in their buffers.
  \<^item> Leases: table and registered leases agree in every run, no registered address has two holders (an
    explicit one is not registered and can have), and what a request took is given back.
  \<^item> Bans: an address over the limit is refused until the ban expires or its score is reset.
  \<^item> Security module: a session needs the cookie that was issued after the credentials were
    accepted; no message crashes it; a session in use is kept; a worker gets only TLS sessions of
    its own client.
  \<^item> Main process: list, tables, scripts and counter agree after every event and no freed worker is
    used; under configurations that set limits they hold, the largest one when reloads change them; a
    DTLS hello reaches only its owner and changes nothing else.
  \<^item> Requests and login: what the headers mean does not depend on how they are cut, but for an empty
    first value, which crashes; a posted
    password reaches the security module exactly; a cookie comes only from its acceptance; the
    handlers that call each other return.
  \<^item> Tunnel: a packet arrives as it was sent; what is sent is well formed and fits the larger of the
    MTU at the start and MIN_MTU; on a path that is wide enough the MTU found is the path's; a silent
    client is left at the first round behind a bound; no NULL session is used.
  \<^item> Password files: the utility and the module implement a map from users to groups and hashes.
  \<^item> Radius: a cookie needs the server's acceptance, the settings it assigns reach the client (those
    of an answer refused before included), and its groups do not. PAM: the module decides as the
    library does, with three exceptions; its later messages are hidden by the first one.
  \<^item> Pages and proxy: responses are framed; the proxy passes on one message of a KDC (a datagram cut
    to the buffer), of the first realm unless the client's realm has a space.
  \<^item> Configuration: an accepted configuration is sound, reading it again gives the same one, the
    files of group and user are layers, with the exceptions that are shown.

  \<^bold>\<open>Compositions.\<close> Login: whoever the main process lets in presented a cookie that the security
  module issued for accepted credentials. Connect: what the main process decided is what the worker
  applies, and when the base MTU is at least the overhead, the buffer holds everything the tunnel then sends. LoginForm and PlainLogin: a form
  becomes a cookie only through the security module, and with a password file only with the
  password. RadiusLogin: the same with the acceptance of a radius server, and from its answer to the
  settings in the main process. KkdcpProps: from the configuration file to the KDC that is asked.
  ConfiguredLogin: from the text of the configuration file to the password. CfgProps: under
  every accepted configuration but one kind the login returns. SupLayers: from the files of group and
  user to the settings in the main process.

  \<^bold>\<open>Bounds and fuel.\<close> Recursion that is not structural has a termination proof. Fuel is used four
  times. \<open>longest_match\<close> (Lzs) gets one iteration more than the history has positions, which
  \<open>longest_match_ok\<close> shows to be enough, as the chain only leads back; the loops over candidate addresses
  (\<open>ipv4_tries\<close>, \<open>ipv6_tries\<close>) have the bound of the C code. \<open>str_replace_str\<close> (StrBuf) is None when its fuel
  ends: one round for each occurrence of the pattern and one more is enough when no replacement
  brings the pattern back (\<open>no_return\<close>), and none is enough when the replacement contains the pattern, as
  the code then never returns. Routes
  gives it as much as the command has percent signs. \<open>post_auth_handler\<close> (WorkerAuth)
  counts the calls between the two login handlers; one is enough unless GSSAPI shares its method with
  passwords or certificates, and then no number need be. A read that waits for ever is a constructor of Wire's
  results, and a run of a process is a list of events of any length.

  \<^bold>\<open>Not modelled.\<close>

  \<^item> Generated code: the protobuf messages (ipc.pb-c.c, ctl.pb-c.c) and option tables of autoopts.
    Packing is a parameter that unpacking inverts where a theorem needs it.
  \<^item> Vendored code: http-parser, protobuf-c, ccan (but for the contract of its table), pcl, libopts,
    gl. The HTTP parser appears as the sequence of its callbacks, the parser of configuration files
    as the list of names and values it finds.
  \<^item> Glue around GnuTLS in tlslib.c: certificates, keys, priorities, OCSP. GnuTLS is not in the
    repository; its calls are parameters.
  \<^item> The command line client occtl.c, D-Bus (main-ctl-dbus.c, occtl-dbus.c): formatting for a
    terminal, and another transport of the same methods.
  \<^item> auth/gssapi.c and acct/pam.c: one call each into libraries that are not in the repository. The
    security module is proved for every module of the contract.
  \<^item> worker-privs.c, setproctitle.c, system.c, log.c: privileges and logging, without a result that
    the rest depends on.
  \<^item> Sockets, signals and fork: an event of the loops stands for what they deliver.
\<close>

end
